(* ===== verification/Py_Prelude.thy ===== *)
theory Py_Prelude
  imports
    Main
    "HOL-Library.Multiset"
    "HOL-Library.Product_Lexorder"
    "HOL-Library.List_Lexorder"
    "HOL-Library.Char_ord"
begin

text \<open>
  Shared vocabulary of the development: Python exceptions as values of a sum type, the
  loops the code uses over fallible bodies, dictionaries as association lists in
  insertion order, and the list functions behind comprehensions, slices, \<open>sorted\<close>
  and grouping. The exception text of the code is Korean prose; a branch is identified
  by its exception class and a short ASCII tag.
\<close>

section \<open>Exceptions\<close>

datatype exn =
    ValueError string
  | TypeError string
  | KeyError string
  | IndexError string
  | RuntimeError string
  | StopIteration
  | TimeoutError string
  | OSError string
  | FileExistsError string
  | FileNotFoundError string
  | StructError string
  | AttributeError string
  | OverflowError string
  | ZeroDivisionError string
  | AssertionError string

type_synonym 'a res = "exn + 'a"

definition bindE :: "'a res \<Rightarrow> ('a \<Rightarrow> 'b res) \<Rightarrow> 'b res" where
  "bindE m f = (case m of Inl e \<Rightarrow> Inl e | Inr a \<Rightarrow> f a)"

definition check :: "bool \<Rightarrow> exn \<Rightarrow> unit res" where
  "check b e = (if b then Inr () else Inl e)"

named_theorems res_simps \<open>success characterisations of the exception monad\<close>

lemma bindE_simps [simp]:
  "bindE (Inl e) f = Inl e"
  "bindE (Inr a) f = f a"
  by (simp_all add: bindE_def)

lemma bindE_Inr_iff [res_simps]:
  "bindE m f = Inr b \<longleftrightarrow> (\<exists>a. m = Inr a \<and> f a = Inr b)"
  by (cases m) simp_all

lemma bindE_Inl_iff:
  "bindE m f = Inl e \<longleftrightarrow> m = Inl e \<or> (\<exists>a. m = Inr a \<and> f a = Inl e)"
  by (cases m) simp_all

lemma bindE_assoc: "bindE (bindE m f) g = bindE m (\<lambda>a. bindE (f a) g)"
  by (cases m) simp_all

lemma check_Inr_iff [res_simps, simp]: "check b e = Inr u \<longleftrightarrow> b"
  by (simp add: check_def)

lemma check_Inl_iff [simp]: "check b e = Inl e' \<longleftrightarrow> \<not> b \<and> e' = e"
  by (auto simp: check_def)

lemma bindE_cong [fundef_cong]:
  assumes "m = m'" and "\<And>a. m' = Inr a \<Longrightarrow> f a = f' a"
  shows "bindE m f = bindE m' f'"
  using assms by (cases m') simp_all

primrec mapE :: "('a \<Rightarrow> 'b res) \<Rightarrow> 'a list \<Rightarrow> 'b list res" where
  "mapE f [] = Inr []"
| "mapE f (x # xs) = bindE (f x) (\<lambda>y. bindE (mapE f xs) (\<lambda>ys. Inr (y # ys)))"

primrec foldE :: "('s \<Rightarrow> 'a \<Rightarrow> 's res) \<Rightarrow> 's \<Rightarrow> 'a list \<Rightarrow> 's res" where
  "foldE f s [] = Inr s"
| "foldE f s (x # xs) = bindE (f s x) (\<lambda>s'. foldE f s' xs)"

primrec forE :: "('a \<Rightarrow> unit res) \<Rightarrow> 'a list \<Rightarrow> unit res" where
  "forE f [] = Inr ()"
| "forE f (x # xs) = bindE (f x) (\<lambda>_. forE f xs)"

lemma mapE_cong [fundef_cong]:
  assumes "xs = ys" and "\<And>x. x \<in> set ys \<Longrightarrow> f x = g x"
  shows "mapE f xs = mapE g ys"
  unfolding assms(1) using assms(2) by (induction ys) simp_all

lemma mapE_Inr_iff [res_simps]:
  "mapE f xs = Inr ys \<longleftrightarrow> list_all2 (\<lambda>x y. f x = Inr y) xs ys"
  by (induction xs arbitrary: ys) (auto simp: bindE_Inr_iff list_all2_Cons1)

lemma mapE_length: "mapE f xs = Inr ys \<Longrightarrow> length ys = length xs"
  by (auto simp: mapE_Inr_iff list_all2_lengthD)

lemma mapE_Inr [simp]: "mapE (\<lambda>x. Inr (f x)) xs = Inr (map f xs)"
  by (induction xs) simp_all

lemma mapE_total: "(\<And>x. x \<in> set xs \<Longrightarrow> f x = Inr (g x)) \<Longrightarrow> mapE f xs = Inr (map g xs)"
  by (induction xs) simp_all

lemma mapE_InlD: "mapE f xs = Inl e \<Longrightarrow> \<exists>x\<in>set xs. f x = Inl e"
  by (induction xs) (auto simp: bindE_Inl_iff)

lemma forE_Inr_iff [res_simps]: "forE f xs = Inr u \<longleftrightarrow> (\<forall>x\<in>set xs. f x = Inr ())"
  by (induction xs) (auto simp: bindE_Inr_iff)

lemma foldE_append: "foldE f s (xs @ ys) = bindE (foldE f s xs) (\<lambda>t. foldE f t ys)"
  by (induction xs arbitrary: s) (simp_all add: bindE_assoc)

lemma foldE_invariant:
  assumes "foldE f s xs = Inr t" and "I s"
    and "\<And>s x t. x \<in> set xs \<Longrightarrow> I s \<Longrightarrow> f s x = Inr t \<Longrightarrow> I t"
  shows "I t"
  using assms
proof (induction xs arbitrary: s)
  case Nil
  then show ?case by simp
next
  case (Cons x xs)
  then obtain s' where s': "f s x = Inr s'" "foldE f s' xs = Inr t"
    by (auto simp: bindE_Inr_iff)
  have "I s'" using Cons.prems(2) s'(1) by (rule Cons.prems(3) [rotated]) simp
  then show ?case
    using Cons.IH [OF s'(2)] Cons.prems(3) by (metis list.set_intros(2))
qed

section \<open>Dictionaries in insertion order\<close>

text \<open>
  A Python dict iterates in insertion order, so it is an association list with distinct
  keys; \<open>d[k] = v\<close> replaces in place or appends.
\<close>

type_synonym ('k, 'v) dict = "('k \<times> 'v) list"

primrec dict_set :: "'k \<Rightarrow> 'v \<Rightarrow> ('k, 'v) dict \<Rightarrow> ('k, 'v) dict" where
  "dict_set k v [] = [(k, v)]"
| "dict_set k v (p # ps) = (if fst p = k then (k, v) # ps else p # dict_set k v ps)"

abbreviation dict_get :: "('k, 'v) dict \<Rightarrow> 'k \<Rightarrow> 'v option" where
  "dict_get \<equiv> map_of"

abbreviation dict_keys :: "('k, 'v) dict \<Rightarrow> 'k list" where
  "dict_keys d \<equiv> map fst d"

abbreviation wf_dict :: "('k, 'v) dict \<Rightarrow> bool" where
  "wf_dict d \<equiv> distinct (map fst d)"

definition dict_update :: "('k, 'v) dict \<Rightarrow> ('k, 'v) dict \<Rightarrow> ('k, 'v) dict" where
  "dict_update d e = fold (\<lambda>(k, v) d. dict_set k v d) e d"

lemma dict_get_set [simp]:
  "dict_get (dict_set k v d) = (dict_get d)(k \<mapsto> v)"
  by (induction d) (auto simp: fun_eq_iff)

lemma set_dict_keys_set [simp]:
  "set (dict_keys (dict_set k v d)) = insert k (set (dict_keys d))"
  by (induction d) auto

lemma fst_set_dict_set [simp]: "fst ` set (dict_set k v d) = insert k (fst ` set d)"
  using set_dict_keys_set [of k v d] by simp

lemma wf_dict_set [simp]: "wf_dict d \<Longrightarrow> wf_dict (dict_set k v d)"
  by (induction d) auto

lemma length_dict_set:
  "length (dict_set k v d) = (if k \<in> fst ` set d then length d else Suc (length d))"
  by (induction d) auto

lemma dict_keys_set_in [simp]:
  "k \<in> fst ` set d \<Longrightarrow> dict_keys (dict_set k v d) = dict_keys d"
  by (induction d) auto

lemma dict_keys_set_new: "k \<notin> fst ` set d \<Longrightarrow> dict_set k v d = d @ [(k, v)]"
  by (induction d) auto

lemma dict_get_update:
  "dict_get (dict_update d e) k =
     (case dict_get (rev e) k of Some v \<Rightarrow> Some v | None \<Rightarrow> dict_get d k)"
  unfolding dict_update_def
proof (induction e arbitrary: d)
  case Nil
  then show ?case by simp
next
  case (Cons p e)
  then show ?case
    by (cases p) (auto simp: map_add_def split: option.splits)
qed

section \<open>Grouping by key, in first-seen order\<close>

text \<open>
  The \<open>defaultdict(list)\<close> idiom and \<open>groupby(..., sort=False)\<close>: one group per
  key, groups in the order their keys first occur, members in their original order.
\<close>

primrec group_add :: "'k \<Rightarrow> 'a \<Rightarrow> ('k \<times> 'a list) list \<Rightarrow> ('k \<times> 'a list) list" where
  "group_add k x [] = [(k, [x])]"
| "group_add k x (g # gs) =
     (if fst g = k then (k, snd g @ [x]) # gs else g # group_add k x gs)"

definition group_by :: "('a \<Rightarrow> 'k) \<Rightarrow> 'a list \<Rightarrow> ('k \<times> 'a list) list" where
  "group_by key xs = fold (\<lambda>x. group_add (key x) x) xs []"

lemma group_by_snoc: "group_by key (xs @ [x]) = group_add (key x) x (group_by key xs)"
  by (simp add: group_by_def)

lemma group_by_Nil [simp]: "group_by key [] = []"
  by (simp add: group_by_def)

lemma group_add_keys:
  "map fst (group_add k x gs) =
     (if k \<in> fst ` set gs then map fst gs else map fst gs @ [k])"
  by (induction gs) auto

lemma distinct_group_by [simp]: "distinct (map fst (group_by key xs))"
  by (induction xs rule: rev_induct) (auto simp: group_by_snoc group_add_keys)

lemma group_add_map_of:
  "map_of (group_add k x gs) k' =
     (if k' = k then Some ((case map_of gs k of None \<Rightarrow> [] | Some ys \<Rightarrow> ys) @ [x])
      else map_of gs k')"
  by (induction gs) auto

lemma group_by_map_of:
  "map_of (group_by key xs) k =
     (if k \<in> key ` set xs then Some (filter (\<lambda>x. key x = k) xs) else None)"
proof (induction xs rule: rev_induct)
  case Nil
  then show ?case by simp
next
  case (snoc x xs)
  show ?case
  proof (cases "key x \<in> key ` set xs")
    case True
    then show ?thesis
      using snoc by (auto simp: group_by_snoc group_add_map_of)
  next
    case False
    then have "filter (\<lambda>y. key y = key x) xs = []"
      by (auto simp: filter_empty_conv) (metis image_eqI)
    then show ?thesis
      using snoc False by (auto simp: group_by_snoc group_add_map_of)
  qed
qed

lemma group_by_keys: "fst ` set (group_by key xs) = key ` set xs"
proof -
  have "fst ` set (group_by key xs) = dom (map_of (group_by key xs))"
    by (simp add: dom_map_of_conv_image_fst)
  also have "\<dots> = key ` set xs"
    by (auto simp: dom_def group_by_map_of)
  finally show ?thesis .
qed

lemma in_group_by_iff:
  "(k, g) \<in> set (group_by key xs) \<longleftrightarrow>
     k \<in> key ` set xs \<and> g = filter (\<lambda>x. key x = k) xs"
proof -
  have "(k, g) \<in> set (group_by key xs) \<longleftrightarrow> map_of (group_by key xs) k = Some g"
    by (simp add: map_of_eq_Some_iff)
  then show ?thesis by (auto simp: group_by_map_of)
qed

lemma group_by_nonempty: "(k, g) \<in> set (group_by key xs) \<Longrightarrow> g \<noteq> []"
  by (auto simp: in_group_by_iff filter_empty_conv)

lemma mset_concat_group_by: "mset (concat (map snd (group_by key xs))) = mset xs"
proof (induction xs rule: rev_induct)
  case Nil
  then show ?case by simp
next
  case (snoc x xs)
  have "mset (concat (map snd (group_add k x gs))) = add_mset x (mset (concat (map snd gs)))"
    for k and gs :: "('b \<times> 'a list) list"
    by (induction gs) auto
  with snoc show ?case by (simp add: group_by_snoc)
qed

lemma group_by_single:
  assumes "xs \<noteq> []" and "\<And>x. x \<in> set xs \<Longrightarrow> key x = k"
  shows "group_by key xs = [(k, xs)]"
  using assms
proof (induction xs rule: rev_induct)
  case Nil
  then show ?case by simp
next
  case (snoc x xs)
  then show ?case by (cases "xs = []") (simp_all add: group_by_snoc group_by_def)
qed

section \<open>Slices, ranges and chunks\<close>

definition py_slice :: "nat \<Rightarrow> nat \<Rightarrow> 'a list \<Rightarrow> 'a list" where
  "py_slice lo hi xs = take (hi - lo) (drop lo xs)"

lemma length_py_slice [simp]: "length (py_slice lo hi xs) = min (hi - lo) (length xs - lo)"
  by (simp add: py_slice_def min.commute)

lemma set_py_slice_subset: "set (py_slice lo hi xs) \<subseteq> set xs"
  unfolding py_slice_def by (meson set_drop_subset set_take_subset subset_trans)

lemma nth_py_slice: "i < length (py_slice lo hi xs) \<Longrightarrow> py_slice lo hi xs ! i = xs ! (lo + i)"
  by (cases "lo \<le> length xs") (simp_all add: py_slice_def)

text \<open>\<open>range(0, n, step)\<close> for a positive step.\<close>

function range_step :: "nat \<Rightarrow> nat \<Rightarrow> nat \<Rightarrow> nat list" where
  "range_step a n step = (if a < n \<and> 0 < step then a # range_step (a + step) n step else [])"
  by pat_completeness auto
termination by (relation "measure (\<lambda>(a, n, step). n - a)") auto

declare range_step.simps [simp del]

lemma range_step_mem: "x \<in> set (range_step a n step) \<Longrightarrow> a \<le> x \<and> x < n"
proof (induction a n step rule: range_step.induct)
  case (1 a n step)
  then show ?case
    by (subst (asm) range_step.simps) (auto split: if_splits)
qed

text \<open>Consecutive slices of a positive width cover the list without overlap.\<close>

lemma concat_range_step_slices:
  assumes "0 < b"
  shows "concat (map (\<lambda>s. py_slice s (s + b) xs) (range_step a (length xs) b)) = drop a xs"
  using assms
proof (induction a "length xs" b rule: range_step.induct)
  case (1 a b)
  show ?case
  proof (cases "a < length xs")
    case True
    then have "concat (map (\<lambda>s. py_slice s (s + b) xs) (range_step (a + b) (length xs) b)) = drop (a + b) xs"
      using 1 by blast
    moreover have "py_slice a (a + b) xs @ drop (a + b) xs = drop a xs"
      by (simp add: py_slice_def add.commute [of a b] flip: drop_drop)
    ultimately show ?thesis
      using True "1.prems" by (subst range_step.simps) simp
  next
    case False
    then show ?thesis by (subst range_step.simps) simp
  qed
qed

section \<open>Statements with state and exceptions\<close>

text \<open>
  A statement changes the state also when it raises; \<open>with\<close> and \<open>try\<close> bodies that record
  partial results need that.
\<close>

type_synonym ('s, 'a) act = "'s \<Rightarrow> 'a res \<times> 's"

definition bindS :: "('s, 'a) act \<Rightarrow> ('a \<Rightarrow> ('s, 'b) act) \<Rightarrow> ('s, 'b) act" where
  "bindS m f s = (case m s of (Inl e, t) \<Rightarrow> (Inl e, t) | (Inr a, t) \<Rightarrow> f a t)"

definition retS :: "'a \<Rightarrow> ('s, 'a) act" where
  "retS a s = (Inr a, s)"

definition raiseS :: "exn \<Rightarrow> ('s, 'a) act" where
  "raiseS e s = (Inl e, s)"

definition liftS :: "'a res \<Rightarrow> ('s, 'a) act" where
  "liftS r s = (r, s)"

definition modifyS :: "('s \<Rightarrow> 's) \<Rightarrow> ('s, unit) act" where
  "modifyS f s = (Inr (), f s)"

primrec forS :: "('a \<Rightarrow> ('s, unit) act) \<Rightarrow> 'a list \<Rightarrow> ('s, unit) act" where
  "forS f [] = retS ()"
| "forS f (x # xs) = bindS (f x) (\<lambda>_. forS f xs)"

lemma bindS_Inr_iff:
  "bindS m f s = (Inr b, u) \<longleftrightarrow> (\<exists>a t. m s = (Inr a, t) \<and> f a t = (Inr b, u))"
  by (auto simp: bindS_def split: prod.splits sum.splits)

lemma act_simps [simp]:
  "retS a s = (Inr b, t) \<longleftrightarrow> b = a \<and> t = s"
  "raiseS e s = (Inr b, t) \<longleftrightarrow> False"
  "modifyS f s = (Inr u, t) \<longleftrightarrow> t = f s"
  "liftS r s = (Inr b, t) \<longleftrightarrow> r = Inr b \<and> t = s"
  by (auto simp: retS_def raiseS_def modifyS_def liftS_def)

text \<open>A loop invariant indexed by the part of the list already done.\<close>

lemma forS_rule:
  assumes "forS f xs s = (Inr u, t)" and "I 0 s"
    and "\<And>i a b. i < length xs \<Longrightarrow> I i a \<Longrightarrow> f (xs ! i) a = (Inr (), b) \<Longrightarrow> I (Suc i) b"
  shows "I (length xs) t"
  using assms
proof (induction xs arbitrary: s I)
  case Nil
  then show ?case by simp
next
  case (Cons x xs)
  then obtain s' where s': "f x s = (Inr (), s')" "forS f xs s' = (Inr u, t)"
    by (auto simp: bindS_Inr_iff)
  have "I (Suc 0) s'" using Cons.prems(2,3) s'(1) by force
  moreover have "I (Suc (Suc i)) b"
    if "i < length xs" "I (Suc i) a" "f (xs ! i) a = (Inr (), b)" for i a b
    using Cons.prems(3) [of "Suc i" a b] that by simp
  ultimately show ?case
    using Cons.IH [OF s'(2), of "\<lambda>i. I (Suc i)"] by simp
qed

end
