(* ===== verification/Py_Text.thy ===== *)
theory Py_Text
  imports Py_Prelude
begin

text \<open>
  Decimal rendering of integers (\<open>str(n)\<close>, \<open>f"{n:03d}"\<close>) with the reader that inverts it,
  so that names built from numbers are distinct when the numbers are.
\<close>

definition digit_char :: "nat \<Rightarrow> char" where
  "digit_char d = char_of (48 + d)"

definition char_digit :: "char \<Rightarrow> nat" where
  "char_digit c = of_char c - 48"

fun nat_str :: "nat \<Rightarrow> string" where
  "nat_str n = (if n < 10 then [digit_char n] else nat_str (n div 10) @ [digit_char (n mod 10)])"

declare nat_str.simps [simp del]

definition int_str :: "int \<Rightarrow> string" where
  "int_str n = (if n < 0 then CHR ''-'' # nat_str (nat (- n)) else nat_str (nat n))"

text \<open>\<open>f"{n:0wd}"\<close> for a natural number.\<close>

definition pad0 :: "nat \<Rightarrow> nat \<Rightarrow> string" where
  "pad0 w n = replicate (w - length (nat_str n)) (CHR ''0'') @ nat_str n"

definition str_nat :: "string \<Rightarrow> nat" where
  "str_nat s = foldl (\<lambda>a c. 10 * a + char_digit c) 0 s"

lemma char_digit_digit_char [simp]: "d < 10 \<Longrightarrow> char_digit (digit_char d) = d"
  by (simp add: char_digit_def digit_char_def)

lemma str_nat_snoc: "str_nat (s @ [c]) = 10 * str_nat s + char_digit c"
  by (simp add: str_nat_def)

lemma str_nat_nat_str [simp]: "str_nat (nat_str n) = n"
proof (induction n rule: nat_str.induct)
  case (1 n)
  show ?case
  proof (cases "n < 10")
    case True
    then show ?thesis by (subst nat_str.simps) (simp add: str_nat_def)
  next
    case False
    then show ?thesis
      using 1 by (subst nat_str.simps) (simp add: str_nat_snoc)
  qed
qed

lemma nat_str_inject [simp]: "nat_str m = nat_str n \<longleftrightarrow> m = n"
  by (metis str_nat_nat_str)

lemma str_nat_leading_zeros: "str_nat (replicate k (CHR ''0'') @ s) = str_nat s"
  by (induction k) (simp_all add: str_nat_def char_digit_def)

lemma str_nat_pad0 [simp]: "str_nat (pad0 w n) = n"
  by (simp add: pad0_def str_nat_leading_zeros)

lemma pad0_inject [simp]: "pad0 w m = pad0 w n \<longleftrightarrow> m = n"
  by (metis str_nat_pad0)

lemma nat_str_digits: "c \<in> set (nat_str n) \<Longrightarrow> CHR ''0'' \<le> c \<and> c \<le> CHR ''9''"
proof (induction n rule: nat_str.induct)
  case (1 n)
  have d: "CHR ''0'' \<le> digit_char d \<and> digit_char d \<le> CHR ''9''" if "d < 10" for d
    using that by (simp add: digit_char_def less_eq_char_def)
  show ?case
    using 1 d by (subst (asm) (2) nat_str.simps) (auto split: if_splits)
qed

end
