(* ===== verification/Transition.thy ===== *)
theory Transition
  imports Py_Prelude
begin

text \<open>
  Labelled-free transition systems: reachability, invariants proved once by rule
  induction, and termination of a phase from a measure that every step of it decreases.
\<close>

locale transition_system =
  fixes init :: "'s \<Rightarrow> bool"
    and step :: "'s \<Rightarrow> 's \<Rightarrow> bool"
begin

definition reachable :: "'s \<Rightarrow> bool" where
  "reachable s \<longleftrightarrow> (\<exists>s0. init s0 \<and> step\<^sup>*\<^sup>* s0 s)"

lemma reachable_init: "init s \<Longrightarrow> reachable s"
  by (auto simp: reachable_def)

lemma reachable_step: "reachable s \<Longrightarrow> step s t \<Longrightarrow> reachable t"
  unfolding reachable_def by (meson rtranclp.rtrancl_into_rtrancl)

lemma reachable_induct [consumes 1, case_names init step]:
  assumes "reachable s"
    and "\<And>s. init s \<Longrightarrow> P s"
    and "\<And>s t. reachable s \<Longrightarrow> P s \<Longrightarrow> step s t \<Longrightarrow> P t"
  shows "P s"
proof -
  from assms(1) obtain s0 where "init s0" and "step\<^sup>*\<^sup>* s0 s" by (auto simp: reachable_def)
  from this(2, 1) have "reachable s \<and> P s"
  proof (induction rule: rtranclp_induct)
    case base
    then show ?case using assms(2) reachable_init by blast
  next
    case (step s t)
    then show ?case using assms(3) reachable_step by blast
  qed
  then show ?thesis ..
qed

end

locale invariant_system = transition_system init step
  for init :: "'s \<Rightarrow> bool" and step :: "'s \<Rightarrow> 's \<Rightarrow> bool" +
  fixes I :: "'s \<Rightarrow> bool"
  assumes inv_init: "init s \<Longrightarrow> I s"
    and inv_step: "I s \<Longrightarrow> step s t \<Longrightarrow> I t"
begin

lemma inv_reachable: "reachable s \<Longrightarrow> I s"
  by (induction rule: reachable_induct) (blast intro: inv_init inv_step)+

lemma inv_steps: "step\<^sup>*\<^sup>* s t \<Longrightarrow> I s \<Longrightarrow> I t"
  by (induction rule: rtranclp_induct) (blast intro: inv_step)+

end

text \<open>A phase whose own steps decrease a measure and whose other steps do not increase it.\<close>

locale terminating_phase =
  fixes own other :: "'s \<Rightarrow> 's \<Rightarrow> bool"
    and phase :: "'s \<Rightarrow> bool"
    and rank :: "'s \<Rightarrow> nat"
  assumes phase_own: "phase s \<Longrightarrow> own s t \<Longrightarrow> phase t \<and> rank t < rank s"
    and phase_other: "phase s \<Longrightarrow> other s t \<Longrightarrow> phase t \<and> rank t \<le> rank s"
begin

text \<open>A run is the list of its steps, each marked as the phase's own or another's.\<close>

fun run :: "'s \<Rightarrow> (bool \<times> 's) list \<Rightarrow> bool" where
  "run s [] = True"
| "run s ((mine, t) # ts) \<longleftrightarrow> (if mine then own s t else other s t) \<and> run t ts"

lemma own_steps_bounded:
  "phase s \<Longrightarrow> run s ts \<Longrightarrow> length (filter fst ts) \<le> rank s"
proof (induction s ts rule: run.induct)
  case (1 s)
  then show ?case by simp
next
  case (2 s mine t ts)
  show ?case
  proof (cases mine)
    case True
    then have "phase t" "rank t < rank s" "run t ts" using 2 phase_own by auto
    then show ?thesis using 2(1) True by simp
  next
    case False
    then have "phase t" "rank t \<le> rank s" "run t ts" using 2 phase_other by auto
    then show ?thesis using 2(1) False by simp
  qed
qed

end

end
