(* ===== verification/Py_Float.thy ===== *)
theory Py_Float
  imports Complex_Main Py_Prelude "HOL-Library.Log_Nat"
begin

text \<open>
  Python and numpy floats: IEEE binary64 values as exact rationals with the three special
  values, and round to nearest, ties to even, as the rounding of every arithmetic result.
  Comparisons are exact, so selections and sorts need no rounding. The sign of a zero is
  not kept; no modelled code prints or divides by a float zero.
\<close>

section \<open>Round half to even\<close>

definition rhe :: "rat \<Rightarrow> int" where
  "rhe x = (let f = \<lfloor>x\<rfloor>; d = x - of_int f in
     if d < 1 / 2 then f else if 1 / 2 < d then f + 1 else if even f then f else f + 1)"

lemma rhe_of_int [simp]: "rhe (of_int n) = n"
  by (simp add: rhe_def)

lemma rhe_bounds: "\<lfloor>x\<rfloor> \<le> rhe x" "rhe x \<le> \<lfloor>x\<rfloor> + 1"
  by (simp_all add: rhe_def Let_def)

lemma rhe_mono: "x \<le> y \<Longrightarrow> rhe x \<le> rhe y"
proof -
  assume xy: "x \<le> y"
  then have f: "\<lfloor>x\<rfloor> \<le> \<lfloor>y\<rfloor>" by (rule floor_mono)
  show ?thesis
  proof (cases "\<lfloor>x\<rfloor> = \<lfloor>y\<rfloor>")
    case True
    with xy show ?thesis by (auto simp: rhe_def Let_def)
  next
    case False
    with f have "\<lfloor>x\<rfloor> + 1 \<le> \<lfloor>y\<rfloor>" by simp
    with rhe_bounds(2) [of x] rhe_bounds(1) [of y] show ?thesis by linarith
  qed
qed

lemma rhe_ge: "of_int n \<le> x \<Longrightarrow> n \<le> rhe x"
  using rhe_mono [of "of_int n" x] by simp

lemma rhe_le: "x \<le> of_int n \<Longrightarrow> rhe x \<le> n"
  using rhe_mono [of x "of_int n"] by simp

section \<open>The binary exponent of a positive rational\<close>

definition ilog2 :: "rat \<Rightarrow> int" where
  "ilog2 x = (let (p, q) = quotient_of x; e = bitlen p - bitlen q in
     if 2 powi e \<le> x then e else e - 1)"

lemma powi_of_bitlen:
  assumes "0 < (p :: int)"
  shows "2 powi (bitlen p - 1) \<le> (of_int p :: rat)" "(of_int p :: rat) < 2 powi (bitlen p)"
proof -
  have b: "2 ^ nat (bitlen p - 1) \<le> p" "p < 2 ^ nat (bitlen p)"
    using bitlen_bounds [OF assms] by auto
  have pos: "0 \<le> bitlen p - 1" using assms by (simp add: bitlen_nonneg bitlen_def floorlog_def)
  have "2 powi (bitlen p - 1) = (of_int (2 ^ nat (bitlen p - 1)) :: rat)"
    using pos by (simp add: power_int_def)
  also have "\<dots> \<le> of_int p" using b(1) by (subst of_int_le_iff)
  finally show "2 powi (bitlen p - 1) \<le> (of_int p :: rat)" .
  have "(of_int p :: rat) < of_int (2 ^ nat (bitlen p))" using b(2) by (subst of_int_less_iff)
  also have "\<dots> = 2 powi (bitlen p)"
    using pos by (simp add: power_int_def)
  finally show "(of_int p :: rat) < 2 powi (bitlen p)" .
qed

lemma ilog2_bounds:
  assumes "0 < x"
  shows "2 powi (ilog2 x) \<le> x" "x < 2 powi (ilog2 x + 1)"
proof -
  obtain p q where pq: "quotient_of x = (p, q)" by (cases "quotient_of x")
  then have q: "0 < q" and x: "x = of_int p / of_int q"
    by (auto dest: quotient_of_denom_pos quotient_of_div)
  with assms have p: "0 < p" by (simp add: zero_less_divide_iff)
  define e where "e = bitlen p - bitlen q"
  have two: "(2 :: rat) powi (a - b) = 2 powi a / 2 powi b" for a b
    by (simp add: power_int_diff)
  have lo: "2 powi (e - 1) \<le> x"
  proof -
    have "2 powi (e - 1) = 2 powi (bitlen p - 1) / (2 :: rat) powi bitlen q"
      unfolding e_def using two [of "bitlen p - 1" "bitlen q"] by (simp add: algebra_simps)
    also have "\<dots> \<le> of_int p / of_int q"
      using powi_of_bitlen [OF p] powi_of_bitlen [OF q] q p by (intro frac_le) auto
    finally show ?thesis by (simp add: x)
  qed
  have hi: "x < 2 powi (e + 1)"
  proof -
    have "x < 2 powi (bitlen p) / 2 powi (bitlen q - 1)"
      unfolding x using powi_of_bitlen [OF p] powi_of_bitlen [OF q] q p
      by (intro frac_less) auto
    also have "\<dots> = 2 powi (e + 1)"
      unfolding e_def using two [of "bitlen p" "bitlen q - 1"] by (simp add: algebra_simps)
    finally show ?thesis .
  qed
  have eq: "ilog2 x = (if 2 powi e \<le> x then e else e - 1)"
    by (simp add: ilog2_def pq e_def)
  show "2 powi (ilog2 x) \<le> x" using lo by (simp add: eq)
  show "x < 2 powi (ilog2 x + 1)" using hi by (simp add: eq)
qed

lemma powi2_le_iff: "(2 :: rat) powi a \<le> 2 powi b \<longleftrightarrow> a \<le> b"
  by (metis linorder_le_less_linear one_less_numeral_iff power_int_increasing
      power_int_strict_increasing semiring_norm(76) less_imp_le linorder_not_less)

lemma powi2_less_iff: "(2 :: rat) powi a < 2 powi b \<longleftrightarrow> a < b"
  using powi2_le_iff [of b a] by linarith

lemma ilog2_mono:
  assumes "0 < x" and "x \<le> y"
  shows "ilog2 x \<le> ilog2 y"
proof -
  have "2 powi (ilog2 x) < (2 :: rat) powi (ilog2 y + 1)"
    using ilog2_bounds [of x] ilog2_bounds [of y] assms by linarith
  then show ?thesis by (simp add: powi2_less_iff)
qed

section \<open>Rounding to binary64\<close>

definition round_exp :: "rat \<Rightarrow> int" where
  "round_exp x = max (- 1074) (ilog2 \<bar>x\<bar> - 52)"

definition rne :: "rat \<Rightarrow> rat" where
  "rne x = (if x = 0 then 0
     else of_int (rhe (x / 2 powi (round_exp x))) * 2 powi (round_exp x))"

lemma powi2_of_int: "0 \<le> k \<Longrightarrow> (2 :: rat) powi k = of_int (2 ^ nat k)"
  by (simp add: power_int_def)

lemma powi2_quot: "b \<le> a \<Longrightarrow> (2 :: rat) powi a / 2 powi b = of_int (2 ^ nat (a - b))"
  using powi2_of_int [of "a - b"] by (simp add: power_int_diff)

lemma ilog2_unique:
  assumes "2 powi e \<le> x" and "x < 2 powi (e + 1)"
  shows "ilog2 x = e"
proof -
  have x: "0 < x" using assms(1) by (rule less_le_trans [rotated]) simp
  have "2 powi e < (2 :: rat) powi (ilog2 x + 1)"
    using assms(1) ilog2_bounds(2) [OF x] by linarith
  moreover have "2 powi (ilog2 x) < (2 :: rat) powi (e + 1)"
    using assms(2) ilog2_bounds(1) [OF x] by linarith
  ultimately show ?thesis by (simp add: powi2_less_iff)
qed

text \<open>Values with at most 53 significant bits and an exponent in range are kept.\<close>

definition representable :: "rat \<Rightarrow> bool" where
  "representable x \<longleftrightarrow> (\<exists>m e. x = of_int m * 2 powi e \<and> \<bar>m\<bar> \<le> 2 ^ 53 \<and> - 1074 \<le> e)"

lemma rne_integral:
  assumes "x / 2 powi (round_exp x) = of_int n"
  shows "rne x = x"
proof (cases "x = 0")
  case False
  then have "rne x = x / 2 powi (round_exp x) * 2 powi (round_exp x)"
    using assms by (simp add: rne_def)
  then show ?thesis by simp
qed (simp add: rne_def)

lemma rne_representable:
  assumes "representable x"
  shows "rne x = x"
proof (cases "x = 0")
  case True
  then show ?thesis by (simp add: rne_def)
next
  case False
  from assms obtain m e where x: "x = of_int m * 2 powi e"
    and m: "\<bar>m\<bar> \<le> 2 ^ 53" and e: "- 1074 \<le> e"
    by (auto simp: representable_def)
  let ?r = "round_exp x"
  show ?thesis
  proof (cases "?r \<le> e")
    case True
    then have "x / 2 powi ?r = of_int (m * 2 ^ nat (e - ?r))"
      using arg_cong [OF powi2_quot [OF True], of "\<lambda>z. of_int m * z"] by (simp add: x)
    then show ?thesis by (rule rne_integral)
  next
    case rlt: False
    with e have r: "?r = ilog2 \<bar>x\<bar> - 52" by (auto simp: round_exp_def)
    have "2 powi (?r + 52) \<le> \<bar>x\<bar>" using ilog2_bounds(1) [of "\<bar>x\<bar>"] False by (simp add: r)
    also have "\<bar>x\<bar> = of_int \<bar>m\<bar> * 2 powi e" by (simp add: x abs_mult)
    finally have le: "2 powi (?r + 52) \<le> of_int \<bar>m\<bar> * (2 :: rat) powi e" .
    also have "\<dots> \<le> 2 ^ 53 * 2 powi e"
      using m by (intro mult_right_mono) (metis of_int_le_iff of_int_power of_int_numeral, simp)
    also have "\<dots> = 2 powi (e + 53)" by (simp add: power_int_add)
    finally have "?r + 52 \<le> e + 53" by (simp only: powi2_le_iff)
    with rlt have re: "?r = e + 1" by simp
    with le have "2 ^ 53 * (2 :: rat) powi e \<le> of_int \<bar>m\<bar> * 2 powi e"
      by (simp add: power_int_add)
    then have "(2 :: rat) ^ 53 \<le> of_int \<bar>m\<bar>" by simp
    then have "2 ^ 53 \<le> \<bar>m\<bar>" by (metis of_int_le_iff of_int_numeral of_int_power)
    with m have "\<bar>m\<bar> = 2 ^ 53" by simp
    then have "even m" by (metis dvd_abs_iff even_numeral even_power zero_less_numeral)
    then obtain n where n: "m = 2 * n" by (rule evenE)
    have "x / 2 powi ?r = of_int n" unfolding re by (simp add: x n power_int_add)
    then show ?thesis by (rule rne_integral)
  qed
qed

lemma representable_of_int: "\<bar>n\<bar> \<le> 2 ^ 53 \<Longrightarrow> representable (of_int n)"
  unfolding representable_def by (rule exI [of _ n], rule exI [of _ 0]) simp

lemma rne_of_int: "\<bar>n\<bar> \<le> 2 ^ 53 \<Longrightarrow> rne (of_int n) = of_int n"
  by (intro rne_representable representable_of_int)

lemma rne_0 [simp]: "rne 0 = 0"
  by (simp add: rne_def)

lemma rne_1 [simp]: "rne 1 = 1"
  using rne_of_int [of 1] by simp

lemma rne_nonneg: "0 \<le> x \<Longrightarrow> 0 \<le> rne x"
  using rhe_ge [of 0 "x / 2 powi (round_exp x)"] by (simp add: rne_def)

lemma rne_mono:
  assumes "0 \<le> x" and "x \<le> y"
  shows "rne x \<le> rne y"
proof (cases "x = 0")
  case True
  then show ?thesis using assms rne_nonneg [of y] by simp
next
  case False
  with assms have x: "0 < x" and y: "0 < y" by auto
  let ?a = "round_exp x" and ?b = "round_exp y"
  have il: "ilog2 x \<le> ilog2 y" by (rule ilog2_mono [OF x assms(2)])
  then have ab: "?a \<le> ?b" using x y by (simp add: round_exp_def)
  show ?thesis
  proof (cases "?a = ?b")
    case True
    have "x / 2 powi ?b \<le> y / 2 powi ?b" using assms(2) by (intro divide_right_mono) auto
    then show ?thesis
      using True False y by (simp add: rne_def rhe_mono)
  next
    case neq: False
    with ab have lt: "?a < ?b" by simp
    then have b: "?b = ilog2 y - 52" and xy: "ilog2 x < ilog2 y"
      using x y by (auto simp: round_exp_def max_def split: if_splits)
    define P where "P = (2 :: rat) powi (ilog2 y)"
    have Pb: "P / 2 powi ?b = of_int (2 ^ 52)"
      by (simp add: P_def b power_int_diff)
    have Pa: "P / 2 powi ?a = of_int (2 ^ nat (ilog2 y - ?a))"
      unfolding P_def using lt b by (intro powi2_quot) simp
    have "x \<le> P"
    proof -
      have "2 powi (ilog2 x + 1) \<le> P" unfolding P_def powi2_le_iff using xy by simp
      with ilog2_bounds(2) [OF x] show ?thesis by linarith
    qed
    then have "x / 2 powi ?a \<le> of_int (2 ^ nat (ilog2 y - ?a))"
      unfolding Pa [symmetric] by (intro divide_right_mono) auto
    then have "of_int (rhe (x / 2 powi ?a)) \<le> P / 2 powi ?a"
      unfolding Pa of_int_le_iff by (rule rhe_le)
    then have 1: "rne x \<le> P"
      using False by (simp add: rne_def pos_le_divide_eq)
    have "P \<le> y" using ilog2_bounds(1) [OF y] by (simp add: P_def)
    then have "of_int (2 ^ 52) \<le> y / 2 powi ?b"
      unfolding Pb [symmetric] by (intro divide_right_mono) auto
    then have "P / 2 powi ?b \<le> of_int (rhe (y / 2 powi ?b))"
      unfolding Pb of_int_le_iff by (rule rhe_ge)
    then have "P \<le> rne y"
      using y by (simp add: rne_def pos_divide_le_eq)
    with 1 show ?thesis by linarith
  qed
qed

section \<open>Float values and operations\<close>

datatype pyfloat = Fin rat | PInf | NInf | NaN

definition fl :: "rat \<Rightarrow> pyfloat" where
  "fl x = (let y = rne x in
     if 2 ^ 1024 \<le> y then PInf else if y \<le> - (2 ^ 1024) then NInf else Fin y)"

fun is_finite :: "pyfloat \<Rightarrow> bool" where
  "is_finite (Fin _) = True"
| "is_finite _ = False"

fun fval :: "pyfloat \<Rightarrow> rat" where
  "fval (Fin x) = x"
| "fval _ = 0"

definition float_of_int :: "int \<Rightarrow> pyfloat" where
  "float_of_int n = fl (of_int n)"

fun fle :: "pyfloat \<Rightarrow> pyfloat \<Rightarrow> bool" where
  "fle (Fin x) (Fin y) \<longleftrightarrow> x \<le> y"
| "fle NaN _ \<longleftrightarrow> False"
| "fle _ NaN \<longleftrightarrow> False"
| "fle NInf _ \<longleftrightarrow> True"
| "fle _ PInf \<longleftrightarrow> True"
| "fle PInf _ \<longleftrightarrow> False"
| "fle _ NInf \<longleftrightarrow> False"

fun feq :: "pyfloat \<Rightarrow> pyfloat \<Rightarrow> bool" where
  "feq (Fin x) (Fin y) \<longleftrightarrow> x = y"
| "feq PInf PInf \<longleftrightarrow> True"
| "feq NInf NInf \<longleftrightarrow> True"
| "feq _ _ \<longleftrightarrow> False"

definition flt :: "pyfloat \<Rightarrow> pyfloat \<Rightarrow> bool" where
  "flt x y \<longleftrightarrow> fle x y \<and> \<not> feq x y"

fun fneg :: "pyfloat \<Rightarrow> pyfloat" where
  "fneg (Fin x) = Fin (- x)"
| "fneg PInf = NInf"
| "fneg NInf = PInf"
| "fneg NaN = NaN"

fun fadd :: "pyfloat \<Rightarrow> pyfloat \<Rightarrow> pyfloat" where
  "fadd (Fin x) (Fin y) = fl (x + y)"
| "fadd NaN _ = NaN"
| "fadd _ NaN = NaN"
| "fadd PInf NInf = NaN"
| "fadd NInf PInf = NaN"
| "fadd PInf _ = PInf"
| "fadd _ PInf = PInf"
| "fadd NInf _ = NInf"
| "fadd _ NInf = NInf"

definition fsub :: "pyfloat \<Rightarrow> pyfloat \<Rightarrow> pyfloat" where
  "fsub x y = fadd x (fneg y)"

text \<open>Division by a non-zero finite float; the callers divide by positive counts only.\<close>

fun fdiv_pos :: "pyfloat \<Rightarrow> rat \<Rightarrow> pyfloat" where
  "fdiv_pos (Fin x) d = fl (x / d)"
| "fdiv_pos s d = s"

lemma rne_pow64: "rne (2 ^ 64) = 2 ^ 64"
proof (rule rne_representable)
  have "(2 :: rat) ^ 64 = of_int 1 * 2 powi 64" by simp
  then show "representable (2 ^ 64)"
    unfolding representable_def by (intro exI [of _ 1] exI [of _ 64]) simp
qed

lemma rne_lt_overflow: "0 \<le> x \<Longrightarrow> x \<le> 2 ^ 64 \<Longrightarrow> rne x < 2 ^ 1024"
proof -
  assume "0 \<le> x" "x \<le> 2 ^ 64"
  then have "rne x \<le> rne (2 ^ 64)" by (rule rne_mono)
  also have "rne (2 ^ 64) = (2 :: rat) ^ 64" by (rule rne_pow64)
  also have "\<dots> < 2 ^ 1024" by (rule power_strict_increasing) auto
  finally show ?thesis .
qed

lemma fl_finite: "0 \<le> x \<Longrightarrow> x \<le> 2 ^ 64 \<Longrightarrow> fl x = Fin (rne x)"
proof -
  assume a: "0 \<le> x" "x \<le> 2 ^ 64"
  have "- (2 ^ 1024) < (0 :: rat)" by simp
  also have "0 \<le> rne x" using a(1) by (rule rne_nonneg)
  finally have "- (2 ^ 1024) < rne x" .
  with rne_lt_overflow [OF a] show ?thesis
    unfolding fl_def Let_def by (metis linorder_not_less)
qed

lemma float_of_int_exact: "0 \<le> n \<Longrightarrow> n \<le> 2 ^ 53 \<Longrightarrow> float_of_int n = Fin (of_int n)"
proof -
  assume a: "0 \<le> n" "n \<le> 2 ^ 53"
  have "(of_int n :: rat) \<le> of_int (2 ^ 53)" using a(2) by (subst of_int_le_iff)
  also have "\<dots> \<le> 2 ^ 64" by simp
  finally show ?thesis
    using a by (simp add: float_of_int_def fl_finite rne_of_int)
qed

lemma float_of_int_range:
  assumes "0 \<le> n" and "n \<le> 2 ^ 64"
  shows "\<exists>x. float_of_int n = Fin x \<and> 0 \<le> x \<and> x \<le> 2 ^ 64"
proof -
  have le: "(of_int n :: rat) \<le> 2 ^ 64"
    using assms(2) by (metis of_int_le_iff of_int_numeral of_int_power)
  have "rne (of_int n) \<le> rne (2 ^ 64)" using assms(1) le by (intro rne_mono) auto
  also have "rne (2 ^ 64) = (2 :: rat) ^ 64" by (rule rne_pow64)
  finally show ?thesis
    using assms(1) le by (simp add: float_of_int_def fl_finite rne_nonneg)
qed

text \<open>Integers beyond \<open>2 ^ 53\<close> can share one float.\<close>

lemma float_of_int_collision: "float_of_int (2 ^ 53 + 1) = float_of_int (2 ^ 53)"
proof -
  have il: "ilog2 9007199254740993 = 53"
    by (rule ilog2_unique) simp_all
  have fl: "\<lfloor>9007199254740993 / 2 :: rat\<rfloor> = 4503599627370496" by (simp add: floor_eq_iff)
  have "rne 9007199254740993 = 9007199254740992"
    by (simp add: rne_def round_exp_def il rhe_def fl Let_def)
  moreover have "rne 9007199254740992 = 9007199254740992"
    using rne_of_int [of 9007199254740992] by simp
  ultimately show ?thesis by (simp add: float_of_int_def fl_def)
qed

end
