(* ===== verification/Py_Value.thy ===== *)
theory Py_Value
  imports Py_Float
begin

text \<open>
  Dynamically typed Python values, as \<open>json.loads\<close> and \<open>model_dump\<close> produce them, with
  Python's equality: \<open>True == 1 == 1.0\<close>, exact comparison of integers with floats,
  dictionaries compared without regard to order. Aware and naive datetimes are the
  values \<open>datetime.fromisoformat\<close> returns.
\<close>

datatype py =
    PyNone
  | PyBool bool
  | PyInt int
  | PyFloat pyfloat
  | PyStr string
  | PyList "py list"
  | PyDict "(string \<times> py) list"

text \<open>The exact value of a number: an integer stands for itself, also beyond the floats.\<close>

fun num_val :: "py \<Rightarrow> pyfloat option" where
  "num_val (PyBool b) = Some (Fin (if b then 1 else 0))"
| "num_val (PyInt n) = Some (Fin (of_int n))"
| "num_val (PyFloat x) = Some x"
| "num_val _ = None"

fun scalar_eq :: "py \<Rightarrow> py \<Rightarrow> bool" where
  "scalar_eq PyNone PyNone = True"
| "scalar_eq (PyStr s) (PyStr t) = (s = t)"
| "scalar_eq a b =
     (case num_val a of None \<Rightarrow> False
      | Some x \<Rightarrow> (case num_val b of None \<Rightarrow> False | Some y \<Rightarrow> feq x y))"

lemma size_zip_left: "p \<in> set (zip xs ys) \<Longrightarrow> size (fst p) < Suc (size_list size xs)"
  by (cases p) (auto dest!: set_zip_leftD intro: le_imp_less_Suc size_list_estimation')

lemma size_dict_value:
  "(k, v) \<in> set xs \<Longrightarrow> size v < Suc (size_list (size_prod (\<lambda>_. 0) size) xs)"
  by (induction xs) auto

function (sequential) py_eq :: "py \<Rightarrow> py \<Rightarrow> bool" where
  "py_eq (PyList xs) (PyList ys) =
     (length xs = length ys \<and> (\<forall>p\<in>set (zip xs ys). py_eq (fst p) (snd p)))"
| "py_eq (PyDict xs) (PyDict ys) =
     (length xs = length ys \<and>
      (\<forall>p\<in>set xs. case map_of ys (fst p) of None \<Rightarrow> False | Some w \<Rightarrow> py_eq (snd p) w))"
| "py_eq a b = scalar_eq a b"
  by pat_completeness auto
termination
proof (relation "measure (\<lambda>(a, b). size a)", goal_cases)
  case 1
  then show ?case by simp
next
  case (2 xs ys p)
  then show ?case using size_zip_left [of p xs ys] by (simp add: case_prod_unfold)
next
  case (3 xs ys p w)
  then show ?case using size_dict_value [of "fst p" "snd p" xs] by simp
qed

lemma feq_iff: "feq x y \<longleftrightarrow> x = y \<and> x \<noteq> NaN"
  by (cases x; cases y) auto

lemma py_eq_simps [simp]:
  "py_eq (PyInt m) (PyInt n) \<longleftrightarrow> m = n"
  "py_eq (PyStr s) (PyStr t) \<longleftrightarrow> s = t"
  "py_eq (PyBool a) (PyBool b) \<longleftrightarrow> a = b"
  "py_eq (PyFloat x) (PyFloat y) \<longleftrightarrow> x = y \<and> x \<noteq> NaN"
  by (auto simp: feq_iff)

text \<open>\<open>d[k]\<close> on a dict, and on anything else.\<close>

definition lookupE :: "(string \<times> 'a) list \<Rightarrow> string \<Rightarrow> 'a res" where
  "lookupE d k = (case map_of d k of None \<Rightarrow> Inl (KeyError k) | Some v \<Rightarrow> Inr v)"

lemma lookupE_Inr_iff [res_simps, simp]: "lookupE d k = Inr v \<longleftrightarrow> map_of d k = Some v"
  by (simp add: lookupE_def split: option.split)

lemma lookupE_Some: "map_of d k = Some v \<Longrightarrow> lookupE d k = Inr v"
  by simp

fun py_item :: "py \<Rightarrow> string \<Rightarrow> py res" where
  "py_item (PyDict d) k = lookupE d k"
| "py_item _ k = Inl (TypeError k)"

text \<open>\<open>d.get(k)\<close>: \<open>None\<close> for a missing key.\<close>

definition py_get :: "(string \<times> py) list \<Rightarrow> string \<Rightarrow> py" where
  "py_get d k = (case map_of d k of None \<Rightarrow> PyNone | Some v \<Rightarrow> v)"

text \<open>\<open>payload[section][field]\<close>.\<close>

definition py_item2 :: "(string \<times> py) list \<Rightarrow> string \<Rightarrow> string \<Rightarrow> py res" where
  "py_item2 payload section field = bindE (lookupE payload section) (\<lambda>s. py_item s field)"

text \<open>Order comparisons of a number with an integer, and addition of an integer.\<close>

definition num_le :: "py \<Rightarrow> int \<Rightarrow> bool" where
  "num_le v n = (case num_val v of None \<Rightarrow> False | Some x \<Rightarrow> fle x (Fin (of_int n)))"

definition num_lt :: "py \<Rightarrow> int \<Rightarrow> bool" where
  "num_lt v n = (case num_val v of None \<Rightarrow> False | Some x \<Rightarrow> flt x (Fin (of_int n)))"

lemma num_le_PyInt [simp]: "num_le (PyInt m) n \<longleftrightarrow> m \<le> n"
  by (simp add: num_le_def)

lemma num_lt_PyInt [simp]: "num_lt (PyInt m) n \<longleftrightarrow> m < n"
  by (auto simp: num_lt_def flt_def)

fun add_int :: "py \<Rightarrow> int \<Rightarrow> py" where
  "add_int (PyInt m) n = PyInt (m + n)"
| "add_int (PyBool b) n = PyInt ((if b then 1 else 0) + n)"
| "add_int (PyFloat x) n = PyFloat (fadd x (float_of_int n))"
| "add_int v n = v"

text \<open>Python truth values.\<close>

fun truthy :: "py \<Rightarrow> bool" where
  "truthy PyNone = False"
| "truthy (PyBool b) = b"
| "truthy (PyInt n) = (n \<noteq> 0)"
| "truthy (PyFloat x) = (x \<noteq> Fin 0)"
| "truthy (PyStr s) = (s \<noteq> [])"
| "truthy (PyList xs) = (xs \<noteq> [])"
| "truthy (PyDict d) = (d \<noteq> [])"

fun as_dict :: "py \<Rightarrow> (string \<times> py) list" where
  "as_dict (PyDict d) = d"
| "as_dict _ = []"

fun py_str :: "py \<Rightarrow> string res" where
  "py_str (PyStr s) = Inr s"
| "py_str _ = Inl (TypeError ''str expected'')"

section \<open>Date and time values\<close>

text \<open>
  An aware datetime holds its instant (microseconds since the epoch) and its UTC offset
  (microseconds); a naive one has no offset.
\<close>

datatype datetime = Naive int | Aware (instant_us: int) (offset_us: int)

fun is_utc :: "datetime \<Rightarrow> bool" where
  "is_utc (Naive _) = False"
| "is_utc (Aware _ off) = (off = 0)"

text \<open>\<open>s.replace("Z", "+00:00")\<close>.\<close>

definition replace_Z :: "string \<Rightarrow> string" where
  "replace_Z s = concat (map (\<lambda>c. if c = CHR ''Z'' then ''+00:00'' else [c]) s)"

end
