(* ===== verification/Feature_Contract.thy ===== *)
theory Feature_Contract
  imports Py_Value
begin

text \<open>
  The operational feature contract (\<open>configs/operational_feature_schema.json\<close>) and the
  checks of \<open>inference_api/payload_validation.py\<close> over decoded JSON values. The parser \<open>fromiso\<close> of ISO timestamps
  is a parameter: \<open>None\<close> where \<open>datetime.fromisoformat\<close> raises ValueError.
\<close>

section \<open>The contract document\<close>

record feature_def =
  fd_dtype :: string
  fd_unit :: string
  fd_minimum :: int

record event_def =
  ed_contract_id :: string
  ed_scope :: string
  ed_order :: "string list"
  ed_dups :: "(string \<times> (string \<times> string)) list"

record contract =
  ct_wire_version :: string
  ct_capture_layer :: string
  ct_missing_policy :: string
  ct_header_size :: int
  ct_events :: "(string \<times> event_def) list"
  ct_features :: "(string \<times> feature_def) list"

definition MESSAGE_FEATURE_ORDER :: "string list" where
  "MESSAGE_FEATURE_ORDER =
     [''packet_size'', ''payload_size'', ''connection_duration_ms'', ''message_interval_ms'',
      ''bytes_received_total'', ''bytes_sent_total'', ''error_count_total'']"

definition SESSION_SUMMARY_FEATURE_ORDER :: "string list" where
  "SESSION_SUMMARY_FEATURE_ORDER =
     [''connection_duration_ms'', ''bytes_received_total'', ''bytes_sent_total'',
      ''recv_event_count'', ''send_event_count'', ''request_count'', ''error_count'',
      ''avg_message_interval_ms'']"

definition int_def :: "string \<Rightarrow> feature_def" where
  "int_def u = \<lparr>fd_dtype = ''integer'', fd_unit = u, fd_minimum = 0\<rparr>"

definition num_def :: "string \<Rightarrow> feature_def" where
  "num_def u = \<lparr>fd_dtype = ''number'', fd_unit = u, fd_minimum = 0\<rparr>"

definition message_event :: event_def where
  "message_event =
     \<lparr>ed_contract_id = ''server_application_message_v2'',
      ed_scope = ''session_prefix_at_frame_parsed'',
      ed_order =
        [''packet_size'', ''payload_size'', ''connection_duration_ms'', ''message_interval_ms'',
         ''bytes_received_total'', ''bytes_sent_total'', ''error_count_total''],
      ed_dups =
        [(''packet_size'', (''message'', ''packet_size'')),
         (''payload_size'', (''message'', ''payload_size'')),
         (''connection_duration_ms'', (''session'', ''connection_duration_ms'')),
         (''message_interval_ms'', (''message'', ''message_interval_ms'')),
         (''bytes_received_total'', (''session'', ''bytes_received_total'')),
         (''bytes_sent_total'', (''session'', ''bytes_sent_total'')),
         (''error_count_total'', (''session'', ''error_count_total''))]\<rparr>"

definition summary_event :: event_def where
  "summary_event =
     \<lparr>ed_contract_id = ''server_application_session_summary_v2'',
      ed_scope = ''session_snapshot_at_socket_close'',
      ed_order =
        [''connection_duration_ms'', ''bytes_received_total'', ''bytes_sent_total'',
         ''recv_event_count'', ''send_event_count'', ''request_count'', ''error_count'',
         ''avg_message_interval_ms''],
      ed_dups =
        [(''connection_duration_ms'', (''session'', ''connection_duration_ms'')),
         (''bytes_received_total'', (''session'', ''bytes_received_total'')),
         (''bytes_sent_total'', (''session'', ''bytes_sent_total'')),
         (''recv_event_count'', (''session'', ''recv_event_count'')),
         (''send_event_count'', (''session'', ''send_event_count'')),
         (''request_count'', (''session'', ''request_count'')),
         (''error_count'', (''session'', ''error_count'')),
         (''avg_message_interval_ms'', (''session'', ''avg_message_interval_ms''))]\<rparr>"

definition OPERATIONAL_CONTRACT :: contract where
  "OPERATIONAL_CONTRACT =
     \<lparr>ct_wire_version = ''v1'',
      ct_capture_layer = ''application_socket_completion_and_message_parser'',
      ct_missing_policy = ''reject_without_zero_fill'',
      ct_header_size = 8,
      ct_events = [(''message'', message_event), (''session_summary'', summary_event)],
      ct_features =
        [(''packet_size'', int_def ''byte''), (''payload_size'', int_def ''byte''),
         (''connection_duration_ms'', num_def ''ms''), (''message_interval_ms'', num_def ''ms''),
         (''bytes_received_total'', int_def ''byte''), (''bytes_sent_total'', int_def ''byte''),
         (''error_count_total'', int_def ''count''), (''recv_event_count'', int_def ''count''),
         (''send_event_count'', int_def ''count''), (''request_count'', int_def ''count''),
         (''error_count'', int_def ''count''), (''avg_message_interval_ms'', num_def ''ms'')]\<rparr>"

section \<open>Feature values\<close>

fun is_int_or_float :: "py \<Rightarrow> bool" where
  "is_int_or_float (PyInt _) = True"
| "is_int_or_float (PyFloat _) = True"
| "is_int_or_float _ = False"

text \<open>\<open>math.isfinite\<close>, false where the conversion of a huge integer overflows.\<close>

fun finite_number :: "py \<Rightarrow> bool" where
  "finite_number (PyInt n) = is_finite (float_of_int n)"
| "finite_number (PyFloat x) = is_finite x"
| "finite_number _ = False"

fun below_minimum :: "py \<Rightarrow> int \<Rightarrow> bool" where
  "below_minimum (PyInt n) m = (n < m)"
| "below_minimum (PyFloat x) m = flt x (Fin (of_int m))"
| "below_minimum _ m = False"

fun is_pyint :: "py \<Rightarrow> bool" where
  "is_pyint (PyInt _) = True"
| "is_pyint _ = False"

text \<open>\<open>float(value)\<close> of a number already known to be finite.\<close>

fun to_float :: "py \<Rightarrow> pyfloat" where
  "to_float (PyInt n) = float_of_int n"
| "to_float (PyFloat x) = x"
| "to_float _ = NaN"

definition validate_feature_value :: "contract \<Rightarrow> (string \<times> py) list \<Rightarrow> string \<Rightarrow> unit res" where
  "validate_feature_value C values name =
     bindE (lookupE values name) (\<lambda>value.
     bindE (lookupE (ct_features C) name) (\<lambda>def.
       if \<not> is_int_or_float value then Inl (ValueError ''not a number'')
       else if fd_dtype def = ''integer'' \<and> \<not> is_pyint value then Inl (ValueError ''not an integer'')
       else if \<not> finite_number value \<or> below_minimum value (fd_minimum def)
         then Inl (ValueError ''negative or not finite'')
       else Inr ()))"

definition validate_feature_values ::
    "contract \<Rightarrow> string \<Rightarrow> (string \<times> py) list \<Rightarrow> pyfloat list res" where
  "validate_feature_values C event_type values =
     (case map_of (ct_events C) event_type of
        None \<Rightarrow> Inl (ValueError ''unsupported event'')
      | Some event \<Rightarrow>
          (let names = ed_order event in
           if set (map fst values) \<noteq> set names then Inl (ValueError ''missing or extra feature'')
           else
             bindE (forE (validate_feature_value C values) names) (\<lambda>_.
             mapE (\<lambda>name. bindE (lookupE values name) (\<lambda>v. Inr (to_float v))) names)))"

section \<open>Snapshot relations\<close>

text \<open>The dict comparisons of one repeated value: \<open>features[name] != payload[section][field]\<close>.\<close>

definition check_duplicate :: "(string \<times> py) list \<Rightarrow> string \<times> (string \<times> string) \<Rightarrow> unit res" where
  "check_duplicate payload d =
     (case d of (name, (section, field)) \<Rightarrow>
       bindE (lookupE payload ''features'') (\<lambda>fs.
       bindE (py_item fs name) (\<lambda>a.
       bindE (lookupE payload section) (\<lambda>s.
       bindE (py_item s field) (\<lambda>b.
       check (py_eq a b) (ValueError ''repeated value differs''))))))"

text \<open>The message rules and the summary rules of one payload.\<close>

definition check_message_rules :: "contract \<Rightarrow> (string \<times> py) list \<Rightarrow> unit res" where
  "check_message_rules C payload =
     bindE (py_item2 payload ''message'' ''packet_size'') (\<lambda>packet.
     bindE (py_item2 payload ''message'' ''payload_size'') (\<lambda>body.
       if \<not> py_eq packet (add_int body (ct_header_size C))
         then Inl (ValueError ''header size relation'')
       else
     bindE (py_item2 payload ''message'' ''request_index'') (\<lambda>index.
     bindE (py_item2 payload ''message'' ''message_interval_ms'') (\<lambda>interval.
       if num_lt index 1 \<or> (py_eq index (PyInt 1) \<and> \<not> py_eq interval (PyInt 0))
         then Inl (ValueError ''first message rule'')
       else Inr ()))))"

definition check_summary_rules :: "(string \<times> py) list \<Rightarrow> unit res" where
  "check_summary_rules payload =
     bindE (py_item2 payload ''session'' ''is_started'') (\<lambda>started.
     bindE (py_item2 payload ''session'' ''is_closed'') (\<lambda>closed.
       if \<not> truthy started \<or> \<not> truthy closed
         then Inl (ValueError ''summary must be started and closed'')
       else
     bindE (py_item2 payload ''session'' ''request_count'') (\<lambda>count.
     bindE (py_item2 payload ''session'' ''avg_message_interval_ms'') (\<lambda>avg.
       if num_le count 1 \<and> \<not> py_eq avg (PyInt 0)
         then Inl (ValueError ''average interval rule'')
       else Inr ()))))"

definition check_timestamp ::
    "(string \<Rightarrow> datetime option) \<Rightarrow> string \<Rightarrow> unit res" where
  "check_timestamp fromiso s =
     (case fromiso (replace_Z s) of
        None \<Rightarrow> Inl (ValueError ''timestamp format'')
      | Some t \<Rightarrow> check (is_utc t) (ValueError ''timestamp is not UTC''))"

definition validate_snapshot_relations ::
    "(string \<Rightarrow> datetime option) \<Rightarrow> contract \<Rightarrow> (string \<times> py) list \<Rightarrow> unit res" where
  "validate_snapshot_relations fromiso C payload =
     bindE (bindE (lookupE payload ''event_type'') py_str) (\<lambda>event_type.
     bindE (lookupE (ct_events C) event_type) (\<lambda>event.
     bindE (lookupE payload ''feature_contract_id'') (\<lambda>cid.
       if \<not> py_eq cid (PyStr (ed_contract_id event))
         then Inl (ValueError ''feature contract differs'')
       else
     bindE (lookupE payload ''features'') (\<lambda>features.
     bindE (validate_feature_values C event_type (as_dict features)) (\<lambda>_.
     bindE (forE (check_duplicate payload) (ed_dups event)) (\<lambda>_.
     bindE (bindE (lookupE payload ''timestamp'') py_str) (\<lambda>timestamp.
     bindE (check_timestamp fromiso timestamp) (\<lambda>_.
     bindE (py_item2 payload ''session'' ''session_id'') (\<lambda>sid.
       if num_le sid 0 then Inl (ValueError ''session_id'')
       else if event_type = ''message'' then check_message_rules C payload
       else check_summary_rules payload)))))))))"

section \<open>What a validated feature value is\<close>

text \<open>
  The promise of the contract for one value: an integer feature holds an integer, a
  number feature any finite number, and neither is below its minimum.
\<close>

fun feature_ok :: "feature_def \<Rightarrow> py \<Rightarrow> bool" where
  "feature_ok d (PyInt n) \<longleftrightarrow> fd_minimum d \<le> n \<and> is_finite (float_of_int n)"
| "feature_ok d (PyFloat x) \<longleftrightarrow>
     fd_dtype d \<noteq> ''integer'' \<and> is_finite x \<and> of_int (fd_minimum d) \<le> fval x"
| "feature_ok d _ \<longleftrightarrow> False"

lemma is_finite_iff: "is_finite x \<longleftrightarrow> (\<exists>r. x = Fin r)"
  by (cases x) auto

lemma flt_Fin [simp]: "flt (Fin x) (Fin y) \<longleftrightarrow> x < y"
  by (auto simp: flt_def)

lemma validate_feature_value_iff [res_simps]:
  "validate_feature_value C values name = Inr () \<longleftrightarrow>
     (\<exists>v d. map_of values name = Some v \<and> map_of (ct_features C) name = Some d \<and> feature_ok d v)"
proof (cases "map_of values name")
  case None
  then show ?thesis by (simp add: validate_feature_value_def lookupE_def)
next
  case v: (Some v)
  show ?thesis
  proof (cases "map_of (ct_features C) name")
    case None
    with v show ?thesis by (simp add: validate_feature_value_def lookupE_def)
  next
    case (Some d)
    with v show ?thesis
      by (cases v) (auto simp: validate_feature_value_def lookupE_def is_finite_iff)
  qed
qed

definition dict_floats :: "(string \<times> py) list \<Rightarrow> string list \<Rightarrow> pyfloat list" where
  "dict_floats values names = map (\<lambda>name. to_float (py_get values name)) names"

lemma lookup_floats:
  assumes "\<And>name. name \<in> set names \<Longrightarrow> map_of values name \<noteq> None"
  shows "mapE (\<lambda>name. bindE (lookupE values name) (\<lambda>v. Inr (to_float v))) names
           = Inr (dict_floats values names)"
  unfolding dict_floats_def
  using assms by (intro mapE_total) (auto simp: lookupE_def py_get_def split: option.splits)

text \<open>The order the contract document and the transformer give for each event agree.\<close>

lemma contract_orders:
  "map_of (ct_events OPERATIONAL_CONTRACT) ''message'' = Some message_event"
  "map_of (ct_events OPERATIONAL_CONTRACT) ''session_summary'' = Some summary_event"
  "ed_order message_event = MESSAGE_FEATURE_ORDER"
  "ed_order summary_event = SESSION_SUMMARY_FEATURE_ORDER"
  by (simp_all add: OPERATIONAL_CONTRACT_def message_event_def summary_event_def
      MESSAGE_FEATURE_ORDER_def SESSION_SUMMARY_FEATURE_ORDER_def)

lemma validate_feature_values_Inr:
  "validate_feature_values C event_type values = Inr xs \<longleftrightarrow>
     (\<exists>event. map_of (ct_events C) event_type = Some event \<and>
        set (map fst values) = set (ed_order event) \<and>
        list_all (\<lambda>name. \<exists>v d. map_of values name = Some v \<and>
           map_of (ct_features C) name = Some d \<and> feature_ok d v) (ed_order event) \<and>
        xs = dict_floats values (ed_order event))"
proof (cases "map_of (ct_events C) event_type")
  case None
  then show ?thesis by (simp add: validate_feature_values_def)
next
  case (Some event)
  show ?thesis
  proof (cases "list_all (\<lambda>name. \<exists>v d. map_of values name = Some v \<and>
           map_of (ct_features C) name = Some d \<and> feature_ok d v) (ed_order event)")
    case True
    then have "forE (validate_feature_value C values) (ed_order event) = Inr ()"
      by (simp add: forE_Inr_iff validate_feature_value_iff list_all_iff)
    moreover have "mapE (\<lambda>name. bindE (lookupE values name) (\<lambda>v. Inr (to_float v))) (ed_order event)
        = Inr (dict_floats values (ed_order event))"
      using True by (intro lookup_floats) (auto simp: list_all_iff)
    ultimately show ?thesis
      using Some True by (auto simp: validate_feature_values_def Let_def)
  next
    case False
    then have "forE (validate_feature_value C values) (ed_order event) \<noteq> Inr ()"
      by (simp add: forE_Inr_iff validate_feature_value_iff list_all_iff)
    then show ?thesis
      using Some False by (auto simp: validate_feature_values_def Let_def bindE_Inr_iff)
  qed
qed

end
