(* ===== verification/Request_Model.thy ===== *)
theory Request_Model
  imports Feature_Contract
begin

text \<open>
  The request models of \<open>inference_api/schemas.py\<close>: parsing a decoded JSON body into
  the tagged union, dumping a model, the after-validator; and the vector builder of
  \<open>inference_api/feature_transformer.py\<close>.
\<close>

section \<open>Request models\<close>

text \<open>
  The declared fields of the pydantic models: strict integers with their ranges (bool and
  float inputs are rejected), strict finite non-negative floats (an integer input is
  converted), no extra fields, no missing fields.
\<close>

fun strict_int :: "int \<Rightarrow> int \<Rightarrow> py \<Rightarrow> int res" where
  "strict_int lo hi (PyInt n) =
     (if lo \<le> n \<and> n \<le> hi then Inr n else Inl (ValueError ''integer range''))"
| "strict_int lo hi _ = Inl (ValueError ''strict integer'')"

fun nonneg_float :: "py \<Rightarrow> pyfloat res" where
  "nonneg_float (PyInt n) =
     (if is_finite (float_of_int n) \<and> 0 \<le> n then Inr (float_of_int n)
      else Inl (ValueError ''float range''))"
| "nonneg_float (PyFloat x) =
     (if is_finite x \<and> fle (Fin 0) x then Inr x else Inl (ValueError ''float range''))"
| "nonneg_float _ = Inl (ValueError ''strict float'')"

fun strict_bool :: "py \<Rightarrow> bool res" where
  "strict_bool (PyBool b) = Inr b"
| "strict_bool _ = Inl (ValueError ''strict bool'')"

fun str_field :: "py \<Rightarrow> string res" where
  "str_field (PyStr s) = Inr s"
| "str_field _ = Inl (ValueError ''string'')"

definition literal_field :: "string \<Rightarrow> py \<Rightarrow> unit res" where
  "literal_field lit v = check (v = PyStr lit) (ValueError ''literal'')"

abbreviation NonNegativeInt :: "py \<Rightarrow> int res" where
  "NonNegativeInt \<equiv> strict_int 0 (2 ^ 64 - 1)"

abbreviation FrameSize :: "py \<Rightarrow> int res" where
  "FrameSize \<equiv> strict_int 0 (2 ^ 31 - 1)"

text \<open>\<open>extra="forbid"\<close> with every field required; the value must be a dict.\<close>

fun model_fields :: "string list \<Rightarrow> py \<Rightarrow> (string \<times> py) list res" where
  "model_fields names (PyDict d) =
     (if set (map fst d) = set names then Inr d else Inl (ValueError ''fields''))"
| "model_fields names _ = Inl (ValueError ''object expected'')"

definition field :: "(string \<times> py) list \<Rightarrow> string \<Rightarrow> (py \<Rightarrow> 'a res) \<Rightarrow> 'a res" where
  "field d name p = bindE (lookupE d name) p"

record message_session_info =
  si_session_id :: int
  si_socket_handle :: int
  si_logic_worker_id :: int
  si_connection_duration_ms :: pyfloat
  si_bytes_received_total :: int
  si_bytes_sent_total :: int
  si_error_count_total :: int

record message_info =
  mi_request_index :: int
  mi_packet_id :: int
  mi_packet_size :: int
  mi_payload_size :: int
  mi_message_interval_ms :: pyfloat

record message_features =
  mf_packet_size :: int
  mf_payload_size :: int
  mf_connection_duration_ms :: pyfloat
  mf_message_interval_ms :: pyfloat
  mf_bytes_received_total :: int
  mf_bytes_sent_total :: int
  mf_error_count_total :: int

record message_request =
  mr_queue_sequence_id :: int
  mr_timestamp :: string
  mr_session :: message_session_info
  mr_message :: message_info
  mr_features :: message_features

record session_summary_info =
  ss_session_id :: int
  ss_socket_handle :: int
  ss_logic_worker_id :: int
  ss_is_started :: bool
  ss_is_closed :: bool
  ss_connection_duration_ms :: pyfloat
  ss_bytes_received_total :: int
  ss_bytes_sent_total :: int
  ss_recv_event_count :: int
  ss_send_event_count :: int
  ss_request_count :: int
  ss_error_count :: int
  ss_avg_message_interval_ms :: pyfloat
  ss_last_error_code :: int
  ss_last_error_message :: string

record summary_features =
  sf_connection_duration_ms :: pyfloat
  sf_bytes_received_total :: int
  sf_bytes_sent_total :: int
  sf_recv_event_count :: int
  sf_send_event_count :: int
  sf_request_count :: int
  sf_error_count :: int
  sf_avg_message_interval_ms :: pyfloat

record summary_request =
  sr_queue_sequence_id :: int
  sr_timestamp :: string
  sr_session :: session_summary_info
  sr_features :: summary_features

datatype request = MessageRequest message_request | SummaryRequest summary_request

definition parse_message_session :: "py \<Rightarrow> message_session_info res" where
  "parse_message_session v =
     bindE (model_fields [''session_id'', ''socket_handle'', ''logic_worker_id'',
        ''connection_duration_ms'', ''bytes_received_total'', ''bytes_sent_total'',
        ''error_count_total''] v) (\<lambda>d.
     bindE (field d ''session_id'' (strict_int 1 (2 ^ 64 - 1))) (\<lambda>sid.
     bindE (field d ''socket_handle'' NonNegativeInt) (\<lambda>sock.
     bindE (field d ''logic_worker_id'' (strict_int (- 1) (2 ^ 31 - 1))) (\<lambda>wid.
     bindE (field d ''connection_duration_ms'' nonneg_float) (\<lambda>dur.
     bindE (field d ''bytes_received_total'' NonNegativeInt) (\<lambda>brt.
     bindE (field d ''bytes_sent_total'' NonNegativeInt) (\<lambda>bst.
     bindE (field d ''error_count_total'' NonNegativeInt) (\<lambda>ect.
     Inr \<lparr>si_session_id = sid, si_socket_handle = sock, si_logic_worker_id = wid,
       si_connection_duration_ms = dur, si_bytes_received_total = brt, si_bytes_sent_total = bst,
       si_error_count_total = ect\<rparr>))))))))"

definition parse_message_info :: "py \<Rightarrow> message_info res" where
  "parse_message_info v =
     bindE (model_fields [''request_index'', ''packet_id'', ''packet_size'', ''payload_size'',
        ''message_interval_ms''] v) (\<lambda>d.
     bindE (field d ''request_index'' (strict_int 1 (2 ^ 64 - 1))) (\<lambda>ri.
     bindE (field d ''packet_id'' (strict_int 0 65535)) (\<lambda>pid.
     bindE (field d ''packet_size'' FrameSize) (\<lambda>ps.
     bindE (field d ''payload_size'' FrameSize) (\<lambda>pl.
     bindE (field d ''message_interval_ms'' nonneg_float) (\<lambda>mi.
     Inr \<lparr>mi_request_index = ri, mi_packet_id = pid, mi_packet_size = ps, mi_payload_size = pl,
       mi_message_interval_ms = mi\<rparr>))))))"

definition parse_message_features :: "py \<Rightarrow> message_features res" where
  "parse_message_features v =
     bindE (model_fields [''packet_size'', ''payload_size'', ''connection_duration_ms'',
        ''message_interval_ms'', ''bytes_received_total'', ''bytes_sent_total'',
        ''error_count_total''] v) (\<lambda>d.
     bindE (field d ''packet_size'' FrameSize) (\<lambda>ps.
     bindE (field d ''payload_size'' FrameSize) (\<lambda>pl.
     bindE (field d ''connection_duration_ms'' nonneg_float) (\<lambda>dur.
     bindE (field d ''message_interval_ms'' nonneg_float) (\<lambda>mi.
     bindE (field d ''bytes_received_total'' NonNegativeInt) (\<lambda>brt.
     bindE (field d ''bytes_sent_total'' NonNegativeInt) (\<lambda>bst.
     bindE (field d ''error_count_total'' NonNegativeInt) (\<lambda>ect.
     Inr \<lparr>mf_packet_size = ps, mf_payload_size = pl, mf_connection_duration_ms = dur,
       mf_message_interval_ms = mi, mf_bytes_received_total = brt, mf_bytes_sent_total = bst,
       mf_error_count_total = ect\<rparr>))))))))"

definition parse_session_summary :: "py \<Rightarrow> session_summary_info res" where
  "parse_session_summary v =
     bindE (model_fields [''session_id'', ''socket_handle'', ''logic_worker_id'', ''is_started'',
        ''is_closed'', ''connection_duration_ms'', ''bytes_received_total'', ''bytes_sent_total'',
        ''recv_event_count'', ''send_event_count'', ''request_count'', ''error_count'',
        ''avg_message_interval_ms'', ''last_error_code'', ''last_error_message''] v) (\<lambda>d.
     bindE (field d ''session_id'' (strict_int 1 (2 ^ 64 - 1))) (\<lambda>sid.
     bindE (field d ''socket_handle'' NonNegativeInt) (\<lambda>sock.
     bindE (field d ''logic_worker_id'' (strict_int (- 1) (2 ^ 31 - 1))) (\<lambda>wid.
     bindE (field d ''is_started'' strict_bool) (\<lambda>st.
     bindE (field d ''is_closed'' strict_bool) (\<lambda>cl.
     bindE (field d ''connection_duration_ms'' nonneg_float) (\<lambda>dur.
     bindE (field d ''bytes_received_total'' NonNegativeInt) (\<lambda>brt.
     bindE (field d ''bytes_sent_total'' NonNegativeInt) (\<lambda>bst.
     bindE (field d ''recv_event_count'' NonNegativeInt) (\<lambda>rec.
     bindE (field d ''send_event_count'' NonNegativeInt) (\<lambda>sec.
     bindE (field d ''request_count'' NonNegativeInt) (\<lambda>rc.
     bindE (field d ''error_count'' NonNegativeInt) (\<lambda>ec.
     bindE (field d ''avg_message_interval_ms'' nonneg_float) (\<lambda>avg.
     bindE (field d ''last_error_code'' (strict_int 0 (2 ^ 32 - 1))) (\<lambda>lec.
     bindE (field d ''last_error_message'' str_field) (\<lambda>lem.
     Inr \<lparr>ss_session_id = sid, ss_socket_handle = sock, ss_logic_worker_id = wid,
       ss_is_started = st, ss_is_closed = cl, ss_connection_duration_ms = dur,
       ss_bytes_received_total = brt, ss_bytes_sent_total = bst, ss_recv_event_count = rec,
       ss_send_event_count = sec, ss_request_count = rc, ss_error_count = ec,
       ss_avg_message_interval_ms = avg, ss_last_error_code = lec,
       ss_last_error_message = lem\<rparr>))))))))))))))))"

definition parse_summary_features :: "py \<Rightarrow> summary_features res" where
  "parse_summary_features v =
     bindE (model_fields [''connection_duration_ms'', ''bytes_received_total'',
        ''bytes_sent_total'', ''recv_event_count'', ''send_event_count'', ''request_count'',
        ''error_count'', ''avg_message_interval_ms''] v) (\<lambda>d.
     bindE (field d ''connection_duration_ms'' nonneg_float) (\<lambda>dur.
     bindE (field d ''bytes_received_total'' NonNegativeInt) (\<lambda>brt.
     bindE (field d ''bytes_sent_total'' NonNegativeInt) (\<lambda>bst.
     bindE (field d ''recv_event_count'' NonNegativeInt) (\<lambda>rec.
     bindE (field d ''send_event_count'' NonNegativeInt) (\<lambda>sec.
     bindE (field d ''request_count'' NonNegativeInt) (\<lambda>rc.
     bindE (field d ''error_count'' NonNegativeInt) (\<lambda>ec.
     bindE (field d ''avg_message_interval_ms'' nonneg_float) (\<lambda>avg.
     Inr \<lparr>sf_connection_duration_ms = dur, sf_bytes_received_total = brt,
       sf_bytes_sent_total = bst, sf_recv_event_count = rec, sf_send_event_count = sec,
       sf_request_count = rc, sf_error_count = ec, sf_avg_message_interval_ms = avg\<rparr>)))))))))"

section \<open>Dumping a model\<close>

definition dump_message_session :: "message_session_info \<Rightarrow> (string \<times> py) list" where
  "dump_message_session s =
     [(''session_id'', PyInt (si_session_id s)), (''socket_handle'', PyInt (si_socket_handle s)),
      (''logic_worker_id'', PyInt (si_logic_worker_id s)),
      (''connection_duration_ms'', PyFloat (si_connection_duration_ms s)),
      (''bytes_received_total'', PyInt (si_bytes_received_total s)),
      (''bytes_sent_total'', PyInt (si_bytes_sent_total s)),
      (''error_count_total'', PyInt (si_error_count_total s))]"

definition dump_message_info :: "message_info \<Rightarrow> (string \<times> py) list" where
  "dump_message_info m =
     [(''request_index'', PyInt (mi_request_index m)), (''packet_id'', PyInt (mi_packet_id m)),
      (''packet_size'', PyInt (mi_packet_size m)), (''payload_size'', PyInt (mi_payload_size m)),
      (''message_interval_ms'', PyFloat (mi_message_interval_ms m))]"

definition dump_message_features :: "message_features \<Rightarrow> (string \<times> py) list" where
  "dump_message_features f =
     [(''packet_size'', PyInt (mf_packet_size f)), (''payload_size'', PyInt (mf_payload_size f)),
      (''connection_duration_ms'', PyFloat (mf_connection_duration_ms f)),
      (''message_interval_ms'', PyFloat (mf_message_interval_ms f)),
      (''bytes_received_total'', PyInt (mf_bytes_received_total f)),
      (''bytes_sent_total'', PyInt (mf_bytes_sent_total f)),
      (''error_count_total'', PyInt (mf_error_count_total f))]"

definition dump_session_summary :: "session_summary_info \<Rightarrow> (string \<times> py) list" where
  "dump_session_summary s =
     [(''session_id'', PyInt (ss_session_id s)), (''socket_handle'', PyInt (ss_socket_handle s)),
      (''logic_worker_id'', PyInt (ss_logic_worker_id s)),
      (''is_started'', PyBool (ss_is_started s)), (''is_closed'', PyBool (ss_is_closed s)),
      (''connection_duration_ms'', PyFloat (ss_connection_duration_ms s)),
      (''bytes_received_total'', PyInt (ss_bytes_received_total s)),
      (''bytes_sent_total'', PyInt (ss_bytes_sent_total s)),
      (''recv_event_count'', PyInt (ss_recv_event_count s)),
      (''send_event_count'', PyInt (ss_send_event_count s)),
      (''request_count'', PyInt (ss_request_count s)),
      (''error_count'', PyInt (ss_error_count s)),
      (''avg_message_interval_ms'', PyFloat (ss_avg_message_interval_ms s)),
      (''last_error_code'', PyInt (ss_last_error_code s)),
      (''last_error_message'', PyStr (ss_last_error_message s))]"

definition dump_summary_features :: "summary_features \<Rightarrow> (string \<times> py) list" where
  "dump_summary_features f =
     [(''connection_duration_ms'', PyFloat (sf_connection_duration_ms f)),
      (''bytes_received_total'', PyInt (sf_bytes_received_total f)),
      (''bytes_sent_total'', PyInt (sf_bytes_sent_total f)),
      (''recv_event_count'', PyInt (sf_recv_event_count f)),
      (''send_event_count'', PyInt (sf_send_event_count f)),
      (''request_count'', PyInt (sf_request_count f)),
      (''error_count'', PyInt (sf_error_count f)),
      (''avg_message_interval_ms'', PyFloat (sf_avg_message_interval_ms f))]"

fun features_dict :: "request \<Rightarrow> (string \<times> py) list" where
  "features_dict (MessageRequest r) = dump_message_features (mr_features r)"
| "features_dict (SummaryRequest r) = dump_summary_features (sr_features r)"

fun model_dump :: "request \<Rightarrow> (string \<times> py) list" where
  "model_dump (MessageRequest r) =
     [(''schema_version'', PyStr ''v1''),
      (''feature_contract_id'', PyStr ''server_application_message_v2''),
      (''event_type'', PyStr ''message''),
      (''queue_sequence_id'', PyInt (mr_queue_sequence_id r)),
      (''timestamp'', PyStr (mr_timestamp r)),
      (''session'', PyDict (dump_message_session (mr_session r))),
      (''message'', PyDict (dump_message_info (mr_message r))),
      (''features'', PyDict (dump_message_features (mr_features r)))]"
| "model_dump (SummaryRequest r) =
     [(''schema_version'', PyStr ''v1''),
      (''feature_contract_id'', PyStr ''server_application_session_summary_v2''),
      (''event_type'', PyStr ''session_summary''),
      (''queue_sequence_id'', PyInt (sr_queue_sequence_id r)),
      (''timestamp'', PyStr (sr_timestamp r)),
      (''session'', PyDict (dump_session_summary (sr_session r))),
      (''features'', PyDict (dump_summary_features (sr_features r)))]"

section \<open>Validation of a request body\<close>

text \<open>
  Field validation of the tagged union (the tag is \<open>event_type\<close>), then the
  after-validator over the dump of the validated model. A failure of either is the
  validation error that FastAPI answers with status 422.
\<close>

definition parse_message_request ::
    "(string \<Rightarrow> datetime option) \<Rightarrow> py \<Rightarrow> message_request res" where
  "parse_message_request fromiso v =
     bindE (model_fields [''schema_version'', ''feature_contract_id'', ''event_type'',
        ''queue_sequence_id'', ''timestamp'', ''session'', ''message'', ''features''] v) (\<lambda>d.
     bindE (field d ''schema_version'' (literal_field ''v1'')) (\<lambda>_.
     bindE (field d ''feature_contract_id'' (literal_field ''server_application_message_v2'')) (\<lambda>_.
     bindE (field d ''event_type'' (literal_field ''message'')) (\<lambda>_.
     bindE (field d ''queue_sequence_id'' NonNegativeInt) (\<lambda>qid.
     bindE (field d ''timestamp'' str_field) (\<lambda>ts.
     bindE (field d ''session'' parse_message_session) (\<lambda>s.
     bindE (field d ''message'' parse_message_info) (\<lambda>m.
     bindE (field d ''features'' parse_message_features) (\<lambda>f.
     let r = \<lparr>mr_queue_sequence_id = qid, mr_timestamp = ts, mr_session = s, mr_message = m,
              mr_features = f\<rparr> in
     bindE (validate_snapshot_relations fromiso OPERATIONAL_CONTRACT
        (model_dump (MessageRequest r))) (\<lambda>_.
     Inr r))))))))))"

definition parse_summary_request ::
    "(string \<Rightarrow> datetime option) \<Rightarrow> py \<Rightarrow> summary_request res" where
  "parse_summary_request fromiso v =
     bindE (model_fields [''schema_version'', ''feature_contract_id'', ''event_type'',
        ''queue_sequence_id'', ''timestamp'', ''session'', ''features''] v) (\<lambda>d.
     bindE (field d ''schema_version'' (literal_field ''v1'')) (\<lambda>_.
     bindE (field d ''feature_contract_id''
        (literal_field ''server_application_session_summary_v2'')) (\<lambda>_.
     bindE (field d ''event_type'' (literal_field ''session_summary'')) (\<lambda>_.
     bindE (field d ''queue_sequence_id'' NonNegativeInt) (\<lambda>qid.
     bindE (field d ''timestamp'' str_field) (\<lambda>ts.
     bindE (field d ''session'' parse_session_summary) (\<lambda>s.
     bindE (field d ''features'' parse_summary_features) (\<lambda>f.
     let r = \<lparr>sr_queue_sequence_id = qid, sr_timestamp = ts, sr_session = s, sr_features = f\<rparr> in
     bindE (validate_snapshot_relations fromiso OPERATIONAL_CONTRACT
        (model_dump (SummaryRequest r))) (\<lambda>_.
     Inr r)))))))))"

definition parse_request :: "(string \<Rightarrow> datetime option) \<Rightarrow> py \<Rightarrow> request res" where
  "parse_request fromiso v =
     bindE (py_item v ''event_type'') (\<lambda>tag.
       if tag = PyStr ''message''
         then bindE (parse_message_request fromiso v) (\<lambda>r. Inr (MessageRequest r))
       else if tag = PyStr ''session_summary''
         then bindE (parse_summary_request fromiso v) (\<lambda>r. Inr (SummaryRequest r))
       else Inl (ValueError ''unknown event_type''))"

section \<open>Feature vectors\<close>

record feature_vector =
  fv_event_type :: string
  fv_names :: "string list"
  fv_values :: "pyfloat list"

fun event_type_of :: "request \<Rightarrow> string" where
  "event_type_of (MessageRequest _) = ''message''"
| "event_type_of (SummaryRequest _) = ''session_summary''"

definition build_feature_vector :: "request \<Rightarrow> feature_vector" where
  "build_feature_vector payload =
     (let feature_dict = features_dict payload;
          names = (if event_type_of payload = ''message'' then MESSAGE_FEATURE_ORDER
                   else SESSION_SUMMARY_FEATURE_ORDER);
          values = map (\<lambda>name. to_float (py_get feature_dict name)) names
      in \<lparr>fv_event_type = event_type_of payload, fv_names = names, fv_values = values\<rparr>)"

section \<open>What an accepted request promises\<close>

abbreviation u64 :: "int \<Rightarrow> bool" where "u64 n \<equiv> 0 \<le> n \<and> n \<le> 2 ^ 64 - 1"
abbreviation i31 :: "int \<Rightarrow> bool" where "i31 n \<equiv> 0 \<le> n \<and> n \<le> 2 ^ 31 - 1"

definition ms_ok :: "pyfloat \<Rightarrow> bool" where
  "ms_ok x \<longleftrightarrow> is_finite x \<and> 0 \<le> fval x"

text \<open>The declared ranges of every field.\<close>

definition session_ranges :: "message_session_info \<Rightarrow> bool" where
  "session_ranges s \<longleftrightarrow> 1 \<le> si_session_id s \<and> si_session_id s \<le> 2 ^ 64 - 1 \<and>
     u64 (si_socket_handle s) \<and>
     - 1 \<le> si_logic_worker_id s \<and> si_logic_worker_id s \<le> 2 ^ 31 - 1 \<and>
     ms_ok (si_connection_duration_ms s) \<and> u64 (si_bytes_received_total s) \<and>
     u64 (si_bytes_sent_total s) \<and> u64 (si_error_count_total s)"

definition info_ranges :: "message_info \<Rightarrow> bool" where
  "info_ranges m \<longleftrightarrow> 1 \<le> mi_request_index m \<and> mi_request_index m \<le> 2 ^ 64 - 1 \<and>
     0 \<le> mi_packet_id m \<and> mi_packet_id m \<le> 65535 \<and> i31 (mi_packet_size m) \<and>
     i31 (mi_payload_size m) \<and> ms_ok (mi_message_interval_ms m)"

definition summary_ranges :: "session_summary_info \<Rightarrow> bool" where
  "summary_ranges s \<longleftrightarrow> 1 \<le> ss_session_id s \<and> ss_session_id s \<le> 2 ^ 64 - 1 \<and>
     u64 (ss_socket_handle s) \<and>
     - 1 \<le> ss_logic_worker_id s \<and> ss_logic_worker_id s \<le> 2 ^ 31 - 1 \<and>
     ms_ok (ss_connection_duration_ms s) \<and> u64 (ss_bytes_received_total s) \<and>
     u64 (ss_bytes_sent_total s) \<and> u64 (ss_recv_event_count s) \<and>
     u64 (ss_send_event_count s) \<and> u64 (ss_request_count s) \<and> u64 (ss_error_count s) \<and>
     ms_ok (ss_avg_message_interval_ms s) \<and>
     0 \<le> ss_last_error_code s \<and> ss_last_error_code s \<le> 2 ^ 32 - 1"

text \<open>The feature block repeats the session and message blocks.\<close>

definition message_mirrors :: "message_request \<Rightarrow> bool" where
  "message_mirrors r \<longleftrightarrow> mr_features r =
     \<lparr>mf_packet_size = mi_packet_size (mr_message r),
      mf_payload_size = mi_payload_size (mr_message r),
      mf_connection_duration_ms = si_connection_duration_ms (mr_session r),
      mf_message_interval_ms = mi_message_interval_ms (mr_message r),
      mf_bytes_received_total = si_bytes_received_total (mr_session r),
      mf_bytes_sent_total = si_bytes_sent_total (mr_session r),
      mf_error_count_total = si_error_count_total (mr_session r)\<rparr>"

definition summary_mirrors :: "summary_request \<Rightarrow> bool" where
  "summary_mirrors r \<longleftrightarrow> sr_features r =
     \<lparr>sf_connection_duration_ms = ss_connection_duration_ms (sr_session r),
      sf_bytes_received_total = ss_bytes_received_total (sr_session r),
      sf_bytes_sent_total = ss_bytes_sent_total (sr_session r),
      sf_recv_event_count = ss_recv_event_count (sr_session r),
      sf_send_event_count = ss_send_event_count (sr_session r),
      sf_request_count = ss_request_count (sr_session r),
      sf_error_count = ss_error_count (sr_session r),
      sf_avg_message_interval_ms = ss_avg_message_interval_ms (sr_session r)\<rparr>"

definition utc_timestamp :: "(string \<Rightarrow> datetime option) \<Rightarrow> string \<Rightarrow> bool" where
  "utc_timestamp fromiso s \<longleftrightarrow> (case fromiso (replace_Z s) of None \<Rightarrow> False | Some t \<Rightarrow> is_utc t)"

definition message_ok :: "(string \<Rightarrow> datetime option) \<Rightarrow> message_request \<Rightarrow> bool" where
  "message_ok fromiso r \<longleftrightarrow>
     u64 (mr_queue_sequence_id r) \<and> session_ranges (mr_session r) \<and>
     info_ranges (mr_message r) \<and> message_mirrors r \<and> utc_timestamp fromiso (mr_timestamp r) \<and>
     mi_packet_size (mr_message r) = mi_payload_size (mr_message r) + 8 \<and>
     (mi_request_index (mr_message r) = 1 \<longrightarrow> mi_message_interval_ms (mr_message r) = Fin 0)"

definition summary_ok :: "(string \<Rightarrow> datetime option) \<Rightarrow> summary_request \<Rightarrow> bool" where
  "summary_ok fromiso r \<longleftrightarrow>
     u64 (sr_queue_sequence_id r) \<and> summary_ranges (sr_session r) \<and>
     summary_mirrors r \<and> utc_timestamp fromiso (sr_timestamp r) \<and>
     ss_is_started (sr_session r) \<and> ss_is_closed (sr_session r) \<and>
     (ss_request_count (sr_session r) \<le> 1 \<longrightarrow> ss_avg_message_interval_ms (sr_session r) = Fin 0)"

fun request_ok :: "(string \<Rightarrow> datetime option) \<Rightarrow> request \<Rightarrow> bool" where
  "request_ok fromiso (MessageRequest r) = message_ok fromiso r"
| "request_ok fromiso (SummaryRequest r) = summary_ok fromiso r"

section \<open>Field parsers\<close>

named_theorems parse_simps \<open>success of the field parsers\<close>

lemma strict_int_Inr_iff [parse_simps]:
  "strict_int lo hi v = Inr n \<longleftrightarrow> v = PyInt n \<and> lo \<le> n \<and> n \<le> hi"
  by (cases v) auto

lemma nonneg_float_InrD: "nonneg_float v = Inr x \<Longrightarrow> ms_ok x"
  by (cases v) (auto simp: ms_ok_def is_finite_iff float_of_int_def fl_def Let_def rne_nonneg
      split: if_splits)

lemma nonneg_float_PyFloat [parse_simps]: "nonneg_float (PyFloat x) = Inr y \<longleftrightarrow> y = x \<and> ms_ok x"
  by (cases x) (auto simp: ms_ok_def)

lemma field_Inr_iff [parse_simps]:
  "field d name p = Inr x \<longleftrightarrow> (\<exists>v. map_of d name = Some v \<and> p v = Inr x)"
  by (simp add: field_def bindE_Inr_iff)

lemma nonneg_float_ms_ok [simp]: "ms_ok x \<Longrightarrow> nonneg_float (PyFloat x) = Inr x"
  by (simp only: nonneg_float_PyFloat)

declare nonneg_float.simps(2) [simp del]

lemma field_int_range: "field d name (strict_int lo hi) = Inr n \<Longrightarrow> lo \<le> n \<and> n \<le> hi"
  by (auto simp: parse_simps)

lemma field_ms_ok: "field d name nonneg_float = Inr x \<Longrightarrow> ms_ok x"
  by (auto simp: parse_simps dest: nonneg_float_InrD)

lemma field_found: "map_of d name = Some v \<Longrightarrow> field d name p = p v"
  by (simp add: field_def lookupE_def)

lemma strict_bool_Inr_iff [parse_simps]: "strict_bool v = Inr b \<longleftrightarrow> v = PyBool b"
  by (cases v) auto

lemma str_field_Inr_iff [parse_simps]: "str_field v = Inr s \<longleftrightarrow> v = PyStr s"
  by (cases v) auto

lemma literal_field_Inr_iff [parse_simps]: "literal_field l v = Inr u \<longleftrightarrow> v = PyStr l"
  by (simp add: literal_field_def)

lemma model_fields_Inr_iff [parse_simps]:
  "model_fields names v = Inr d \<longleftrightarrow> v = PyDict d \<and> set (map fst d) = set names"
  by (cases v) auto

lemma parse_message_session_ranges: "parse_message_session v = Inr s \<Longrightarrow> session_ranges s"
  unfolding parse_message_session_def session_ranges_def
  by (auto simp: bindE_Inr_iff dest!: field_int_range field_ms_ok)

lemma parse_message_info_ranges: "parse_message_info v = Inr s \<Longrightarrow> info_ranges s"
  unfolding parse_message_info_def info_ranges_def
  by (auto simp: bindE_Inr_iff dest!: field_int_range field_ms_ok)

lemma parse_session_summary_ranges: "parse_session_summary v = Inr s \<Longrightarrow> summary_ranges s"
  unfolding parse_session_summary_def summary_ranges_def
  by (auto simp: bindE_Inr_iff dest!: field_int_range field_ms_ok)

lemma parse_dump_message_session:
  "session_ranges s \<Longrightarrow> parse_message_session (PyDict (dump_message_session s)) = Inr s"
  by (simp add: parse_message_session_def field_found session_ranges_def
      dump_message_session_def)

lemma parse_dump_message_info:
  "info_ranges m \<Longrightarrow> parse_message_info (PyDict (dump_message_info m)) = Inr m"
  by (simp add: parse_message_info_def field_found info_ranges_def dump_message_info_def)

lemma parse_dump_session_summary:
  "summary_ranges s \<Longrightarrow> parse_session_summary (PyDict (dump_session_summary s)) = Inr s"
  by (simp add: parse_session_summary_def field_found summary_ranges_def
      dump_session_summary_def)

section \<open>Feature blocks\<close>

definition mf_ranges :: "message_features \<Rightarrow> bool" where
  "mf_ranges f \<longleftrightarrow> i31 (mf_packet_size f) \<and> i31 (mf_payload_size f) \<and>
     ms_ok (mf_connection_duration_ms f) \<and> ms_ok (mf_message_interval_ms f) \<and>
     u64 (mf_bytes_received_total f) \<and> u64 (mf_bytes_sent_total f) \<and>
     u64 (mf_error_count_total f)"

definition sf_ranges :: "summary_features \<Rightarrow> bool" where
  "sf_ranges f \<longleftrightarrow> ms_ok (sf_connection_duration_ms f) \<and>
     u64 (sf_bytes_received_total f) \<and> u64 (sf_bytes_sent_total f) \<and>
     u64 (sf_recv_event_count f) \<and> u64 (sf_send_event_count f) \<and> u64 (sf_request_count f) \<and>
     u64 (sf_error_count f) \<and> ms_ok (sf_avg_message_interval_ms f)"

lemma parse_message_features_ranges: "parse_message_features v = Inr f \<Longrightarrow> mf_ranges f"
  unfolding parse_message_features_def mf_ranges_def
  by (auto simp: bindE_Inr_iff dest!: field_int_range field_ms_ok)

lemma parse_summary_features_ranges: "parse_summary_features v = Inr f \<Longrightarrow> sf_ranges f"
  unfolding parse_summary_features_def sf_ranges_def
  by (auto simp: bindE_Inr_iff dest!: field_int_range field_ms_ok)

lemma parse_dump_message_features:
  "mf_ranges f \<Longrightarrow> parse_message_features (PyDict (dump_message_features f)) = Inr f"
  by (simp add: parse_message_features_def field_found mf_ranges_def dump_message_features_def)

lemma parse_dump_summary_features:
  "sf_ranges f \<Longrightarrow> parse_summary_features (PyDict (dump_summary_features f)) = Inr f"
  by (simp add: parse_summary_features_def field_found sf_ranges_def dump_summary_features_def)

lemma u64_float: "0 \<le> n \<Longrightarrow> n \<le> 2 ^ 64 - 1 \<Longrightarrow> is_finite (float_of_int n) \<and> 0 \<le> fval (float_of_int n)"
  using float_of_int_range [of n] by auto

lemma message_values_valid:
  assumes "mf_ranges f"
  shows "validate_feature_values OPERATIONAL_CONTRACT ''message'' (dump_message_features f)
           = Inr (dict_floats (dump_message_features f) MESSAGE_FEATURE_ORDER)"
  unfolding validate_feature_values_Inr contract_orders
  using assms
  by (simp add: contract_orders dump_message_features_def MESSAGE_FEATURE_ORDER_def
      OPERATIONAL_CONTRACT_def mf_ranges_def int_def_def num_def_def ms_ok_def u64_float)

lemma summary_values_valid:
  assumes "sf_ranges f"
  shows "validate_feature_values OPERATIONAL_CONTRACT ''session_summary'' (dump_summary_features f)
           = Inr (dict_floats (dump_summary_features f) SESSION_SUMMARY_FEATURE_ORDER)"
  unfolding validate_feature_values_Inr contract_orders
  using assms
  by (simp add: contract_orders dump_summary_features_def SESSION_SUMMARY_FEATURE_ORDER_def
      OPERATIONAL_CONTRACT_def sf_ranges_def int_def_def num_def_def ms_ok_def u64_float)

section \<open>Relations between the blocks\<close>

lemma ms_ok_not_NaN: "ms_ok x \<Longrightarrow> x \<noteq> NaN"
  by (auto simp: ms_ok_def)

lemma check_timestamp_iff: "check_timestamp fromiso s = Inr u \<longleftrightarrow> utc_timestamp fromiso s"
  by (simp add: check_timestamp_def utc_timestamp_def split: option.split)

lemma message_duplicates_iff:
  assumes "mf_ranges (mr_features r)"
  shows "forE (check_duplicate (model_dump (MessageRequest r))) (ed_dups message_event) = Inr u
     \<longleftrightarrow> message_mirrors r"
  using assms
  by (cases "mr_features r")
    (auto simp: bindE_Inr_iff check_duplicate_def message_event_def lookupE_def feq_iff
      dump_message_features_def dump_message_session_def dump_message_info_def
      message_mirrors_def mf_ranges_def dest: ms_ok_not_NaN)

lemma summary_duplicates_iff:
  assumes "sf_ranges (sr_features r)"
  shows "forE (check_duplicate (model_dump (SummaryRequest r))) (ed_dups summary_event) = Inr u
     \<longleftrightarrow> summary_mirrors r"
  using assms
  by (cases "sr_features r")
    (auto simp: bindE_Inr_iff check_duplicate_def summary_event_def lookupE_def feq_iff
      dump_summary_features_def dump_session_summary_def
      summary_mirrors_def sf_ranges_def dest: ms_ok_not_NaN)

lemma message_rules_iff:
  assumes "info_ranges (mr_message r)"
  shows "check_message_rules OPERATIONAL_CONTRACT (model_dump (MessageRequest r)) = Inr u \<longleftrightarrow>
     mi_packet_size (mr_message r) = mi_payload_size (mr_message r) + 8 \<and>
     (mi_request_index (mr_message r) = 1 \<longrightarrow> mi_message_interval_ms (mr_message r) = Fin 0)"
  using assms
  by (auto simp: check_message_rules_def py_item2_def lookupE_def dump_message_info_def
      OPERATIONAL_CONTRACT_def info_ranges_def feq_iff)

lemma summary_rules_iff:
  "check_summary_rules (model_dump (SummaryRequest r)) = Inr u \<longleftrightarrow>
     ss_is_started (sr_session r) \<and> ss_is_closed (sr_session r) \<and>
     (ss_request_count (sr_session r) \<le> 1 \<longrightarrow> ss_avg_message_interval_ms (sr_session r) = Fin 0)"
  by (auto simp: check_summary_rules_def py_item2_def lookupE_def dump_session_summary_def feq_iff)

lemma message_relations_iff:
  assumes "session_ranges (mr_session r)" and "info_ranges (mr_message r)"
    and "mf_ranges (mr_features r)"
  shows "validate_snapshot_relations fromiso OPERATIONAL_CONTRACT (model_dump (MessageRequest r)) = Inr u
     \<longleftrightarrow> message_mirrors r \<and> utc_timestamp fromiso (mr_timestamp r) \<and>
       mi_packet_size (mr_message r) = mi_payload_size (mr_message r) + 8 \<and>
       (mi_request_index (mr_message r) = 1 \<longrightarrow> mi_message_interval_ms (mr_message r) = Fin 0)"
proof -
  let ?d = "model_dump (MessageRequest r)"
  have lk: "lookupE ?d ''event_type'' = Inr (PyStr ''message'')"
    "lookupE ?d ''feature_contract_id'' = Inr (PyStr (ed_contract_id message_event))"
    "lookupE ?d ''features'' = Inr (PyDict (dump_message_features (mr_features r)))"
    "lookupE ?d ''timestamp'' = Inr (PyStr (mr_timestamp r))"
    "py_item2 ?d ''session'' ''session_id'' = Inr (PyInt (si_session_id (mr_session r)))"
    by (simp_all add: lookupE_def py_item2_def dump_message_session_def message_event_def)
  have ev: "lookupE (ct_events OPERATIONAL_CONTRACT) ''message'' = Inr message_event"
    by (simp add: contract_orders)
  have sid: "\<not> si_session_id (mr_session r) \<le> 0"
    using assms(1) by (simp add: session_ranges_def)
  show ?thesis
    unfolding validate_snapshot_relations_def lk
    by (simp add: ev sid message_values_valid [OF assms(3)] bindE_Inr_iff
        message_duplicates_iff [OF assms(3)] message_rules_iff [OF assms(2)] check_timestamp_iff
        del: model_dump.simps)
qed

lemma summary_relations_iff:
  assumes "summary_ranges (sr_session r)" and "sf_ranges (sr_features r)"
  shows "validate_snapshot_relations fromiso OPERATIONAL_CONTRACT (model_dump (SummaryRequest r)) = Inr u
     \<longleftrightarrow> summary_mirrors r \<and> utc_timestamp fromiso (sr_timestamp r) \<and>
       ss_is_started (sr_session r) \<and> ss_is_closed (sr_session r) \<and>
       (ss_request_count (sr_session r) \<le> 1 \<longrightarrow> ss_avg_message_interval_ms (sr_session r) = Fin 0)"
proof -
  let ?d = "model_dump (SummaryRequest r)"
  have lk: "lookupE ?d ''event_type'' = Inr (PyStr ''session_summary'')"
    "lookupE ?d ''feature_contract_id'' = Inr (PyStr (ed_contract_id summary_event))"
    "lookupE ?d ''features'' = Inr (PyDict (dump_summary_features (sr_features r)))"
    "lookupE ?d ''timestamp'' = Inr (PyStr (sr_timestamp r))"
    "py_item2 ?d ''session'' ''session_id'' = Inr (PyInt (ss_session_id (sr_session r)))"
    by (simp_all add: lookupE_def py_item2_def dump_session_summary_def summary_event_def)
  have ev: "lookupE (ct_events OPERATIONAL_CONTRACT) ''session_summary'' = Inr summary_event"
    by (simp add: contract_orders)
  have sid: "\<not> ss_session_id (sr_session r) \<le> 0"
    using assms(1) by (simp add: summary_ranges_def)
  show ?thesis
    unfolding validate_snapshot_relations_def lk
    by (simp add: ev sid summary_values_valid [OF assms(2)] bindE_Inr_iff
        summary_duplicates_iff [OF assms(2)] summary_rules_iff check_timestamp_iff
        del: model_dump.simps)
qed

section \<open>Acceptance\<close>

lemma session_rangesD: "session_ranges s \<Longrightarrow> ms_ok (si_connection_duration_ms s)"
  by (simp add: session_ranges_def)

lemma mirrors_mf_ranges:
  "message_mirrors r \<Longrightarrow> session_ranges (mr_session r) \<Longrightarrow> info_ranges (mr_message r)
     \<Longrightarrow> mf_ranges (mr_features r)"
  by (simp add: message_mirrors_def mf_ranges_def session_ranges_def info_ranges_def)

lemma mirrors_sf_ranges:
  "summary_mirrors r \<Longrightarrow> summary_ranges (sr_session r) \<Longrightarrow> sf_ranges (sr_features r)"
  by (simp add: summary_mirrors_def sf_ranges_def summary_ranges_def)

lemma message_request_eta:
  "\<lparr>mr_queue_sequence_id = mr_queue_sequence_id r, mr_timestamp = mr_timestamp r,
    mr_session = mr_session r, mr_message = mr_message r, mr_features = mr_features r\<rparr> = r"
  by simp

lemma summary_request_eta:
  "\<lparr>sr_queue_sequence_id = sr_queue_sequence_id r, sr_timestamp = sr_timestamp r,
    sr_session = sr_session r, sr_features = sr_features r\<rparr> = r"
  by simp

lemma parse_message_request_ok:
  assumes "parse_message_request fromiso v = Inr r"
  shows "message_ok fromiso r"
proof -
  from assms obtain d where
    q: "u64 (mr_queue_sequence_id r)" and
    s: "session_ranges (mr_session r)" and m: "info_ranges (mr_message r)" and
    f: "mf_ranges (mr_features r)" and
    rel: "validate_snapshot_relations fromiso OPERATIONAL_CONTRACT
            (model_dump (MessageRequest r)) = Inr d"
    unfolding parse_message_request_def Let_def
    by (auto simp: bindE_Inr_iff field_Inr_iff simp del: model_dump.simps
        dest!: parse_message_session_ranges parse_message_info_ranges
          parse_message_features_ranges simp: strict_int_Inr_iff)
  show ?thesis
    using q s m rel [unfolded message_relations_iff [OF s m f]] by (simp add: message_ok_def)
qed

lemma parse_summary_request_ok:
  assumes "parse_summary_request fromiso v = Inr r"
  shows "summary_ok fromiso r"
proof -
  from assms obtain d where
    q: "u64 (sr_queue_sequence_id r)" and
    s: "summary_ranges (sr_session r)" and
    f: "sf_ranges (sr_features r)" and
    rel: "validate_snapshot_relations fromiso OPERATIONAL_CONTRACT
            (model_dump (SummaryRequest r)) = Inr d"
    unfolding parse_summary_request_def Let_def
    by (auto simp: bindE_Inr_iff field_Inr_iff simp del: model_dump.simps
        dest!: parse_session_summary_ranges
          parse_summary_features_ranges simp: strict_int_Inr_iff)
  show ?thesis
    using q s rel [unfolded summary_relations_iff [OF s f]] by (simp add: summary_ok_def)
qed

lemma parse_dump_message:
  assumes "message_ok fromiso r"
  shows "parse_message_request fromiso (PyDict (model_dump (MessageRequest r))) = Inr r"
proof -
  let ?d = "model_dump (MessageRequest r)"
  have s: "session_ranges (mr_session r)" and m: "info_ranges (mr_message r)" and
    f: "mf_ranges (mr_features r)" and q: "u64 (mr_queue_sequence_id r)"
    using assms mirrors_mf_ranges by (auto simp: message_ok_def)
  have rel: "validate_snapshot_relations fromiso OPERATIONAL_CONTRACT ?d = Inr ()"
    using assms unfolding message_relations_iff [OF s m f] message_ok_def by blast
  have lk: "field ?d ''schema_version'' (literal_field ''v1'') = Inr ()"
    "field ?d ''feature_contract_id'' (literal_field ''server_application_message_v2'') = Inr ()"
    "field ?d ''event_type'' (literal_field ''message'') = Inr ()"
    "field ?d ''queue_sequence_id'' NonNegativeInt = Inr (mr_queue_sequence_id r)"
    "field ?d ''timestamp'' str_field = Inr (mr_timestamp r)"
    "field ?d ''session'' parse_message_session = Inr (mr_session r)"
    "field ?d ''message'' parse_message_info = Inr (mr_message r)"
    "field ?d ''features'' parse_message_features = Inr (mr_features r)"
    using q s m f
    by (simp_all add: field_found literal_field_def check_def parse_dump_message_session
        parse_dump_message_info parse_dump_message_features)
  have "model_fields [''schema_version'', ''feature_contract_id'', ''event_type'',
        ''queue_sequence_id'', ''timestamp'', ''session'', ''message'', ''features''] (PyDict ?d) = Inr ?d"
    by simp
  note step = this lk
  show ?thesis
    by (simp only: parse_message_request_def step bindE_simps Let_def message_request_eta rel)
qed

lemma parse_dump_summary:
  assumes "summary_ok fromiso r"
  shows "parse_summary_request fromiso (PyDict (model_dump (SummaryRequest r))) = Inr r"
proof -
  let ?d = "model_dump (SummaryRequest r)"
  have s: "summary_ranges (sr_session r)" and
    f: "sf_ranges (sr_features r)" and q: "u64 (sr_queue_sequence_id r)"
    using assms mirrors_sf_ranges by (auto simp: summary_ok_def)
  have rel: "validate_snapshot_relations fromiso OPERATIONAL_CONTRACT ?d = Inr ()"
    using assms unfolding summary_relations_iff [OF s f] summary_ok_def by blast
  have lk: "field ?d ''schema_version'' (literal_field ''v1'') = Inr ()"
    "field ?d ''feature_contract_id'' (literal_field ''server_application_session_summary_v2'') = Inr ()"
    "field ?d ''event_type'' (literal_field ''session_summary'') = Inr ()"
    "field ?d ''queue_sequence_id'' NonNegativeInt = Inr (sr_queue_sequence_id r)"
    "field ?d ''timestamp'' str_field = Inr (sr_timestamp r)"
    "field ?d ''session'' parse_session_summary = Inr (sr_session r)"
    "field ?d ''features'' parse_summary_features = Inr (sr_features r)"
    using q s f
    by (simp_all add: field_found literal_field_def check_def parse_dump_session_summary
        parse_dump_summary_features)
  have "model_fields [''schema_version'', ''feature_contract_id'', ''event_type'',
        ''queue_sequence_id'', ''timestamp'', ''session'', ''features''] (PyDict ?d) = Inr ?d"
    by simp
  note step = this lk
  show ?thesis
    by (simp only: parse_summary_request_def step bindE_simps Let_def summary_request_eta rel)
qed

lemma parse_request_ok: "parse_request fromiso v = Inr r \<Longrightarrow> request_ok fromiso r"
  by (auto simp: parse_request_def bindE_Inr_iff split: if_splits
      dest: parse_message_request_ok parse_summary_request_ok)

lemma parse_request_dump: "request_ok fromiso r \<Longrightarrow> parse_request fromiso (PyDict (model_dump r)) = Inr r"
proof (cases r)
  case (MessageRequest m)
  assume "request_ok fromiso r"
  with MessageRequest have "parse_message_request fromiso (PyDict (model_dump (MessageRequest m))) = Inr m"
    using parse_dump_message by simp
  with MessageRequest show ?thesis by (simp add: parse_request_def lookupE_def)
next
  case (SummaryRequest m)
  assume "request_ok fromiso r"
  with SummaryRequest have "parse_summary_request fromiso (PyDict (model_dump (SummaryRequest m))) = Inr m"
    using parse_dump_summary by simp
  with SummaryRequest show ?thesis by (simp add: parse_request_def lookupE_def)
qed

section \<open>Properties\<close>

lemma build_message_vector:
  "fv_values (build_feature_vector (MessageRequest r))
     = dict_floats (dump_message_features (mr_features r)) MESSAGE_FEATURE_ORDER"
  by (simp add: build_feature_vector_def dict_floats_def)

lemma build_summary_vector:
  "fv_values (build_feature_vector (SummaryRequest r))
     = dict_floats (dump_summary_features (sr_features r)) SESSION_SUMMARY_FEATURE_ORDER"
  by (simp add: build_feature_vector_def dict_floats_def)

lemma int_float_ms_ok: "u64 n \<Longrightarrow> ms_ok (float_of_int n)"
  using u64_float [of n] by (simp add: ms_ok_def)

lemma message_floats_ms_ok:
  "mf_ranges f \<Longrightarrow> list_all ms_ok (dict_floats (dump_message_features f) MESSAGE_FEATURE_ORDER)"
  by (simp add: dict_floats_def MESSAGE_FEATURE_ORDER_def py_get_def dump_message_features_def
      mf_ranges_def int_float_ms_ok)

lemma summary_floats_ms_ok:
  "sf_ranges f \<Longrightarrow> list_all ms_ok (dict_floats (dump_summary_features f) SESSION_SUMMARY_FEATURE_ORDER)"
  by (simp add: dict_floats_def SESSION_SUMMARY_FEATURE_ORDER_def py_get_def dump_summary_features_def
      sf_ranges_def int_float_ms_ok)

lemma request_ok_vector:
  assumes "request_ok fromiso r"
  shows "validate_feature_values OPERATIONAL_CONTRACT (event_type_of r) (features_dict r)
           = Inr (fv_values (build_feature_vector r))"
    and "list_all ms_ok (fv_values (build_feature_vector r))"
proof -
  have "validate_feature_values OPERATIONAL_CONTRACT (event_type_of r) (features_dict r)
           = Inr (fv_values (build_feature_vector r)) \<and>
        list_all ms_ok (fv_values (build_feature_vector r))"
  proof (cases r)
    case (MessageRequest m)
    then have "mf_ranges (mr_features m)"
      using assms mirrors_mf_ranges by (simp add: message_ok_def)
    with MessageRequest show ?thesis
      by (simp add: message_values_valid build_message_vector message_floats_ms_ok)
  next
    case (SummaryRequest m)
    then have "sf_ranges (sr_features m)"
      using assms mirrors_sf_ranges by (simp add: summary_ok_def)
    with SummaryRequest show ?thesis
      by (simp add: summary_values_valid build_summary_vector summary_floats_ms_ok)
  qed
  then show "validate_feature_values OPERATIONAL_CONTRACT (event_type_of r) (features_dict r)
           = Inr (fv_values (build_feature_vector r))"
    and "list_all ms_ok (fv_values (build_feature_vector r))" by simp_all
qed

definition sample_message :: request where
  "sample_message = MessageRequest
     \<lparr>mr_queue_sequence_id = 4, mr_timestamp = ''2026-01-01T00:00:00Z'',
      mr_session = \<lparr>si_session_id = 7, si_socket_handle = 12, si_logic_worker_id = 0,
        si_connection_duration_ms = Fin 0, si_bytes_received_total = 20,
        si_bytes_sent_total = 0, si_error_count_total = 0\<rparr>,
      mr_message = \<lparr>mi_request_index = 1, mi_packet_id = 1, mi_packet_size = 20,
        mi_payload_size = 12, mi_message_interval_ms = Fin 0\<rparr>,
      mr_features = \<lparr>mf_packet_size = 20, mf_payload_size = 12,
        mf_connection_duration_ms = Fin 0, mf_message_interval_ms = Fin 0,
        mf_bytes_received_total = 20, mf_bytes_sent_total = 0, mf_error_count_total = 0\<rparr>\<rparr>"

lemma sample_message_ok: "request_ok (\<lambda>_. Some (Aware 0 0)) sample_message"
  by (simp add: sample_message_def message_ok_def session_ranges_def info_ranges_def ms_ok_def
      message_mirrors_def utc_timestamp_def)

text \<open>
  \<open>validate_feature_values\<close> succeeds exactly when the event is known, the keys are
  exactly the event's features and every value satisfies its definition (an integer where
  the contract says integer, finite as a float, not below the minimum); the result is then
  the values as floats in the contract's order, and no other list.
\<close>

theorem validate_feature_values_spec:
  "validate_feature_values C event_type values = Inr xs \<longleftrightarrow>
     (\<exists>event. map_of (ct_events C) event_type = Some event \<and>
        set (map fst values) = set (ed_order event) \<and>
        list_all (\<lambda>name. \<exists>v d. map_of values name = Some v \<and>
           map_of (ct_features C) name = Some d \<and> feature_ok d v) (ed_order event) \<and>
        xs = dict_floats values (ed_order event))"
  by (rule validate_feature_values_Inr)

text \<open>
  C19: the request models accept the dump of a request exactly when the request keeps every
  declared range, its feature block repeats its session and message blocks, its timestamp
  is UTC and its size, first-message and closing rules hold.
\<close>

theorem request_accepted_iff:
  "parse_request fromiso (PyDict (model_dump r)) = Inr r \<longleftrightarrow> request_ok fromiso r"
  using parse_request_ok parse_request_dump by blast

text \<open>
  C24: whatever body was sent, the dump of the accepted request parses to the same
  request: integers given for float fields are normalised once, and validation is
  idempotent.
\<close>

theorem parse_dump_roundtrip:
  assumes "parse_request fromiso v = Inr r"
  shows "parse_request fromiso (PyDict (model_dump r)) = Inr r"
  using parse_request_dump [OF parse_request_ok [OF assms]] .

lemma parse_dump_roundtrip_witness:
  "parse_request (\<lambda>_. Some (Aware 0 0)) (PyDict (model_dump sample_message)) = Inr sample_message"
  by (rule parse_dump_roundtrip [OF parse_request_dump [OF sample_message_ok]])

text \<open>
  C20: for every accepted request the online vector of \<open>build_feature_vector\<close> is the
  vector the shared offline validator returns for the same features, in the contract's
  order, with every entry finite and non-negative.
\<close>

theorem online_vector_agrees:
  assumes "parse_request fromiso v = Inr r"
  shows "validate_feature_values OPERATIONAL_CONTRACT (event_type_of r) (features_dict r)
           = Inr (fv_values (build_feature_vector r)) \<and>
         list_all ms_ok (fv_values (build_feature_vector r)) \<and>
         length (fv_values (build_feature_vector r)) = length (fv_names (build_feature_vector r))"
  using request_ok_vector [OF parse_request_ok [OF assms]]
  by (simp add: build_feature_vector_def Let_def)

lemma online_vector_agrees_witness:
  "fv_names (build_feature_vector sample_message) = MESSAGE_FEATURE_ORDER \<and>
   validate_feature_values OPERATIONAL_CONTRACT ''message'' (features_dict sample_message)
     = Inr (fv_values (build_feature_vector sample_message))"
  using online_vector_agrees [OF parse_request_dump [OF sample_message_ok]]
  by (simp add: sample_message_def build_feature_vector_def Let_def)

end
