(* ===== verification/Collection_Config.thy ===== *)
theory Collection_Config
  imports Request_Model
begin

text \<open>
  \<open>data_collection/config.py\<close>: identifiers, scenarios, the scenario manifest and the
  collection configuration, parsed from decoded JSON. The lax conversions of pydantic
  (\<open>lax_float\<close>, \<open>lax_bool\<close>) and the decoder of a byte string are parameters.
\<close>

section \<open>Identifiers\<close>

definition is_digit :: "char \<Rightarrow> bool" where
  "is_digit c \<longleftrightarrow> CHR ''0'' \<le> c \<and> c \<le> CHR ''9''"

definition is_alnum :: "char \<Rightarrow> bool" where
  "is_alnum c \<longleftrightarrow> is_digit c \<or> (CHR ''A'' \<le> c \<and> c \<le> CHR ''Z'') \<or> (CHR ''a'' \<le> c \<and> c \<le> CHR ''z'')"

definition is_hex :: "char \<Rightarrow> bool" where
  "is_hex c \<longleftrightarrow> is_digit c \<or> (CHR ''a'' \<le> c \<and> c \<le> CHR ''f'')"

text \<open>\<open>^[A-Za-z0-9][A-Za-z0-9_-]{0,95}$\<close>.\<close>

fun is_identifier :: "string \<Rightarrow> bool" where
  "is_identifier [] = False"
| "is_identifier (c # cs) \<longleftrightarrow>
     is_alnum c \<and> list_all (\<lambda>d. is_alnum d \<or> d = CHR ''_'' \<or> d = CHR ''-'') cs \<and> length cs \<le> 95"

text \<open>\<open>^sha256:[0-9a-f]{64}$\<close>.\<close>

definition is_build_id :: "string \<Rightarrow> bool" where
  "is_build_id s \<longleftrightarrow> take 7 s = ''sha256:'' \<and> length s = 71 \<and> list_all is_hex (drop 7 s)"

definition ident_field :: "py \<Rightarrow> string res" where
  "ident_field v = bindE (str_field v) (\<lambda>s.
     if is_identifier s then Inr s else Inl (ValueError ''identifier''))"

definition nonempty_str :: "py \<Rightarrow> string res" where
  "nonempty_str v = bindE (str_field v) (\<lambda>s.
     if s \<noteq> [] then Inr s else Inl (ValueError ''min_length''))"

definition one_of :: "string list \<Rightarrow> py \<Rightarrow> string res" where
  "one_of names v = bindE (str_field v) (\<lambda>s.
     if s \<in> set names then Inr s else Inl (ValueError ''literal''))"

fun list_field :: "py \<Rightarrow> py list res" where
  "list_field (PyList xs) = Inr xs"
| "list_field _ = Inl (ValueError ''list expected'')"

text \<open>An optional field with its default, after the extra fields are rejected.\<close>

definition default_field :: "(string \<times> py) list \<Rightarrow> string \<Rightarrow> 'a \<Rightarrow> (py \<Rightarrow> 'a res) \<Rightarrow> 'a res" where
  "default_field d name dflt p = (case map_of d name of None \<Rightarrow> Inr dflt | Some v \<Rightarrow> p v)"

fun no_extra :: "string list \<Rightarrow> py \<Rightarrow> (string \<times> py) list res" where
  "no_extra names (PyDict d) =
     (if set (map fst d) \<subseteq> set names then Inr d else Inl (ValueError ''extra field''))"
| "no_extra names _ = Inl (ValueError ''object expected'')"

section \<open>Scenarios\<close>

record scenario =
  sn_scenario_id :: string
  sn_label :: int
  sn_label_name :: string
  sn_description :: string
  sn_traffic_profile :: string

record scenario_manifest =
  sm_label_source :: string
  sm_scenarios :: "scenario list"

definition validate_label :: "scenario \<Rightarrow> unit res" where
  "validate_label s =
     check (sn_label_name s = (if sn_label s = 0 then ''normal'' else ''controlled_anomaly''))
       (ValueError ''label and label_name differ'')"

definition parse_scenario :: "py \<Rightarrow> scenario res" where
  "parse_scenario v =
     bindE (no_extra [''scenario_id'', ''label'', ''label_name'', ''description'',
        ''traffic_profile''] v) (\<lambda>d.
     bindE (field d ''scenario_id'' ident_field) (\<lambda>sid.
     bindE (field d ''label'' (strict_int 0 1)) (\<lambda>label.
     bindE (field d ''label_name'' (one_of [''normal'', ''controlled_anomaly''])) (\<lambda>name.
     bindE (field d ''description'' nonempty_str) (\<lambda>desc.
     bindE (field d ''traffic_profile'' nonempty_str) (\<lambda>tp.
     let s = \<lparr>sn_scenario_id = sid, sn_label = label, sn_label_name = name,
              sn_description = desc, sn_traffic_profile = tp\<rparr> in
     bindE (validate_label s) (\<lambda>_. Inr s)))))))"

definition validate_unique_ids :: "scenario_manifest \<Rightarrow> unit res" where
  "validate_unique_ids m =
     check (length (map sn_scenario_id (sm_scenarios m))
              = card (set (map sn_scenario_id (sm_scenarios m))))
       (ValueError ''duplicate scenario_id'')"

definition parse_manifest :: "py \<Rightarrow> scenario_manifest res" where
  "parse_manifest v =
     bindE (no_extra [''manifest_version'', ''label_source'', ''scenarios''] v) (\<lambda>d.
     bindE (field d ''manifest_version'' (one_of [''v1''])) (\<lambda>_.
     bindE (field d ''label_source'' (one_of [''independent_scenario_definition''])) (\<lambda>src.
     bindE (field d ''scenarios'' list_field) (\<lambda>xs.
     bindE (mapE parse_scenario xs) (\<lambda>scenarios.
       if scenarios = [] then Inl (ValueError ''min_length'') else
     let m = \<lparr>sm_label_source = src, sm_scenarios = scenarios\<rparr> in
     bindE (validate_unique_ids m) (\<lambda>_. Inr m))))))"

text \<open>
  \<open>load_manifest\<close>: \<open>content\<close> is the byte string of the file, \<open>decode\<close> its JSON
  decoding (\<open>None\<close> when it is not JSON), \<open>sha256\<close> the hex digest.
\<close>

definition load_manifest ::
    "('b \<Rightarrow> py option) \<Rightarrow> ('b \<Rightarrow> string) \<Rightarrow> 'b \<Rightarrow> string
      \<Rightarrow> (scenario_manifest \<times> scenario \<times> string) res" where
  "load_manifest decode sha256 content scenario_id =
     (case decode content of None \<Rightarrow> Inl (ValueError ''json'')
      | Some v \<Rightarrow>
     bindE (parse_manifest v) (\<lambda>manifest.
       case List.find (\<lambda>s. sn_scenario_id s = scenario_id) (sm_scenarios manifest) of
         Some s \<Rightarrow> Inr (manifest, s, sha256 content)
       | None \<Rightarrow> Inl (ValueError ''scenario_id not in manifest'')))"

section \<open>Paths and the collection configuration\<close>

datatype path = Abs "string list" | Rel "string list"

fun is_absolute :: "path \<Rightarrow> bool" where
  "is_absolute (Abs _) = True"
| "is_absolute (Rel _) = False"

text \<open>\<open>base / p\<close>: an absolute right operand replaces the base.\<close>

fun path_join :: "path \<Rightarrow> path \<Rightarrow> path" where
  "path_join _ (Abs q) = Abs q"
| "path_join (Abs p) (Rel q) = Abs (p @ q)"
| "path_join (Rel p) (Rel q) = Rel (p @ q)"

fun path_parent :: "path \<Rightarrow> path" where
  "path_parent (Abs p) = Abs (butlast p)"
| "path_parent (Rel p) = Rel (butlast p)"

record collection_config =
  cc_run_id :: string
  cc_scenario_id :: string
  cc_server_build_id :: string
  cc_scenario_manifest :: path
  cc_dataset_purpose :: string
  cc_output_dir :: path
  cc_queue_capacity :: int
  cc_flush_interval_s :: pyfloat
  cc_shutdown_timeout_s :: pyfloat
  cc_verbose_payload_logging :: bool

definition positive_upto :: "(py \<Rightarrow> pyfloat res) \<Rightarrow> rat \<Rightarrow> py \<Rightarrow> pyfloat res" where
  "positive_upto lax_float hi v = bindE (lax_float v) (\<lambda>x.
     if is_finite x \<and> flt (Fin 0) x \<and> fle x (Fin hi) then Inr x else Inl (ValueError ''float range''))"

fun resolve_entry :: "(string \<Rightarrow> path) \<Rightarrow> path \<Rightarrow> py option \<Rightarrow> path option res" where
  "resolve_entry to_path config_path None = Inr None"
| "resolve_entry to_path config_path (Some (PyStr s)) =
     Inr (Some (if is_absolute (to_path s) then to_path s
                else path_join (path_parent config_path) (to_path s)))"
| "resolve_entry to_path config_path (Some _) = Inl (TypeError ''path'')"

definition build_id :: "py \<Rightarrow> string res" where
  "build_id v = bindE (str_field v) (\<lambda>s.
     if is_build_id s then Inr s else Inl (ValueError ''server_build_id''))"

text \<open>
  \<open>load_collection_config\<close>: a relative \<open>scenario_manifest\<close> or \<open>output_dir\<close> is taken
  from the directory of the configuration file; defaults stay as they are.
\<close>

definition load_collection_config ::
    "(py \<Rightarrow> pyfloat res) \<Rightarrow> (py \<Rightarrow> bool res) \<Rightarrow> (string \<Rightarrow> path) \<Rightarrow> path \<Rightarrow> path \<Rightarrow> py
      \<Rightarrow> collection_config res" where
  "load_collection_config lax_float lax_bool to_path ai_root config_path values =
     bindE (resolve_entry to_path config_path (map_of (as_dict values) ''scenario_manifest'')) (\<lambda>sm'.
     bindE (resolve_entry to_path config_path (map_of (as_dict values) ''output_dir'')) (\<lambda>out'.
     bindE (no_extra [''config_version'', ''run_id'', ''scenario_id'', ''server_build_id'',
        ''scenario_manifest'', ''dataset_purpose'', ''output_dir'', ''queue_capacity'',
        ''flush_interval_s'', ''shutdown_timeout_s'', ''verbose_payload_logging''] values) (\<lambda>d.
     bindE (default_field d ''config_version'' ''v1'' (one_of [''v1''])) (\<lambda>_.
     bindE (field d ''run_id'' ident_field) (\<lambda>run_id.
     bindE (field d ''scenario_id'' ident_field) (\<lambda>sid.
     bindE (field d ''server_build_id'' build_id) (\<lambda>bid.
     bindE (case sm' of None \<Rightarrow> Inl (ValueError ''missing field'') | Some p \<Rightarrow> Inr p) (\<lambda>sm.
     bindE (field d ''dataset_purpose'' (one_of [''controlled_experiment'', ''integration_test'']))
       (\<lambda>purpose.
     bindE (default_field d ''queue_capacity'' 1024 (strict_int 1 100000)) (\<lambda>cap.
     bindE (default_field d ''flush_interval_s'' (Fin (1 / 2)) (positive_upto lax_float 60)) (\<lambda>fi.
     bindE (default_field d ''shutdown_timeout_s'' (Fin 10) (positive_upto lax_float 120)) (\<lambda>st.
     bindE (default_field d ''verbose_payload_logging'' False lax_bool) (\<lambda>vb.
     Inr \<lparr>cc_run_id = run_id, cc_scenario_id = sid, cc_server_build_id = bid,
       cc_scenario_manifest = sm, cc_dataset_purpose = purpose,
       cc_output_dir = (case out' of None \<Rightarrow> path_join ai_root (Rel [''data'', ''raw'', ''operational''])
         | Some p \<Rightarrow> p), cc_queue_capacity = cap, cc_flush_interval_s = fi,
       cc_shutdown_timeout_s = st, cc_verbose_payload_logging = vb\<rparr>)))))))))))))"

section \<open>Lemmas\<close>

lemma length_eq_card_iff [simp]: "length xs = card (set xs) \<longleftrightarrow> distinct xs"
  using card_distinct distinct_card by metis

lemma parse_scenario_sound:
  "parse_scenario v = Inr s \<Longrightarrow>
     is_identifier (sn_scenario_id s) \<and> sn_label s \<in> {0, 1} \<and>
     (sn_label s = 0 \<longleftrightarrow> sn_label_name s = ''normal'') \<and>
     (sn_label s = 1 \<longleftrightarrow> sn_label_name s = ''controlled_anomaly'')"
  by (auto simp: parse_scenario_def validate_label_def Let_def bindE_Inr_iff field_Inr_iff
      ident_field_def strict_int_Inr_iff split: if_splits)

lemma parse_manifest_sound:
  assumes "parse_manifest v = Inr m"
  shows "sm_scenarios m \<noteq> [] \<and> distinct (map sn_scenario_id (sm_scenarios m)) \<and>
     list_all (\<lambda>s. \<exists>w. parse_scenario w = Inr s) (sm_scenarios m)"
proof -
  from assms obtain xs where
    xs: "mapE parse_scenario xs = Inr (sm_scenarios m)" and
    ne: "sm_scenarios m \<noteq> []" and d: "distinct (map sn_scenario_id (sm_scenarios m))"
    unfolding parse_manifest_def Let_def validate_unique_ids_def
    by (auto simp: bindE_Inr_iff check_Inr_iff length_eq_card_iff simp del: length_map set_map
        split: if_splits)
  from xs have "list_all2 (\<lambda>x y. parse_scenario x = Inr y) xs (sm_scenarios m)"
    by (simp add: mapE_Inr_iff)
  then have "list_all (\<lambda>s. \<exists>w. parse_scenario w = Inr s) (sm_scenarios m)"
    by (auto simp: list_all_iff list_all2_conv_all_nth in_set_conv_nth) blast
  with ne d show ?thesis by blast
qed

text \<open>
  a loaded manifest holds at least one scenario, scenario ids are distinct
  identifiers, every label is 0 or 1 and matches its name, and the selected scenario is
  the one of the manifest with the configured id.
\<close>

theorem load_manifest_sound:
  assumes "load_manifest decode sha256 content sid = Inr (m, s, h)"
  shows "s \<in> set (sm_scenarios m) \<and> sn_scenario_id s = sid \<and> h = sha256 content \<and>
     distinct (map sn_scenario_id (sm_scenarios m)) \<and>
     is_identifier sid \<and> sn_label s \<in> {0, 1} \<and>
     (sn_label s = 1 \<longleftrightarrow> sn_label_name s = ''controlled_anomaly'')"
proof -
  from assms obtain v where v: "parse_manifest v = Inr m" "h = sha256 content"
    and f: "List.find (\<lambda>s. sn_scenario_id s = sid) (sm_scenarios m) = Some s"
    by (auto simp: load_manifest_def bindE_Inr_iff split: option.splits)
  from f have s: "s \<in> set (sm_scenarios m)" "sn_scenario_id s = sid"
    by (auto simp: find_Some_iff)
  then obtain w where "parse_scenario w = Inr s"
    using parse_manifest_sound [OF v(1)] by (auto simp: list_all_iff)
  from parse_scenario_sound [OF this] s v parse_manifest_sound [OF v(1)] show ?thesis by auto
qed

definition sample_scenario :: py where
  "sample_scenario = PyDict [(''scenario_id'', PyStr ''normal_chat''), (''label'', PyInt 0),
     (''label_name'', PyStr ''normal''), (''description'', PyStr ''d''),
     (''traffic_profile'', PyStr ''p'')]"

definition sample_manifest :: py where
  "sample_manifest = PyDict [(''manifest_version'', PyStr ''v1''),
     (''label_source'', PyStr ''independent_scenario_definition''),
     (''scenarios'', PyList [sample_scenario])]"

lemma sample_manifest_parses: "isl (parse_manifest sample_manifest) = False"
  by code_simp

lemma sample_manifest_id:
  "map sn_scenario_id (sm_scenarios (projr (parse_manifest sample_manifest))) = [''normal_chat'']"
  by code_simp

lemma load_manifest_sound_witness:
  "\<exists>m s. load_manifest (\<lambda>b. Some b) (\<lambda>_. ''h'') sample_manifest ''normal_chat'' = Inr (m, s, ''h'') \<and>
     s \<in> set (sm_scenarios m) \<and> sn_scenario_id s = ''normal_chat''"
proof -
  obtain m where m: "parse_manifest sample_manifest = Inr m"
    using sample_manifest_parses by (cases "parse_manifest sample_manifest") auto
  then obtain s where "sm_scenarios m = [s]" "sn_scenario_id s = ''normal_chat''"
    using sample_manifest_id by (auto simp: map_eq_Cons_conv)
  with m have "load_manifest (\<lambda>b. Some b) (\<lambda>_. ''h'') sample_manifest ''normal_chat'' = Inr (m, s, ''h'')"
    by (simp add: load_manifest_def)
  from this load_manifest_sound [OF this] show ?thesis by blast
qed

end
