(* ===== verification/Jsonl_Collector.thy ===== *)
theory Jsonl_Collector
  imports Transition Collection_Config "HOL-Library.Sublist"
begin

text \<open>
  \<open>data_collection/collector.py\<close>: the asynchronous JSONL collector. Its state is the
  bounded queue, the counters of \<open>_stats\<close>, the flags, the program counter of the single
  writer thread and the lines of the stream. Each constructor of \<open>worker_pc\<close> is a point of
  \<open>_run\<close> between two atomic actions (a locked block, a queue operation, a stream call);
  the lock is held across \<open>put_nowait\<close> and the counter update of \<open>try_collect\<close>, which
  \<open>c_putting\<close> records, while the writer's \<open>get\<close> needs no lock.
\<close>

section \<open>Records and state\<close>

record collected =
  co_sequence_id :: int
  co_received_at :: string
  co_run_id :: string
  co_scenario_id :: string
  co_server_build_id :: string
  co_session_id :: py
  co_request_index :: py
  co_label_reference :: string
  co_payload :: "(string \<times> py) list"

record stats =
  s_attempted :: nat
  s_enqueued :: nat
  s_written :: nat
  s_flushed :: nat
  s_dropped_full :: nat
  s_dropped_closed :: nat
  s_dropped_failed :: nat
  s_failed_records :: nat
  s_queue_high_watermark :: nat
  s_shutdown_timed_out :: bool
  s_shutdown_complete :: bool
  s_write_error :: "exn option"
  s_summary_error :: "exn option"
  s_state :: string

record status_doc =
  d_stats :: stats
  d_pending :: nat
  d_in_flight :: nat
  d_unfinished :: int

datatype worker_pc =
    WLoop
  | WGot collected
  | WWrite collected
  | WWrote collected
  | WWriteFailed exn
  | WDone
  | WFailDone exn
  | WTick
  | WFlushed
  | WFinal
  | WFinalFlushed
  | WFail exn bool
  | WDrain exn bool
  | WDrained exn bool
  | WClose
  | WEnd
  | WStatus
  | WSummary status_doc bool
  | WExit

record collector =
  c_queue :: "collected list"
  c_accepting :: bool
  c_in_flight :: nat
  c_stats :: stats
  c_stop_requested :: bool
  c_putting :: bool
  c_pc :: worker_pc
  c_lines :: "collected list"
  c_disk :: "collected list"
  c_summary :: "(status_doc \<times> bool) option"

definition initial_stats :: stats where
  "initial_stats =
     \<lparr>s_attempted = 0, s_enqueued = 0, s_written = 0, s_flushed = 0, s_dropped_full = 0,
      s_dropped_closed = 0, s_dropped_failed = 0, s_failed_records = 0,
      s_queue_high_watermark = 0, s_shutdown_timed_out = False, s_shutdown_complete = False,
      s_write_error = None, s_summary_error = None, s_state = ''running''\<rparr>"

definition initial_collector :: collector where
  "initial_collector =
     \<lparr>c_queue = [], c_accepting = True, c_in_flight = 0, c_stats = initial_stats,
      c_stop_requested = False, c_putting = False, c_pc = WLoop, c_lines = [], c_disk = [],
      c_summary = None\<rparr>"

definition upd_stats :: "(stats \<Rightarrow> stats) \<Rightarrow> collector \<Rightarrow> collector" where
  "upd_stats f s = s\<lparr>c_stats := f (c_stats s)\<rparr>"

section \<open>Producer\<close>

text \<open>The session id and request index of a snapshot, as \<open>try_collect\<close> reads them.\<close>

definition snapshot_ids :: "(string \<times> py) list \<Rightarrow> (py \<times> py) res" where
  "snapshot_ids snapshot =
     bindE (py_item2 snapshot ''session'' ''session_id'') (\<lambda>sid.
     case map_of snapshot ''message'' of
       None \<Rightarrow> Inr (sid, PyNone)
     | Some (PyDict m) \<Rightarrow> Inr (sid, py_get m ''request_index'')
     | Some _ \<Rightarrow> Inl (AttributeError ''get''))"

definition make_record ::
    "collection_config \<Rightarrow> nat \<Rightarrow> string \<Rightarrow> (string \<times> py) list \<Rightarrow> py \<times> py \<Rightarrow> collected" where
  "make_record cfg n received_at snapshot ids =
     \<lparr>co_sequence_id = int n, co_received_at = received_at, co_run_id = cc_run_id cfg,
      co_scenario_id = cc_scenario_id cfg, co_server_build_id = cc_server_build_id cfg,
      co_session_id = fst ids, co_request_index = snd ids,
      co_label_reference = ''run_manifest.json:selected_scenario'', co_payload = snapshot\<rparr>"

text \<open>
  The locked block of \<open>try_collect\<close> up to \<open>put_nowait\<close>. The result is \<open>Inr None\<close> when the
  record was put and the counters are still to be updated (lock held), \<open>Inr (Some False)\<close>
  when it was refused, \<open>Inl\<close> when the snapshot has no session id (lock released).
\<close>

definition try_collect ::
    "collection_config \<Rightarrow> string \<Rightarrow> (string \<times> py) list \<Rightarrow> collector
      \<Rightarrow> (exn + bool option) \<times> collector" where
  "try_collect cfg received_at payload s =
     (let s1 = upd_stats (s_attempted_update Suc) s in
      if s_write_error (c_stats s1) \<noteq> None
        then (Inr (Some False), upd_stats (s_dropped_failed_update Suc) s1)
      else if \<not> c_accepting s1
        then (Inr (Some False), upd_stats (s_dropped_closed_update Suc) s1)
      else case snapshot_ids payload of
        Inl e \<Rightarrow> (Inl e, s1)
      | Inr ids \<Rightarrow>
          (let rec = make_record cfg (s_attempted (c_stats s1)) received_at payload ids in
           if cc_queue_capacity cfg \<le> int (length (c_queue s1))
             then (Inr (Some False), upd_stats (s_dropped_full_update Suc) s1)
           else (Inr None, s1\<lparr>c_queue := c_queue s1 @ [rec], c_putting := True\<rparr>)))"

definition count_enqueued :: "collector \<Rightarrow> collector" where
  "count_enqueued s =
     upd_stats (\<lambda>t. t\<lparr>s_enqueued := Suc (s_enqueued t),
                    s_queue_high_watermark := max (s_queue_high_watermark t) (length (c_queue s))\<rparr>)
       (s\<lparr>c_putting := False\<rparr>)"

section \<open>Status and stop\<close>

definition status :: "collector \<Rightarrow> status_doc" where
  "status s =
     \<lparr>d_stats = c_stats s, d_pending = length (c_queue s), d_in_flight = c_in_flight s,
      d_unfinished = int (s_enqueued (c_stats s)) - int (s_written (c_stats s))
        - int (s_failed_records (c_stats s))\<rparr>"

definition stop_accepting :: "collector \<Rightarrow> collector" where
  "stop_accepting s =
     (let s1 = s\<lparr>c_accepting := False\<rparr> in
      if s_state (c_stats s1) = ''running'' then upd_stats (s_state_update (\<lambda>_. ''stopping'')) s1
      else s1)"

definition stop_request :: "collector \<Rightarrow> collector" where
  "stop_request s = s\<lparr>c_stop_requested := True\<rparr>"

text \<open>After the join: the timeout flag when the writer is still alive, else the verdict.\<close>

definition stop_join :: "collector \<Rightarrow> bool \<times> collector" where
  "stop_join s =
     (if c_pc s \<noteq> WExit then (False, upd_stats (s_shutdown_timed_out_update (\<lambda>_. True)) s)
      else (let t = d_stats (status s) in
            (s_shutdown_complete t \<and> \<not> s_shutdown_timed_out t \<and> s_summary_error t = None, s)))"

section \<open>Writer thread\<close>

definition complete_status :: "status_doc \<Rightarrow> bool" where
  "complete_status d =
     (let t = d_stats d in
      s_shutdown_complete t \<and> \<not> s_shutdown_timed_out t \<and> s_flushed t = s_enqueued t \<and>
      \<not> (s_dropped_full t \<noteq> 0 \<or> s_dropped_closed t \<noteq> 0 \<or> s_dropped_failed t \<noteq> 0 \<or>
          s_failed_records t \<noteq> 0))"

abbreviation goto :: "worker_pc \<Rightarrow> collector \<Rightarrow> collector" where
  "goto pc s \<equiv> s\<lparr>c_pc := pc\<rparr>"

text \<open>
  One atomic action of \<open>_run\<close>, \<open>_write_record\<close>, \<open>_flush\<close> or \<open>_fail\<close> per rule; where a
  call can raise, a second rule carries the exception. Rules for blocks under the lock wait
  until no producer holds it. The flag of \<open>WFail\<close>, \<open>WDrain\<close>, \<open>WDrained\<close> is set when the
  failure came from closing the stream, after which the close is not tried again.
\<close>

inductive worker_step :: "collector \<Rightarrow> collector \<Rightarrow> bool" where
  loop_end: "c_pc s = WLoop \<Longrightarrow> c_stop_requested s \<Longrightarrow> c_queue s = [] \<Longrightarrow>
     worker_step s (goto WFinal s)"
| loop_empty: "c_pc s = WLoop \<Longrightarrow> c_queue s = [] \<Longrightarrow> \<not> c_stop_requested s \<Longrightarrow>
     worker_step s (goto WTick s)"
| get: "c_pc s = WLoop \<Longrightarrow> c_queue s = r # q \<Longrightarrow>
     worker_step s (goto (WGot r) (s\<lparr>c_queue := q\<rparr>))"
| take: "c_pc s = WGot r \<Longrightarrow> \<not> c_putting s \<Longrightarrow>
     worker_step s (goto (WWrite r) (s\<lparr>c_in_flight := 1\<rparr>))"
| write_ok: "c_pc s = WWrite r \<Longrightarrow>
     worker_step s (goto (WWrote r) (s\<lparr>c_lines := c_lines s @ [r]\<rparr>))"
| write_fails: "c_pc s = WWrite r \<Longrightarrow>
     worker_step s (goto (WWriteFailed e) s)"
| count_written: "c_pc s = WWrote r \<Longrightarrow> \<not> c_putting s \<Longrightarrow>
     worker_step s (goto WDone (upd_stats (s_written_update Suc) s))"
| count_failed: "c_pc s = WWriteFailed e \<Longrightarrow> \<not> c_putting s \<Longrightarrow>
     worker_step s (goto (WFailDone e) (upd_stats (s_failed_records_update Suc) s))"
| done_ok: "c_pc s = WDone \<Longrightarrow> \<not> c_putting s \<Longrightarrow>
     worker_step s (goto WTick (s\<lparr>c_in_flight := 0\<rparr>))"
| done_failed: "c_pc s = WFailDone e \<Longrightarrow> \<not> c_putting s \<Longrightarrow>
     worker_step s (goto (WFail e False) (s\<lparr>c_in_flight := 0\<rparr>))"
| tick: "c_pc s = WTick \<Longrightarrow>
     worker_step s (goto WLoop s)"
| flush_ok: "c_pc s = WTick \<Longrightarrow>
     worker_step s (goto WFlushed (s\<lparr>c_disk := c_lines s\<rparr>))"
| flush_fails: "c_pc s = WTick \<Longrightarrow>
     worker_step s (goto (WFail e False) s)"
| count_flushed: "c_pc s = WFlushed \<Longrightarrow> \<not> c_putting s \<Longrightarrow>
     worker_step s (goto WLoop (upd_stats (\<lambda>t. t\<lparr>s_flushed := s_written t\<rparr>) s))"
| final_ok: "c_pc s = WFinal \<Longrightarrow>
     worker_step s (goto WFinalFlushed (s\<lparr>c_disk := c_lines s\<rparr>))"
| final_fails: "c_pc s = WFinal \<Longrightarrow>
     worker_step s (goto (WFail e False) s)"
| count_final: "c_pc s = WFinalFlushed \<Longrightarrow> \<not> c_putting s \<Longrightarrow>
     worker_step s (goto WClose (upd_stats (\<lambda>t. t\<lparr>s_flushed := s_written t\<rparr>) s))"
| fail: "c_pc s = WFail e c \<Longrightarrow> \<not> c_putting s \<Longrightarrow>
     worker_step s (goto (WDrain e c) (upd_stats (\<lambda>t. t\<lparr>s_write_error := (if s_write_error t = None then Some e else s_write_error t), s_state := ''failed''\<rparr>) (s\<lparr>c_accepting := False\<rparr>)))"
| drain_end: "c_pc s = WDrain e c \<Longrightarrow> c_queue s = [] \<Longrightarrow>
     worker_step s (goto (if c then WEnd else WClose) s)"
| drain_get: "c_pc s = WDrain e c \<Longrightarrow> c_queue s = r # q \<Longrightarrow>
     worker_step s (goto (WDrained e c) (s\<lparr>c_queue := q\<rparr>))"
| drain_count: "c_pc s = WDrained e c \<Longrightarrow> \<not> c_putting s \<Longrightarrow>
     worker_step s (goto (WDrain e c) (upd_stats (s_failed_records_update Suc) s))"
| close_ok: "c_pc s = WClose \<Longrightarrow>
     worker_step s (goto WEnd s)"
| close_fails: "c_pc s = WClose \<Longrightarrow>
     worker_step s (goto (WFail e True) s)"
| ended_ok: "c_pc s = WEnd \<Longrightarrow> s_write_error (c_stats s) = None \<Longrightarrow> \<not> c_putting s \<Longrightarrow>
     worker_step s (goto WStatus (upd_stats (\<lambda>t. t\<lparr>s_state := ''closed'', s_shutdown_complete := True\<rparr>) (s\<lparr>c_accepting := False\<rparr>)))"
| ended_failed: "c_pc s = WEnd \<Longrightarrow> s_write_error (c_stats s) \<noteq> None \<Longrightarrow> \<not> c_putting s \<Longrightarrow>
     worker_step s (goto WStatus (s\<lparr>c_accepting := False\<rparr>))"
| snapshot: "c_pc s = WStatus \<Longrightarrow> \<not> c_putting s \<Longrightarrow>
     worker_step s (goto (WSummary (status s) (complete_status (status s))) s)"
| summary_ok: "c_pc s = WSummary d b \<Longrightarrow>
     worker_step s (goto WExit (s\<lparr>c_summary := Some (d, b)\<rparr>))"
| summary_fails: "c_pc s = WSummary d b \<Longrightarrow>
     worker_step s (goto WExit (upd_stats (s_summary_error_update (\<lambda>_. Some e)) s))"

section \<open>Interleavings\<close>

text \<open>
  The other threads: requests handlers submit dumps of validated requests, and the
  application stops the collector. \<open>stop_request\<close> follows \<open>stop_accepting\<close>.
\<close>

inductive client_step :: "collection_config \<Rightarrow> collector \<Rightarrow> collector \<Rightarrow> bool" for cfg where
  collect: "\<not> c_putting s \<Longrightarrow> try_collect cfg now (model_dump r) s = (res, t) \<Longrightarrow> client_step cfg s t"
| count: "c_putting s \<Longrightarrow> client_step cfg s (count_enqueued s)"
| stop_accepting: "\<not> c_putting s \<Longrightarrow> client_step cfg s (stop_accepting s)"
| stop_request: "\<not> c_accepting s \<Longrightarrow> client_step cfg s (stop_request s)"
| stop_join: "c_stop_requested s \<Longrightarrow> \<not> c_putting s \<Longrightarrow> client_step cfg s (snd (stop_join s))"

definition collector_step :: "collection_config \<Rightarrow> collector \<Rightarrow> collector \<Rightarrow> bool" where
  "collector_step cfg s t \<longleftrightarrow> worker_step s t \<or> client_step cfg s t"

definition collector_init :: "collector \<Rightarrow> bool" where
  "collector_init s \<longleftrightarrow> s = initial_collector"


section \<open>Invariants\<close>

lemma upd_stats_simps [simp]:
  "c_stats (upd_stats f s) = f (c_stats s)"
  "c_queue (upd_stats f s) = c_queue s"
  "c_accepting (upd_stats f s) = c_accepting s"
  "c_in_flight (upd_stats f s) = c_in_flight s"
  "c_stop_requested (upd_stats f s) = c_stop_requested s"
  "c_putting (upd_stats f s) = c_putting s"
  "c_pc (upd_stats f s) = c_pc s"
  "c_lines (upd_stats f s) = c_lines s"
  "c_disk (upd_stats f s) = c_disk s"
  "c_summary (upd_stats f s) = c_summary s"
  by (simp_all add: upd_stats_def)

lemma snapshot_ids_dump: "\<exists>ids. snapshot_ids (model_dump r) = Inr ids"
  by (cases r) (simp_all add: snapshot_ids_def py_item2_def lookupE_def dump_message_session_def
      dump_session_summary_def)

text \<open>Records taken from the queue and not yet counted as written or failed.\<close>

fun held :: "worker_pc \<Rightarrow> nat" where
  "held (WGot _) = 1"
| "held (WWrite _) = 1"
| "held (WWrote _) = 1"
| "held (WWriteFailed _) = 1"
| "held (WDrained _ _) = 1"
| "held _ = 0"

fun pending_record :: "worker_pc \<Rightarrow> collected list" where
  "pending_record (WGot r) = [r]"
| "pending_record (WWrite r) = [r]"
| "pending_record _ = []"

definition puts :: "collector \<Rightarrow> nat" where
  "puts s = (if c_putting s then 1 else 0)"

definition counters_ok :: "collection_config \<Rightarrow> collector \<Rightarrow> bool" where
  "counters_ok cfg s \<longleftrightarrow> (let t = c_stats s in
     s_attempted t = s_enqueued t + puts s + s_dropped_full t + s_dropped_closed t + s_dropped_failed t \<and>
     s_enqueued t + puts s
       = s_written t + s_failed_records t + length (c_queue s) + held (c_pc s) \<and>
     int (length (c_queue s)) \<le> cc_queue_capacity cfg \<and>
     int (s_queue_high_watermark t) \<le> cc_queue_capacity cfg \<and>
     s_flushed t \<le> s_written t)"

text \<open>The points after the last \<open>get\<close>, inside the drain, and after the stream was given up.\<close>

fun final_pc :: "worker_pc \<Rightarrow> bool" where
  "final_pc WFinal = True"
| "final_pc WFinalFlushed = True"
| "final_pc _ = False"

fun drain_pc :: "worker_pc \<Rightarrow> bool" where
  "drain_pc (WDrain _ _) = True"
| "drain_pc (WDrained _ _) = True"
| "drain_pc _ = False"

fun closing_pc :: "worker_pc \<Rightarrow> bool" where
  "closing_pc (WFail _ c) = c"
| "closing_pc WClose = True"
| "closing_pc WEnd = True"
| "closing_pc WStatus = True"
| "closing_pc (WSummary _ _) = True"
| "closing_pc WExit = True"
| "closing_pc _ = False"

definition phases_ok :: "collector \<Rightarrow> bool" where
  "phases_ok s \<longleftrightarrow>
     (c_putting s \<longrightarrow> c_accepting s) \<and>
     (c_stop_requested s \<longrightarrow> \<not> c_accepting s) \<and>
     (final_pc (c_pc s) \<longrightarrow> c_stop_requested s \<and> c_queue s = []) \<and>
     (drain_pc (c_pc s) \<longrightarrow> \<not> c_accepting s) \<and>
     (closing_pc (c_pc s) \<longrightarrow> \<not> c_accepting s \<and> c_queue s = [])"

fun disk_synced :: "worker_pc \<Rightarrow> bool" where
  "disk_synced WFlushed = True"
| "disk_synced WFinalFlushed = True"
| "disk_synced _ = False"

fun uncounted_line :: "worker_pc \<Rightarrow> nat" where
  "uncounted_line (WWrote _) = 1"
| "uncounted_line _ = 0"

definition order_ok :: "collector \<Rightarrow> bool" where
  "order_ok s \<longleftrightarrow> (let rs = c_lines s @ pending_record (c_pc s) @ c_queue s in
     sorted_wrt (<) (map co_sequence_id rs) \<and>
     (\<forall>r\<in>set rs. 1 \<le> co_sequence_id r \<and> co_sequence_id r \<le> int (s_attempted (c_stats s))) \<and>
     length (c_lines s) = s_written (c_stats s) + uncounted_line (c_pc s) \<and>
     prefix (c_disk s) (c_lines s) \<and>
     s_flushed (c_stats s) \<le> length (c_disk s) \<and>
     (disk_synced (c_pc s) \<longrightarrow> c_disk s = c_lines s))"

lemma queue_full_iff: "\<not> cap \<le> int (length q) \<Longrightarrow> int (length (q @ [r])) \<le> cap"
  by simp

lemma counters_worker:
  assumes "worker_step s t" and "counters_ok cfg s"
  shows "counters_ok cfg t"
  using assms by cases (auto simp: counters_ok_def puts_def Let_def)

lemma phases_worker:
  assumes "worker_step s t" and "phases_ok s"
  shows "phases_ok t"
  using assms by cases (auto simp: phases_ok_def Let_def)

lemma counters_client:
  assumes "counters_ok cfg s" and "phases_ok s" and "client_step cfg s t"
  shows "counters_ok cfg t"
  using assms(3)
proof cases
  case (collect now r res)
  obtain ids where "snapshot_ids (model_dump r) = Inr ids" using snapshot_ids_dump by blast
  with collect assms(1) show ?thesis
    by (auto simp: try_collect_def counters_ok_def puts_def Let_def split: if_splits)
next
  case count
  then show ?thesis using assms(1)
    by (auto simp: count_enqueued_def counters_ok_def puts_def Let_def)
next
  case stop_accepting
  then show ?thesis using assms(1)
    by (auto simp: stop_accepting_def counters_ok_def puts_def Let_def)
next
  case stop_request
  then show ?thesis using assms(1) by (auto simp: stop_request_def counters_ok_def puts_def Let_def)
next
  case stop_join
  then show ?thesis using assms(1)
    by (auto simp: stop_join_def counters_ok_def puts_def Let_def)
qed

lemma phases_client:
  assumes "phases_ok s" and "client_step cfg s t"
  shows "phases_ok t"
  using assms(2)
proof cases
  case (collect now r res)
  with assms(1) show ?thesis
    by (auto simp: try_collect_def phases_ok_def Let_def split: if_splits sum.splits)
next
  case count
  then show ?thesis using assms(1)
    by (auto simp: count_enqueued_def phases_ok_def)
next
  case stop_accepting
  then show ?thesis using assms(1)
    by (auto simp: stop_accepting_def phases_ok_def Let_def)
next
  case stop_request
  then show ?thesis using assms(1) by (auto simp: stop_request_def phases_ok_def)
next
  case stop_join
  then show ?thesis using assms(1) by (auto simp: stop_join_def phases_ok_def Let_def)
qed

section \<open>Order of the lines\<close>

lemma order_worker:
  assumes "worker_step s t" and "counters_ok cfg s" and "order_ok s"
  shows "order_ok t"
  using assms
proof cases
  case (write_ok r)
  then show ?thesis using assms(2,3)
    by (auto simp: order_ok_def Let_def)
next
  case (write_fails r e)
  then show ?thesis using assms(3)
    by (auto simp: order_ok_def Let_def sorted_wrt_append)
next
  case (drain_get e c r q)
  then show ?thesis using assms(3)
    by (auto simp: order_ok_def Let_def sorted_wrt_append)
qed (use assms(2,3) in \<open>auto simp: order_ok_def counters_ok_def Let_def split: if_splits\<close>)

lemma new_id_fresh:
  assumes "order_ok s" and "r \<in> set (c_lines s) \<union> set (pending_record (c_pc s)) \<union> set (c_queue s)"
  shows "co_sequence_id r < 1 + int (s_attempted (c_stats s))"
proof -
  have "co_sequence_id r \<le> int (s_attempted (c_stats s))"
    using assms by (simp add: order_ok_def Let_def)
  then show ?thesis by simp
qed

lemma prefix_full: "prefix xs ys \<Longrightarrow> length ys \<le> length xs \<Longrightarrow> xs = ys"
  by (auto simp: prefix_def)

lemma order_client:
  assumes "client_step cfg s t" and "order_ok s"
  shows "order_ok t"
  using assms(1)
proof cases
  case (collect now r res)
  obtain ids where ids: "snapshot_ids (model_dump r) = Inr ids" using snapshot_ids_dump by blast
  have new: "x < 1 + int (s_attempted (c_stats s))"
    if "x \<in> co_sequence_id ` (set (c_lines s) \<union> set (pending_record (c_pc s)) \<union> set (c_queue s))" for x
    using that new_id_fresh [OF assms(2)] by auto
  have old: "order_ok (upd_stats (s_attempted_update Suc) s)"
    using assms(2) new_id_fresh [OF assms(2)] by (auto simp: order_ok_def Let_def intro: less_imp_le)
  show ?thesis
  proof (cases "c_putting t")
    case False
    then show ?thesis using collect ids old
      by (auto simp: try_collect_def order_ok_def Let_def split: if_splits)
  next
    case True
    then have t: "c_queue t = c_queue s @ [make_record cfg (Suc (s_attempted (c_stats s))) now (model_dump r) ids]"
      "c_lines t = c_lines s" "c_disk t = c_disk s" "c_pc t = c_pc s"
      "c_stats t = c_stats (upd_stats (s_attempted_update Suc) s)"
      using collect ids by (auto simp: try_collect_def Let_def split: if_splits)
    show ?thesis
      using old new by (auto simp: order_ok_def Let_def t make_record_def sorted_wrt_append)
  qed
next
  case count
  then show ?thesis using assms(2) by (auto simp: count_enqueued_def order_ok_def Let_def)
next
  case stop_accepting
  then show ?thesis using assms(2) by (auto simp: stop_accepting_def order_ok_def Let_def)
next
  case stop_request
  then show ?thesis using assms(2) by (auto simp: stop_request_def order_ok_def Let_def)
next
  case stop_join
  then show ?thesis using assms(2) by (auto simp: stop_join_def order_ok_def Let_def)
qed

section \<open>The summary\<close>

text \<open>A summary that says complete describes a file that holds every attempted record.\<close>

definition full_file :: "stats \<Rightarrow> collector \<Rightarrow> bool" where
  "full_file t s \<longleftrightarrow> c_disk s = c_lines s \<and> length (c_lines s) = s_attempted t \<and>
     map co_sequence_id (c_lines s) = [1..int (s_attempted t)]"

definition summary_true :: "collector \<Rightarrow> bool" where
  "summary_true s \<longleftrightarrow>
     (\<forall>d. c_pc s = WSummary d True \<longrightarrow> full_file (d_stats d) s) \<and>
     (\<forall>d. c_summary s = Some (d, True) \<longrightarrow> full_file (d_stats d) s) \<and>
     (c_summary s \<noteq> None \<longrightarrow> c_pc s = WExit)"

lemma strict_ids_are_interval:
  fixes xs :: "int list"
  assumes "sorted_wrt (<) xs" and "\<forall>x\<in>set xs. 1 \<le> x \<and> x \<le> int n" and "length xs = n"
  shows "xs = [1..int n]"
proof -
  have d: "distinct xs" and so: "sorted xs"
    using assms(1) by (auto simp: strict_sorted_iff)
  have "set xs \<subseteq> {1..int n}" using assms(2) by auto
  moreover have "card (set xs) = card {1..int n}"
    using d assms(3) by (simp add: distinct_card)
  ultimately have "set xs = set [1..int n]"
    by (metis card_subset_eq finite_atLeastAtMost_int set_upto)
  with d so show ?thesis
    by (metis sorted_distinct_set_unique sorted_upto distinct_upto)
qed

lemma complete_full:
  assumes "counters_ok cfg s" and "phases_ok s" and "order_ok s"
    and "c_pc s = WStatus" and "complete_status (status s)"
  shows "full_file (d_stats (status s)) s"
proof -
  let ?t = "c_stats s"
  have p: "puts s = 0" using assms(2,4) by (auto simp: phases_ok_def puts_def)
  have z: "s_dropped_full ?t = 0" "s_dropped_closed ?t = 0" "s_dropped_failed ?t = 0"
    "s_failed_records ?t = 0" "s_flushed ?t = s_enqueued ?t"
    using assms(5) by (simp_all add: complete_status_def status_def Let_def)
  have n: "s_attempted ?t = s_written ?t" "s_written ?t = s_flushed ?t"
    using assms(1) p z by (auto simp: counters_ok_def Let_def)
  have len: "length (c_lines s) = s_attempted ?t"
    using assms(3,4) n by (simp add: order_ok_def Let_def)
  have disk: "c_disk s = c_lines s"
    using assms(3) n len prefix_full [of "c_disk s" "c_lines s"] by (simp add: order_ok_def Let_def)
  have "map co_sequence_id (c_lines s) = [1..int (s_attempted ?t)]"
    using assms(3) len
    by (intro strict_ids_are_interval) (auto simp: order_ok_def Let_def sorted_wrt_append)
  with disk len show ?thesis by (simp add: full_file_def status_def)
qed

lemma summary_worker:
  assumes "worker_step s t" and "counters_ok cfg s" and "phases_ok s" and "order_ok s"
    and "summary_true s"
  shows "summary_true t"
  using assms(1)
proof cases
  case snapshot
  then show ?thesis
    using complete_full [OF assms(2-4)] assms(5)
    by (auto simp: summary_true_def full_file_def)
qed (use assms(5) in \<open>auto simp: summary_true_def full_file_def\<close>)

lemma summary_client:
  assumes "client_step cfg s t" and "summary_true s"
  shows "summary_true t"
proof -
  have "c_pc t = c_pc s \<and> c_lines t = c_lines s \<and> c_disk t = c_disk s \<and> c_summary t = c_summary s"
    using assms(1)
    by cases (auto simp: try_collect_def count_enqueued_def stop_accepting_def stop_request_def
        stop_join_def Let_def split: if_splits sum.splits)
  then show ?thesis using assms(2) by (simp add: summary_true_def full_file_def)
qed

section \<open>Clean shutdown\<close>

fun failing_pc :: "worker_pc \<Rightarrow> bool" where
  "failing_pc (WFailDone _) = True"
| "failing_pc (WFail _ _) = True"
| "failing_pc _ = False"

fun settled_pc :: "worker_pc \<Rightarrow> bool" where
  "settled_pc WClose = True"
| "settled_pc WEnd = True"
| "settled_pc _ = False"

fun ended_pc :: "worker_pc \<Rightarrow> bool" where
  "ended_pc WStatus = True"
| "ended_pc (WSummary _ _) = True"
| "ended_pc WExit = True"
| "ended_pc _ = False"

text \<open>Every written line is on disk and counted as flushed, and nothing failed.\<close>

definition all_flushed :: "collector \<Rightarrow> bool" where
  "all_flushed s \<longleftrightarrow> s_flushed (c_stats s) = s_written (c_stats s) \<and> c_disk s = c_lines s \<and>
     s_failed_records (c_stats s) = 0"

definition clean_ok :: "collector \<Rightarrow> bool" where
  "clean_ok s \<longleftrightarrow> (let t = c_stats s in
     (s_failed_records t \<noteq> 0 \<longrightarrow> s_write_error t \<noteq> None \<or> failing_pc (c_pc s)) \<and>
     (drain_pc (c_pc s) \<longrightarrow> s_write_error t \<noteq> None) \<and>
     (settled_pc (c_pc s) \<and> s_write_error t = None \<longrightarrow> all_flushed s) \<and>
     (s_shutdown_complete t \<longrightarrow> ended_pc (c_pc s) \<and> all_flushed s))"

lemma clean_worker:
  assumes "worker_step s t" and "clean_ok s" and "order_ok s"
  shows "clean_ok t"
  using assms by cases (auto simp: clean_ok_def order_ok_def all_flushed_def Let_def)

lemma clean_client:
  assumes "client_step cfg s t" and "clean_ok s"
  shows "clean_ok t"
  using assms
  by cases (auto simp: clean_ok_def all_flushed_def try_collect_def count_enqueued_def
      stop_accepting_def stop_request_def stop_join_def Let_def split: if_splits sum.splits)

section \<open>The collector as an invariant system\<close>

definition collector_ok :: "collection_config \<Rightarrow> collector \<Rightarrow> bool" where
  "collector_ok cfg s \<longleftrightarrow>
     (0 \<le> cc_queue_capacity cfg \<longrightarrow> counters_ok cfg s \<and> phases_ok s \<and> order_ok s \<and> summary_true s \<and>
       clean_ok s)"

lemma collector_ok_step:
  assumes "collector_ok cfg s" and "collector_step cfg s t"
  shows "collector_ok cfg t"
  using assms counters_worker phases_worker order_worker summary_worker
    clean_worker
    counters_client phases_client order_client summary_client clean_client
  unfolding collector_ok_def collector_step_def by metis

interpretation coll: invariant_system collector_init "collector_step cfg" "collector_ok cfg" for cfg
proof
  show "collector_init s \<Longrightarrow> collector_ok cfg s" for s
    by (simp add: collector_init_def collector_ok_def initial_collector_def initial_stats_def
        counters_ok_def phases_ok_def order_ok_def summary_true_def clean_ok_def puts_def)
  show "collector_ok cfg s \<Longrightarrow> collector_step cfg s t \<Longrightarrow> collector_ok cfg t" for s t
    by (rule collector_ok_step)
qed

abbreviation collector_reachable :: "collection_config \<Rightarrow> collector \<Rightarrow> bool" where
  "collector_reachable cfg \<equiv> transition_system.reachable collector_init (collector_step cfg)"

section \<open>Termination after stop\<close>

text \<open>
  The rank of a program counter bounds the writer's remaining actions with an empty queue
  once stop was requested; every queued record adds at most seven.
\<close>

fun pc_rank :: "worker_pc \<Rightarrow> nat" where
  "pc_rank (WGot _) = 26"
| "pc_rank (WWrite _) = 25"
| "pc_rank (WWrote _) = 24"
| "pc_rank WDone = 23"
| "pc_rank (WWriteFailed _) = 24"
| "pc_rank (WFailDone _) = 23"
| "pc_rank WTick = 22"
| "pc_rank WFlushed = 21"
| "pc_rank WLoop = 20"
| "pc_rank WFinal = 19"
| "pc_rank WFinalFlushed = 18"
| "pc_rank (WFail _ c) = (if c then 6 else 17)"
| "pc_rank (WDrain _ c) = (if c then 5 else 16)"
| "pc_rank (WDrained _ c) = (if c then 6 else 17)"
| "pc_rank WClose = 15"
| "pc_rank WEnd = 4"
| "pc_rank WStatus = 3"
| "pc_rank (WSummary _ _) = 2"
| "pc_rank WExit = 0"

definition rank :: "collector \<Rightarrow> nat" where
  "rank s = 7 * length (c_queue s) + pc_rank (c_pc s)"

definition stopping :: "collector \<Rightarrow> bool" where
  "stopping s \<longleftrightarrow> c_stop_requested s \<and> \<not> c_accepting s \<and> \<not> c_putting s"

lemma stopping_worker:
  assumes "stopping s" and "worker_step s t"
  shows "stopping t \<and> rank t < rank s"
  using assms(2,1) by cases (auto simp: stopping_def rank_def)

lemma stopping_client:
  assumes "stopping s" and "client_step cfg s t"
  shows "stopping t \<and> rank t \<le> rank s"
  using assms(2,1)
  by cases (auto simp: stopping_def rank_def try_collect_def stop_accepting_def stop_request_def
      stop_join_def Let_def split: if_splits)

interpretation coll_stop: terminating_phase worker_step "client_step cfg" stopping rank for cfg
proof
  show "stopping s \<Longrightarrow> worker_step s t \<Longrightarrow> stopping t \<and> rank t < rank s" for s t
    by (rule stopping_worker)
  show "stopping s \<Longrightarrow> client_step cfg s t \<Longrightarrow> stopping t \<and> rank t \<le> rank s" for s t
    by (rule stopping_client)
qed

text \<open>The writer is never stuck before it exits: once stopping, one of its actions is enabled.\<close>

lemma worker_enabled:
  assumes "stopping s" and "c_pc s \<noteq> WExit"
  shows "\<exists>t. worker_step s t"
proof -
  have p: "\<not> c_putting s" and r: "c_stop_requested s" using assms(1) by (auto simp: stopping_def)
  show ?thesis
  proof (cases "c_pc s")
    case WLoop
    then show ?thesis using r by (cases "c_queue s") (blast intro: worker_step.intros)+
  next
    case (WDrain e c)
    then show ?thesis by (cases "c_queue s") (blast intro: worker_step.intros)+
  next
    case WEnd
    then show ?thesis using p
      by (cases "s_write_error (c_stats s) = None") (blast intro: worker_step.intros)+
  qed (use p assms(2) in \<open>blast intro: worker_step.intros\<close>)+
qed

section \<open>A run with one record\<close>

definition demo_config :: collection_config where
  "demo_config = \<lparr>cc_run_id = ''run'', cc_scenario_id = ''normal_chat'', cc_server_build_id = ''sha256:'',
     cc_scenario_manifest = Abs [''m''], cc_dataset_purpose = ''integration_test'',
     cc_output_dir = Abs [''raw''], cc_queue_capacity = 2, cc_flush_interval_s = Fin (1 / 2),
     cc_shutdown_timeout_s = Fin 10, cc_verbose_payload_logging = False\<rparr>"

definition demo_record :: collected where
  "demo_record = make_record demo_config 1 ''t'' (model_dump sample_message) (PyInt 7, PyInt 1)"

lemma demo_ids: "snapshot_ids (model_dump sample_message) = Inr (PyInt 7, PyInt 1)"
  by (simp add: sample_message_def snapshot_ids_def py_item2_def lookupE_def py_get_def
      dump_message_session_def dump_message_info_def)

text \<open>The state after the record was written, stop was requested and the writer exited.\<close>

definition demo_stats :: stats where
  "demo_stats = initial_stats\<lparr>s_attempted := 1, s_enqueued := 1, s_written := 1, s_flushed := 1,
     s_queue_high_watermark := 1, s_state := ''closed'', s_shutdown_complete := True\<rparr>"

definition demo_status :: status_doc where
  "demo_status = \<lparr>d_stats = demo_stats, d_pending = 0, d_in_flight = 0, d_unfinished = 0\<rparr>"

definition demo_end :: collector where
  "demo_end = \<lparr>c_queue = [], c_accepting = False, c_in_flight = 0, c_stats = demo_stats,
     c_stop_requested = True, c_putting = False, c_pc = WExit, c_lines = [demo_record],
     c_disk = [demo_record], c_summary = Some (demo_status, True)\<rparr>"

text \<open>The state when stop has been requested and the record is on the stream.\<close>

definition demo_stopping :: collector where
  "demo_stopping = \<lparr>c_queue = [], c_accepting = False, c_in_flight = 0,
     c_stats = initial_stats\<lparr>s_attempted := 1, s_enqueued := 1, s_written := 1,
       s_queue_high_watermark := 1, s_state := ''stopping''\<rparr>,
     c_stop_requested = True, c_putting = False, c_pc = WLoop, c_lines = [demo_record],
     c_disk = [], c_summary = None\<rparr>"

lemma reach_worker:
  "collector_reachable cfg s \<Longrightarrow> worker_step s t \<Longrightarrow> collector_reachable cfg t"
  by (meson coll.reachable_step collector_step_def)

lemma reach_client:
  "collector_reachable cfg s \<Longrightarrow> client_step cfg s t \<Longrightarrow> collector_reachable cfg t"
  by (meson coll.reachable_step collector_step_def)

lemma demo_capacity [simp]: "cc_queue_capacity demo_config = 2"
  by (simp add: demo_config_def)

lemmas demo_simps = initial_collector_def demo_record_def demo_ids
  try_collect_def count_enqueued_def stop_accepting_def stop_request_def upd_stats_def
  initial_stats_def Let_def demo_capacity

lemma demo_stopping_reachable: "collector_reachable demo_config demo_stopping"
proof -
  let ?r = demo_record
  define s1 where "s1 = snd (try_collect demo_config ''t'' (model_dump sample_message) initial_collector)"
  define s2 where "s2 = count_enqueued s1"
  define s3 where "s3 = goto (WGot ?r) (s2\<lparr>c_queue := []\<rparr>)"
  define s4 where "s4 = goto (WWrite ?r) (s3\<lparr>c_in_flight := 1\<rparr>)"
  define s5 where "s5 = goto (WWrote ?r) (s4\<lparr>c_lines := c_lines s4 @ [?r]\<rparr>)"
  define s6 where "s6 = goto WDone (upd_stats (s_written_update Suc) s5)"
  define s7 where "s7 = goto WTick (s6\<lparr>c_in_flight := 0\<rparr>)"
  define s8 where "s8 = goto WLoop s7"
  define s9 where "s9 = stop_accepting s8"
  define s10 where "s10 = stop_request s9"
  note defs = s1_def s2_def s3_def s4_def s5_def s6_def s7_def s8_def s9_def s10_def demo_simps
  have "try_collect demo_config ''t'' (model_dump sample_message) initial_collector = (Inr None, s1)"
    by (simp add: defs demo_config_def)
  then have reach_1: "collector_reachable demo_config s1"
    by (intro reach_client [OF coll.reachable_init] client_step.collect)
      (simp_all add: collector_init_def initial_collector_def)
  have reach_2: "collector_reachable demo_config s2"
    unfolding s2_def by (rule reach_client [OF reach_1], rule client_step.count) (simp_all add: defs)
  have reach_3: "collector_reachable demo_config s3"
    unfolding s3_def by (rule reach_worker [OF reach_2], rule worker_step.get) (simp_all add: defs)
  have reach_4: "collector_reachable demo_config s4"
    unfolding s4_def by (rule reach_worker [OF reach_3], rule worker_step.take) (simp_all add: defs)
  have reach_5: "collector_reachable demo_config s5"
    unfolding s5_def by (rule reach_worker [OF reach_4], rule worker_step.write_ok) (simp_all add: defs)
  have reach_6: "collector_reachable demo_config s6"
    unfolding s6_def by (rule reach_worker [OF reach_5], rule worker_step.count_written) (simp_all add: defs)
  have reach_7: "collector_reachable demo_config s7"
    unfolding s7_def by (rule reach_worker [OF reach_6], rule worker_step.done_ok) (simp_all add: defs)
  have reach_8: "collector_reachable demo_config s8"
    unfolding s8_def by (rule reach_worker [OF reach_7], rule worker_step.tick) (simp_all add: defs)
  have reach_9: "collector_reachable demo_config s9"
    unfolding s9_def by (rule reach_client [OF reach_8], rule client_step.stop_accepting) (simp_all add: defs)
  have reach_10: "collector_reachable demo_config s10"
    unfolding s10_def by (rule reach_client [OF reach_9], rule client_step.stop_request) (simp_all add: defs)
  show ?thesis using reach_10 by (simp add: defs demo_stopping_def)
qed

lemma demo_end_reachable: "collector_reachable demo_config demo_end"
proof -
  define s11 where "s11 = goto WFinal demo_stopping"
  define s12 where "s12 = goto WFinalFlushed (s11\<lparr>c_disk := c_lines s11\<rparr>)"
  define s13 where "s13 = goto WClose (upd_stats (\<lambda>t. t\<lparr>s_flushed := s_written t\<rparr>) s12)"
  define s14 where "s14 = goto WEnd s13"
  define s15 where "s15 = goto WStatus (upd_stats (\<lambda>t. t\<lparr>s_state := ''closed'', s_shutdown_complete := True\<rparr>) (s14\<lparr>c_accepting := False\<rparr>))"
  define s16 where "s16 = goto (WSummary (status s15) (complete_status (status s15))) s15"
  define s17 where "s17 = goto WExit (s16\<lparr>c_summary := Some (status s15, complete_status (status s15))\<rparr>)"
  note defs = s11_def s12_def s13_def s14_def s15_def s16_def s17_def demo_simps demo_stopping_def status_def complete_status_def
  have reach_11: "collector_reachable demo_config s11"
    unfolding s11_def by (rule reach_worker [OF demo_stopping_reachable], rule worker_step.loop_end) (simp_all add: defs)
  have reach_12: "collector_reachable demo_config s12"
    unfolding s12_def by (rule reach_worker [OF reach_11], rule worker_step.final_ok) (simp_all add: defs)
  have reach_13: "collector_reachable demo_config s13"
    unfolding s13_def by (rule reach_worker [OF reach_12], rule worker_step.count_final) (simp_all add: defs)
  have reach_14: "collector_reachable demo_config s14"
    unfolding s14_def by (rule reach_worker [OF reach_13], rule worker_step.close_ok) (simp_all add: defs)
  have reach_15: "collector_reachable demo_config s15"
    unfolding s15_def by (rule reach_worker [OF reach_14], rule worker_step.ended_ok) (simp_all add: defs)
  have reach_16: "collector_reachable demo_config s16"
    unfolding s16_def by (rule reach_worker [OF reach_15], rule worker_step.snapshot) (simp_all add: defs)
  have reach_17: "collector_reachable demo_config s17"
    unfolding s17_def by (rule reach_worker [OF reach_16], rule worker_step.summary_ok) (simp_all add: defs)
  show ?thesis using reach_17 by (simp add: defs demo_end_def demo_status_def demo_stats_def)
qed

section \<open>Properties\<close>

lemma reachable_ok:
  assumes "collector_reachable cfg s" and "0 \<le> cc_queue_capacity cfg"
  shows "counters_ok cfg s" "phases_ok s" "order_ok s" "summary_true s" "clean_ok s"
  using coll.inv_reachable [OF assms(1)] assms(2) by (auto simp: collector_ok_def)

text \<open>
  C7: in every interleaving of request handlers, stop and writer, each attempt is counted
  once (enqueued, being enqueued, or dropped for one of three reasons), each enqueued
  record is written, failed, queued or in the writer's hands, the queue and its high
  watermark never exceed the configured capacity, and no more is reported flushed than
  written.
\<close>

theorem collector_accounting:
  assumes "collector_reachable cfg s" and "0 \<le> cc_queue_capacity cfg"
  shows "s_attempted (c_stats s) = s_enqueued (c_stats s) + puts s + s_dropped_full (c_stats s)
           + s_dropped_closed (c_stats s) + s_dropped_failed (c_stats s) \<and>
         s_enqueued (c_stats s) + puts s = s_written (c_stats s) + s_failed_records (c_stats s)
           + length (c_queue s) + held (c_pc s) \<and>
         int (length (c_queue s)) \<le> cc_queue_capacity cfg \<and>
         int (s_queue_high_watermark (c_stats s)) \<le> cc_queue_capacity cfg \<and>
         s_flushed (c_stats s) \<le> s_written (c_stats s)"
  using reachable_ok(1) [OF assms] by (simp add: counters_ok_def Let_def)

lemma collector_accounting_witness:
  "s_attempted (c_stats demo_end) = 1 \<and> s_flushed (c_stats demo_end) \<le> s_written (c_stats demo_end)"
  using collector_accounting [OF demo_end_reachable]
  by (simp add: demo_end_def demo_stats_def)

text \<open>
  C25: the lines of the file carry strictly increasing sequence ids between 1 and the
  number of attempts (the queue is drained in order and no record is written twice), what
  is on disk is a prefix of them, and a record on disk precedes every record still queued.
\<close>

theorem collector_file_order:
  assumes "collector_reachable cfg s" and "0 \<le> cc_queue_capacity cfg"
  shows "sorted_wrt (<) (map co_sequence_id (c_lines s @ c_queue s)) \<and>
         list_all (\<lambda>r. 1 \<le> co_sequence_id r \<and> co_sequence_id r \<le> int (s_attempted (c_stats s)))
           (c_lines s @ c_queue s) \<and>
         prefix (c_disk s) (c_lines s) \<and> s_flushed (c_stats s) \<le> length (c_disk s)"
  using reachable_ok(3) [OF assms]
  by (simp add: order_ok_def Let_def sorted_wrt_append list_all_iff ball_Un)

lemma collector_file_order_witness:
  "sorted_wrt (<) (map co_sequence_id (c_lines demo_end @ c_queue demo_end)) \<and>
   length (c_lines demo_end) = 1"
  using collector_file_order [OF demo_end_reachable] by (simp add: demo_end_def)

text \<open>
  C8: when the summary file says \<open>complete\<close>, the file on disk holds exactly the attempted
  records, with sequence ids 1, 2, \<dots> up to the attempt count, however the threads
  interleaved.
\<close>

theorem complete_summary_means_full_file:
  assumes "collector_reachable cfg s" and "0 \<le> cc_queue_capacity cfg"
    and "c_summary s = Some (d, True)"
  shows "map co_sequence_id (c_disk s) = [1..int (s_attempted (d_stats d))] \<and>
         c_disk s = c_lines s"
  using reachable_ok(4) [OF assms(1,2)] assms(3) by (simp add: summary_true_def full_file_def)

lemma complete_summary_means_full_file_witness:
  "map co_sequence_id (c_disk demo_end) = [1..1]"
proof -
  have "c_summary demo_end = Some (demo_status, True)" by (simp add: demo_end_def)
  from conjunct1 [OF complete_summary_means_full_file [OF demo_end_reachable _ this]] show ?thesis
    by (simp add: demo_status_def demo_stats_def)
qed

text \<open>
  C22: if \<open>stop\<close> returns true, the writer has exited, every record that was accepted into
  the queue is written and on disk, and none failed.
\<close>

theorem stop_true_flushes_everything:
  assumes "collector_reachable cfg s" and "0 \<le> cc_queue_capacity cfg"
    and "fst (stop_join s)"
  shows "c_pc s = WExit \<and> c_queue s = [] \<and> s_failed_records (c_stats s) = 0 \<and>
         s_enqueued (c_stats s) = length (c_disk s) \<and> c_disk s = c_lines s"
proof -
  have x: "c_pc s = WExit" "s_shutdown_complete (c_stats s)"
    using assms(3) by (auto simp: stop_join_def status_def Let_def split: if_splits)
  have f: "all_flushed s"
    using reachable_ok(5) [OF assms(1,2)] x by (simp add: clean_ok_def Let_def)
  have q: "c_queue s = []" "puts s = 0"
    using reachable_ok(2) [OF assms(1,2)] x by (auto simp: phases_ok_def puts_def)
  have "s_enqueued (c_stats s) = s_written (c_stats s)"
    using reachable_ok(1) [OF assms(1,2)] f q x by (simp add: counters_ok_def all_flushed_def Let_def)
  moreover have "length (c_lines s) = s_written (c_stats s)"
    using reachable_ok(3) [OF assms(1,2)] x by (simp add: order_ok_def Let_def)
  ultimately show ?thesis using f q x by (simp add: all_flushed_def)
qed

lemma stop_true_flushes_everything_witness:
  "s_enqueued (c_stats demo_end) = length (c_disk demo_end) \<and> length (c_disk demo_end) = 1"
proof -
  have "fst (stop_join demo_end)"
    by (simp add: stop_join_def demo_end_def status_def demo_stats_def initial_stats_def)
  from stop_true_flushes_everything [OF demo_end_reachable _ this] show ?thesis
    by (simp add: demo_end_def)
qed

text \<open>
  C26: once stop was requested the writer terminates: in every run, whatever the other
  threads still do, it takes at most \<open>rank s\<close> more actions, and until it has exited one of
  its actions is enabled. So no interleaving keeps it running or blocks it.
\<close>

theorem writer_terminates_after_stop:
  assumes "collector_reachable cfg s" and "0 \<le> cc_queue_capacity cfg" and "c_stop_requested s"
  shows "(coll_stop.run cfg s ts \<longrightarrow> length (filter fst ts) \<le> 7 * length (c_queue s) + 26) \<and>
         (c_pc s = WExit \<or> (\<exists>t. worker_step s t))"
proof -
  have st: "stopping s"
    using reachable_ok(2) [OF assms(1,2)] assms(3) by (auto simp: phases_ok_def stopping_def)
  have "pc_rank (c_pc s) \<le> 26" by (cases "c_pc s") simp_all
  then have "rank s \<le> 7 * length (c_queue s) + 26" by (simp add: rank_def)
  then show ?thesis
    using coll_stop.own_steps_bounded [OF st] worker_enabled [OF st] order_trans by blast
qed

lemma writer_terminates_after_stop_witness:
  "\<exists>t. worker_step demo_stopping t"
  using writer_terminates_after_stop [OF demo_stopping_reachable, of "[]"]
  by (auto simp: demo_stopping_def)

end
