(* ===== verification/Inference_Api.thy ===== *)
theory Inference_Api
  imports Py_Text Jsonl_Collector
begin

text \<open>
  \<open>inference_api/main.py\<close>, \<open>model_service.py\<close> and \<open>rf_service.py\<close>: the prediction handler
  with its collector, concurrency limiter and model service, the health answer, startup
  and shutdown. The fitted pipeline is the parameter \<open>predict_proba\<close> of a service.
\<close>

section \<open>Responses\<close>

record inference_response =
  ir_request_id :: string
  ir_label :: string
  ir_is_attack :: bool
  ir_confidence :: pyfloat
  ir_model_version :: string
  ir_received_event_type :: string
  ir_anomaly_score :: "pyfloat option"
  ir_decision_threshold :: "pyfloat option"
  ir_decision_scope :: "string option"

definition unit_float :: "pyfloat \<Rightarrow> bool" where
  "unit_float x \<longleftrightarrow> fle (Fin 0) x \<and> fle x (Fin 1)"

text \<open>The field bounds pydantic checks when the response is constructed.\<close>

definition make_response :: "inference_response \<Rightarrow> inference_response res" where
  "make_response r =
     (if unit_float (ir_confidence r) \<and>
         (case ir_anomaly_score r of None \<Rightarrow> True | Some x \<Rightarrow> unit_float x) \<and>
         (case ir_decision_threshold r of None \<Rightarrow> True | Some x \<Rightarrow> unit_float x)
      then Inr r else Inl (ValueError ''response range''))"

fun queue_sequence_id :: "request \<Rightarrow> int" where
  "queue_sequence_id (MessageRequest r) = mr_queue_sequence_id r"
| "queue_sequence_id (SummaryRequest r) = sr_queue_sequence_id r"

definition settings_model_version :: string where
  "settings_model_version = ''dummy-v0''"

definition dummy_predict :: "request \<Rightarrow> feature_vector \<Rightarrow> inference_response res" where
  "dummy_predict payload fv = make_response
     \<lparr>ir_request_id = int_str (queue_sequence_id payload), ir_label = ''normal'',
      ir_is_attack = False, ir_confidence = Fin (1 / 2),
      ir_model_version = settings_model_version, ir_received_event_type = fv_event_type fv,
      ir_anomaly_score = None, ir_decision_threshold = None, ir_decision_scope = None\<rparr>"

section \<open>The approved random forest\<close>

text \<open>The double nearest to 0.7.\<close>

definition decision_threshold :: pyfloat where
  "decision_threshold = Fin (6305039478318694 / 9007199254740992)"

definition matrix_shape :: "pyfloat list list \<Rightarrow> nat \<times> nat" where
  "matrix_shape p = (length p, case p of [] \<Rightarrow> 0 | r # _ \<Rightarrow> length r)"

record rf_service =
  rs_model_version :: string
  rs_max_concurrent_predictions :: nat
  rs_verbose_payload_logging :: bool
  rs_model_sha256 :: string
  rs_predict_proba :: "pyfloat list \<Rightarrow> pyfloat list list res"

definition rf_input_invalid :: "feature_vector \<Rightarrow> bool" where
  "rf_input_invalid fv \<longleftrightarrow> fv_event_type fv \<noteq> ''message'' \<or> fv_names fv \<noteq> MESSAGE_FEATURE_ORDER \<or>
     length (fv_values fv) \<noteq> 7 \<or>
     list_ex (\<lambda>v. \<not> is_finite v \<or> flt v (Fin 0)) (fv_values fv)"

definition rf_decide :: "rf_service \<Rightarrow> request \<Rightarrow> pyfloat list list \<Rightarrow> inference_response res" where
  "rf_decide svc payload probability =
     (if matrix_shape probability \<noteq> (1, 2) \<or> \<not> is_finite (probability ! 0 ! 1) \<or>
         \<not> (fle (Fin 0) (probability ! 0 ! 1) \<and> fle (probability ! 0 ! 1) (Fin 1))
      then Inl (ValueError ''invalid probability'')
      else
        (let score = probability ! 0 ! 1; positive = fle decision_threshold score in
         make_response
           \<lparr>ir_request_id = int_str (queue_sequence_id payload),
            ir_label = (if positive then ''controlled_anomaly'' else ''normal''),
            ir_is_attack = positive,
            ir_confidence = (if positive then score else fsub (Fin 1) score),
            ir_model_version = rs_model_version svc, ir_received_event_type = ''message'',
            ir_anomaly_score = Some score, ir_decision_threshold = Some decision_threshold,
            ir_decision_scope = Some ''local_advisory''\<rparr>))"

definition rf_predict :: "rf_service \<Rightarrow> request \<Rightarrow> feature_vector \<Rightarrow> inference_response res" where
  "rf_predict svc payload fv =
     (if event_type_of payload \<noteq> ''message'' then Inl (ValueError ''unsupported event'')
      else if rf_input_invalid fv then Inl (ValueError ''rf input'')
      else bindE (rs_predict_proba svc (fv_values fv)) (rf_decide svc payload))"

section \<open>Application state and handlers\<close>

record app_state =
  ap_ready :: bool
  ap_service :: "rf_service option"
  ap_limiter_total :: nat
  ap_borrowed :: nat
  ap_collector :: "(collection_config \<times> collector) option"

datatype http = Response inference_response | HttpError nat string

record health_response =
  h_model_version :: string
  h_feature_contract_ids :: "(string \<times> string) list"
  h_model_kind :: string
  h_supported_event_types :: "string list"
  h_decision_threshold :: "pyfloat option"
  h_decision_scope :: "string option"
  h_model_sha256 :: "string option"
  h_automatic_blocking_allowed :: bool

definition health :: "app_state \<Rightarrow> health_response + http" where
  "health st =
     (if \<not> ap_ready st then Inr (HttpError 503 ''model_not_ready'')
      else Inl (case ap_service st of
        None \<Rightarrow>
          \<lparr>h_model_version = settings_model_version,
           h_feature_contract_ids = map (\<lambda>(n, e). (n, ed_contract_id e)) (ct_events OPERATIONAL_CONTRACT),
           h_model_kind = ''dummy'', h_supported_event_types = [''message'', ''session_summary''],
           h_decision_threshold = None, h_decision_scope = None, h_model_sha256 = None,
           h_automatic_blocking_allowed = False\<rparr>
      | Some svc \<Rightarrow>
          \<lparr>h_model_version = rs_model_version svc,
           h_feature_contract_ids = map (\<lambda>(n, e). (n, ed_contract_id e)) (ct_events OPERATIONAL_CONTRACT),
           h_model_kind = ''random_forest'', h_supported_event_types = [''message''],
           h_decision_threshold = Some decision_threshold,
           h_decision_scope = Some ''local_advisory'', h_model_sha256 = Some (rs_model_sha256 svc),
           h_automatic_blocking_allowed = False\<rparr>))"

text \<open>One call of \<open>try_collect\<close> from a handler; an exception of it is logged and ignored.\<close>

definition collect_call ::
    "collection_config \<Rightarrow> string \<Rightarrow> (string \<times> py) list \<Rightarrow> collector \<Rightarrow> collector" where
  "collect_call cfg now payload s =
     (case try_collect cfg now payload s of
        (Inr None, t) \<Rightarrow> count_enqueued t
      | (_, t) \<Rightarrow> t)"

definition collect_payload :: "string \<Rightarrow> request \<Rightarrow> app_state \<Rightarrow> app_state" where
  "collect_payload now payload st =
     (case ap_collector st of
        None \<Rightarrow> st
      | Some (cfg, c) \<Rightarrow> st\<lparr>ap_collector := Some (cfg, collect_call cfg now (model_dump payload) c)\<rparr>)"

text \<open>
  \<open>predict\<close> up to its only await: either it answers, or it has taken a slot of the limiter
  and hands the vector to a worker thread.
\<close>

datatype begun = Answer "http res" | Compute rf_service request feature_vector

definition predict_begin :: "string \<Rightarrow> request \<Rightarrow> app_state \<Rightarrow> begun \<times> app_state" where
  "predict_begin now payload st =
     (if \<not> ap_ready st then (Answer (Inr (HttpError 503 ''model_not_ready'')), st)
      else
        (let fv = build_feature_vector payload; st1 = collect_payload now payload st in
         case ap_service st of
           None \<Rightarrow> (Answer (bindE (dummy_predict payload fv) (\<lambda>r. Inr (Response r))), st1)
         | Some svc \<Rightarrow>
             if event_type_of payload \<noteq> ''message''
               then (Answer (Inr (HttpError 422 ''unsupported_event_type'')), st1)
             else if ap_borrowed st1 \<ge> ap_limiter_total st1
               then (Answer (Inr (HttpError 503 ''inference_busy'')), st1)
             else (Compute svc payload fv, st1\<lparr>ap_borrowed := ap_borrowed st1 + 1\<rparr>)))"

text \<open>
  After the worker thread: the slot is released on every path. A cancelled request waits
  for its computation (\<open>abandon_on_cancel=False\<close>) and gets no answer.
\<close>

definition predict_end ::
    "bool \<Rightarrow> inference_response res \<Rightarrow> app_state \<Rightarrow> http option \<times> app_state" where
  "predict_end cancelled result st =
     (if cancelled then None
      else Some (case result of Inr r \<Rightarrow> Response r | Inl _ \<Rightarrow> HttpError 503 ''inference_failed''),
      st\<lparr>ap_borrowed := ap_borrowed st - 1\<rparr>)"

text \<open>
  \<open>lifespan\<close>: the factory runs once; if it or the collector fails, the exception goes out
  and the application never becomes ready. Shutdown forgets service and collector.
\<close>

definition create_app :: "bool \<Rightarrow> app_state" where
  "create_app has_factory =
     \<lparr>ap_ready = (\<not> has_factory), ap_service = None, ap_limiter_total = 0, ap_borrowed = 0,
      ap_collector = None\<rparr>"

definition shutdown_app :: "bool \<Rightarrow> app_state \<Rightarrow> app_state" where
  "shutdown_app has_factory st =
     st\<lparr>ap_collector := None, ap_service := None, ap_ready := \<not> has_factory\<rparr>"

definition startup ::
    "rf_service res option \<Rightarrow> (collection_config \<times> collector) option res \<Rightarrow> app_state res" where
  "startup factory collector_result =
     bindE (case factory of
        None \<Rightarrow> Inr (create_app False)
      | Some loaded \<Rightarrow> bindE loaded (\<lambda>svc.
          Inr ((create_app True)\<lparr>ap_service := Some svc,
            ap_limiter_total := rs_max_concurrent_predictions svc\<rparr>))) (\<lambda>st.
     bindE collector_result (\<lambda>c. Inr (st\<lparr>ap_collector := c, ap_ready := True\<rparr>)))"

section \<open>Concurrent requests\<close>

record server =
  sv_app :: app_state
  sv_inflight :: "(rf_service \<times> request \<times> feature_vector) list"
  sv_answers :: "(request \<times> http option) list"

inductive server_step :: "(string \<Rightarrow> datetime option) \<Rightarrow> server \<Rightarrow> server \<Rightarrow> bool" for fromiso where
  answered: "parse_request fromiso body = Inr payload \<Longrightarrow>
     predict_begin now payload (sv_app s) = (Answer (Inr h), st) \<Longrightarrow>
     server_step fromiso s (s\<lparr>sv_app := st, sv_answers := sv_answers s @ [(payload, Some h)]\<rparr>)"
| started: "parse_request fromiso body = Inr payload \<Longrightarrow>
     predict_begin now payload (sv_app s) = (Compute svc p fv, st) \<Longrightarrow>
     server_step fromiso s (s\<lparr>sv_app := st, sv_inflight := sv_inflight s @ [(svc, p, fv)]\<rparr>)"
| finished: "sv_inflight s = xs @ (svc, p, fv) # ys \<Longrightarrow>
     predict_end cancelled (rf_predict svc p fv) (sv_app s) = (h, st) \<Longrightarrow>
     server_step fromiso s
       (s\<lparr>sv_app := st, sv_inflight := xs @ ys, sv_answers := sv_answers s @ [(p, h)]\<rparr>)"

definition server_init :: "rf_service \<Rightarrow> (collection_config \<times> collector) option \<Rightarrow> server \<Rightarrow> bool" where
  "server_init svc c s \<longleftrightarrow>
     (\<exists>st. startup (Some (Inr svc)) (Inr c) = Inr st \<and>
        s = \<lparr>sv_app = st, sv_inflight = [], sv_answers = []\<rparr>)"

section \<open>Lemmas\<close>

lemma fsub_one_unit:
  assumes "0 \<le> x" and "x \<le> 1"
  shows "unit_float (fsub (Fin 1) (Fin x))"
proof -
  have "fadd (Fin 1) (Fin (- x)) = Fin (rne (1 - x))"
    using assms by (simp add: fl_finite)
  moreover have "0 \<le> rne (1 - x)" using assms by (intro rne_nonneg) simp
  moreover have "rne (1 - x) \<le> rne 1" using assms by (intro rne_mono) simp_all
  ultimately show ?thesis by (simp add: fsub_def unit_float_def rne_1)
qed

lemma request_ok_rf_input:
  assumes "request_ok fromiso r" and "event_type_of r = ''message''"
  shows "\<not> rf_input_invalid (build_feature_vector r)"
proof -
  have "list_all ms_ok (fv_values (build_feature_vector r))"
    by (rule request_ok_vector(2) [OF assms(1)])
  then have "\<not> list_ex (\<lambda>v. \<not> is_finite v \<or> flt v (Fin 0)) (fv_values (build_feature_vector r))"
    by (auto simp: list_all_iff list_ex_iff ms_ok_def is_finite_iff)
  then show ?thesis
    using assms(2) unfolding rf_input_invalid_def
    by (simp add: build_feature_vector_def Let_def MESSAGE_FEATURE_ORDER_def)
qed

text \<open>The score of a well-shaped probability matrix, and the answer for it.\<close>

definition score_answer :: "rf_service \<Rightarrow> request \<Rightarrow> rat \<Rightarrow> inference_response" where
  "score_answer svc payload x =
     (let positive = fle decision_threshold (Fin x) in
      \<lparr>ir_request_id = int_str (queue_sequence_id payload),
       ir_label = (if positive then ''controlled_anomaly'' else ''normal''),
       ir_is_attack = positive,
       ir_confidence = (if positive then Fin x else fsub (Fin 1) (Fin x)),
       ir_model_version = rs_model_version svc, ir_received_event_type = ''message'',
       ir_anomaly_score = Some (Fin x), ir_decision_threshold = Some decision_threshold,
       ir_decision_scope = Some ''local_advisory''\<rparr>)"

lemma rf_decide_iff:
  "rf_decide svc payload p = Inr r \<longleftrightarrow>
     matrix_shape p = (1, 2) \<and>
     (\<exists>x. p ! 0 ! 1 = Fin x \<and> 0 \<le> x \<and> x \<le> 1 \<and> r = score_answer svc payload x)"
proof (cases "matrix_shape p = (1, 2) \<and> (\<exists>x. p ! 0 ! 1 = Fin x \<and> 0 \<le> x \<and> x \<le> 1)")
  case True
  then obtain x where x: "p ! 0 ! 1 = Fin x" "0 \<le> x" "x \<le> 1" by blast
  have "unit_float (Fin x)" using x by (simp add: unit_float_def)
  moreover have "unit_float decision_threshold" by (simp add: unit_float_def decision_threshold_def)
  ultimately show ?thesis
    using True x fsub_one_unit [OF x(2,3)]
    by (auto simp: rf_decide_def Let_def make_response_def score_answer_def)
next
  case False
  then show ?thesis
    by (cases "p ! 0 ! 1") (auto simp: rf_decide_def)
qed

lemma collect_payload_simps [simp]:
  "ap_ready (collect_payload now p st) = ap_ready st"
  "ap_service (collect_payload now p st) = ap_service st"
  "ap_limiter_total (collect_payload now p st) = ap_limiter_total st"
  "ap_borrowed (collect_payload now p st) = ap_borrowed st"
  by (auto simp: collect_payload_def split: option.split)

section \<open>Properties\<close>

text \<open>
  C1: for an accepted message the input guard of the random forest never fires: the service
  answers exactly when the pipeline returns a 1 by 2 matrix whose second entry is a score in
  [0, 1]. The answer flags an attack exactly when the score reaches the double 0.7, keeps
  the score, and its confidence is the score or its complement.
\<close>

theorem rf_predict_decides:
  assumes "parse_request fromiso body = Inr payload" and "event_type_of payload = ''message''"
  shows "rf_predict svc payload (build_feature_vector payload) = Inr r \<longleftrightarrow>
     (\<exists>p x. rs_predict_proba svc (fv_values (build_feature_vector payload)) = Inr p \<and>
        matrix_shape p = (1, 2) \<and> p ! 0 ! 1 = Fin x \<and> 0 \<le> x \<and> x \<le> 1 \<and>
        r = score_answer svc payload x)"
  using assms(2) request_ok_rf_input [OF parse_request_ok [OF assms(1)] assms(2)]
  by (auto simp: rf_predict_def bindE_Inr_iff rf_decide_iff)

definition demo_service :: rf_service where
  "demo_service = \<lparr>rs_model_version = ''rf'', rs_max_concurrent_predictions = 1,
     rs_verbose_payload_logging = False, rs_model_sha256 = ''h'',
     rs_predict_proba = (\<lambda>xs. Inr [[Fin (1 / 4), Fin (3 / 4)]])\<rparr>"

lemma sample_message_type: "event_type_of sample_message = ''message''"
  by (simp add: sample_message_def)

lemma rf_predict_decides_witness:
  "\<exists>r. rf_predict demo_service sample_message (build_feature_vector sample_message) = Inr r \<and>
       ir_is_attack r \<and> ir_confidence r = Fin (3 / 4)"
proof -
  let ?r = "score_answer demo_service sample_message (3 / 4)"
  have "rf_predict demo_service sample_message (build_feature_vector sample_message) = Inr ?r"
    unfolding rf_predict_decides [OF parse_request_dump [OF sample_message_ok] sample_message_type]
    by (intro exI [of _ "[[Fin (1 / 4), Fin (3 / 4)]]"] exI [of _ "3 / 4"])
      (simp add: demo_service_def matrix_shape_def)
  then show ?thesis by (simp add: score_answer_def decision_threshold_def Let_def)
qed

text \<open>
  the answer of \<open>predict\<close> does not depend on collection: the same request on the same
  application gets the same answer, and starts the same computation, with any collector in
  any state (full, failed, stopped) as with none.
\<close>

theorem predict_ignores_collector:
  "fst (predict_begin now payload (st\<lparr>ap_collector := c\<rparr>)) = fst (predict_begin now' payload st)"
  by (simp add: predict_begin_def Let_def split: option.split)



section \<open>The limiter\<close>

definition limiter_ok :: "rf_service \<Rightarrow> server \<Rightarrow> bool" where
  "limiter_ok svc s \<longleftrightarrow>
     ap_ready (sv_app s) \<and> ap_service (sv_app s) = Some svc \<and>
     ap_limiter_total (sv_app s) = rs_max_concurrent_predictions svc \<and>
     ap_borrowed (sv_app s) = length (sv_inflight s) \<and>
     length (sv_inflight s) \<le> rs_max_concurrent_predictions svc \<and>
     list_all (\<lambda>(v, p, fv). v = svc \<and> event_type_of p = ''message'' \<and> fv = build_feature_vector p)
       (sv_inflight s)"

interpretation srv: invariant_system "server_init svc c" "server_step fromiso" "limiter_ok svc"
  for svc c fromiso
proof
  show "server_init svc c s \<Longrightarrow> limiter_ok svc s" for s
    by (auto simp: server_init_def startup_def create_app_def limiter_ok_def)
  show "limiter_ok svc t" if "limiter_ok svc s" and "server_step fromiso s t" for s t
    using that(2,1)
  proof cases
    case (answered body payload now h st)
    then show ?thesis using that(1)
      by (auto simp: limiter_ok_def predict_begin_def Let_def split: if_splits option.splits)
  next
    case (started body payload now svc' p fv st)
    then show ?thesis using that(1)
      by (auto simp: limiter_ok_def predict_begin_def Let_def split: if_splits option.splits)
  next
    case (finished xs svc' p fv ys cancelled h st)
    then show ?thesis using that(1)
      by (auto simp: limiter_ok_def predict_end_def)
  qed
qed

text \<open>
  C28: however requests arrive, finish and are cancelled, the slots taken are exactly the
  computations in progress and never more than the configured maximum; every computation
  is a message with the vector built from it, on the service loaded at startup.
\<close>

theorem limiter_balanced:
  assumes "transition_system.reachable (server_init svc c) (server_step fromiso) s"
  shows "ap_borrowed (sv_app s) = length (sv_inflight s) \<and>
     length (sv_inflight s) \<le> rs_max_concurrent_predictions svc \<and>
     list_all (\<lambda>(v, p, fv). v = svc \<and> event_type_of p = ''message'' \<and> fv = build_feature_vector p)
       (sv_inflight s)"
  using srv.inv_reachable [OF assms] by (simp add: limiter_ok_def)

definition demo_server :: server where
  "demo_server =
     \<lparr>sv_app = \<lparr>ap_ready = True, ap_service = Some demo_service, ap_limiter_total = 1,
        ap_borrowed = 1, ap_collector = None\<rparr>,
      sv_inflight = [(demo_service, sample_message, build_feature_vector sample_message)],
      sv_answers = []\<rparr>"

lemma demo_server_reachable:
  "transition_system.reachable (server_init demo_service None)
     (server_step (\<lambda>_. Some (Aware 0 0))) demo_server"
proof -
  let ?st = "\<lparr>ap_ready = True, ap_service = Some demo_service, ap_limiter_total = 1,
        ap_borrowed = 0, ap_collector = None\<rparr>"
  let ?s = "\<lparr>sv_app = ?st, sv_inflight = [], sv_answers = []\<rparr>"
  have init: "server_init demo_service None ?s"
    by (simp add: server_init_def startup_def create_app_def demo_service_def)
  have "predict_begin ''t'' sample_message (sv_app ?s) =
      (Compute demo_service sample_message (build_feature_vector sample_message), ?st\<lparr>ap_borrowed := 1\<rparr>)"
    by (simp add: predict_begin_def Let_def collect_payload_def sample_message_type)
  from server_step.started [OF parse_request_dump [OF sample_message_ok] this]
  have "server_step (\<lambda>_. Some (Aware 0 0)) ?s demo_server"
    by (simp add: demo_server_def)
  with srv.reachable_init [OF init] show ?thesis by (rule srv.reachable_step)
qed

lemma limiter_balanced_witness:
  "ap_borrowed (sv_app demo_server) = 1 \<and> length (sv_inflight demo_server) \<le> 1"
  using limiter_balanced [OF demo_server_reachable]
  by (simp add: demo_server_def demo_service_def)

end
