(* ===== verification/Approved_Bundle.thy ===== *)
theory Approved_Bundle
  imports Inference_Api
begin

text \<open>
  \<open>inference_api/approved_bundle.py\<close>: the check of the approved model bundle before it is
  served. Outside code is collected in the record \<open>bundle_env\<close>: reading a file, resolving a
  path, SHA-256, JSON decoding and canonical encoding, joblib, the installed versions.
\<close>

section \<open>Conditions over decoded JSON\<close>

text \<open>\<open>c1 or c2 or ...\<close> where evaluating a condition can raise.\<close>

fun anyE :: "bool res list \<Rightarrow> bool res" where
  "anyE [] = Inr False"
| "anyE (c # cs) = bindE c (\<lambda>b. if b then Inr True else anyE cs)"

definition rejectE :: "exn \<Rightarrow> bool res list \<Rightarrow> unit res" where
  "rejectE e cs = bindE (anyE cs) (\<lambda>b. if b then Inl e else Inr ())"

lemma anyE_False_iff: "anyE cs = Inr False \<longleftrightarrow> list_all (\<lambda>c. c = Inr False) cs"
  by (induction cs) (auto simp: bindE_Inr_iff split: if_splits)

lemma rejectE_Inr_iff [res_simps]:
  "rejectE e cs = Inr u \<longleftrightarrow> list_all (\<lambda>c. c = Inr False) cs"
  unfolding anyE_False_iff [symmetric]
  by (cases "anyE cs") (auto simp: rejectE_def)

fun py_getE :: "py \<Rightarrow> string \<Rightarrow> py res" where
  "py_getE (PyDict d) k = Inr (py_get d k)"
| "py_getE _ k = Inl (AttributeError ''get'')"

text \<open>\<open>d.get(k) != v\<close>, \<open>d.get(k) is not b\<close>, \<open>d[k] != v\<close>.\<close>

definition get_ne :: "py \<Rightarrow> string \<Rightarrow> py \<Rightarrow> bool res" where
  "get_ne d k v = bindE (py_getE d k) (\<lambda>x. Inr (\<not> py_eq x v))"

definition get_is_not :: "py \<Rightarrow> string \<Rightarrow> bool \<Rightarrow> bool res" where
  "get_is_not d k b = bindE (py_getE d k) (\<lambda>x. Inr (x \<noteq> PyBool b))"

definition item_ne :: "py \<Rightarrow> string \<Rightarrow> py \<Rightarrow> bool res" where
  "item_ne d k v = bindE (py_item d k) (\<lambda>x. Inr (\<not> py_eq x v))"

definition items_ne :: "py \<Rightarrow> string \<Rightarrow> py \<Rightarrow> string \<Rightarrow> bool res" where
  "items_ne d k e l = bindE (py_item d k) (\<lambda>x. bindE (py_item e l) (\<lambda>y. Inr (\<not> py_eq x y)))"

fun path_items :: "py \<Rightarrow> string list \<Rightarrow> py res" where
  "path_items v [] = Inr v"
| "path_items v (k # ks) = bindE (py_item v k) (\<lambda>w. path_items w ks)"

abbreviation py_strs :: "string list \<Rightarrow> py" where
  "py_strs xs \<equiv> PyList (map PyStr xs)"

text \<open>Numbers: \<open>a + b\<close>, \<open>a * k\<close>, \<open>math.isfinite\<close>, \<open>a > b\<close>.\<close>

fun py_add :: "py \<Rightarrow> py \<Rightarrow> py res" where
  "py_add (PyInt a) (PyInt b) = Inr (PyInt (a + b))"
| "py_add (PyInt a) (PyFloat y) = Inr (PyFloat (fadd (float_of_int a) y))"
| "py_add (PyFloat x) (PyInt b) = Inr (PyFloat (fadd x (float_of_int b)))"
| "py_add (PyFloat x) (PyFloat y) = Inr (PyFloat (fadd x y))"
| "py_add _ _ = Inl (TypeError ''add'')"

fun py_mul_int :: "py \<Rightarrow> int \<Rightarrow> py res" where
  "py_mul_int (PyInt a) k = Inr (PyInt (a * k))"
| "py_mul_int (PyBool b) k = Inr (PyInt ((if b then 1 else 0) * k))"
| "py_mul_int (PyFloat (Fin x)) k = Inr (PyFloat (fl (x * of_int k)))"
| "py_mul_int (PyFloat x) k = Inr (PyFloat x)"
| "py_mul_int _ _ = Inl (TypeError ''mul'')"

definition py_gt :: "py \<Rightarrow> py \<Rightarrow> bool res" where
  "py_gt a b = (case num_val a of None \<Rightarrow> Inl (TypeError ''order'') | Some x \<Rightarrow>
     (case num_val b of None \<Rightarrow> Inl (TypeError ''order'') | Some y \<Rightarrow> Inr (flt y x)))"

fun py_isfinite :: "py \<Rightarrow> bool res" where
  "py_isfinite (PyInt n) =
     (if is_finite (float_of_int n) then Inr True else Inl (OverflowError ''isfinite''))"
| "py_isfinite (PyBool b) = Inr True"
| "py_isfinite (PyFloat x) = Inr (is_finite x)"
| "py_isfinite _ = Inl (TypeError ''isfinite'')"

section \<open>Paths\<close>

fun is_relative_to :: "path \<Rightarrow> path \<Rightarrow> bool" where
  "is_relative_to (Abs p) (Abs r) = prefix r p"
| "is_relative_to (Rel p) (Rel r) = prefix r p"
| "is_relative_to _ _ = False"

type_synonym bytes = string

record classifier =
  cl_is_random_forest :: bool
  cl_n_jobs :: int
  cl_classes :: "int list"
  cl_feature_names_in :: "string list"
  cl_n_estimators :: int
  cl_min_samples_leaf :: int
  cl_random_state :: int

record loaded_pipeline =
  lp_is_pipeline :: bool
  lp_steps :: "(string \<times> classifier) list"

record bundle_env =
  be_read :: "path \<Rightarrow> bytes res"
  be_resolve :: "path \<Rightarrow> path"
  be_to_path :: "string \<Rightarrow> path"
  be_path_str :: "path \<Rightarrow> string"
  be_sha256 :: "bytes \<Rightarrow> string"
  be_loads :: "bytes \<Rightarrow> py res"
  be_canonical :: "py \<Rightarrow> bytes res"
  be_joblib_load :: "bytes \<Rightarrow> loaded_pipeline res"
  be_sklearn_version :: string
  be_numpy_version :: string
  be_python_version :: string

record serving_config =
  vc_evaluation_root :: path
  vc_candidate_lock_path :: path
  vc_expected_evaluation_manifest_sha256 :: string
  vc_expected_deployment_manifest_sha256 :: string
  vc_model_version :: string
  vc_max_concurrent_predictions :: int
  vc_verbose_payload_logging :: bool

definition APPROVED :: string where
  "APPROVED = ''approved_for_local_advisory_integration''"

definition is_sha256 :: "string \<Rightarrow> bool" where
  "is_sha256 s \<longleftrightarrow> length s = 64 \<and> list_all is_hex s"

definition is_version :: "string \<Rightarrow> bool" where
  "is_version s \<longleftrightarrow> s \<noteq> [] \<and> is_alnum (hd s) \<and> length s \<le> 96 \<and>
     list_all (\<lambda>c. is_alnum c \<or> c = CHR ''_'' \<or> c = CHR ''.'' \<or> c = CHR ''-'') (tl s)"

definition pattern_field :: "(string \<Rightarrow> bool) \<Rightarrow> py \<Rightarrow> string res" where
  "pattern_field ok v = bindE (str_field v) (\<lambda>s. if ok s then Inr s else Inl (ValueError ''pattern''))"

definition config_path_entry :: "bundle_env \<Rightarrow> path \<Rightarrow> py \<Rightarrow> string \<Rightarrow> path res" where
  "config_path_entry env config_path values name =
     bindE (py_item values name) (\<lambda>v.
     bindE (py_str v) (\<lambda>s.
     Inr (be_resolve env (path_join (path_parent (be_resolve env config_path)) (be_to_path env s)))))"

definition load_serving_config :: "bundle_env \<Rightarrow> path \<Rightarrow> py \<Rightarrow> serving_config res" where
  "load_serving_config env config_path values =
     bindE (config_path_entry env config_path values ''evaluation_root'') (\<lambda>base.
     bindE (config_path_entry env config_path values ''candidate_lock_path'') (\<lambda>lock.
     bindE (model_fields [''config_version'', ''evaluation_root'', ''candidate_lock_path'',
        ''expected_evaluation_manifest_sha256'', ''expected_deployment_manifest_sha256'',
        ''model_version'', ''max_concurrent_predictions'', ''verbose_payload_logging''] values) (\<lambda>d.
     bindE (field d ''config_version'' (literal_field ''v1'')) (\<lambda>_.
     bindE (field d ''expected_evaluation_manifest_sha256'' (pattern_field is_sha256)) (\<lambda>h1.
     bindE (field d ''expected_deployment_manifest_sha256'' (pattern_field is_sha256)) (\<lambda>h2.
     bindE (field d ''model_version'' (pattern_field is_version)) (\<lambda>mv.
     bindE (field d ''max_concurrent_predictions'' (strict_int 1 1)) (\<lambda>mc.
     bindE (field d ''verbose_payload_logging'' strict_bool) (\<lambda>vb.
     Inr \<lparr>vc_evaluation_root = base, vc_candidate_lock_path = lock,
       vc_expected_evaluation_manifest_sha256 = h1, vc_expected_deployment_manifest_sha256 = h2,
       vc_model_version = mv, vc_max_concurrent_predictions = mc,
       vc_verbose_payload_logging = vb\<rparr>)))))))))"

text \<open>\<open>read_verified\<close>: the bytes read once, if their hash (and size, when given) are as expected.\<close>

definition read_verified :: "bundle_env \<Rightarrow> path \<Rightarrow> py \<Rightarrow> py option \<Rightarrow> bytes res" where
  "read_verified env p expected size_opt =
     bindE (be_read env p) (\<lambda>content.
       if \<not> py_eq (PyStr (be_sha256 env content)) expected \<or>
          (case size_opt of None \<Rightarrow> False
           | Some n \<Rightarrow> n \<noteq> PyNone \<and> \<not> py_eq (PyInt (int (length content))) n)
       then Inl (ValueError ''hash or size'') else Inr content)"

definition inside :: "bundle_env \<Rightarrow> path \<Rightarrow> string \<Rightarrow> path res" where
  "inside env base name =
     (let p = be_resolve env (path_join base (be_to_path env name)) in
      if is_absolute (be_to_path env name) \<or> \<not> is_relative_to p (be_resolve env base) \<or>
         p = be_resolve env base
      then Inl (ValueError ''outside the bundle'') else Inr p)"

section \<open>The schema documents\<close>

definition expected_raw_schema :: "(string \<times> py) list" where
  "expected_raw_schema =
     [(''feature_contract_id'', PyStr (ed_contract_id message_event)),
      (''raw_input_features'', py_strs MESSAGE_FEATURE_ORDER),
      (''wire_schema_version'', PyStr (ct_wire_version OPERATIONAL_CONTRACT)),
      (''capture_layer'', PyStr (ct_capture_layer OPERATIONAL_CONTRACT)),
      (''observation_scope'', PyStr (ed_scope message_event)),
      (''event_type'', PyStr ''message''),
      (''feature_units'', PyDict (map (\<lambda>n. (n, PyStr (fd_unit (the (map_of (ct_features OPERATIONAL_CONTRACT) n)))))
         MESSAGE_FEATURE_ORDER)),
      (''feature_dtypes'', PyDict (map (\<lambda>n. (n, PyStr (fd_dtype (the (map_of (ct_features OPERATIONAL_CONTRACT) n)))))
         MESSAGE_FEATURE_ORDER))]"

definition validate_schema :: "py \<Rightarrow> py \<Rightarrow> py \<Rightarrow> py \<Rightarrow> py \<Rightarrow> unit res" where
  "validate_schema manifest raw model_input labels policy =
     bindE (rejectE (ValueError ''raw feature contract'')
        (map (\<lambda>(name, value). get_ne raw name value) expected_raw_schema)) (\<lambda>_.
     bindE (rejectE (ValueError ''model input transform'')
        [bindE (py_getE raw ''dataset_id'') (\<lambda>x. bindE (py_item manifest ''dataset_id'') (\<lambda>y.
           Inr (\<not> py_eq x y))),
         get_ne raw ''missing_value_policy'' (PyStr ''reject_without_zero_fill''),
         get_ne model_input ''raw_feature_contract_id'' (PyStr (ed_contract_id message_event)),
         get_ne model_input ''raw_input_features'' (py_strs MESSAGE_FEATURE_ORDER),
         get_ne model_input ''model_input_features'' (py_strs MESSAGE_FEATURE_ORDER),
         get_ne model_input ''input_transform_id'' (PyStr ''raw7_v1''),
         get_ne model_input ''preprocessing'' (PyStr ''identity_no_scaler''),
         get_is_not model_input ''requires_ordered_session_prefix'' False]) (\<lambda>_.
     bindE (check (py_eq labels (PyDict [(''normal'', PyInt 0), (''controlled_anomaly'', PyInt 1)]))
        (ValueError ''label map'')) (\<lambda>_.
     rejectE (ValueError ''decision policy'')
        [get_ne policy ''candidate_id'' (PyStr ''rf_raw7''),
         get_ne policy ''threshold'' (PyFloat decision_threshold),
         get_ne policy ''positive_class'' (PyInt 1),
         get_ne policy ''comparison'' (PyStr ''>=''),
         get_ne policy ''input_transform_id'' (PyStr ''raw7_v1''),
         get_is_not policy ''test_confirmed'' True,
         get_ne policy ''scope'' (PyStr ''local_advisory_integration_only''),
         get_is_not policy ''automatic_blocking_allowed'' False])))"

section \<open>Loading the bundle\<close>

definition bundle_file :: "string \<Rightarrow> string" where
  "bundle_file name = ''deployment_bundle/'' @ name"

definition role_names :: "(string \<times> string) list" where
  "role_names = [(''model'', ''pipeline.joblib''), (''feature_schema'', ''feature_schema.json''),
     (''model_input_schema'', ''model_input_schema.json''), (''label_map'', ''label_map.json''),
     (''decision_policy'', ''decision_policy.json'')]"

definition expected_artifacts :: "string list" where
  "expected_artifacts = [''evaluation_protocol_lock.json'', ''test_verdict.json''] @
     map bundle_file [''pipeline.joblib'', ''feature_schema.json'', ''model_input_schema.json'',
       ''label_map.json'', ''decision_policy.json'', ''deployment_manifest.json'']"

fun dict_items :: "py \<Rightarrow> (string \<times> py) list res" where
  "dict_items (PyDict d) = Inr d"
| "dict_items _ = Inl (TypeError ''items'')"

record artifacts_state =
  as_contents :: "(string \<times> bytes) list"
  as_evidence :: "(string \<times> string) list"

text \<open>One turn of the loop over \<open>complete["artifacts"]\<close>.\<close>

definition read_artifact ::
    "bundle_env \<Rightarrow> path \<Rightarrow> artifacts_state \<Rightarrow> string \<times> py \<Rightarrow> artifacts_state res" where
  "read_artifact env base acc entry =
     (case entry of (name, item) \<Rightarrow>
     bindE (inside env base name) (\<lambda>p.
     bindE (py_item item ''sha256'') (\<lambda>h.
     bindE (py_item item ''bytes'') (\<lambda>n.
     bindE (read_verified env p h (Some n)) (\<lambda>content.
     bindE (py_str h) (\<lambda>hs.
     Inr \<lparr>as_contents = dict_set name content (as_contents acc),
          as_evidence = dict_set (be_path_str env p) hs (as_evidence acc)\<rparr>))))))"

definition check_complete :: "py \<Rightarrow> unit res" where
  "check_complete evaluation =
     rejectE (ValueError ''evaluation not approved'')
       [get_ne evaluation ''status'' (PyStr ''complete''),
        get_ne evaluation ''approval_status'' (PyStr APPROVED),
        get_is_not evaluation ''test_evaluated'' True,
        get_is_not evaluation ''model_training_performed'' False]"

definition resolved_ne :: "bundle_env \<Rightarrow> py \<Rightarrow> string \<Rightarrow> path \<Rightarrow> bool res" where
  "resolved_ne env d k p =
     bindE (py_item d k) (\<lambda>v. bindE (py_str v) (\<lambda>s.
     Inr (be_resolve env (be_to_path env s) \<noteq> p)))"

definition check_manifest :: "bundle_env \<Rightarrow> path \<Rightarrow> py \<Rightarrow> unit res" where
  "check_manifest env base manifest =
     rejectE (ValueError ''not an approved RF bundle'')
       [get_ne manifest ''manifest_version'' (PyStr ''operational_rf_deployment_v1''),
        get_ne manifest ''status'' (PyStr APPROVED),
        get_is_not manifest ''local_integration_approved'' True,
        get_is_not manifest ''production_ready'' False,
        get_is_not manifest ''automatic_blocking_allowed'' False,
        get_is_not manifest ''requires_complete_evaluation_manifest'' True,
        resolved_ne env manifest ''evaluation_manifest_path''
          (path_join base (Rel [''evaluation_manifest.json''])),
        resolved_ne env manifest ''test_verdict_path'' (path_join base (Rel [''test_verdict.json''])),
        get_ne manifest ''kind'' (PyStr ''random_forest''),
        get_ne manifest ''candidate_id'' (PyStr ''rf_raw7''),
        get_ne manifest ''threshold'' (PyFloat decision_threshold),
        get_ne manifest ''positive_class'' (PyInt 1),
        get_ne manifest ''comparison'' (PyStr ''>=''),
        get_ne manifest ''feature_contract_id'' (PyStr (ed_contract_id message_event)),
        get_ne manifest ''feature_order'' (py_strs MESSAGE_FEATURE_ORDER),
        get_ne manifest ''input_transform_id'' (PyStr ''raw7_v1''),
        get_is_not manifest ''requires_ordered_session_prefix'' False,
        get_ne manifest ''preprocessing'' (PyStr ''identity_no_scaler'')]"

definition policy_signature :: "bundle_env \<Rightarrow> py \<Rightarrow> string res" where
  "policy_signature env gate =
     bindE (py_item gate ''descriptor'') (\<lambda>d.
     bindE (py_item gate ''criteria'') (\<lambda>c.
     bindE (py_item gate ''test_rule'') (\<lambda>r.
     bindE (py_item gate ''expected_test_sha256'') (\<lambda>h.
     bindE (be_canonical env (PyDict [(''descriptor'', d), (''criteria'', c), (''test_rule'', r),
        (''expected_test_sha256'', h)])) (\<lambda>b.
     Inr (be_sha256 env b))))))"

definition check_links ::
    "bundle_env \<Rightarrow> serving_config \<Rightarrow> py \<Rightarrow> py \<Rightarrow> py \<Rightarrow> py \<Rightarrow> bytes \<Rightarrow> string \<Rightarrow> unit res" where
  "check_links env cfg evaluation manifest verdict gate verdict_bytes signature =
     rejectE (ValueError ''evaluation, verdict, lock and signature differ'')
       [get_ne gate ''status'' (PyStr ''candidate_locked_before_test''),
        item_ne gate ''policy_signature'' (PyStr signature),
        items_ne evaluation ''candidate_lock_sha256'' manifest ''candidate_lock_sha256'',
        get_ne verdict ''status'' (PyStr APPROVED),
        get_ne verdict ''reasons'' (PyList []),
        item_ne manifest ''test_verdict_sha256'' (PyStr (be_sha256 env verdict_bytes)),
        resolved_ne env verdict ''candidate_lock_path'' (vc_candidate_lock_path cfg),
        items_ne verdict ''candidate_lock_sha256'' manifest ''candidate_lock_sha256'',
        anyE [item_ne manifest ''policy_signature'' (PyStr signature),
              item_ne verdict ''policy_signature'' (PyStr signature),
              item_ne evaluation ''policy_signature'' (PyStr signature)],
        items_ne verdict ''criteria'' gate ''criteria'',
        items_ne verdict ''test_input_sha256'' gate ''expected_test_sha256'',
        items_ne verdict ''cost_summary'' gate ''cost_summary'',
        items_ne manifest ''model_id'' gate ''selected_model_id'',
        items_ne manifest ''dataset_id'' gate ''dataset_id'',
        bindE (py_item gate ''descriptor'') (\<lambda>d. item_ne d ''candidate_id'' (PyStr ''rf_raw7'')),
        bindE (py_item gate ''descriptor'') (\<lambda>d. item_ne d ''threshold'' (PyFloat decision_threshold)),
        bindE (py_item gate ''criteria'') (\<lambda>c.
          item_ne c ''scope'' (PyStr ''local_advisory_integration_only''))]"

text \<open>One row of the stored performance against its locked limit.\<close>

definition check_limit :: "py \<times> py \<times> bool \<Rightarrow> unit res" where
  "check_limit row =
     (case row of (value, limit, upper) \<Rightarrow>
       rejectE (ValueError ''locked limits not met'')
         [Inr (value = PyNone),
          bindE (py_isfinite value) (\<lambda>b. Inr (\<not> b)),
          py_gt (PyInt 0) value,
          (if upper then py_gt value limit else py_gt limit value)])"

definition limit_rows :: "py \<Rightarrow> py \<Rightarrow> (py \<times> py \<times> bool) list res" where
  "limit_rows verdict criteria =
     bindE (path_items verdict [''metrics'', ''false_positive_rate'']) (\<lambda>fpr.
     bindE (py_item criteria ''max_false_positive_rate'') (\<lambda>l1.
     bindE (path_items verdict [''by_scenario'', ''normal_batched_chat'', ''false_positive_rate'']) (\<lambda>bfpr.
     bindE (py_item criteria ''max_normal_batched_false_positive_rate'') (\<lambda>l2.
     bindE (path_items verdict [''metrics'', ''recall'']) (\<lambda>recall.
     bindE (py_item criteria ''min_recall'') (\<lambda>l3.
     bindE (path_items verdict [''cost_summary'', ''single_request_worst_process_p95_ms'']) (\<lambda>p95.
     bindE (py_item criteria ''max_single_request_p95_ms'') (\<lambda>l4.
     bindE (path_items verdict [''cost_summary'', ''maximum_native_process_peak_rss_bytes'']) (\<lambda>rss.
     bindE (py_item criteria ''max_process_peak_rss_mib'') (\<lambda>m.
     bindE (py_mul_int m (1024 ^ 2)) (\<lambda>l5.
     Inr [(fpr, l1, True), (bfpr, l2, True), (recall, l3, False), (p95, l4, True),
          (rss, l5, True)])))))))))))"

definition check_role ::
    "bundle_env \<Rightarrow> (string \<times> bytes) list \<Rightarrow> py \<Rightarrow> py \<Rightarrow> (string \<times> py) list \<Rightarrow> string \<times> string
      \<Rightarrow> (string \<times> py) list res" where
  "check_role env contents manifest gate docs entry =
     (case entry of (role, name) \<Rightarrow>
     bindE (path_items manifest [''files'', role]) (\<lambda>item.
     bindE (lookupE contents (bundle_file name)) (\<lambda>content.
     bindE (rejectE (ValueError ''bundle file'')
        [item_ne item ''path'' (PyStr name),
         item_ne item ''sha256'' (PyStr (be_sha256 env content)),
         item_ne item ''bytes'' (PyInt (int (length content)))]) (\<lambda>_.
     bindE (if role = ''decision_policy'' then Inr () else
        bindE (path_items gate [''descriptor'', ''files'', role]) (\<lambda>locked.
        rejectE (ValueError ''differs from the locked candidate'')
          [items_ne item ''sha256'' locked ''sha256''])) (\<lambda>_.
     if role = ''model'' then Inr docs
     else bindE (be_loads env content) (\<lambda>v. Inr (dict_set role v docs)))))))"

definition sum_bytes :: "(string \<times> py) list \<Rightarrow> py res" where
  "sum_bytes files = foldE (\<lambda>acc (_, item). bindE (py_item item ''bytes'') (\<lambda>n. py_add acc n)) (PyInt 0) files"

definition check_classifier :: "loaded_pipeline \<Rightarrow> unit res" where
  "check_classifier lp =
     (if \<not> lp_is_pipeline lp \<or> map fst (lp_steps lp) \<noteq> [''classifier'']
        then Inl (ValueError ''pipeline with a scaler'')
      else
        (let m = snd (hd (lp_steps lp)) in
         if \<not> cl_is_random_forest m \<or> cl_n_jobs m \<noteq> 1 \<or> cl_classes m \<noteq> [0, 1] \<or>
            cl_feature_names_in m \<noteq> MESSAGE_FEATURE_ORDER \<or> cl_n_estimators m \<noteq> 100 \<or>
            cl_min_samples_leaf m \<noteq> 5 \<or> cl_random_state m \<noteq> 42
         then Inl (ValueError ''classifier settings'') else Inr ()))"

fun split_dot :: "string \<Rightarrow> string list" where
  "split_dot [] = [[]]"
| "split_dot (c # cs) =
     (if c = CHR ''.'' then [] # split_dot cs
      else case split_dot cs of [] \<Rightarrow> [[c]] | w # ws \<Rightarrow> (c # w) # ws)"

definition check_versions :: "bundle_env \<Rightarrow> py \<Rightarrow> unit res" where
  "check_versions env manifest =
     bindE (py_item manifest ''environment'') (\<lambda>versions.
     rejectE (ValueError ''versions'')
       [item_ne versions ''scikit_learn'' (PyStr (be_sklearn_version env)),
        item_ne versions ''numpy'' (PyStr (be_numpy_version env)),
        bindE (py_item versions ''python'') (\<lambda>v. bindE (py_str v) (\<lambda>s.
          Inr (take 2 (split_dot s) \<noteq> take 2 (split_dot (be_python_version env)))))])"

record verified_bundle =
  vb_pipeline :: loaded_pipeline
  vb_manifest :: py
  vb_evidence :: "(string \<times> string) list"

text \<open>The checks of the documents, between reading the artifacts and loading the pipeline.\<close>

definition check_documents ::
    "bundle_env \<Rightarrow> serving_config \<Rightarrow> path \<Rightarrow> py \<Rightarrow> artifacts_state
      \<Rightarrow> (py \<times> (string \<times> string) list) res" where
  "check_documents env cfg base evaluation arts =
     bindE (lookupE (as_contents arts) (bundle_file ''deployment_manifest.json'')) (\<lambda>mbytes.
     bindE (check (be_sha256 env mbytes = vc_expected_deployment_manifest_sha256 cfg)
        (ValueError ''deployment manifest hash'')) (\<lambda>_.
     bindE (be_loads env mbytes) (\<lambda>manifest.
     bindE (check_manifest env base manifest) (\<lambda>_.
     bindE (lookupE (as_contents arts) ''test_verdict.json'') (\<lambda>vbytes.
     bindE (be_loads env vbytes) (\<lambda>verdict.
     bindE (py_item manifest ''candidate_lock_sha256'') (\<lambda>lock_hash.
     bindE (read_verified env (vc_candidate_lock_path cfg) lock_hash None) (\<lambda>gbytes.
     bindE (be_loads env gbytes) (\<lambda>gate.
     bindE (policy_signature env gate) (\<lambda>signature.
     bindE (check_links env cfg evaluation manifest verdict gate vbytes signature) (\<lambda>_.
     bindE (py_item gate ''criteria'') (\<lambda>criteria.
     bindE (limit_rows verdict criteria) (\<lambda>rows.
     bindE (forE check_limit rows) (\<lambda>_.
     bindE (bindE (py_item manifest ''files'') dict_items) (\<lambda>files.
     bindE (check (set (map fst files) = set (map fst role_names)) (ValueError ''bundle roles'')) (\<lambda>_.
     bindE (foldE (check_role env (as_contents arts) manifest gate) [] role_names) (\<lambda>docs.
     bindE (sum_bytes files) (\<lambda>size.
     bindE (rejectE (ValueError ''bundle size'')
        [item_ne manifest ''required_files_bytes'' size,
         bindE (py_item criteria ''max_deployment_artifacts_mib'') (\<lambda>m.
           bindE (py_mul_int m (1024 ^ 2)) (\<lambda>l. py_gt size l))]) (\<lambda>_.
     bindE (lookupE docs ''feature_schema'') (\<lambda>raw.
     bindE (lookupE docs ''model_input_schema'') (\<lambda>model_input.
     bindE (lookupE docs ''label_map'') (\<lambda>labels.
     bindE (lookupE docs ''decision_policy'') (\<lambda>policy.
     bindE (validate_schema manifest raw model_input labels policy) (\<lambda>_.
     bindE (check_versions env manifest) (\<lambda>_.
     Inr (manifest, dict_set (be_path_str env (vc_candidate_lock_path cfg)) (be_sha256 env gbytes)
       (as_evidence arts)))))))))))))))))))))))))))"

definition load_verified_bundle :: "bundle_env \<Rightarrow> serving_config \<Rightarrow> verified_bundle res" where
  "load_verified_bundle env cfg =
     (let base = be_resolve env (vc_evaluation_root cfg);
          complete_path = path_join base (Rel [''evaluation_manifest.json'']) in
     bindE (read_verified env complete_path (PyStr (vc_expected_evaluation_manifest_sha256 cfg)) None)
       (\<lambda>ebytes.
     bindE (be_loads env ebytes) (\<lambda>evaluation.
     bindE (check_complete evaluation) (\<lambda>_.
     bindE (bindE (py_item evaluation ''artifacts'') dict_items) (\<lambda>artifacts.
     bindE (check (set (map fst artifacts) = set expected_artifacts) (ValueError ''artifact set'')) (\<lambda>_.
     bindE (foldE (read_artifact env base)
        \<lparr>as_contents = [], as_evidence = [(be_path_str env complete_path, be_sha256 env ebytes)]\<rparr>
        artifacts) (\<lambda>arts.
     bindE (check_documents env cfg base evaluation arts) (\<lambda>(manifest, evidence).
     bindE (lookupE (as_contents arts) (bundle_file ''pipeline.joblib'')) (\<lambda>pbytes.
     bindE (be_joblib_load env pbytes) (\<lambda>lp.
     bindE (check_classifier lp) (\<lambda>_.
     Inr \<lparr>vb_pipeline = lp, vb_manifest = manifest, vb_evidence = evidence\<rparr>)))))))))))"

section \<open>Lemmas\<close>

lemma scalar_eq_PyStr_left [simp]: "scalar_eq (PyStr s) v \<longleftrightarrow> v = PyStr s"
  by (cases v) auto

lemma scalar_eq_PyStr_right [simp]: "scalar_eq v (PyStr s) \<longleftrightarrow> v = PyStr s"
  by (cases v) auto

lemma py_eq_PyStr_right: "py_eq v (PyStr s) \<longleftrightarrow> v = PyStr s"
  by (cases v) auto

lemma py_eq_PyStr_left: "py_eq (PyStr s) v \<longleftrightarrow> v = PyStr s"
  by (cases v) auto

lemma read_verified_hash:
  assumes "read_verified env p h n = Inr content"
  shows "be_read env p = Inr content" "h = PyStr (be_sha256 env content)"
    "n = Some (PyInt k) \<Longrightarrow> int (length content) = k"
  using assms by (auto simp: read_verified_def bindE_Inr_iff py_eq_PyStr_left split: if_splits option.splits)

lemma inside_below:
  assumes "inside env base name = Inr p"
  shows "is_relative_to p (be_resolve env base)" "p \<noteq> be_resolve env base"
  using assms by (auto simp: inside_def Let_def split: if_splits)

text \<open>Every content of the table was read below the base and has the hash of its entry.\<close>

definition artifact_ok :: "bundle_env \<Rightarrow> path \<Rightarrow> (string \<times> py) list \<Rightarrow> string \<Rightarrow> bytes \<Rightarrow> bool" where
  "artifact_ok env base artifacts name content \<longleftrightarrow>
     (\<exists>item p. (name, item) \<in> set artifacts \<and> inside env base name = Inr p \<and>
        be_read env p = Inr content \<and> py_item item ''sha256'' = Inr (PyStr (be_sha256 env content)))"

lemma read_artifacts_ok:
  assumes "foldE (read_artifact env base) acc artifacts = Inr arts" and "as_contents acc = []"
    and "map_of (as_contents arts) name = Some content"
  shows "artifact_ok env base artifacts name content"
proof -
  let ?I = "\<lambda>s. \<forall>n c. map_of (as_contents s) n = Some c \<longrightarrow> artifact_ok env base artifacts n c"
  have "?I arts"
  proof (rule foldE_invariant [OF assms(1)])
    show "?I acc" using assms(2) by simp
    fix s x t
    assume x: "x \<in> set artifacts" and I: "?I s" and st: "read_artifact env base s x = Inr t"
    obtain nm item where nm: "x = (nm, item)" by (cases x)
    from st nm obtain p h k c hs where
      s: "inside env base nm = Inr p" "py_item item ''sha256'' = Inr h"
        "read_verified env p h (Some k) = Inr c"
        "as_contents t = dict_set nm c (as_contents s)"
      by (auto simp: read_artifact_def bindE_Inr_iff)
    from read_verified_hash [OF s(3)] x nm s(1,2) have "artifact_ok env base artifacts nm c"
      unfolding artifact_ok_def by auto
    with I s(4) show "?I t" by (auto split: if_splits)
  qed
  then show ?thesis using assms(3) by blast
qed

lemma item_ne_False_PyStr: "item_ne d k (PyStr s) = Inr False \<longleftrightarrow> py_item d k = Inr (PyStr s)"
  by (auto simp: item_ne_def bindE_Inr_iff py_eq_PyStr_right)

text \<open>What the accepted manifest says of the model file.\<close>

lemma check_role_model:
  assumes "foldE (check_role env contents manifest gate) [] role_names = Inr docs"
  shows "\<exists>item content. path_items manifest [''files'', ''model''] = Inr item \<and>
     map_of contents (bundle_file ''pipeline.joblib'') = Some content \<and>
     py_item item ''sha256'' = Inr (PyStr (be_sha256 env content))"
proof -
  from assms obtain d where "check_role env contents manifest gate [] (''model'', ''pipeline.joblib'') = Inr d"
    by (auto simp: role_names_def bindE_Inr_iff)
  then show ?thesis
    by (auto simp: check_role_def bindE_Inr_iff rejectE_Inr_iff item_ne_False_PyStr simp del: path_items.simps)
qed

definition bundle_chain ::
    "bundle_env \<Rightarrow> serving_config \<Rightarrow> verified_bundle \<Rightarrow> bytes \<Rightarrow> bytes \<Rightarrow> bytes \<Rightarrow> bool" where
  "bundle_chain env cfg b ebytes mbytes pbytes \<longleftrightarrow>
     be_sha256 env ebytes = vc_expected_evaluation_manifest_sha256 cfg \<and>
     be_sha256 env mbytes = vc_expected_deployment_manifest_sha256 cfg \<and>
     be_loads env mbytes = Inr (vb_manifest b) \<and>
     (\<exists>item. path_items (vb_manifest b) [''files'', ''model''] = Inr item \<and>
        py_item item ''sha256'' = Inr (PyStr (be_sha256 env pbytes))) \<and>
     (\<exists>evaluation artifacts base. be_loads env ebytes = Inr evaluation \<and>
        check_complete evaluation = Inr () \<and>
        py_item evaluation ''artifacts'' = Inr (PyDict artifacts) \<and>
        base = be_resolve env (vc_evaluation_root cfg) \<and>
        be_read env (path_join base (Rel [''evaluation_manifest.json''])) = Inr ebytes \<and>
        artifact_ok env base artifacts (bundle_file ''deployment_manifest.json'') mbytes \<and>
        artifact_ok env base artifacts (bundle_file ''pipeline.joblib'') pbytes) \<and>
     be_joblib_load env pbytes = Inr (vb_pipeline b) \<and>
     check_classifier (vb_pipeline b) = Inr ()"

lemma dict_items_Inr_iff [res_simps]: "dict_items v = Inr d \<longleftrightarrow> v = PyDict d"
  by (cases v) auto

lemma check_documents_facts:
  assumes "check_documents env cfg base evaluation arts = Inr (manifest, evidence)"
  shows "\<exists>mbytes gate docs. map_of (as_contents arts) (bundle_file ''deployment_manifest.json'') = Some mbytes \<and>
     be_sha256 env mbytes = vc_expected_deployment_manifest_sha256 cfg \<and>
     be_loads env mbytes = Inr manifest \<and> check_manifest env base manifest = Inr () \<and>
     foldE (check_role env (as_contents arts) manifest gate) [] role_names = Inr docs"
  using assms unfolding check_documents_def
  by (auto simp: bindE_Inr_iff)

lemma load_verified_bundle_chain:
  assumes "load_verified_bundle env cfg = Inr b"
  shows "\<exists>ebytes mbytes pbytes. bundle_chain env cfg b ebytes mbytes pbytes"
proof -
  let ?base = "be_resolve env (vc_evaluation_root cfg)"
  from assms obtain ebytes evaluation artifacts arts manifest evidence pbytes where
    e: "read_verified env (path_join ?base (Rel [''evaluation_manifest.json'']))
          (PyStr (vc_expected_evaluation_manifest_sha256 cfg)) None = Inr ebytes"
      "be_loads env ebytes = Inr evaluation" "check_complete evaluation = Inr ()"
      "py_item evaluation ''artifacts'' = Inr (PyDict artifacts)" and
    f: "foldE (read_artifact env ?base)
        \<lparr>as_contents = [], as_evidence = [(be_path_str env
           (path_join ?base (Rel [''evaluation_manifest.json''])), be_sha256 env ebytes)]\<rparr>
        artifacts = Inr arts" and
    d: "check_documents env cfg ?base evaluation arts = Inr (manifest, evidence)" and
    p: "map_of (as_contents arts) (bundle_file ''pipeline.joblib'') = Some pbytes"
      "be_joblib_load env pbytes = Inr (vb_pipeline b)" "check_classifier (vb_pipeline b) = Inr ()"
      "vb_manifest b = manifest"
    unfolding load_verified_bundle_def Let_def by (auto simp: bindE_Inr_iff dict_items_Inr_iff)
  from check_documents_facts [OF d] obtain mbytes gate docs where
    m: "map_of (as_contents arts) (bundle_file ''deployment_manifest.json'') = Some mbytes"
      "be_sha256 env mbytes = vc_expected_deployment_manifest_sha256 cfg"
      "be_loads env mbytes = Inr manifest"
      "foldE (check_role env (as_contents arts) manifest gate) [] role_names = Inr docs"
    by blast
  from check_role_model [OF m(4)] p(1) have
    "\<exists>item. path_items manifest [''files'', ''model''] = Inr item \<and>
       py_item item ''sha256'' = Inr (PyStr (be_sha256 env pbytes))" by auto
  with e m p read_verified_hash [OF e(1)] read_artifacts_ok [OF f _ m(1)] read_artifacts_ok [OF f _ p(1)]
  have "bundle_chain env cfg b ebytes mbytes pbytes"
    unfolding bundle_chain_def by auto
  then show ?thesis by blast
qed

text \<open>Two file systems under one hash function agree on everything the chain pins.\<close>

lemma bundle_chain_unique:
  assumes "bundle_chain env cfg b ebytes mbytes pbytes"
    and "bundle_chain (env\<lparr>be_read := r\<rparr>) cfg b' ebytes' mbytes' pbytes'"
    and inj: "inj (be_sha256 env)"
  shows "vb_pipeline b' = vb_pipeline b \<and> vb_manifest b' = vb_manifest b \<and> pbytes' = pbytes"
proof -
  have "be_sha256 env mbytes' = be_sha256 env mbytes"
    using assms(1,2) by (simp add: bundle_chain_def)
  with inj have m: "mbytes' = mbytes" by (rule injD)
  have "be_loads env mbytes = Inr (vb_manifest b)" "be_loads env mbytes' = Inr (vb_manifest b')"
    using assms(1,2) by (simp_all add: bundle_chain_def)
  with m have man: "vb_manifest b' = vb_manifest b" by simp
  obtain i where i: "path_items (vb_manifest b) [''files'', ''model''] = Inr i"
    "py_item i ''sha256'' = Inr (PyStr (be_sha256 env pbytes))"
    using assms(1) unfolding bundle_chain_def by blast
  obtain i' where i': "path_items (vb_manifest b') [''files'', ''model''] = Inr i'"
    "py_item i' ''sha256'' = Inr (PyStr (be_sha256 env pbytes'))"
    using assms(2) unfolding bundle_chain_def by auto
  from i i' man have "be_sha256 env pbytes' = be_sha256 env pbytes" by simp
  with inj have p: "pbytes' = pbytes" by (rule injD)
  have "be_joblib_load env pbytes = Inr (vb_pipeline b)" "be_joblib_load env pbytes' = Inr (vb_pipeline b')"
    using assms(1,2) by (simp_all add: bundle_chain_def)
  with p have "vb_pipeline b' = vb_pipeline b" by simp
  with man p show ?thesis by simp
qed

section \<open>A bundle that loads\<close>

text \<open>File contents are one-letter byte strings, and a content is its own hash.\<close>

definition demo_pipeline :: loaded_pipeline where
  "demo_pipeline = \<lparr>lp_is_pipeline = True,
     lp_steps = [(''classifier'', \<lparr>cl_is_random_forest = True, cl_n_jobs = 1, cl_classes = [0, 1],
       cl_feature_names_in = MESSAGE_FEATURE_ORDER, cl_n_estimators = 100,
       cl_min_samples_leaf = 5, cl_random_state = 42\<rparr>)]\<rparr>"

definition demo_files :: "(string list \<times> bytes) list" where
  "demo_files =
     [([''ev'', ''evaluation_manifest.json''], ''E''), ([''lock''], ''L''),
      ([''ev'', ''evaluation_protocol_lock.json''], ''A''), ([''ev'', ''test_verdict.json''], ''V''),
      ([''ev'', ''deployment_bundle/pipeline.joblib''], ''P''),
      ([''ev'', ''deployment_bundle/feature_schema.json''], ''F''),
      ([''ev'', ''deployment_bundle/model_input_schema.json''], ''I''),
      ([''ev'', ''deployment_bundle/label_map.json''], ''B''),
      ([''ev'', ''deployment_bundle/decision_policy.json''], ''D''),
      ([''ev'', ''deployment_bundle/deployment_manifest.json''], ''M'')]"

definition demo_item :: "string \<Rightarrow> py" where
  "demo_item h = PyDict [(''sha256'', PyStr h), (''bytes'', PyInt 1)]"

definition demo_evaluation :: py where
  "demo_evaluation = PyDict [(''status'', PyStr ''complete''), (''approval_status'', PyStr APPROVED),
     (''test_evaluated'', PyBool True), (''model_training_performed'', PyBool False),
     (''candidate_lock_sha256'', PyStr ''L''), (''policy_signature'', PyStr ''S''),
     (''artifacts'', PyDict (zip expected_artifacts
        (map demo_item [''A'', ''V'', ''P'', ''F'', ''I'', ''B'', ''D'', ''M''])))]"

definition demo_role :: "string \<times> string \<Rightarrow> string \<Rightarrow> string \<times> py" where
  "demo_role rn h = (fst rn, PyDict [(''path'', PyStr (snd rn)), (''sha256'', PyStr h), (''bytes'', PyInt 1)])"

definition demo_roles :: "(string \<times> py) list" where
  "demo_roles = map2 demo_role role_names [''P'', ''F'', ''I'', ''B'', ''D'']"

definition demo_manifest :: py where
  "demo_manifest = PyDict [(''manifest_version'', PyStr ''operational_rf_deployment_v1''),
     (''status'', PyStr APPROVED), (''local_integration_approved'', PyBool True),
     (''production_ready'', PyBool False), (''automatic_blocking_allowed'', PyBool False),
     (''requires_complete_evaluation_manifest'', PyBool True),
     (''evaluation_manifest_path'', PyStr ''/ev/evaluation_manifest.json''),
     (''test_verdict_path'', PyStr ''/ev/test_verdict.json''),
     (''kind'', PyStr ''random_forest''), (''candidate_id'', PyStr ''rf_raw7''),
     (''threshold'', PyFloat decision_threshold), (''positive_class'', PyInt 1),
     (''comparison'', PyStr ''>=''), (''feature_contract_id'', PyStr (ed_contract_id message_event)),
     (''feature_order'', py_strs MESSAGE_FEATURE_ORDER), (''input_transform_id'', PyStr ''raw7_v1''),
     (''requires_ordered_session_prefix'', PyBool False), (''preprocessing'', PyStr ''identity_no_scaler''),
     (''candidate_lock_sha256'', PyStr ''L''), (''test_verdict_sha256'', PyStr ''V''),
     (''policy_signature'', PyStr ''S''), (''model_id'', PyStr ''m''), (''dataset_id'', PyStr ''d''),
     (''files'', PyDict demo_roles), (''required_files_bytes'', PyInt 5),
     (''environment'', PyDict [(''scikit_learn'', PyStr ''1''), (''numpy'', PyStr ''2''),
        (''python'', PyStr ''3.12.4'')])]"

definition demo_criteria :: py where
  "demo_criteria = PyDict [(''scope'', PyStr ''local_advisory_integration_only''),
     (''max_false_positive_rate'', PyFloat (Fin 1)), (''max_normal_batched_false_positive_rate'', PyFloat (Fin 1)),
     (''min_recall'', PyFloat (Fin 0)), (''max_single_request_p95_ms'', PyInt 50),
     (''max_process_peak_rss_mib'', PyInt 1), (''max_deployment_artifacts_mib'', PyInt 1)]"

definition demo_cost :: py where
  "demo_cost = PyDict [(''single_request_worst_process_p95_ms'', PyFloat (Fin 9)),
     (''maximum_native_process_peak_rss_bytes'', PyFloat (Fin 9))]"

definition demo_gate :: py where
  "demo_gate = PyDict [(''status'', PyStr ''candidate_locked_before_test''),
     (''policy_signature'', PyStr ''S''), (''criteria'', demo_criteria), (''test_rule'', PyNone),
     (''expected_test_sha256'', PyStr ''T''), (''cost_summary'', demo_cost),
     (''selected_model_id'', PyStr ''m''), (''dataset_id'', PyStr ''d''),
     (''descriptor'', PyDict [(''candidate_id'', PyStr ''rf_raw7''),
        (''threshold'', PyFloat decision_threshold), (''files'', PyDict demo_roles)])]"

definition demo_verdict :: py where
  "demo_verdict = PyDict [(''status'', PyStr APPROVED), (''reasons'', PyList []),
     (''candidate_lock_path'', PyStr ''/lock''), (''candidate_lock_sha256'', PyStr ''L''),
     (''policy_signature'', PyStr ''S''), (''criteria'', demo_criteria),
     (''test_input_sha256'', PyStr ''T''), (''cost_summary'', demo_cost),
     (''metrics'', PyDict [(''false_positive_rate'', PyFloat (Fin 0)), (''recall'', PyFloat (Fin 1))]),
     (''by_scenario'', PyDict [(''normal_batched_chat'', PyDict [(''false_positive_rate'', PyFloat (Fin 0))])])]"

definition demo_docs :: "(bytes \<times> py) list" where
  "demo_docs = [(''E'', demo_evaluation), (''M'', demo_manifest), (''L'', demo_gate), (''V'', demo_verdict),
     (''F'', PyDict (expected_raw_schema @ [(''dataset_id'', PyStr ''d''),
        (''missing_value_policy'', PyStr ''reject_without_zero_fill'')])),
     (''I'', PyDict [(''raw_feature_contract_id'', PyStr (ed_contract_id message_event)),
        (''raw_input_features'', py_strs MESSAGE_FEATURE_ORDER),
        (''model_input_features'', py_strs MESSAGE_FEATURE_ORDER),
        (''input_transform_id'', PyStr ''raw7_v1''), (''preprocessing'', PyStr ''identity_no_scaler''),
        (''requires_ordered_session_prefix'', PyBool False)]),
     (''B'', PyDict [(''normal'', PyInt 0), (''controlled_anomaly'', PyInt 1)]),
     (''D'', PyDict [(''candidate_id'', PyStr ''rf_raw7''), (''threshold'', PyFloat decision_threshold),
        (''positive_class'', PyInt 1), (''comparison'', PyStr ''>=''),
        (''input_transform_id'', PyStr ''raw7_v1''), (''test_confirmed'', PyBool True),
        (''scope'', PyStr ''local_advisory_integration_only''),
        (''automatic_blocking_allowed'', PyBool False)])]"

fun demo_to_path :: "string \<Rightarrow> path" where
  "demo_to_path s =
     (if s = ''/ev/evaluation_manifest.json'' then Abs [''ev'', ''evaluation_manifest.json'']
      else if s = ''/ev/test_verdict.json'' then Abs [''ev'', ''test_verdict.json'']
      else if s = ''/lock'' then Abs [''lock''] else Rel [s])"

fun demo_read :: "path \<Rightarrow> bytes res" where
  "demo_read (Abs p) = (case map_of demo_files p of None \<Rightarrow> Inl (FileNotFoundError ''f'') | Some b \<Rightarrow> Inr b)"
| "demo_read (Rel p) = Inl (FileNotFoundError ''f'')"

definition demo_env :: bundle_env where
  "demo_env = \<lparr>be_read = demo_read, be_resolve = (\<lambda>p. p), be_to_path = demo_to_path,
     be_path_str = (\<lambda>p. case p of Abs xs \<Rightarrow> concat xs | Rel xs \<Rightarrow> concat xs),
     be_sha256 = (\<lambda>b. b),
     be_loads = (\<lambda>b. case map_of demo_docs b of None \<Rightarrow> Inl (ValueError ''json'') | Some v \<Rightarrow> Inr v),
     be_canonical = (\<lambda>_. Inr ''S''), be_joblib_load = (\<lambda>_. Inr demo_pipeline),
     be_sklearn_version = ''1'', be_numpy_version = ''2'', be_python_version = ''3.12.1''\<rparr>"

definition demo_serving :: serving_config where
  "demo_serving = \<lparr>vc_evaluation_root = Abs [''ev''], vc_candidate_lock_path = Abs [''lock''],
     vc_expected_evaluation_manifest_sha256 = ''E'', vc_expected_deployment_manifest_sha256 = ''M'',
     vc_model_version = ''rf'', vc_max_concurrent_predictions = 1, vc_verbose_payload_logging = False\<rparr>"

lemma demo_bundle_evaluates: "isl (load_verified_bundle demo_env demo_serving) = False"
  by code_simp

lemma demo_bundle_loads: "\<exists>b. load_verified_bundle demo_env demo_serving = Inr b"
  using demo_bundle_evaluates by (cases "load_verified_bundle demo_env demo_serving") auto

section \<open>Properties\<close>

text \<open>
  C2: a bundle is served only along the pinned hash chain: the evaluation manifest read has
  the configured hash and declares the approved state, the deployment manifest has the
  configured hash, every artifact was read below the evaluation directory with the hash of
  its entry, the pipeline is unpickled from the very bytes whose hash the deployment
  manifest records, and the classifier has the seven features in order and the fixed
  training settings.
\<close>

theorem loaded_bundle_is_pinned:
  assumes "load_verified_bundle env cfg = Inr b"
  shows "\<exists>ebytes mbytes pbytes. bundle_chain env cfg b ebytes mbytes pbytes \<and>
     (\<exists>m. lp_steps (vb_pipeline b) = [(''classifier'', m)] \<and> cl_is_random_forest m \<and>
        cl_feature_names_in m = MESSAGE_FEATURE_ORDER \<and> cl_classes m = [0, 1])"
proof -
  from load_verified_bundle_chain [OF assms] obtain e m p where
    c: "bundle_chain env cfg b e m p" by blast
  then have "check_classifier (vb_pipeline b) = Inr ()" by (simp add: bundle_chain_def)
  then have "\<exists>m. lp_steps (vb_pipeline b) = [(''classifier'', m)] \<and> cl_is_random_forest m \<and>
        cl_feature_names_in m = MESSAGE_FEATURE_ORDER \<and> cl_classes m = [0, 1]"
    by (auto simp: check_classifier_def Let_def map_eq_Cons_conv split: if_splits)
  with c show ?thesis by blast
qed

lemma loaded_bundle_is_pinned_witness:
  "\<exists>b ebytes mbytes pbytes. bundle_chain demo_env demo_serving b ebytes mbytes pbytes"
proof -
  obtain b where b: "load_verified_bundle demo_env demo_serving = Inr b"
    using demo_bundle_loads by (elim exE)
  from loaded_bundle_is_pinned [OF b] show ?thesis by blast
qed

text \<open>
  tampering with files cannot change the served model: with a collision-free hash, two
  file systems that both pass the check under one configuration yield the same deployment
  manifest and the same pipeline.
\<close>

theorem bundle_tamper_evident:
  assumes "inj (be_sha256 env)"
    and "load_verified_bundle env cfg = Inr b"
    and "load_verified_bundle (env\<lparr>be_read := r\<rparr>) cfg = Inr b'"
  shows "vb_pipeline b' = vb_pipeline b \<and> vb_manifest b' = vb_manifest b"
proof -
  from load_verified_bundle_chain [OF assms(2)] load_verified_bundle_chain [OF assms(3)]
  obtain e m p e' m' p' where "bundle_chain env cfg b e m p"
    "bundle_chain (env\<lparr>be_read := r\<rparr>) cfg b' e' m' p'" by blast
  from bundle_chain_unique [OF this assms(1)] show ?thesis by simp
qed

lemma bundle_tamper_evident_witness:
  "\<exists>b. load_verified_bundle (demo_env\<lparr>be_read := demo_read\<rparr>) demo_serving = Inr b \<and>
       vb_pipeline b = vb_pipeline b"
proof -
  have same: "demo_env\<lparr>be_read := demo_read\<rparr> = demo_env" by (simp add: demo_env_def)
  obtain b where b: "load_verified_bundle demo_env demo_serving = Inr b"
    using demo_bundle_loads by (elim exE)
  have "inj (be_sha256 demo_env)" by (simp add: demo_env_def inj_def)
  from bundle_tamper_evident [OF this b, of demo_read b] b same show ?thesis by auto
qed

end
