(* ===== verification/Wire.thy ===== *)
theory Wire
  imports Py_Prelude "HOL-Library.Word"
begin

text \<open>
  Bytes as 8-bit words, the big-endian formats of \<open>struct\<close> that the traffic generator uses
  (\<open>!H\<close>, \<open>!i\<close>), and the hexadecimal text of \<open>bytes.hex\<close> and \<open>bytes.fromhex\<close>.
\<close>

type_synonym wire = "8 word list"

section \<open>Packing integers\<close>

definition byte_at :: "nat \<Rightarrow> int \<Rightarrow> 8 word" where
  "byte_at k n = word_of_int (n div 2 ^ (8 * k))"

definition be_value :: "wire \<Rightarrow> int" where
  "be_value bs = foldl (\<lambda>a b. a * 256 + uint b) 0 bs"

definition pack_H :: "int \<Rightarrow> wire res" where
  "pack_H n = (if 0 \<le> n \<and> n < 65536 then Inr [byte_at 1 n, byte_at 0 n]
     else Inl (StructError ''H format requires 0 <= number <= 65535''))"

definition pack_i :: "int \<Rightarrow> wire res" where
  "pack_i n = (if - (2 ^ 31) \<le> n \<and> n < 2 ^ 31
     then Inr [byte_at 3 n, byte_at 2 n, byte_at 1 n, byte_at 0 n]
     else Inl (StructError ''i format requires -2147483648 <= number <= 2147483647''))"

definition unpack_H :: "wire \<Rightarrow> int res" where
  "unpack_H bs = (if length bs = 2 then Inr (be_value bs)
     else Inl (StructError ''unpack requires a buffer of 2 bytes''))"

definition signed32 :: "int \<Rightarrow> int" where
  "signed32 u = (if u < 2 ^ 31 then u else u - 2 ^ 32)"

definition unpack_ii :: "wire \<Rightarrow> (int \<times> int) res" where
  "unpack_ii bs = (if length bs = 8
     then Inr (signed32 (be_value (take 4 bs)), signed32 (be_value (drop 4 bs)))
     else Inl (StructError ''unpack requires a buffer of 8 bytes''))"

lemma uint_byte_at: "uint (byte_at k n) = (n div 2 ^ (8 * k)) mod 256"
  by (simp add: byte_at_def uint_word_of_int)

lemma two_digits: "n div b mod b * b + n mod b = n mod (b * b)" if "0 < b" for n b :: int
  using zmod_zmult2_eq [of b n b] that by (simp add: mult.commute)

lemma be_value_2: "be_value [byte_at (Suc 0) n, byte_at 0 n] = n mod 65536"
  using two_digits [of 256 n] by (simp add: be_value_def uint_byte_at)

lemma be_value_4:
  "be_value [byte_at 3 n, byte_at 2 n, byte_at (Suc 0) n, byte_at 0 n] = n mod 4294967296"
proof -
  have "n div 16777216 = n div 65536 div 256"
    using zdiv_zmult2_eq [of 256 n 65536] by simp
  then have hi: "n div 16777216 mod 256 * 256 + n div 65536 mod 256 = n div 65536 mod 65536"
    using two_digits [of 256 "n div 65536"] by simp
  have lo: "n div 256 mod 256 * 256 + n mod 256 = n mod 65536"
    using two_digits [of 256 n] by simp
  have all: "n div 65536 mod 65536 * 65536 + n mod 65536 = n mod 4294967296"
    using two_digits [of 65536 n] by simp
  have "be_value [byte_at 3 n, byte_at 2 n, byte_at (Suc 0) n, byte_at 0 n]
      = (n div 16777216 mod 256 * 256 + n div 65536 mod 256) * 65536
        + (n div 256 mod 256 * 256 + n mod 256)"
    by (simp add: be_value_def uint_byte_at)
  then show ?thesis unfolding hi lo all .
qed

lemma pack_H_Inr_iff [res_simps]:
  "pack_H n = Inr bs \<longleftrightarrow> 0 \<le> n \<and> n < 65536 \<and> bs = [byte_at (Suc 0) n, byte_at 0 n]"
  by (auto simp: pack_H_def)

lemma pack_i_Inr_iff [res_simps]:
  "pack_i n = Inr bs \<longleftrightarrow> - 2147483648 \<le> n \<and> n < 2147483648 \<and>
     bs = [byte_at 3 n, byte_at 2 n, byte_at (Suc 0) n, byte_at 0 n]"
  by (auto simp: pack_i_def)

lemma pack_H_length: "pack_H n = Inr bs \<Longrightarrow> length bs = 2"
  by (auto simp: pack_H_Inr_iff)

lemma pack_i_length: "pack_i n = Inr bs \<Longrightarrow> length bs = 4"
  by (auto simp: pack_i_Inr_iff)

lemma unpack_pack_H: "pack_H n = Inr bs \<Longrightarrow> unpack_H bs = Inr n"
  by (auto simp: pack_H_Inr_iff unpack_H_def be_value_2)

lemma signed32_mod: "- 2147483648 \<le> n \<Longrightarrow> n < 2147483648 \<Longrightarrow> signed32 (n mod 4294967296) = n"
proof (cases "0 \<le> n")
  case True
  assume "n < 2147483648"
  with True have "n mod 4294967296 = n" by simp
  with \<open>n < 2147483648\<close> show ?thesis by (simp add: signed32_def)
next
  case False
  assume "- 2147483648 \<le> n"
  with False have "n mod 4294967296 = n + 4294967296"
    using mod_pos_pos_trivial [of "n + 4294967296" 4294967296] by simp
  with False \<open>- 2147483648 \<le> n\<close> show ?thesis by (simp add: signed32_def)
qed

lemma signed32_pack_i: "pack_i n = Inr bs \<Longrightarrow> signed32 (be_value bs) = n"
  by (auto simp: pack_i_Inr_iff be_value_4 signed32_mod)

lemma unpack_pack_ii:
  "pack_i m = Inr as \<Longrightarrow> pack_i n = Inr bs \<Longrightarrow> unpack_ii (as @ bs) = Inr (m, n)"
  using pack_i_length [of m as] pack_i_length [of n bs] signed32_pack_i [of m as]
    signed32_pack_i [of n bs]
  by (simp add: unpack_ii_def)

section \<open>Hexadecimal text\<close>

definition nibble_char :: "nat \<Rightarrow> char" where
  "nibble_char d = (if d < 10 then char_of (48 + d) else char_of (87 + d))"

definition char_nibble :: "char \<Rightarrow> nat option" where
  "char_nibble c =
     (let n = of_char c :: nat in
      if 48 \<le> n \<and> n \<le> 57 then Some (n - 48)
      else if 97 \<le> n \<and> n \<le> 102 then Some (n - 87)
      else if 65 \<le> n \<and> n \<le> 70 then Some (n - 55) else None)"

primrec hex_of :: "wire \<Rightarrow> string" where
  "hex_of [] = []"
| "hex_of (b # bs) = nibble_char (unat b div 16) # nibble_char (unat b mod 16) # hex_of bs"

text \<open>\<open>bytes.fromhex\<close>: ASCII whitespace is skipped between bytes.\<close>

definition hex_space :: "char \<Rightarrow> bool" where
  "hex_space c \<longleftrightarrow> (of_char c :: nat) \<in> {9, 10, 11, 12, 13, 32}"

fun fromhex :: "string \<Rightarrow> wire res" where
  "fromhex [] = Inr []"
| "fromhex [c] = (if hex_space c then Inr [] else Inl (ValueError ''non-hexadecimal number''))"
| "fromhex (c # d # s) =
     (if hex_space c then fromhex (d # s)
      else case char_nibble c of None \<Rightarrow> Inl (ValueError ''non-hexadecimal number'')
        | Some h \<Rightarrow> (case char_nibble d of None \<Rightarrow> Inl (ValueError ''non-hexadecimal number'')
           | Some l \<Rightarrow> bindE (fromhex s) (\<lambda>bs. Inr (word_of_nat (16 * h + l) # bs))))"

lemma nibble_cases:
  assumes "d < 16"
  shows "char_nibble (nibble_char d) = Some d" "\<not> hex_space (nibble_char d)"
proof -
  have "char_nibble (nibble_char d) = Some d \<and> \<not> hex_space (nibble_char d)"
    using assms by (auto simp: char_nibble_def nibble_char_def hex_space_def Let_def)
  then show "char_nibble (nibble_char d) = Some d" "\<not> hex_space (nibble_char d)" by auto
qed

lemma fromhex_hex_of [simp]: "fromhex (hex_of bs) = Inr bs"
proof (induction bs)
  case Nil
  then show ?case by simp
next
  case (Cons b bs)
  have "unat b < 256" using unsigned_less [of b] by simp
  then have "unat b div 16 < 16" "unat b mod 16 < 16" by auto
  moreover have "word_of_nat (16 * (unat b div 16) + unat b mod 16) = b"
    by simp
  ultimately show ?case using Cons by (simp add: nibble_cases)
qed

lemma length_hex_of [simp]: "length (hex_of bs) = 2 * length bs"
  by (induction bs) simp_all

end
