(* ===== verification/Traffic.thy ===== *)
theory Traffic
  imports Collection_Config Py_Text Wire
begin

text \<open>
  \<open>data_collection/traffic.py\<close>: profiles and campaign plans, the frames of a run with what
  the server is expected to observe, and the client that sends them. The random generator
  and the SHA-256 digest are parameters; the socket is the record \<open>net\<close>.
\<close>

section \<open>Scenarios\<close>

datatype scenario_id =
    NormalChat
  | NormalFragmentedChat
  | NormalBatchedChat
  | ControlledBurstChat
  | MalformedChatPayload
  | MalformedLengthChat
  | InvalidFrameSize

fun scenario_name :: "scenario_id \<Rightarrow> string" where
  "scenario_name NormalChat = ''normal_chat''"
| "scenario_name NormalFragmentedChat = ''normal_fragmented_chat''"
| "scenario_name NormalBatchedChat = ''normal_batched_chat''"
| "scenario_name ControlledBurstChat = ''controlled_burst_chat''"
| "scenario_name MalformedChatPayload = ''malformed_chat_payload''"
| "scenario_name MalformedLengthChat = ''malformed_length_chat''"
| "scenario_name InvalidFrameSize = ''invalid_frame_size''"

definition all_scenarios :: "scenario_id list" where
  "all_scenarios = [NormalChat, NormalFragmentedChat, NormalBatchedChat, ControlledBurstChat,
     MalformedChatPayload, MalformedLengthChat, InvalidFrameSize]"

lemma scenario_name_inject [simp]: "scenario_name a = scenario_name b \<longleftrightarrow> a = b"
  by (cases a; cases b) simp_all

lemma all_scenarios_set [simp]: "set all_scenarios = UNIV"
proof -
  have "x \<in> set all_scenarios" for x by (cases x) (simp_all add: all_scenarios_def)
  then show ?thesis by blast
qed

lemma finite_scenarios [simp]: "finite (A :: scenario_id set)"
  by (rule finite_subset [OF subset_UNIV]) (metis all_scenarios_set List.finite_set)

text \<open>Scenarios are sorted by their names, as the code sorts the strings.\<close>

instantiation scenario_id :: linorder
begin

definition less_eq_scenario_id :: "scenario_id \<Rightarrow> scenario_id \<Rightarrow> bool" where
  "a \<le> b \<longleftrightarrow> scenario_name a \<le> scenario_name b"

definition less_scenario_id :: "scenario_id \<Rightarrow> scenario_id \<Rightarrow> bool" where
  "a < b \<longleftrightarrow> scenario_name a < scenario_name b"

instance
  by standard (auto simp: less_eq_scenario_id_def less_scenario_id_def order.strict_iff_order)

end

fun scenario_label :: "scenario_id \<Rightarrow> int" where
  "scenario_label NormalChat = 0"
| "scenario_label NormalFragmentedChat = 0"
| "scenario_label NormalBatchedChat = 0"
| "scenario_label ControlledBurstChat = 1"
| "scenario_label MalformedChatPayload = 1"
| "scenario_label MalformedLengthChat = 1"
| "scenario_label InvalidFrameSize = 1"

fun error_message :: "scenario_id \<Rightarrow> string option" where
  "error_message MalformedChatPayload = Some ''failed to deserialize CS_CHAT payload''"
| "error_message MalformedLengthChat = Some ''failed to deserialize CS_CHAT payload''"
| "error_message InvalidFrameSize = Some ''invalid packet size''"
| "error_message _ = None"

abbreviation is_error_scenario :: "scenario_id \<Rightarrow> bool" where
  "is_error_scenario s \<equiv> error_message s \<noteq> None"

section \<open>Profiles and plans\<close>

record traffic_profile =
  tp_scenario :: scenario_id
  tp_sessions :: int
  tp_concurrency :: int
  tp_messages_min :: int
  tp_messages_max :: int
  tp_text_sizes :: "int list"
  tp_interval_min_ms :: int
  tp_interval_max_ms :: int
  tp_batch_size :: "int option"
  tp_fragment_size_bytes :: "int option"

definition validate_ranges :: "traffic_profile \<Rightarrow> unit res" where
  "validate_ranges p =
     (if tp_messages_min p > tp_messages_max p \<or> tp_interval_min_ms p > tp_interval_max_ms p
        then Inl (ValueError ''minimum above maximum'')
      else if tp_concurrency p > tp_sessions p then Inl (ValueError ''concurrency above sessions'')
      else if tp_scenario p = ControlledBurstChat \<and>
           (tp_messages_min p < 12 \<or> tp_interval_min_ms p \<noteq> 0 \<or> tp_interval_max_ms p \<noteq> 0)
        then Inl (ValueError ''burst definition'')
      else Inr ())"

definition scenario_field :: "py \<Rightarrow> scenario_id res" where
  "scenario_field v = bindE (str_field v) (\<lambda>s.
     case List.find (\<lambda>x. scenario_name x = s) all_scenarios of
       Some x \<Rightarrow> Inr x | None \<Rightarrow> Inl (ValueError ''literal''))"

fun option_field :: "(py \<Rightarrow> 'a res) \<Rightarrow> py \<Rightarrow> 'a option res" where
  "option_field p PyNone = Inr None"
| "option_field p v = bindE (p v) (\<lambda>x. Inr (Some x))"

definition text_sizes_field :: "py \<Rightarrow> int list res" where
  "text_sizes_field v = bindE (list_field v) (\<lambda>xs.
     bindE (mapE (strict_int 1 1024) xs) (\<lambda>ns.
     if 1 \<le> length ns \<and> length ns \<le> 8 then Inr ns else Inl (ValueError ''length'')))"

definition parse_profile :: "py \<Rightarrow> traffic_profile res" where
  "parse_profile v =
     bindE (no_extra [''scenario_id'', ''sessions'', ''concurrency'', ''messages_min'',
        ''messages_max'', ''text_sizes'', ''interval_min_ms'', ''interval_max_ms'', ''batch_size'',
        ''fragment_size_bytes''] v) (\<lambda>d.
     bindE (field d ''scenario_id'' scenario_field) (\<lambda>sid.
     bindE (default_field d ''sessions'' 4 (strict_int 1 16)) (\<lambda>se.
     bindE (default_field d ''concurrency'' 2 (strict_int 1 4)) (\<lambda>co.
     bindE (default_field d ''messages_min'' 4 (strict_int 1 32)) (\<lambda>mmin.
     bindE (default_field d ''messages_max'' 8 (strict_int 1 32)) (\<lambda>mmax.
     bindE (default_field d ''text_sizes'' [16, 64, 256, 512] text_sizes_field) (\<lambda>ts.
     bindE (default_field d ''interval_min_ms'' 10 (strict_int 0 100)) (\<lambda>imin.
     bindE (default_field d ''interval_max_ms'' 30 (strict_int 0 100)) (\<lambda>imax.
     bindE (default_field d ''batch_size'' None (option_field (strict_int 1 8))) (\<lambda>bs.
     bindE (default_field d ''fragment_size_bytes'' None (option_field (strict_int 1 256))) (\<lambda>fs.
     let p = \<lparr>tp_scenario = sid, tp_sessions = se, tp_concurrency = co, tp_messages_min = mmin,
              tp_messages_max = mmax, tp_text_sizes = ts, tp_interval_min_ms = imin,
              tp_interval_max_ms = imax, tp_batch_size = bs, tp_fragment_size_bytes = fs\<rparr> in
     bindE (validate_ranges p) (\<lambda>_. Inr p))))))))))))"

text \<open>What a parsed profile satisfies.\<close>

definition profile_ok :: "traffic_profile \<Rightarrow> bool" where
  "profile_ok p \<longleftrightarrow> 1 \<le> tp_sessions p \<and> tp_sessions p \<le> 16 \<and>
     1 \<le> tp_concurrency p \<and> tp_concurrency p \<le> 4 \<and>
     1 \<le> tp_messages_min p \<and> tp_messages_min p \<le> 32 \<and>
     1 \<le> tp_messages_max p \<and> tp_messages_max p \<le> 32 \<and>
     tp_text_sizes p \<noteq> [] \<and> length (tp_text_sizes p) \<le> 8 \<and>
     list_all (\<lambda>n. 1 \<le> n \<and> n \<le> 1024) (tp_text_sizes p) \<and>
     0 \<le> tp_interval_min_ms p \<and> tp_interval_min_ms p \<le> 100 \<and>
     0 \<le> tp_interval_max_ms p \<and> tp_interval_max_ms p \<le> 100 \<and>
     (case tp_batch_size p of None \<Rightarrow> True | Some n \<Rightarrow> 1 \<le> n \<and> n \<le> 8) \<and>
     (case tp_fragment_size_bytes p of None \<Rightarrow> True | Some n \<Rightarrow> 1 \<le> n \<and> n \<le> 256) \<and>
     validate_ranges p = Inr ()"

record campaign_plan =
  cp_version :: string
  cp_seed :: int
  cp_repeats :: int
  cp_profiles :: "traffic_profile list"
  cp_repeat_profiles :: "traffic_profile list list option"

definition check_group :: "campaign_plan \<Rightarrow> string list \<Rightarrow> traffic_profile list \<Rightarrow> unit res" where
  "check_group plan ids profiles =
     (let names = map (\<lambda>p. scenario_name (tp_scenario p)) profiles in
      if \<not> distinct names \<or> set names \<noteq> set ids then Inl (ValueError ''scenario sets differ'')
      else if cp_version plan = ''v1'' \<and>
           list_ex (\<lambda>p. tp_batch_size p \<noteq> None \<or> tp_fragment_size_bytes p \<noteq> None) profiles
        then Inl (ValueError ''explicit controls need v2'')
      else if cp_version plan = ''v2'' \<and> list_ex (\<lambda>p. tp_batch_size p = None) profiles
        then Inl (ValueError ''v2 needs batch sizes'')
      else Inr ())"

definition validate_scenarios :: "campaign_plan \<Rightarrow> unit res" where
  "validate_scenarios plan =
     (let ids = map (\<lambda>p. scenario_name (tp_scenario p)) (cp_profiles plan);
          groups = (case cp_repeat_profiles plan of None \<Rightarrow> [cp_profiles plan] | Some gs \<Rightarrow> gs) in
      if \<not> distinct ids then Inl (ValueError ''duplicate scenarios'')
      else if cp_repeat_profiles plan \<noteq> None \<and>
           (int (length groups) \<noteq> cp_repeats plan \<or> hd groups \<noteq> cp_profiles plan)
        then Inl (ValueError ''repeat profiles'')
      else bindE (forE (check_group plan ids) groups) (\<lambda>_.
        if cp_version plan = ''v1'' \<and> cp_repeat_profiles plan \<noteq> None
          then Inl (ValueError ''repeat profiles need v2'') else Inr ()))"

definition profiles_field :: "py \<Rightarrow> traffic_profile list res" where
  "profiles_field v = bindE (list_field v) (mapE parse_profile)"

definition bounded_profiles :: "py \<Rightarrow> traffic_profile list res" where
  "bounded_profiles v = bindE (profiles_field v) (\<lambda>ps.
     if 1 \<le> length ps \<and> length ps \<le> 7 then Inr ps else Inl (ValueError ''length''))"

definition parse_plan :: "py \<Rightarrow> campaign_plan res" where
  "parse_plan v =
     bindE (no_extra [''plan_version'', ''seed'', ''repeats'', ''profiles'', ''repeat_profiles''] v) (\<lambda>d.
     bindE (field d ''plan_version'' (one_of [''v1'', ''v2''])) (\<lambda>ver.
     bindE (field d ''seed'' (strict_int 0 (2 ^ 31 - 1))) (\<lambda>seed.
     bindE (field d ''repeats'' (strict_int 1 10)) (\<lambda>reps.
     bindE (field d ''profiles'' bounded_profiles) (\<lambda>ps.
     bindE (default_field d ''repeat_profiles'' None
        (option_field (\<lambda>w. bindE (list_field w) (mapE profiles_field)))) (\<lambda>rps.
     let plan = \<lparr>cp_version = ver, cp_seed = seed, cp_repeats = reps, cp_profiles = ps,
                 cp_repeat_profiles = rps\<rparr> in
     bindE (validate_scenarios plan) (\<lambda>_. Inr plan)))))))"

definition profiles_for_repeat :: "campaign_plan \<Rightarrow> int \<Rightarrow> traffic_profile list res" where
  "profiles_for_repeat plan r =
     (if \<not> (0 \<le> r \<and> r < cp_repeats plan) then Inl (ValueError ''repeat out of range'')
      else Inr (case cp_repeat_profiles plan of None \<Rightarrow> cp_profiles plan | Some gs \<Rightarrow> gs ! nat r))"

text \<open>The seed of a run; \<open>digest\<close> is the SHA-256 digest of an ASCII string.\<close>

definition encoded_seed :: "campaign_plan \<Rightarrow> int \<Rightarrow> traffic_profile \<Rightarrow> string" where
  "encoded_seed plan r p =
     int_str (cp_seed plan) @ '':'' @ int_str r @ '':'' @ scenario_name (tp_scenario p)"

definition run_seed :: "(string \<Rightarrow> wire) \<Rightarrow> campaign_plan \<Rightarrow> int \<Rightarrow> nat \<Rightarrow> traffic_profile \<Rightarrow> int" where
  "run_seed digest plan r i p =
     (if cp_version plan = ''v1'' then cp_seed plan + r * 100 + int i
      else be_value (take 8 (digest (encoded_seed plan r p))) mod 2 ^ 31)"

definition planned_runs ::
    "(string \<Rightarrow> wire) \<Rightarrow> campaign_plan \<Rightarrow> (int \<times> traffic_profile \<times> int) list res" where
  "planned_runs digest plan =
     bindE (mapE (\<lambda>r. bindE (profiles_for_repeat plan r) (\<lambda>ps.
        Inr (map (\<lambda>(i, p). (r, p, run_seed digest plan r i p)) (enumerate 0 ps))))
       (map int [0..<nat (cp_repeats plan)])) (\<lambda>xss. Inr (concat xss))"

section \<open>Transport controls\<close>

record transport_controls =
  tc_batch_size :: int
  tc_fragment_size_bytes :: "int option"
  tc_fragment_wait_ms :: int

definition transport_controls_of :: "traffic_profile \<Rightarrow> transport_controls" where
  "transport_controls_of p =
     \<lparr>tc_batch_size =
        (case tp_batch_size p of
           Some n \<Rightarrow> n
         | None \<Rightarrow> if tp_scenario p \<in> {NormalBatchedChat, ControlledBurstChat} then 4 else 1),
      tc_fragment_size_bytes =
        (if tp_scenario p = NormalFragmentedChat
         then Some (case tp_fragment_size_bytes p of Some n \<Rightarrow> if n \<noteq> 0 then n else 31 | None \<Rightarrow> 31)
         else None),
      tc_fragment_wait_ms = (if tp_scenario p = NormalFragmentedChat then 1 else 0)\<rparr>"

section \<open>Frames and expectations\<close>

record frame_plan =
  fp_wire_hex :: string
  fp_wire_size :: int
  fp_wire_sha256 :: string
  fp_interval_after_ms :: int

record session_plan =
  sp_client_index :: int
  sp_frames :: "frame_plan list"
  sp_expected_message_frames :: "(int \<times> int) list"
  sp_expected_responses :: int
  sp_expected_error_count :: int
  sp_expected_last_error_message :: string
  sp_transport_controls :: "transport_controls option"
  sp_expected_sendall_calls :: "int option"

record expectations =
  ex_version :: string
  ex_generator_version :: string
  ex_run_id :: string
  ex_scenario_id :: string
  ex_independent_label :: int
  ex_seed :: int
  ex_profile :: traffic_profile
  ex_sessions :: "session_plan list"
  ex_expected_sessions :: int
  ex_expected_messages :: int
  ex_expected_summaries :: int
  ex_expected_records :: int
  ex_message_observable :: bool

text \<open>The groups of consecutive frames one \<open>batch_size\<close> cuts.\<close>

definition frame_groups :: "int \<Rightarrow> frame_plan list \<Rightarrow> (nat \<times> frame_plan list) list" where
  "frame_groups b frames =
     map (\<lambda>s. (s, py_slice s (s + nat b) frames)) (range_step 0 (length frames) (nat b))"

text \<open>\<open>math.ceil(a / b)\<close>, through the float quotient.\<close>

definition math_ceil_div :: "int \<Rightarrow> int \<Rightarrow> int" where
  "math_ceil_div a b = \<lceil>fval (fl (of_int a / of_int b))\<rceil>"

definition wire_total :: "frame_plan list \<Rightarrow> int" where
  "wire_total g = sum_list (map fp_wire_size g)"

definition expected_send_calls :: "session_plan \<Rightarrow> transport_controls \<Rightarrow> int" where
  "expected_send_calls s c =
     sum_list (map (\<lambda>(start, g).
        case tc_fragment_size_bytes c of
          Some f \<Rightarrow> if f \<noteq> 0 then math_ceil_div (wire_total g) f else 1
        | None \<Rightarrow> 1) (frame_groups (tc_batch_size c) (sp_frames s)))"

record send_group =
  sg_first_frame_index :: int
  sg_frame_count :: int
  sg_wire_size :: int
  sg_wait_after_ms :: int

definition planned_send_groups :: "session_plan \<Rightarrow> transport_controls \<Rightarrow> send_group list" where
  "planned_send_groups s c =
     (let frames = sp_frames s; b = nat (tc_batch_size c) in
      map (\<lambda>start.
        \<lparr>sg_first_frame_index = int start + 1,
         sg_frame_count = int (length (py_slice start (start + b) frames)),
         sg_wire_size = wire_total (py_slice start (start + b) frames),
         sg_wait_after_ms =
           (if start + b < length frames
            then fp_interval_after_ms (frames ! (min (start + b) (length frames) - 1)) else 0)\<rparr>)
        (range_step 0 (length frames) b))"

definition chat_frame :: "wire \<Rightarrow> int \<Rightarrow> wire res" where
  "chat_frame text value =
     (if length text > 1024 then Inl (ValueError ''text too long'')
      else
        bindE (pack_H (int (length text))) (\<lambda>h.
        bindE (pack_i value) (\<lambda>v.
        let body = h @ text @ v in
        bindE (pack_i 0) (\<lambda>z.
        bindE (pack_i (8 + int (length body))) (\<lambda>n. Inr (z @ n @ body))))))"

text \<open>The random generator: seeding, \<open>randint(a, b)\<close>, and \<open>choice\<close> as an index below a length.\<close>

record 'r rng =
  rg_seed :: "int \<Rightarrow> 'r"
  rg_randint :: "int \<Rightarrow> int \<Rightarrow> 'r \<Rightarrow> int \<times> 'r"
  rg_choice :: "nat \<Rightarrow> 'r \<Rightarrow> nat \<times> 'r"

definition rng_ok :: "'r rng \<Rightarrow> bool" where
  "rng_ok g \<longleftrightarrow> (\<forall>a b r. a \<le> b \<longrightarrow> a \<le> fst (rg_randint g a b r) \<and> fst (rg_randint g a b r) \<le> b) \<and>
     (\<forall>n r. 0 < n \<longrightarrow> fst (rg_choice g n r) < n)"

definition text_alphabet :: string where
  "text_alphabet = ''abcdefghijklmnopqrstuvwxyz0123456789''"

primrec random_text :: "'r rng \<Rightarrow> nat \<Rightarrow> 'r \<Rightarrow> wire \<times> 'r" where
  "random_text g 0 r = ([], r)"
| "random_text g (Suc n) r =
     (case rg_choice g (length text_alphabet) r of (i, r') \<Rightarrow>
      case random_text g n r' of (bs, r'') \<Rightarrow> (of_char (text_alphabet ! i) # bs, r''))"

text \<open>The frame of a scenario, made from the chat frame drawn for it.\<close>

definition scenario_frame :: "scenario_id \<Rightarrow> wire \<Rightarrow> wire res" where
  "scenario_frame sid frame =
     (if sid = MalformedChatPayload then
        bindE (pack_i 0) (\<lambda>z. bindE (pack_i 9) (\<lambda>n. Inr (z @ n @ [0])))
      else if sid = MalformedLengthChat then
        bindE (pack_H 60000) (\<lambda>h. Inr (take 8 frame @ h @ drop 10 frame))
      else if sid = InvalidFrameSize then
        bindE (pack_i 0) (\<lambda>z. bindE (pack_i 7) (\<lambda>n. Inr (z @ n)))
      else Inr frame)"

definition draw_frame ::
    "'r rng \<Rightarrow> (wire \<Rightarrow> string) \<Rightarrow> traffic_profile \<Rightarrow> 'r \<Rightarrow> (frame_plan \<times> 'r) res" where
  "draw_frame g sha256 p r0 =
     (let (i, r1) = rg_choice g (length (tp_text_sizes p)) r0;
          (text, r2) = random_text g (nat (tp_text_sizes p ! i)) r1;
          (value, r3) = rg_randint g (- 1000) 1000 r2 in
      bindE (chat_frame text value) (\<lambda>chat.
      bindE (scenario_frame (tp_scenario p) chat) (\<lambda>frame.
      let (interval, r4) = rg_randint g (tp_interval_min_ms p) (tp_interval_max_ms p) r3 in
      Inr (\<lparr>fp_wire_hex = hex_of frame, fp_wire_size = int (length frame),
             fp_wire_sha256 = sha256 frame, fp_interval_after_ms = interval\<rparr>, r4))))"

primrec draw_frames ::
    "'r rng \<Rightarrow> (wire \<Rightarrow> string) \<Rightarrow> traffic_profile \<Rightarrow> nat \<Rightarrow> 'r \<Rightarrow> frame_plan list res" where
  "draw_frames g sha256 p 0 r = Inr []"
| "draw_frames g sha256 p (Suc n) r =
     bindE (draw_frame g sha256 p r) (\<lambda>(f, r').
     bindE (draw_frames g sha256 p n r') (\<lambda>fs. Inr (f # fs)))"

definition build_session ::
    "'r rng \<Rightarrow> (wire \<Rightarrow> string) \<Rightarrow> traffic_profile \<Rightarrow> int \<Rightarrow> nat \<Rightarrow> session_plan res" where
  "build_session g sha256 p seed index =
     (let (count0, r) = rg_randint g (tp_messages_min p) (tp_messages_max p)
                          (rg_seed g (seed * 1009 + int index));
          count = (if is_error_scenario (tp_scenario p) then 1 else count0) in
      bindE (draw_frames g sha256 p (nat count) r) (\<lambda>frames.
      Inr \<lparr>sp_client_index = int index, sp_frames = frames,
           sp_expected_message_frames =
             (if tp_scenario p = InvalidFrameSize then []
              else map (\<lambda>f. (0, fp_wire_size f)) frames),
           sp_expected_responses =
             (if is_error_scenario (tp_scenario p) then 0 else int (length frames)),
           sp_expected_error_count = (if is_error_scenario (tp_scenario p) then 1 else 0),
           sp_expected_last_error_message =
             (case error_message (tp_scenario p) of None \<Rightarrow> [] | Some m \<Rightarrow> m),
           sp_transport_controls = None, sp_expected_sendall_calls = None\<rparr>))"

definition with_controls :: "traffic_profile \<Rightarrow> session_plan \<Rightarrow> session_plan" where
  "with_controls p s =
     s\<lparr>sp_transport_controls := Some (transport_controls_of p),
       sp_expected_sendall_calls := Some (expected_send_calls s (transport_controls_of p))\<rparr>"

definition build_expectations ::
    "'r rng \<Rightarrow> (wire \<Rightarrow> string) \<Rightarrow> traffic_profile \<Rightarrow> int \<Rightarrow> string \<Rightarrow> int \<Rightarrow> expectations res" where
  "build_expectations g sha256 p seed run_id label =
     (if label \<noteq> scenario_label (tp_scenario p) then Inl (ValueError ''label differs from the definition'')
      else
        bindE (mapE (build_session g sha256 p seed) [0..<nat (tp_sessions p)]) (\<lambda>sessions0.
        let expected_messages = sum_list (map (\<lambda>s. int (length (sp_expected_message_frames s))) sessions0);
            explicit = (tp_batch_size p \<noteq> None \<or> tp_fragment_size_bytes p \<noteq> None);
            sessions = (if explicit then map (with_controls p) sessions0 else sessions0) in
        Inr \<lparr>ex_version = (if explicit then ''v2'' else ''v1''),
             ex_generator_version =
               (if explicit then ''application_traffic_v2'' else ''application_traffic_v1''),
             ex_run_id = run_id, ex_scenario_id = scenario_name (tp_scenario p),
             ex_independent_label = label, ex_seed = seed, ex_profile = p, ex_sessions = sessions,
             ex_expected_sessions = int (length sessions), ex_expected_messages = expected_messages,
             ex_expected_summaries = int (length sessions),
             ex_expected_records = expected_messages + int (length sessions),
             ex_message_observable = (tp_scenario p \<noteq> InvalidFrameSize)\<rparr>))"

section \<open>Ceiling of a quotient\<close>

lemma length_range_step: "0 < b \<Longrightarrow> length (range_step a n b) = (n - a + (b - 1)) div b"
proof (induction a n b rule: range_step.induct)
  case (1 a n b)
  show ?case
  proof (cases "a < n")
    case True
    have "(n - a + (b - 1)) div b = Suc ((n - (a + b) + (b - 1)) div b)"
    proof (cases "a + b \<le> n")
      case True
      then have e: "n - a + (b - 1) = (n - (a + b) + (b - 1)) + b" using 1(2) by simp
      have "(x + b) div b = Suc (x div b)" for x using 1(2) by simp
      then show ?thesis unfolding e .
    next
      case False
      then have "(n - a + (b - 1)) div b = 1"
        using \<open>a < n\<close> 1(2) by (intro div_nat_eqI) simp_all
      then show ?thesis using False 1(2) by simp
    qed
    then show ?thesis
      using 1 True by (subst range_step.simps) simp
  next
    case False
    then show ?thesis using 1(2) by (subst range_step.simps) simp
  qed
qed

lemma rne_step_above:
  assumes "0 \<le> j" and "j < 2 ^ 44" and "of_int j + 1 / 256 \<le> (q :: rat)"
  shows "of_int j < rne q"
proof -
  let ?x = "of_int (256 * j + 1) / 256 :: rat"
  have m: "\<bar>256 * j + 1\<bar> \<le> 2 ^ 53" using assms(1,2) by simp
  have p: "(2 :: rat) powi (- 8) = inverse 256" by (simp add: power_int_minus)
  have "?x = of_int (256 * j + 1) * 2 powi (- 8) \<and> \<bar>256 * j + 1\<bar> \<le> 2 ^ 53 \<and> (- 1074 :: int) \<le> - 8"
    unfolding p divide_inverse using m by (intro conjI refl) simp_all
  then have "representable ?x"
    unfolding representable_def by (intro exI)
  then have "rne ?x = ?x" by (rule rne_representable)
  moreover have "rne ?x \<le> rne q" using assms(1,3) by (intro rne_mono) (auto simp: add_divide_distrib)
  ultimately show ?thesis by (simp add: add_divide_distrib)
qed

lemma math_ceil_div_exact:
  assumes "0 \<le> a" and "a \<le> 2 ^ 40" and "1 \<le> b" and "b \<le> 256"
  shows "math_ceil_div a b = (a + (b - 1)) div b"
proof -
  let ?q = "of_int a / of_int b :: rat"
  let ?k = "(a + (b - 1)) div b"
  have k0: "0 \<le> ?k" using assms by (intro pos_imp_zdiv_nonneg_iff [THEN iffD2]) auto
  have ka: "?k \<le> a"
  proof (cases "a = 0")
    case True
    then show ?thesis using assms by (simp add: div_pos_pos_trivial)
  next
    case False
    have "b - 1 \<le> a * (b - 1)" using assms(1,3) False by (intro mult_left_mono [of 1 a "b - 1", simplified, THEN order_trans]) auto
    then have "a + (b - 1) \<le> a * b" by (simp add: algebra_simps)
    then have "?k \<le> (a * b) div b" using assms(3) by (intro zdiv_mono1) auto
    then show ?thesis using assms(3) by simp
  qed
  have kle: "a \<le> ?k * b" and klt: "(?k - 1) * b < a"
  proof -
    have "(a + (b - 1)) mod b < b" "0 \<le> (a + (b - 1)) mod b" using assms(3) by auto
    moreover have "?k * b + (a + (b - 1)) mod b = a + (b - 1)" by (rule div_mult_mod_eq)
    moreover have "(?k - 1) * b = ?k * b - b" by (simp add: left_diff_distrib)
    ultimately show "a \<le> ?k * b" "(?k - 1) * b < a" by linarith+
  qed
  have b0: "(0 :: rat) < of_int b" using assms(3) by simp
  have qk: "?q \<le> of_int ?k"
    using kle b0 by (simp add: pos_divide_le_eq flip: of_int_mult)
  have q0: "0 \<le> ?q" using assms by simp
  have k53: "\<bar>?k\<bar> \<le> 2 ^ 53" using k0 ka assms(2) by simp
  have up: "rne ?q \<le> of_int ?k"
    using rne_mono [OF q0 qk] rne_of_int [OF k53] by simp
  have low: "of_int (?k - 1) < rne ?q"
  proof (cases "?k = 0")
    case True
    then show ?thesis using rne_nonneg [OF q0] by simp
  next
    case False
    have "(?k - 1) * b + 1 \<le> a" using klt by simp
    then have "(of_int ((?k - 1) * b + 1) :: rat) \<le> of_int a" by (subst of_int_le_iff)
    then have "of_int ((?k - 1) * b + 1) / of_int b \<le> ?q"
      using b0 by (intro divide_right_mono) auto
    moreover have "of_int ((?k - 1) * b + 1) / of_int b = of_int (?k - 1) + 1 / (of_int b :: rat)"
      using b0 by (simp add: add_divide_distrib)
    ultimately have "of_int (?k - 1) + 1 / of_int b \<le> ?q" by simp
    moreover have "(1 / 256 :: rat) \<le> 1 / of_int b"
      using assms(3,4) by (simp add: frac_le)
    ultimately show ?thesis
      using False k0 ka assms(2) by (intro rne_step_above) auto
  qed
  have "?q \<le> of_int a" using qk ka by (meson of_int_le_iff order_trans)
  also have "\<dots> \<le> of_int (2 ^ 40)" using assms(2) by (subst of_int_le_iff)
  finally have "fl ?q = Fin (rne ?q)" using q0 by (intro fl_finite) auto
  moreover have "\<lceil>rne ?q\<rceil> = ?k" using up low by (intro ceiling_unique) auto
  ultimately show ?thesis by (simp add: math_ceil_div_def)
qed

section \<open>Groups of frames\<close>

lemma frame_groups_mem:
  assumes "(start, g) \<in> set (frame_groups b frames)"
  shows "g = py_slice start (start + nat b) frames" "start < length frames"
  using assms range_step_mem by (auto simp: frame_groups_def)

lemma frame_groups_last:
  assumes "(start, g) \<in> set (frame_groups b frames)" and "1 \<le> b"
  shows "g \<noteq> []" "start + length g = min (start + nat b) (length frames)"
    "last g = frames ! (min (start + nat b) (length frames) - 1)"
proof -
  have g: "g = py_slice start (start + nat b) frames" and s: "start < length frames"
    using frame_groups_mem [OF assms(1)] by auto
  have len: "length g = min (nat b) (length frames - start)" using g by simp
  then have pos: "0 < length g" using s assms(2) by simp
  then show ne: "g \<noteq> []" by auto
  show e: "start + length g = min (start + nat b) (length frames)" using len s by simp
  have "last g = g ! (length g - 1)" using ne by (rule last_conv_nth)
  also have "\<dots> = frames ! (start + (length g - 1))"
    unfolding g by (rule nth_py_slice, rule diff_less) (use pos g in simp_all)
  also have "start + (length g - 1) = min (start + nat b) (length frames) - 1"
    using e pos by linarith
  finally show "last g = frames ! (min (start + nat b) (length frames) - 1)" .
qed

lemma concat_frame_groups:
  "1 \<le> b \<Longrightarrow> concat (map snd (frame_groups b frames)) = frames"
  using concat_range_step_slices [of "nat b" frames 0]
  by (simp add: frame_groups_def comp_def)

section \<open>Frames on the wire\<close>

lemma pack_i_total: "- 2147483648 \<le> n \<Longrightarrow> n < 2147483648 \<Longrightarrow> \<exists>bs. pack_i n = Inr bs \<and> length bs = 4"
  by (simp add: pack_i_def)

lemma pack_H_total: "0 \<le> n \<Longrightarrow> n < 65536 \<Longrightarrow> \<exists>bs. pack_H n = Inr bs \<and> length bs = 2"
  by (simp add: pack_H_def)

lemma chat_frame_layout:
  assumes "length text \<le> 1024" and "- 2147483648 \<le> value" and "value < 2147483648"
  shows "\<exists>z n h v. chat_frame text value = Inr (z @ n @ h @ text @ v) \<and>
     pack_i 0 = Inr z \<and> pack_i (14 + int (length text)) = Inr n \<and>
     pack_H (int (length text)) = Inr h \<and> pack_i value = Inr v \<and>
     length z = 4 \<and> length n = 4 \<and> length h = 2 \<and> length v = 4"
proof -
  obtain h where h: "pack_H (int (length text)) = Inr h" "length h = 2"
    using pack_H_total [of "int (length text)"] assms(1) by auto
  obtain v where v: "pack_i value = Inr v" "length v = 4" using pack_i_total assms(2,3) by blast
  obtain z where z: "pack_i 0 = Inr z" "length z = 4" using pack_i_total [of 0] by auto
  obtain n where n: "pack_i (14 + int (length text)) = Inr n" "length n = 4"
    using pack_i_total [of "14 + int (length text)"] assms(1) by auto
  have "chat_frame text value = Inr (z @ n @ h @ text @ v)"
    using assms(1) h v z n by (simp add: chat_frame_def Let_def add.assoc)
  with h v z n show ?thesis by blast
qed

text \<open>
  What a frame of a scenario looks like to the server: packet id 0, the size field, and
  for the chat payloads the length field of the text.
\<close>

definition frame_shape :: "scenario_id \<Rightarrow> wire \<Rightarrow> bool" where
  "frame_shape sid bs \<longleftrightarrow>
     (if sid = InvalidFrameSize then length bs = 8 \<and> unpack_ii bs = Inr (0, 7)
      else unpack_ii (take 8 bs) = Inr (0, int (length bs)) \<and>
        (if sid = MalformedChatPayload then length bs = 9
         else if sid = MalformedLengthChat
           then 15 \<le> length bs \<and> length bs \<le> 1038 \<and> unpack_H (take 2 (drop 8 bs)) = Inr 60000
         else 15 \<le> length bs \<and> length bs \<le> 1038 \<and>
           unpack_H (take 2 (drop 8 bs)) = Inr (int (length bs) - 14)))"

lemma scenario_frame_shape:
  assumes "1 \<le> length text" and "length text \<le> 1024" and "chat_frame text value = Inr chat"
    and "- 2147483648 \<le> value" and "value < 2147483648"
  shows "\<exists>frame. scenario_frame sid chat = Inr frame \<and> frame_shape sid frame"
proof -
  from chat_frame_layout [OF assms(2,4,5)] assms(3) obtain z n h v where
    c: "chat = z @ n @ h @ text @ v" "pack_i 0 = Inr z" "pack_i (14 + int (length text)) = Inr n"
      "pack_H (int (length text)) = Inr h" "length z = 4" "length n = 4" "length h = 2" "length v = 4"
    by auto
  have hd: "unpack_ii (z @ n) = Inr (0, 14 + int (length text))" by (rule unpack_pack_ii [OF c(2,3)])
  obtain h' where h': "pack_H 60000 = Inr h'" "length h' = 2" using pack_H_total [of 60000] by auto
  obtain n9 where n9: "pack_i 9 = Inr n9" "length n9 = 4" using pack_i_total [of 9] by auto
  obtain n7 where n7: "pack_i 7 = Inr n7" "length n7 = 4" using pack_i_total [of 7] by auto
  have "unpack_ii (z @ n9) = Inr (0, 9)" "unpack_ii (z @ n7) = Inr (0, 7)"
    using unpack_pack_ii [OF c(2) n9(1)] unpack_pack_ii [OF c(2) n7(1)] by auto
  then show ?thesis
    using assms(1,2) c hd h' n9 n7 unpack_pack_H [OF c(4)] unpack_pack_H [OF h'(1)]
    by (auto simp: scenario_frame_def frame_shape_def)
qed

lemma length_random_text: "length (fst (random_text g n r)) = n"
  by (induction n arbitrary: r) (auto simp: split_def)

text \<open>A drawn frame: its hex, size and hash describe one frame of the scenario's shape.\<close>

definition drawn_ok :: "(wire \<Rightarrow> string) \<Rightarrow> traffic_profile \<Rightarrow> frame_plan \<Rightarrow> bool" where
  "drawn_ok sha256 p f \<longleftrightarrow> (\<exists>bs. fromhex (fp_wire_hex f) = Inr bs \<and>
     fp_wire_size f = int (length bs) \<and> fp_wire_sha256 f = sha256 bs \<and>
     frame_shape (tp_scenario p) bs \<and>
     tp_interval_min_ms p \<le> fp_interval_after_ms f \<and> fp_interval_after_ms f \<le> tp_interval_max_ms p)"

lemma profile_intervals: "profile_ok p \<Longrightarrow> tp_interval_min_ms p \<le> tp_interval_max_ms p"
  by (auto simp: profile_ok_def validate_ranges_def split: if_splits)

lemma draw_frame_ok:
  assumes "rng_ok g" and "profile_ok p"
  shows "\<exists>f r'. draw_frame g sha256 p r0 = Inr (f, r') \<and> drawn_ok sha256 p f"
proof -
  obtain i r1 where i: "rg_choice g (length (tp_text_sizes p)) r0 = (i, r1)" by fastforce
  have "i < length (tp_text_sizes p)"
    using assms i unfolding rng_ok_def profile_ok_def by (metis fst_conv length_greater_0_conv)
  then have ts: "1 \<le> tp_text_sizes p ! i" "tp_text_sizes p ! i \<le> 1024"
    using assms(2) by (auto simp: profile_ok_def list_all_length)
  obtain tx r2 where tx: "random_text g (nat (tp_text_sizes p ! i)) r1 = (tx, r2)" by fastforce
  then have len: "length tx = nat (tp_text_sizes p ! i)" using length_random_text by (metis fst_conv)
  obtain va r3 where v: "rg_randint g (- 1000) 1000 r2 = (va, r3)" by fastforce
  have vr: "- 1000 \<le> va" "va \<le> 1000"
    using assms(1) v unfolding rng_ok_def by (metis fst_conv neg_numeral_le_numeral)+
  have t: "1 \<le> length tx" "length tx \<le> 1024" using len ts by auto
  have vr': "- 2147483648 \<le> va" "va < 2147483648" using vr by auto
  from chat_frame_layout [OF t(2) vr'] obtain chat where chat: "chat_frame tx va = Inr chat"
    by blast
  from scenario_frame_shape [OF t chat vr'] obtain frame where
    fr: "scenario_frame (tp_scenario p) chat = Inr frame" "frame_shape (tp_scenario p) frame" by blast
  obtain interval r4 where iv:
    "rg_randint g (tp_interval_min_ms p) (tp_interval_max_ms p) r3 = (interval, r4)" by fastforce
  have "tp_interval_min_ms p \<le> interval \<and> interval \<le> tp_interval_max_ms p"
    using assms(1) iv profile_intervals [OF assms(2)] unfolding rng_ok_def by (metis fst_conv)
  then show ?thesis
    using i tx v chat fr iv by (simp add: draw_frame_def drawn_ok_def Let_def)
qed

lemma draw_frames_ok:
  assumes "rng_ok g" and "profile_ok p"
  shows "\<exists>fs. draw_frames g sha256 p n r = Inr fs \<and> length fs = n \<and> list_all (drawn_ok sha256 p) fs"
proof (induction n arbitrary: r)
  case 0
  then show ?case by simp
next
  case (Suc n)
  obtain f r' where f: "draw_frame g sha256 p r = Inr (f, r')" "drawn_ok sha256 p f"
    using draw_frame_ok [OF assms] by blast
  with Suc [of r'] show ?case by auto
qed

section \<open>Expectations of a run\<close>

text \<open>What the plan of one session promises.\<close>

definition session_plan_ok :: "(wire \<Rightarrow> string) \<Rightarrow> traffic_profile \<Rightarrow> session_plan \<Rightarrow> bool" where
  "session_plan_ok sha256 p s \<longleftrightarrow>
     (let n = int (length (sp_frames s)); sid = tp_scenario p in
      list_all (drawn_ok sha256 p) (sp_frames s) \<and>
      (if is_error_scenario sid
       then n = 1 \<and> sp_expected_responses s = 0 \<and> sp_expected_error_count s = 1
       else tp_messages_min p \<le> n \<and> n \<le> tp_messages_max p \<and>
         sp_expected_responses s = n \<and> sp_expected_error_count s = 0) \<and>
      sp_expected_message_frames s =
        (if sid = InvalidFrameSize then [] else map (\<lambda>f. (0, fp_wire_size f)) (sp_frames s)) \<and>
      sp_expected_last_error_message s = (case error_message sid of None \<Rightarrow> [] | Some m \<Rightarrow> m))"

lemma profile_messages: "profile_ok p \<Longrightarrow> 1 \<le> tp_messages_min p \<and> tp_messages_min p \<le> tp_messages_max p"
  by (auto simp: profile_ok_def validate_ranges_def split: if_splits)

lemma build_session_ok:
  assumes "rng_ok g" and "profile_ok p"
  shows "\<exists>s. build_session g sha256 p seed i = Inr s \<and> session_plan_ok sha256 p s \<and>
     sp_client_index s = int i"
proof -
  obtain n0 r where n0: "rg_randint g (tp_messages_min p) (tp_messages_max p)
      (rg_seed g (seed * 1009 + int i)) = (n0, r)" by fastforce
  have r: "tp_messages_min p \<le> n0" "n0 \<le> tp_messages_max p"
    using assms(1) n0 profile_messages [OF assms(2)] unfolding rng_ok_def by (metis fst_conv)+
  let ?n = "if is_error_scenario (tp_scenario p) then 1 else n0"
  obtain fs where fs: "draw_frames g sha256 p (nat ?n) r = Inr fs" "length fs = nat ?n"
    "list_all (drawn_ok sha256 p) fs"
    using draw_frames_ok [OF assms] by blast
  have "0 \<le> n0" using r profile_messages [OF assms(2)] by simp
  then show ?thesis
    using n0 r fs by (auto simp: build_session_def session_plan_ok_def Let_def)
qed

lemma session_plan_ok_controls: "session_plan_ok sha256 p s \<Longrightarrow> session_plan_ok sha256 p (with_controls p s)"
  unfolding session_plan_ok_def with_controls_def Let_def by simp

text \<open>
  C29: for every valid profile with its own label, any seed and any generator that stays in
  its ranges, the expectations exist and are right: the configured number of sessions, each
  with the allowed number of frames (one for the error scenarios), every frame with its true
  size, hash and scenario shape (the malformed length field exceeds its body, the invalid
  frame announces 7 bytes), and record counts that add up.
\<close>

theorem build_expectations_sound:
  assumes "rng_ok g" and "profile_ok p" and "label = scenario_label (tp_scenario p)"
  shows "\<exists>ex. build_expectations g sha256 p seed run_id label = Inr ex \<and>
     length (ex_sessions ex) = nat (tp_sessions p) \<and>
     list_all (session_plan_ok sha256 p) (ex_sessions ex) \<and>
     map sp_client_index (ex_sessions ex) = map int [0..<nat (tp_sessions p)] \<and>
     ex_expected_messages ex
       = sum_list (map (\<lambda>s. int (length (sp_expected_message_frames s))) (ex_sessions ex)) \<and>
     ex_expected_records ex = ex_expected_messages ex + ex_expected_summaries ex \<and>
     (ex_message_observable ex \<longleftrightarrow> tp_scenario p \<noteq> InvalidFrameSize)"
proof -
  define S where "S i = projr (build_session g sha256 p seed i)" for i
  have S: "build_session g sha256 p seed i = Inr (S i)" "session_plan_ok sha256 p (S i)"
    "sp_client_index (S i) = int i" for i
    using build_session_ok [OF assms(1,2), of sha256 seed i] by (auto simp: S_def)
  have "mapE (build_session g sha256 p seed) [0..<nat (tp_sessions p)]
      = Inr (map S [0..<nat (tp_sessions p)])"
    by (rule mapE_total) (rule S(1))
  moreover have "sp_expected_message_frames (with_controls p s) = sp_expected_message_frames s"
    "sp_client_index (with_controls p s) = sp_client_index s" for s
    by (simp_all add: with_controls_def)
  ultimately show ?thesis
    using assms(3) S(2,3) session_plan_ok_controls [OF S(2)]
    by (auto simp: build_expectations_def Let_def list_all_iff comp_def)
qed

definition zero_rng :: "unit rng" where
  "zero_rng = \<lparr>rg_seed = (\<lambda>_. ()), rg_randint = (\<lambda>a b r. (a, r)), rg_choice = (\<lambda>n r. (0, r))\<rparr>"

lemma zero_rng_ok: "rng_ok zero_rng"
  by (simp add: rng_ok_def zero_rng_def)

definition burst_profile :: traffic_profile where
  "burst_profile = \<lparr>tp_scenario = ControlledBurstChat, tp_sessions = 2, tp_concurrency = 2,
     tp_messages_min = 12, tp_messages_max = 16, tp_text_sizes = [16], tp_interval_min_ms = 0,
     tp_interval_max_ms = 0, tp_batch_size = Some 4, tp_fragment_size_bytes = None\<rparr>"

lemma burst_profile_ok: "profile_ok burst_profile"
  by (simp add: profile_ok_def burst_profile_def validate_ranges_def)

lemma build_expectations_sound_witness:
  "\<exists>ex. build_expectations zero_rng (\<lambda>_. ''h'') burst_profile 5 ''run'' 1 = Inr ex \<and>
     length (ex_sessions ex) = 2"
  using build_expectations_sound [OF zero_rng_ok burst_profile_ok, of 1 "\<lambda>_. ''h''" 5 "''run''"]
  by (auto simp: burst_profile_def)

section \<open>The runs of a plan\<close>

lemma validate_scenarios_facts:
  assumes "validate_scenarios plan = Inr ()"
  shows "distinct (map tp_scenario (cp_profiles plan))"
    and "\<And>gs. cp_repeat_profiles plan = Some gs \<Longrightarrow> int (length gs) = cp_repeats plan \<and>
       cp_version plan \<noteq> ''v1'' \<and>
       (\<forall>g\<in>set gs. distinct (map tp_scenario g) \<and> tp_scenario ` set g = tp_scenario ` set (cp_profiles plan))"
proof -
  have names: "(\<lambda>p. scenario_name (tp_scenario p)) ` A = (\<lambda>p. scenario_name (tp_scenario p)) ` B
      \<longleftrightarrow> tp_scenario ` A = tp_scenario ` B" for A B :: "traffic_profile set"
  proof -
    have "inj scenario_name" by (simp add: inj_def)
    then show ?thesis by (metis image_image inj_image_eq_iff)
  qed
  have dn: "distinct (map (\<lambda>p. scenario_name (tp_scenario p)) ps) \<longleftrightarrow> distinct (map tp_scenario ps)"
    for ps :: "traffic_profile list"
    by (simp add: distinct_map inj_on_def)
  show "distinct (map tp_scenario (cp_profiles plan))"
    using assms unfolding validate_scenarios_def Let_def dn by (auto split: if_splits)
  fix gs assume gs: "cp_repeat_profiles plan = Some gs"
  have "forE (check_group plan (map (\<lambda>p. scenario_name (tp_scenario p)) (cp_profiles plan))) gs = Inr ()"
    "int (length gs) = cp_repeats plan" "cp_version plan \<noteq> ''v1''"
    using assms gs unfolding validate_scenarios_def Let_def by (auto simp: bindE_Inr_iff split: if_splits)
  then show "int (length gs) = cp_repeats plan \<and> cp_version plan \<noteq> ''v1'' \<and>
       (\<forall>g\<in>set gs. distinct (map tp_scenario g) \<and> tp_scenario ` set g = tp_scenario ` set (cp_profiles plan))"
    by (auto simp: forE_Inr_iff check_group_def Let_def dn names split: if_splits)
qed

lemma parse_plan_facts:
  assumes "parse_plan v = Inr plan"
  shows "validate_scenarios plan = Inr ()" "1 \<le> cp_repeats plan" "cp_repeats plan \<le> 10"
    "length (cp_profiles plan) \<le> 7"
  using assms
  by (auto simp: parse_plan_def Let_def bindE_Inr_iff field_Inr_iff strict_int_Inr_iff
      bounded_profiles_def split: if_splits)

definition repeat_profiles_of :: "campaign_plan \<Rightarrow> nat \<Rightarrow> traffic_profile list" where
  "repeat_profiles_of plan r =
     (case cp_repeat_profiles plan of None \<Rightarrow> cp_profiles plan | Some gs \<Rightarrow> gs ! r)"

lemma planned_runs_eq:
  assumes "0 \<le> cp_repeats plan"
  shows "planned_runs digest plan = Inr (concat (map (\<lambda>r. map (\<lambda>(i, p).
     (int r, p, run_seed digest plan (int r) i p)) (enumerate 0 (repeat_profiles_of plan r)))
       [0..<nat (cp_repeats plan)]))"
proof -
  have "mapE (\<lambda>r. bindE (profiles_for_repeat plan r) (\<lambda>ps.
        Inr (map (\<lambda>(i, p). (r, p, run_seed digest plan r i p)) (enumerate 0 ps))))
       (map int [0..<nat (cp_repeats plan)]) =
     Inr (map (\<lambda>r. map (\<lambda>(i, p). (r, p, run_seed digest plan r i p))
        (enumerate 0 (repeat_profiles_of plan (nat r)))) (map int [0..<nat (cp_repeats plan)]))"
    by (rule mapE_total) (auto simp: profiles_for_repeat_def repeat_profiles_of_def)
  then show ?thesis by (simp add: planned_runs_def comp_def)
qed

lemma distinct_pairs:
  assumes "distinct rs" and "\<And>r. r \<in> set rs \<Longrightarrow> distinct (xs r)"
  shows "distinct (concat (map (\<lambda>r. map (Pair r) (xs r)) rs))"
  using assms by (induction rs) (auto simp: distinct_map inj_on_def)

lemma repeat_profiles_facts:
  assumes "validate_scenarios plan = Inr ()" and "r < nat (cp_repeats plan)"
  shows "distinct (map tp_scenario (repeat_profiles_of plan r))"
    "tp_scenario ` set (repeat_profiles_of plan r) = tp_scenario ` set (cp_profiles plan)"
proof -
  have "distinct (map tp_scenario (repeat_profiles_of plan r)) \<and>
    tp_scenario ` set (repeat_profiles_of plan r) = tp_scenario ` set (cp_profiles plan)"
  proof (cases "cp_repeat_profiles plan")
    case None
    then show ?thesis using validate_scenarios_facts(1) [OF assms(1)]
      by (simp add: repeat_profiles_of_def)
  next
    case (Some gs)
    from validate_scenarios_facts(2) [OF assms(1) Some] assms(2) show ?thesis
      by (simp add: repeat_profiles_of_def Some) (metis nat_int nth_mem)
  qed
  then show "distinct (map tp_scenario (repeat_profiles_of plan r))"
    "tp_scenario ` set (repeat_profiles_of plan r) = tp_scenario ` set (cp_profiles plan)" by auto
qed

lemma planned_keys:
  assumes "0 \<le> cp_repeats plan" and "planned_runs digest plan = Inr runs"
  shows "map (\<lambda>(r, p, _). (r, tp_scenario p)) runs = map (map_prod int id)
     (concat (map (\<lambda>r. map (Pair r) (map tp_scenario (repeat_profiles_of plan r))) [0..<nat (cp_repeats plan)]))"
proof -
  have "map (\<lambda>(r, p, _). (r, tp_scenario p)) (map (\<lambda>(i, p). (int r, p, run_seed digest plan (int r) i p))
      (enumerate 0 ps)) = map (map_prod int id) (map (Pair r) (map tp_scenario ps))" for r ps
    by (rule nth_equalityI) (auto simp: nth_enumerate_eq)
  then show ?thesis
    using assms(2) unfolding planned_runs_eq [OF assms(1)]
    by (auto simp: map_concat comp_def)
qed

lemma planned_seeds_v1:
  assumes "0 \<le> cp_repeats plan" and "planned_runs digest plan = Inr runs" and "cp_version plan = ''v1''"
  shows "map (\<lambda>(_, _, s). s) runs = map (\<lambda>(r, i). cp_seed plan + int r * 100 + int i)
     (concat (map (\<lambda>r. map (Pair r) [0..<length (repeat_profiles_of plan r)]) [0..<nat (cp_repeats plan)]))"
proof -
  have "map (\<lambda>(_, _, s). s) (map (\<lambda>(i, p). (int r, p, run_seed digest plan (int r) i p)) (enumerate 0 ps))
      = map (\<lambda>(r, i). cp_seed plan + int r * 100 + int i) (map (Pair r) [0..<length ps])" for r ps
    using assms(3) by (intro nth_equalityI) (auto simp: nth_enumerate_eq run_seed_def)
  then show ?thesis
    using assms(2) unfolding planned_runs_eq [OF assms(1)] by (auto simp: map_concat comp_def)
qed

text \<open>
  the runs of an accepted campaign plan are each pair of a repeat and a scenario of the
  plan exactly once, in every plan version; in version 1 the run seeds are pairwise
  different, so no two runs draw the same traffic.
\<close>

theorem planned_runs_cover:
  assumes "parse_plan v = Inr plan"
  shows "\<exists>runs. planned_runs digest plan = Inr runs \<and>
     distinct (map (\<lambda>(r, p, _). (r, tp_scenario p)) runs) \<and>
     set (map (\<lambda>(r, p, _). (r, tp_scenario p)) runs)
       = {0..<cp_repeats plan} \<times> tp_scenario ` set (cp_profiles plan) \<and>
     (cp_version plan = ''v1'' \<longrightarrow> distinct (map (\<lambda>(_, _, s). s) runs))"
proof -
  note f = parse_plan_facts [OF assms]
  let ?n = "nat (cp_repeats plan)"
  let ?P = "repeat_profiles_of plan"
  have pos: "0 \<le> cp_repeats plan" using f(2) by simp
  obtain runs where runs: "planned_runs digest plan = Inr runs"
    using planned_runs_eq [OF pos] by blast
  have P: "distinct (map tp_scenario (?P r))" "tp_scenario ` set (?P r) = tp_scenario ` set (cp_profiles plan)"
    if "r < ?n" for r using repeat_profiles_facts [OF f(1) that] by auto
  have "distinct (concat (map (\<lambda>r. map (Pair r) (map tp_scenario (?P r))) [0..<?n]))"
    by (rule distinct_pairs) (use P in auto)
  then have d: "distinct (map (\<lambda>(r, p, _). (r, tp_scenario p)) runs)"
    unfolding planned_keys [OF pos runs] by (simp add: distinct_map inj_on_def)
  have "set (map (\<lambda>(r, p, _). (r, tp_scenario p)) runs) =
      (\<Union>r\<in>{0..<?n}. (\<lambda>s. (int r, s)) ` tp_scenario ` set (?P r))"
    unfolding planned_keys [OF pos runs] by (auto simp: image_iff)
  also have "\<dots> = (\<Union>r\<in>{0..<?n}. (\<lambda>s. (int r, s)) ` tp_scenario ` set (cp_profiles plan))"
    using P(2) by auto
  also have "\<dots> = {0..<cp_repeats plan} \<times> tp_scenario ` set (cp_profiles plan)"
  proof (intro set_eqI iffI)
    fix x assume "x \<in> {0..<cp_repeats plan} \<times> tp_scenario ` set (cp_profiles plan)"
    then obtain r s where "x = (r, s)" "0 \<le> r" "r < cp_repeats plan"
      "s \<in> tp_scenario ` set (cp_profiles plan)" by auto
    then show "x \<in> (\<Union>r\<in>{0..<?n}. (\<lambda>s. (int r, s)) ` tp_scenario ` set (cp_profiles plan))"
      by (intro UN_I [of "nat r"]) auto
  qed auto
  finally have k: "set (map (\<lambda>(r, p, _). (r, tp_scenario p)) runs)
      = {0..<cp_repeats plan} \<times> tp_scenario ` set (cp_profiles plan)" .
  have "distinct (map (\<lambda>(_, _, s). s) runs)" if v1: "cp_version plan = ''v1''"
  proof -
    have "cp_repeat_profiles plan = None"
      using validate_scenarios_facts(2) [OF f(1)] v1 by (cases "cp_repeat_profiles plan") auto
    then have len: "length (?P r) \<le> 7" for r using f(4) by (simp add: repeat_profiles_of_def)
    have "distinct (concat (map (\<lambda>r. map (Pair r) [0..<length (?P r)]) [0..<?n]))"
      by (rule distinct_pairs) auto
    moreover have "inj_on (\<lambda>(r, i). cp_seed plan + int r * 100 + int i)
        (set (concat (map (\<lambda>r. map (Pair r) [0..<length (?P r)]) [0..<?n])))"
    proof (rule inj_onI, clarsimp)
      fix r i r' i' assume "i < length (?P r)" "i' < length (?P r')"
        "int r * 100 + int i = int r' * 100 + int i'"
      then have "i < 100" "i' < 100" "r * 100 + i = r' * 100 + i'"
        using len [of r] len [of r'] by linarith+
      moreover have "(q * 100 + k) div 100 = q" "(q * 100 + k) mod 100 = k" if "k < 100" for q k :: nat
        using that by simp_all
      ultimately show "r = r' \<and> i = i'" by metis
    qed
    ultimately show ?thesis
      unfolding planned_seeds_v1 [OF pos runs v1] by (simp add: distinct_map)
  qed
  with runs d k show ?thesis by blast
qed

definition demo_plan_doc :: py where
  "demo_plan_doc = PyDict [(''plan_version'', PyStr ''v1''), (''seed'', PyInt 7), (''repeats'', PyInt 2),
     (''profiles'', PyList [PyDict [(''scenario_id'', PyStr ''normal_chat'')],
        PyDict [(''scenario_id'', PyStr ''invalid_frame_size'')]])]"

lemma demo_plan_parses: "isl (parse_plan demo_plan_doc) = False"
  by code_simp

lemma planned_runs_cover_witness:
  "\<exists>plan runs. parse_plan demo_plan_doc = Inr plan \<and> planned_runs (\<lambda>_. []) plan = Inr runs \<and>
     distinct (map (\<lambda>(r, p, _). (r, tp_scenario p)) runs)"
proof -
  obtain plan where p: "parse_plan demo_plan_doc = Inr plan"
    using demo_plan_parses by (cases "parse_plan demo_plan_doc") auto
  from planned_runs_cover [OF p, of "\<lambda>_. []"] obtain runs where
    "planned_runs (\<lambda>_. []) plan = Inr runs"
    "distinct (map (\<lambda>(r, p, _). (r, tp_scenario p)) runs)" by (elim exE conjE)
  with p show ?thesis by (intro exI conjI)
qed

end
