(* ===== verification/Json_Text.thy ===== *)
theory Json_Text
  imports Request_Model Traffic
begin

text \<open>
  The strict JSON reading of \<open>data_collection/quality.py\<close> (no duplicate keys, no non-finite
  constants), a collected record line, and the JSON form of expectations. \<open>json\<close> is the
  parse tree before the hooks of \<open>json.loads\<close> run.
\<close>

section \<open>Strict JSON\<close>

datatype json =
    JNull
  | JBool bool
  | JInt int
  | JFloat pyfloat
  | JConst string
  | JStr string
  | JList "json list"
  | JObj "(string \<times> json) list"

definition reject_constant :: "string \<Rightarrow> py res" where
  "reject_constant c = Inl (ValueError c)"

definition unique_entry :: "(string \<times> py) list \<Rightarrow> string \<times> py \<Rightarrow> (string \<times> py) list res" where
  "unique_entry result p =
     (if list_ex (\<lambda>q. fst q = fst p) result then Inl (ValueError (fst p)) else Inr (result @ [p]))"

definition unique_object :: "(string \<times> py) list \<Rightarrow> py res" where
  "unique_object pairs = bindE (foldE unique_entry [] pairs) (\<lambda>d. Inr (PyDict d))"

lemma size_obj_value:
  "(k, v) \<in> set ps \<Longrightarrow> size v < Suc (size_list (size_prod (\<lambda>_. 0) size) ps)"
  by (induction ps) auto

fun load_value :: "json \<Rightarrow> py res" where
  "load_value JNull = Inr PyNone"
| "load_value (JBool b) = Inr (PyBool b)"
| "load_value (JInt n) = Inr (PyInt n)"
| "load_value (JFloat x) = Inr (PyFloat x)"
| "load_value (JConst c) = reject_constant c"
| "load_value (JStr s) = Inr (PyStr s)"
| "load_value (JList xs) = bindE (mapE load_value xs) (\<lambda>vs. Inr (PyList vs))"
| "load_value (JObj ps) =
     bindE (mapE (\<lambda>p. bindE (load_value (snd p)) (\<lambda>v. Inr (fst p, v))) ps) unique_object"

text \<open>\<open>parse_json\<close>: \<open>decode\<close> is the JSON grammar, \<open>None\<close> when the text is not JSON.\<close>

definition parse_json :: "(string \<Rightarrow> json option) \<Rightarrow> string \<Rightarrow> py res" where
  "parse_json decode content =
     (case decode content of None \<Rightarrow> Inl (ValueError ''json'') | Some j \<Rightarrow> load_value j)"

text \<open>Every object of the value, at any depth, has distinct keys.\<close>

inductive json_clean :: "py \<Rightarrow> bool" where
  "json_clean PyNone"
| "json_clean (PyBool b)"
| "json_clean (PyInt n)"
| "json_clean (PyFloat x)"
| "json_clean (PyStr s)"
| "(\<And>x. x \<in> set xs \<Longrightarrow> json_clean x) \<Longrightarrow> json_clean (PyList xs)"
| "distinct (map fst d) \<Longrightarrow> (\<And>k v. (k, v) \<in> set d \<Longrightarrow> json_clean v) \<Longrightarrow> json_clean (PyDict d)"

lemma unique_object_fold:
  "foldE unique_entry acc ps = Inr d \<Longrightarrow> distinct (map fst acc) \<Longrightarrow>
     d = acc @ ps \<and> distinct (map fst (acc @ ps))"
proof (induction ps arbitrary: acc)
  case Nil
  then show ?case by simp
next
  case (Cons p ps)
  from Cons.prems(1) obtain a where a: "unique_entry acc p = Inr a" "foldE unique_entry a ps = Inr d"
    by (auto simp: bindE_Inr_iff)
  from a(1) have new: "fst p \<notin> fst ` set acc" and "a = acc @ [p]"
    by (auto simp: unique_entry_def list_ex_iff split: if_splits)
  with a(2) have rest: "foldE unique_entry (acc @ [p]) ps = Inr d" by simp
  from new Cons.prems(2) have "distinct (map fst (acc @ [p]))" by simp
  from Cons.IH [OF rest this] show ?case by simp
qed

lemma unique_object_Inr:
  assumes "unique_object ps = Inr v"
  shows "v = PyDict ps \<and> distinct (map fst ps)"
proof -
  from assms obtain d where d: "foldE unique_entry [] ps = Inr d" "v = PyDict d"
    by (auto simp: unique_object_def bindE_Inr_iff)
  from unique_object_fold [OF d(1)] d(2) show ?thesis by simp
qed

lemma load_value_clean: "load_value j = Inr v \<Longrightarrow> json_clean v"
proof (induction j arbitrary: v rule: load_value.induct)
  case (7 xs)
  then obtain vs where vs: "list_all2 (\<lambda>x y. load_value x = Inr y) xs vs" "v = PyList vs"
    by (auto simp: bindE_Inr_iff mapE_Inr_iff)
  have "json_clean w" if "w \<in> set vs" for w
  proof -
    from that obtain i where "i < length vs" "w = vs ! i" by (metis in_set_conv_nth)
    with vs(1) have "xs ! i \<in> set xs" "load_value (xs ! i) = Inr w"
      by (auto simp: list_all2_conv_all_nth)
    with 7 show ?thesis by blast
  qed
  with vs show ?case by (auto intro: json_clean.intros)
next
  case (8 ps)
  let ?f = "\<lambda>p. bindE (load_value (snd p)) (\<lambda>v. Inr (fst p, v))"
  from "8.prems" obtain d where d: "list_all2 (\<lambda>p q. ?f p = Inr q) ps d" "unique_object d = Inr v"
    by (auto simp: bindE_Inr_iff [of "mapE _ _"] mapE_Inr_iff)
  have "json_clean w" if "(k, w) \<in> set d" for k w
  proof -
    from that obtain i where i: "i < length d" "d ! i = (k, w)" by (metis in_set_conv_nth)
    with d(1) have "ps ! i \<in> set ps" "?f (ps ! i) = Inr (k, w)"
      by (auto simp: list_all2_conv_all_nth)
    moreover from this(2) have "load_value (snd (ps ! i)) = Inr w" by (auto simp: bindE_Inr_iff)
    ultimately show ?thesis using "8.IH" by blast
  qed
  with unique_object_Inr [OF d(2)] show ?case by (auto intro: json_clean.intros)
qed (auto simp: reject_constant_def intro: json_clean.intros)

section \<open>Collected records\<close>

record line_record =
  lr_sequence_id :: int
  lr_received_at :: string
  lr_run_id :: string
  lr_scenario_id :: string
  lr_server_build_id :: string
  lr_session_id :: int
  lr_request_index :: "int option"
  lr_payload :: request

fun payload_session_id :: "request \<Rightarrow> int" where
  "payload_session_id (MessageRequest r) = si_session_id (mr_session r)"
| "payload_session_id (SummaryRequest r) = ss_session_id (sr_session r)"

fun payload_request_index :: "request \<Rightarrow> int option" where
  "payload_request_index (MessageRequest r) = Some (mi_request_index (mr_message r))"
| "payload_request_index (SummaryRequest r) = None"

fun payload_queue_id :: "request \<Rightarrow> int" where
  "payload_queue_id (MessageRequest r) = mr_queue_sequence_id r"
| "payload_queue_id (SummaryRequest r) = sr_queue_sequence_id r"

definition validate_metadata :: "(string \<Rightarrow> datetime option) \<Rightarrow> line_record \<Rightarrow> unit res" where
  "validate_metadata fromiso c =
     (if lr_session_id c \<noteq> payload_session_id (lr_payload c) then Inl (ValueError ''session id'')
      else if lr_request_index c \<noteq> payload_request_index (lr_payload c)
        then Inl (ValueError ''request index'')
      else case fromiso (replace_Z (lr_received_at c)) of
          None \<Rightarrow> Inl (ValueError ''isoformat'')
        | Some t \<Rightarrow> check (is_utc t) (ValueError ''not UTC''))"

fun optional_index :: "py \<Rightarrow> int option res" where
  "optional_index PyNone = Inr None"
| "optional_index (PyInt n) = (if 1 \<le> n then Inr (Some n) else Inl (ValueError ''ge 1''))"
| "optional_index _ = Inl (ValueError ''strict integer'')"

fun int_ge1 :: "py \<Rightarrow> int res" where
  "int_ge1 (PyInt n) = (if 1 \<le> n then Inr n else Inl (ValueError ''ge 1''))"
| "int_ge1 _ = Inl (ValueError ''strict integer'')"

text \<open>A failed payload is a validation error of the record, whatever the failing field.\<close>

definition payload_field :: "(string \<Rightarrow> datetime option) \<Rightarrow> py \<Rightarrow> request res" where
  "payload_field fromiso v =
     (case parse_request fromiso v of Inl _ \<Rightarrow> Inl (ValueError ''payload'') | Inr r \<Rightarrow> Inr r)"

definition parse_collected :: "(string \<Rightarrow> datetime option) \<Rightarrow> py \<Rightarrow> line_record res" where
  "parse_collected fromiso v =
     bindE (model_fields [''record_schema_version'', ''collection_sequence_id'', ''received_at_utc'',
        ''run_id'', ''scenario_id'', ''server_build_id'', ''session_id'', ''request_index'',
        ''label_reference'', ''payload''] v) (\<lambda>d.
     bindE (field d ''record_schema_version'' (literal_field ''v1'')) (\<lambda>_.
     bindE (field d ''collection_sequence_id'' int_ge1) (\<lambda>seq.
     bindE (field d ''received_at_utc'' str_field) (\<lambda>received.
     bindE (field d ''run_id'' str_field) (\<lambda>run_id.
     bindE (field d ''scenario_id'' str_field) (\<lambda>sid.
     bindE (field d ''server_build_id'' str_field) (\<lambda>bid.
     bindE (field d ''session_id'' int_ge1) (\<lambda>session.
     bindE (field d ''request_index'' optional_index) (\<lambda>ri.
     bindE (field d ''label_reference'' (literal_field ''run_manifest.json:selected_scenario'')) (\<lambda>_.
     bindE (field d ''payload'' (payload_field fromiso)) (\<lambda>payload.
     let c = \<lparr>lr_sequence_id = seq, lr_received_at = received, lr_run_id = run_id, lr_scenario_id = sid,
              lr_server_build_id = bid, lr_session_id = session, lr_request_index = ri,
              lr_payload = payload\<rparr> in
     bindE (validate_metadata fromiso c) (\<lambda>_. Inr c))))))))))))"

lemma parse_collected_metadata:
  "parse_collected fromiso v = Inr c \<Longrightarrow> validate_metadata fromiso c = Inr ()"
  by (auto simp: parse_collected_def bindE_Inr_iff Let_def)

lemma validate_metadata_ids:
  "validate_metadata fromiso c = Inr () \<Longrightarrow> lr_session_id c = payload_session_id (lr_payload c) \<and>
     lr_request_index c = payload_request_index (lr_payload c)"
  by (auto simp: validate_metadata_def split: if_splits)

section \<open>Expectations as JSON\<close>

definition opt_entry :: "string \<Rightarrow> int option \<Rightarrow> (string \<times> py) list" where
  "opt_entry k n = (case n of None \<Rightarrow> [] | Some i \<Rightarrow> [(k, PyInt i)])"

definition dump_profile :: "traffic_profile \<Rightarrow> py" where
  "dump_profile p = PyDict
     ([(''scenario_id'', PyStr (scenario_name (tp_scenario p))), (''sessions'', PyInt (tp_sessions p)),
       (''concurrency'', PyInt (tp_concurrency p)), (''messages_min'', PyInt (tp_messages_min p)),
       (''messages_max'', PyInt (tp_messages_max p)),
       (''text_sizes'', PyList (map PyInt (tp_text_sizes p))),
       (''interval_min_ms'', PyInt (tp_interval_min_ms p)),
       (''interval_max_ms'', PyInt (tp_interval_max_ms p))]
      @ opt_entry ''batch_size'' (tp_batch_size p)
      @ opt_entry ''fragment_size_bytes'' (tp_fragment_size_bytes p))"

definition dump_frame :: "frame_plan \<Rightarrow> py" where
  "dump_frame f = PyDict
     [(''wire_hex'', PyStr (fp_wire_hex f)), (''wire_size'', PyInt (fp_wire_size f)),
      (''wire_sha256'', PyStr (fp_wire_sha256 f)), (''interval_after_ms'', PyInt (fp_interval_after_ms f))]"

definition dump_controls :: "transport_controls \<Rightarrow> py" where
  "dump_controls c = PyDict
     [(''batch_size'', PyInt (tc_batch_size c)),
      (''fragment_size_bytes'', (case tc_fragment_size_bytes c of None \<Rightarrow> PyNone | Some n \<Rightarrow> PyInt n)),
      (''fragment_wait_ms'', PyInt (tc_fragment_wait_ms c))]"

definition dump_session_plan :: "session_plan \<Rightarrow> py" where
  "dump_session_plan s = PyDict
     ([(''client_index'', PyInt (sp_client_index s)), (''frames'', PyList (map dump_frame (sp_frames s))),
       (''expected_message_frames'', PyList (map (\<lambda>(i, n). PyDict [(''packet_id'', PyInt i), (''packet_size'', PyInt n)])
          (sp_expected_message_frames s))),
       (''expected_responses'', PyInt (sp_expected_responses s)),
       (''expected_error_count'', PyInt (sp_expected_error_count s)),
       (''expected_last_error_message'', PyStr (sp_expected_last_error_message s))]
      @ (case sp_transport_controls s of None \<Rightarrow> [] | Some c \<Rightarrow> [(''transport_controls'', dump_controls c)])
      @ opt_entry ''expected_sendall_calls'' (sp_expected_sendall_calls s))"

definition dump_expectations :: "expectations \<Rightarrow> py" where
  "dump_expectations e = PyDict
     [(''expectation_version'', PyStr (ex_version e)), (''generator_version'', PyStr (ex_generator_version e)),
      (''run_id'', PyStr (ex_run_id e)), (''scenario_id'', PyStr (ex_scenario_id e)),
      (''independent_label'', PyInt (ex_independent_label e)), (''seed'', PyInt (ex_seed e)),
      (''profile'', dump_profile (ex_profile e)), (''sessions'', PyList (map dump_session_plan (ex_sessions e))),
      (''expected_sessions'', PyInt (ex_expected_sessions e)),
      (''expected_messages'', PyInt (ex_expected_messages e)),
      (''expected_summaries'', PyInt (ex_expected_summaries e)),
      (''expected_records'', PyInt (ex_expected_records e)),
      (''message_observable'', PyBool (ex_message_observable e))]"

end
