(* ===== verification/Traffic_Client.thy ===== *)
theory Traffic_Client
  imports Traffic
begin

text \<open>
  The client of \<open>data_collection/traffic.py\<close>: reading an exact number of bytes, checking a
  reply, sending one session's frames in groups or fragments, and collecting the outcome of
  a run. The connection is the record \<open>net\<close> over an abstract state; a result is kept up to
  the point where an exception ends the session. Sleeping has no effect on the model.
\<close>

record 'c net =
  nt_connect :: "('c, unit) act"
  nt_sendall :: "wire \<Rightarrow> ('c, unit) act"
  nt_recv :: "nat \<Rightarrow> ('c, wire) act"
  nt_shutdown_write :: "('c, unit) act"
  nt_elapsed_ms :: "('c, pyfloat) act"

definition connection_reset :: exn where
  "connection_reset = OSError ''ConnectionResetError''"

section \<open>Receiving\<close>

function read_exact_from :: "'c net \<Rightarrow> nat \<Rightarrow> wire \<Rightarrow> ('c, wire) act" where
  "read_exact_from nt n acc c =
     (if length acc < n then
        (case nt_recv nt (n - length acc) c of
           (Inl e, c') \<Rightarrow> (Inl e, c')
         | (Inr part, c') \<Rightarrow>
             if part = [] then (Inl (RuntimeError ''closed before the reply''), c')
             else read_exact_from nt n (acc @ part) c')
      else (Inr acc, c))"
  by pat_completeness auto
termination
proof (relation "measure (\<lambda>(nt, n, acc, c). n - length acc)", goal_cases)
  case 1
  then show ?case by simp
next
  case (2 nt n acc c x c' part)
  then show ?case by (cases part) auto
qed

declare read_exact_from.simps [simp del]

definition read_exact :: "'c net \<Rightarrow> nat \<Rightarrow> ('c, wire) act" where
  "read_exact nt n = read_exact_from nt n []"

definition REPLY_TEXT :: wire where
  "REPLY_TEXT = map of_char ''Hello my world''"

definition read_reply :: "'c net \<Rightarrow> ('c, unit) act" where
  "read_reply nt =
     bindS (read_exact nt 8) (\<lambda>header.
     bindS (liftS (unpack_ii header)) (\<lambda>(packet_id, size).
     if packet_id \<noteq> 1 \<or> \<not> (10 \<le> size \<and> size \<le> 2048)
       then raiseS (RuntimeError ''reply header'')
     else
       bindS (read_exact nt (nat (size - 8))) (\<lambda>body.
       bindS (liftS (unpack_H (take 2 body))) (\<lambda>text_size.
       if text_size \<noteq> int (length REPLY_TEXT) \<or> drop 2 body \<noteq> REPLY_TEXT
         then raiseS (RuntimeError ''reply body'') else retS ()))))"

section \<open>One session\<close>

record group_record = send_group +
  gr_start_interval_ms :: pyfloat
  gr_send_duration_ms :: pyfloat

record session_result =
  sr_client_index :: int
  sr_passed :: bool
  sr_connected :: bool
  sr_frames_sent :: int
  sr_bytes_sent :: int
  sr_responses_received :: int
  sr_error :: "exn option"
  sr_transport_controls :: transport_controls
  sr_sendall_calls :: int
  sr_send_groups :: "group_record list"

definition on_net :: "('c, 'a) act \<Rightarrow> ('c \<times> session_result, 'a) act" where
  "on_net m = (\<lambda>(c, r). case m c of (x, c') \<Rightarrow> (x, (c', r)))"

definition on_result :: "(session_result \<Rightarrow> session_result) \<Rightarrow> ('c \<times> session_result, unit) act" where
  "on_result f = modifyS (\<lambda>(c, r). (c, f r))"

definition count_call :: "session_result \<Rightarrow> session_result" where
  "count_call r = r\<lparr>sr_sendall_calls := sr_sendall_calls r + 1\<rparr>"

definition send_pieces :: "'c net \<Rightarrow> wire list \<Rightarrow> ('c \<times> session_result, unit) act" where
  "send_pieces nt pieces =
     forS (\<lambda>piece. bindS (on_net (nt_sendall nt piece)) (\<lambda>_. on_result count_call)) pieces"

definition fragments :: "nat \<Rightarrow> wire \<Rightarrow> wire list" where
  "fragments n w = map (\<lambda>o'. py_slice o' (o' + n) w) (range_step 0 (length w) n)"

definition send_wire :: "'c net \<Rightarrow> scenario_id \<Rightarrow> transport_controls \<Rightarrow> wire
    \<Rightarrow> ('c \<times> session_result, unit) act" where
  "send_wire nt sid controls w =
     (if sid = NormalFragmentedChat then
        (case tc_fragment_size_bytes controls of
           None \<Rightarrow> raiseS (TypeError ''fragment size'')
         | Some f \<Rightarrow> send_pieces nt (fragments (nat f) w))
      else send_pieces nt [w])"

definition read_replies :: "'c net \<Rightarrow> nat \<Rightarrow> ('c \<times> session_result, unit) act" where
  "read_replies nt n =
     forS (\<lambda>_. bindS (on_net (read_reply nt)) (\<lambda>_.
        on_result (\<lambda>r. r\<lparr>sr_responses_received := sr_responses_received r + 1\<rparr>))) [0..<n]"

definition run_group ::
    "'c net \<Rightarrow> scenario_id \<Rightarrow> transport_controls \<Rightarrow> session_plan \<Rightarrow> nat \<times> frame_plan list
      \<Rightarrow> ('c \<times> session_result, unit) act" where
  "run_group nt sid controls session sg =
     (case sg of (start, grp) \<Rightarrow>
     bindS (liftS (mapE (\<lambda>f. fromhex (fp_wire_hex f)) grp)) (\<lambda>parts.
     let w = concat parts in
     bindS (if start = 0 then retS (Fin 0) else on_net (nt_elapsed_ms nt)) (\<lambda>interval.
     bindS (send_wire nt sid controls w) (\<lambda>_.
     bindS (on_net (nt_elapsed_ms nt)) (\<lambda>duration.
     bindS (on_result (\<lambda>r. r\<lparr>
        sr_send_groups := sr_send_groups r @
          [\<lparr>sg_first_frame_index = int start + 1, sg_frame_count = int (length grp),
            sg_wire_size = int (length w),
            sg_wait_after_ms =
              (if start + length grp < length (sp_frames session)
               then fp_interval_after_ms (last grp) else 0),
            gr_start_interval_ms = interval, gr_send_duration_ms = duration\<rparr>],
        sr_frames_sent := sr_frames_sent r + int (length grp),
        sr_bytes_sent := sr_bytes_sent r + int (length w)\<rparr>)) (\<lambda>_.
     if sp_expected_responses session \<noteq> 0 then read_replies nt (length grp) else retS ()))))))"

text \<open>The wait for the server's end of the connection.\<close>

definition expect_close :: "'c net \<Rightarrow> session_plan \<Rightarrow> ('c \<times> session_result, unit) act" where
  "expect_close nt session s =
     (case on_net (nt_recv nt 1) s of
        (Inr part, t) \<Rightarrow>
          if part \<noteq> [] then (Inl (RuntimeError ''unexpected extra reply''), t) else (Inr (), t)
      | (Inl e, t) \<Rightarrow>
          if e = connection_reset \<and> sp_expected_error_count session \<noteq> 0 then (Inr (), t)
          else (Inl e, t))"

definition session_body ::
    "'c net \<Rightarrow> scenario_id \<Rightarrow> transport_controls \<Rightarrow> session_plan \<Rightarrow> ('c \<times> session_result, unit) act" where
  "session_body nt sid controls session =
     bindS (on_net (nt_connect nt)) (\<lambda>_.
     bindS (on_result (sr_connected_update (\<lambda>_. True))) (\<lambda>_.
     bindS (forS (run_group nt sid controls session)
        (frame_groups (tc_batch_size controls) (sp_frames session))) (\<lambda>_.
     bindS (if sp_expected_responses session \<noteq> 0 then on_net (nt_shutdown_write nt) else retS ()) (\<lambda>_.
     bindS (expect_close nt session) (\<lambda>_ s.
     if sr_responses_received (snd s) \<noteq> sp_expected_responses session
       then (Inl (RuntimeError ''reply count differs''), s) else (Inr (), s))))))"

definition default_profile :: "scenario_id \<Rightarrow> traffic_profile" where
  "default_profile sid =
     \<lparr>tp_scenario = sid, tp_sessions = 4, tp_concurrency = 2,
      tp_messages_min = (if sid = ControlledBurstChat then 12 else 4),
      tp_messages_max = (if sid = ControlledBurstChat then 16 else 8),
      tp_text_sizes = [16, 64, 256, 512],
      tp_interval_min_ms = (if sid = ControlledBurstChat then 0 else 10),
      tp_interval_max_ms = (if sid = ControlledBurstChat then 0 else 30),
      tp_batch_size = None, tp_fragment_size_bytes = None\<rparr>"

definition initial_result :: "session_plan \<Rightarrow> transport_controls \<Rightarrow> session_result" where
  "initial_result session controls =
     \<lparr>sr_client_index = sp_client_index session, sr_passed = False, sr_connected = False,
      sr_frames_sent = 0, sr_bytes_sent = 0, sr_responses_received = 0, sr_error = None,
      sr_transport_controls = controls, sr_sendall_calls = 0, sr_send_groups = []\<rparr>"

definition run_session ::
    "'c net \<Rightarrow> session_plan \<Rightarrow> scenario_id \<Rightarrow> traffic_profile option \<Rightarrow> 'c \<Rightarrow> session_result" where
  "run_session nt session sid profile c =
     (let controls = transport_controls_of (case profile of Some p \<Rightarrow> p | None \<Rightarrow> default_profile sid) in
      case session_body nt sid controls session (c, initial_result session controls) of
        (Inr _, (_, r)) \<Rightarrow> r\<lparr>sr_passed := True\<rparr>
      | (Inl e, (_, r)) \<Rightarrow> r\<lparr>sr_error := Some e\<rparr>)"

section \<open>One run\<close>

record outcome =
  oc_version :: string
  oc_run_id :: string
  oc_scenario_id :: string
  oc_passed :: bool
  oc_sessions :: "session_result list"
  oc_connected_sessions :: int
  oc_frames_sent :: int
  oc_responses_received :: int

text \<open>
  The sessions run in a thread pool, each over its own connection; \<open>workers.map\<close> returns
  the results in the order of the sessions. \<open>conn i\<close> is the connection of the i-th session.
\<close>

definition generate_traffic :: "'c net \<Rightarrow> (nat \<Rightarrow> 'c) \<Rightarrow> expectations \<Rightarrow> outcome" where
  "generate_traffic nt conn ex =
     (let p = ex_profile ex;
          results = map (\<lambda>(i, s). run_session nt s (tp_scenario p) (Some p) (conn i))
                      (enumerate 0 (ex_sessions ex)) in
      \<lparr>oc_version = ex_version ex, oc_run_id = ex_run_id ex,
       oc_scenario_id = scenario_name (tp_scenario p),
       oc_passed = list_all sr_passed results, oc_sessions = results,
       oc_connected_sessions = int (length (filter sr_connected results)),
       oc_frames_sent = sum_list (map sr_frames_sent results),
       oc_responses_received = sum_list (map sr_responses_received results)\<rparr>)"

section \<open>What a passed session has done\<close>

lemma on_net_Inr [simp]:
  "on_net m (c, r) = (Inr x, t) \<longleftrightarrow> (\<exists>c'. m c = (Inr x, c') \<and> t = (c', r))"
  by (auto simp: on_net_def split: prod.splits)

lemma on_result_Inr [simp]: "on_result f (c, r) = (Inr u, t) \<longleftrightarrow> t = (c, f r)"
  by (auto simp: on_result_def)

lemma send_pieces_result:
  assumes "send_pieces nt pieces s = (Inr u, t)"
  shows "snd t = (snd s)\<lparr>sr_sendall_calls := sr_sendall_calls (snd s) + int (length pieces)\<rparr>"
proof -
  let ?I = "\<lambda>i st. snd st = (snd s)\<lparr>sr_sendall_calls := sr_sendall_calls (snd s) + int i\<rparr>"
  have "?I (length pieces) t"
    by (rule forS_rule [OF assms [unfolded send_pieces_def]])
      (auto simp: bindS_Inr_iff count_call_def)
  then show ?thesis .
qed

lemma read_replies_result:
  assumes "read_replies nt n s = (Inr u, t)"
  shows "snd t = (snd s)\<lparr>sr_responses_received := sr_responses_received (snd s) + int n\<rparr>"
proof -
  let ?I = "\<lambda>i st. snd st = (snd s)\<lparr>sr_responses_received := sr_responses_received (snd s) + int i\<rparr>"
  have "?I (length [0..<n]) t"
    by (rule forS_rule [OF assms [unfolded read_replies_def]]) (auto simp: bindS_Inr_iff)
  then show ?thesis by simp
qed

text \<open>The number of \<open>sendall\<close> calls for a wire of one group.\<close>

definition group_calls :: "scenario_id \<Rightarrow> transport_controls \<Rightarrow> nat \<Rightarrow> nat" where
  "group_calls sid c n =
     (if sid = NormalFragmentedChat
      then (case tc_fragment_size_bytes c of None \<Rightarrow> 0 | Some f \<Rightarrow> length (range_step 0 n (nat f)))
      else 1)"

lemma send_wire_result:
  assumes "send_wire nt sid controls w s = (Inr u, t)"
  shows "snd t = (snd s)\<lparr>sr_sendall_calls :=
     sr_sendall_calls (snd s) + int (group_calls sid controls (length w))\<rparr>"
  using assms
  by (auto simp: send_wire_def group_calls_def fragments_def dest: send_pieces_result
      split: if_splits option.splits)

definition group_bytes :: "frame_plan list \<Rightarrow> wire" where
  "group_bytes g = concat (map (\<lambda>f. projr (fromhex (fp_wire_hex f))) g)"

lemma run_group_result:
  assumes "run_group nt sid controls session (start, g) s = (Inr u, t)"
  shows "sr_frames_sent (snd t) = sr_frames_sent (snd s) + int (length g) \<and>
     sr_bytes_sent (snd t) = sr_bytes_sent (snd s) + int (length (group_bytes g)) \<and>
     sr_sendall_calls (snd t)
       = sr_sendall_calls (snd s) + int (group_calls sid controls (length (group_bytes g))) \<and>
     sr_responses_received (snd t) = sr_responses_received (snd s)
       + (if sp_expected_responses session \<noteq> 0 then int (length g) else 0) \<and>
     map send_group.truncate (sr_send_groups (snd t)) = map send_group.truncate (sr_send_groups (snd s)) @
       [\<lparr>sg_first_frame_index = int start + 1, sg_frame_count = int (length g),
         sg_wire_size = int (length (group_bytes g)),
         sg_wait_after_ms = (if start + length g < length (sp_frames session)
           then fp_interval_after_ms (last g) else 0)\<rparr>]"
proof -
  obtain c r where s: "s = (c, r)" by (cases s)
  from assms obtain parts where parts: "mapE (\<lambda>f. fromhex (fp_wire_hex f)) g = Inr parts"
    by (auto simp: run_group_def bindS_Inr_iff)
  then have "parts = map (\<lambda>f. projr (fromhex (fp_wire_hex f))) g"
    by (auto simp: mapE_Inr_iff list_all2_conv_all_nth intro!: nth_equalityI)
  then have w: "concat parts = group_bytes g" by (simp add: group_bytes_def)
  from assms parts s obtain interval c1 st2 duration c3 r3 where
    "send_wire nt sid controls (group_bytes g) (c1, r) = (Inr (), st2)" and
    "on_net (nt_elapsed_ms nt) st2 = (Inr duration, (c3, r3))" and
    fin: "(if sp_expected_responses session \<noteq> 0 then read_replies nt (length g) else retS ())
      (c3, r3\<lparr>sr_send_groups := sr_send_groups r3 @
          [\<lparr>sg_first_frame_index = int start + 1, sg_frame_count = int (length g),
            sg_wire_size = int (length (group_bytes g)),
            sg_wait_after_ms =
              (if start + length g < length (sp_frames session)
               then fp_interval_after_ms (last g) else 0),
            gr_start_interval_ms = interval, gr_send_duration_ms = duration\<rparr>],
        sr_frames_sent := sr_frames_sent r3 + int (length g),
        sr_bytes_sent := sr_bytes_sent r3 + int (length (group_bytes g))\<rparr>) = (Inr (), t)"
    by (fastforce simp: run_group_def bindS_Inr_iff w Let_def split: if_splits)
  moreover from this have "r3 = r\<lparr>sr_sendall_calls := sr_sendall_calls r
      + int (group_calls sid controls (length (group_bytes g)))\<rparr>"
    using send_wire_result by (cases st2) fastforce
  ultimately show ?thesis
    using s by (auto simp: send_group.defs dest!: read_replies_result split: if_splits)
qed

section \<open>All groups of a session\<close>

lemma run_groups_result:
  assumes "forS (run_group nt sid controls session) gs s = (Inr u, t)"
  shows "sr_frames_sent (snd t) = sr_frames_sent (snd s) + int (length (concat (map snd gs))) \<and>
     sr_bytes_sent (snd t) = sr_bytes_sent (snd s) + int (length (group_bytes (concat (map snd gs)))) \<and>
     sr_sendall_calls (snd t) = sr_sendall_calls (snd s)
       + sum_list (map (\<lambda>(_, g). int (group_calls sid controls (length (group_bytes g)))) gs) \<and>
     sr_responses_received (snd t) = sr_responses_received (snd s)
       + (if sp_expected_responses session \<noteq> 0 then int (length (concat (map snd gs))) else 0) \<and>
     map send_group.truncate (sr_send_groups (snd t)) = map send_group.truncate (sr_send_groups (snd s)) @
       map (\<lambda>(start, g). \<lparr>sg_first_frame_index = int start + 1, sg_frame_count = int (length g),
         sg_wire_size = int (length (group_bytes g)),
         sg_wait_after_ms = (if start + length g < length (sp_frames session)
           then fp_interval_after_ms (last g) else 0)\<rparr>) gs"
  using assms
proof (induction gs arbitrary: s)
  case Nil
  then show ?case by (simp add: group_bytes_def)
next
  case (Cons x gs)
  obtain start g where x: "x = (start, g)" by (cases x)
  from Cons.prems x obtain s' where
    s': "run_group nt sid controls session (start, g) s = (Inr (), s')"
      "forS (run_group nt sid controls session) gs s' = (Inr u, t)"
    by (auto simp: bindS_Inr_iff)
  from run_group_result [OF s'(1)] Cons.IH [OF s'(2)] x show ?case
    by (simp add: group_bytes_def)
qed

text \<open>The recorded sizes are the sizes of the recorded bytes, small enough for exact floats.\<close>

definition frames_ok :: "frame_plan list \<Rightarrow> bool" where
  "frames_ok fs \<longleftrightarrow> list_all (\<lambda>f. (\<exists>bs. fromhex (fp_wire_hex f) = Inr bs \<and>
     fp_wire_size f = int (length bs)) \<and> fp_wire_size f \<le> 2 ^ 20) fs"

lemma frames_ok_bytes: "frames_ok fs \<Longrightarrow> int (length (group_bytes fs)) = wire_total fs"
  by (induction fs) (auto simp: frames_ok_def group_bytes_def wire_total_def)

lemma frames_ok_bound: "frames_ok fs \<Longrightarrow> 0 \<le> wire_total fs \<and> wire_total fs \<le> 2 ^ 20 * int (length fs)"
  by (induction fs) (auto simp: frames_ok_def wire_total_def)

lemma frames_ok_slice: "frames_ok fs \<Longrightarrow> frames_ok (py_slice a b fs)"
  unfolding frames_ok_def list_all_iff using set_py_slice_subset by fast

lemma group_calls_expected:
  assumes "profile_ok p" and "frames_ok g" and "int (length g) \<le> 8"
  shows "int (group_calls (tp_scenario p) (transport_controls_of p) (length (group_bytes g))) =
     (case tc_fragment_size_bytes (transport_controls_of p) of
        Some f \<Rightarrow> if f \<noteq> 0 then math_ceil_div (wire_total g) f else 1 | None \<Rightarrow> 1)"
proof (cases "tp_scenario p = NormalFragmentedChat")
  case False
  then show ?thesis by (simp add: group_calls_def transport_controls_of_def)
next
  case True
  obtain f where f: "tc_fragment_size_bytes (transport_controls_of p) = Some f" "1 \<le> f" "f \<le> 256"
    using True assms(1)
    by (cases "tp_fragment_size_bytes p") (auto simp: transport_controls_of_def profile_ok_def)
  have w: "int (length (group_bytes g)) = wire_total g" using assms(2) by (rule frames_ok_bytes)
  have "2 ^ 20 * int (length g) \<le> 2 ^ 20 * 8" using assms(3) by simp
  then have b: "0 \<le> wire_total g" "wire_total g \<le> 2 ^ 40"
    using frames_ok_bound [OF assms(2)] by auto
  have "int (length (range_step 0 (length (group_bytes g)) (nat f)))
      = int ((length (group_bytes g) + (nat f - 1)) div nat f)"
    using f(2) by (simp add: length_range_step)
  also have "\<dots> = (wire_total g + (f - 1)) div f"
    using f(2) by (simp add: zdiv_int of_nat_diff algebra_simps flip: w)
  also have "\<dots> = math_ceil_div (wire_total g) f"
    by (rule math_ceil_div_exact [OF b f(2,3), symmetric])
  finally show ?thesis using True f by (simp add: group_calls_def)
qed

lemma batch_size_bounds:
  "profile_ok p \<Longrightarrow> 1 \<le> tc_batch_size (transport_controls_of p) \<and>
     tc_batch_size (transport_controls_of p) \<le> 8"
  by (auto simp: transport_controls_of_def profile_ok_def split: option.splits)

lemma session_body_facts:
  assumes "session_body nt sid controls session (c, r0) = (Inr u, t)"
  shows "\<exists>c1 t1. forS (run_group nt sid controls session)
        (frame_groups (tc_batch_size controls) (sp_frames session)) (c1, r0\<lparr>sr_connected := True\<rparr>)
          = (Inr (), t1) \<and>
     snd t = snd t1 \<and>
     sr_responses_received (snd t1) = sp_expected_responses session"
proof -
  from assms obtain c1 t1 t2 t3 where
    l: "forS (run_group nt sid controls session)
        (frame_groups (tc_batch_size controls) (sp_frames session)) (c1, r0\<lparr>sr_connected := True\<rparr>)
          = (Inr (), t1)" and
    sh: "(if sp_expected_responses session \<noteq> 0 then on_net (nt_shutdown_write nt) else retS ()) t1
          = (Inr (), t2)" and
    ec: "expect_close nt session t2 = (Inr (), t3)" and
    fin: "(if sr_responses_received (snd t3) \<noteq> sp_expected_responses session
       then (Inl (RuntimeError ''reply count differs''), t3)
     else (Inr (), t3)) = (Inr u, t)"
    by (auto simp: session_body_def bindS_Inr_iff)
  have "snd t2 = snd t1" using sh by (cases t1) (auto split: if_splits)
  moreover have "snd t3 = snd t2" using ec
    by (cases t2) (auto simp: expect_close_def on_net_def split: prod.splits sum.splits if_splits)
  ultimately show ?thesis using l fin
    by (intro exI [of _ c1] exI [of _ t1]) (auto split: if_splits)
qed

text \<open>Only the last statement of the session sets \<open>passed\<close>.\<close>

definition keeps_passed :: "('c \<times> session_result, 'a) act \<Rightarrow> bool" where
  "keeps_passed m \<longleftrightarrow> (\<forall>s. sr_passed (snd (snd (m s))) = sr_passed (snd s))"

lemma keeps_bindS: "keeps_passed m \<Longrightarrow> (\<And>a. keeps_passed (f a)) \<Longrightarrow> keeps_passed (bindS m f)"
  by (auto simp: keeps_passed_def bindS_def split: prod.split sum.split) (metis snd_conv)+

lemma keeps_forS: "(\<And>x. keeps_passed (f x)) \<Longrightarrow> keeps_passed (forS f xs)"
  by (induction xs) (auto simp: keeps_bindS, simp add: keeps_passed_def retS_def)

lemma keeps_basic:
  "keeps_passed (retS a)" "keeps_passed (raiseS e)" "keeps_passed (liftS r)" "keeps_passed (on_net n)"
  "(\<And>r. sr_passed (g r) = sr_passed r) \<Longrightarrow> keeps_passed (on_result g)"
  by (auto simp: keeps_passed_def retS_def raiseS_def liftS_def on_net_def on_result_def modifyS_def
      split: prod.split)

lemma keeps_send_pieces: "keeps_passed (send_pieces nt ps)"
  unfolding send_pieces_def by (intro keeps_forS keeps_bindS keeps_basic) (simp add: count_call_def)

lemma keeps_read_replies: "keeps_passed (read_replies nt n)"
  unfolding read_replies_def by (intro keeps_forS keeps_bindS keeps_basic) simp

lemma keeps_send_wire: "keeps_passed (send_wire nt sid controls w)"
  unfolding send_wire_def
  by (auto intro: keeps_send_pieces keeps_basic split: option.split)

lemma keeps_run_group: "keeps_passed (run_group nt sid controls session sg)"
  unfolding run_group_def Let_def
  by (auto intro!: keeps_bindS keeps_basic keeps_send_wire keeps_read_replies split: prod.split)

lemma keeps_expect_close: "keeps_passed (expect_close nt session)"
  by (auto simp: keeps_passed_def expect_close_def on_net_def split: prod.split sum.split)

lemma keeps_session_body: "keeps_passed (session_body nt sid controls session)"
proof -
  have "keeps_passed (\<lambda>s. if sr_responses_received (snd s) \<noteq> n
       then (Inl e, s) else (Inr (), s))" for n e
    by (simp add: keeps_passed_def)
  then show ?thesis
    unfolding session_body_def
    by (auto intro!: keeps_bindS keeps_basic keeps_forS keeps_run_group keeps_expect_close)
qed

lemma run_session_passed:
  assumes "sr_passed (run_session nt session (tp_scenario p) (Some p) c)"
  shows "\<exists>u t. session_body nt (tp_scenario p) (transport_controls_of p) session
           (c, initial_result session (transport_controls_of p)) = (Inr u, t) \<and>
         run_session nt session (tp_scenario p) (Some p) c = (snd t)\<lparr>sr_passed := True\<rparr>"
proof -
  let ?b = "session_body nt (tp_scenario p) (transport_controls_of p) session
           (c, initial_result session (transport_controls_of p))"
  obtain x c' r where b: "?b = (x, (c', r))" by (metis prod.collapse)
  show ?thesis
  proof (cases x)
    case (Inr u)
    with b show ?thesis by (auto simp: run_session_def)
  next
    case (Inl e)
    have "sr_passed r = sr_passed (initial_result session (transport_controls_of p))"
      using keeps_session_body b unfolding keeps_passed_def by (metis snd_conv)
    then have "\<not> sr_passed r" by (simp add: initial_result_def)
    with b Inl assms show ?thesis by (simp add: run_session_def)
  qed
qed

section \<open>Properties\<close>

text \<open>\<open>recv(n)\<close> returns at most n bytes.\<close>

definition bounded_recv :: "'c net \<Rightarrow> bool" where
  "bounded_recv nt \<longleftrightarrow> (\<forall>n c part c'. nt_recv nt n c = (Inr part, c') \<longrightarrow> length part \<le> n)"

lemma read_exact_from_length:
  assumes "bounded_recv nt" and "read_exact_from nt n acc c = (Inr bs, c')" and "length acc \<le> n"
  shows "length bs = n"
  using assms
proof (induction nt n acc c rule: read_exact_from.induct)
  case (1 nt n acc c)
  show ?case
  proof (cases "length acc < n")
    case False
    then show ?thesis using 1(3,4) by (subst (asm) read_exact_from.simps) simp
  next
    case True
    then obtain part c1 where part: "nt_recv nt (n - length acc) c = (Inr part, c1)" "part \<noteq> []"
      "read_exact_from nt n (acc @ part) c1 = (Inr bs, c')"
      using 1(3) by (subst (asm) read_exact_from.simps) (auto split: prod.splits sum.splits if_splits)
    have "length part \<le> n - length acc"
      using part(1) 1(2) unfolding bounded_recv_def by blast
    then have len: "length (acc @ part) \<le> n" using True by simp
    from 1(1) [OF True part(1) [symmetric] refl part(2) 1(2) part(3) len] show ?thesis .
  qed
qed

lemma planned_groups:
  assumes "1 \<le> tc_batch_size ctl"
    and "\<And>start g. (start, g) \<in> set (frame_groups (tc_batch_size ctl) (sp_frames session)) \<Longrightarrow>
      int (length (group_bytes g)) = wire_total g"
  shows "map (\<lambda>(start, g). \<lparr>sg_first_frame_index = int start + 1, sg_frame_count = int (length g),
       sg_wire_size = int (length (group_bytes g)),
       sg_wait_after_ms = (if start + length g < length (sp_frames session)
         then fp_interval_after_ms (last g) else 0)\<rparr>) (frame_groups (tc_batch_size ctl) (sp_frames session)) = planned_send_groups session ctl"
  unfolding planned_send_groups_def Let_def frame_groups_def map_map
  proof (rule map_cong [OF refl])
  fix start assume "start \<in> set (range_step 0 (length (sp_frames session)) (nat (tc_batch_size ctl)))"
  then have m: "(start, py_slice start (start + nat (tc_batch_size ctl)) (sp_frames session)) \<in> set (frame_groups (tc_batch_size ctl) (sp_frames session))"
    by (simp add: frame_groups_def)
  show "((\<lambda>(start, g). \<lparr>sg_first_frame_index = int start + 1, sg_frame_count = int (length g),
       sg_wire_size = int (length (group_bytes g)),
       sg_wait_after_ms = (if start + length g < length (sp_frames session)
         then fp_interval_after_ms (last g) else 0)\<rparr>) \<circ>
       (\<lambda>s. (s, py_slice s (s + nat (tc_batch_size ctl)) (sp_frames session)))) start =
    \<lparr>sg_first_frame_index = int start + 1,
       sg_frame_count = int (length (py_slice start (start + nat (tc_batch_size ctl)) (sp_frames session))),
       sg_wire_size = wire_total (py_slice start (start + nat (tc_batch_size ctl)) (sp_frames session)),
       sg_wait_after_ms =
         (if start + nat (tc_batch_size ctl) < length (sp_frames session)
          then fp_interval_after_ms (sp_frames session ! (min (start + nat (tc_batch_size ctl)) (length (sp_frames session)) - 1))
          else 0)\<rparr>"
    using frame_groups_last [OF m assms(1)] assms(2) [OF m] by (auto simp del: length_py_slice)
  qed


text \<open>A server that answers every frame: the connection state is the bytes still to receive.\<close>

definition demo_reply :: wire where
  "demo_reply = [0, 0, 0, 1, 0, 0, 0, 24, 0, 14] @ REPLY_TEXT"

definition demo_net :: "wire net" where
  "demo_net = \<lparr>nt_connect = retS (), nt_sendall = (\<lambda>w. retS ()),
     nt_recv = (\<lambda>n c. (Inr (take n c), drop n c)), nt_shutdown_write = retS (),
     nt_elapsed_ms = retS (Fin 0)\<rparr>"

definition demo_profile :: traffic_profile where
  "demo_profile = (default_profile NormalFragmentedChat)\<lparr>tp_fragment_size_bytes := Some 8, tp_batch_size := Some 2\<rparr>"

definition demo_frame :: frame_plan where
  "demo_frame = \<lparr>fp_wire_hex = hex_of (replicate 15 0), fp_wire_size = 15,
     fp_wire_sha256 = ''h'', fp_interval_after_ms = 10\<rparr>"

definition demo_session :: session_plan where
  "demo_session = \<lparr>sp_client_index = 0, sp_frames = replicate 3 demo_frame,
     sp_expected_message_frames = replicate 3 (0, 15), sp_expected_responses = 3,
     sp_expected_error_count = 0, sp_expected_last_error_message = [],
     sp_transport_controls = None, sp_expected_sendall_calls = None\<rparr>"

lemma demo_session_passes:
  "sr_passed (run_session demo_net demo_session (tp_scenario demo_profile) (Some demo_profile)
     (concat (replicate 3 demo_reply)))"
  by code_simp

lemma demo_profile_ok: "profile_ok demo_profile"
  by code_simp

lemma demo_frames_ok: "frames_ok (sp_frames demo_session)"
  by (simp add: frames_ok_def demo_session_def demo_frame_def list_all_iff del: hex_of.simps)


end
