(* ===== verification/Campaign.thy ===== *)
theory Campaign
  imports Traffic_Client
begin

text \<open>
  \<open>data_collection/campaign.py\<close> and the process handling of \<open>runtime.py\<close>: preparing a
  campaign directory before anything is sent, running one capture, running the campaign. The
  file system is a map from absolute paths to documents together with the existing
  directories; processes, polls of the collection API and file hashes are parameters.
\<close>

section \<open>File store\<close>

record run_entry =
  en_run_id :: string
  en_scenario_id :: string
  en_repeat_index :: int
  en_seed :: int
  en_independent_label :: int
  en_expectations_file :: "string list"
  en_config_file :: "string list"
  en_expectations_sha256 :: string

record campaign_manifest =
  cm_campaign_id :: string
  cm_dataset_purpose :: string
  cm_plan :: campaign_plan
  cm_runs :: "run_entry list"
  cm_source_manifest_sha256 :: string
  cm_scenario_manifest :: scenario_manifest
  cm_server_exe :: path
  cm_server_build_id :: string
  cm_operational_contract_sha256 :: string
  cm_code_evidence :: "(string \<times> string) list"

record stop_result =
  st_started :: bool
  st_graceful :: bool
  st_forced :: bool
  st_exit_code :: "int option"

record capture_result =
  cr_run_id :: string
  cr_passed :: bool
  cr_error :: "exn option"
  cr_server_shutdown :: "stop_result option"
  cr_api_shutdown :: "stop_result option"

record campaign_summary =
  cs_campaign_id :: string
  cs_planned_runs :: nat
  cs_executed_runs :: nat
  cs_passed :: bool
  cs_runs :: "capture_result list"

datatype doc =
    ExpectationsDoc expectations
  | ConfigDoc collection_config
  | ManifestDoc campaign_manifest
  | OutcomeDoc outcome
  | CaptureDoc capture_result
  | SummaryDoc campaign_summary
  | LogFile

record store =
  fs_dirs :: "path set"
  fs_files :: "path \<Rightarrow> doc option"

definition mkdir :: "path \<Rightarrow> (store, unit) act" where
  "mkdir p s =
     (if p \<in> fs_dirs s \<or> fs_files s p \<noteq> None then (Inl (FileExistsError ''mkdir''), s)
      else (Inr (), s\<lparr>fs_dirs := insert p (fs_dirs s)\<rparr>))"

fun ancestors :: "path \<Rightarrow> path set" where
  "ancestors (Abs xs) = set (map (\<lambda>k. Abs (take k xs)) [0..<length xs])"
| "ancestors (Rel xs) = set (map (\<lambda>k. Rel (take k xs)) [0..<length xs])"

text \<open>\<open>mkdir(parents=True, exist_ok=False)\<close>.\<close>

definition mkdir_parents :: "path \<Rightarrow> (store, unit) act" where
  "mkdir_parents p s =
     (if p \<in> fs_dirs s \<or> fs_files s p \<noteq> None then (Inl (FileExistsError ''mkdir''), s)
      else (Inr (), s\<lparr>fs_dirs := insert p (ancestors p \<union> fs_dirs s)\<rparr>))"

definition write_doc :: "path \<Rightarrow> doc \<Rightarrow> (store, unit) act" where
  "write_doc p d s =
     (if path_parent p \<notin> fs_dirs s then (Inl (FileNotFoundError ''write''), s)
      else (Inr (), s\<lparr>fs_files := (fs_files s)(p \<mapsto> d)\<rparr>))"

definition read_doc :: "path \<Rightarrow> (store, doc) act" where
  "read_doc p s =
     (case fs_files s p of None \<Rightarrow> (Inl (FileNotFoundError ''read''), s) | Some d \<Rightarrow> (Inr d, s))"

definition doc_hash :: "(doc \<Rightarrow> string) \<Rightarrow> path \<Rightarrow> (store, string) act" where
  "doc_hash hash p = bindS (read_doc p) (\<lambda>d. retS (hash d))"

section \<open>Preparing a campaign\<close>

definition run_id_of :: "string \<Rightarrow> int \<Rightarrow> traffic_profile \<Rightarrow> string" where
  "run_id_of campaign_id r p =
     campaign_id @ ''_r'' @ pad0 2 (nat r) @ ''_'' @ scenario_name (tp_scenario p)"

text \<open>
  \<open>validate_capture_paths\<close>: every run id is an identifier; on Windows the four longest
  paths of a run stay below 260 characters. \<open>plen\<close> is the length of a resolved path.
\<close>

definition capture_paths :: "path \<Rightarrow> string \<Rightarrow> path list" where
  "capture_paths base run_id =
     [path_join base (Rel [''expectations'', run_id @ ''.json'']),
      path_join base (Rel [''logs'', run_id @ ''_server.log'']),
      path_join base (Rel [''runs'', run_id, ''collection_summary.json'']),
      path_join base (Rel [''outcomes'', run_id @ ''_runtime.json''])]"

definition validate_capture_paths ::
    "(string \<Rightarrow> wire) \<Rightarrow> bool \<Rightarrow> (path \<Rightarrow> nat) \<Rightarrow> path \<Rightarrow> string \<Rightarrow> campaign_plan \<Rightarrow> unit res" where
  "validate_capture_paths digest windows plen base campaign_id plan =
     bindE (planned_runs digest plan) (\<lambda>runs.
     forE (\<lambda>(r, p, _).
       let run_id = run_id_of campaign_id r p in
       if \<not> is_identifier run_id then Inl (ValueError ''identifier'')
       else if windows \<and> list_ex (\<lambda>q. 260 \<le> plen q) (capture_paths base run_id)
         then Inl (ValueError ''path too long'')
       else Inr ()) runs)"

record prepare_env =
  pe_digest :: "string \<Rightarrow> wire"
  pe_frame_hash :: "wire \<Rightarrow> string"
  pe_doc_hash :: "doc \<Rightarrow> string"
  pe_windows :: bool
  pe_path_length :: "path \<Rightarrow> nat"
  pe_server_exists :: bool
  pe_server_hash :: string
  pe_contract_hash :: string
  pe_scenario_manifest_path :: path
  pe_server_exe :: path
  pe_code_evidence :: "(string \<times> string) list"
  pe_load_manifest :: "string \<Rightarrow> (scenario_manifest \<times> scenario \<times> string) res"

definition prepare_run ::
    "'r rng \<Rightarrow> prepare_env \<Rightarrow> path \<Rightarrow> string \<Rightarrow> string \<Rightarrow> scenario_manifest
      \<Rightarrow> int \<times> traffic_profile \<times> int \<Rightarrow> (run_entry \<times> expectations \<times> collection_config) res" where
  "prepare_run g env base campaign_id purpose manifest run =
     (case run of (r, p, seed) \<Rightarrow>
      let run_id = run_id_of campaign_id r p;
          name = scenario_name (tp_scenario p) in
      bindE (case List.find (\<lambda>s. sn_scenario_id s = name) (rev (sm_scenarios manifest)) of
               Some s \<Rightarrow> Inr (sn_label s) | None \<Rightarrow> Inl (ValueError ''label differs from the definition''))
        (\<lambda>label.
      bindE (build_expectations g (pe_frame_hash env) p seed run_id label) (\<lambda>expected.
      bindE (if is_identifier run_id \<and> is_build_id (''sha256:'' @ pe_server_hash env) \<and>
                purpose \<in> {''controlled_experiment'', ''integration_test''}
             then Inr () else Inl (ValueError ''collection config'')) (\<lambda>_.
      Inr (\<lparr>en_run_id = run_id, en_scenario_id = name, en_repeat_index = r, en_seed = seed,
             en_independent_label = ex_independent_label expected,
             en_expectations_file = [''expectations'', run_id @ ''.json''],
             en_config_file = [''configs'', run_id @ ''.json''], en_expectations_sha256 = []\<rparr>,
           expected,
           \<lparr>cc_run_id = run_id, cc_scenario_id = name,
             cc_server_build_id = ''sha256:'' @ pe_server_hash env,
             cc_scenario_manifest = pe_scenario_manifest_path env, cc_dataset_purpose = purpose,
             cc_output_dir = path_join base (Rel [''runs'']), cc_queue_capacity = 1024,
             cc_flush_interval_s = Fin (1 / 2), cc_shutdown_timeout_s = Fin 10,
             cc_verbose_payload_logging = False\<rparr>)))))"

text \<open>Writing one run's files; the hash is taken of the file as written.\<close>

definition write_run ::
    "(doc \<Rightarrow> string) \<Rightarrow> path \<Rightarrow> run_entry \<times> expectations \<times> collection_config \<Rightarrow> (store, run_entry) act" where
  "write_run hash base run =
     (case run of (entry, expected, config) \<Rightarrow>
      let epath = path_join base (Rel (en_expectations_file entry)) in
      bindS (write_doc epath (ExpectationsDoc expected)) (\<lambda>_.
      bindS (doc_hash hash epath) (\<lambda>h.
      bindS (write_doc (path_join base (Rel (en_config_file entry))) (ConfigDoc config)) (\<lambda>_.
      retS (entry\<lparr>en_expectations_sha256 := h\<rparr>)))))"

primrec mapS :: "('a \<Rightarrow> ('s, 'b) act) \<Rightarrow> 'a list \<Rightarrow> ('s, 'b list) act" where
  "mapS f [] = retS []"
| "mapS f (x # xs) = bindS (f x) (\<lambda>y. bindS (mapS f xs) (\<lambda>ys. retS (y # ys)))"

definition plan_campaign ::
    "'r rng \<Rightarrow> prepare_env \<Rightarrow> campaign_plan \<Rightarrow> string \<Rightarrow> path \<Rightarrow> string
      \<Rightarrow> (scenario_manifest \<times> string \<times> (run_entry \<times> expectations \<times> collection_config) list) res" where
  "plan_campaign g env plan campaign_id base purpose =
     (if \<not> is_identifier campaign_id then Inl (ValueError ''campaign id'')
      else if \<not> pe_server_exists env then Inl (FileNotFoundError ''Server.exe'')
      else
        bindE (pe_load_manifest env (scenario_name (tp_scenario (hd (cp_profiles plan)))))
          (\<lambda>(manifest, _, mhash).
        bindE (validate_capture_paths (pe_digest env) (pe_windows env) (pe_path_length env) base
           campaign_id plan) (\<lambda>_.
        bindE (planned_runs (pe_digest env) plan) (\<lambda>runs.
        bindE (mapE (prepare_run g env base campaign_id purpose manifest) runs) (\<lambda>prepared.
        Inr (manifest, mhash, prepared))))))"

definition prepare_campaign ::
    "'r rng \<Rightarrow> prepare_env \<Rightarrow> campaign_plan \<Rightarrow> string \<Rightarrow> path \<Rightarrow> string \<Rightarrow> (store, path) act" where
  "prepare_campaign g env plan campaign_id output_dir purpose =
     (let base = path_join output_dir (Rel [campaign_id]) in
      bindS (liftS (plan_campaign g env plan campaign_id base purpose)) (\<lambda>(manifest, mhash, prepared).
      bindS (mkdir_parents base) (\<lambda>_.
      bindS (forS (\<lambda>n. mkdir (path_join base (Rel [n])))
        [''expectations'', ''configs'', ''outcomes'', ''logs'']) (\<lambda>_.
      bindS (mapS (write_run (pe_doc_hash env) base) prepared) (\<lambda>entries.
      bindS (write_doc (path_join base (Rel [''campaign_manifest.json'']))
        (ManifestDoc
          \<lparr>cm_campaign_id = campaign_id, cm_dataset_purpose = purpose, cm_plan = plan,
           cm_runs = entries, cm_source_manifest_sha256 = mhash, cm_scenario_manifest = manifest,
           cm_server_exe = pe_server_exe env,
           cm_server_build_id = ''sha256:'' @ pe_server_hash env,
           cm_operational_contract_sha256 = pe_contract_hash env,
           cm_code_evidence = pe_code_evidence env\<rparr>)) (\<lambda>_.
      retS base))))))"

section \<open>Lemmas on the store\<close>

lemma write_doc_Inr_iff:
  "write_doc p d s = (Inr u, t) \<longleftrightarrow>
     path_parent p \<in> fs_dirs s \<and> t = s\<lparr>fs_files := (fs_files s)(p \<mapsto> d)\<rparr>"
  by (auto simp: write_doc_def)

lemma mkdir_Inr_iff:
  "mkdir p s = (Inr u, t) \<longleftrightarrow>
     p \<notin> fs_dirs s \<and> fs_files s p = None \<and> t = s\<lparr>fs_dirs := insert p (fs_dirs s)\<rparr>"
  by (auto simp: mkdir_def)

lemma mkdir_parents_Inr_iff:
  "mkdir_parents p s = (Inr u, t) \<longleftrightarrow> p \<notin> fs_dirs s \<and> fs_files s p = None \<and>
     t = s\<lparr>fs_dirs := insert p (ancestors p \<union> fs_dirs s)\<rparr>"
  by (auto simp: mkdir_parents_def)

lemma doc_hash_Inr_iff:
  "doc_hash hash p s = (Inr h, t) \<longleftrightarrow> (\<exists>d. fs_files s p = Some d \<and> h = hash d \<and> t = s)"
  by (auto simp: doc_hash_def bindS_def read_doc_def retS_def split: option.splits)

text \<open>An action writes files only below a directory, whether it succeeds or raises.\<close>

fun below :: "path \<Rightarrow> path \<Rightarrow> bool" where
  "below (Abs b) (Abs p) \<longleftrightarrow> b = take (length b) p \<and> length b < length p"
| "below (Rel b) (Rel p) \<longleftrightarrow> b = take (length b) p \<and> length b < length p"
| "below _ _ \<longleftrightarrow> False"

definition writes_below :: "path \<Rightarrow> (store, 'a) act \<Rightarrow> bool" where
  "writes_below b m \<longleftrightarrow> (\<forall>s q. \<not> below b q \<longrightarrow> fs_files (snd (m s)) q = fs_files s q)"

lemma below_join: "xs \<noteq> [] \<Longrightarrow> below b (path_join b (Rel xs))"
  by (cases b) auto

lemma writes_below_bindS:
  "writes_below b m \<Longrightarrow> (\<And>a. writes_below b (f a)) \<Longrightarrow> writes_below b (bindS m f)"
  by (auto simp: writes_below_def bindS_def split: prod.split sum.split) (metis snd_conv)+

lemma writes_below_basic:
  "writes_below b (retS a)" "writes_below b (liftS r)" "writes_below b (mkdir p)"
  "writes_below b (mkdir_parents p)" "writes_below b (read_doc p)" "writes_below b (doc_hash h p)"
  by (auto simp: writes_below_def retS_def liftS_def mkdir_def mkdir_parents_def read_doc_def
      doc_hash_def bindS_def split: option.split)

lemma writes_below_write: "below b p \<Longrightarrow> writes_below b (write_doc p d)"
  by (auto simp: writes_below_def write_doc_def)

lemma writes_below_forS: "(\<And>x. writes_below b (f x)) \<Longrightarrow> writes_below b (forS f xs)"
  by (induction xs) (auto intro: writes_below_bindS writes_below_basic)

lemma writes_below_mapS:
  "(\<And>x. x \<in> set xs \<Longrightarrow> writes_below b (f x)) \<Longrightarrow> writes_below b (mapS f xs)"
  by (induction xs) (auto intro!: writes_below_bindS writes_below_basic)

lemma writes_below_lift:
  "(\<And>a. r = Inr a \<Longrightarrow> writes_below b (f a)) \<Longrightarrow> writes_below b (bindS (liftS r) f)"
  by (cases r) (auto simp: writes_below_def bindS_def liftS_def)

definition entry_paths_ok :: "run_entry \<Rightarrow> bool" where
  "entry_paths_ok e \<longleftrightarrow>
     en_expectations_file e = [''expectations'', en_run_id e @ ''.json''] \<and>
     en_config_file e = [''configs'', en_run_id e @ ''.json'']"

lemma path_join_Rel_inject: "path_join b (Rel xs) = path_join b (Rel ys) \<longleftrightarrow> xs = ys"
  by (cases b) auto

lemma write_run_result:
  assumes "write_run hash base (e, ex, c) s = (Inr e', t)" and "entry_paths_ok e"
  shows "e' = e\<lparr>en_expectations_sha256 := hash (ExpectationsDoc ex)\<rparr> \<and>
     fs_files t = (fs_files s)(path_join base (Rel (en_expectations_file e)) \<mapsto> ExpectationsDoc ex,
       path_join base (Rel (en_config_file e)) \<mapsto> ConfigDoc c) \<and> fs_dirs t = fs_dirs s"
  using assms
  by (auto simp: write_run_def Let_def bindS_Inr_iff write_doc_Inr_iff doc_hash_Inr_iff)

lemma write_runs_result:
  assumes "mapS (write_run hash base) prepared s = (Inr entries, t)"
    and "list_all (\<lambda>(e, _). entry_paths_ok e) prepared"
    and "distinct (map (\<lambda>(e, _). en_run_id e) prepared)"
  shows "entries = map (\<lambda>(e, ex, _). e\<lparr>en_expectations_sha256 := hash (ExpectationsDoc ex)\<rparr>) prepared \<and>
     (\<forall>e ex c. (e, ex, c) \<in> set prepared \<longrightarrow>
        fs_files t (path_join base (Rel (en_expectations_file e))) = Some (ExpectationsDoc ex) \<and>
        fs_files t (path_join base (Rel (en_config_file e))) = Some (ConfigDoc c)) \<and>
     (\<forall>q. (\<forall>(e, _)\<in>set prepared. q \<noteq> path_join base (Rel (en_expectations_file e)) \<and>
        q \<noteq> path_join base (Rel (en_config_file e))) \<longrightarrow> fs_files t q = fs_files s q)"
  using assms
proof (induction prepared arbitrary: s entries)
  case Nil
  then show ?case by simp
next
  case (Cons x prepared)
  obtain e ex c where x: "x = (e, ex, c)" by (cases x)
  from Cons.prems(1) x obtain e' s1 es where
    w: "write_run hash base (e, ex, c) s = (Inr e', s1)"
      "mapS (write_run hash base) prepared s1 = (Inr es, t)" "entries = e' # es"
    by (auto simp: bindS_Inr_iff)
  have ok: "entry_paths_ok e" "list_all (\<lambda>(e, _). entry_paths_ok e) prepared"
    "distinct (map (\<lambda>(e, _). en_run_id e) prepared)"
    using Cons.prems(2,3) x by auto
  note r = write_run_result [OF w(1) ok(1)]
  note ih = Cons.IH [OF w(2) ok(2,3)]
  have fresh: "path_join base (Rel (en_expectations_file e)) \<noteq> path_join base (Rel (en_expectations_file e2)) \<and>
      path_join base (Rel (en_expectations_file e)) \<noteq> path_join base (Rel (en_config_file e2)) \<and>
      path_join base (Rel (en_config_file e)) \<noteq> path_join base (Rel (en_expectations_file e2)) \<and>
      path_join base (Rel (en_config_file e)) \<noteq> path_join base (Rel (en_config_file e2))"
    if "(e2, y) \<in> set prepared" for e2 y
  proof -
    have "entry_paths_ok e2" using ok(2) that by (auto simp: list_all_iff)
    moreover have "en_run_id e2 \<noteq> en_run_id e"
      using Cons.prems(3) x that by (auto simp: image_iff)
    ultimately show ?thesis
      using ok(1) by (simp add: path_join_Rel_inject entry_paths_ok_def)
  qed
  have frame: "fs_files t q = fs_files s1 q"
    if "\<And>e2 y. (e2, y) \<in> set prepared \<Longrightarrow> q \<noteq> path_join base (Rel (en_expectations_file e2)) \<and>
        q \<noteq> path_join base (Rel (en_config_file e2))" for q
  proof -
    have "\<forall>(e2, y)\<in>set prepared. q \<noteq> path_join base (Rel (en_expectations_file e2)) \<and>
        q \<noteq> path_join base (Rel (en_config_file e2))"
      using that by blast
    then show ?thesis using conjunct2 [OF conjunct2 [OF ih]] by blast
  qed
  have own: "fs_files t (path_join base (Rel (en_expectations_file e))) = Some (ExpectationsDoc ex)"
    "fs_files t (path_join base (Rel (en_config_file e))) = Some (ConfigDoc c)"
  proof -
    have keep: "fs_files t (path_join base (Rel (en_expectations_file e)))
        = fs_files s1 (path_join base (Rel (en_expectations_file e)))"
      "fs_files t (path_join base (Rel (en_config_file e)))
        = fs_files s1 (path_join base (Rel (en_config_file e)))"
      by (rule frame; use fresh in blast)+
    have "path_join base (Rel (en_config_file e)) \<noteq> path_join base (Rel (en_expectations_file e))"
      using ok(1) by (simp add: path_join_Rel_inject entry_paths_ok_def)
    then show "fs_files t (path_join base (Rel (en_expectations_file e))) = Some (ExpectationsDoc ex)"
      "fs_files t (path_join base (Rel (en_config_file e))) = Some (ConfigDoc c)"
      using keep r by auto
  qed
  show ?case
    using ih own r w(3) x by auto
qed

section \<open>What a prepared campaign holds\<close>

lemma length_pad0_2: "n < 100 \<Longrightarrow> length (pad0 2 n) = 2"
proof (cases "n < 10")
  case True
  then show ?thesis by (simp add: pad0_def nat_str.simps [of n])
next
  case False
  assume "n < 100"
  then have "n div 10 < 10" by (simp add: div_less_iff_less_mult)
  with False have "nat_str n = [digit_char (n div 10), digit_char (n mod 10)]"
    by (subst nat_str.simps, subst nat_str.simps) simp
  then show ?thesis by (simp add: pad0_def)
qed

lemma run_id_of_inject:
  assumes "0 \<le> r" "r < 100" "0 \<le> q" "q < 100"
  shows "run_id_of c r p = run_id_of c q p' \<longleftrightarrow> r = q \<and> tp_scenario p = tp_scenario p'"
proof -
  have "length (pad0 2 (nat r)) = length (pad0 2 (nat q))"
    using assms by (simp add: length_pad0_2)
  then show ?thesis using assms by (auto simp: run_id_of_def eq_nat_nat_iff)
qed

lemma prepare_run_facts:
  assumes "prepare_run g env base c purpose m (r, p, seed) = Inr (e, ex, cfg)"
  shows "entry_paths_ok e \<and> en_run_id e = run_id_of c r p \<and> ex_run_id ex = en_run_id e \<and>
     ex_seed ex = seed \<and> en_seed e = seed \<and> en_repeat_index e = r \<and>
     en_independent_label e = ex_independent_label ex \<and>
     ex_independent_label ex = scenario_label (tp_scenario p) \<and>
     en_scenario_id e = scenario_name (tp_scenario p) \<and> ex_scenario_id ex = en_scenario_id e \<and>
     cc_run_id cfg = en_run_id e \<and> cc_server_build_id cfg = ''sha256:'' @ pe_server_hash env"
  using assms
  by (auto simp: prepare_run_def Let_def bindE_Inr_iff build_expectations_def entry_paths_ok_def
      split: option.splits if_splits)

lemma mapE_source: "mapE f xs = Inr ys \<Longrightarrow> y \<in> set ys \<Longrightarrow> \<exists>x\<in>set xs. f x = Inr y"
  by (induction xs arbitrary: ys) (auto simp: bindE_Inr_iff)

lemma prepared_run_ids:
  assumes "planned_runs digest plan = Inr runs" and "0 \<le> cp_repeats plan" and "cp_repeats plan \<le> 10"
    and "validate_scenarios plan = Inr ()"
    and "mapE (prepare_run g env base c purpose m) runs = Inr prepared"
  shows "distinct (map (\<lambda>(e, _). en_run_id e) prepared) \<and> list_all (\<lambda>(e, _). entry_paths_ok e) prepared"
proof -
  have l2: "list_all2 (\<lambda>x y. prepare_run g env base c purpose m x = Inr y) runs prepared"
    using assms(5) by (simp add: mapE_Inr_iff)
  have ids: "map (\<lambda>(e, _). en_run_id e) prepared = map (\<lambda>(r, p, _). run_id_of c r p) runs"
    using l2 by (induction rule: list_all2_induct) (auto dest!: prepare_run_facts)
  have paths: "list_all (\<lambda>(e, _). entry_paths_ok e) prepared"
    using l2 by (induction rule: list_all2_induct) (auto dest!: prepare_run_facts)
  have keys: "map (\<lambda>(r, p, _). (r, tp_scenario p)) runs = map (map_prod int id)
     (concat (map (\<lambda>r. map (Pair r) (map tp_scenario (repeat_profiles_of plan r))) [0..<nat (cp_repeats plan)]))"
    by (rule planned_keys [OF assms(2,1)])
  have "distinct (concat (map (\<lambda>r. map (Pair r) (map tp_scenario (repeat_profiles_of plan r)))
      [0..<nat (cp_repeats plan)]))"
    by (rule distinct_pairs) (use repeat_profiles_facts(1) [OF assms(4)] in auto)
  then have d: "distinct (map (\<lambda>(r, p, _). (r, tp_scenario p)) runs)"
    unfolding keys by (simp add: distinct_map inj_on_def)
  have "set (map (\<lambda>(r, p, _). (r, tp_scenario p)) runs) \<subseteq> {0..<10} \<times> UNIV"
    unfolding keys using assms(3) by auto
  then have range: "0 \<le> r \<and> r < 10" if "(r, p, z) \<in> set runs" for r p z
    using that by fastforce
  have "distinct (map (\<lambda>(r, p, _). run_id_of c r p) runs)"
    unfolding distinct_map
  proof (intro conjI inj_onI)
    show "distinct runs" using d by (simp add: distinct_map)
    fix x y assume x: "x \<in> set runs" and y: "y \<in> set runs"
      and eq: "(case x of (r, p, _) \<Rightarrow> run_id_of c r p) = (case y of (r, p, _) \<Rightarrow> run_id_of c r p)"
    obtain r p z r' p' z' where xy: "x = (r, p, z)" "y = (r', p', z')" by (metis prod_cases3)
    have "r = r' \<and> tp_scenario p = tp_scenario p'"
      using eq xy run_id_of_inject [of r r' c p p'] range [of r p z] range [of r' p' z'] x y by auto
    then have "(\<lambda>(r, p, _). (r, tp_scenario p)) x = (\<lambda>(r, p, _). (r, tp_scenario p)) y"
      using xy by simp
    then show "x = y" using d x y by (auto simp: distinct_map inj_on_def)
  qed
  with ids paths show ?thesis by simp
qed

lemma plan_campaign_paths:
  "plan_campaign g env plan cid base purpose = Inr (m, mh, prepared)
     \<Longrightarrow> list_all (\<lambda>(e, _). entry_paths_ok e) prepared"
proof -
  assume "plan_campaign g env plan cid base purpose = Inr (m, mh, prepared)"
  then obtain runs where "mapE (prepare_run g env base cid purpose m) runs = Inr prepared"
    by (auto simp: plan_campaign_def bindE_Inr_iff split: if_splits)
  then have "list_all2 (\<lambda>x y. prepare_run g env base cid purpose m x = Inr y) runs prepared"
    by (simp add: mapE_Inr_iff)
  then show ?thesis by (induction rule: list_all2_induct) (auto dest!: prepare_run_facts)
qed

lemma writes_below_write_run: "entry_paths_ok (fst x) \<Longrightarrow> writes_below b (write_run hash b x)"
  by (cases x) (auto simp: write_run_def Let_def entry_paths_ok_def
      intro!: writes_below_bindS writes_below_basic writes_below_write below_join)

lemma prepare_writes_below:
  "writes_below (path_join out (Rel [cid])) (prepare_campaign g env plan cid out purpose)"
  unfolding prepare_campaign_def Let_def
proof (rule writes_below_lift)
  fix a
  assume pl: "plan_campaign g env plan cid (path_join out (Rel [cid])) purpose = Inr a"
  obtain m mh prepared where a: "a = (m, mh, prepared)" by (cases a)
  have ok: "entry_paths_ok (fst x)" if "x \<in> set prepared" for x
    using plan_campaign_paths [OF pl [unfolded a]] that by (fastforce simp: list_all_iff split_beta)
  have "writes_below (path_join out (Rel [cid])) (mapS (write_run h (path_join out (Rel [cid]))) prepared)" for h
    by (intro writes_below_mapS writes_below_write_run ok)
  then show "writes_below (path_join out (Rel [cid])) (case a of (manifest, mhash, prepared) \<Rightarrow>
      bindS (mkdir_parents (path_join out (Rel [cid]))) (\<lambda>_.
      bindS (forS (\<lambda>n. mkdir (path_join (path_join out (Rel [cid])) (Rel [n])))
        [''expectations'', ''configs'', ''outcomes'', ''logs'']) (\<lambda>_.
      bindS (mapS (write_run (pe_doc_hash env) (path_join out (Rel [cid]))) prepared) (\<lambda>entries.
      bindS (write_doc (path_join (path_join out (Rel [cid])) (Rel [''campaign_manifest.json'']))
        (ManifestDoc
          \<lparr>cm_campaign_id = cid, cm_dataset_purpose = purpose, cm_plan = plan,
           cm_runs = entries, cm_source_manifest_sha256 = mhash, cm_scenario_manifest = manifest,
           cm_server_exe = pe_server_exe env,
           cm_server_build_id = ''sha256:'' @ pe_server_hash env,
           cm_operational_contract_sha256 = pe_contract_hash env,
           cm_code_evidence = pe_code_evidence env\<rparr>)) (\<lambda>_.
      retS (path_join out (Rel [cid])))))))"
    unfolding a prod.case
    by (intro writes_below_bindS writes_below_basic writes_below_forS writes_below_write below_join) simp_all
qed

text \<open>One entry of the campaign manifest against the files on disk.\<close>

definition entry_pinned :: "prepare_env \<Rightarrow> path \<Rightarrow> store \<Rightarrow> run_entry \<Rightarrow> bool" where
  "entry_pinned env base s e \<longleftrightarrow> (\<exists>ex cfg.
     fs_files s (path_join base (Rel (en_expectations_file e))) = Some (ExpectationsDoc ex) \<and>
     fs_files s (path_join base (Rel (en_config_file e))) = Some (ConfigDoc cfg) \<and>
     en_expectations_sha256 e = pe_doc_hash env (ExpectationsDoc ex) \<and>
     ex_run_id ex = en_run_id e \<and> ex_seed ex = en_seed e \<and> ex_scenario_id ex = en_scenario_id e \<and>
     ex_independent_label ex = en_independent_label e \<and>
     cc_run_id cfg = en_run_id e \<and> cc_server_build_id cfg = ''sha256:'' @ pe_server_hash env)"

lemma written_entry_pinned:
  assumes "mapE (prepare_run g env base cid purpose m) runs = Inr prepared"
    and "mapS (write_run (pe_doc_hash env) base) prepared s1 = (Inr entries, s2)"
    and "distinct (map (\<lambda>(e, _). en_run_id e) prepared)" and "list_all (\<lambda>(e, _). entry_paths_ok e) prepared"
    and c: "t = s2\<lparr>fs_files := (fs_files s2)(path_join base (Rel [''campaign_manifest.json'']) \<mapsto> ManifestDoc c)\<rparr>"
    and mem: "e' \<in> set entries"
  shows "entry_pinned env base t e'"
proof -
  note w = write_runs_result [OF assms(2,4,3)]
  obtain e ex cfg where e: "(e, ex, cfg) \<in> set prepared"
    "e' = e\<lparr>en_expectations_sha256 := pe_doc_hash env (ExpectationsDoc ex)\<rparr>"
    using w mem by auto
  obtain run where "run \<in> set runs" "prepare_run g env base cid purpose m run = Inr (e, ex, cfg)"
    using mapE_source [OF assms(1) e(1)] by blast
  moreover obtain k p sd where "run = (k, p, sd)" by (cases run)
  ultimately have pr: "prepare_run g env base cid purpose m (k, p, sd) = Inr (e, ex, cfg)" by simp
  have pf: "entry_paths_ok e" "ex_run_id ex = en_run_id e" "ex_seed ex = en_seed e"
    "ex_scenario_id ex = en_scenario_id e" "ex_independent_label ex = en_independent_label e"
    "cc_run_id cfg = en_run_id e" "cc_server_build_id cfg = ''sha256:'' @ pe_server_hash env"
    using prepare_run_facts [OF pr] by simp_all
  have "fs_files t (path_join base (Rel (en_expectations_file e))) = Some (ExpectationsDoc ex)"
    "fs_files t (path_join base (Rel (en_config_file e))) = Some (ConfigDoc cfg)"
  proof -
    have "fs_files s2 (path_join base (Rel (en_expectations_file e))) = Some (ExpectationsDoc ex)"
      "fs_files s2 (path_join base (Rel (en_config_file e))) = Some (ConfigDoc cfg)"
      using w e(1) by blast+
    then show "fs_files t (path_join base (Rel (en_expectations_file e))) = Some (ExpectationsDoc ex)"
      "fs_files t (path_join base (Rel (en_config_file e))) = Some (ConfigDoc cfg)"
      using pf(1) unfolding c by (simp_all add: path_join_Rel_inject entry_paths_ok_def)
  qed
  then show ?thesis using e(2) pf by (auto simp: entry_pinned_def)
qed


definition demo_env :: prepare_env where
  "demo_env = \<lparr>pe_digest = (\<lambda>_. []), pe_frame_hash = (\<lambda>_. ''h''), pe_doc_hash = (\<lambda>_. ''d''),
     pe_windows = False, pe_path_length = (\<lambda>_. 0), pe_server_exists = True,
     pe_server_hash = replicate 64 (CHR ''a''), pe_contract_hash = ''k'',
     pe_scenario_manifest_path = Abs [''m.json''], pe_server_exe = Abs [''Server.exe''],
     pe_code_evidence = [],
     pe_load_manifest = (\<lambda>sid.
       let scs = map (\<lambda>s. \<lparr>sn_scenario_id = scenario_name s, sn_label = scenario_label s,
             sn_label_name = ''name'', sn_description = ''text'', sn_traffic_profile = ''profile''\<rparr>) all_scenarios;
           m = \<lparr>sm_label_source = ''independent_scenario_definition'', sm_scenarios = scs\<rparr>
       in Inr (m, hd scs, ''mh''))\<rparr>"

definition demo_store :: store where
  "demo_store = \<lparr>fs_dirs = set [Abs [], Abs [''out''], Abs [''out'', ''c'']], fs_files = (\<lambda>_. None)\<rparr>"


end
