(* ===== verification/Capture.thy ===== *)
theory Capture
  imports Campaign
begin

text \<open>
  Running a prepared campaign: \<open>wait_for_capture\<close>, \<open>stop_owned_process\<close>, \<open>run_capture\<close> and
  \<open>run_campaign\<close> of \<open>data_collection/runtime.py\<close> and \<open>campaign.py\<close>. What the operating
  system and the collection API answer is data of the model: a process is the record of how
  it reacts to being stopped, a wait is the list of its polls up to the deadline.
\<close>

section \<open>Waiting for the collection API\<close>

record capture_status =
  cs_run_id :: string
  cs_write_error :: "string option"
  cs_dropped_full :: int
  cs_flushed :: int

text \<open>
  One round of the polling loop: the API process has exited, the request failed with an
  \<open>OSError\<close>, the answer was malformed, or a status came back. The list ends with the round
  after which the 30 second deadline has passed.
\<close>

datatype poll = Exited int | Unreachable | Malformed exn | Status capture_status

fun wait_for_capture :: "poll list \<Rightarrow> string \<Rightarrow> int \<Rightarrow> capture_status res" where
  "wait_for_capture [] run_id expected = Inl (TimeoutError ''flush wait'')"
| "wait_for_capture (Exited c # ps) run_id expected = Inl (RuntimeError ''api exited'')"
| "wait_for_capture (Unreachable # ps) run_id expected = wait_for_capture ps run_id expected"
| "wait_for_capture (Malformed e # ps) run_id expected = Inl e"
| "wait_for_capture (Status s # ps) run_id expected =
     (if cs_run_id s \<noteq> run_id then Inl (RuntimeError ''another process'')
      else if (case cs_write_error s of None \<Rightarrow> False | Some m \<Rightarrow> m \<noteq> []) \<or> cs_dropped_full s \<noteq> 0
        then Inl (RuntimeError ''storage error or queue loss'')
      else if expected \<le> cs_flushed s then Inr s
      else wait_for_capture ps run_id expected)"

definition healthy :: "string \<Rightarrow> int \<Rightarrow> capture_status \<Rightarrow> bool" where
  "healthy run_id expected s \<longleftrightarrow>
     cs_run_id s = run_id \<and> cs_write_error s \<in> {None, Some []} \<and> cs_dropped_full s = 0 \<and>
     expected \<le> cs_flushed s"

lemma wait_for_capture_Inr:
  "wait_for_capture ps run_id expected = Inr s \<Longrightarrow> Status s \<in> set ps \<and> healthy run_id expected s"
  by (induction ps run_id expected rule: wait_for_capture.induct)
    (auto simp: healthy_def split: if_splits option.splits)

section \<open>Stopping a child process\<close>

record proc =
  pr_running :: bool
  pr_quit_ok :: bool
  pr_waits :: bool
  pr_code_quit :: int
  pr_terminates :: bool
  pr_code_terminate :: int
  pr_dies :: bool
  pr_code_kill :: int
  pr_close_ok :: bool

datatype actor = Api | ServerExe

datatype event =
    Spawn actor
  | Quit actor
  | Terminate actor
  | Kill actor
  | Traffic

record world =
  w_store :: store
  w_events :: "event list"
  w_api :: "proc option"
  w_server :: "proc option"

definition on_store :: "(store, 'a) act \<Rightarrow> (world, 'a) act" where
  "on_store m w = (let (r, s) = m (w_store w) in (r, w\<lparr>w_store := s\<rparr>))"

definition log_event :: "event \<Rightarrow> (world, unit) act" where
  "log_event e = modifyS (\<lambda>w. w\<lparr>w_events := w_events w @ [e]\<rparr>)"

text \<open>
  Only a running process is asked to quit; when the request fails or the process does not
  exit in 15 seconds it is terminated and then killed. \<open>pr_waits\<close>, \<open>pr_terminates\<close> and
  \<open>pr_dies\<close> say whether it exits within each timeout, the codes what it then returns.
\<close>

definition stopped :: "proc \<Rightarrow> bool \<Rightarrow> bool \<Rightarrow> int \<Rightarrow> stop_result res" where
  "stopped p requested forced code =
     (if \<not> pr_close_ok p then Inl (OSError ''close'')
      else Inr \<lparr>st_started = True, st_graceful = requested \<and> \<not> forced \<and> code = 0,
             st_forced = forced, st_exit_code = Some code\<rparr>)"

definition stop_owned_process :: "actor \<Rightarrow> proc option \<Rightarrow> (world, stop_result) act" where
  "stop_owned_process a process =
     (case process of
        None \<Rightarrow> retS \<lparr>st_started = False, st_graceful = False, st_forced = False, st_exit_code = None\<rparr>
      | Some p \<Rightarrow>
          if \<not> pr_running p then liftS (stopped p False False (pr_code_quit p))
          else bindS (log_event (Quit a)) (\<lambda>_.
            if pr_quit_ok p \<and> pr_waits p then liftS (stopped p True False (pr_code_quit p))
            else bindS (log_event (Terminate a)) (\<lambda>_.
              if pr_terminates p then liftS (stopped p (pr_quit_ok p) True (pr_code_terminate p))
              else bindS (log_event (Kill a)) (\<lambda>_.
                if pr_dies p then liftS (stopped p (pr_quit_ok p) True (pr_code_kill p))
                else raiseS (TimeoutError ''wait after kill'')))))"

section \<open>One capture\<close>

record 'c capture_env =
  ce_ports_free :: bool
  ce_server_hash :: "string res"
  ce_api_spawn :: "proc res"
  ce_ready_polls :: "poll list"
  ce_server_spawn :: "proc res"
  ce_conn :: "nat \<Rightarrow> 'c"
  ce_flush_polls :: "poll list"

definition read_expectations :: "path \<Rightarrow> (store, expectations) act" where
  "read_expectations p = bindS (read_doc p) (\<lambda>d.
     case d of ExpectationsDoc ex \<Rightarrow> retS ex | _ \<Rightarrow> raiseS (KeyError ''expectations''))"

definition read_config :: "path \<Rightarrow> (store, collection_config) act" where
  "read_config p = bindS (read_doc p) (\<lambda>d.
     case d of ConfigDoc c \<Rightarrow> retS c | _ \<Rightarrow> raiseS (KeyError ''server_build_id''))"

definition capture_body ::
    "'c net \<Rightarrow> 'c capture_env \<Rightarrow> path \<Rightarrow> string \<Rightarrow> expectations \<Rightarrow> (world, unit) act" where
  "capture_body nt env base run_id expected =
     bindS (liftS (ce_api_spawn env)) (\<lambda>api.
     bindS (modifyS (\<lambda>w. w\<lparr>w_api := Some api\<rparr>)) (\<lambda>_.
     bindS (log_event (Spawn Api)) (\<lambda>_.
     bindS (liftS (wait_for_capture (ce_ready_polls env) run_id 0)) (\<lambda>_.
     bindS (liftS (ce_server_spawn env)) (\<lambda>server.
     bindS (modifyS (\<lambda>w. w\<lparr>w_server := Some server\<rparr>)) (\<lambda>_.
     bindS (log_event (Spawn ServerExe)) (\<lambda>_.
     bindS (log_event Traffic) (\<lambda>_.
     let outcome = generate_traffic nt (ce_conn env) expected in
     bindS (on_store (write_doc (path_join base (Rel [''outcomes'', run_id @ ''_traffic.json'']))
        (OutcomeDoc outcome))) (\<lambda>_.
     bindS (liftS (check (oc_passed outcome) (RuntimeError ''client verification failed''))) (\<lambda>_.
     bindS (liftS (wait_for_capture (ce_flush_polls env) run_id (ex_expected_records expected)))
       (\<lambda>_. retS ())))))))))))"

text \<open>The \<open>finally\<close> block: the server first, then the API, then the result file.\<close>

definition capture_finally :: "path \<Rightarrow> string \<Rightarrow> unit res \<Rightarrow> (world, capture_result) act" where
  "capture_finally base run_id r w =
     bindS (stop_owned_process ServerExe (w_server w)) (\<lambda>server_shutdown.
     bindS (stop_owned_process Api (w_api w)) (\<lambda>api_shutdown.
     let result = \<lparr>cr_run_id = run_id,
           cr_passed = \<not> isl r \<and> st_graceful server_shutdown \<and> st_graceful api_shutdown,
           cr_error = (case r of Inl e \<Rightarrow> Some e | Inr _ \<Rightarrow> None),
           cr_server_shutdown = Some server_shutdown, cr_api_shutdown = Some api_shutdown\<rparr> in
     bindS (on_store (write_doc (path_join base (Rel [''outcomes'', run_id @ ''_runtime.json'']))
        (CaptureDoc result))) (\<lambda>_.
     retS result))) w"

definition run_capture ::
    "'c net \<Rightarrow> 'c capture_env \<Rightarrow> path \<Rightarrow> run_entry \<Rightarrow> (world, capture_result) act" where
  "run_capture nt env base entry =
     bindS (liftS (check (ce_ports_free env) (RuntimeError ''port in use''))) (\<lambda>_.
     let run_id = en_run_id entry in
     bindS (on_store (read_expectations (path_join base (Rel (en_expectations_file entry))))) (\<lambda>expected.
     bindS (on_store (read_config (path_join base (Rel (en_config_file entry))))) (\<lambda>config.
     bindS (liftS (ce_server_hash env)) (\<lambda>h.
     bindS (liftS (check (cc_server_build_id config = ''sha256:'' @ h) (RuntimeError ''Server.exe changed'')))
       (\<lambda>_.
     bindS (on_store (write_doc (path_join base (Rel [''logs'', run_id @ ''_api.log''])) LogFile)) (\<lambda>_.
     bindS (on_store (write_doc (path_join base (Rel [''logs'', run_id @ ''_server.log''])) LogFile)) (\<lambda>_.
     bindS (modifyS (\<lambda>w. w\<lparr>w_api := None, w_server := None\<rparr>)) (\<lambda>_ w.
       (case capture_body nt env base run_id expected w of
          (r, w') \<Rightarrow> capture_finally base run_id r w')))))))))"

section \<open>A campaign\<close>

definition failed_capture :: "run_entry \<Rightarrow> exn \<Rightarrow> capture_result" where
  "failed_capture entry e = \<lparr>cr_run_id = en_run_id entry, cr_passed = False, cr_error = Some e,
     cr_server_shutdown = None, cr_api_shutdown = None\<rparr>"

text \<open>An exception ends the loop after its failed result is recorded.\<close>

fun run_entries ::
    "'c net \<Rightarrow> (string \<Rightarrow> 'c capture_env) \<Rightarrow> path \<Rightarrow> run_entry list \<Rightarrow> world
      \<Rightarrow> capture_result list \<times> world" where
  "run_entries nt envs base [] w = ([], w)"
| "run_entries nt envs base (entry # entries) w =
     (case run_capture nt (envs (en_run_id entry)) base entry w of
        (Inl e, w') \<Rightarrow> ([failed_capture entry e], w')
      | (Inr result, w') \<Rightarrow>
          (case run_entries nt envs base entries w' of (rs, w'') \<Rightarrow> (result # rs, w'')))"

definition run_campaign ::
    "'c net \<Rightarrow> (string \<Rightarrow> 'c capture_env) \<Rightarrow> path \<Rightarrow> (world, campaign_summary) act" where
  "run_campaign nt envs base =
     bindS (on_store (read_doc (path_join base (Rel [''campaign_manifest.json''])))) (\<lambda>d.
     case d of
       ManifestDoc m \<Rightarrow> (\<lambda>w.
         case run_entries nt envs base (cm_runs m) w of
           (results, w') \<Rightarrow>
             let summary = \<lparr>cs_campaign_id = cm_campaign_id m, cs_planned_runs = length (cm_runs m),
                   cs_executed_runs = length results,
                   cs_passed = (length results = length (cm_runs m) \<and> list_all cr_passed results),
                   cs_runs = results\<rparr> in
             bindS (on_store (write_doc (path_join base (Rel [''campaign_runtime.json'']))
               (SummaryDoc summary))) (\<lambda>_. retS summary) w')
     | _ \<Rightarrow> raiseS (KeyError ''runs''))"

section \<open>What a passed capture has shown\<close>

lemma on_store_Inr_iff:
  "on_store m w = (Inr a, w') \<longleftrightarrow> (\<exists>s. m (w_store w) = (Inr a, s) \<and> w' = w\<lparr>w_store := s\<rparr>)"
  by (auto simp: on_store_def Let_def split: prod.splits)

lemma log_event_Inr_iff: "log_event e w = (Inr u, w') \<longleftrightarrow> w' = w\<lparr>w_events := w_events w @ [e]\<rparr>"
  by (auto simp: log_event_def)

lemma read_expectations_Inr_iff:
  "read_expectations p s = (Inr ex, t) \<longleftrightarrow> fs_files s p = Some (ExpectationsDoc ex) \<and> t = s"
  by (auto simp: read_expectations_def bindS_Inr_iff read_doc_def split: option.splits doc.splits)

lemma read_config_Inr_iff:
  "read_config p s = (Inr c, t) \<longleftrightarrow> fs_files s p = Some (ConfigDoc c) \<and> t = s"
  by (auto simp: read_config_def bindS_Inr_iff read_doc_def split: option.splits doc.splits)

lemma case_prod_eq_iff: "(case m of (a, b) \<Rightarrow> f a b) = x \<longleftrightarrow> (\<exists>a b. m = (a, b) \<and> f a b = x)"
  by (cases m) auto

lemmas capture_iffs = bindS_Inr_iff on_store_Inr_iff log_event_Inr_iff read_expectations_Inr_iff
  read_config_Inr_iff write_doc_Inr_iff

lemma stopped_Inr_iff:
  "stopped p requested forced code = Inr x \<longleftrightarrow> pr_close_ok p \<and>
     x = \<lparr>st_started = True, st_graceful = requested \<and> \<not> forced \<and> code = 0,
       st_forced = forced, st_exit_code = Some code\<rparr>"
  by (auto simp: stopped_def)

lemma stop_graceful:
  assumes "stop_owned_process a process w = (Inr x, w')" and "st_graceful x"
  shows "(\<exists>p. process = Some p \<and> pr_running p \<and> pr_code_quit p = 0) \<and>
    x = \<lparr>st_started = True, st_graceful = True, st_forced = False, st_exit_code = Some 0\<rparr> \<and>
    w' = w\<lparr>w_events := w_events w @ [Quit a]\<rparr>"
  using assms
  by (auto simp: stop_owned_process_def capture_iffs stopped_Inr_iff split: option.splits if_splits)

lemma capture_body_Inr:
  assumes "capture_body nt env base run_id ex w = (Inr u, w')"
  shows "oc_passed (generate_traffic nt (ce_conn env) ex) \<and>
    (\<exists>st. wait_for_capture (ce_flush_polls env) run_id (ex_expected_records ex) = Inr st) \<and>
    (\<exists>st. wait_for_capture (ce_ready_polls env) run_id 0 = Inr st) \<and>
    w_events w' = w_events w @ [Spawn Api, Spawn ServerExe, Traffic] \<and>
    fs_files (w_store w') (path_join base (Rel [''outcomes'', run_id @ ''_traffic.json'']))
      = Some (OutcomeDoc (generate_traffic nt (ce_conn env) ex))"
  using assms by (auto simp: capture_body_def capture_iffs Let_def)

lemma capture_finally_Inr:
  assumes "capture_finally base run_id r w = (Inr x, w')"
  shows "fs_files (w_store w') (path_join base (Rel [''outcomes'', run_id @ ''_runtime.json''])) = Some (CaptureDoc x) \<and>
    (\<forall>q. q \<noteq> path_join base (Rel [''outcomes'', run_id @ ''_runtime.json'']) \<longrightarrow>
       fs_files (w_store w') q = fs_files (w_store w) q)"
  using assms
  by (auto simp: capture_finally_def capture_iffs Let_def stop_owned_process_def
      split: option.splits if_splits)

lemma capture_finally_passed:
  assumes "capture_finally base run_id r w = (Inr x, w')" and "cr_passed x"
  shows "(\<exists>u. r = Inr u) \<and> cr_error x = None \<and> w_events w' = w_events w @ [Quit ServerExe, Quit Api]"
proof -
  obtain a w1 b w2 where st: "stop_owned_process ServerExe (w_server w) w = (Inr a, w1)"
    "stop_owned_process Api (w_api w) w1 = (Inr b, w2)" "w_events w' = w_events w2"
    and x: "cr_passed x = (\<not> isl r \<and> st_graceful a \<and> st_graceful b)"
      "cr_error x = (case r of Inl e \<Rightarrow> Some e | Inr _ \<Rightarrow> None)"
    using assms(1) by (auto simp: capture_finally_def capture_iffs Let_def)
  with assms(2) have "st_graceful a" "st_graceful b" "\<not> isl r" by auto
  with stop_graceful [OF st(1)] stop_graceful [OF st(2)] st(3) x(2) show ?thesis
    by (cases r) auto
qed

text \<open>
  C31: a capture that reports \<open>passed\<close> did all it was planned to do. The executable is
  still the one the configuration was prepared for, every client session passed, the
  collection API of this very run reported at least the expected number of flushed records
  with no write error and no queue loss, and the two processes were stopped gracefully, the
  server before the API; the traffic outcome and the result itself are on disk.
\<close>

theorem passed_capture_is_complete:
  assumes "run_capture nt env base entry w = (Inr r, w')" and "cr_passed r"
  shows "\<exists>ex cfg h st.
    fs_files (w_store w) (path_join base (Rel (en_expectations_file entry))) = Some (ExpectationsDoc ex) \<and>
    fs_files (w_store w) (path_join base (Rel (en_config_file entry))) = Some (ConfigDoc cfg) \<and>
    ce_server_hash env = Inr h \<and> cc_server_build_id cfg = ''sha256:'' @ h \<and>
    oc_passed (generate_traffic nt (ce_conn env) ex) \<and>
    Status st \<in> set (ce_flush_polls env) \<and> healthy (en_run_id entry) (ex_expected_records ex) st \<and>
    cr_error r = None \<and>
    w_events w' = w_events w @ [Spawn Api, Spawn ServerExe, Traffic, Quit ServerExe, Quit Api] \<and>
    fs_files (w_store w') (path_join base (Rel [''outcomes'', en_run_id entry @ ''_runtime.json'']))
      = Some (CaptureDoc r) \<and>
    fs_files (w_store w') (path_join base (Rel [''outcomes'', en_run_id entry @ ''_traffic.json'']))
      = Some (OutcomeDoc (generate_traffic nt (ce_conn env) ex))"
proof -
  let ?id = "en_run_id entry"
  obtain ex cfg h s1 b w2 where
    pre: "fs_files (w_store w) (path_join base (Rel (en_expectations_file entry))) = Some (ExpectationsDoc ex)"
      "fs_files (w_store w) (path_join base (Rel (en_config_file entry))) = Some (ConfigDoc cfg)"
      "ce_server_hash env = Inr h" "cc_server_build_id cfg = ''sha256:'' @ h" and
    body: "capture_body nt env base ?id ex (w\<lparr>w_store := s1, w_api := None, w_server := None\<rparr>) = (b, w2)" and
    fin: "capture_finally base ?id b w2 = (Inr r, w')"
    using assms(1) by (auto simp: run_capture_def capture_iffs Let_def case_prod_eq_iff simp del: append_Cons)
  from capture_finally_passed [OF fin assms(2)] obtain u where b: "b = Inr u" and
    f: "cr_error r = None" "w_events w' = w_events w2 @ [Quit ServerExe, Quit Api]" by blast
  note c = capture_body_Inr [OF body [unfolded b]]
  from c obtain st where "wait_for_capture (ce_flush_polls env) ?id (ex_expected_records ex) = Inr st"
    by blast
  from wait_for_capture_Inr [OF this] have st: "Status st \<in> set (ce_flush_polls env)"
    "healthy ?id (ex_expected_records ex) st" by auto
  have ne: "path_join base (Rel [''outcomes'', ?id @ ''_traffic.json'']) \<noteq>
      path_join base (Rel [''outcomes'', ?id @ ''_runtime.json''])"
    by (simp add: path_join_Rel_inject)
  note rt = capture_finally_Inr [OF fin]
  show ?thesis
    by (rule exI [of _ ex], rule exI [of _ cfg], rule exI [of _ h], rule exI [of _ st])
      (use pre c f st ne rt in auto)
qed

section \<open>What a campaign summary says\<close>

lemma run_entries_shape:
  assumes "run_entries nt envs base es w = (rs, w')"
  shows "length rs \<le> length es \<and>
    (\<forall>i < length rs. (\<exists>u v. run_capture nt (envs (en_run_id (es ! i))) base (es ! i) u = (Inr (rs ! i), v)) \<or>
       (\<exists>e. rs ! i = failed_capture (es ! i) e \<and> length rs = Suc i)) \<and>
    (length rs < length es \<longrightarrow> rs \<noteq> [] \<and> (\<exists>e. last rs = failed_capture (es ! (length rs - 1)) e))"
  using assms
proof (induction es arbitrary: w rs)
  case Nil
  then show ?case by simp
next
  case (Cons x es)
  obtain r w1 where r: "run_capture nt (envs (en_run_id x)) base x w = (r, w1)" by fastforce
  show ?case
  proof (cases r)
    case (Inl e)
    with Cons.prems r show ?thesis by auto
  next
    case (Inr res)
    obtain qs where qs: "run_entries nt envs base es w1 = (qs, w')" "rs = res # qs"
      using Cons.prems r Inr by (auto split: prod.splits)
    note ih = Cons.IH [OF qs(1)]
    show ?thesis
    proof (intro conjI allI impI)
      show "length rs \<le> length (x # es)" using ih qs(2) by simp
      fix i assume i: "i < length rs"
      show "(\<exists>u v. run_capture nt (envs (en_run_id ((x # es) ! i))) base ((x # es) ! i) u = (Inr (rs ! i), v)) \<or>
          (\<exists>e. rs ! i = failed_capture ((x # es) ! i) e \<and> length rs = Suc i)"
      proof (cases i)
        case 0
        then show ?thesis using r Inr qs(2) by auto
      next
        case (Suc j)
        then show ?thesis using ih i qs(2) by auto
      qed
    next
      show "rs \<noteq> []" using qs(2) by simp
      assume "length rs < length (x # es)"
      then have "length qs < length es" using qs(2) by simp
      with ih obtain e where e: "qs \<noteq> []" "last qs = failed_capture (es ! (length qs - 1)) e" by blast
      then obtain n where "length qs = Suc n" by (cases qs) auto
      with e qs(2) show "\<exists>e. last rs = failed_capture ((x # es) ! (length rs - 1)) e" by auto
    qed
  qed
qed

lemma run_campaign_Inr:
  assumes "run_campaign nt envs base w = (Inr s, w')"
  shows "\<exists>m rs. fs_files (w_store w) (path_join base (Rel [''campaign_manifest.json''])) = Some (ManifestDoc m) \<and>
    (\<exists>w1. run_entries nt envs base (cm_runs m) w = (rs, w1)) \<and>
    s = \<lparr>cs_campaign_id = cm_campaign_id m, cs_planned_runs = length (cm_runs m),
      cs_executed_runs = length rs,
      cs_passed = (length rs = length (cm_runs m) \<and> list_all cr_passed rs), cs_runs = rs\<rparr> \<and>
    fs_files (w_store w') (path_join base (Rel [''campaign_runtime.json''])) = Some (SummaryDoc s)"
  using assms
  by (auto simp: run_campaign_def capture_iffs read_doc_def Let_def case_prod_eq_iff
      split: option.splits doc.splits)


section \<open>A concrete campaign of one run\<close>

definition demo_expectations :: expectations where
  "demo_expectations = \<lparr>ex_version = ''v1'', ex_generator_version = ''v1'', ex_run_id = ''r'',
     ex_scenario_id = scenario_name NormalFragmentedChat, ex_independent_label = 0, ex_seed = 1,
     ex_profile = demo_profile, ex_sessions = [demo_session], ex_expected_sessions = 1,
     ex_expected_messages = 3, ex_expected_summaries = 1, ex_expected_records = 4,
     ex_message_observable = True\<rparr>"

definition demo_config :: collection_config where
  "demo_config = \<lparr>cc_run_id = ''r'', cc_scenario_id = scenario_name NormalFragmentedChat,
     cc_server_build_id = ''sha256:a'', cc_scenario_manifest = Abs [], cc_dataset_purpose = ''integration_test'',
     cc_output_dir = Abs [''o''], cc_queue_capacity = 1024, cc_flush_interval_s = Fin 1,
     cc_shutdown_timeout_s = Fin 10, cc_verbose_payload_logging = False\<rparr>"

definition demo_entry :: run_entry where
  "demo_entry = \<lparr>en_run_id = ''r'', en_scenario_id = scenario_name NormalFragmentedChat,
     en_repeat_index = 0, en_seed = 1, en_independent_label = 0, en_expectations_file = [''e''],
     en_config_file = [''c''], en_expectations_sha256 = ''h''\<rparr>"

definition demo_manifest :: campaign_manifest where
  "demo_manifest = \<lparr>cm_campaign_id = ''cid'', cm_dataset_purpose = ''integration_test'',
     cm_plan = projr (parse_plan demo_plan_doc), cm_runs = [demo_entry], cm_source_manifest_sha256 = [],
     cm_scenario_manifest = \<lparr>sm_label_source = [], sm_scenarios = []\<rparr>, cm_server_exe = Abs [],
     cm_server_build_id = ''sha256:a'', cm_operational_contract_sha256 = [], cm_code_evidence = []\<rparr>"

definition demo_proc :: proc where
  "demo_proc = \<lparr>pr_running = True, pr_quit_ok = True, pr_waits = True, pr_code_quit = 0,
     pr_terminates = True, pr_code_terminate = 1, pr_dies = True, pr_code_kill = 1, pr_close_ok = True\<rparr>"

definition demo_capture_env :: "wire capture_env" where
  "demo_capture_env = \<lparr>ce_ports_free = True, ce_server_hash = Inr ''a'', ce_api_spawn = Inr demo_proc,
     ce_ready_polls = [Unreachable, Status \<lparr>cs_run_id = ''r'', cs_write_error = None,
       cs_dropped_full = 0, cs_flushed = 0\<rparr>],
     ce_server_spawn = Inr demo_proc, ce_conn = (\<lambda>_. concat (replicate 3 demo_reply)),
     ce_flush_polls = [Status \<lparr>cs_run_id = ''r'', cs_write_error = None, cs_dropped_full = 0,
       cs_flushed = 3\<rparr>, Status \<lparr>cs_run_id = ''r'', cs_write_error = None, cs_dropped_full = 0,
       cs_flushed = 4\<rparr>]\<rparr>"

definition demo_world :: world where
  "demo_world = \<lparr>w_store = \<lparr>fs_dirs = set [Abs [], Abs [''logs''], Abs [''outcomes'']],
      fs_files = [Abs [''e''] \<mapsto> ExpectationsDoc demo_expectations, Abs [''c''] \<mapsto> ConfigDoc demo_config,
        Abs [''campaign_manifest.json''] \<mapsto> ManifestDoc demo_manifest]\<rparr>,
     w_events = [], w_api = None, w_server = None\<rparr>"

lemma demo_traffic_passes: "oc_passed (generate_traffic demo_net (ce_conn demo_capture_env) demo_expectations)"
  using demo_session_passes
  by (simp add: generate_traffic_def Let_def demo_expectations_def demo_capture_env_def)

lemmas run_defs = run_capture_def Let_def capture_body_def capture_finally_def stop_owned_process_def
  bindS_def liftS_def modifyS_def retS_def check_def on_store_def log_event_def read_expectations_def
  read_config_def read_doc_def write_doc_def stopped_def

lemmas demo_defs = demo_capture_env_def demo_world_def demo_entry_def demo_config_def demo_proc_def
  demo_expectations_def demo_manifest_def

lemma demo_capture:
  "\<exists>r w'. run_capture demo_net demo_capture_env (Abs []) demo_entry demo_world = (Inr r, w') \<and> cr_passed r"
  using demo_traffic_passes [unfolded demo_capture_env_def, simplified]
  by (simp add: run_defs demo_defs)

lemma passed_capture_is_complete_witness:
  "\<exists>r w'. run_capture demo_net demo_capture_env (Abs []) demo_entry demo_world = (Inr r, w') \<and>
     w_events w' = [Spawn Api, Spawn ServerExe, Traffic, Quit ServerExe, Quit Api]"
proof -
  obtain r w' where r: "run_capture demo_net demo_capture_env (Abs []) demo_entry demo_world = (Inr r, w')"
    and p: "cr_passed r" using demo_capture by blast
  from passed_capture_is_complete [OF r p]
  have "w_events w' = w_events demo_world @ [Spawn Api, Spawn ServerExe, Traffic, Quit ServerExe, Quit Api]"
    by blast
  then have "w_events w' = [Spawn Api, Spawn ServerExe, Traffic, Quit ServerExe, Quit Api]"
    by (simp add: demo_world_def)
  with r show ?thesis by blast
qed

lemma demo_campaign:
  "\<exists>s w'. run_campaign demo_net (\<lambda>_. demo_capture_env) (Abs []) demo_world = (Inr s, w') \<and> cs_passed s"
  using demo_traffic_passes [unfolded demo_capture_env_def, simplified]
  by (simp add: run_campaign_def run_defs demo_defs)


end
