(* ===== verification/Quality.thy ===== *)
theory Quality
  imports Json_Text Capture
begin

text \<open>
  \<open>audit_run\<close> of \<open>data_collection/quality.py\<close>: the offline audit of one collected run. The
  artefacts are untrusted JSON; the audit regenerates the expectations from the plan and
  compares. \<open>require\<close> records an issue and goes on, an exception ends the audit with the
  issue recorded.
\<close>

section \<open>The result being built\<close>

record audit_result =
  ar_run_id :: string
  ar_scenario_id :: string
  ar_passed :: bool
  ar_eligible :: bool
  ar_label :: "int option"
  ar_sessions :: int
  ar_messages :: int
  ar_summaries :: int
  ar_record_count :: int
  ar_invalid_records :: int
  ar_duplicate_records :: int
  ar_missing_messages :: int
  ar_missing_summaries :: int
  ar_unexpected_records :: int
  ar_message_observable :: bool
  ar_expected_messages :: int
  ar_expected_summaries :: int
  ar_issues :: "string list"
  ar_warnings :: "string list"

type_synonym 'a audit = "(audit_result, 'a) act"

definition initial_audit :: "string \<Rightarrow> string \<Rightarrow> audit_result" where
  "initial_audit run_id sid = \<lparr>ar_run_id = run_id, ar_scenario_id = sid, ar_passed = False,
     ar_eligible = False, ar_label = None, ar_sessions = 0, ar_messages = 0, ar_summaries = 0,
     ar_record_count = 0, ar_invalid_records = 0, ar_duplicate_records = 0, ar_missing_messages = 0,
     ar_missing_summaries = 0, ar_unexpected_records = 0, ar_message_observable = False,
     ar_expected_messages = 0, ar_expected_summaries = 0, ar_issues = [], ar_warnings = []\<rparr>"

definition require :: "bool \<Rightarrow> string \<Rightarrow> unit audit" where
  "require b tag = modifyS (\<lambda>r. if b then r else r\<lparr>ar_issues := ar_issues r @ [tag]\<rparr>)"

definition requireE :: "bool res \<Rightarrow> string \<Rightarrow> unit audit" where
  "requireE c tag = bindS (liftS c) (\<lambda>b. require b tag)"

section \<open>Reading untrusted values\<close>

definition andE :: "bool res \<Rightarrow> bool res \<Rightarrow> bool res" where
  "andE a b = bindE a (\<lambda>x. if x then b else Inr False)"

definition allE :: "('a \<Rightarrow> bool res) \<Rightarrow> 'a list \<Rightarrow> bool res" where
  "allE f xs = foldr (\<lambda>x r. andE (f x) r) xs (Inr True)"

definition same_field :: "py \<Rightarrow> string \<Rightarrow> py \<Rightarrow> string \<Rightarrow> bool res" where
  "same_field a ka b kb = bindE (py_item a ka) (\<lambda>x. bindE (py_item b kb) (\<lambda>y. Inr (py_eq x y)))"

definition field_is :: "py \<Rightarrow> string \<Rightarrow> py \<Rightarrow> bool res" where
  "field_is a k v = bindE (py_item a k) (\<lambda>x. Inr (py_eq x v))"

text \<open>\<open>x is True\<close>, \<open>not x\<close>, \<open>len(x)\<close> and iteration.\<close>

definition is_true :: "py \<Rightarrow> string \<Rightarrow> bool res" where
  "is_true a k = bindE (py_item a k) (\<lambda>x. Inr (x = PyBool True))"

definition is_falsy :: "py \<Rightarrow> string \<Rightarrow> bool res" where
  "is_falsy a k = bindE (py_item a k) (\<lambda>x. Inr (\<not> truthy x))"

fun py_iter :: "py \<Rightarrow> py list res" where
  "py_iter (PyList xs) = Inr xs"
| "py_iter (PyDict d) = Inr (map (\<lambda>p. PyStr (fst p)) d)"
| "py_iter (PyStr s) = Inr (map (\<lambda>c. PyStr [c]) s)"
| "py_iter _ = Inl (TypeError ''not iterable'')"

text \<open>A dict keyed by arbitrary values: an unhashable key is a \<open>TypeError\<close>.\<close>

fun hashable :: "py \<Rightarrow> bool" where
  "hashable (PyList _) = False"
| "hashable (PyDict _) = False"
| "hashable _ = True"

primrec key_set :: "py \<Rightarrow> 'a \<Rightarrow> (py \<times> 'a) list \<Rightarrow> (py \<times> 'a) list" where
  "key_set k v [] = [(k, v)]"
| "key_set k v (p # ps) = (if py_eq (fst p) k then (fst p, v) # ps else p # key_set k v ps)"

definition key_get :: "(py \<times> 'a) list \<Rightarrow> py \<Rightarrow> 'a option" where
  "key_get d k = map_option snd (List.find (\<lambda>p. py_eq (fst p) k) d)"

definition index_clients :: "py list \<Rightarrow> (py \<times> py) list res" where
  "index_clients sessions = foldE (\<lambda>d s. bindE (py_item s ''client_index'') (\<lambda>k.
     if hashable k then Inr (key_set k s d) else Inl (TypeError ''unhashable''))) [] sessions"

text \<open>\<open>str.splitlines\<close>, on the line boundaries below code point 256.\<close>

definition is_line_break :: "char \<Rightarrow> bool" where
  "is_line_break c \<longleftrightarrow> of_char c \<in> {10, 11, 12, 13, 28, 29, 30, 133 :: nat}"

fun split_lines :: "string \<Rightarrow> string \<Rightarrow> string list" where
  "split_lines acc [] = (if acc = [] then [] else [acc])"
| "split_lines acc (c # cs) =
     (if is_line_break c then acc # split_lines []
        (if c = CHR 13 \<and> cs \<noteq> [] \<and> hd cs = CHR 10 then tl cs else cs)
      else split_lines (acc @ [c]) cs)"

section \<open>The environment of an audit\<close>

record 'r audit_env =
  au_rng :: "'r rng"
  au_resolve :: "path \<Rightarrow> path"
  au_text_sig :: "path \<Rightarrow> string res"
  au_text :: "path \<Rightarrow> string res"
  au_file_hash :: "path \<Rightarrow> string res"
  au_decode :: "string \<Rightarrow> json option"
  au_fromiso :: "string \<Rightarrow> datetime option"
  au_frame_hash :: "wire \<Rightarrow> string"
  au_sum :: "pyfloat list \<Rightarrow> pyfloat"

definition read_json :: "'r audit_env \<Rightarrow> path \<Rightarrow> py res" where
  "read_json env p = bindE (au_text_sig env p) (parse_json (au_decode env))"

fun path_within :: "path \<Rightarrow> path \<Rightarrow> bool" where
  "path_within (Abs p) (Abs b) = (take (length b) p = b)"
| "path_within (Rel p) (Rel b) = (take (length b) p = b)"
| "path_within _ _ = False"

definition inside_path :: "'r audit_env \<Rightarrow> path \<Rightarrow> path \<Rightarrow> path res" where
  "inside_path env base relative =
     (let p = au_resolve env (path_join base relative) in
      if path_within p (au_resolve env base) then Inr p else Inl (ValueError ''outside the campaign''))"

fun rel_path :: "string \<Rightarrow> string \<Rightarrow> string list" where
  "rel_path acc [] = [acc]"
| "rel_path acc (c # cs) = (if c = CHR ''/'' then acc # rel_path [] cs else rel_path (acc @ [c]) cs)"

text \<open>A POSIX path text; empty and \<open>.\<close> components vanish.\<close>

definition path_of :: "string \<Rightarrow> path" where
  "path_of s = (let parts = filter (\<lambda>c. c \<notin> {[], ''.''}) (rel_path [] s) in
     if s \<noteq> [] \<and> hd s = CHR ''/'' then Abs parts else Rel parts)"

section \<open>Definition and artefacts of the run\<close>

text \<open>
  The seed and the repeat index of an entry are used as integers, its ids as strings; other
  types are an error here.
\<close>

fun int_item :: "py \<Rightarrow> int res" where
  "int_item (PyInt n) = Inr n"
| "int_item _ = Inl (TypeError ''integer expected'')"

record run_facts =
  rf_run_dir :: path
  rf_profile :: traffic_profile
  rf_source :: scenario_manifest
  rf_scenario :: scenario
  rf_regenerated :: expectations

definition regenerate ::
    "'r audit_env \<Rightarrow> path \<Rightarrow> py \<Rightarrow> py \<Rightarrow> run_facts audit" where
  "regenerate env base entry campaign =
     bindS (liftS (bindE (py_item entry ''run_id'') py_str)) (\<lambda>run_id.
     bindS (liftS (inside_path env base (path_of (''runs/'' @ run_id)))) (\<lambda>run_dir.
     bindS (liftS (bindE (py_item entry ''expectations_file'') py_str)) (\<lambda>efile.
     bindS (liftS (inside_path env base (path_of efile))) (\<lambda>epath.
     bindS (liftS (read_json env epath)) (\<lambda>expected.
     bindS (requireE (bindE (au_file_hash env epath) (\<lambda>h. field_is entry ''expectations_sha256'' (PyStr h)))
       ''expectations hash'') (\<lambda>_.
     bindS (liftS (bindE (py_item campaign ''plan_snapshot'') parse_plan)) (\<lambda>plan.
     bindS (liftS (bindE (bindE (py_item entry ''repeat_index'') int_item) (profiles_for_repeat plan))) (\<lambda>profiles.
     bindS (liftS (bindE (py_item entry ''scenario_id'') (\<lambda>sid.
        case List.find (\<lambda>p. py_eq (PyStr (scenario_name (tp_scenario p))) sid) profiles of
          Some p \<Rightarrow> Inr p | None \<Rightarrow> Inl StopIteration))) (\<lambda>profile.
     bindS (liftS (bindE (py_item campaign ''scenario_manifest_snapshot'') parse_manifest)) (\<lambda>source.
     bindS (liftS (bindE (py_item entry ''scenario_id'') (\<lambda>sid.
        case List.find (\<lambda>s. py_eq (PyStr (sn_scenario_id s)) sid) (sm_scenarios source) of
          Some s \<Rightarrow> Inr s | None \<Rightarrow> Inl StopIteration))) (\<lambda>scenario.
     let label = sn_label scenario in
     bindS (requireE (field_is entry ''independent_label'' (PyInt label)) ''label differs'') (\<lambda>_.
     bindS (liftS (bindE (py_item entry ''seed'') int_item)) (\<lambda>seed.
     bindS (liftS (build_expectations (au_rng env) (au_frame_hash env) profile seed run_id label)) (\<lambda>regenerated.
     bindS (require (py_eq expected (dump_expectations regenerated)) ''expectations differ'') (\<lambda>_.
     bindS (modifyS (\<lambda>r. r\<lparr>ar_label := Some label, ar_message_observable := ex_message_observable regenerated,
        ar_expected_messages := ex_expected_messages regenerated,
        ar_expected_summaries := ex_expected_summaries regenerated\<rparr>)) (\<lambda>_.
     retS \<lparr>rf_run_dir = run_dir, rf_profile = profile, rf_source = source, rf_scenario = scenario,
       rf_regenerated = regenerated\<rparr>))))))))))))))))"

definition dump_scenario :: "scenario \<Rightarrow> py" where
  "dump_scenario s = PyDict
     [(''scenario_id'', PyStr (sn_scenario_id s)), (''label'', PyInt (sn_label s)),
      (''label_name'', PyStr (sn_label_name s)), (''description'', PyStr (sn_description s)),
      (''traffic_profile'', PyStr (sn_traffic_profile s))]"

record artefacts =
  at_manifest :: py
  at_summary :: py
  at_runtime :: py
  at_outcome :: py

definition read_artefacts :: "'r audit_env \<Rightarrow> path \<Rightarrow> path \<Rightarrow> string \<Rightarrow> artefacts res" where
  "read_artefacts env base run_dir run_id =
     bindE (read_json env (path_join run_dir (Rel [''run_manifest.json'']))) (\<lambda>m.
     bindE (read_json env (path_join run_dir (Rel [''collection_summary.json'']))) (\<lambda>s.
     bindE (read_json env (path_join base (Rel [''outcomes'', run_id @ ''_runtime.json'']))) (\<lambda>r.
     bindE (read_json env (path_join base (Rel [''outcomes'', run_id @ ''_traffic.json'']))) (\<lambda>oc.
     Inr \<lparr>at_manifest = m, at_summary = s, at_runtime = r, at_outcome = oc\<rparr>))))"

definition check_metadata :: "py \<Rightarrow> py \<Rightarrow> run_facts \<Rightarrow> artefacts \<Rightarrow> unit audit" where
  "check_metadata entry campaign facts a =
     bindS (forS (\<lambda>k.
       bindS (requireE (same_field (at_manifest a) k entry k) ''run manifest field'') (\<lambda>_.
       bindS (requireE (same_field (at_outcome a) k entry k) ''traffic result field'') (\<lambda>_.
       requireE (same_field (at_summary a) k entry k) ''summary field'')))
       [''run_id'', ''scenario_id'']) (\<lambda>_.
     bindS (requireE (same_field (at_runtime a) ''run_id'' entry ''run_id'') ''runtime run_id'') (\<lambda>_.
     bindS (requireE (field_is (at_manifest a) ''selected_scenario'' (dump_scenario (rf_scenario facts)))
       ''selected scenario'') (\<lambda>_.
     bindS (requireE (field_is (at_manifest a) ''label_source'' (PyStr (sm_label_source (rf_source facts))))
       ''label source'') (\<lambda>_.
     forS (\<lambda>k. requireE (same_field (at_manifest a) k campaign k) k)
       [''scenario_manifest_snapshot'', ''source_manifest_sha256'', ''server_build_id'',
        ''operational_contract_sha256'', ''operational_contract_snapshot'', ''dataset_purpose'']))))"

section \<open>The client's own results\<close>

definition dump_send_group :: "send_group \<Rightarrow> py" where
  "dump_send_group g = PyDict
     [(''first_frame_index'', PyInt (sg_first_frame_index g)), (''frame_count'', PyInt (sg_frame_count g)),
      (''wire_size'', PyInt (sg_wire_size g)), (''wait_after_ms'', PyInt (sg_wait_after_ms g))]"

fun group_keys :: "py \<Rightarrow> py res" where
  "group_keys (PyDict g) = Inr (PyDict (map (\<lambda>k. (k, py_get g k))
     [''first_frame_index'', ''frame_count'', ''wire_size'', ''wait_after_ms'']))"
| "group_keys _ = Inl (AttributeError ''get'')"

fun timing_ok :: "py \<Rightarrow> bool res" where
  "timing_ok (PyBool b) = Inr True"
| "timing_ok (PyInt n) =
     (if is_finite (float_of_int n) then Inr (0 \<le> n) else Inl (OverflowError ''isfinite''))"
| "timing_ok (PyFloat x) = Inr (is_finite x \<and> fle (Fin 0) x)"
| "timing_ok _ = Inr False"

definition check_groups :: "(string \<times> py) list \<Rightarrow> session_plan \<Rightarrow> unit audit" where
  "check_groups actual session =
     (case sp_transport_controls session of None \<Rightarrow> raiseS (KeyError ''transport_controls'')
      | Some controls \<Rightarrow>
     bindS (require (py_eq (py_get actual ''transport_controls'') (dump_controls controls)) ''controls'') (\<lambda>_.
     bindS (require (case sp_expected_sendall_calls session of
         None \<Rightarrow> False | Some n \<Rightarrow> py_eq (py_get actual ''sendall_calls'') (PyInt n)) ''sendall calls'') (\<lambda>_.
     bindS (liftS (py_iter (case map_of actual ''send_groups'' of None \<Rightarrow> PyList [] | Some v \<Rightarrow> v))) (\<lambda>groups.
     bindS (liftS (mapE group_keys groups)) (\<lambda>recorded.
     bindS (require (py_eq (PyList recorded)
        (PyList (map dump_send_group (planned_send_groups session controls)))) ''send groups'') (\<lambda>_.
     requireE (allE (\<lambda>g. allE (\<lambda>k. timing_ok (py_get (as_dict g) k))
        [''start_interval_ms'', ''send_duration_ms'']) groups) ''send timing''))))))"

definition check_client :: "bool \<Rightarrow> (py \<times> py) list \<Rightarrow> session_plan \<Rightarrow> unit audit" where
  "check_client v2 actual_clients session =
     (let actual = (case key_get actual_clients (PyInt (sp_client_index session)) of
          None \<Rightarrow> [] | Some s \<Rightarrow> as_dict s) in
     bindS (require (py_get actual ''passed'' = PyBool True \<and> py_get actual ''connected'' = PyBool True)
       ''client failed'') (\<lambda>_.
     bindS (require (py_eq (py_get actual ''frames_sent'') (PyInt (int (length (sp_frames session)))))
       ''frames sent'') (\<lambda>_.
     bindS (require (py_eq (py_get actual ''bytes_sent'') (PyInt (wire_total (sp_frames session))))
       ''bytes sent'') (\<lambda>_.
     bindS (require (py_eq (py_get actual ''responses_received'') (PyInt (sp_expected_responses session)))
       ''responses'') (\<lambda>_.
     if v2 then check_groups actual session else retS ())))))"

definition py_length :: "py \<Rightarrow> nat res" where
  "py_length v = bindE (py_iter v) (\<lambda>xs. Inr (length xs))"

definition check_clients :: "run_facts \<Rightarrow> artefacts \<Rightarrow> unit audit" where
  "check_clients facts a =
     (let ex = rf_regenerated facts in
     bindS (requireE (andE (is_true (at_runtime a) ''passed'')
       (allE (\<lambda>n. bindE (py_item (at_runtime a) n) (\<lambda>s. is_true s ''graceful''))
         [''server_shutdown'', ''api_shutdown''])) ''process'') (\<lambda>_.
     bindS (requireE (is_true (at_outcome a) ''passed'') ''client verification'') (\<lambda>_.
     bindS (requireE (bindE (py_item (at_outcome a) ''sessions'') (\<lambda>v. bindE (py_length v) (\<lambda>n.
       Inr (n = length (ex_sessions ex))))) ''client count'') (\<lambda>_.
     bindS (liftS (bindE (py_item (at_outcome a) ''sessions'') py_iter)) (\<lambda>sessions.
     bindS (liftS (index_clients sessions)) (\<lambda>clients.
     bindS (require (length clients = length sessions) ''duplicate client index'') (\<lambda>_.
     bindS (require (length clients = nat (tp_sessions (rf_profile facts)) \<and>
        list_all (\<lambda>(k, _). list_ex (\<lambda>i. py_eq k (PyInt (int i))) [0..<nat (tp_sessions (rf_profile facts))]) clients)
       ''client indices'') (\<lambda>_.
     forS (check_client (ex_version ex = ''v2'') clients) (ex_sessions ex)))))))))"

section \<open>The collection statistics\<close>

definition check_summary :: "py \<Rightarrow> unit audit" where
  "check_summary summary =
     bindS (requireE (andE (is_true summary ''complete'') (is_true summary ''shutdown_complete''))
       ''incomplete'') (\<lambda>_.
     bindS (requireE (allE (is_falsy summary) [''shutdown_timed_out'', ''write_error'', ''summary_error''])
       ''timeout or error'') (\<lambda>_.
     requireE (allE (\<lambda>k. field_is summary k (PyInt 0)) [''dropped_full'', ''dropped_closed'',
       ''dropped_failed'', ''failed_records'', ''pending'', ''in_flight'', ''unfinished'']) ''loss''))"

section \<open>The collected lines\<close>

definition bad_record :: "exn \<Rightarrow> bool" where
  "bad_record e = (case e of ValueError _ \<Rightarrow> True | TypeError _ \<Rightarrow> True | _ \<Rightarrow> False)"

definition reject_line :: "unit audit" where
  "reject_line = modifyS (\<lambda>r.
     let n = ar_invalid_records r + 1 in
     r\<lparr>ar_invalid_records := n,
       ar_issues := (if n \<le> 5 then ar_issues r @ [''invalid line''] else ar_issues r)\<rparr>)"

primrec read_lines :: "'r audit_env \<Rightarrow> string list \<Rightarrow> line_record list audit" where
  "read_lines env [] = retS []"
| "read_lines env (line # lines) =
     (case bindE (parse_json (au_decode env) line) (parse_collected (au_fromiso env)) of
        Inr c \<Rightarrow> bindS (read_lines env lines) (\<lambda>cs. retS (c # cs))
      | Inl e \<Rightarrow> if bad_record e then bindS reject_line (\<lambda>_. read_lines env lines) else raiseS e)"

definition read_records :: "'r audit_env \<Rightarrow> run_facts \<Rightarrow> py \<Rightarrow> (nat \<times> line_record list) audit" where
  "read_records env facts summary =
     bindS (liftS (au_text env (path_join (rf_run_dir facts) (Rel [''features.jsonl''])))) (\<lambda>content.
     let lines = split_lines [] content; n = length lines in
     bindS (modifyS (\<lambda>r. r\<lparr>ar_record_count := int n\<rparr>)) (\<lambda>_.
     bindS (require (content = [] \<or> last content = CHR 10) ''unterminated last line'') (\<lambda>_.
     bindS (read_lines env lines) (\<lambda>records.
     bindS (forS (\<lambda>k. requireE (field_is summary k (PyInt (int n))) ''statistics differ'')
       [''attempted'', ''enqueued'', ''written'', ''flushed'']) (\<lambda>_.
     bindS (requireE (field_is summary ''enqueued'' (PyInt (ex_expected_records (rf_regenerated facts))))
       ''expected records'') (\<lambda>_.
     bindS (require (map lr_sequence_id records = map int [1..<n + 1]) ''collection ids'') (\<lambda>_.
     bindS (require (sort (map (payload_queue_id \<circ> lr_payload) records) = map int [1..<n + 1]) ''queue ids'') (\<lambda>_.
     retS (n, records)))))))))"

definition semantic_key :: "line_record \<Rightarrow> int \<times> string \<times> int option" where
  "semantic_key c = (lr_session_id c, event_type_of (lr_payload c), lr_request_index c)"

definition check_records :: "py \<Rightarrow> py \<Rightarrow> expectations \<Rightarrow> line_record list \<Rightarrow> unit audit" where
  "check_records entry campaign ex records =
     bindS (forS (\<lambda>c.
       bindS (requireE (andE (field_is entry ''run_id'' (PyStr (lr_run_id c)))
          (field_is entry ''scenario_id'' (PyStr (lr_scenario_id c)))) ''foreign record'') (\<lambda>_.
       requireE (field_is campaign ''server_build_id'' (PyStr (lr_server_build_id c))) ''foreign build''))
       records) (\<lambda>_.
     let keys = map semantic_key records;
         groups = group_by lr_session_id records;
         unique_messages = int (length (remdups (filter (\<lambda>k. fst (snd k) = ''message'') keys)));
         unique_summaries = int (length (remdups (filter (\<lambda>k. fst (snd k) = ''session_summary'') keys)));
         duplicates = int (length keys) - int (length (remdups keys)) in
     bindS (modifyS (\<lambda>r. r\<lparr>ar_duplicate_records := duplicates\<rparr>)) (\<lambda>_.
     bindS (require (duplicates = 0) ''duplicates'') (\<lambda>_.
     bindS (modifyS (\<lambda>r. r\<lparr>ar_sessions := int (length groups),
       ar_messages := int (length (filter (\<lambda>c. event_type_of (lr_payload c) = ''message'') records)),
       ar_summaries := int (length (filter (\<lambda>c. event_type_of (lr_payload c) \<noteq> ''message'') records)),
       ar_missing_messages := max 0 (ex_expected_messages ex - unique_messages),
       ar_missing_summaries := max 0 (ex_expected_summaries ex - unique_summaries),
       ar_unexpected_records := max 0 (unique_messages - ex_expected_messages ex)
         + max 0 (unique_summaries - ex_expected_summaries ex)\<rparr>)) (\<lambda>_.
     require (int (length groups) = ex_expected_sessions ex) ''session count''))))"

section \<open>Sessions\<close>

type_synonym signature = "(int \<times> int) list \<times> int \<times> int \<times> string \<times> int"

definition expected_signature :: "session_plan \<Rightarrow> signature" where
  "expected_signature s =
     (sp_expected_message_frames s, int (length (sp_expected_message_frames s)),
      sp_expected_error_count s, sp_expected_last_error_message s, wire_total (sp_frames s))"

fun message_part :: "request \<Rightarrow> message_request list" where
  "message_part (MessageRequest r) = [r]"
| "message_part (SummaryRequest _) = []"

fun summary_part :: "request \<Rightarrow> summary_request list" where
  "summary_part (MessageRequest _) = []"
| "summary_part (SummaryRequest r) = [r]"

definition session_messages :: "line_record list \<Rightarrow> message_request list" where
  "session_messages g = concat (map (message_part \<circ> lr_payload) g)"

definition session_summaries :: "line_record list \<Rightarrow> summary_request list" where
  "session_summaries g = concat (map (summary_part \<circ> lr_payload) g)"

abbreviation request_index_of :: "message_request \<Rightarrow> int" where
  "request_index_of m \<equiv> mi_request_index (mr_message m)"

definition nondecreasing :: "rat list \<Rightarrow> bool" where
  "nondecreasing vs = (vs = sort vs)"

definition monotone_fields :: "(message_features \<Rightarrow> rat) list" where
  "monotone_fields = [fval \<circ> mf_connection_duration_ms, of_int \<circ> mf_bytes_received_total,
     of_int \<circ> mf_bytes_sent_total, of_int \<circ> mf_error_count_total]"

text \<open>\<open>math.isclose(a, b, abs_tol=0.0015)\<close> in doubles, with the default relative tolerance.\<close>

fun fmul :: "pyfloat \<Rightarrow> pyfloat \<Rightarrow> pyfloat" where
  "fmul (Fin x) (Fin y) = fl (x * y)"
| "fmul _ _ = NaN"

fun fabs :: "pyfloat \<Rightarrow> pyfloat" where
  "fabs (Fin x) = Fin \<bar>x\<bar>"
| "fabs NaN = NaN"
| "fabs _ = PInf"

definition isclose :: "pyfloat \<Rightarrow> pyfloat \<Rightarrow> bool" where
  "isclose a b =
     (if feq a b then True
      else if \<not> is_finite a \<or> \<not> is_finite b then False
      else let diff = fabs (fsub b a) in
        fle diff (fabs (fmul (fl (1 / 10 ^ 9)) b)) \<or> fle diff (fabs (fmul (fl (1 / 10 ^ 9)) a)) \<or>
        fle diff (fl (15 / 10000)))"

definition expected_mean :: "(pyfloat list \<Rightarrow> pyfloat) \<Rightarrow> message_request list \<Rightarrow> pyfloat" where
  "expected_mean py_sum ms =
     (if 1 < length ms
      then fdiv_pos (py_sum (map (mf_message_interval_ms \<circ> mr_features) ms)) (of_int (int (length ms) - 1))
      else Fin 0)"

definition actual_signature :: "message_request list \<Rightarrow> summary_request \<Rightarrow> signature" where
  "actual_signature ms s =
     (map (\<lambda>m. (mi_packet_id (mr_message m), mi_packet_size (mr_message m))) ms,
      sf_request_count (sr_features s), sf_error_count (sr_features s),
      ss_last_error_message (sr_session s), sf_bytes_received_total (sr_features s))"

definition check_session :: "(pyfloat list \<Rightarrow> pyfloat) \<Rightarrow> line_record list \<Rightarrow> signature list audit" where
  "check_session py_sum g =
     (let ms = sort_key request_index_of (session_messages g) in
     bindS (require (length (session_summaries g) = 1) ''summary count'') (\<lambda>_.
     bindS (require (map request_index_of ms = map int [1..<length ms + 1]) ''message numbers'') (\<lambda>_.
     bindS (forS (\<lambda>f. require (nondecreasing (map (f \<circ> mr_features) ms)) ''decreasing field'') monotone_fields) (\<lambda>_.
     case session_summaries g of
       [s] \<Rightarrow>
         let values = sr_features s in
         bindS (require (sf_request_count values = int (length ms)) ''request count'') (\<lambda>_.
         bindS (require (isclose (sf_avg_message_interval_ms values) (expected_mean py_sum ms)) ''mean interval'') (\<lambda>_.
         bindS (if ms = [] then retS () else
           let lst = mr_features (last ms) in
           bindS (require (fle (mf_connection_duration_ms lst) (sf_connection_duration_ms values)) ''summary duration'') (\<lambda>_.
           bindS (require (mf_bytes_received_total lst \<le> sf_bytes_received_total values) ''summary received'') (\<lambda>_.
           require (mf_bytes_sent_total lst \<le> sf_bytes_sent_total values) ''summary sent''))) (\<lambda>_.
         retS [actual_signature ms s])))
     | _ \<Rightarrow> retS []))))"

definition check_sessions :: "(pyfloat list \<Rightarrow> pyfloat) \<Rightarrow> expectations \<Rightarrow> line_record list \<Rightarrow> unit audit" where
  "check_sessions py_sum ex records =
     bindS (mapS (\<lambda>(_, g). check_session py_sum g) (group_by lr_session_id records)) (\<lambda>signatures.
     require (mset (concat signatures) = mset (map expected_signature (ex_sessions ex))) ''signatures'')"

section \<open>The audit of a run\<close>

definition audit_body :: "'r audit_env \<Rightarrow> path \<Rightarrow> py \<Rightarrow> py \<Rightarrow> unit audit" where
  "audit_body env base entry campaign =
     bindS (regenerate env base entry campaign) (\<lambda>facts.
     let ex = rf_regenerated facts in
     bindS (liftS (read_artefacts env base (rf_run_dir facts) (ex_run_id ex))) (\<lambda>a.
     bindS (check_metadata entry campaign facts a) (\<lambda>_.
     bindS (check_clients facts a) (\<lambda>_.
     bindS (check_summary (at_summary a)) (\<lambda>_.
     bindS (read_records env facts (at_summary a)) (\<lambda>(n, records).
     bindS (check_records entry campaign ex records) (\<lambda>_.
     bindS (check_sessions (au_sum env) ex records) (\<lambda>_.
     bindS (liftS (py_item campaign ''dataset_purpose'')) (\<lambda>purpose.
     modifyS (\<lambda>r.
       let warned = r\<lparr>ar_warnings := ar_warnings r
             @ (if ex_message_observable ex then [] else [''no message snapshots''])
             @ (if py_eq purpose (PyStr ''integration_test'') then [''integration test''] else [])\<rparr>;
           passed = (ar_issues r = []) in
       warned\<lparr>ar_passed := passed,
         ar_eligible := passed \<and> py_eq purpose (PyStr ''controlled_experiment'') \<and>
           ex_message_observable ex \<and> 0 < ar_messages r\<rparr>))))))))))"

fun audit_catches :: "exn \<Rightarrow> bool" where
  "audit_catches (OSError _) = True"
| "audit_catches (FileExistsError _) = True"
| "audit_catches (FileNotFoundError _) = True"
| "audit_catches (TimeoutError _) = True"
| "audit_catches (ValueError _) = True"
| "audit_catches (TypeError _) = True"
| "audit_catches (KeyError _) = True"
| "audit_catches StopIteration = True"
| "audit_catches _ = False"

definition audit_run :: "'r audit_env \<Rightarrow> path \<Rightarrow> py \<Rightarrow> py \<Rightarrow> audit_result res" where
  "audit_run env base entry campaign =
     bindE (bindE (py_item entry ''run_id'') py_str) (\<lambda>run_id.
     bindE (bindE (py_item entry ''scenario_id'') py_str) (\<lambda>sid.
     case audit_body env base entry campaign (initial_audit run_id sid) of
       (Inr _, r) \<Rightarrow> Inr r
     | (Inl e, r) \<Rightarrow>
         if audit_catches e
         then Inr (r\<lparr>ar_issues := ar_issues r @ [''audit failed''],
           ar_missing_messages := max 0 (ar_expected_messages r - ar_messages r),
           ar_missing_summaries := max 0 (ar_expected_summaries r - ar_summaries r)\<rparr>)
         else Inl e))"

end
