(* ===== verification/Quality_Sound.thy ===== *)
theory Quality_Sound
  imports Quality
begin

text \<open>
  What a passed audit has shown. \<open>clean m s a t\<close>: the step \<open>m\<close> returns \<open>a\<close> and no issue has
  been recorded so far; every check then holds. The theorem at the end puts the steps of
  \<open>audit_run\<close> together.
\<close>

section \<open>Clean steps\<close>

definition clean :: "'a audit \<Rightarrow> audit_result \<Rightarrow> 'a \<Rightarrow> audit_result \<Rightarrow> bool" where
  "clean m s a t \<longleftrightarrow> m s = (Inr a, t) \<and> ar_issues t = []"

definition grows :: "'a audit \<Rightarrow> bool" where
  "grows m \<longleftrightarrow> (\<forall>s. ar_issues (snd (m s)) = [] \<longrightarrow> ar_issues s = [])"

named_theorems keep_intros \<open>steps that never remove an issue\<close>

lemma grows_bindS [keep_intros]:
  assumes "grows m" and "\<And>a. grows (f a)"
  shows "grows (bindS m f)"
  unfolding grows_def
proof (intro allI impI)
  fix s assume e: "ar_issues (snd (bindS m f s)) = []"
  obtain r t where m: "m s = (r, t)" by fastforce
  have "ar_issues t = []"
  proof (cases r)
    case (Inl x)
    then show ?thesis using e m by (simp add: bindS_def)
  next
    case (Inr a)
    then have "ar_issues (snd (f a t)) = []" using e m by (simp add: bindS_def)
    then show ?thesis using assms(2) by (auto simp: grows_def)
  qed
  then show "ar_issues s = []" using assms(1) m by (auto simp: grows_def)
qed

lemma grows_basic [keep_intros]:
  "grows (retS a)" "grows (liftS r)" "grows (raiseS e)" "grows (require b tag)"
  "(\<And>r. ar_issues (f r) = ar_issues r) \<Longrightarrow> grows (modifyS f)"
  by (auto simp: grows_def retS_def liftS_def raiseS_def require_def modifyS_def split: if_splits)

lemma grows_requireE [keep_intros]: "grows (requireE c tag)"
  by (auto simp: requireE_def intro!: keep_intros)

lemma grows_forS [keep_intros]: "(\<And>x. grows (f x)) \<Longrightarrow> grows (forS f xs)"
  by (induction xs) (auto intro!: keep_intros)

lemma grows_mapS [keep_intros]: "(\<And>x. grows (f x)) \<Longrightarrow> grows (mapS f xs)"
  by (induction xs) (auto intro!: keep_intros)

lemma grows_if [keep_intros]: "(b \<Longrightarrow> grows m) \<Longrightarrow> (\<not> b \<Longrightarrow> grows n) \<Longrightarrow> grows (if b then m else n)"
  by simp

lemma grows_reject_line [keep_intros]: "grows reject_line"
  by (auto simp: grows_def reject_line_def modifyS_def Let_def split: if_splits)

lemma grows_read_lines [keep_intros]: "grows (read_lines env lines)"
  by (induction lines) (auto intro!: keep_intros split: sum.split)

lemma clean_bindS:
  assumes "clean (bindS m f) s b u" and "\<And>a. grows (f a)"
  obtains a t where "clean m s a t" and "clean (f a) t b u"
proof -
  from assms(1) obtain a t where m: "m s = (Inr a, t)" "f a t = (Inr b, u)" "ar_issues u = []"
    by (auto simp: clean_def bindS_Inr_iff)
  from assms(2) [of a] m(2,3) have "ar_issues t = []" by (auto simp: grows_def)
  with m that show ?thesis by (auto simp: clean_def)
qed

lemma clean_simps [simp]:
  "clean (retS a) s b t \<longleftrightarrow> b = a \<and> t = s \<and> ar_issues s = []"
  "clean (liftS r) s b t \<longleftrightarrow> r = Inr b \<and> t = s \<and> ar_issues s = []"
  "clean (raiseS e) s b t \<longleftrightarrow> False"
  "clean (require c tag) s w t \<longleftrightarrow> c \<and> t = s \<and> ar_issues s = []"
  "clean (modifyS f) s w t \<longleftrightarrow> t = f s \<and> ar_issues (f s) = []"
  by (auto simp: clean_def require_def split: if_splits)

lemma clean_requireE [simp]:
  "clean (requireE c tag) s w t \<longleftrightarrow> c = Inr True \<and> t = s \<and> ar_issues s = []"
  by (cases c) (auto simp: requireE_def clean_def bindS_def liftS_def require_def modifyS_def split: if_splits)

text \<open>A clean sequence, as a rewrite; the side condition is discharged by \<open>keep_intros\<close>.\<close>

lemma clean_bindS_iff:
  assumes "\<And>a. grows (f a)"
  shows "clean (bindS m f) s b u \<longleftrightarrow> (\<exists>a t. clean m s a t \<and> clean (f a) t b u)"
proof
  assume "clean (bindS m f) s b u"
  from clean_bindS [OF this assms] show "\<exists>a t. clean m s a t \<and> clean (f a) t b u" by blast
next
  assume "\<exists>a t. clean m s a t \<and> clean (f a) t b u"
  then show "clean (bindS m f) s b u" by (auto simp: clean_def bindS_Inr_iff)
qed

text \<open>A loop of checks that leave the state alone.\<close>

definition checks :: "unit audit \<Rightarrow> bool \<Rightarrow> bool" where
  "checks m P \<longleftrightarrow> grows m \<and> (\<forall>s w t. clean m s w t \<longrightarrow> P \<and> t = s)"

lemma checks_forS:
  assumes "\<And>x. x \<in> set xs \<Longrightarrow> checks (f x) (P x)" and "\<And>x. grows (f x)"
  shows "checks (forS f xs) (\<forall>x\<in>set xs. P x)"
  using assms(1)
proof (induction xs)
  case Nil
  then show ?case by (auto simp: checks_def intro: keep_intros)
next
  case (Cons x xs)
  have k: "grows (forS f (x # xs))" by (intro keep_intros assms(2))
  have "(\<forall>y\<in>set (x # xs). P y) \<and> t = s" if c: "clean (forS f (x # xs)) s w t" for s w t
  proof -
    from c have "clean (bindS (f x) (\<lambda>_. forS f xs)) s w t" by simp
    then obtain a u where "clean (f x) s a u" "clean (forS f xs) u w t"
      by (rule clean_bindS) (intro keep_intros assms(2))
    with Cons show ?thesis by (fastforce simp: checks_def)
  qed
  with k show ?case by (auto simp: checks_def)
qed

lemma checks_bind:
  "checks m P \<Longrightarrow> checks n Q \<Longrightarrow> checks (bindS m (\<lambda>_. n)) (P \<and> Q)"
  unfolding checks_def
  by (intro conjI allI impI keep_intros; (erule conjE)?; (erule clean_bindS)?) (blast intro: keep_intros)+

lemma checks_basic: "checks (require b tag) b" "checks (requireE c tag) (c = Inr True)" "checks (retS w) True"
  by (auto simp: checks_def intro: keep_intros)

lemma checks_clean: "checks m P \<Longrightarrow> clean m s w t \<Longrightarrow> P \<and> t = s"
  by (auto simp: checks_def)

section \<open>Sessions\<close>

lemma checks_session_fields:
  "checks (forS (\<lambda>f. require (nondecreasing (map (f \<circ> mr_features) ms)) tag) fs)
     (\<forall>f\<in>set fs. nondecreasing (map (f \<circ> mr_features) ms))"
  by (rule checks_forS) (intro checks_basic keep_intros)+

text \<open>One session that passed: its single summary agrees with its messages.\<close>

definition session_ok :: "(pyfloat list \<Rightarrow> pyfloat) \<Rightarrow> line_record list \<Rightarrow> signature \<Rightarrow> bool" where
  "session_ok py_sum g sig \<longleftrightarrow> (\<exists>s ms.
     session_summaries g = [s] \<and> mset ms = mset (session_messages g) \<and>
     map request_index_of ms = map int [1..<length ms + 1] \<and>
     (\<forall>f\<in>set monotone_fields. nondecreasing (map (f \<circ> mr_features) ms)) \<and>
     sf_request_count (sr_features s) = int (length ms) \<and>
     isclose (sf_avg_message_interval_ms (sr_features s)) (expected_mean py_sum ms) \<and>
     sig = actual_signature ms s)"

lemma grows_check_session [keep_intros]: "grows (check_session py_sum g)"
  unfolding check_session_def Let_def
  by (auto intro!: keep_intros split: list.split)

lemma check_session_clean:
  assumes "clean (check_session py_sum g) s sigs t"
  shows "\<exists>sig. sigs = [sig] \<and> session_ok py_sum g sig \<and> t = s"
proof -
  define ms where "ms = sort_key request_index_of (session_messages g)"
  obtain x where x: "session_summaries g = [x]"
  proof -
    from assms obtain a u where "clean (require (length (session_summaries g) = 1) ''summary count'') s a u"
      unfolding check_session_def Let_def
      by (rule clean_bindS) (auto intro!: keep_intros split: list.split)
    then have "length (session_summaries g) = 1" by simp
    then obtain x where "session_summaries g = [x]" by (cases "session_summaries g") auto
    with that show thesis by blast
  qed
  from assms obtain a u where num: "map request_index_of ms = map int [1..<length ms + 1]" and
    f: "clean (forS (\<lambda>f. require (nondecreasing (map (f \<circ> mr_features) ms)) ''decreasing field'')
        monotone_fields) s a u" and
    rest: "sf_request_count (sr_features x) = int (length ms)"
      "isclose (sf_avg_message_interval_ms (sr_features x)) (expected_mean py_sum ms)"
      "sigs = [actual_signature ms x]" "t = u"
    unfolding check_session_def Let_def x ms_def [symmetric]
    by (cases "ms = []") (auto simp: clean_bindS_iff keep_intros simp del: upt_Suc)
  from checks_clean [OF checks_session_fields f] have "u = s"
    "\<forall>f\<in>set monotone_fields. nondecreasing (map (f \<circ> mr_features) ms)" by blast+
  then show ?thesis
    using num rest x
    by (intro exI [of _ "actual_signature ms x"])
      (auto simp del: upt_Suc simp: session_ok_def ms_def intro!: exI [of _ ms])
qed

lemma check_sessions_clean:
  assumes "clean (check_sessions py_sum ex records) s w t"
  shows "\<exists>sigs. list_all2 (\<lambda>(_, g) sig. session_ok py_sum g sig) (group_by lr_session_id records) sigs \<and>
    mset sigs = mset (map expected_signature (ex_sessions ex)) \<and> t = s"
proof -
  have step: "clean (mapS (\<lambda>p. check_session py_sum (snd p)) gs) s sigs t \<Longrightarrow>
      \<exists>ss. concat sigs = ss \<and> list_all2 (\<lambda>(_, g) sig. session_ok py_sum g sig) gs ss \<and> t = s"
    for gs :: "(int \<times> line_record list) list" and sigs s t
  proof (induction gs arbitrary: s sigs)
    case Nil
    then show ?case by simp
  next
    case (Cons p gs)
    from Cons.prems obtain a u bs where
      h: "clean (check_session py_sum (snd p)) s a u" "clean (mapS (\<lambda>p. check_session py_sum (snd p)) gs) u bs t"
      "sigs = a # bs"
      by (auto simp: clean_bindS_iff keep_intros)
    from check_session_clean [OF h(1)] Cons.IH [OF h(2)] h(3) show ?case
      by (cases p) auto
  qed
  note step = step [unfolded split_beta]
  from assms obtain sigs u where
    "clean (mapS (\<lambda>p. check_session py_sum (snd p)) (group_by lr_session_id records)) s sigs u"
    "mset (concat sigs) = mset (map expected_signature (ex_sessions ex))" "t = u"
    unfolding check_sessions_def split_beta by (auto simp: clean_bindS_iff keep_intros)
  with step show ?thesis unfolding split_beta by metis
qed

section \<open>Metadata, clients and statistics\<close>

lemma checks_weaken: "checks m P \<Longrightarrow> (P \<Longrightarrow> Q) \<Longrightarrow> checks m Q"
  by (auto simp: checks_def)

lemma checks_lift: "(\<And>a. r = Inr a \<Longrightarrow> checks (f a) (P a)) \<Longrightarrow> (\<And>a. grows (f a)) \<Longrightarrow>
    checks (bindS (liftS r) f) (\<exists>a. r = Inr a \<and> P a)"
  unfolding checks_def
  by (intro conjI allI impI; (erule clean_bindS)?) (auto intro: keep_intros)

lemma checks_metadata:
  "checks (check_metadata entry campaign facts a)
     (\<forall>k\<in>{''run_id'', ''scenario_id''}. same_field (at_manifest a) k entry k = Inr True \<and>
        same_field (at_outcome a) k entry k = Inr True \<and> same_field (at_summary a) k entry k = Inr True)"
proof -
  let ?f = "\<lambda>k. bindS (requireE (same_field (at_manifest a) k entry k) ''run manifest field'') (\<lambda>_.
       bindS (requireE (same_field (at_outcome a) k entry k) ''traffic result field'') (\<lambda>_.
       requireE (same_field (at_summary a) k entry k) ''summary field''))"
  have one: "checks (?f k) (same_field (at_manifest a) k entry k = Inr True \<and>
        same_field (at_outcome a) k entry k = Inr True \<and> same_field (at_summary a) k entry k = Inr True)" for k
    by (intro checks_bind checks_basic)
  have l: "checks (forS ?f [''run_id'', ''scenario_id'']) (\<forall>k\<in>set [''run_id'', ''scenario_id''].
      same_field (at_manifest a) k entry k = Inr True \<and>
        same_field (at_outcome a) k entry k = Inr True \<and> same_field (at_summary a) k entry k = Inr True)"
    by (rule checks_forS [OF one]) (intro keep_intros)
  have r: "checks (forS (\<lambda>k. requireE (same_field (at_manifest a) k campaign k) k) ks)
      (\<forall>k\<in>set ks. same_field (at_manifest a) k campaign k = Inr True)" for ks
    by (rule checks_forS) (intro checks_basic keep_intros)+
  show ?thesis
    unfolding check_metadata_def
    by (rule checks_weaken, rule checks_bind [OF l], (rule checks_bind [OF checks_basic(2)])+, rule r) simp
qed

lemma grows_check_groups [keep_intros]: "grows (check_groups actual session)"
  unfolding check_groups_def by (auto intro!: keep_intros split: option.split)

lemma grows_check_client [keep_intros]: "grows (check_client v2 clients session)"
  unfolding check_client_def Let_def by (auto intro!: keep_intros)

lemma checks_True:
  "checks (require b tag) True" "checks (requireE c tag) True" "checks (raiseS e) True"
  "(\<And>a. checks (f a) True) \<Longrightarrow> checks (bindS (liftS r) f) True"
  "checks m True \<Longrightarrow> checks n True \<Longrightarrow> checks (bindS m (\<lambda>_. n)) True"
proof -
  show "checks (require b tag) True" "checks (requireE c tag) True" "checks (raiseS e) True"
    by (auto simp: checks_def intro: keep_intros)
  show "checks (bindS (liftS r) f) True" if "\<And>a. checks (f a) True"
    by (rule checks_weaken, rule checks_lift [where P = "\<lambda>_. True"]) (use that in \<open>auto simp: checks_def\<close>)
  show "checks (bindS m (\<lambda>_. n)) True" if "checks m True" "checks n True"
    by (rule checks_weaken, rule checks_bind [OF that]) simp
qed

lemma checks_groups: "checks (check_groups actual session) True"
  unfolding check_groups_def
  by (cases "sp_transport_controls session") (simp_all only: option.case, (intro checks_True)+)

text \<open>What one client has done, by its own account.\<close>

definition client_ok :: "(string \<times> py) list \<Rightarrow> session_plan \<Rightarrow> bool" where
  "client_ok actual s \<longleftrightarrow> py_get actual ''passed'' = PyBool True \<and> py_get actual ''connected'' = PyBool True \<and>
     py_eq (py_get actual ''frames_sent'') (PyInt (int (length (sp_frames s)))) \<and>
     py_eq (py_get actual ''bytes_sent'') (PyInt (wire_total (sp_frames s))) \<and>
     py_eq (py_get actual ''responses_received'') (PyInt (sp_expected_responses s))"

definition client_of :: "(py \<times> py) list \<Rightarrow> session_plan \<Rightarrow> (string \<times> py) list" where
  "client_of clients s = (case key_get clients (PyInt (sp_client_index s)) of None \<Rightarrow> [] | Some c \<Rightarrow> as_dict c)"

lemma checks_client: "checks (check_client v2 clients s) (client_ok (client_of clients s) s)"
proof -
  have "checks (if v2 then check_groups actual s else retS ()) True" for actual
    using checks_groups checks_basic(3) by simp
  then show ?thesis
    unfolding check_client_def Let_def client_of_def [symmetric]
    by (rule checks_weaken [OF checks_bind [OF checks_basic(1) checks_bind [OF checks_basic(1)
        checks_bind [OF checks_basic(1) checks_bind [OF checks_basic(1)]]]]])
      (auto simp: client_ok_def)
qed

lemma checks_clients:
  "checks (check_clients facts a)
     (is_true (at_outcome a) ''passed'' = Inr True \<and>
      (\<exists>sessions clients. bindE (py_item (at_outcome a) ''sessions'') py_iter = Inr sessions \<and>
         index_clients sessions = Inr clients \<and>
         (\<forall>s\<in>set (ex_sessions (rf_regenerated facts)). client_ok (client_of clients s) s)))"
proof -
  have c: "checks (forS (check_client v2 clients) ss) (\<forall>s\<in>set ss. client_ok (client_of clients s) s)"
    for v2 clients ss
    by (rule checks_forS [OF checks_client]) (intro keep_intros)
  show ?thesis
    unfolding check_clients_def Let_def
    by (rule checks_weaken, (rule checks_bind [OF checks_basic(2)] checks_lift checks_bind [OF checks_basic(1)] c)+)
      (auto intro!: keep_intros)
qed

lemma checks_summary:
  "checks (check_summary summary)
     (andE (is_true summary ''complete'') (is_true summary ''shutdown_complete'') = Inr True)"
  unfolding check_summary_def
  by (rule checks_weaken, (rule checks_bind [OF checks_basic(2)] checks_basic(2))+) simp

section \<open>Records\<close>

definition parsed_line :: "'r audit_env \<Rightarrow> string \<Rightarrow> line_record \<Rightarrow> bool" where
  "parsed_line env line c \<longleftrightarrow>
     bindE (parse_json (au_decode env) line) (parse_collected (au_fromiso env)) = Inr c"

lemma read_lines_clean:
  "clean (read_lines env lines) s cs t \<Longrightarrow> ar_invalid_records s = 0 \<Longrightarrow>
     list_all2 (parsed_line env) lines cs \<and> t = s"
proof (induction lines arbitrary: cs)
  case Nil
  then show ?case by simp
next
  case (Cons line lines)
  let ?r = "bindE (parse_json (au_decode env) line) (parse_collected (au_fromiso env))"
  show ?case
  proof (cases ?r)
    case (Inl e)
    have "\<not> clean (bindS reject_line (\<lambda>_. read_lines env lines)) s cs t"
    proof
      assume "clean (bindS reject_line (\<lambda>_. read_lines env lines)) s cs t"
      then obtain a u where "clean reject_line s a u"
        by (rule clean_bindS) (intro keep_intros)
      with Cons.prems(2) show False by (auto simp: clean_def reject_line_def modifyS_def Let_def)
    qed
    with Cons.prems(1) Inl show ?thesis by (simp split: if_splits)
  next
    case (Inr c)
    then obtain ds where "clean (read_lines env lines) s ds t" "cs = c # ds"
      using Cons.prems(1) by (auto simp: clean_bindS_iff keep_intros)
    with Cons.IH [OF _ Cons.prems(2)] Inr show ?thesis by (auto simp: parsed_line_def)
  qed
qed

definition records_ok :: "'r audit_env \<Rightarrow> run_facts \<Rightarrow> line_record list \<Rightarrow> bool" where
  "records_ok env facts records \<longleftrightarrow> (\<exists>content.
     au_text env (path_join (rf_run_dir facts) (Rel [''features.jsonl''])) = Inr content \<and>
     list_all2 (parsed_line env) (split_lines [] content) records \<and>
     map lr_sequence_id records = map int [1..<length records + 1] \<and>
     sort (map (payload_queue_id \<circ> lr_payload) records) = map int [1..<length records + 1])"

lemma read_records_clean:
  assumes "clean (read_records env facts summary) s (n, records) t" and "ar_invalid_records s = 0"
  shows "records_ok env facts records \<and> n = length records \<and>
    field_is summary ''enqueued'' (PyInt (int n)) = Inr True \<and>
    field_is summary ''enqueued'' (PyInt (ex_expected_records (rf_regenerated facts))) = Inr True \<and>
    t = s\<lparr>ar_record_count := int n\<rparr>"
proof -
  let ?stat = "\<lambda>n k. requireE (field_is summary k (PyInt (int n))) ''statistics differ''"
  from assms(1) obtain content s1 w u where
    c: "au_text env (path_join (rf_run_dir facts) (Rel [''features.jsonl''])) = Inr content"
      "n = length (split_lines [] content)" and
    l: "clean (read_lines env (split_lines [] content)) (s\<lparr>ar_record_count := int n\<rparr>) records s1" and
    st: "clean (forS (?stat n) [''attempted'', ''enqueued'', ''written'', ''flushed'']) s1 w u" and
    rest: "field_is summary ''enqueued'' (PyInt (ex_expected_records (rf_regenerated facts))) = Inr True"
      "map lr_sequence_id records = map int [1..<n + 1]"
      "sort (map (payload_queue_id \<circ> lr_payload) records) = map int [1..<n + 1]" "t = u"
    unfolding read_records_def Let_def
    by (auto simp: clean_bindS_iff keep_intros simp del: upt_Suc forS.simps)
  have p: "list_all2 (parsed_line env) (split_lines [] content) records" "s1 = s\<lparr>ar_record_count := int n\<rparr>"
    using read_lines_clean [OF l] assms(2) by auto
  have len: "length records = n" using list_all2_lengthD [OF p(1)] c(2) by simp
  have "checks (forS (?stat n) ks) (\<forall>k\<in>set ks. field_is summary k (PyInt (int n)) = Inr True)" for ks
    by (rule checks_forS) (intro checks_basic keep_intros)+
  from checks_clean [OF this st] have "field_is summary ''enqueued'' (PyInt (int n)) = Inr True" "u = s1"
    by simp_all
  with c p len rest show ?thesis by (auto simp: records_ok_def simp del: upt_Suc)
qed

definition record_of :: "py \<Rightarrow> py \<Rightarrow> line_record \<Rightarrow> bool" where
  "record_of entry campaign c \<longleftrightarrow>
     field_is entry ''run_id'' (PyStr (lr_run_id c)) = Inr True \<and>
     field_is entry ''scenario_id'' (PyStr (lr_scenario_id c)) = Inr True \<and>
     field_is campaign ''server_build_id'' (PyStr (lr_server_build_id c)) = Inr True"

lemma andE_Inr_True: "andE a b = Inr True \<longleftrightarrow> a = Inr True \<and> b = Inr True"
  by (cases a) (auto simp: andE_def)

lemma check_records_clean:
  assumes "clean (check_records entry campaign ex records) s w t"
  shows "(\<forall>c\<in>set records. record_of entry campaign c) \<and> distinct (map semantic_key records) \<and>
    int (length (group_by lr_session_id records)) = ex_expected_sessions ex \<and>
    ar_messages t = int (length (filter (\<lambda>c. event_type_of (lr_payload c) = ''message'') records)) \<and>
    ar_summaries t = int (length (filter (\<lambda>c. event_type_of (lr_payload c) \<noteq> ''message'') records)) \<and>
    ar_invalid_records t = ar_invalid_records s \<and> ar_record_count t = ar_record_count s"
proof -
  let ?f = "\<lambda>c. bindS (requireE (andE (field_is entry ''run_id'' (PyStr (lr_run_id c)))
          (field_is entry ''scenario_id'' (PyStr (lr_scenario_id c)))) ''foreign record'') (\<lambda>_.
       requireE (field_is campaign ''server_build_id'' (PyStr (lr_server_build_id c))) ''foreign build'')"
  have k: "grows (?f c)" for c by (intro keep_intros)
  have f: "checks (forS ?f records) (\<forall>c\<in>set records. record_of entry campaign c)"
    by (rule checks_forS [OF checks_weaken [OF checks_bind [OF checks_basic(2) checks_basic(2)]]])
      (auto simp: record_of_def andE_Inr_True intro: k)
  from assms obtain w1 s1 where c: "clean (forS ?f records) s w1 s1" and
    r: "length (map semantic_key records) = length (remdups (map semantic_key records))"
      "int (length (group_by lr_session_id records)) = ex_expected_sessions ex"
      "ar_messages t = int (length (filter (\<lambda>c. event_type_of (lr_payload c) = ''message'') records))"
      "ar_summaries t = int (length (filter (\<lambda>c. event_type_of (lr_payload c) \<noteq> ''message'') records))"
      "ar_invalid_records t = ar_invalid_records s1" "ar_record_count t = ar_record_count s1"
    unfolding check_records_def Let_def
    by (auto simp: clean_bindS_iff keep_intros k simp del: length_remdups_eq length_remdups_card_conv)
  from checks_clean [OF f c] r show ?thesis
    using length_remdups_eq [of "map semantic_key records"] by auto
qed

section \<open>The regenerated expectations\<close>

definition facts_ok :: "'r audit_env \<Rightarrow> path \<Rightarrow> py \<Rightarrow> py \<Rightarrow> run_facts \<Rightarrow> bool" where
  "facts_ok env base entry campaign facts \<longleftrightarrow> (\<exists>run_id efile epath expected h plan rep profiles seed.
     bindE (py_item entry ''run_id'') py_str = Inr run_id \<and>
     inside_path env base (path_of (''runs/'' @ run_id)) = Inr (rf_run_dir facts) \<and>
     bindE (py_item entry ''expectations_file'') py_str = Inr efile \<and>
     inside_path env base (path_of efile) = Inr epath \<and>
     read_json env epath = Inr expected \<and>
     au_file_hash env epath = Inr h \<and> field_is entry ''expectations_sha256'' (PyStr h) = Inr True \<and>
     bindE (py_item campaign ''plan_snapshot'') parse_plan = Inr plan \<and>
     bindE (py_item entry ''repeat_index'') int_item = Inr rep \<and>
     profiles_for_repeat plan rep = Inr profiles \<and> rf_profile facts \<in> set profiles \<and>
     bindE (py_item campaign ''scenario_manifest_snapshot'') parse_manifest = Inr (rf_source facts) \<and>
     rf_scenario facts \<in> set (sm_scenarios (rf_source facts)) \<and>
     field_is entry ''independent_label'' (PyInt (sn_label (rf_scenario facts))) = Inr True \<and>
     bindE (py_item entry ''seed'') int_item = Inr seed \<and>
     build_expectations (au_rng env) (au_frame_hash env) (rf_profile facts) seed run_id
       (sn_label (rf_scenario facts)) = Inr (rf_regenerated facts) \<and>
     py_eq expected (dump_expectations (rf_regenerated facts)))"

lemma find_mem: "(case List.find P xs of Some x \<Rightarrow> Inr x | None \<Rightarrow> Inl e) = Inr y \<Longrightarrow> y \<in> set xs"
  by (auto simp: find_Some_iff split: option.splits)

lemma regenerate_clean:
  assumes "clean (regenerate env base entry campaign) s facts t"
  shows "facts_ok env base entry campaign facts \<and> ar_invalid_records t = ar_invalid_records s"
proof -
  from assms obtain run_id efile epath expected h plan rep profiles seed a u where
    f: "bindE (py_item entry ''run_id'') py_str = Inr run_id"
     "inside_path env base (path_of (''runs/'' @ run_id)) = Inr (rf_run_dir facts)"
     "bindE (py_item entry ''expectations_file'') py_str = Inr efile"
     "inside_path env base (path_of efile) = Inr epath"
     "read_json env epath = Inr expected"
     "bindE (au_file_hash env epath) (\<lambda>h. field_is entry ''expectations_sha256'' (PyStr h)) = Inr True"
     "bindE (py_item campaign ''plan_snapshot'') parse_plan = Inr plan"
     "bindE (bindE (py_item entry ''repeat_index'') int_item) (profiles_for_repeat plan) = Inr profiles"
     "bindE (py_item entry ''scenario_id'') (\<lambda>sid.
        case List.find (\<lambda>p. py_eq (PyStr (scenario_name (tp_scenario p))) sid) profiles of
          Some p \<Rightarrow> Inr p | None \<Rightarrow> Inl StopIteration) = Inr (rf_profile facts)"
     "bindE (py_item campaign ''scenario_manifest_snapshot'') parse_manifest = Inr (rf_source facts)"
     "bindE (py_item entry ''scenario_id'') (\<lambda>sid.
        case List.find (\<lambda>s. py_eq (PyStr (sn_scenario_id s)) sid) (sm_scenarios (rf_source facts)) of
          Some s \<Rightarrow> Inr s | None \<Rightarrow> Inl StopIteration) = Inr (rf_scenario facts)"
     "field_is entry ''independent_label'' (PyInt (sn_label (rf_scenario facts))) = Inr True"
     "bindE (py_item entry ''seed'') int_item = Inr seed"
     "build_expectations (au_rng env) (au_frame_hash env) (rf_profile facts) seed run_id
       (sn_label (rf_scenario facts)) = Inr (rf_regenerated facts)"
     "py_eq expected (dump_expectations (rf_regenerated facts))"
     "ar_invalid_records t = ar_invalid_records s"
    unfolding regenerate_def Let_def
    by (auto simp: clean_bindS_iff keep_intros)
  from f(6) obtain h where "au_file_hash env epath = Inr h"
    "field_is entry ''expectations_sha256'' (PyStr h) = Inr True" by (auto simp: bindE_Inr_iff)
  moreover from f(8) obtain rep where "bindE (py_item entry ''repeat_index'') int_item = Inr rep"
    "profiles_for_repeat plan rep = Inr profiles" by (auto simp: bindE_Inr_iff)
  moreover have "rf_profile facts \<in> set profiles"
    using f(9) by (auto simp: bindE_Inr_iff dest!: find_mem)
  moreover have "rf_scenario facts \<in> set (sm_scenarios (rf_source facts))"
    using f(11) by (auto simp: bindE_Inr_iff dest!: find_mem)
  ultimately have "facts_ok env base entry campaign facts"
    unfolding facts_ok_def using f by (intro exI conjI)
  with f(16) show ?thesis by blast
qed

lemma build_expectations_totals:
  assumes "build_expectations g h p seed run_id label = Inr ex"
  shows "ex_expected_messages ex = sum_list (map (\<lambda>s. int (length (sp_expected_message_frames s))) (ex_sessions ex)) \<and>
    ex_expected_summaries ex = int (length (ex_sessions ex)) \<and>
    ex_expected_sessions ex = int (length (ex_sessions ex)) \<and>
    ex_expected_records ex = ex_expected_messages ex + ex_expected_summaries ex \<and> ex_run_id ex = run_id"
  using assms
  by (auto simp: build_expectations_def Let_def bindE_Inr_iff comp_def with_controls_def split: if_splits)

section \<open>Counting\<close>

lemma length_message_part: "length (message_part r) = (if event_type_of r = ''message'' then 1 else 0)"
  by (cases r) auto

lemma length_session_messages:
  "length (session_messages g) = length (filter (\<lambda>c. event_type_of (lr_payload c) = ''message'') g)"
  by (induction g) (auto simp: session_messages_def length_message_part)

lemma group_messages_total:
  "sum_list (map (\<lambda>(_, g). length (session_messages g)) (group_by key records)) =
     length (filter (\<lambda>c. event_type_of (lr_payload c) = ''message'') records)"
proof -
  have "sum_list (map (\<lambda>(_, g). length (session_messages g)) gs) =
      length (filter (\<lambda>c. event_type_of (lr_payload c) = ''message'') (concat (map snd gs)))"
    for gs :: "('k \<times> line_record list) list"
    by (induction gs) (auto simp: length_session_messages)
  also have "length (filter (\<lambda>c. event_type_of (lr_payload c) = ''message'') (concat (map snd (group_by key records))))
      = length (filter (\<lambda>c. event_type_of (lr_payload c) = ''message'') records)"
    by (metis (lifting) mset_concat_group_by mset_filter size_mset)
  finally show ?thesis .
qed

lemma session_ok_messages: "session_ok py_sum g sig \<Longrightarrow> length (fst sig) = length (session_messages g)"
  by (auto simp: session_ok_def actual_signature_def dest: mset_eq_length)

lemma int_sum_list: "int (sum_list (map f xs)) = sum_list (map (\<lambda>x. int (f x)) xs)"
  by (induction xs) simp_all

lemma sessions_total:
  assumes "list_all2 (\<lambda>(_, g) sig. session_ok py_sum g sig) (group_by key records) sigs"
    and "mset sigs = mset (map expected_signature ss)"
  shows "int (length (filter (\<lambda>c. event_type_of (lr_payload c) = ''message'') records)) =
      sum_list (map (\<lambda>s. int (length (sp_expected_message_frames s))) ss)"
    and "length (group_by key records) = length ss"
proof -
  have "map (\<lambda>(_, g). length (session_messages g)) (group_by key records) = map (length \<circ> fst) sigs"
    using assms(1) by (induction rule: list_all2_induct) (auto dest: session_ok_messages)
  then have "length (filter (\<lambda>c. event_type_of (lr_payload c) = ''message'') records) = sum_list (map (length \<circ> fst) sigs)"
    using group_messages_total [of key records] by simp
  also have "\<dots> = sum_mset (image_mset (length \<circ> fst) (mset sigs))"
    by (metis mset_map sum_mset_sum_list)
  also have "\<dots> = sum_list (map (length \<circ> fst) (map expected_signature ss))"
    unfolding assms(2) by (metis mset_map sum_mset_sum_list)
  also have "\<dots> = sum_list (map (\<lambda>s. length (sp_expected_message_frames s)) ss)"
    by (simp add: comp_def expected_signature_def)
  finally show "int (length (filter (\<lambda>c. event_type_of (lr_payload c) = ''message'') records)) =
      sum_list (map (\<lambda>s. int (length (sp_expected_message_frames s))) ss)"
    by (simp add: int_sum_list)
  show "length (group_by key records) = length ss"
    using list_all2_lengthD [OF assms(1)] mset_eq_length [OF assms(2)] by simp
qed

section \<open>Only the last step passes a run\<close>

definition quiet :: "'a audit \<Rightarrow> bool" where
  "quiet m \<longleftrightarrow> (\<forall>s. ar_passed (snd (m s)) = ar_passed s \<and> ar_eligible (snd (m s)) = ar_eligible s)"

named_theorems quiet_intros \<open>steps that do not touch the verdict\<close>

lemma quiet_bindS [quiet_intros]: "quiet m \<Longrightarrow> (\<And>a. quiet (f a)) \<Longrightarrow> quiet (bindS m f)"
  by (auto simp: quiet_def bindS_def split: prod.split sum.split) (metis snd_conv)+

lemma quiet_basic [quiet_intros]:
  "quiet (retS a)" "quiet (liftS r)" "quiet (raiseS e)" "quiet (require b tag)" "quiet reject_line"
  "(\<And>r. ar_passed (f r) = ar_passed r \<and> ar_eligible (f r) = ar_eligible r) \<Longrightarrow> quiet (modifyS f)"
  by (auto simp: quiet_def retS_def liftS_def raiseS_def require_def modifyS_def reject_line_def Let_def)

lemma quiet_requireE [quiet_intros]: "quiet (requireE c tag)"
  by (auto simp: requireE_def intro!: quiet_intros)

lemma quiet_forS [quiet_intros]: "(\<And>x. quiet (f x)) \<Longrightarrow> quiet (forS f xs)"
  by (induction xs) (auto intro!: quiet_intros)

lemma quiet_mapS [quiet_intros]: "(\<And>x. quiet (f x)) \<Longrightarrow> quiet (mapS f xs)"
  by (induction xs) (auto intro!: quiet_intros)

lemma quiet_read_lines [quiet_intros]: "quiet (read_lines env lines)"
  by (induction lines) (auto intro!: quiet_intros split: sum.split)

lemma quiet_steps:
  "quiet (regenerate env base entry campaign)" "quiet (check_metadata entry campaign facts a)"
  "quiet (check_clients facts a)" "quiet (check_summary summary)" "quiet (read_records env facts summary)"
  "quiet (check_records entry campaign ex records)" "quiet (check_sessions py_sum ex records)"
proof -
  have g: "quiet (check_groups actual s)" for actual s
    unfolding check_groups_def by (auto intro!: quiet_intros split: option.split)
  have c: "quiet (check_client v2 clients s)" for v2 clients s
    unfolding check_client_def Let_def by (auto intro!: quiet_intros g)
  have se: "quiet (check_session py_sum g)" for g
    unfolding check_session_def Let_def by (auto intro!: quiet_intros split: list.split)
  show "quiet (regenerate env base entry campaign)" "quiet (check_metadata entry campaign facts a)"
    "quiet (check_summary summary)" "quiet (read_records env facts summary)"
    "quiet (check_records entry campaign ex records)"
    unfolding regenerate_def check_metadata_def check_summary_def read_records_def check_records_def Let_def
    by (auto intro!: quiet_intros simp del: forS.simps)
  show "quiet (check_clients facts a)" "quiet (check_sessions py_sum ex records)"
    unfolding check_clients_def check_sessions_def Let_def split_beta
    by (auto intro!: quiet_intros c se)
qed

lemma grows_steps:
  "grows (check_metadata entry campaign facts a)"
  "grows (check_clients facts a)" "grows (check_summary summary)" "grows (read_records env facts summary)"
  "grows (check_records entry campaign ex records)" "grows (check_sessions py_sum ex records)"
proof -
  show "grows (check_metadata entry campaign facts a)" "grows (check_clients facts a)" "grows (check_summary summary)"
    using checks_metadata checks_clients checks_summary by (auto simp: checks_def)
  show "grows (read_records env facts summary)" "grows (check_records entry campaign ex records)"
    unfolding read_records_def check_records_def Let_def
    by (auto intro!: keep_intros simp del: forS.simps)
  show "grows (check_sessions py_sum ex records)"
    unfolding check_sessions_def split_beta by (intro keep_intros)
qed

definition fails_quietly :: "'a audit \<Rightarrow> bool" where
  "fails_quietly m \<longleftrightarrow> (\<forall>s e t. m s = (Inl e, t) \<longrightarrow> ar_passed t = ar_passed s \<and> ar_eligible t = ar_eligible s)"

lemma fails_quietly_bindS: "quiet m \<Longrightarrow> (\<And>a. fails_quietly (f a)) \<Longrightarrow> fails_quietly (bindS m f)"
  unfolding fails_quietly_def quiet_def bindS_def
  by (auto split: prod.splits sum.splits) (metis snd_conv)+

lemma audit_body_fails_quietly: "fails_quietly (audit_body env base entry campaign)"
proof -
  have m: "fails_quietly (modifyS f)" for f by (auto simp: fails_quietly_def modifyS_def)
  show ?thesis
    unfolding audit_body_def Let_def split_beta
    by (intro fails_quietly_bindS quiet_steps m quiet_basic)
qed

lemma audit_body_verdict:
  assumes "audit_body env base entry campaign s = (Inr w, t)"
  shows "(ar_passed t \<longleftrightarrow> ar_issues t = []) \<and>
    (ar_eligible t \<longrightarrow> ar_passed t \<and> 0 < ar_messages t \<and>
       field_is campaign ''dataset_purpose'' (PyStr ''controlled_experiment'') = Inr True)"
  using assms unfolding audit_body_def Let_def split_beta
  by (auto simp: bindS_Inr_iff field_is_def)

lemma audit_run_verdict:
  assumes "audit_run env base entry campaign = Inr r" and "ar_passed r \<or> ar_eligible r"
  shows "\<exists>run_id sid. clean (audit_body env base entry campaign) (initial_audit run_id sid) () r \<and> ar_passed r \<and>
    (ar_eligible r \<longrightarrow> 0 < ar_messages r \<and>
       field_is campaign ''dataset_purpose'' (PyStr ''controlled_experiment'') = Inr True)"
proof -
  from assms(1) obtain run_id sid where
    run: "(case audit_body env base entry campaign (initial_audit run_id sid) of
       (Inr _, r) \<Rightarrow> Inr r
     | (Inl e, r) \<Rightarrow>
         if audit_catches e
         then Inr (r\<lparr>ar_issues := ar_issues r @ [''audit failed''],
           ar_missing_messages := max 0 (ar_expected_messages r - ar_messages r),
           ar_missing_summaries := max 0 (ar_expected_summaries r - ar_summaries r)\<rparr>)
         else Inl e) = Inr r"
    unfolding audit_run_def by (elim bindE_Inr_iff [THEN iffD1, elim_format] exE conjE)
  obtain x t where
    b: "audit_body env base entry campaign (initial_audit run_id sid) = (x, t)" and
    r: "case x of Inr _ \<Rightarrow> r = t
       | Inl e \<Rightarrow> ar_passed r = ar_passed t \<and> ar_eligible r = ar_eligible t"
  proof -
    obtain x t where "audit_body env base entry campaign (initial_audit run_id sid) = (x, t)" by fastforce
    with run that show thesis by (auto split: sum.splits if_splits)
  qed
  obtain w where x: "x = Inr w"
  proof (cases x)
    case (Inl e)
    have "ar_passed t = False \<and> ar_eligible t = False"
      using audit_body_fails_quietly [of env base entry campaign] b Inl
      by (auto simp: fails_quietly_def initial_audit_def)
    with Inl r assms(2) show ?thesis by simp
  qed (rule that)
  from audit_body_verdict [of env base entry campaign "initial_audit run_id sid" w t] b x r assms(2)
  show ?thesis by (auto simp: clean_def)
qed

lemma py_eq_PyInt_unique: "py_eq x (PyInt m) \<Longrightarrow> py_eq x (PyInt n) \<Longrightarrow> m = n"
  by (cases x) (simp_all add: feq_iff)

lemma field_is_int_unique:
  "field_is v k (PyInt m) = Inr True \<Longrightarrow> field_is v k (PyInt n) = Inr True \<Longrightarrow> m = n"
  by (auto simp: field_is_def bindE_Inr_iff simp del: py_eq.simps dest: py_eq_PyInt_unique)

lemma clean_audit_body:
  assumes "clean (audit_body env base entry campaign) (initial_audit run_id sid) w r"
  shows "\<exists>facts records sigs. facts_ok env base entry campaign facts \<and> records_ok env facts records \<and>
    (\<forall>c\<in>set records. record_of entry campaign c) \<and> distinct (map semantic_key records) \<and>
    list_all2 (\<lambda>(_, g) sig. session_ok (au_sum env) g sig) (group_by lr_session_id records) sigs \<and>
    mset sigs = mset (map expected_signature (ex_sessions (rf_regenerated facts))) \<and>
    int (length records) = ex_expected_records (rf_regenerated facts) \<and>
    ar_messages r = int (length (filter (\<lambda>c. event_type_of (lr_payload c) = ''message'') records)) \<and>
    ar_summaries r = int (length (filter (\<lambda>c. event_type_of (lr_payload c) \<noteq> ''message'') records)) \<and>
    ar_invalid_records r = 0 \<and> ar_record_count r = int (length records) \<and>
    (ar_eligible r \<longrightarrow> ex_message_observable (rf_regenerated facts))"
proof -
  have fin: "grows (modifyS (\<lambda>r. (g r)\<lparr>ar_passed := p r, ar_eligible := q r\<rparr>))"
    if "\<And>r. ar_issues (g r) = ar_issues r" for g p q
    by (auto simp: grows_def modifyS_def that)
  from assms obtain facts a n records s1 s2 s3 s4 s5 w1 w2 w3 w4 s6 w5 s7 where
    st: "clean (regenerate env base entry campaign) (initial_audit run_id sid) facts s1"
      "clean (check_metadata entry campaign facts a) s1 w1 s2"
      "clean (check_clients facts a) s2 w2 s3"
      "clean (check_summary (at_summary a)) s3 w3 s4"
      "clean (read_records env facts (at_summary a)) s4 (n, records) s5"
      "clean (check_records entry campaign (rf_regenerated facts) records) s5 w4 s6"
      "clean (check_sessions (au_sum env) (rf_regenerated facts) records) s6 w5 s7" and
    r: "ar_messages r = ar_messages s7" "ar_summaries r = ar_summaries s7"
      "ar_invalid_records r = ar_invalid_records s7" "ar_record_count r = ar_record_count s7"
      "ar_eligible r \<longrightarrow> ex_message_observable (rf_regenerated facts)"
    unfolding audit_body_def Let_def
    by (auto simp: clean_bindS_iff keep_intros grows_steps fin split_beta)
  have same: "s2 = s1" "s3 = s2" "s4 = s3"
    using checks_clean [OF checks_metadata st(2)] checks_clean [OF checks_clients st(3)]
      checks_clean [OF checks_summary st(4)] by blast+
  note g = regenerate_clean [OF st(1)]
  then have inv: "ar_invalid_records s4 = 0" by (simp add: same initial_audit_def)
  note rr = read_records_clean [OF st(5) inv]
  note cr = check_records_clean [OF st(6)]
  from check_sessions_clean [OF st(7)] obtain sigs where
    ss: "list_all2 (\<lambda>(_, g) sig. session_ok (au_sum env) g sig) (group_by lr_session_id records) sigs"
      "mset sigs = mset (map expected_signature (ex_sessions (rf_regenerated facts)))" "s7 = s6" by blast
  have "int n = ex_expected_records (rf_regenerated facts)"
    using rr by (blast intro: field_is_int_unique)
  with g rr cr ss r inv show ?thesis
    by (intro exI [of _ facts] exI [of _ records] exI [of _ sigs]) auto
qed

text \<open>
  C9: a run that passes the audit is exactly the run that was planned. Its expectations file
  is the one the campaign pinned and equals what the plan, the seed and the scenario
  manifest regenerate; every line of the collected file parses into a record of this run and
  build, collection ids and queue ids are both exactly 1 to n; every session has one summary
  that agrees with its consecutively numbered messages; the sessions seen are, as a multiset
  of frame sizes, bytes and errors, the sessions planned; and the reported message and
  summary counts are the planned totals. A run is offered for training only if it passed,
  was a controlled experiment, and has messages.
\<close>

theorem passed_audit_sound:
  assumes "audit_run env base entry campaign = Inr r" and "ar_passed r \<or> ar_eligible r"
  shows "ar_passed r \<and> (\<exists>facts records sigs. facts_ok env base entry campaign facts \<and> records_ok env facts records \<and>
    (\<forall>c\<in>set records. record_of entry campaign c) \<and> distinct (map semantic_key records) \<and>
    list_all2 (\<lambda>(_, g) sig. session_ok (au_sum env) g sig) (group_by lr_session_id records) sigs \<and>
    mset sigs = mset (map expected_signature (ex_sessions (rf_regenerated facts))) \<and>
    ar_messages r = ex_expected_messages (rf_regenerated facts) \<and>
    ar_summaries r = ex_expected_summaries (rf_regenerated facts) \<and>
    int (length (group_by lr_session_id records)) = ex_expected_sessions (rf_regenerated facts) \<and>
    ar_invalid_records r = 0 \<and>
    (ar_eligible r \<longrightarrow> ex_message_observable (rf_regenerated facts) \<and> 0 < ar_messages r \<and>
       field_is campaign ''dataset_purpose'' (PyStr ''controlled_experiment'') = Inr True))"
proof -
  obtain run_id sid where c: "clean (audit_body env base entry campaign) (initial_audit run_id sid) () r"
    and v: "ar_passed r" "ar_eligible r \<longrightarrow> 0 < ar_messages r \<and>
       field_is campaign ''dataset_purpose'' (PyStr ''controlled_experiment'') = Inr True"
    using audit_run_verdict [OF assms] by blast
  from clean_audit_body [OF c] obtain facts records sigs where
    f: "facts_ok env base entry campaign facts" "records_ok env facts records"
      "\<forall>c\<in>set records. record_of entry campaign c" "distinct (map semantic_key records)"
      "list_all2 (\<lambda>(_, g) sig. session_ok (au_sum env) g sig) (group_by lr_session_id records) sigs"
      "mset sigs = mset (map expected_signature (ex_sessions (rf_regenerated facts)))" and
    n: "int (length records) = ex_expected_records (rf_regenerated facts)"
      "ar_messages r = int (length (filter (\<lambda>c. event_type_of (lr_payload c) = ''message'') records))"
      "ar_summaries r = int (length (filter (\<lambda>c. event_type_of (lr_payload c) \<noteq> ''message'') records))"
      "ar_invalid_records r = 0" "ar_eligible r \<longrightarrow> ex_message_observable (rf_regenerated facts)"
    by blast
  from f(1) obtain seed run_id' where
    "build_expectations (au_rng env) (au_frame_hash env) (rf_profile facts) seed run_id'
       (sn_label (rf_scenario facts)) = Inr (rf_regenerated facts)"
    by (auto simp: facts_ok_def)
  note t = build_expectations_totals [OF this]
  have m: "ar_messages r = ex_expected_messages (rf_regenerated facts)"
    using sessions_total(1) [OF f(5,6)] n(2) t by simp
  have "int (length records) = ar_messages r + ar_summaries r"
    using sum_length_filter_compl [of "\<lambda>c. event_type_of (lr_payload c) = ''message''" records] n(2,3) by simp
  with m n(1) t have sm: "ar_summaries r = ex_expected_summaries (rf_regenerated facts)" by simp
  have "int (length (group_by lr_session_id records)) = ex_expected_sessions (rf_regenerated facts)"
    using sessions_total(2) [OF f(5,6)] t by simp
  with f m sm n v show ?thesis by (intro conjI exI) auto
qed

end
