(* ===== verification/Quality_Campaign.thy ===== *)
theory Quality_Campaign
  imports Quality_Sound
begin

text \<open>
  \<open>audit_campaign\<close> of \<open>data_collection/quality.py\<close>: the audit of every run of a campaign, the
  comparison of its entries with the plan, and the label counts offered for training.
\<close>

section \<open>Counts by unit and label\<close>

type_synonym label_counts = "(string \<times> (string \<times> int) list) list"

definition zero_counts :: "string list \<Rightarrow> label_counts" where
  "zero_counts units = map (\<lambda>u. (u, [(''0'', 0), (''1'', 0)])) units"

definition add_count :: "string \<Rightarrow> label_counts \<Rightarrow> string \<times> int \<Rightarrow> label_counts res" where
  "add_count label d p =
     bindE (lookupE d (fst p)) (\<lambda>c. bindE (lookupE c label) (\<lambda>n.
     Inr (dict_set (fst p) (dict_set label (n + snd p) c) d)))"

definition label_str :: "int option \<Rightarrow> string" where
  "label_str l = (case l of None \<Rightarrow> ''None'' | Some n \<Rightarrow> int_str n)"

definition add_run :: "(audit_result \<Rightarrow> (string \<times> int) list) \<Rightarrow> label_counts \<Rightarrow> audit_result \<Rightarrow> label_counts res" where
  "add_run units d r = foldE (add_count (label_str (ar_label r))) d (units r)"

definition validated_units :: "audit_result \<Rightarrow> (string \<times> int) list" where
  "validated_units r = [(''runs'', 1), (''sessions'', ar_sessions r), (''messages'', ar_messages r),
     (''session_summaries'', ar_summaries r)]"

definition candidate_units :: "audit_result \<Rightarrow> (string \<times> int) list" where
  "candidate_units r = [(''runs'', 1), (''sessions'', ar_sessions r), (''messages'', ar_messages r)]"

record scenario_count =
  sc_label :: "int option"
  sc_runs :: int
  sc_sessions :: int
  sc_messages :: int
  sc_summaries :: int

definition add_scenario :: "(string, scenario_count) dict \<Rightarrow> audit_result \<Rightarrow> (string, scenario_count) dict" where
  "add_scenario d r =
     (let c = (case dict_get d (ar_scenario_id r) of Some c \<Rightarrow> c
               | None \<Rightarrow> \<lparr>sc_label = ar_label r, sc_runs = 0, sc_sessions = 0, sc_messages = 0, sc_summaries = 0\<rparr>) in
      dict_set (ar_scenario_id r)
        \<lparr>sc_label = sc_label c, sc_runs = sc_runs c + 1, sc_sessions = sc_sessions c + ar_sessions r,
         sc_messages = sc_messages c + ar_messages r, sc_summaries = sc_summaries c + ar_summaries r\<rparr> d)"

section \<open>The campaign report\<close>

record campaign_report =
  rp_campaign_id :: string
  rp_purpose :: py
  rp_passed :: bool
  rp_run_count :: int
  rp_passed_runs :: int
  rp_eligible_runs :: int
  rp_totals :: "(string \<times> int) list"
  rp_labels :: label_counts
  rp_candidates :: label_counts
  rp_scenarios :: "(string, scenario_count) dict"
  rp_issues :: "string list"
  rp_runs :: "audit_result list"

definition total_names :: "(string \<times> (audit_result \<Rightarrow> int)) list" where
  "total_names = [(''sessions'', ar_sessions), (''messages'', ar_messages), (''summaries'', ar_summaries),
     (''record_count'', ar_record_count), (''invalid_records'', ar_invalid_records),
     (''duplicate_records'', ar_duplicate_records), (''missing_messages'', ar_missing_messages),
     (''missing_summaries'', ar_missing_summaries), (''unexpected_records'', ar_unexpected_records)]"

definition entry_matches :: "(string \<times> string \<times> int \<times> int) list \<Rightarrow> py \<Rightarrow> bool res" where
  "entry_matches canonical entry =
     bindE (bindE (py_item entry ''run_id'') py_str) (\<lambda>rid.
     bindE (py_item entry ''scenario_id'') (\<lambda>sid.
     bindE (py_item entry ''repeat_index'') (\<lambda>rep.
     bindE (py_item entry ''seed'') (\<lambda>seed.
     Inr (case map_of (rev canonical) rid of None \<Rightarrow> False
       | Some (s, r, n) \<Rightarrow> py_eq sid (PyStr s) \<and> py_eq rep (PyInt r) \<and> py_eq seed (PyInt n))))))"

text \<open>The issues of the campaign; \<open>run_dirs\<close> are the directories found under \<open>runs\<close>.\<close>

definition campaign_issues ::
    "(string \<Rightarrow> wire) \<Rightarrow> string list \<Rightarrow> py \<Rightarrow> py list \<Rightarrow> string list \<Rightarrow> string \<Rightarrow> string list res" where
  "campaign_issues digest run_dirs campaign entries ids cid =
     bindE (bindE (py_item campaign ''plan_snapshot'') parse_plan) (\<lambda>plan.
     bindE (planned_runs digest plan) (\<lambda>runs.
     let canonical = map (\<lambda>(r, p, seed). (run_id_of cid r p, scenario_name (tp_scenario p), r, seed)) runs in
     bindE (mapE (entry_matches canonical) entries) (\<lambda>matches.
     Inr ((if distinct ids then [] else [''duplicate run ids''])
       @ (if set run_dirs \<subseteq> set ids then [] else [''unplanned run directory''])
       @ (if set ids = set (map fst canonical) then [] else [''missing or extra runs''])
       @ concat (map (\<lambda>(i, ok). if ok then [] else [i]) (zip ids matches))))))"

text \<open>A campaign with issues offers no run for training.\<close>

definition final_results :: "string list \<Rightarrow> audit_result list \<Rightarrow> audit_result list" where
  "final_results issues results =
     (if \<not> (issues = [] \<and> list_all ar_passed results) \<and> issues \<noteq> []
      then map (\<lambda>r. r\<lparr>ar_eligible := False\<rparr>) results else results)"

definition make_report :: "string \<Rightarrow> py \<Rightarrow> string list \<Rightarrow> audit_result list \<Rightarrow> campaign_report res" where
  "make_report cid purpose issues results =
     bindE (foldE (add_run validated_units) (zero_counts [''runs'', ''sessions'', ''messages'', ''session_summaries''])
       (filter ar_passed results)) (\<lambda>labels.
     let final = final_results issues results in
     bindE (foldE (add_run candidate_units) (zero_counts [''runs'', ''sessions'', ''messages''])
       (filter ar_eligible final)) (\<lambda>candidates.
     Inr \<lparr>rp_campaign_id = cid, rp_purpose = purpose, rp_passed = (issues = [] \<and> list_all ar_passed results),
       rp_run_count = int (length final), rp_passed_runs = int (length (filter ar_passed final)),
       rp_eligible_runs = int (length (filter ar_eligible final)),
       rp_totals = map (\<lambda>(n, f). (n, sum_list (map f final))) total_names,
       rp_labels = labels, rp_candidates = candidates,
       rp_scenarios = foldl add_scenario [] (filter ar_passed results), rp_issues = issues,
       rp_runs = final\<rparr>))"

definition audit_campaign ::
    "'r audit_env \<Rightarrow> (string \<Rightarrow> wire) \<Rightarrow> string list \<Rightarrow> path \<Rightarrow> campaign_report res" where
  "audit_campaign env digest run_dirs base =
     bindE (read_json env (path_join base (Rel [''campaign_manifest.json'']))) (\<lambda>campaign.
     bindE (bindE (py_item campaign ''runs'') py_iter) (\<lambda>entries.
     bindE (mapE (\<lambda>e. audit_run env base e campaign) entries) (\<lambda>results.
     bindE (mapE (\<lambda>e. bindE (py_item e ''run_id'') py_str) entries) (\<lambda>ids.
     bindE (bindE (py_item campaign ''campaign_id'') py_str) (\<lambda>cid.
     bindE (campaign_issues digest run_dirs campaign entries ids cid) (\<lambda>issues.
     bindE (py_item campaign ''dataset_purpose'') (\<lambda>purpose.
     make_report cid purpose issues results)))))))"

section \<open>What the counts are\<close>

definition count_of :: "label_counts \<Rightarrow> string \<Rightarrow> string \<Rightarrow> int" where
  "count_of d u l = (case map_of d u of None \<Rightarrow> 0
     | Some c \<Rightarrow> (case map_of c l of None \<Rightarrow> 0 | Some n \<Rightarrow> n))"

definition unit_amount :: "(string \<times> int) list \<Rightarrow> string \<Rightarrow> int" where
  "unit_amount us u = sum_list (map snd (filter (\<lambda>p. fst p = u) us))"

lemma add_count_count:
  "add_count l d p = Inr d' \<Longrightarrow>
     count_of d' u k = count_of d u k + (if k = l \<and> u = fst p then snd p else 0)"
proof -
  assume "add_count l d p = Inr d'"
  then obtain c n where "map_of d (fst p) = Some c" "map_of c l = Some n"
    "d' = dict_set (fst p) (dict_set l (n + snd p) c) d"
    by (auto simp: add_count_def bindE_Inr_iff)
  then show ?thesis by (cases "u = fst p") (auto simp: count_of_def)
qed

lemma add_counts_count:
  "foldE (add_count l) d us = Inr d' \<Longrightarrow>
     count_of d' u k = count_of d u k + (if k = l then unit_amount us u else 0)"
proof (induction us arbitrary: d)
  case Nil
  then show ?case by (simp add: unit_amount_def)
next
  case (Cons p us)
  then obtain e where "add_count l d p = Inr e" "foldE (add_count l) e us = Inr d'"
    by (auto simp: bindE_Inr_iff)
  with Cons.IH [of e] add_count_count [of l d p e u k] show ?case
    by (auto simp: unit_amount_def)
qed

lemma add_runs_count:
  "foldE (add_run units) d rs = Inr d' \<Longrightarrow>
     count_of d' u k = count_of d u k
       + sum_list (map (\<lambda>r. unit_amount (units r) u) (filter (\<lambda>r. label_str (ar_label r) = k) rs))"
proof (induction rs arbitrary: d)
  case Nil
  then show ?case by simp
next
  case (Cons r rs)
  then obtain e where e: "add_run units d r = Inr e" "foldE (add_run units) e rs = Inr d'"
    by (auto simp: bindE_Inr_iff)
  from e(1) have "foldE (add_count (label_str (ar_label r))) d (units r) = Inr e" by (simp add: add_run_def)
  with Cons.IH [OF e(2)] add_counts_count [of _ d "units r" e u k] show ?case by auto
qed

lemma count_of_zero: "count_of (zero_counts us) u k = 0"
proof -
  have "map_of (zero_counts us) u = (if u \<in> set us then Some [(''0'', 0), (''1'', 0)] else None)"
    by (induction us) (auto simp: zero_counts_def)
  then show ?thesis by (simp add: count_of_def)
qed

lemma unit_amount_messages: "unit_amount (candidate_units r) ''messages'' = ar_messages r"
  by (simp add: unit_amount_def candidate_units_def)

lemma make_report_facts:
  assumes "make_report cid purpose issues results = Inr rep"
  shows "rp_campaign_id rep = cid" and "rp_issues rep = issues"
    and "rp_passed rep \<longleftrightarrow> issues = [] \<and> list_all ar_passed results"
    and "rp_runs rep = final_results issues results"
    and "foldE (add_run candidate_units) (zero_counts [''runs'', ''sessions'', ''messages''])
       (filter ar_eligible (rp_runs rep)) = Inr (rp_candidates rep)"
    and "rp_eligible_runs rep = int (length (filter ar_eligible (rp_runs rep)))"
    and "rp_passed_runs rep = int (length (filter ar_passed (rp_runs rep)))"
  using assms by (auto simp: make_report_def Let_def bindE_Inr_iff)

lemma campaign_issues_none:
  assumes "campaign_issues digest run_dirs campaign entries ids cid = Inr []"
  shows "\<exists>plan runs. bindE (py_item campaign ''plan_snapshot'') parse_plan = Inr plan \<and>
    planned_runs digest plan = Inr runs \<and> distinct ids \<and> set run_dirs \<subseteq> set ids \<and>
    set ids = (\<lambda>(r, p, seed). run_id_of cid r p) ` set runs"
proof -
  from assms obtain plan runs where p: "bindE (py_item campaign ''plan_snapshot'') parse_plan = Inr plan"
      "planned_runs digest plan = Inr runs" and
    "distinct ids" "set run_dirs \<subseteq> set ids"
    and s: "set ids = set (map fst (map (\<lambda>(r, p, seed). (run_id_of cid r p, scenario_name (tp_scenario p), r, seed)) runs))"
    unfolding campaign_issues_def Let_def
    by (auto simp: bindE_Inr_iff split: if_splits)
  moreover have "set ids = (\<lambda>(r, p, seed). run_id_of cid r p) ` set runs"
    unfolding s by force
  ultimately show ?thesis by blast
qed

lemma no_candidates:
  "issues \<noteq> [] \<Longrightarrow> filter ar_eligible (final_results issues results) = []"
  by (auto simp: final_results_def filter_empty_conv)

text \<open>
  C33: a campaign offers only audited runs for training, and only when it matches its plan.
  The report passes exactly when there is no campaign issue and every run passed; with any
  issue no run is eligible and the candidate counts are zero; without one the run ids are
  distinct, no directory is left over and the ids are exactly those the plan generates; and
  the candidate messages of a label are the messages of the eligible runs of that label.
\<close>

theorem campaign_report_sound:
  assumes "audit_campaign env digest run_dirs base = Inr rep"
  shows "(rp_issues rep \<noteq> [] \<longrightarrow> rp_eligible_runs rep = 0 \<and> \<not> rp_passed rep) \<and>
    (\<forall>k. count_of (rp_candidates rep) ''messages'' k =
       sum_list (map ar_messages (filter (\<lambda>r. ar_eligible r \<and> label_str (ar_label r) = k) (rp_runs rep)))) \<and>
    (\<exists>campaign entries results ids plan runs.
       read_json env (path_join base (Rel [''campaign_manifest.json''])) = Inr campaign \<and>
       list_all2 (\<lambda>e r. audit_run env base e campaign = Inr r) entries results \<and>
       list_all2 (\<lambda>e i. bindE (py_item e ''run_id'') py_str = Inr i) entries ids \<and>
       (rp_passed rep \<longleftrightarrow> rp_issues rep = [] \<and> list_all ar_passed results) \<and>
       (rp_issues rep = [] \<longrightarrow> rp_runs rep = results \<and>
          bindE (py_item campaign ''plan_snapshot'') parse_plan = Inr plan \<and>
          planned_runs digest plan = Inr runs \<and> distinct ids \<and> set run_dirs \<subseteq> set ids \<and>
          set ids = (\<lambda>(r, p, seed). run_id_of (rp_campaign_id rep) r p) ` set runs))"
proof -
  from assms obtain campaign entries results ids cid issues purpose where
    a: "read_json env (path_join base (Rel [''campaign_manifest.json''])) = Inr campaign"
      "mapE (\<lambda>e. audit_run env base e campaign) entries = Inr results"
      "mapE (\<lambda>e. bindE (py_item e ''run_id'') py_str) entries = Inr ids"
      "campaign_issues digest run_dirs campaign entries ids cid = Inr issues"
      "make_report cid purpose issues results = Inr rep"
    unfolding audit_campaign_def by (auto simp: bindE_Inr_iff)
  note m = make_report_facts [OF a(5)]
  have k: "count_of (rp_candidates rep) ''messages'' k =
       sum_list (map ar_messages (filter (\<lambda>r. ar_eligible r \<and> label_str (ar_label r) = k) (rp_runs rep)))" for k
    using add_runs_count [OF m(5), of "''messages''" k]
    by (simp add: count_of_zero unit_amount_messages conj_commute)
  have z: "rp_eligible_runs rep = 0 \<and> \<not> rp_passed rep" if "rp_issues rep \<noteq> []"
    using that m no_candidates [of issues results] by simp
  show ?thesis
  proof (cases "issues = []")
    case True
    from campaign_issues_none [of digest run_dirs campaign entries ids cid] a(4) True obtain plan runs where
      "bindE (py_item campaign ''plan_snapshot'') parse_plan = Inr plan" "planned_runs digest plan = Inr runs"
      "distinct ids" "set run_dirs \<subseteq> set ids" "set ids = (\<lambda>(r, p, seed). run_id_of cid r p) ` set runs" by auto
    with a(1-3) m True k show ?thesis
      unfolding mapE_Inr_iff final_results_def
      by (intro conjI allI exI [of _ campaign] exI [of _ entries] exI [of _ results] exI [of _ ids]
          exI [of _ plan] exI [of _ runs]) simp_all
  next
    case False
    with a(1-3) m z k show ?thesis
      unfolding mapE_Inr_iff
      by (intro conjI allI exI [of _ campaign] exI [of _ entries] exI [of _ results] exI [of _ ids] exI) auto
  qed
qed

end
