(* ===== verification/Quality_Example.thy ===== *)
theory Quality_Example
  imports Quality_Campaign
begin

text \<open>
  A concrete campaign of one run with a rejected header: the artefacts such a run leaves, and
  the audit that passes on them. The files are named by their last path component and the
  JSON decoder is the table of their contents.
\<close>

fun json_of :: "py \<Rightarrow> json" where
  "json_of PyNone = JNull"
| "json_of (PyBool b) = JBool b"
| "json_of (PyInt n) = JInt n"
| "json_of (PyFloat x) = JFloat x"
| "json_of (PyStr s) = JStr s"
| "json_of (PyList xs) = JList (map json_of xs)"
| "json_of (PyDict d) = JObj (map (\<lambda>p. (fst p, json_of (snd p))) d)"

definition demo_run_id :: string where
  "demo_run_id = ''c_r00_invalid_frame_size''"

definition header_scenario :: py where
  "header_scenario = PyDict [(''scenario_id'', PyStr ''invalid_frame_size''), (''label'', PyInt 1),
     (''label_name'', PyStr ''controlled_anomaly''), (''description'', PyStr ''d''),
     (''traffic_profile'', PyStr ''p'')]"

definition header_manifest :: py where
  "header_manifest = PyDict [(''manifest_version'', PyStr ''v1''),
     (''label_source'', PyStr ''independent_scenario_definition''), (''scenarios'', PyList [header_scenario])]"

definition header_entry :: py where
  "header_entry = PyDict [(''run_id'', PyStr demo_run_id), (''scenario_id'', PyStr ''invalid_frame_size''),
     (''expectations_file'', PyStr ''e''), (''expectations_sha256'', PyStr ''h''),
     (''repeat_index'', PyInt 0), (''seed'', PyInt 7), (''independent_label'', PyInt 1)]"

definition shared_metadata :: "(string \<times> py) list" where
  "shared_metadata = [(''scenario_manifest_snapshot'', header_manifest), (''source_manifest_sha256'', PyStr ''s''),
     (''server_build_id'', PyStr ''b''), (''operational_contract_sha256'', PyStr ''o''),
     (''operational_contract_snapshot'', PyDict []), (''dataset_purpose'', PyStr ''integration_test'')]"

definition header_campaign :: py where
  "header_campaign = PyDict ([(''campaign_id'', PyStr ''c''), (''runs'', PyList [header_entry]),
     (''plan_snapshot'', PyDict [(''plan_version'', PyStr ''v1''), (''seed'', PyInt 7), (''repeats'', PyInt 1),
       (''profiles'', PyList [PyDict [(''scenario_id'', PyStr ''invalid_frame_size''), (''sessions'', PyInt 1),
          (''concurrency'', PyInt 1), (''messages_min'', PyInt 1), (''messages_max'', PyInt 1),
          (''text_sizes'', PyList [PyInt 1])]])])] @ shared_metadata)"

definition header_profile :: traffic_profile where
  "header_profile = \<lparr>tp_scenario = InvalidFrameSize, tp_sessions = 1, tp_concurrency = 1,
     tp_messages_min = 1, tp_messages_max = 1, tp_text_sizes = [1], tp_interval_min_ms = 10,
     tp_interval_max_ms = 30, tp_batch_size = None, tp_fragment_size_bytes = None\<rparr>"

definition ids :: "(string \<times> py) list" where
  "ids = [(''run_id'', PyStr demo_run_id), (''scenario_id'', PyStr ''invalid_frame_size'')]"

definition header_summary :: request where
  "header_summary = SummaryRequest
     \<lparr>sr_queue_sequence_id = 1, sr_timestamp = ''2026-01-01T00:00:00Z'',
      sr_session = \<lparr>ss_session_id = 5, ss_socket_handle = 1, ss_logic_worker_id = 0, ss_is_started = True,
        ss_is_closed = True, ss_connection_duration_ms = Fin 0, ss_bytes_received_total = 8,
        ss_bytes_sent_total = 0, ss_recv_event_count = 1, ss_send_event_count = 0, ss_request_count = 0,
        ss_error_count = 1, ss_avg_message_interval_ms = Fin 0, ss_last_error_code = 0,
        ss_last_error_message = the (error_message InvalidFrameSize)\<rparr>,
      sr_features = \<lparr>sf_connection_duration_ms = Fin 0, sf_bytes_received_total = 8,
        sf_bytes_sent_total = 0, sf_recv_event_count = 1, sf_send_event_count = 0, sf_request_count = 0,
        sf_error_count = 1, sf_avg_message_interval_ms = Fin 0\<rparr>\<rparr>"

definition header_record :: py where
  "header_record = PyDict (ids @ [(''record_schema_version'', PyStr ''v1''), (''collection_sequence_id'', PyInt 1),
     (''received_at_utc'', PyStr ''t''), (''server_build_id'', PyStr ''b''), (''session_id'', PyInt 5),
     (''request_index'', PyNone), (''label_reference'', PyStr ''run_manifest.json:selected_scenario''),
     (''payload'', PyDict (model_dump header_summary))])"

definition header_expectations :: expectations where
  "header_expectations = \<lparr>ex_version = ''v1'', ex_generator_version = ''application_traffic_v1'',
     ex_run_id = demo_run_id, ex_scenario_id = ''invalid_frame_size'', ex_independent_label = 1, ex_seed = 7,
     ex_profile = header_profile,
     ex_sessions = [\<lparr>sp_client_index = 0,
       sp_frames = [\<lparr>fp_wire_hex = ''0000000000000007'', fp_wire_size = 8, fp_wire_sha256 = ''f'',
         fp_interval_after_ms = 10\<rparr>],
       sp_expected_message_frames = [], sp_expected_responses = 0, sp_expected_error_count = 1,
       sp_expected_last_error_message = ''invalid packet size'', sp_transport_controls = None,
       sp_expected_sendall_calls = None\<rparr>],
     ex_expected_sessions = 1, ex_expected_messages = 0, ex_expected_summaries = 1,
     ex_expected_records = 1, ex_message_observable = False\<rparr>"

definition header_files :: "(string \<times> py) list" where
  "header_files =
    [(''campaign_manifest.json'', header_campaign),
     (''e'', dump_expectations header_expectations),
     (''run_manifest.json'', PyDict (ids @ [(''selected_scenario'', header_scenario),
        (''label_source'', PyStr ''independent_scenario_definition'')] @ shared_metadata)),
     (''collection_summary.json'', PyDict (ids @
        map (\<lambda>k. (k, PyBool True)) [''complete'', ''shutdown_complete''] @
        [(''shutdown_timed_out'', PyBool False), (''write_error'', PyNone), (''summary_error'', PyNone)] @
        map (\<lambda>k. (k, PyInt 0)) [''dropped_full'', ''dropped_closed'', ''dropped_failed'', ''failed_records'',
          ''pending'', ''in_flight'', ''unfinished''] @
        map (\<lambda>k. (k, PyInt 1)) [''attempted'', ''enqueued'', ''written'', ''flushed''])),
     (demo_run_id @ ''_runtime.json'', PyDict [(''run_id'', PyStr demo_run_id), (''passed'', PyBool True),
        (''server_shutdown'', PyDict [(''graceful'', PyBool True)]),
        (''api_shutdown'', PyDict [(''graceful'', PyBool True)])]),
     (demo_run_id @ ''_traffic.json'', PyDict (ids @ [(''passed'', PyBool True),
        (''sessions'', PyList [PyDict [(''client_index'', PyInt 0), (''passed'', PyBool True),
          (''connected'', PyBool True), (''frames_sent'', PyInt 1), (''bytes_sent'', PyInt 8),
          (''responses_received'', PyInt 0)]])])),
     (''L'', header_record)]"

fun last_part :: "path \<Rightarrow> string" where
  "last_part (Abs p) = last p"
| "last_part (Rel p) = last p"

definition header_env :: "unit audit_env" where
  "header_env = \<lparr>au_rng = zero_rng, au_resolve = (\<lambda>p. p), au_text_sig = (\<lambda>p. Inr (last_part p)),
     au_text = (\<lambda>p. Inr ([CHR ''L'', CHR 10])), au_file_hash = (\<lambda>p. Inr ''h''),
     au_decode = (\<lambda>s. map_option json_of (map_of header_files s)),
     au_fromiso = (\<lambda>_. Some (Aware 0 0)), au_frame_hash = (\<lambda>_. ''f''), au_sum = (\<lambda>_. Fin 0)\<rparr>"

definition header_facts :: run_facts where
  "header_facts = \<lparr>rf_run_dir = Abs [''r'', ''runs'', demo_run_id], rf_profile = header_profile,
     rf_source = projr (parse_manifest header_manifest), rf_scenario = hd (sm_scenarios (projr (parse_manifest header_manifest))),
     rf_regenerated = header_expectations\<rparr>"

definition header_start :: audit_result where
  "header_start = (initial_audit demo_run_id ''invalid_frame_size'')
     \<lparr>ar_label := Some 1, ar_expected_summaries := 1\<rparr>"

definition header_artefacts :: artefacts where
  "header_artefacts = projr (read_artefacts header_env (Abs [''r'']) (rf_run_dir header_facts) demo_run_id)"

lemma header_regenerate:
  "regenerate header_env (Abs [''r'']) header_entry header_campaign
     (initial_audit demo_run_id ''invalid_frame_size'') = (Inr header_facts, header_start)"
  by code_simp

lemma header_artefacts_read:
  "isl (read_artefacts header_env (Abs [''r'']) (rf_run_dir header_facts) demo_run_id) = False"
  by code_simp

lemma header_metadata:
  "check_metadata header_entry header_campaign header_facts header_artefacts header_start = (Inr (), header_start)"
  by code_simp

lemma header_clients: "check_clients header_facts header_artefacts header_start = (Inr (), header_start)"
  by code_simp

lemma header_statistics: "check_summary (at_summary header_artefacts) header_start = (Inr (), header_start)"
  by code_simp

definition header_collected :: line_record where
  "header_collected = \<lparr>lr_sequence_id = 1, lr_received_at = ''t'', lr_run_id = demo_run_id,
     lr_scenario_id = ''invalid_frame_size'', lr_server_build_id = ''b'', lr_session_id = 5,
     lr_request_index = None, lr_payload = header_summary\<rparr>"

lemma header_summary_ok: "request_ok (\<lambda>_. Some (Aware 0 0)) header_summary"
  by (simp add: header_summary_def summary_ok_def summary_ranges_def ms_ok_def
      summary_mirrors_def utc_timestamp_def)

lemma header_record_parses: "parse_collected (\<lambda>_. Some (Aware 0 0)) header_record = Inr header_collected"
proof -
  note p = parse_request_dump [OF header_summary_ok]
  have "payload_session_id header_summary = 5" "payload_request_index header_summary = None"
    by (simp_all add: header_summary_def)
  with p show ?thesis
    by (simp add: parse_collected_def header_record_def ids_def field_def lookupE_def literal_field_def
        check_def payload_field_def validate_metadata_def header_collected_def insert_commute)
qed

lemma header_line_parses: "parse_json (au_decode header_env) ''L'' = Inr header_record"
  by code_simp

lemma header_lines: "split_lines [] [CHR ''L'', CHR 10] = [''L'']"
  by code_simp

lemma header_read_lines: "read_lines header_env [''L''] s = (Inr [header_collected], s)"
  using header_line_parses header_record_parses
  by (simp add: header_env_def bindS_def retS_def)

definition header_read :: audit_result where
  "header_read = header_start\<lparr>ar_record_count := 1\<rparr>"

lemma header_statistics_fields:
  "forS (\<lambda>k. requireE (field_is (at_summary header_artefacts) k (PyInt 1)) tag)
     [''attempted'', ''enqueued'', ''written'', ''flushed''] header_read = (Inr (), header_read)"
  "requireE (field_is (at_summary header_artefacts) ''enqueued'' (PyInt 1)) tag header_read = (Inr (), header_read)"
  by code_simp+

lemma header_read_records:
  "read_records header_env header_facts (at_summary header_artefacts) header_start
     = (Inr (1, [header_collected]), header_read)"
proof -
  have t: "au_text header_env p = Inr [CHR ''L'', CHR 10]" for p by (simp add: header_env_def)
  have ids: "map lr_sequence_id [header_collected] = map int [1..<length [''L''] + 1]"
    "sort (map (payload_queue_id \<circ> lr_payload) [header_collected]) = map int [1..<length [''L''] + 1]"
    by (simp_all add: header_collected_def header_summary_def)
  have "ex_expected_records (rf_regenerated header_facts) = 1"
    by (simp add: header_facts_def header_expectations_def)
  then show ?thesis
    using ids header_statistics_fields
    by (simp add: read_records_def t header_lines header_read_lines bindS_def liftS_def modifyS_def
        require_def retS_def header_read_def [symmetric]
        del: forS.simps split_lines.simps read_lines.simps)
qed

definition header_counted :: audit_result where
  "header_counted = header_read\<lparr>ar_sessions := 1, ar_summaries := 1\<rparr>"

lemma header_check_records:
  "check_records header_entry header_campaign header_expectations [header_collected] header_read
     = (Inr (), header_counted)"
  by code_simp

lemma header_check_sessions:
  "check_sessions (au_sum header_env) header_expectations [header_collected] header_counted
     = (Inr (), header_counted)"
  by code_simp

lemma header_purpose: "py_item header_campaign ''dataset_purpose'' = Inr (PyStr ''integration_test'')"
  by code_simp

definition header_result :: audit_result where
  "header_result = header_counted\<lparr>ar_passed := True,
     ar_warnings := [''no message snapshots'', ''integration test'']\<rparr>"

lemma header_audit: "audit_run header_env (Abs [''r'']) header_entry header_campaign = Inr header_result"
proof -
  have f: "rf_regenerated header_facts = header_expectations" "ex_run_id header_expectations = demo_run_id"
    "ex_message_observable header_expectations = False"
    by (simp_all add: header_facts_def header_expectations_def)
  have ra: "read_artefacts header_env (Abs [''r'']) (rf_run_dir header_facts) demo_run_id = Inr header_artefacts"
    using header_artefacts_read
    by (cases "read_artefacts header_env (Abs [''r'']) (rf_run_dir header_facts) demo_run_id")
      (auto simp: header_artefacts_def)
  have i: "ar_issues header_counted = []" "ar_warnings header_counted = []" "ar_eligible header_counted = False"
    by (simp_all add: header_counted_def header_read_def header_start_def initial_audit_def)
  have b: "audit_body header_env (Abs [''r'']) header_entry header_campaign
     (initial_audit demo_run_id ''invalid_frame_size'') = (Inr (), header_result)"
    by (simp add: audit_body_def bindS_def liftS_def modifyS_def header_regenerate f ra header_metadata
        header_clients header_statistics header_read_records header_check_records header_check_sessions
        header_purpose i header_result_def)
  have "bindE (py_item header_entry ''run_id'') py_str = Inr demo_run_id"
    "bindE (py_item header_entry ''scenario_id'') py_str = Inr ''invalid_frame_size''"
    by (simp_all add: header_entry_def lookupE_def)
  with b show ?thesis by (simp add: audit_run_def)
qed

lemma passed_audit_sound_witness:
  "\<exists>facts records. facts_ok header_env (Abs [''r'']) header_entry header_campaign facts \<and>
     records_ok header_env facts records \<and> ar_summaries header_result = ex_expected_summaries (rf_regenerated facts)"
proof -
  have "ar_passed header_result \<or> ar_eligible header_result" by (simp add: header_result_def)
  from passed_audit_sound [OF header_audit this] show ?thesis by blast
qed

definition header_report :: campaign_report where
  "header_report = projr (make_report ''c'' (PyStr ''integration_test'') [] [header_result])"

lemma header_report_made: "make_report ''c'' (PyStr ''integration_test'') [] [header_result] = Inr header_report"
proof -
  have "isl (make_report ''c'' (PyStr ''integration_test'') [] [header_result]) = False" by code_simp
  then show ?thesis
    by (cases "make_report ''c'' (PyStr ''integration_test'') [] [header_result]") (auto simp: header_report_def)
qed

lemma header_issues:
  "campaign_issues (\<lambda>_. []) [demo_run_id] header_campaign [header_entry] [demo_run_id] ''c'' = Inr []"
  by code_simp

lemma header_campaign_audit: "audit_campaign header_env (\<lambda>_. []) [demo_run_id] (Abs [''r'']) = Inr header_report"
proof -
  have r: "read_json header_env (path_join (Abs [''r'']) (Rel [''campaign_manifest.json''])) = Inr header_campaign"
    by code_simp
  have f: "bindE (py_item header_campaign ''runs'') py_iter = Inr [header_entry]"
    "bindE (py_item header_campaign ''campaign_id'') py_str = Inr ''c''"
    "bindE (py_item header_entry ''run_id'') py_str = Inr demo_run_id"
    by (simp_all add: header_campaign_def header_entry_def lookupE_def)
  show ?thesis
    by (simp only: audit_campaign_def r f bindE_simps mapE.simps header_audit header_issues header_purpose
        header_report_made)
qed

lemma campaign_report_sound_witness:
  "\<forall>k. count_of (rp_candidates header_report) ''messages'' k =
     sum_list (map ar_messages (filter (\<lambda>r. ar_eligible r \<and> label_str (ar_label r) = k) (rp_runs header_report)))"
  using campaign_report_sound [OF header_campaign_audit] by blast

end
