(* ===== verification/Dataset_Split.thy ===== *)
theory Dataset_Split
  imports Quality_Campaign
begin

text \<open>
  \<open>data_preparation/operational_dataset.py\<close>: the dataset configuration, the split of the runs
  into train, validation and test by whole blocks, the identity checks between the splits
  and the duplicate report. Times are microseconds since the epoch.
\<close>

section \<open>Configuration\<close>

datatype split = Train | Validation | Test

definition SPLITS :: "split list" where
  "SPLITS = [Train, Validation, Test]"

fun split_name :: "split \<Rightarrow> string" where
  "split_name Train = ''train''"
| "split_name Validation = ''validation''"
| "split_name Test = ''test''"

lemma set_SPLITS [simp]: "set SPLITS = UNIV"
  using split.exhaust by (auto simp: SPLITS_def)

lemma split_name_inject [simp]: "split_name a = split_name b \<longleftrightarrow> a = b"
  by (cases a; cases b) simp_all

datatype split_policy = Chronological | Preassigned

record dataset_config =
  dc_version :: string
  dc_dataset_id :: string
  dc_campaign_dirs :: "path list"
  dc_output_dir :: path
  dc_policy :: split_policy
  dc_registry :: "path option"
  dc_validation_blocks :: int
  dc_test_blocks :: int
  dc_all_scenarios :: bool
  dc_duplicate_error :: bool

definition validate_policy :: "dataset_config \<Rightarrow> unit res" where
  "validate_policy c =
     (if dc_policy c = Preassigned
      then check (dc_version c = ''v2'' \<and> dc_registry c \<noteq> None) (ValueError ''v2 and registry needed'')
      else check (dc_registry c = None) (ValueError ''registry without preassigned policy''))"

text \<open>The pattern \<open>^[A-Za-z0-9][A-Za-z0-9_-]{0,95}$\<close>.\<close>

fun is_dataset_id :: "string \<Rightarrow> bool" where
  "is_dataset_id [] = False"
| "is_dataset_id (c # cs) =
     (is_alnum c \<and> length cs \<le> 95 \<and> list_all (\<lambda>c. is_alnum c \<or> c \<in> {CHR ''_'', CHR ''-''}) cs)"

definition dataset_id_field :: "py \<Rightarrow> string res" where
  "dataset_id_field v = bindE (str_field v) (\<lambda>s. if is_dataset_id s then Inr s else Inl (ValueError ''pattern''))"

fun ge1_field :: "py \<Rightarrow> int res" where
  "ge1_field (PyInt n) = (if 1 \<le> n then Inr n else Inl (ValueError ''ge 1''))"
| "ge1_field _ = Inl (ValueError ''strict integer'')"

definition policy_field :: "py \<Rightarrow> split_policy res" where
  "policy_field v = bindE (one_of [''chronological_repeat_blocks'', ''preassigned_campaign_holdout''] v) (\<lambda>s.
     Inr (if s = ''preassigned_campaign_holdout'' then Preassigned else Chronological))"

text \<open>
  \<open>load_config\<close> on the parsed file: paths are taken from the directory of the file and
  resolved, then the model is validated. \<open>to_path\<close> and \<open>resolve\<close> are \<open>pathlib\<close>'s.
\<close>

definition config_path :: "(string \<Rightarrow> path) \<Rightarrow> (path \<Rightarrow> path) \<Rightarrow> path \<Rightarrow> py \<Rightarrow> path res" where
  "config_path to_path resolve file v = bindE (py_str v) (\<lambda>s. Inr (resolve (path_join (path_parent file) (to_path s))))"

definition load_dataset_config :: "(string \<Rightarrow> path) \<Rightarrow> (path \<Rightarrow> path) \<Rightarrow> path \<Rightarrow> py \<Rightarrow> dataset_config res" where
  "load_dataset_config to_path resolve file values =
     bindE (bindE (py_item values ''campaign_dirs'') py_iter) (\<lambda>items.
     bindE (mapE (config_path to_path resolve file) items) (\<lambda>dirs.
     bindE (bindE (py_item values ''output_dir'') (config_path to_path resolve file)) (\<lambda>out.
     bindE (case py_get (as_dict values) ''campaign_registry'' of PyNone \<Rightarrow> Inr None
            | v \<Rightarrow> bindE (config_path to_path resolve file v) (\<lambda>p. Inr (Some p))) (\<lambda>registry.
     bindE (no_extra [''config_version'', ''dataset_id'', ''campaign_dirs'', ''output_dir'', ''feature_contract_id'',
        ''split_policy'', ''campaign_registry'', ''validation_blocks'', ''test_blocks'',
        ''require_all_scenarios_each_split'', ''duplicate_feature_policy''] values) (\<lambda>d.
     bindE (default_field d ''config_version'' ''v1'' (one_of [''v1'', ''v2''])) (\<lambda>ver.
     bindE (field d ''dataset_id'' dataset_id_field) (\<lambda>did.
     bindE (check (dirs \<noteq> []) (ValueError ''min_length'')) (\<lambda>_.
     bindE (default_field d ''feature_contract_id'' ''server_application_message_v2''
        (one_of [''server_application_message_v2''])) (\<lambda>_.
     bindE (default_field d ''split_policy'' Chronological policy_field) (\<lambda>pol.
     bindE (default_field d ''validation_blocks'' 1 ge1_field) (\<lambda>vb.
     bindE (default_field d ''test_blocks'' 1 ge1_field) (\<lambda>tb.
     bindE (default_field d ''require_all_scenarios_each_split'' True strict_bool) (\<lambda>scn.
     bindE (default_field d ''duplicate_feature_policy'' ''report'' (one_of [''report'', ''error''])) (\<lambda>dup.
     let c = \<lparr>dc_version = ver, dc_dataset_id = did, dc_campaign_dirs = dirs, dc_output_dir = out,
              dc_policy = pol, dc_registry = registry, dc_validation_blocks = vb, dc_test_blocks = tb,
              dc_all_scenarios = scn, dc_duplicate_error = (dup = ''error'')\<rparr> in
     bindE (validate_policy c) (\<lambda>_. Inr c)))))))))))))))"

section \<open>Rows and runs\<close>

record row_meta =
  rw_row_id :: string
  rw_campaign_id :: string
  rw_run_id :: string
  rw_scenario_id :: string
  rw_repeat :: int
  rw_session :: int
  rw_request :: int
  rw_queue :: int
  rw_sequence :: int
  rw_timestamp :: string
  rw_received :: string
  rw_source_line :: nat
  rw_block :: string
  rw_split :: "split option"
  rw_hash :: string

record data_row =
  dr_features :: message_features
  dr_label :: int
  dr_meta :: row_meta

record run_data =
  rd_campaign_id :: string
  rd_run_id :: string
  rd_scenario_id :: string
  rd_repeat :: int
  rd_start :: int
  rd_end :: int
  rd_rows :: "data_row list"

section \<open>Splitting by blocks\<close>

record block =
  bk_campaign :: string
  bk_repeat :: int
  bk_runs :: "run_data list"
  bk_start :: int
  bk_end :: int

record block_entry =
  be_block_id :: string
  be_split :: split
  be_start :: int
  be_end :: int
  be_run_ids :: "string list"

definition block_key :: "split_policy \<Rightarrow> run_data \<Rightarrow> string \<times> int" where
  "block_key policy run = (rd_campaign_id run, if policy = Preassigned then 0 else rd_repeat run)"

definition make_block :: "(string \<times> int) \<times> run_data list \<Rightarrow> block" where
  "make_block g = \<lparr>bk_campaign = fst (fst g), bk_repeat = snd (fst g), bk_runs = snd g,
     bk_start = Min (set (map rd_start (snd g))), bk_end = Max (set (map rd_end (snd g)))\<rparr>"

definition make_blocks :: "split_policy \<Rightarrow> run_data list \<Rightarrow> block list" where
  "make_blocks policy runs =
     sort_key (\<lambda>b. (bk_start b, bk_campaign b, bk_repeat b)) (map make_block (group_by (block_key policy) runs))"

definition block_id :: "split_policy \<Rightarrow> block \<Rightarrow> string" where
  "block_id policy b = (if policy = Preassigned then bk_campaign b @ '':campaign''
     else bk_campaign b @ '':repeat:'' @ int_str (bk_repeat b))"

definition block_split :: "dataset_config \<Rightarrow> (string \<times> split) list \<Rightarrow> nat \<Rightarrow> nat \<Rightarrow> block \<Rightarrow> split res" where
  "block_split c roles n i b =
     (if dc_policy c = Preassigned
      then (case map_of (rev roles) (bk_campaign b) of None \<Rightarrow> Inl (KeyError ''role'') | Some s \<Rightarrow> Inr s)
      else Inr (if int i < int n - dc_validation_blocks c - dc_test_blocks c then Train
                else if int i < int n - dc_test_blocks c then Validation else Test))"

definition tag_row :: "string \<Rightarrow> split \<Rightarrow> data_row \<Rightarrow> data_row" where
  "tag_row bid s row = row\<lparr>dr_meta := (dr_meta row)\<lparr>rw_block := bid, rw_split := Some s\<rparr>\<rparr>"

definition block_rows :: "string \<Rightarrow> split \<Rightarrow> block \<Rightarrow> data_row list" where
  "block_rows bid s b =
     concat (map (\<lambda>run. map (tag_row bid s)
        (sort_key (\<lambda>row. (rw_session (dr_meta row), rw_request (dr_meta row))) (rd_rows run)))
       (sort_key (\<lambda>run. (rd_start run, rd_run_id run)) (bk_runs b)))"

type_synonym assigned = "split \<Rightarrow> data_row list"

definition assign_block :: "split_policy \<Rightarrow> assigned \<Rightarrow> split \<times> block \<Rightarrow> assigned" where
  "assign_block policy a p =
     (case p of (s, b) \<Rightarrow> a(s := a s @ block_rows (block_id policy b) s b))"

definition block_manifest :: "split_policy \<Rightarrow> split \<times> block \<Rightarrow> block_entry" where
  "block_manifest policy p = (case p of (s, b) \<Rightarrow>
     \<lparr>be_block_id = block_id policy b, be_split = s, be_start = bk_start b, be_end = bk_end b,
      be_run_ids = sort (map rd_run_id (bk_runs b))\<rparr>)"

text \<open>The rows of a run are shared: the caller's runs carry the block and the split afterwards.\<close>

definition tag_runs :: "split_policy \<Rightarrow> split \<times> block \<Rightarrow> run_data list" where
  "tag_runs policy p = (case p of (s, b) \<Rightarrow>
     map (\<lambda>run. run\<lparr>rd_rows := map (tag_row (block_id policy b) s) (rd_rows run)\<rparr>) (bk_runs b))"

definition check_split :: "dataset_config \<Rightarrow> run_data list \<Rightarrow> assigned \<Rightarrow> split \<Rightarrow> unit res" where
  "check_split c runs a s =
     (if set (map dr_label (a s)) \<noteq> {0, 1} then Inl (ValueError ''both labels needed'')
      else if dc_all_scenarios c \<and> set (map (rw_scenario_id \<circ> dr_meta) (a s)) \<noteq> set (map rd_scenario_id runs)
        then Inl (ValueError ''missing scenario'')
      else Inr ())"

definition split_runs ::
    "dataset_config \<Rightarrow> (string \<times> split) list \<Rightarrow> run_data list
      \<Rightarrow> (assigned \<times> block_entry list \<times> run_data list) res" where
  "split_runs c roles runs =
     (let blocks = make_blocks (dc_policy c) runs; n = length blocks; preassigned = (dc_policy c = Preassigned) in
      if preassigned \<and> set (map fst roles) \<noteq> set (map rd_campaign_id runs)
        then Inl (ValueError ''campaigns and roles differ'')
      else if \<not> preassigned \<and> int n < dc_validation_blocks c + dc_test_blocks c + 1
        then Inl (ValueError ''too few blocks'')
      else if \<not> preassigned \<and> list_ex (\<lambda>(p, q). bk_start q < bk_end p) (zip blocks (tl blocks))
        then Inl (ValueError ''overlapping blocks'')
      else
        bindE (mapE (\<lambda>(i, b). bindE (block_split c roles n i b) (\<lambda>s. Inr (s, b))) (enumerate 0 blocks)) (\<lambda>plan.
        let a = foldl (assign_block (dc_policy c)) (\<lambda>_. []) plan in
        bindE (forE (check_split c runs a) SPLITS) (\<lambda>_.
        Inr (a, map (block_manifest (dc_policy c)) plan, concat (map (tag_runs (dc_policy c)) plan)))))"

section \<open>Identity between the splits\<close>

definition shared :: "(data_row \<Rightarrow> 'k) \<Rightarrow> data_row list \<Rightarrow> data_row list \<Rightarrow> nat" where
  "shared key xs ys = length (remdups (filter (\<lambda>k. k \<in> set (map key ys)) (map key xs)))"

definition session_id_of :: "data_row \<Rightarrow> string \<times> int" where
  "session_id_of row = (rw_run_id (dr_meta row), rw_session (dr_meta row))"

definition split_pairs :: "(split \<times> split) list" where
  "split_pairs = [(Train, Validation), (Train, Test), (Validation, Test)]"

definition pair_overlaps :: "bool \<Rightarrow> assigned \<Rightarrow> split \<times> split \<Rightarrow> (string \<times> nat) list" where
  "pair_overlaps campaigns a p =
     [(''runs'', shared (rw_run_id \<circ> dr_meta) (a (fst p)) (a (snd p))),
      (''sessions'', shared session_id_of (a (fst p)) (a (snd p))),
      (''rows'', shared (rw_row_id \<circ> dr_meta) (a (fst p)) (a (snd p)))]
     @ (if campaigns then [(''campaigns'', shared (rw_campaign_id \<circ> dr_meta) (a (fst p)) (a (snd p)))] else [])"

definition validate_partitions :: "bool \<Rightarrow> assigned \<Rightarrow> ((split \<times> split) \<times> (string \<times> nat) list) list res" where
  "validate_partitions campaigns a =
     (let overlaps = map (\<lambda>p. (p, pair_overlaps campaigns a p)) split_pairs in
      if list_ex (\<lambda>(_, checks). list_ex (\<lambda>(_, n). n \<noteq> 0) checks) overlaps
        then Inl (ValueError ''shared identifiers'')
      else if list_ex (\<lambda>s. \<not> distinct (map (rw_row_id \<circ> dr_meta) (a s))) SPLITS
        then Inl (ValueError ''duplicate row ids'')
      else Inr overlaps)"

section \<open>Duplicate features and summaries\<close>

record duplicate_counts =
  du_groups :: nat
  du_cross_groups :: nat
  du_cross_rows :: nat
  du_conflicts :: nat
  du_pairs :: "((split \<times> split) \<times> nat) list"

definition duplicate_report :: "assigned \<Rightarrow> duplicate_counts" where
  "duplicate_report a =
     (let entries = concat (map (\<lambda>s. map (\<lambda>row. (s, row)) (a s)) SPLITS);
          groups = group_by (\<lambda>(s, row). rw_hash (dr_meta row)) entries;
          cross = filter (\<lambda>(_, g). 1 < length (remdups (map fst g))) groups;
          conflicts = filter (\<lambda>(_, g). 1 < length (remdups (map (dr_label \<circ> snd) g))) groups in
      \<lparr>du_groups = length (filter (\<lambda>(_, g). 1 < length g) groups),
       du_cross_groups = length cross, du_cross_rows = sum_list (map (\<lambda>(_, g). length g) cross),
       du_conflicts = length conflicts,
       du_pairs = map (\<lambda>p. (p, shared (rw_hash \<circ> dr_meta) (a (fst p)) (a (snd p)))) split_pairs\<rparr>)"

record split_counts =
  sn_campaigns :: nat
  sn_rows :: nat
  sn_runs :: nat
  sn_sessions :: nat
  sn_labels :: "(int \<times> nat) list"
  sn_scenarios :: "(string \<times> nat) list"

definition split_summary :: "data_row list \<Rightarrow> split_counts" where
  "split_summary rows =
     \<lparr>sn_campaigns = length (remdups (map (rw_campaign_id \<circ> dr_meta) rows)), sn_rows = length rows,
      sn_runs = length (remdups (map (rw_run_id \<circ> dr_meta) rows)),
      sn_sessions = length (remdups (map session_id_of rows)),
      sn_labels = map (\<lambda>l. (l, length (filter (\<lambda>r. dr_label r = l) rows))) [0, 1],
      sn_scenarios = map (\<lambda>k. (k, length (filter (\<lambda>r. rw_scenario_id (dr_meta r) = k) rows)))
        (sorted_list_of_set (set (map (rw_scenario_id \<circ> dr_meta) rows)))\<rparr>"

end
