(* ===== verification/Dataset_Split_Proofs.thy ===== *)
theory Dataset_Split_Proofs
  imports Dataset_Split
begin

text \<open>
  What the split promises: it is a partition of the rows along whole blocks, in time order
  under the chronological policy; and what a passed identity check promises.
\<close>

section \<open>Blocks\<close>

definition bkey :: "block \<Rightarrow> string \<times> int" where
  "bkey b = (bk_campaign b, bk_repeat b)"

lemma mset_concat_cong: "mset xs = mset ys \<Longrightarrow> mset (concat (map f xs)) = mset (concat (map f ys))"
  by (simp add: mset_concat comp_def flip: mset_map sum_mset_sum_list) (metis mset_map)

lemma make_blocks_mset: "mset (make_blocks policy runs) = mset (map make_block (group_by (block_key policy) runs))"
  by (simp add: make_blocks_def)

lemma make_blocks_keys: "distinct (map bkey (make_blocks policy runs))"
proof -
  have "mset (map bkey (make_blocks policy runs)) = mset (map fst (group_by (block_key policy) runs))"
    by (simp add: make_blocks_mset bkey_def make_block_def comp_def multiset.map_comp)
  from mset_eq_imp_distinct_iff [OF this] show ?thesis by simp
qed

lemma make_blocks_member:
  assumes "b \<in> set (make_blocks policy runs)"
  shows "bk_runs b \<noteq> []" and "r \<in> set (bk_runs b) \<longleftrightarrow> r \<in> set runs \<and> block_key policy r = bkey b"
    and "r \<in> set (bk_runs b) \<Longrightarrow> bk_start b \<le> rd_start r \<and> rd_end r \<le> bk_end b"
proof -
  have "b \<in> set (map make_block (group_by (block_key policy) runs))"
    using assms make_blocks_mset by (metis set_mset_mset)
  then obtain k g where g: "(k, g) \<in> set (group_by (block_key policy) runs)" "b = make_block (k, g)" by auto
  show "bk_runs b \<noteq> []" using g group_by_nonempty by (fastforce simp: make_block_def)
  show "r \<in> set (bk_runs b) \<longleftrightarrow> r \<in> set runs \<and> block_key policy r = bkey b"
    using g by (auto simp: in_group_by_iff make_block_def bkey_def)
  show "r \<in> set (bk_runs b) \<Longrightarrow> bk_start b \<le> rd_start r \<and> rd_end r \<le> bk_end b"
    using g by (auto simp: make_block_def)
qed

lemma make_blocks_covers:
  assumes "r \<in> set runs"
  shows "\<exists>b\<in>set (make_blocks policy runs). r \<in> set (bk_runs b)"
proof -
  have "r \<in> set (concat (map snd (group_by (block_key policy) runs)))"
    using assms mset_concat_group_by [of "block_key policy" runs] by (metis set_mset_mset)
  then obtain p where p: "p \<in> set (group_by (block_key policy) runs)" "r \<in> set (snd p)" by auto
  then have "make_block p \<in> set (make_blocks policy runs)"
    using make_blocks_mset by (metis image_eqI list.set_map set_mset_mset)
  with p(2) show ?thesis by (intro bexI [of _ "make_block p"]) (simp_all add: make_block_def)
qed

lemma blocks_in_time_order:
  assumes "\<not> list_ex (\<lambda>(p, q). bk_start q < bk_end p) (zip blocks (tl blocks))"
    and "sorted (map bk_start blocks)" and "i < j" and "j < length blocks"
  shows "bk_end (blocks ! i) \<le> bk_start (blocks ! j)"
proof -
  have "(blocks ! i, tl blocks ! i) \<in> set (zip blocks (tl blocks))"
    using assms(3,4) by (auto simp: in_set_zip intro!: exI [of _ i])
  with assms(1) have "bk_end (blocks ! i) \<le> bk_start (tl blocks ! i)"
    by (auto simp: list_ex_iff not_less)
  also have "tl blocks ! i = blocks ! Suc i" using assms(3,4) by (simp add: nth_tl)
  also have "bk_start (blocks ! Suc i) \<le> bk_start (blocks ! j)"
    using sorted_nth_mono [OF assms(2), of "Suc i" j] assms(3,4) by simp
  finally show ?thesis .
qed

lemma sorted_map_lex: "sorted (map (\<lambda>b. (f b, g b, h b)) xs) \<Longrightarrow> sorted (map f xs)"
  by (induction xs) (auto simp: less_eq_prod_def less_le)

lemma make_blocks_sorted: "sorted (map bk_start (make_blocks policy runs))"
  using sorted_sort_key [of "\<lambda>b. (bk_start b, bk_campaign b, bk_repeat b)" "map make_block (group_by (block_key policy) runs)"]
  unfolding make_blocks_def by (rule sorted_map_lex)

section \<open>Rows\<close>

text \<open>A row without the block and the split it was given.\<close>

definition strip :: "data_row \<Rightarrow> data_row" where
  "strip row = row\<lparr>dr_meta := (dr_meta row)\<lparr>rw_block := [], rw_split := None\<rparr>\<rparr>"

lemma strip_tag [simp]: "strip (tag_row bid s row) = strip row"
  by (simp add: strip_def tag_row_def)

lemma tag_row_split [simp]: "rw_split (dr_meta (tag_row bid s row)) = Some s"
  by (simp add: tag_row_def)

definition run_rows :: "run_data list \<Rightarrow> data_row list" where
  "run_rows runs = concat (map (\<lambda>r. map strip (rd_rows r)) runs)"

lemma block_rows_mset: "mset (map strip (block_rows bid s b)) = mset (run_rows (bk_runs b))"
proof -
  have one: "mset (map strip (map (tag_row bid s) (sort_key k rows))) = mset (map strip rows)"
    for k :: "data_row \<Rightarrow> int \<times> int" and rows
    by (simp add: comp_def)
  have "mset (map strip (block_rows bid s b)) =
     mset (concat (map (\<lambda>r. map strip (rd_rows r)) (sort_key (\<lambda>run. (rd_start run, rd_run_id run)) (bk_runs b))))"
    unfolding block_rows_def map_concat map_map comp_def mset_concat
    by (simp add: one [unfolded map_map comp_def])
  also have "\<dots> = mset (run_rows (bk_runs b))"
    unfolding run_rows_def by (rule mset_concat_cong) simp
  finally show ?thesis .
qed

lemma block_rows_split: "row \<in> set (block_rows bid s b) \<Longrightarrow> rw_split (dr_meta row) = Some s"
  by (auto simp: block_rows_def)

lemma foldl_assign:
  "foldl (assign_block policy) a plan s =
     a s @ concat (map (\<lambda>(t, b). if t = s then block_rows (block_id policy b) t b else []) plan)"
  by (induction plan arbitrary: a) (auto simp: assign_block_def split: prod.split)

section \<open>The assignment\<close>

definition role_of :: "(split \<times> block) list \<Rightarrow> string \<times> int \<Rightarrow> split" where
  "role_of plan k = (case map_of (map (\<lambda>(s, b). (bkey b, s)) plan) k of Some s \<Rightarrow> s | None \<Rightarrow> Train)"

lemma role_of_member:
  assumes "distinct (map (bkey \<circ> snd) plan)" and "(s, b) \<in> set plan"
  shows "role_of plan (bkey b) = s"
proof -
  have "distinct (map fst (map (\<lambda>(s, b). (bkey b, s)) plan))"
    using assms(1) by (simp add: comp_def split_beta)
  moreover have "(bkey b, s) \<in> set (map (\<lambda>(s, b). (bkey b, s)) plan)" using assms(2) by force
  ultimately have "map_of (map (\<lambda>(s, b). (bkey b, s)) plan) (bkey b) = Some s" by (rule map_of_is_SomeI)
  then show ?thesis by (simp add: role_of_def)
qed

lemma filter_blocks_runs:
  assumes "\<And>b r. b \<in> set bs \<Longrightarrow> r \<in> set (bk_runs b) \<Longrightarrow> key r = bkey b"
  shows "concat (map bk_runs (filter (\<lambda>b. P (bkey b)) bs)) = filter (\<lambda>r. P (key r)) (concat (map bk_runs bs))"
  using assms
proof (induction bs)
  case Nil
  then show ?case by simp
next
  case (Cons b bs)
  have "filter (\<lambda>r. P (key r)) (bk_runs b) = (if P (bkey b) then bk_runs b else [])"
    using Cons.prems [of b] by (auto simp: filter_empty_conv intro: filter_True)
  with Cons show ?case by simp
qed

lemma blocks_runs_mset: "mset (concat (map bk_runs (make_blocks policy runs))) = mset runs"
proof -
  have "mset (concat (map bk_runs (make_blocks policy runs))) =
      mset (concat (map bk_runs (map make_block (group_by (block_key policy) runs))))"
    by (rule mset_concat_cong) (simp add: make_blocks_mset)
  also have "map bk_runs (map make_block gs) = map snd gs" for gs by (simp add: make_block_def)
  finally show ?thesis by (simp add: mset_concat_group_by)
qed

lemma part_rows:
  assumes "map snd plan = make_blocks policy runs"
  shows "mset (map strip (foldl (assign_block policy) (\<lambda>_. []) plan s)) =
     mset (run_rows (filter (\<lambda>r. role_of plan (block_key policy r) = s) runs))"
proof -
  have d: "distinct (map (bkey \<circ> snd) plan)"
    using make_blocks_keys [of policy runs] by (simp add: comp_def flip: assms)
  have rr: "run_rows (concat (map bk_runs bs)) = concat (map (run_rows \<circ> bk_runs) bs)" for bs
    by (induction bs) (auto simp: run_rows_def)
  have step: "mset (map strip (concat (map (\<lambda>(t, b). if t = s then block_rows (block_id policy b) t b else []) p))) =
      mset (concat (map (run_rows \<circ> bk_runs) (map snd (filter (\<lambda>(t, b). t = s) p))))"
    for p :: "(split \<times> block) list"
    by (induction p) (auto simp: block_rows_mset simp del: mset_map)
  have "map snd (filter (\<lambda>(t, b). t = s) plan) = filter (\<lambda>b. role_of plan (bkey b) = s) (map snd plan)"
    using role_of_member [OF d] by (auto simp: filter_map comp_def intro!: arg_cong [of _ _ "map snd"] filter_cong)
  then have "mset (map strip (foldl (assign_block policy) (\<lambda>_. []) plan s)) =
      mset (run_rows (concat (map bk_runs (filter (\<lambda>b. role_of plan (bkey b) = s) (make_blocks policy runs)))))"
    using step [of plan] by (simp add: foldl_assign rr assms del: mset_map)
  also have "concat (map bk_runs (filter (\<lambda>b. role_of plan (bkey b) = s) (make_blocks policy runs))) =
      filter (\<lambda>r. role_of plan (block_key policy r) = s) (concat (map bk_runs (make_blocks policy runs)))"
    by (rule filter_blocks_runs) (use make_blocks_member(2) in blast)
  also have "mset (run_rows (filter (\<lambda>r. role_of plan (block_key policy r) = s) (concat (map bk_runs (make_blocks policy runs))))) =
      mset (run_rows (filter (\<lambda>r. role_of plan (block_key policy r) = s) runs))"
    unfolding run_rows_def by (rule mset_concat_cong) (simp add: blocks_runs_mset)
  finally show ?thesis .
qed

section \<open>Time order\<close>

fun rank :: "split \<Rightarrow> nat" where
  "rank Train = 0"
| "rank Validation = 1"
| "rank Test = 2"

lemma block_split_mono:
  assumes "dc_policy c = Chronological" and "0 \<le> dc_validation_blocks c"
    and "block_split c roles n i b = Inr s" and "block_split c roles n j b' = Inr t" and "rank s < rank t"
  shows "i < j"
  using assms by (auto simp: block_split_def split: if_splits)

lemma plan_nth:
  assumes "mapE (\<lambda>(i, b). bindE (block_split c roles n i b) (\<lambda>s. Inr (s, b))) (enumerate 0 blocks) = Inr plan"
  shows "map snd plan = blocks" and "i < length blocks \<Longrightarrow>
    block_split c roles n i (blocks ! i) = Inr (fst (plan ! i)) \<and> snd (plan ! i) = blocks ! i"
proof -
  from assms have l: "list_all2 (\<lambda>x p. bindE (block_split c roles n (fst x) (snd x)) (\<lambda>s. Inr (s, snd x)) = Inr p)
      (enumerate 0 blocks) plan"
    by (simp add: mapE_Inr_iff split_beta)
  then have len: "length plan = length blocks" using list_all2_lengthD by fastforce
  have n: "block_split c roles n i (blocks ! i) = Inr (fst (plan ! i)) \<and> snd (plan ! i) = blocks ! i"
    if "i < length blocks" for i
    using list_all2_nthD [OF l, of i] that by (cases "plan ! i") (auto simp: nth_enumerate_eq bindE_Inr_iff)
  then show "map snd plan = blocks" using len by (auto intro: nth_equalityI)
  show "block_split c roles n i (blocks ! i) = Inr (fst (plan ! i)) \<and> snd (plan ! i) = blocks ! i"
    if "i < length blocks" using n that by blast
qed

lemma roles_in_time_order:
  assumes "mapE (\<lambda>(i, b). bindE (block_split c roles n i b) (\<lambda>s. Inr (s, b)))
      (enumerate 0 (make_blocks (dc_policy c) runs)) = Inr plan"
    and "dc_policy c = Chronological" and "0 \<le> dc_validation_blocks c"
    and "\<not> list_ex (\<lambda>(p, q). bk_start q < bk_end p)
      (zip (make_blocks (dc_policy c) runs) (tl (make_blocks (dc_policy c) runs)))"
    and "r \<in> set runs" and "q \<in> set runs"
    and "rank (role_of plan (block_key (dc_policy c) r)) < rank (role_of plan (block_key (dc_policy c) q))"
  shows "rd_end r \<le> rd_start q"
proof -
  let ?bs = "make_blocks (dc_policy c) runs"
  note pn = plan_nth [OF assms(1)]
  have d: "distinct (map (bkey \<circ> snd) plan)"
    using make_blocks_keys [of "dc_policy c" runs] by (simp add: comp_def flip: pn(1))
  have index: "\<exists>i < length ?bs. x \<in> set (bk_runs (?bs ! i)) \<and>
      block_split c roles n i (?bs ! i) = Inr (role_of plan (block_key (dc_policy c) x))" if x: "x \<in> set runs" for x
  proof -
    from make_blocks_covers [OF x] obtain i where i: "i < length ?bs" "x \<in> set (bk_runs (?bs ! i))"
      by (metis in_set_conv_nth)
    have "plan ! i \<in> set plan" using i(1) pn(1) by (metis length_map nth_mem)
    then have "role_of plan (bkey (snd (plan ! i))) = fst (plan ! i)"
      using role_of_member [OF d] by (metis prod.collapse)
    moreover have "block_key (dc_policy c) x = bkey (?bs ! i)"
      using make_blocks_member(2) [OF nth_mem [OF i(1)]] i(2) by blast
    ultimately show ?thesis using i pn(2) [OF i(1)] by auto
  qed
  from index [OF assms(5)] obtain i where i: "i < length ?bs" "r \<in> set (bk_runs (?bs ! i))"
    "block_split c roles n i (?bs ! i) = Inr (role_of plan (block_key (dc_policy c) r))" by blast
  from index [OF assms(6)] obtain j where j: "j < length ?bs" "q \<in> set (bk_runs (?bs ! j))"
    "block_split c roles n j (?bs ! j) = Inr (role_of plan (block_key (dc_policy c) q))" by blast
  have "i < j" by (rule block_split_mono [OF assms(2,3) i(3) j(3) assms(7)])
  have "rd_end r \<le> bk_end (?bs ! i)" using make_blocks_member(3) [OF nth_mem [OF i(1)] i(2)] by simp
  also have "\<dots> \<le> bk_start (?bs ! j)"
    by (rule blocks_in_time_order [OF assms(4) make_blocks_sorted \<open>i < j\<close> j(1)])
  also have "\<dots> \<le> rd_start q" using make_blocks_member(3) [OF nth_mem [OF j(1)] j(2)] by simp
  finally show ?thesis .
qed

lemma split_runs_Inr:
  assumes "split_runs c roles runs = Inr (a, manifest, tagged)"
  obtains plan where
    "mapE (\<lambda>(i, b). bindE (block_split c roles (length (make_blocks (dc_policy c) runs)) i b) (\<lambda>s. Inr (s, b)))
      (enumerate 0 (make_blocks (dc_policy c) runs)) = Inr plan"
    "a = foldl (assign_block (dc_policy c)) (\<lambda>_. []) plan"
    "\<And>s. check_split c runs a s = Inr ()"
    "dc_policy c = Chronological \<Longrightarrow> \<not> list_ex (\<lambda>(p, q). bk_start q < bk_end p)
      (zip (make_blocks (dc_policy c) runs) (tl (make_blocks (dc_policy c) runs)))"
    "manifest = map (block_manifest (dc_policy c)) plan" "tagged = concat (map (tag_runs (dc_policy c)) plan)"
proof -
  from assms obtain plan where
    p: "mapE (\<lambda>(i, b). bindE (block_split c roles (length (make_blocks (dc_policy c) runs)) i b) (\<lambda>s. Inr (s, b)))
      (enumerate 0 (make_blocks (dc_policy c) runs)) = Inr plan"
    "a = foldl (assign_block (dc_policy c)) (\<lambda>_. []) plan"
    "forE (check_split c runs a) SPLITS = Inr ()"
    "manifest = map (block_manifest (dc_policy c)) plan" "tagged = concat (map (tag_runs (dc_policy c)) plan)"
    by (auto simp: split_runs_def Let_def bindE_Inr_iff split: if_splits)
  have "check_split c runs a s = Inr ()" for s
    using p(3) by (auto simp: forE_Inr_iff)
  moreover have "\<not> list_ex (\<lambda>(p, q). bk_start q < bk_end p)
      (zip (make_blocks (dc_policy c) runs) (tl (make_blocks (dc_policy c) runs)))" if "dc_policy c = Chronological"
    using assms that by (auto simp: split_runs_def Let_def split: if_splits)
  ultimately show thesis using p that by blast
qed

lemma split_runs_parts:
  assumes "split_runs c roles runs = Inr (a, manifest, tagged)" and "0 \<le> dc_validation_blocks c"
  shows "\<exists>role.
    (\<forall>s. mset (map strip (a s)) = mset (run_rows (filter (\<lambda>r. role (block_key (dc_policy c) r) = s) runs)) \<and>
       list_all (\<lambda>row. rw_split (dr_meta row) = Some s) (a s) \<and> set (map dr_label (a s)) = {0, 1}) \<and>
    (dc_policy c = Chronological \<longrightarrow> (\<forall>r\<in>set runs. \<forall>q\<in>set runs.
       rank (role (block_key (dc_policy c) r)) < rank (role (block_key (dc_policy c) q)) \<longrightarrow> rd_end r \<le> rd_start q))"
proof -
  from assms(1) obtain plan where
    p: "mapE (\<lambda>(i, b). bindE (block_split c roles (length (make_blocks (dc_policy c) runs)) i b) (\<lambda>s. Inr (s, b)))
      (enumerate 0 (make_blocks (dc_policy c) runs)) = Inr plan"
    "a = foldl (assign_block (dc_policy c)) (\<lambda>_. []) plan"
    "\<And>s. check_split c runs a s = Inr ()"
    "dc_policy c = Chronological \<Longrightarrow> \<not> list_ex (\<lambda>(p, q). bk_start q < bk_end p)
      (zip (make_blocks (dc_policy c) runs) (tl (make_blocks (dc_policy c) runs)))"
    by (rule split_runs_Inr) blast
  have "list_all (\<lambda>row. rw_split (dr_meta row) = Some s) (a s)" for s
    unfolding p(2) foldl_assign by (auto simp: list_all_iff dest: block_rows_split split: if_splits)
  moreover have "set (map dr_label (a s)) = {0, 1}" for s
    using p(3) [of s] by (simp add: check_split_def split: if_splits)
  moreover have "mset (map strip (a s)) = mset (run_rows (filter (\<lambda>r. role_of plan (block_key (dc_policy c) r) = s) runs))" for s
    unfolding p(2) by (rule part_rows [OF plan_nth(1) [OF p(1)]])
  moreover have "rd_end r \<le> rd_start q" if "dc_policy c = Chronological" "r \<in> set runs" "q \<in> set runs"
    "rank (role_of plan (block_key (dc_policy c) r)) < rank (role_of plan (block_key (dc_policy c) q))" for r q
    using roles_in_time_order [OF p(1) that(1) assms(2) p(4) [OF that(1)] that(2-4)] .
  ultimately show ?thesis by (intro exI [of _ "role_of plan"]) auto
qed

text \<open>
  C10: the split is a partition along whole blocks. Every block of runs (a campaign, or one
  repeat of a campaign) has one role; each split consists of exactly the rows of the runs of
  its blocks, each once, marked with that split; every split holds both labels. Under the
  chronological policy a run of a later split starts only after every run of an earlier
  split has ended.
\<close>

theorem split_runs_partition:
  assumes "split_runs c roles runs = Inr (a, manifest, tagged)" and "0 \<le> dc_validation_blocks c"
  shows "\<exists>role.
    (\<forall>s. mset (map strip (a s)) = mset (run_rows (filter (\<lambda>r. role (block_key (dc_policy c) r) = s) runs)) \<and>
       list_all (\<lambda>row. rw_split (dr_meta row) = Some s) (a s) \<and> set (map dr_label (a s)) = {0, 1}) \<and>
    (dc_policy c = Chronological \<longrightarrow> (\<forall>r\<in>set runs. \<forall>q\<in>set runs.
       rank (role (block_key (dc_policy c) r)) < rank (role (block_key (dc_policy c) q)) \<longrightarrow> rd_end r \<le> rd_start q))"
  by (rule split_runs_parts [OF assms])

section \<open>Identity checks\<close>

lemma shared_0: "shared key xs ys = 0 \<longleftrightarrow> key ` set xs \<inter> key ` set ys = {}"
  by (auto simp: shared_def filter_empty_conv)

text \<open>
  C21: when the identity check passes no identifier leaks between the splits: runs, sessions
  and row ids of two different splits are disjoint, campaigns too when that is asked for,
  and row ids are distinct inside each split. Otherwise the check raises a \<open>ValueError\<close>.
\<close>

theorem validate_partitions_iff:
  "(\<exists>r. validate_partitions campaigns a = Inr r) \<longleftrightarrow>
     (\<forall>s t. s \<noteq> t \<longrightarrow>
        (rw_run_id \<circ> dr_meta) ` set (a s) \<inter> (rw_run_id \<circ> dr_meta) ` set (a t) = {} \<and>
        session_id_of ` set (a s) \<inter> session_id_of ` set (a t) = {} \<and>
        (rw_row_id \<circ> dr_meta) ` set (a s) \<inter> (rw_row_id \<circ> dr_meta) ` set (a t) = {} \<and>
        (campaigns \<longrightarrow> (rw_campaign_id \<circ> dr_meta) ` set (a s) \<inter> (rw_campaign_id \<circ> dr_meta) ` set (a t) = {})) \<and>
     (\<forall>s. distinct (map (rw_row_id \<circ> dr_meta) (a s)))"
proof -
  define ok where "ok s t \<longleftrightarrow> (rw_run_id \<circ> dr_meta) ` set (a s) \<inter> (rw_run_id \<circ> dr_meta) ` set (a t) = {} \<and>
        session_id_of ` set (a s) \<inter> session_id_of ` set (a t) = {} \<and>
        (rw_row_id \<circ> dr_meta) ` set (a s) \<inter> (rw_row_id \<circ> dr_meta) ` set (a t) = {} \<and>
        (campaigns \<longrightarrow> (rw_campaign_id \<circ> dr_meta) ` set (a s) \<inter> (rw_campaign_id \<circ> dr_meta) ` set (a t) = {})" for s t
  have sym: "ok s t \<Longrightarrow> ok t s" for s t by (simp add: ok_def Int_commute)
  have pairs: "(\<forall>s t. s \<noteq> t \<longrightarrow> ok s t) \<longleftrightarrow> ok Train Validation \<and> ok Train Test \<and> ok Validation Test"
    (is "?l \<longleftrightarrow> ?r")
  proof
    assume r: ?r
    then have "ok Validation Train" "ok Test Train" "ok Test Validation" using sym by blast+
    with r have "s \<noteq> t \<longrightarrow> ok s t" for s t by (cases s; cases t) simp_all
    then show ?l by blast
  qed simp
  have "(\<exists>r. validate_partitions campaigns a = Inr r) \<longleftrightarrow>
     (\<forall>p\<in>set split_pairs. \<forall>q\<in>set (pair_overlaps campaigns a p). snd q = 0) \<and>
     (\<forall>s\<in>set SPLITS. distinct (map (rw_row_id \<circ> dr_meta) (a s)))"
    by (auto simp: validate_partitions_def Let_def list_ex_iff split_beta simp del: set_SPLITS)
  moreover have "(\<forall>p\<in>set split_pairs. \<forall>q\<in>set (pair_overlaps campaigns a p). snd q = 0) \<longleftrightarrow>
      ok Train Validation \<and> ok Train Test \<and> ok Validation Test"
    by (cases campaigns) (simp_all add: split_pairs_def pair_overlaps_def shared_0 ok_def)
  ultimately have "(\<exists>r. validate_partitions campaigns a = Inr r) \<longleftrightarrow>
      (\<forall>s t. s \<noteq> t \<longrightarrow> ok s t) \<and> (\<forall>s. distinct (map (rw_row_id \<circ> dr_meta) (a s)))"
    using pairs by simp
  then show ?thesis unfolding ok_def .
qed

end
