(* ===== verification/Dataset.thy ===== *)
theory Dataset
  imports Dataset_Split_Proofs Approved_Bundle
begin

text \<open>
  Loading the audited runs and building the dataset: \<open>load_runs\<close> and \<open>build_dataset\<close> of
  \<open>data_preparation/operational_dataset.py\<close>. Files are written as a list in the order of the
  code, the manifest of the complete dataset last.
\<close>

record 'r dataset_env =
  de_audit :: "'r audit_env"
  de_digest :: "string \<Rightarrow> wire"
  de_run_dirs :: "path \<Rightarrow> string list"
  de_contract_file :: path
  de_contract :: py
  de_is_file :: "path \<Rightarrow> bool"
  de_exists :: "path \<Rightarrow> bool"
  de_later_hash :: "path \<Rightarrow> string option"
  de_to_path :: "string \<Rightarrow> path"
  de_repr :: "pyfloat \<Rightarrow> string"
  de_sha :: "string \<Rightarrow> string"

section \<open>Small readers\<close>

fun py_text :: "py \<Rightarrow> string res" where
  "py_text (PyStr s) = Inr s"
| "py_text _ = Inl (AttributeError ''replace'')"

definition utc_time :: "(string \<Rightarrow> datetime option) \<Rightarrow> py \<Rightarrow> int res" where
  "utc_time fromiso v = bindE (py_text v) (\<lambda>s.
     case fromiso (replace_Z s) of None \<Rightarrow> Inl (ValueError ''isoformat'')
     | Some t \<Rightarrow> if is_utc t then Inr (instant_us t) else Inl (ValueError ''not UTC''))"

text \<open>\<open>json.dumps(values, separators=(",", ":"))\<close> of the message features in contract order.\<close>

definition feature_texts :: "(pyfloat \<Rightarrow> string) \<Rightarrow> message_features \<Rightarrow> string list" where
  "feature_texts repr f =
     [int_str (mf_packet_size f), int_str (mf_payload_size f), repr (mf_connection_duration_ms f),
      repr (mf_message_interval_ms f), int_str (mf_bytes_received_total f), int_str (mf_bytes_sent_total f),
      int_str (mf_error_count_total f)]"

fun comma_join :: "string list \<Rightarrow> string" where
  "comma_join [] = []"
| "comma_join [x] = x"
| "comma_join (x # y # ys) = x @ '','' @ comma_join (y # ys)"

definition fingerprint :: "(pyfloat \<Rightarrow> string) \<Rightarrow> (string \<Rightarrow> string) \<Rightarrow> message_features \<Rightarrow> string" where
  "fingerprint repr sha f = sha (''['' @ comma_join (feature_texts repr f) @ '']'')"

text \<open>\<open>set\<close> of arbitrary values: elements must be hashable, equal ones are merged.\<close>

definition py_set :: "py list \<Rightarrow> py list res" where
  "py_set xs = foldE (\<lambda>acc x. if \<not> hashable x then Inl (TypeError ''unhashable'')
     else Inr (if list_ex (py_eq x) acc then acc else acc @ [x])) [] xs"

definition repeated :: "string \<Rightarrow> py list \<Rightarrow> bool res" where
  "repeated k entries = bindE (mapE (\<lambda>e. py_item e k) entries) (\<lambda>vs.
     bindE (py_set vs) (\<lambda>s. Inr (length s \<noteq> length entries)))"

definition entry_dir :: "'r dataset_env \<Rightarrow> py \<Rightarrow> path res" where
  "entry_dir env e = bindE (bindE (py_item e ''campaign_dir'') py_str) (\<lambda>s.
     Inr (au_resolve (de_audit env) (de_to_path env s)))"

section \<open>Evidence\<close>

definition snapshot_paths :: "'r audit_env \<Rightarrow> path \<Rightarrow> py \<Rightarrow> path list res" where
  "snapshot_paths env base entry =
     bindE (bindE (py_item entry ''expectations_file'') py_str) (\<lambda>efile.
     bindE (inside_path env base (path_of efile)) (\<lambda>e.
     bindE (bindE (py_item entry ''run_id'') py_str) (\<lambda>rid.
     bindE (mapE (\<lambda>n. inside_path env base (path_of (''runs/'' @ rid @ ''/'' @ n)))
        [''features.jsonl'', ''run_manifest.json'', ''collection_summary.json'']) (\<lambda>rs.
     bindE (mapE (\<lambda>x. inside_path env base (path_of (''outcomes/'' @ rid @ ''_'' @ x @ ''.json'')))
        [''traffic'', ''runtime'']) (\<lambda>os.
     Inr (e # rs @ os))))))"

definition snapshot_inputs :: "'r dataset_env \<Rightarrow> path \<Rightarrow> py list \<Rightarrow> (path, string) dict res" where
  "snapshot_inputs env base entries =
     bindE (mapE (snapshot_paths (de_audit env) base) entries) (\<lambda>ps.
     foldE (\<lambda>d p. bindE (au_file_hash (de_audit env) p) (\<lambda>h. Inr (dict_set p h d))) []
       (filter (de_is_file env) (path_join base (Rel [''campaign_manifest.json'']) # concat ps)))"

section \<open>Loading the runs\<close>

record exclusion =
  el_campaign_id :: string
  el_run_id :: "string option"
  el_reason :: "string list"

record quality_entry =
  qe_campaign_id :: string
  qe_passed :: bool
  qe_passed_runs :: int
  qe_run_count :: int

record load_state =
  ls_runs :: "run_data list"
  ls_excluded :: "exclusion list"
  ls_evidence :: "(path, string) dict"
  ls_quality :: "quality_entry list"
  ls_campaigns :: "string list"
  ls_run_ids :: "string list"

definition registry_entries :: "py \<Rightarrow> py list res" where
  "registry_entries registry = bindE (py_item registry ''campaigns'') py_iter"

definition policy_name :: "split_policy \<Rightarrow> string" where
  "policy_name p = (if p = Preassigned then ''preassigned_campaign_holdout'' else ''chronological_repeat_blocks'')"

definition check_registry :: "'r dataset_env \<Rightarrow> dataset_config \<Rightarrow> path list \<Rightarrow> py \<Rightarrow> unit res" where
  "check_registry env c roots registry =
     bindE (registry_entries registry) (\<lambda>entries.
     rejectE (ValueError ''registry'')
       [get_ne registry ''assignment_version'' (PyStr ''v1''),
        get_is_not registry ''prepared_before_collection'' True,
        get_ne registry ''split_policy'' (PyStr (policy_name (dc_policy c))),
        repeated ''campaign_id'' entries, repeated ''slot_id'' entries, repeated ''seed'' entries,
        bindE (mapE (entry_dir env) entries) (\<lambda>ds. Inr (set ds \<noteq> set roots)),
        bindE (bindE (mapE (\<lambda>e. py_item e ''split'') entries) py_set) (\<lambda>ss.
          Inr (set ss \<noteq> set (map (PyStr \<circ> split_name) SPLITS)))])"

definition check_registered :: "'r dataset_env \<Rightarrow> py \<Rightarrow> path \<Rightarrow> py \<Rightarrow> string \<Rightarrow> unit res" where
  "check_registered env registry base campaign cid =
     bindE (registry_entries registry) (\<lambda>entries.
     bindE (mapE (\<lambda>e. py_item e ''campaign_id'') entries) (\<lambda>ids.
     case List.find (\<lambda>(e, i). py_eq i (PyStr cid)) (zip entries ids) of
       None \<Rightarrow> Inl (ValueError ''campaign not registered'')
     | Some (e, _) \<Rightarrow>
         rejectE (ValueError ''campaign differs from its role'')
           [bindE (entry_dir env e) (\<lambda>d. Inr (d \<noteq> base)),
            items_ne campaign ''plan_snapshot'' e ''plan_snapshot'',
            bindE (py_item campaign ''plan_snapshot'') (\<lambda>p. items_ne p ''seed'' e ''seed''),
            bindE (bindE (py_item registry ''locked_at_utc'') (utc_time (au_fromiso (de_audit env)))) (\<lambda>l.
            bindE (bindE (py_item campaign ''created_at_utc'') (utc_time (au_fromiso (de_audit env)))) (\<lambda>t.
              Inr (t < l)))]))"

definition row_of :: "'r dataset_env \<Rightarrow> string \<Rightarrow> string \<Rightarrow> string \<Rightarrow> int \<Rightarrow> int \<Rightarrow> nat \<times> line_record \<Rightarrow> data_row list" where
  "row_of env cid rid sid rep label p =
     (case lr_payload (snd p) of
        SummaryRequest _ \<Rightarrow> []
      | MessageRequest m \<Rightarrow>
          let req = (case lr_request_index (snd p) of Some n \<Rightarrow> n | None \<Rightarrow> 0) in
          [\<lparr>dr_features = mr_features m, dr_label = label,
            dr_meta = \<lparr>rw_row_id = cid @ '':'' @ rid @ '':'' @ int_str (lr_session_id (snd p)) @ '':'' @ int_str req,
              rw_campaign_id = cid, rw_run_id = rid, rw_scenario_id = sid, rw_repeat = rep,
              rw_session = lr_session_id (snd p), rw_request = req, rw_queue = mr_queue_sequence_id m,
              rw_sequence = lr_sequence_id (snd p), rw_timestamp = mr_timestamp m,
              rw_received = lr_received_at (snd p), rw_source_line = fst p, rw_block = [], rw_split = None,
              rw_hash = fingerprint (de_repr env) (de_sha env) (mr_features m)\<rparr>\<rparr>])"

definition read_rows :: "'r dataset_env \<Rightarrow> path \<Rightarrow> string \<Rightarrow> string \<Rightarrow> string \<Rightarrow> int \<Rightarrow> int \<Rightarrow> data_row list res" where
  "read_rows env run_dir cid rid sid rep label =
     bindE (au_text (de_audit env) (path_join run_dir (Rel [''features.jsonl'']))) (\<lambda>content.
     bindE (mapE (\<lambda>line. bindE (parse_json (au_decode (de_audit env)) line) (parse_collected (au_fromiso (de_audit env))))
        (split_lines [] content)) (\<lambda>records.
     Inr (concat (map (row_of env cid rid sid rep label) (enumerate 1 records)))))"

definition find_result :: "campaign_report \<Rightarrow> string \<Rightarrow> audit_result res" where
  "find_result checked rid =
     (case map_of (rev (map (\<lambda>r. (ar_run_id r, r)) (rp_runs checked))) rid of
        None \<Rightarrow> Inl (KeyError rid) | Some r \<Rightarrow> Inr r)"

text \<open>An eligible run has passed the audit, so its label is known.\<close>

definition include_run ::
    "'r dataset_env \<Rightarrow> path \<Rightarrow> string \<Rightarrow> string \<Rightarrow> string \<Rightarrow> audit_result \<Rightarrow> py \<Rightarrow> run_data res" where
  "include_run env base cid rid sid result entry =
     bindE (inside_path (de_audit env) base (path_of (''runs/'' @ rid))) (\<lambda>run_dir.
     bindE (read_json (de_audit env) (path_join run_dir (Rel [''run_manifest.json'']))) (\<lambda>manifest.
     bindE (read_json (de_audit env) (path_join run_dir (Rel [''collection_summary.json'']))) (\<lambda>summary.
     bindE (bindE (py_item manifest ''created_at_utc'') (utc_time (au_fromiso (de_audit env)))) (\<lambda>start.
     bindE (bindE (py_item summary ''finished_at_utc'') (utc_time (au_fromiso (de_audit env)))) (\<lambda>end.
     bindE (check (start \<le> end) (ValueError ''end before start'')) (\<lambda>_.
     bindE (bindE (py_item entry ''repeat_index'') int_item) (\<lambda>rep.
     bindE (case ar_label result of None \<Rightarrow> Inl (TypeError ''label'') | Some l \<Rightarrow> Inr l) (\<lambda>label.
     bindE (read_rows env run_dir cid rid sid rep label) (\<lambda>rows.
     bindE (check (int (length rows) = ar_messages result \<and> rows \<noteq> []) (ValueError ''message count'')) (\<lambda>_.
     Inr \<lparr>rd_campaign_id = cid, rd_run_id = rid, rd_scenario_id = sid,
       rd_repeat = rep, rd_start = start, rd_end = end, rd_rows = rows\<rparr>))))))))))"

definition load_run :: "'r dataset_env \<Rightarrow> path \<Rightarrow> string \<Rightarrow> campaign_report \<Rightarrow> load_state \<Rightarrow> py \<Rightarrow> load_state res" where
  "load_run env base cid checked s entry =
     bindE (bindE (py_item entry ''run_id'') py_str) (\<lambda>rid.
     bindE (find_result checked rid) (\<lambda>result.
     bindE (bindE (py_item entry ''scenario_id'') py_str) (\<lambda>sid.
     if \<not> ar_eligible result
     then Inr (s\<lparr>ls_excluded := ls_excluded s @ [\<lparr>el_campaign_id = cid, el_run_id = Some rid,
            el_reason = ar_issues result @ ar_warnings result\<rparr>]\<rparr>)
     else if rid \<in> set (ls_run_ids s) then Inl (ValueError ''duplicate run id'')
     else bindE (include_run env base cid rid sid result entry) (\<lambda>run.
       Inr (s\<lparr>ls_run_ids := ls_run_ids s @ [rid], ls_runs := ls_runs s @ [run]\<rparr>)))))"

definition load_campaign ::
    "'r dataset_env \<Rightarrow> string \<Rightarrow> py option \<Rightarrow> load_state \<Rightarrow> path \<Rightarrow> load_state res" where
  "load_campaign env contract_hash registry s base =
     bindE (read_json (de_audit env) (path_join base (Rel [''campaign_manifest.json'']))) (\<lambda>campaign.
     bindE (bindE (py_item campaign ''campaign_id'') py_str) (\<lambda>cid.
     if cid \<in> set (ls_campaigns s) then Inl (ValueError ''duplicate campaign id'') else
     bindE (case registry of None \<Rightarrow> Inr () | Some r \<Rightarrow> check_registered env r base campaign cid) (\<lambda>_.
     bindE (bindE (py_item campaign ''runs'') py_iter) (\<lambda>entries.
     bindE (snapshot_inputs env base entries) (\<lambda>ev.
     let s1 = s\<lparr>ls_campaigns := ls_campaigns s @ [cid], ls_evidence := dict_update (ls_evidence s) ev\<rparr> in
     bindE (py_item campaign ''dataset_purpose'') (\<lambda>purpose.
     if py_eq purpose (PyStr ''integration_test'')
     then Inr (s1\<lparr>ls_excluded := ls_excluded s1 @ [\<lparr>el_campaign_id = cid, el_run_id = None,
            el_reason = [''integration_test'']\<rparr>]\<rparr>)
     else if \<not> py_eq purpose (PyStr ''controlled_experiment'') then Inl (ValueError ''unknown purpose'') else
     bindE (rejectE (ValueError ''another feature contract'')
        [item_ne campaign ''operational_contract_sha256'' (PyStr contract_hash),
         item_ne campaign ''operational_contract_snapshot'' (de_contract env)]) (\<lambda>_.
     bindE (audit_campaign (de_audit env) (de_digest env) (de_run_dirs env base) base) (\<lambda>checked.
     let s2 = s1\<lparr>ls_quality := ls_quality s1 @ [\<lparr>qe_campaign_id = cid, qe_passed = rp_passed checked,
            qe_passed_runs = rp_passed_runs checked, qe_run_count = rp_run_count checked\<rparr>]\<rparr> in
     bindE (check (rp_issues checked = []) (ValueError ''campaign issues'')) (\<lambda>_.
     bindE (check (registry = None \<or> rp_passed checked) (ValueError ''failed campaign in a holdout'')) (\<lambda>_.
     foldE (load_run env base cid checked) s2 entries))))))))))"

definition load_runs :: "'r dataset_env \<Rightarrow> dataset_config \<Rightarrow> load_state res" where
  "load_runs env c =
     (let roots = map (au_resolve (de_audit env)) (dc_campaign_dirs c) in
     bindE (check (distinct roots) (ValueError ''duplicate campaign path'')) (\<lambda>_.
     bindE (au_file_hash (de_audit env) (de_contract_file env)) (\<lambda>contract_hash.
     bindE (case dc_registry c of None \<Rightarrow> Inr (None, [])
        | Some p \<Rightarrow>
            bindE (read_json (de_audit env) p) (\<lambda>registry.
            bindE (check_registry env c roots registry) (\<lambda>_.
            bindE (au_file_hash (de_audit env) p) (\<lambda>h.
            Inr (Some registry, [(au_resolve (de_audit env) p, h)]))))) (\<lambda>(registry, ev).
     bindE (foldE (load_campaign env contract_hash registry)
        \<lparr>ls_runs = [], ls_excluded = [], ls_evidence = ev, ls_quality = [], ls_campaigns = [], ls_run_ids = []\<rparr>
        roots) (\<lambda>s.
     bindE (check (ls_runs s \<noteq> []) (ValueError ''no usable run'')) (\<lambda>_. Inr s))))))"

section \<open>What a loaded run is\<close>

definition run_loaded :: "'r dataset_env \<Rightarrow> run_data \<Rightarrow> bool" where
  "run_loaded env run \<longleftrightarrow> (\<exists>base rep result label.
     audit_campaign (de_audit env) (de_digest env) (de_run_dirs env base) base = Inr rep \<and>
     rp_issues rep = [] \<and> result \<in> set (rp_runs rep) \<and> ar_eligible result \<and>
     ar_run_id result = rd_run_id run \<and> ar_label result = Some label \<and>
     int (length (rd_rows run)) = ar_messages result \<and> rd_rows run \<noteq> [] \<and> rd_start run \<le> rd_end run \<and>
     (\<forall>row\<in>set (rd_rows run). dr_label row = label \<and> rw_campaign_id (dr_meta row) = rd_campaign_id run \<and>
        rw_run_id (dr_meta row) = rd_run_id run \<and> rw_scenario_id (dr_meta row) = rd_scenario_id run \<and>
        rw_hash (dr_meta row) = fingerprint (de_repr env) (de_sha env) (dr_features row)))"

definition load_ok :: "'r dataset_env \<Rightarrow> load_state \<Rightarrow> bool" where
  "load_ok env s \<longleftrightarrow> list_all (run_loaded env) (ls_runs s) \<and> map rd_run_id (ls_runs s) = ls_run_ids s \<and>
     distinct (ls_run_ids s)"

lemma row_of_facts:
  "row \<in> set (row_of env cid rid sid rep label p) \<Longrightarrow> dr_label row = label \<and>
     rw_campaign_id (dr_meta row) = cid \<and> rw_run_id (dr_meta row) = rid \<and> rw_scenario_id (dr_meta row) = sid \<and>
     rw_hash (dr_meta row) = fingerprint (de_repr env) (de_sha env) (dr_features row)"
  by (auto simp: row_of_def Let_def split: request.splits)

lemma read_rows_facts:
  "read_rows env run_dir cid rid sid rep label = Inr rows \<Longrightarrow> row \<in> set rows \<Longrightarrow> dr_label row = label \<and>
     rw_campaign_id (dr_meta row) = cid \<and> rw_run_id (dr_meta row) = rid \<and> rw_scenario_id (dr_meta row) = sid \<and>
     rw_hash (dr_meta row) = fingerprint (de_repr env) (de_sha env) (dr_features row)"
  by (auto simp: read_rows_def bindE_Inr_iff dest: row_of_facts)

lemma include_run_loaded:
  assumes "include_run env base cid rid sid result entry = Inr run"
    and "audit_campaign (de_audit env) (de_digest env) (de_run_dirs env base) base = Inr rep"
    and "rp_issues rep = []" and "result \<in> set (rp_runs rep)" and "ar_run_id result = rid" and "ar_eligible result"
  shows "run_loaded env run \<and> rd_run_id run = rid"
proof -
  from assms(1) obtain start fin rp label rows run_dir where
    n: "start \<le> fin" "ar_label result = Some label" "read_rows env run_dir cid rid sid rp label = Inr rows"
      "int (length rows) = ar_messages result" "rows \<noteq> []" and
    run: "run = \<lparr>rd_campaign_id = cid, rd_run_id = rid, rd_scenario_id = sid,
       rd_repeat = rp, rd_start = start, rd_end = fin, rd_rows = rows\<rparr>"
    by (auto simp: include_run_def bindE_Inr_iff split: option.splits)
  have "\<forall>row\<in>set rows. dr_label row = label \<and> rw_campaign_id (dr_meta row) = cid \<and>
      rw_run_id (dr_meta row) = rid \<and> rw_scenario_id (dr_meta row) = sid \<and>
      rw_hash (dr_meta row) = fingerprint (de_repr env) (de_sha env) (dr_features row)"
    using read_rows_facts [OF n(3)] by blast
  then show ?thesis
    unfolding run_loaded_def run using assms(2-) n
    by (intro conjI exI [of _ base] exI [of _ rep] exI [of _ result] exI [of _ label]) simp_all
qed

lemma find_result_Inr: "find_result rep rid = Inr r \<Longrightarrow> r \<in> set (rp_runs rep) \<and> ar_run_id r = rid"
  by (auto simp: find_result_def split: option.splits dest!: map_of_SomeD)

lemma load_run_ok:
  assumes "load_run env base cid rep s entry = Inr t" and "load_ok env s"
    and "audit_campaign (de_audit env) (de_digest env) (de_run_dirs env base) base = Inr rep"
    and "rp_issues rep = []"
  shows "load_ok env t"
proof -
  from assms(1) obtain rid result sid where
    r: "find_result rep rid = Inr result" and
    c: "ls_runs t = ls_runs s \<and> ls_run_ids t = ls_run_ids s \<or>
      ar_eligible result \<and> rid \<notin> set (ls_run_ids s) \<and> (\<exists>run. include_run env base cid rid sid result entry = Inr run \<and>
       ls_run_ids t = ls_run_ids s @ [rid] \<and> ls_runs t = ls_runs s @ [run])"
    unfolding load_run_def bindE_Inr_iff by (elim exE conjE, atomize_elim) (fastforce split: if_splits simp: bindE_Inr_iff)
  from c show ?thesis
  proof (elim disjE conjE exE)
    assume "ls_runs t = ls_runs s" "ls_run_ids t = ls_run_ids s"
    with assms(2) show ?thesis by (simp add: load_ok_def)
  next
    fix run assume i: "include_run env base cid rid sid result entry = Inr run" "ar_eligible result"
      "rid \<notin> set (ls_run_ids s)" "ls_run_ids t = ls_run_ids s @ [rid]" "ls_runs t = ls_runs s @ [run]"
    have "run_loaded env run \<and> rd_run_id run = rid"
      using include_run_loaded [OF i(1) assms(3,4)] find_result_Inr [OF r] i(2) by blast
    with assms(2) i(3-) show ?thesis by (auto simp: load_ok_def)
  qed
qed

lemma load_campaign_ok:
  assumes "load_campaign env h registry s base = Inr t" and "load_ok env s"
  shows "load_ok env t"
proof -
  have same: "load_ok env (s\<lparr>ls_campaigns := a, ls_evidence := b\<rparr>)"
    "load_ok env (s\<lparr>ls_campaigns := a, ls_evidence := b, ls_excluded := c\<rparr>)"
    "load_ok env (s\<lparr>ls_campaigns := a, ls_evidence := b, ls_quality := d\<rparr>)" for a b c d
    using assms(2) by (simp_all add: load_ok_def)
  from assms(1) show ?thesis
    unfolding load_campaign_def Let_def
    by (auto simp: bindE_Inr_iff same split: if_splits
        intro: foldE_invariant [where I = "load_ok env"] load_run_ok)
qed

text \<open>
  Only audited data is loaded. Every loaded run was found eligible by an audit of its
  campaign that reported no campaign issue; its rows are as many as the audited messages,
  at least one, all with the audited label and the run's own identity and with the
  fingerprint of their features; and no run id occurs twice, across campaigns too.
\<close>

theorem load_runs_audited:
  assumes "load_runs env c = Inr s"
  shows "ls_runs s \<noteq> [] \<and> list_all (run_loaded env) (ls_runs s) \<and> distinct (map rd_run_id (ls_runs s))"
proof -
  from assms obtain h registry ev where
    f: "foldE (load_campaign env h registry)
        \<lparr>ls_runs = [], ls_excluded = [], ls_evidence = ev, ls_quality = [], ls_campaigns = [], ls_run_ids = []\<rparr>
        (map (au_resolve (de_audit env)) (dc_campaign_dirs c)) = Inr s" and ne: "ls_runs s \<noteq> []"
    by (auto simp: load_runs_def Let_def bindE_Inr_iff)
  have "load_ok env s"
  proof (rule foldE_invariant [OF f])
    show "load_ok env \<lparr>ls_runs = [], ls_excluded = [], ls_evidence = ev, ls_quality = [], ls_campaigns = [],
        ls_run_ids = []\<rparr>" by (simp add: load_ok_def)
  qed (rule load_campaign_ok)
  with ne show ?thesis by (simp add: load_ok_def)
qed

end
