(* ===== verification/Dataset_Build.thy ===== *)
theory Dataset_Build
  imports Dataset
begin

text \<open>
  \<open>build_dataset\<close> of \<open>data_preparation/operational_dataset.py\<close>: from the loaded runs to the
  files of a dataset. The result is the list of files in the order they are written; an
  exception before \<open>mkdir\<close> writes nothing.
\<close>

record feature_statistics =
  fs_name :: string
  fs_minimum :: rat
  fs_maximum :: rat
  fs_unique :: nat

record run_assignment =
  as_campaign_id :: string
  as_run_id :: string
  as_scenario_id :: string
  as_repeat :: int
  as_split :: "split option"
  as_block_id :: string
  as_rows :: nat
  as_sessions :: nat

record dataset_report =
  dp_dataset_id :: string
  dp_output_dir :: path
  dp_total_rows :: nat
  dp_selected_runs :: nat
  dp_splits :: "(split \<times> split_counts) list"
  dp_blocks :: "block_entry list"
  dp_overlaps :: "((split \<times> split) \<times> (string \<times> nat) list) list"
  dp_duplicates :: duplicate_counts
  dp_excluded :: "exclusion list"
  dp_quality :: "quality_entry list"
  dp_statistics :: "feature_statistics list"
  dp_constant :: "string list"
  dp_evidence :: "(path, string) dict"

datatype dataset_file =
    FeatureCsv split "message_features list"
  | LabelCsv split "int list"
  | MetadataCsv split "row_meta list"
  | SchemaJson py
  | LabelMapJson
  | SplitManifestJson "block_entry list" "run_assignment list" "((split \<times> split) \<times> (string \<times> nat) list) list" duplicate_counts
  | DatasetManifestJson dataset_report

definition METADATA_COLUMNS :: "string list" where
  "METADATA_COLUMNS = [''row_id'', ''campaign_id'', ''run_id'', ''scenario_id'', ''repeat_index'',
     ''session_id'', ''request_index'', ''queue_sequence_id'', ''collection_sequence_id'', ''timestamp'',
     ''received_at_utc'', ''source_line'', ''block_id'', ''split'', ''feature_hash'']"

text \<open>Reads of the contract, \<open>OPERATIONAL_CONTRACT["events"][event_type]\<close> and one value for each feature.\<close>

definition contract_event :: "py \<Rightarrow> string \<Rightarrow> py res" where
  "contract_event contract event_type = path_items contract [''events'', event_type]"

definition feature_map :: "py \<Rightarrow> string \<Rightarrow> py list \<Rightarrow> py res" where
  "feature_map contract key names =
     bindE (mapE (\<lambda>n. bindE (py_str n) (\<lambda>s. bindE (path_items contract [''features'', s, key]) (\<lambda>v. Inr (s, v)))) names)
       (\<lambda>d. Inr (PyDict (dict_update [] d)))"

definition dataset_schema :: "py \<Rightarrow> string \<Rightarrow> py res" where
  "dataset_schema contract dataset_id =
     bindE (contract_event contract ''message'') (\<lambda>event.
     bindE (py_item event ''feature_contract_id'') (\<lambda>cid.
     bindE (py_item contract ''wire_schema_version'') (\<lambda>wire.
     bindE (py_item contract ''capture_layer'') (\<lambda>layer.
     bindE (py_item event ''observation_scope'') (\<lambda>scope.
     bindE (py_item event ''feature_order'') (\<lambda>names.
     bindE (bindE (py_iter names) (feature_map contract ''unit'')) (\<lambda>units.
     bindE (bindE (py_iter names) (feature_map contract ''dtype'')) (\<lambda>dtypes.
     Inr (PyDict
       [(''schema_version'', PyInt 1), (''dataset_id'', PyStr dataset_id), (''event_type'', PyStr ''message''),
        (''feature_contract_id'', cid), (''wire_schema_version'', wire), (''capture_layer'', layer),
        (''observation_scope'', scope), (''raw_input_features'', names), (''numeric_features'', names),
        (''feature_units'', units), (''feature_dtypes'', dtypes),
        (''missing_value_policy'', PyStr ''reject_without_zero_fill''),
        (''preprocessing'', PyDict [(''status'', PyStr ''not_fitted''), (''fit_scope'', PyStr ''train_only_in_training_stage'')]),
        (''excluded_model_metadata'', py_strs (METADATA_COLUMNS @
           [''label'', ''session_summary'', ''last_error_message'', ''packet_id'']))])))))))))"

text \<open>The values of one message feature as numbers.\<close>

definition feature_numbers :: "message_features \<Rightarrow> (string \<times> rat) list" where
  "feature_numbers f =
     [(''packet_size'', of_int (mf_packet_size f)), (''payload_size'', of_int (mf_payload_size f)),
      (''connection_duration_ms'', fval (mf_connection_duration_ms f)),
      (''message_interval_ms'', fval (mf_message_interval_ms f)),
      (''bytes_received_total'', of_int (mf_bytes_received_total f)),
      (''bytes_sent_total'', of_int (mf_bytes_sent_total f)),
      (''error_count_total'', of_int (mf_error_count_total f))]"

definition column :: "string \<Rightarrow> data_row list \<Rightarrow> rat list" where
  "column name rows = map (\<lambda>row. the (map_of (feature_numbers (dr_features row)) name)) rows"

definition train_statistics :: "data_row list \<Rightarrow> feature_statistics list" where
  "train_statistics rows = map (\<lambda>name.
     \<lparr>fs_name = name, fs_minimum = Min (set (column name rows)), fs_maximum = Max (set (column name rows)),
      fs_unique = length (remdups (column name rows))\<rparr>) MESSAGE_FEATURE_ORDER"

text \<open>A file that is gone or whose content differs from what was read.\<close>

definition check_unchanged :: "'r dataset_env \<Rightarrow> (path, string) dict \<Rightarrow> unit res" where
  "check_unchanged env evidence = forE (\<lambda>(p, h).
     check (de_later_hash env p = Some h) (ValueError ''source changed'')) evidence"

definition split_files :: "assigned \<Rightarrow> split \<Rightarrow> dataset_file list" where
  "split_files a s = [FeatureCsv s (map dr_features (a s)), LabelCsv s (map dr_label (a s)),
     MetadataCsv s (map dr_meta (a s))]"

definition assignment_of :: "run_data \<Rightarrow> run_assignment" where
  "assignment_of run =
     \<lparr>as_campaign_id = rd_campaign_id run, as_run_id = rd_run_id run, as_scenario_id = rd_scenario_id run,
      as_repeat = rd_repeat run, as_split = rw_split (dr_meta (hd (rd_rows run))),
      as_block_id = rw_block (dr_meta (hd (rd_rows run))), as_rows = length (rd_rows run),
      as_sessions = length (remdups (map (rw_session \<circ> dr_meta) (rd_rows run)))\<rparr>"

text \<open>\<open>{campaign_id: split}\<close> of the registry.\<close>

definition registry_roles :: "py \<Rightarrow> (string \<times> split) list res" where
  "registry_roles registry = bindE (registry_entries registry) (mapE (\<lambda>e.
     bindE (bindE (py_item e ''campaign_id'') py_str) (\<lambda>cid.
     bindE (bindE (py_item e ''split'') py_str) (\<lambda>s.
     case List.find (\<lambda>x. split_name x = s) SPLITS of
       None \<Rightarrow> Inl (KeyError s) | Some x \<Rightarrow> Inr (cid, x)))))"

definition read_roles :: "'r dataset_env \<Rightarrow> dataset_config \<Rightarrow> (string \<times> split) list res" where
  "read_roles env c =
     (if dc_policy c = Preassigned
      then (case dc_registry c of None \<Rightarrow> Inl (AttributeError ''read_text'')
        | Some p \<Rightarrow> bindE (read_json (de_audit env) p) registry_roles)
      else Inr [])"

definition check_target :: "'r dataset_env \<Rightarrow> dataset_config \<Rightarrow> path \<Rightarrow> unit res" where
  "check_target env c out =
     (if de_exists env out then Inl (FileExistsError ''dataset exists'')
      else if list_ex (\<lambda>d. path_within out (au_resolve (de_audit env) d)) (dc_campaign_dirs c)
        then Inl (ValueError ''inside a campaign'')
      else if ed_order message_event \<noteq> MESSAGE_FEATURE_ORDER then Inl (ValueError ''feature order'')
      else if ed_contract_id message_event \<noteq> ''server_application_message_v2'' then Inl (ValueError ''feature version'')
      else bindE (read_json (de_audit env) (de_contract_file env)) (\<lambda>v.
        check (py_eq v (de_contract env)) (ValueError ''contract changed'')))"

text \<open>From the loaded runs to the files.\<close>

definition assemble_dataset ::
    "'r dataset_env \<Rightarrow> dataset_config \<Rightarrow> path \<Rightarrow> (path, string) dict \<Rightarrow> (string \<times> split) list \<Rightarrow> load_state
      \<Rightarrow> (dataset_file list \<times> dataset_report) res" where
  "assemble_dataset env c out evidence roles loaded =
     bindE (split_runs c roles (ls_runs loaded)) (\<lambda>(a, blocks, tagged).
     bindE (validate_partitions (dc_policy c = Preassigned) a) (\<lambda>overlaps.
     let duplicates = duplicate_report a in
     bindE (check (\<not> (dc_duplicate_error c \<and> du_cross_groups duplicates \<noteq> 0)) (ValueError ''shared vectors'')) (\<lambda>_.
     let summaries = map (\<lambda>s. (s, split_summary (a s))) SPLITS;
         statistics = train_statistics (a Train) in
     bindE (check_unchanged env evidence) (\<lambda>_.
     bindE (dataset_schema (de_contract env) (dc_dataset_id c)) (\<lambda>schema.
     let assignments = map assignment_of (sort_key (\<lambda>run. (rd_start run, rd_run_id run)) tagged);
         report = \<lparr>dp_dataset_id = dc_dataset_id c, dp_output_dir = out,
           dp_total_rows = sum_list (map (sn_rows \<circ> snd) summaries),
           dp_selected_runs = length (ls_runs loaded), dp_splits = summaries, dp_blocks = blocks,
           dp_overlaps = overlaps, dp_duplicates = duplicates, dp_excluded = ls_excluded loaded,
           dp_quality = ls_quality loaded, dp_statistics = statistics,
           dp_constant = map fs_name (filter (\<lambda>f. fs_unique f = 1) statistics), dp_evidence = evidence\<rparr> in
     Inr (concat (map (split_files a) SPLITS) @
          [SchemaJson schema, LabelMapJson, SplitManifestJson blocks assignments overlaps duplicates,
           DatasetManifestJson report], report))))))"

definition build_dataset :: "'r dataset_env \<Rightarrow> dataset_config \<Rightarrow> (dataset_file list \<times> dataset_report) res" where
  "build_dataset env c =
     (let out = au_resolve (de_audit env) (dc_output_dir c) in
     bindE (check_target env c out) (\<lambda>_.
     bindE (au_file_hash (de_audit env) (de_contract_file env)) (\<lambda>contract_hash.
     bindE (load_runs env c) (\<lambda>loaded.
     bindE (read_roles env c) (\<lambda>roles.
     assemble_dataset env c out (dict_set (de_contract_file env) contract_hash (ls_evidence loaded)) roles loaded)))))"

section \<open>What a built dataset promises\<close>

lemma run_rows_length: "length (run_rows runs) = sum_list (map (length \<circ> rd_rows) runs)"
  by (induction runs) (auto simp: run_rows_def)

lemma length_by_role:
  "length (run_rows (filter (\<lambda>r. f r = Train) runs)) + length (run_rows (filter (\<lambda>r. f r = Validation) runs))
    + length (run_rows (filter (\<lambda>r. f r = Test) runs)) = length (run_rows runs)"
proof (induction runs)
  case Nil
  then show ?case by (simp add: run_rows_def)
next
  case (Cons r runs)
  then show ?case by (cases "f r") (simp_all add: run_rows_length)
qed


text \<open>What the whole build adds: a new place outside the campaigns, and audited runs.\<close>

lemma build_dataset_Inr:
  assumes "build_dataset env c = Inr (files, report)"
  obtains loaded roles h where "load_runs env c = Inr loaded"
    "assemble_dataset env c (au_resolve (de_audit env) (dc_output_dir c))
       (dict_set (de_contract_file env) h (ls_evidence loaded)) roles loaded = Inr (files, report)"
    "\<not> de_exists env (au_resolve (de_audit env) (dc_output_dir c))"
    "\<forall>d\<in>set (dc_campaign_dirs c). \<not> path_within (au_resolve (de_audit env) (dc_output_dir c)) (au_resolve (de_audit env) d)"
  using assms unfolding build_dataset_def Let_def bindE_Inr_iff check_target_def
  by (auto simp: list_ex_iff split: if_splits intro: that)

end
