(* ===== verification/Operational_Data.thy ===== *)
theory Operational_Data
  imports Dataset_Build
begin

text \<open>
  \<open>training/operational_data.py\<close>: loading the train and validation parts of a built dataset for
  training, and \<open>assess_model_schema\<close> of \<open>evaluation/audit_feature_alignment.py\<close>. Reading bytes,
  SHA-256, JSON and CSV decoding and number parsing are parameters; the contract is the JSON
  value the program loads at start.
\<close>

section \<open>Tables\<close>

text \<open>A CSV file read with \<open>dtype=str\<close>.\<close>

record frame =
  fr_columns :: "string list"
  fr_rows :: "string list list"

definition cell :: "frame \<Rightarrow> string \<Rightarrow> string list \<Rightarrow> string" where
  "cell f name row = (case map_of (zip (fr_columns f) row) name of Some s \<Rightarrow> s | None \<Rightarrow> [])"

definition col :: "frame \<Rightarrow> string \<Rightarrow> string list" where
  "col f name = map (cell f name) (fr_rows f)"

definition cols :: "frame \<Rightarrow> string list \<Rightarrow> string list list" where
  "cols f names = map (\<lambda>row. map (\<lambda>n. cell f n row) names) (fr_rows f)"

record op_split =
  op_columns :: "string list"
  op_X :: "pyfloat list list"
  op_y :: "int list"
  op_meta :: frame

record op_data =
  od_dataset_id :: string
  od_schema :: py
  od_train :: op_split
  od_validation :: op_split
  od_evidence :: "(string, string) dict"

record load_env =
  le_bytes :: "string \<Rightarrow> string res"
  le_sha :: "string \<Rightarrow> string"
  le_decode :: "string \<Rightarrow> json option"
  le_csv :: "string \<Rightarrow> frame res"
  le_contract :: py
  le_contract_hash :: "string res"
  le_int :: "string \<Rightarrow> int res"
  le_float :: "string \<Rightarrow> pyfloat res"
  le_repr :: "pyfloat \<Rightarrow> string"
  le_container :: "py \<Rightarrow> string"

section \<open>Schema compatibility\<close>

text \<open>The reasons against a model schema; it is compatible when there is none.\<close>

definition assess_model_schema :: "py \<Rightarrow> string \<Rightarrow> py \<Rightarrow> string list res" where
  "assess_model_schema contract event_type model_schema =
     bindE (contract_event contract event_type) (\<lambda>event.
     bindE (py_item event ''feature_order'') (\<lambda>expected_names.
     if model_schema = PyNone then Inr [''no schema''] else
     bindE (py_getE model_schema ''raw_input_features'') (\<lambda>names.
     bindE (py_item event ''feature_contract_id'') (\<lambda>cid.
     bindE (py_item contract ''wire_schema_version'') (\<lambda>wire.
     bindE (py_item contract ''capture_layer'') (\<lambda>layer.
     bindE (py_item event ''observation_scope'') (\<lambda>scope.
     bindE (bindE (py_iter expected_names) (feature_map contract ''unit'')) (\<lambda>units.
     let actual = (if names = PyNone then PyList [] else names);
         required = [(''feature_contract_id'', cid), (''wire_schema_version'', wire), (''capture_layer'', layer),
           (''observation_scope'', scope), (''event_type'', PyStr event_type), (''feature_units'', units)] in
     Inr ((if py_eq actual expected_names then [] else [''raw inputs''])
       @ map fst (filter (\<lambda>(k, v). \<not> py_eq (py_get (as_dict model_schema) k) v) required))))))))))"

section \<open>Verified files\<close>

type_synonym 'a loading = "((string, string) dict, 'a) act"

definition read_output :: "load_env \<Rightarrow> py \<Rightarrow> string \<Rightarrow> string loading" where
  "read_output env manifest name =
     bindS (liftS (le_bytes env name)) (\<lambda>content.
     let digest = le_sha env content in
     bindS (liftS (bindE (path_items manifest [''output_files'', name, ''sha256'']) (\<lambda>h.
        check (py_eq h (PyStr digest)) (ValueError ''hash'')))) (\<lambda>_.
     bindS (modifyS (dict_set name digest)) (\<lambda>_.
     retS content)))"

definition read_document :: "load_env \<Rightarrow> py \<Rightarrow> string \<Rightarrow> py loading" where
  "read_document env manifest name =
     bindS (read_output env manifest name) (\<lambda>content. liftS (parse_json (le_decode env) content))"

definition read_table :: "load_env \<Rightarrow> py \<Rightarrow> string \<Rightarrow> string list \<Rightarrow> frame loading" where
  "read_table env manifest name columns =
     bindS (read_output env manifest name) (\<lambda>content.
     bindS (liftS (le_csv env content)) (\<lambda>f.
     bindS (liftS (path_items manifest [''output_files'', name])) (\<lambda>description.
     bindS (liftS (rejectE (ValueError ''table'')
       [Inr (fr_columns f \<noteq> columns), item_ne description ''columns'' (py_strs columns),
        item_ne description ''rows'' (PyInt (int (length (fr_rows f)))),
        Inr (fr_rows f = [] \<or> list_ex (\<lambda>r. [] \<in> set r) (fr_rows f))])) (\<lambda>_.
     retS f))))"

section \<open>One split\<close>

definition typed_features :: "load_env \<Rightarrow> frame \<Rightarrow> string list \<Rightarrow> message_features res" where
  "typed_features env raw row =
     bindE (bindE (contract_event (le_contract env) ''message'') (\<lambda>e. bindE (py_item e ''feature_order'') py_iter)) (\<lambda>names.
     bindE (mapE (\<lambda>n. bindE (py_str n) (\<lambda>s.
        bindE (path_items (le_contract env) [''features'', s, ''dtype'']) (\<lambda>t.
        if py_eq t (PyStr ''integer'')
        then bindE (le_int env (cell raw s row)) (\<lambda>i. Inr (s, PyInt i))
        else bindE (le_float env (cell raw s row)) (\<lambda>x. Inr (s, PyFloat x))))) names) (\<lambda>d.
     parse_message_features (PyDict d)))"

definition feature_row :: "message_features \<Rightarrow> pyfloat list" where
  "feature_row f = [float_of_int (mf_packet_size f), float_of_int (mf_payload_size f),
     mf_connection_duration_ms f, mf_message_interval_ms f, float_of_int (mf_bytes_received_total f),
     float_of_int (mf_bytes_sent_total f), float_of_int (mf_error_count_total f)]"

definition load_row :: "load_env \<Rightarrow> frame \<Rightarrow> frame \<Rightarrow> string list \<times> string list \<Rightarrow> message_features res" where
  "load_row env raw metadata p =
     bindE (typed_features env raw (fst p)) (\<lambda>f.
     bindE (check (fingerprint (le_repr env) (le_sha env) f = cell metadata ''feature_hash'' (snd p))
       (ValueError ''feature hash'')) (\<lambda>_.
     bindE (bindE (py_item (le_contract env) ''application_header_size_bytes'') int_item) (\<lambda>header.
     bindE (check (mf_packet_size f = mf_payload_size f + header) (ValueError ''frame size'')) (\<lambda>_.
     Inr f))))"

text \<open>\<open>str\<close> of a JSON value; the text of a container is a parameter.\<close>

fun py_show :: "load_env \<Rightarrow> py \<Rightarrow> string" where
  "py_show env (PyStr s) = s"
| "py_show env (PyInt n) = int_str n"
| "py_show env (PyBool b) = (if b then ''True'' else ''False'')"
| "py_show env PyNone = ''None''"
| "py_show env (PyFloat x) = le_repr env x"
| "py_show env v = le_container env v"

definition check_run :: "load_env \<Rightarrow> frame \<Rightarrow> (string \<times> py) list \<Rightarrow> string \<times> string list list \<Rightarrow> unit res" where
  "check_run env metadata assigned g =
     bindE (case map_of (rev assigned) (fst g) of None \<Rightarrow> Inl (KeyError (fst g)) | Some e \<Rightarrow> Inr e) (\<lambda>entry.
     bindE (rejectE (ValueError ''run counts'')
       [item_ne entry ''rows'' (PyInt (int (length (snd g)))),
        item_ne entry ''sessions'' (PyInt (int (length (remdups (map (cell metadata ''session_id'') (snd g))))))]) (\<lambda>_.
     forE (\<lambda>name. bindE (py_item entry name) (\<lambda>v.
       check (set (map (cell metadata name) (snd g)) = {py_show env v}) (ValueError name)))
       [''campaign_id'', ''scenario_id'', ''repeat_index'', ''block_id'']))"

definition assigned_runs :: "py \<Rightarrow> string \<Rightarrow> (string \<times> py) list res" where
  "assigned_runs assignments split =
     bindE (bindE (py_item assignments ''runs'') py_iter) (\<lambda>items.
     bindE (mapE (\<lambda>i. bindE (py_item i ''split'') (\<lambda>s.
        if py_eq s (PyStr split) then bindE (bindE (py_item i ''run_id'') py_str) (\<lambda>r. Inr [(r, i)]) else Inr [])) items)
       (\<lambda>xs. Inr (concat xs)))"

definition label_counts_py :: "string list \<Rightarrow> py" where
  "label_counts_py labels = PyDict (map (\<lambda>l. (l, PyInt (int (length (filter (\<lambda>x. x = l) labels))))) [''0'', ''1''])"

definition check_tables :: "py \<Rightarrow> string \<Rightarrow> frame \<Rightarrow> frame \<Rightarrow> frame \<Rightarrow> unit res" where
  "check_tables manifest split raw targets metadata =
     bindE (path_items manifest [''splits'', split, ''rows'']) (\<lambda>n.
     bindE (check (length (fr_rows raw) = length (fr_rows targets) \<and> length (fr_rows targets) = length (fr_rows metadata) \<and>
         py_eq (PyInt (int (length (fr_rows metadata)))) n) (ValueError ''row counts'')) (\<lambda>_.
     bindE (check (set (col targets ''label'') = {''0'', ''1''}) (ValueError ''labels'')) (\<lambda>_.
     bindE (check (distinct (col metadata ''row_id'') \<and> set (col metadata ''split'') = {split}) (ValueError ''rows'')) (\<lambda>_.
     check (distinct (cols metadata [''run_id'', ''session_id'', ''request_index''])) (ValueError ''messages'')))))"

definition check_assigned :: "load_env \<Rightarrow> py \<Rightarrow> py \<Rightarrow> string \<Rightarrow> frame \<Rightarrow> frame \<Rightarrow> unit res" where
  "check_assigned env manifest assignments split targets metadata =
     bindE (assigned_runs assignments split) (\<lambda>assigned.
     bindE (check (set (map fst assigned) = set (col metadata ''run_id'')) (ValueError ''runs'')) (\<lambda>_.
     bindE (forE (check_run env metadata assigned) (group_by (cell metadata ''run_id'') (fr_rows metadata))) (\<lambda>_.
     bindE (path_items manifest [''splits'', split, ''label_distribution'']) (\<lambda>d.
     check (py_eq (label_counts_py (col targets ''label'')) d) (ValueError ''distribution'')))))"

definition check_split_tables ::
    "load_env \<Rightarrow> py \<Rightarrow> py \<Rightarrow> string \<Rightarrow> frame \<Rightarrow> frame \<Rightarrow> frame \<Rightarrow> op_split res" where
  "check_split_tables env manifest assignments split raw targets metadata =
     bindE (check_tables manifest split raw targets metadata) (\<lambda>_.
     bindE (mapE (load_row env raw metadata) (zip (fr_rows raw) (fr_rows metadata))) (\<lambda>fs.
     bindE (check_assigned env manifest assignments split targets metadata) (\<lambda>_.
     Inr \<lparr>op_columns = MESSAGE_FEATURE_ORDER, op_X = map feature_row fs,
       op_y = map (\<lambda>l. if l = ''1'' then 1 else 0) (col targets ''label''), op_meta = metadata\<rparr>)))"

definition load_split_tables :: "load_env \<Rightarrow> py \<Rightarrow> py \<Rightarrow> string \<Rightarrow> op_split loading" where
  "load_split_tables env manifest assignments split =
     bindS (read_table env manifest (''X_'' @ split @ ''.csv'') MESSAGE_FEATURE_ORDER) (\<lambda>raw.
     bindS (read_table env manifest (''y_'' @ split @ ''.csv'') [''label'']) (\<lambda>targets.
     bindS (read_table env manifest (''metadata_'' @ split @ ''.csv'') METADATA_COLUMNS) (\<lambda>metadata.
     liftS (check_split_tables env manifest assignments split raw targets metadata))))"

section \<open>The whole load\<close>

definition check_manifest :: "load_env \<Rightarrow> py \<Rightarrow> string \<Rightarrow> unit res" where
  "check_manifest env manifest dataset_id =
     bindE (rejectE (ValueError ''incomplete'')
       [get_ne manifest ''status'' (PyStr ''complete''), get_ne manifest ''dataset_id'' (PyStr dataset_id)]) (\<lambda>_.
     bindE (contract_event (le_contract env) ''message'') (\<lambda>event.
     bindE (py_item event ''feature_order'') (\<lambda>order.
     rejectE (ValueError ''another contract'')
       [get_ne manifest ''feature_order'' order,
        bindE (py_item event ''feature_contract_id'') (get_ne manifest ''feature_contract_id''),
        bindE (le_contract_hash env) (\<lambda>h. get_ne manifest ''contract_sha256'' (PyStr h)),
        get_is_not manifest ''preprocessing_fitted'' False])))"

definition check_schema :: "load_env \<Rightarrow> py \<Rightarrow> string \<Rightarrow> unit res" where
  "check_schema env schema dataset_id =
     bindE (assess_model_schema (le_contract env) ''message'' schema) (\<lambda>reasons.
     bindE (bindE (contract_event (le_contract env) ''message'') (\<lambda>e. bindE (py_item e ''feature_order'') py_iter)) (\<lambda>names.
     bindE (feature_map (le_contract env) ''dtype'' names) (\<lambda>dtypes.
     rejectE (ValueError ''schema'')
       [Inr (reasons \<noteq> []), get_ne schema ''dataset_id'' (PyStr dataset_id),
        get_ne schema ''feature_dtypes'' dtypes,
        get_ne schema ''missing_value_policy'' (PyStr ''reject_without_zero_fill''),
        bindE (py_getE schema ''preprocessing'') (\<lambda>p.
          get_ne (if p = PyNone then PyDict [] else p) ''status'' (PyStr ''not_fitted''))])))"

definition leak :: "frame \<Rightarrow> frame \<Rightarrow> string list \<Rightarrow> bool" where
  "leak a b names \<longleftrightarrow> list_ex (\<lambda>x. x \<in> set (cols b names)) (cols a names)"

definition load_operational_data :: "load_env \<Rightarrow> string \<Rightarrow> op_data loading" where
  "load_operational_data env dataset_id =
     bindS (liftS (le_bytes env ''dataset_manifest.json'')) (\<lambda>content.
     bindS (liftS (parse_json (le_decode env) content)) (\<lambda>manifest.
     bindS (modifyS (dict_set ''dataset_manifest.json'' (le_sha env content))) (\<lambda>_.
     bindS (liftS (check_manifest env manifest dataset_id)) (\<lambda>_.
     bindS (read_document env manifest ''feature_schema.json'') (\<lambda>schema.
     bindS (read_document env manifest ''label_map.json'') (\<lambda>label_map.
     bindS (read_document env manifest ''split_manifest.json'') (\<lambda>assignments.
     bindS (liftS (check_schema env schema dataset_id)) (\<lambda>_.
     bindS (liftS (check (py_eq label_map (PyDict [(''normal'', PyInt 0), (''controlled_anomaly'', PyInt 1)]))
       (ValueError ''label map''))) (\<lambda>_.
     bindS (load_split_tables env manifest assignments ''train'') (\<lambda>train.
     bindS (load_split_tables env manifest assignments ''validation'') (\<lambda>validation.
     bindS (liftS (forE (\<lambda>names. check (\<not> leak (op_meta train) (op_meta validation) names) (ValueError ''leak''))
       [[''run_id''], [''run_id'', ''session_id''], [''row_id'']])) (\<lambda>_ evidence.
     (Inr \<lparr>od_dataset_id = dataset_id, od_schema = schema, od_train = train, od_validation = validation,
        od_evidence = evidence\<rparr>, evidence)))))))))))))"

section \<open>What loaded data promises\<close>

definition split_loaded :: "load_env \<Rightarrow> string \<Rightarrow> op_split \<Rightarrow> bool" where
  "split_loaded env split d \<longleftrightarrow>
     (\<exists>header fs. bindE (py_item (le_contract env) ''application_header_size_bytes'') int_item = Inr header \<and>
       op_X d = map feature_row fs \<and> length fs = length (op_y d) \<and>
       list_all (\<lambda>f. mf_packet_size f = mf_payload_size f + header) fs \<and>
       map (fingerprint (le_repr env) (le_sha env)) fs = col (op_meta d) ''feature_hash'') \<and>
     set (op_y d) = {0, 1} \<and> op_columns d = MESSAGE_FEATURE_ORDER \<and>
     distinct (col (op_meta d) ''row_id'') \<and>
     distinct (cols (op_meta d) [''run_id'', ''session_id'', ''request_index'']) \<and>
     set (col (op_meta d) ''split'') = {split}"

lemma load_row_Inr:
  "load_row env raw metadata p = Inr f \<longleftrightarrow> typed_features env raw (fst p) = Inr f \<and>
     fingerprint (le_repr env) (le_sha env) f = cell metadata ''feature_hash'' (snd p) \<and>
     bindE (py_item (le_contract env) ''application_header_size_bytes'') int_item =
       Inr (mf_packet_size f - mf_payload_size f)"
  by (auto simp: load_row_def bindE_Inr_iff)

lemma check_tables_Inr:
  "check_tables manifest split raw targets metadata = Inr u \<Longrightarrow>
     length (fr_rows raw) = length (fr_rows targets) \<and> length (fr_rows targets) = length (fr_rows metadata) \<and>
     set (col targets ''label'') = {''0'', ''1''} \<and> distinct (col metadata ''row_id'') \<and>
     set (col metadata ''split'') = {split} \<and> distinct (cols metadata [''run_id'', ''session_id'', ''request_index''])"
  unfolding check_tables_def bindE_Inr_iff check_Inr_iff by (elim exE conjE) (intro conjI, assumption+)

lemma check_split_tables_loaded:
  assumes "check_split_tables env manifest assignments split raw targets metadata = Inr d"
  shows "split_loaded env split d \<and> op_meta d = metadata"
proof -
  from assms obtain fs where
    t: "check_tables manifest split raw targets metadata = Inr ()" and
    fs: "list_all2 (\<lambda>p f. load_row env raw metadata p = Inr f) (zip (fr_rows raw) (fr_rows metadata)) fs" and
    d: "d = \<lparr>op_columns = MESSAGE_FEATURE_ORDER, op_X = map feature_row fs,
       op_y = map (\<lambda>l. if l = ''1'' then 1 else 0) (col targets ''label''), op_meta = metadata\<rparr>"
    by (auto simp: check_split_tables_def bindE_Inr_iff mapE_Inr_iff)
  from check_tables_Inr [OF t] have
    len: "length (fr_rows raw) = length (fr_rows targets)" "length (fr_rows targets) = length (fr_rows metadata)" and
    y: "set (col targets ''label'') = {''0'', ''1''}" and
    ids: "distinct (col metadata ''row_id'')" "set (col metadata ''split'') = {split}"
      "distinct (cols metadata [''run_id'', ''session_id'', ''request_index''])" by blast+
  have n: "length fs = length (fr_rows metadata)" using list_all2_lengthD [OF fs] len by simp
  have row: "load_row env raw metadata (fr_rows raw ! i, fr_rows metadata ! i) = Inr (fs ! i)"
    if "i < length fs" for i
    using list_all2_nthD2 [OF fs that] that n len by simp
  have "col targets ''label'' \<noteq> []" using y by (metis insert_not_empty list.set(1))
  then have "0 < length fs" using n len by (simp add: col_def) (metis length_0_conv)
  from row [OF this] obtain header where
    h: "bindE (py_item (le_contract env) ''application_header_size_bytes'') int_item = Inr header"
    by (auto simp: load_row_Inr)
  have "list_all (\<lambda>f. mf_packet_size f = mf_payload_size f + header) fs"
    using row h by (auto simp: load_row_Inr list_all_length)
  moreover have "map (fingerprint (le_repr env) (le_sha env)) fs = col metadata ''feature_hash''"
    using row n by (intro nth_equalityI) (simp_all add: col_def load_row_Inr)
  moreover have "set (op_y d) = (\<lambda>l. if l = ''1'' then 1 else 0) ` set (col targets ''label'')" by (simp add: d)
  then have "set (op_y d) = {0, 1}" unfolding y by auto
  moreover have "length fs = length (op_y d)" using n len by (simp add: d col_def)
  ultimately show ?thesis using h ids by (auto simp: split_loaded_def d)
qed

text \<open>The files a load may open.\<close>

definition loaded_names :: "string list" where
  "loaded_names = [''dataset_manifest.json'', ''feature_schema.json'', ''label_map.json'', ''split_manifest.json'',
     ''X_train.csv'', ''y_train.csv'', ''metadata_train.csv'',
     ''X_validation.csv'', ''y_validation.csv'', ''metadata_validation.csv'']"

definition hashed :: "load_env \<Rightarrow> (string, string) dict \<Rightarrow> bool" where
  "hashed env d \<longleftrightarrow> (\<forall>n h. (n, h) \<in> set d \<longrightarrow> (\<exists>content. le_bytes env n = Inr content \<and> h = le_sha env content))"

lemma dict_set_new: "k \<notin> set (map fst d) \<Longrightarrow> dict_set k v d = d @ [(k, v)]"
  by (induction d) auto

text \<open>A reading step appends one verified file to the evidence.\<close>

definition adds :: "load_env \<Rightarrow> py \<Rightarrow> string list \<Rightarrow> (string, string) dict \<Rightarrow> (string, string) dict \<Rightarrow> bool" where
  "adds env manifest names d e \<longleftrightarrow> map fst e = map fst d @ names \<and> (hashed env d \<longrightarrow> hashed env e) \<and>
     (\<forall>n\<in>set names. \<exists>h. path_items manifest [''output_files'', n, ''sha256''] = Inr h \<and>
        (\<exists>s. map_of e n = Some s \<and> py_eq h (PyStr s))) \<and> (\<forall>n\<in>set (map fst d). map_of e n = map_of d n)"

lemma read_output_adds:
  assumes "read_output env manifest name d = (Inr content, e)" and "name \<notin> set (map fst d)"
  shows "adds env manifest [name] d e"
proof -
  have e: "e = d @ [(name, le_sha env content)]" "le_bytes env name = Inr content"
    "\<exists>h. path_items manifest [''output_files'', name, ''sha256''] = Inr h \<and> py_eq h (PyStr (le_sha env content))"
    using assms by (auto simp: read_output_def bindS_Inr_iff bindE_Inr_iff Let_def dict_set_new)
  moreover have "map_of d name = None" using assms(2) by (simp add: map_of_eq_None_iff)
  ultimately show ?thesis by (auto simp: adds_def hashed_def map_add_def split: option.split dest: weak_map_of_SomeI)
qed

lemma adds_trans:
  assumes "adds env manifest ns d e" and "adds env manifest ms e f" and "set ns \<inter> set ms = {}"
  shows "adds env manifest (ns @ ms) d f"
  using assms unfolding adds_def by (auto simp: image_Un)

lemma read_table_adds:
  "read_table env manifest name columns d = (Inr f, e) \<Longrightarrow> name \<notin> set (map fst d) \<Longrightarrow> adds env manifest [name] d e"
  by (auto simp: read_table_def bindS_Inr_iff dest: read_output_adds)

lemma read_document_adds:
  "read_document env manifest name d = (Inr f, e) \<Longrightarrow> name \<notin> set (map fst d) \<Longrightarrow> adds env manifest [name] d e"
  by (auto simp: read_document_def bindS_Inr_iff dest: read_output_adds)

definition split_names :: "string \<Rightarrow> string list" where
  "split_names split = [''X_'' @ split @ ''.csv'', ''y_'' @ split @ ''.csv'', ''metadata_'' @ split @ ''.csv'']"

lemma load_split_tables_loaded:
  assumes "load_split_tables env manifest assignments split d = (Inr t, e)"
    and "set (split_names split) \<inter> set (map fst d) = {}"
  shows "adds env manifest (split_names split) d e \<and> split_loaded env split t"
proof -
  from assms(1) obtain raw targets metadata d1 d2 where
    r: "read_table env manifest (''X_'' @ split @ ''.csv'') MESSAGE_FEATURE_ORDER d = (Inr raw, d1)"
      "read_table env manifest (''y_'' @ split @ ''.csv'') [''label''] d1 = (Inr targets, d2)"
      "read_table env manifest (''metadata_'' @ split @ ''.csv'') METADATA_COLUMNS d2 = (Inr metadata, e)" and
    c: "check_split_tables env manifest assignments split raw targets metadata = Inr t"
    by (auto simp: load_split_tables_def bindS_Inr_iff)
  have n: "''X_'' @ split @ ''.csv'' \<notin> set (map fst d)" "''y_'' @ split @ ''.csv'' \<notin> set (map fst d)"
    "''metadata_'' @ split @ ''.csv'' \<notin> set (map fst d)"
    using assms(2) by (auto simp: split_names_def)
  have a1: "adds env manifest [''X_'' @ split @ ''.csv''] d d1" by (rule read_table_adds [OF r(1) n(1)])
  then have f1: "map fst d1 = map fst d @ [''X_'' @ split @ ''.csv'']" by (simp add: adds_def)
  have a2: "adds env manifest [''y_'' @ split @ ''.csv''] d1 d2"
    using n(2) by (intro read_table_adds [OF r(2)]) (simp add: f1 del: append_assoc)
  then have f2: "map fst d2 = map fst d @ [''X_'' @ split @ ''.csv'', ''y_'' @ split @ ''.csv'']" by (simp add: adds_def f1)
  have a3: "adds env manifest [''metadata_'' @ split @ ''.csv''] d2 e"
    using n(3) by (intro read_table_adds [OF r(3)]) (simp add: f2)
  have "adds env manifest (([''X_'' @ split @ ''.csv''] @ [''y_'' @ split @ ''.csv'']) @ [''metadata_'' @ split @ ''.csv'']) d e"
    by (intro adds_trans [OF adds_trans [OF a1 a2] a3]) simp_all
  then show ?thesis using check_split_tables_loaded [OF c] by (simp add: split_names_def)
qed

lemma loaded_names_split:
  "loaded_names = [''dataset_manifest.json''] @ ((([''feature_schema.json''] @ [''label_map.json'']) @ [''split_manifest.json'']) @
     split_names ''train'') @ split_names ''validation''"
  by (simp add: loaded_names_def split_names_def)

lemma adds_keys: "adds env manifest ns d e \<Longrightarrow> map fst e = map fst d @ ns"
  by (simp add: adds_def)

lemma leak_iff: "leak a b ns \<longleftrightarrow> set (cols a ns) \<inter> set (cols b ns) \<noteq> {}"
  by (auto simp: leak_def list_ex_iff)

text \<open>The steps of a successful load.\<close>

lemma load_operational_data_steps:
  assumes "load_operational_data env dataset_id [] = (Inr data, e)"
  obtains content manifest assignments d1 d2 d3 d4 where
    "le_bytes env ''dataset_manifest.json'' = Inr content" "check_manifest env manifest dataset_id = Inr ()"
    "read_document env manifest ''feature_schema.json'' [(''dataset_manifest.json'', le_sha env content)] = (Inr (od_schema data), d1)"
    "\<exists>l. read_document env manifest ''label_map.json'' d1 = (Inr l, d2)"
    "read_document env manifest ''split_manifest.json'' d2 = (Inr assignments, d3)"
    "check_schema env (od_schema data) dataset_id = Inr ()"
    "load_split_tables env manifest assignments ''train'' d3 = (Inr (od_train data), d4)"
    "load_split_tables env manifest assignments ''validation'' d4 = (Inr (od_validation data), e)"
    "\<not> leak (op_meta (od_train data)) (op_meta (od_validation data)) [''run_id'']"
    "\<not> leak (op_meta (od_train data)) (op_meta (od_validation data)) [''run_id'', ''session_id'']"
    "\<not> leak (op_meta (od_train data)) (op_meta (od_validation data)) [''row_id'']"
    "od_dataset_id data = dataset_id" "od_evidence data = e"
    "parse_json (le_decode env) content = Inr manifest"
  using assms unfolding load_operational_data_def
  by (auto simp: bindS_Inr_iff bindE_Inr_iff forE_Inr_iff intro: that)

lemma loaded_data_facts:
  assumes "load_operational_data env dataset_id [] = (Inr data, evidence)"
  shows "od_evidence data = evidence \<and> map fst evidence = loaded_names \<and> hashed env evidence \<and>
    split_loaded env ''train'' (od_train data) \<and> split_loaded env ''validation'' (od_validation data) \<and>
    (\<forall>ns\<in>{[''run_id''], [''run_id'', ''session_id''], [''row_id'']}.
       set (cols (op_meta (od_train data)) ns) \<inter> set (cols (op_meta (od_validation data)) ns) = {})"
proof -
  from assms obtain content manifest assignments d1 d2 d3 d4 l where
    r: "le_bytes env ''dataset_manifest.json'' = Inr content"
      "read_document env manifest ''feature_schema.json'' [(''dataset_manifest.json'', le_sha env content)] = (Inr (od_schema data), d1)"
      "read_document env manifest ''label_map.json'' d1 = (Inr l, d2)"
      "read_document env manifest ''split_manifest.json'' d2 = (Inr assignments, d3)"
      "load_split_tables env manifest assignments ''train'' d3 = (Inr (od_train data), d4)"
      "load_split_tables env manifest assignments ''validation'' d4 = (Inr (od_validation data), evidence)" and
    k: "\<not> leak (op_meta (od_train data)) (op_meta (od_validation data)) [''run_id'']"
      "\<not> leak (op_meta (od_train data)) (op_meta (od_validation data)) [''run_id'', ''session_id'']"
      "\<not> leak (op_meta (od_train data)) (op_meta (od_validation data)) [''row_id'']"
      "od_evidence data = evidence"
    by (elim load_operational_data_steps exE)
  let ?m = "[(''dataset_manifest.json'', le_sha env content)]"
  have a1: "adds env manifest [''feature_schema.json''] ?m d1" by (rule read_document_adds [OF r(2)]) simp
  have a2: "adds env manifest [''label_map.json''] d1 d2"
    by (rule read_document_adds [OF r(3)]) (simp add: adds_keys [OF a1])
  have a3: "adds env manifest [''split_manifest.json''] d2 d3"
    by (rule read_document_adds [OF r(4)]) (simp add: adds_keys [OF a1] adds_keys [OF a2])
  have t: "adds env manifest (split_names ''train'') d3 d4 \<and> split_loaded env ''train'' (od_train data)"
    by (rule load_split_tables_loaded [OF r(5)])
      (simp add: adds_keys [OF a1] adds_keys [OF a2] adds_keys [OF a3] split_names_def)
  have v: "adds env manifest (split_names ''validation'') d4 evidence \<and> split_loaded env ''validation'' (od_validation data)"
    by (rule load_split_tables_loaded [OF r(6)])
      (simp add: adds_keys [OF a1] adds_keys [OF a2] adds_keys [OF a3] adds_keys [OF conjunct1 [OF t]] split_names_def)
  have "adds env manifest ((([''feature_schema.json''] @ [''label_map.json'']) @ [''split_manifest.json'']) @
      split_names ''train'' @ split_names ''validation'') ?m evidence"
    by (intro adds_trans [OF adds_trans [OF adds_trans [OF a1 a2] a3] adds_trans [OF conjunct1 [OF t] conjunct1 [OF v]]])
      (simp_all add: split_names_def)
  moreover have "hashed env ?m" using r(1) by (simp add: hashed_def)
  ultimately have "map fst evidence = loaded_names" "hashed env evidence"
    by (simp_all add: adds_def loaded_names_split)
  with k t v show ?thesis by (simp add: leak_iff)
qed

lemma loaded_evidence:
  "load_operational_data env dataset_id [] = (Inr data, evidence) \<Longrightarrow>
     od_evidence data = evidence \<and> map fst (od_evidence data) = loaded_names"
  using loaded_data_facts by blast


section \<open>The test files stay closed\<close>

lemma read_output_local:
  "le_bytes env name = g name \<Longrightarrow> read_output (env\<lparr>le_bytes := g\<rparr>) manifest name = read_output env manifest name"
  by (simp add: read_output_def Let_def)

lemma typed_features_local [simp]: "typed_features (env\<lparr>le_bytes := g\<rparr>) = typed_features env"
  by (simp add: typed_features_def fun_eq_iff cong: if_cong)

lemma load_row_local [simp]: "load_row (env\<lparr>le_bytes := g\<rparr>) = load_row env"
  by (simp add: load_row_def fun_eq_iff)

lemma py_show_local [simp]: "py_show (env\<lparr>le_bytes := g\<rparr>) v = py_show env v"
  by (cases v) simp_all

lemma check_run_local [simp]: "check_run (env\<lparr>le_bytes := g\<rparr>) = check_run env"
  by (simp add: check_run_def fun_eq_iff)

lemma check_split_tables_local [simp]: "check_split_tables (env\<lparr>le_bytes := g\<rparr>) = check_split_tables env"
  by (simp add: check_split_tables_def check_assigned_def fun_eq_iff)

lemma check_schema_local [simp]: "check_schema (env\<lparr>le_bytes := g\<rparr>) = check_schema env"
  by (simp add: check_schema_def fun_eq_iff)

lemma check_manifest_local [simp]: "check_manifest (env\<lparr>le_bytes := g\<rparr>) = check_manifest env"
  by (simp add: check_manifest_def fun_eq_iff)

lemma read_document_local:
  "le_bytes env name = g name \<Longrightarrow> read_document (env\<lparr>le_bytes := g\<rparr>) manifest name = read_document env manifest name"
  by (simp add: read_document_def read_output_local)

lemma load_split_tables_local:
  "\<forall>n\<in>set (split_names split). le_bytes env n = g n \<Longrightarrow>
     load_split_tables (env\<lparr>le_bytes := g\<rparr>) manifest assignments split = load_split_tables env manifest assignments split"
  by (simp add: load_split_tables_def read_table_def read_output_local split_names_def)

lemma load_local:
  assumes "\<forall>n\<in>set loaded_names. le_bytes env n = g n"
  shows "load_operational_data (env\<lparr>le_bytes := g\<rparr>) dataset_id = load_operational_data env dataset_id"
proof -
  have n: "le_bytes env n = g n" if "n \<in> set loaded_names" for n using assms that by blast
  have s: "\<forall>n\<in>set (split_names s). le_bytes env n = g n" if "s = ''train'' \<or> s = ''validation''" for s
  proof -
    have "set (split_names ''train'') \<subseteq> set loaded_names" "set (split_names ''validation'') \<subseteq> set loaded_names"
      unfolding loaded_names_split by (simp_all add: split_names_def)
    then show ?thesis using n that by blast
  qed
  have t: "load_split_tables (env\<lparr>le_bytes := g\<rparr>) m a s = load_split_tables env m a s"
    if "s = ''train'' \<or> s = ''validation''" for s m a
    by (rule load_split_tables_local) (rule s [OF that])
  have d: "read_document (env\<lparr>le_bytes := g\<rparr>) m name = read_document env m name" if "name \<in> set loaded_names" for m name
    by (rule read_document_local) (rule n [OF that])
  have names: "''feature_schema.json'' \<in> set loaded_names" "''label_map.json'' \<in> set loaded_names"
    "''split_manifest.json'' \<in> set loaded_names" "''dataset_manifest.json'' \<in> set loaded_names"
    by (simp_all add: loaded_names_def)
  have m: "le_bytes env ''dataset_manifest.json'' = g ''dataset_manifest.json''" by (rule n [OF names(4)])
  show ?thesis
    unfolding load_operational_data_def d [OF names(1)] d [OF names(2)] d [OF names(3)]
      t [OF disjI1 [OF refl]] t [OF disjI2 [OF refl]] check_schema_local check_manifest_local m
    by simp
qed

text \<open>
  C34: the final evaluation stays protected. The result of a load, an exception and the
  evidence included, depends on the ten train and validation files only: whatever the other
  files of the directory hold, the test files among them, it is the same.
\<close>

theorem load_ignores_test_files:
  assumes "\<forall>n\<in>set loaded_names. le_bytes env n = g n"
  shows "load_operational_data (env\<lparr>le_bytes := g\<rparr>) dataset_id = load_operational_data env dataset_id"
  by (rule load_local [OF assms])

section \<open>The builder's schema is the one the loader accepts\<close>

text \<open>A value without NaN; Python's equality is reflexive on it.\<close>

fun no_nan :: "py \<Rightarrow> bool" where
  "no_nan (PyFloat x) = (x \<noteq> NaN)"
| "no_nan (PyList xs) = (\<forall>x\<in>set xs. no_nan x)"
| "no_nan (PyDict d) = (\<forall>p\<in>set d. no_nan (snd p))"
| "no_nan _ = True"

definition self_eq :: "py \<Rightarrow> bool" where
  "self_eq v \<longleftrightarrow> json_clean v \<and> no_nan v"

lemma self_eq_dict: "self_eq (PyDict d) \<longleftrightarrow> distinct (map fst d) \<and> (\<forall>p\<in>set d. self_eq (snd p))"
  by (auto simp: self_eq_def elim: json_clean.cases intro!: json_clean.intros)

lemma py_eq_refl: "json_clean v \<Longrightarrow> no_nan v \<Longrightarrow> py_eq v v"
proof (induction rule: json_clean.induct)
  case (7 d)
  have "map_of d k = Some v" if "(k, v) \<in> set d" for k v using that 7(1) by simp
  with 7 show ?case by fastforce
qed (auto simp: zip_same_conv_map feq_iff)

lemma self_eq_refl: "self_eq v \<Longrightarrow> py_eq v v"
  by (simp add: self_eq_def py_eq_refl)

lemma self_eq_item: "py_item v k = Inr w \<Longrightarrow> self_eq v \<Longrightarrow> self_eq w"
  by (cases v) (auto simp: self_eq_dict dest!: map_of_SomeD)

lemma self_eq_items: "path_items v ks = Inr w \<Longrightarrow> self_eq v \<Longrightarrow> self_eq w"
  by (induction v ks rule: path_items.induct) (auto simp: bindE_Inr_iff dest: self_eq_item)

lemma dict_update_facts:
  "wf_dict d \<Longrightarrow> wf_dict (dict_update d e)"
  "p \<in> set (dict_update d e) \<Longrightarrow> p \<in> set d \<union> set e"
proof -
  have set: "p \<in> set (dict_set k v d) \<Longrightarrow> p \<in> insert (k, v) (set d)" for p k v and d :: "('a, 'b) dict"
    by (induction d) (auto split: if_splits)
  show "wf_dict d \<Longrightarrow> wf_dict (dict_update d e)"
    unfolding dict_update_def by (induction e arbitrary: d) auto
  show "p \<in> set (dict_update d e) \<Longrightarrow> p \<in> set d \<union> set e"
    unfolding dict_update_def
  proof (induction e arbitrary: d)
    case (Cons q e)
    then show ?case by (cases q) (auto dest: Cons.IH set)
  qed simp
qed

lemma self_eq_feature_map:
  assumes "feature_map contract key names = Inr v" and "self_eq contract"
  shows "self_eq v"
proof -
  from assms(1) obtain d where d: "v = PyDict (dict_update [] d)" and
    m: "list_all2 (\<lambda>n p. bindE (py_str n) (\<lambda>s. bindE (path_items contract [''features'', s, key]) (\<lambda>v. Inr (s, v))) = Inr p) names d"
    by (auto simp: feature_map_def bindE_Inr_iff mapE_Inr_iff simp del: path_items.simps)
  have "self_eq (snd p)" if "p \<in> set d" for p
  proof -
    from m that obtain n where "bindE (py_str n) (\<lambda>s. bindE (path_items contract [''features'', s, key]) (\<lambda>v. Inr (s, v))) = Inr p"
      by (auto simp: list_all2_conv_all_nth in_set_conv_nth)
    then show ?thesis using self_eq_items [OF _ assms(2)] by (auto simp: bindE_Inr_iff simp del: path_items.simps)
  qed
  then show ?thesis using dict_update_facts(1) [of "[]" d] dict_update_facts(2) [of _ "[]" d] by (auto simp: d self_eq_dict)
qed

text \<open>
  C35: what the builder writes the loader accepts. The feature schema built from the contract,
  whatever feature names, units and types the contract has, passes the loader's schema check
  for the same contract and the same dataset.
\<close>

theorem built_schema_accepted:
  assumes "dataset_schema (le_contract env) dataset_id = Inr schema"
    and "json_clean (le_contract env)" and "no_nan (le_contract env)"
  shows "check_schema env schema dataset_id = Inr ()"
proof -
  let ?c = "le_contract env"
  have c: "self_eq ?c" using assms(2,3) by (simp add: self_eq_def)
  from assms(1) obtain event cid wire layer scope names items units dtypes where
    f: "contract_event ?c ''message'' = Inr event" "py_item event ''feature_contract_id'' = Inr cid"
      "py_item ?c ''wire_schema_version'' = Inr wire" "py_item ?c ''capture_layer'' = Inr layer"
      "py_item event ''observation_scope'' = Inr scope" "py_item event ''feature_order'' = Inr names"
      "py_iter names = Inr items" "feature_map ?c ''unit'' items = Inr units" "feature_map ?c ''dtype'' items = Inr dtypes" and
    s: "schema = PyDict
       [(''schema_version'', PyInt 1), (''dataset_id'', PyStr dataset_id), (''event_type'', PyStr ''message''),
        (''feature_contract_id'', cid), (''wire_schema_version'', wire), (''capture_layer'', layer),
        (''observation_scope'', scope), (''raw_input_features'', names), (''numeric_features'', names),
        (''feature_units'', units), (''feature_dtypes'', dtypes),
        (''missing_value_policy'', PyStr ''reject_without_zero_fill''),
        (''preprocessing'', PyDict [(''status'', PyStr ''not_fitted''), (''fit_scope'', PyStr ''train_only_in_training_stage'')]),
        (''excluded_model_metadata'', py_strs (METADATA_COLUMNS @
           [''label'', ''session_summary'', ''last_error_message'', ''packet_id'']))]"
    unfolding dataset_schema_def bindE_Inr_iff by auto
  have e: "self_eq event" using f(1) c by (auto simp: contract_event_def simp del: path_items.simps dest: self_eq_items)
  have q: "py_eq cid cid" "py_eq wire wire" "py_eq layer layer" "py_eq scope scope" "py_eq names names"
    "py_eq units units" "py_eq dtypes dtypes"
    using self_eq_refl self_eq_item [OF f(2) e] self_eq_item [OF f(3) c] self_eq_item [OF f(4) c] self_eq_item [OF f(5) e]
      self_eq_item [OF f(6) e] self_eq_feature_map [OF f(8) c] self_eq_feature_map [OF f(9) c] by blast+
  have n: "names \<noteq> PyNone" using f(7) by auto
  have g: "py_get (as_dict schema) ''feature_contract_id'' = cid" "py_get (as_dict schema) ''wire_schema_version'' = wire"
    "py_get (as_dict schema) ''capture_layer'' = layer" "py_get (as_dict schema) ''observation_scope'' = scope"
    "py_get (as_dict schema) ''event_type'' = PyStr ''message''" "py_get (as_dict schema) ''feature_units'' = units"
    by (simp_all add: s py_get_def)
  have h: "py_getE schema k = Inr (py_get (as_dict schema) k)" for k by (simp add: s)
  have g2: "py_get (as_dict schema) ''raw_input_features'' = names" "py_get (as_dict schema) ''dataset_id'' = PyStr dataset_id"
    "py_get (as_dict schema) ''feature_dtypes'' = dtypes"
    "py_get (as_dict schema) ''missing_value_policy'' = PyStr ''reject_without_zero_fill''"
    "py_get (as_dict schema) ''preprocessing'' = PyDict [(''status'', PyStr ''not_fitted''), (''fit_scope'', PyStr ''train_only_in_training_stage'')]"
    by (simp_all add: s py_get_def)
  have g3: "py_get [(''status'', PyStr ''not_fitted''), (''fit_scope'', w)] ''status'' = PyStr ''not_fitted''" for w
    by (simp add: py_get_def)
  have "schema \<noteq> PyNone" by (simp add: s)
  then have a: "assess_model_schema ?c ''message'' schema = Inr []"
    using n q by (simp add: assess_model_schema_def f h g g2)
  show ?thesis
    using q by (simp add: check_schema_def a f h g2 g3 rejectE_Inr_iff get_ne_def)
qed

end
