(* ===== verification/Dataset_Example.thy ===== *)
theory Dataset_Example
  imports Dataset_Build
begin

text \<open>
  A concrete dataset: three repeats of a normal and an anomalous run, one message each,
  split chronologically into one block for each part.
\<close>

definition example_row :: "nat \<Rightarrow> bool \<Rightarrow> data_row" where
  "example_row rep bad =
     (let rid = (if bad then ''b'' else ''n'') @ replicate rep CHR ''x'' in
      \<lparr>dr_features = \<lparr>mf_packet_size = 14, mf_payload_size = 6, mf_connection_duration_ms = Fin 0,
          mf_message_interval_ms = Fin 0, mf_bytes_received_total = 14, mf_bytes_sent_total = 0,
          mf_error_count_total = (if bad then 1 else 0)\<rparr>,
       dr_label = (if bad then 1 else 0),
       dr_meta = \<lparr>rw_row_id = rid, rw_campaign_id = ''c'', rw_run_id = rid, rw_scenario_id = ''s'',
          rw_repeat = int rep, rw_session = 1, rw_request = 1, rw_queue = 1, rw_sequence = 1,
          rw_timestamp = ''t'', rw_received = ''t'', rw_source_line = 1, rw_block = [], rw_split = None,
          rw_hash = rid\<rparr>\<rparr>)"

definition example_run :: "nat \<Rightarrow> bool \<Rightarrow> run_data" where
  "example_run rep bad =
     \<lparr>rd_campaign_id = ''c'', rd_run_id = rw_run_id (dr_meta (example_row rep bad)), rd_scenario_id = ''s'',
      rd_repeat = int rep, rd_start = 10 * int rep + (if bad then 5 else 0),
      rd_end = 10 * int rep + (if bad then 9 else 4), rd_rows = [example_row rep bad]\<rparr>"

definition example_runs :: "run_data list" where
  "example_runs = [example_run 0 False, example_run 0 True, example_run 1 False, example_run 1 True,
     example_run 2 False, example_run 2 True]"

definition example_config :: dataset_config where
  "example_config = \<lparr>dc_version = ''v1'', dc_dataset_id = ''d'', dc_campaign_dirs = [Abs [''c'']],
     dc_output_dir = Abs [''d''], dc_policy = Chronological, dc_registry = None, dc_validation_blocks = 1,
     dc_test_blocks = 1, dc_all_scenarios = True, dc_duplicate_error = True\<rparr>"

definition example_loaded :: load_state where
  "example_loaded = \<lparr>ls_runs = example_runs, ls_excluded = [], ls_evidence = [(Abs [''c''], ''h'')],
     ls_quality = [], ls_campaigns = [''c''], ls_run_ids = map rd_run_id example_runs\<rparr>"

definition example_split :: "assigned \<times> block_entry list \<times> run_data list" where
  "example_split = projr (split_runs example_config [] example_runs)"

lemma example_split: "split_runs example_config [] example_runs = Inr example_split"
proof -
  have "isl (split_runs example_config [] example_runs) = False" by code_simp
  then show ?thesis by (cases "split_runs example_config [] example_runs") (simp_all add: example_split_def)
qed

lemma split_runs_partition_witness:
  "\<exists>role. \<forall>s. mset (map strip (fst example_split s)) = mset (run_rows (filter (\<lambda>r. role (block_key Chronological r) = s) example_runs))"
proof -
  have "0 \<le> dc_validation_blocks example_config" by (simp add: example_config_def)
  moreover have "split_runs example_config [] example_runs = Inr (fst example_split, fst (snd example_split), snd (snd example_split))"
    using example_split by simp
  ultimately show ?thesis using split_runs_partition by (fastforce simp: example_config_def)
qed

lemma example_validated: "isl (validate_partitions False (fst example_split)) = False"
  by code_simp

lemma not_isl: "isl r = False \<Longrightarrow> \<exists>x. r = Inr x"
  by (cases r) simp_all

lemma validate_partitions_iff_witness:
  "(rw_run_id \<circ> dr_meta) ` set (fst example_split Train) \<inter> (rw_run_id \<circ> dr_meta) ` set (fst example_split Test) = {} \<and>
     distinct (map (rw_row_id \<circ> dr_meta) (fst example_split Test))"
  using validate_partitions_iff [of False "fst example_split"] not_isl [OF example_validated] by (metis split.distinct(3))

definition example_contract :: py where
  "example_contract = PyDict [(''wire_schema_version'', PyStr ''w''), (''capture_layer'', PyStr ''l''),
     (''application_header_size_bytes'', PyInt 8),
     (''events'', PyDict [(''message'', PyDict [(''feature_contract_id'', PyStr ''f''), (''observation_scope'', PyStr ''o''),
        (''feature_order'', py_strs MESSAGE_FEATURE_ORDER)])]),
     (''features'', PyDict (map (\<lambda>n. (n, PyDict [(''unit'', PyStr ''u''),
        (''dtype'', PyStr (if n \<in> {''connection_duration_ms'', ''message_interval_ms''} then ''number'' else ''integer''))]))
        MESSAGE_FEATURE_ORDER))]"

definition example_env :: "unit dataset_env" where
  "example_env = \<lparr>de_audit = undefined, de_digest = (\<lambda>_. []), de_run_dirs = (\<lambda>_. []), de_contract_file = Abs [''k''],
     de_contract = example_contract, de_is_file = (\<lambda>_. True), de_exists = (\<lambda>_. False), de_later_hash = (\<lambda>_. Some ''h''),
     de_to_path = (\<lambda>s. Abs [s]), de_repr = (\<lambda>_. []), de_sha = (\<lambda>s. s)\<rparr>"

definition example_dataset :: "dataset_file list \<times> dataset_report" where
  "example_dataset = projr (assemble_dataset example_env example_config (Abs [''d'']) [(Abs [''c''], ''h'')] [] example_loaded)"

lemma example_assembled:
  "isl (assemble_dataset example_env example_config (Abs [''d'']) [(Abs [''c''], ''h'')] [] example_loaded) = False"
  by code_simp


end
