(* ===== verification/Operational_Example.thy ===== *)
theory Operational_Example
  imports Operational_Data Dataset_Example Quality_Example
begin

text \<open>A concrete dataset directory, one message of each label in each part, and its load.\<close>

definition demo_schema :: py where
  "demo_schema = PyDict [(''raw_input_features'', py_strs MESSAGE_FEATURE_ORDER), (''feature_contract_id'', PyStr ''f''),
     (''wire_schema_version'', PyStr ''w''), (''capture_layer'', PyStr ''l''), (''observation_scope'', PyStr ''o''),
     (''event_type'', PyStr ''message''), (''feature_units'', PyDict (map (\<lambda>n. (n, PyStr ''u'')) MESSAGE_FEATURE_ORDER)),
     (''dataset_id'', PyStr ''d''),
     (''feature_dtypes'', PyDict (map (\<lambda>n. (n, PyStr (if n \<in> {''connection_duration_ms'', ''message_interval_ms''}
        then ''number'' else ''integer''))) MESSAGE_FEATURE_ORDER)),
     (''missing_value_policy'', PyStr ''reject_without_zero_fill''),
     (''preprocessing'', PyDict [(''status'', PyStr ''not_fitted'')])]"

definition demo_features :: message_features where
  "demo_features = \<lparr>mf_packet_size = 14, mf_payload_size = 6, mf_connection_duration_ms = Fin 0,
     mf_message_interval_ms = Fin 0, mf_bytes_received_total = 14, mf_bytes_sent_total = 0, mf_error_count_total = 0\<rparr>"

definition demo_cells :: "string list" where
  "demo_cells = [''14'', ''6'', ''0.0'', ''0.0'', ''14'', ''0'', ''0'']"

definition demo_meta :: "string \<Rightarrow> string \<Rightarrow> string list" where
  "demo_meta split run = [run @ ''1'', ''c_'' @ split, run, ''normal_batched_chat'', ''0'', ''1'', ''1'', ''1'', ''1'', ''t'', ''t'', ''1'', ''b'', split,
     ''[14,6,0.0,0.0,14,0,0]'']"

definition X_frame :: frame where
  "X_frame = \<lparr>fr_columns = MESSAGE_FEATURE_ORDER, fr_rows = [demo_cells, demo_cells]\<rparr>"

definition y_frame :: frame where
  "y_frame = \<lparr>fr_columns = [''label''], fr_rows = [[''0''], [''1'']]\<rparr>"

definition meta_frame :: "string \<Rightarrow> string \<Rightarrow> string \<Rightarrow> frame" where
  "meta_frame split r q = \<lparr>fr_columns = METADATA_COLUMNS, fr_rows = [demo_meta split r, demo_meta split q]\<rparr>"

definition demo_csv :: "string \<Rightarrow> frame res" where
  "demo_csv name =
     (if name = ''X_train.csv'' \<or> name = ''X_validation.csv'' then Inr X_frame
      else if name = ''y_train.csv'' \<or> name = ''y_validation.csv'' then Inr y_frame
      else if name = ''metadata_train.csv'' then Inr (meta_frame ''train'' ''r1'' ''r2'')
      else if name = ''metadata_validation.csv'' then Inr (meta_frame ''validation'' ''r3'' ''r4'')
      else Inl (ValueError ''csv''))"

definition demo_run_entry :: "string \<Rightarrow> string \<Rightarrow> py" where
  "demo_run_entry split run = PyDict [(''split'', PyStr split), (''run_id'', PyStr run), (''rows'', PyInt 1),
     (''sessions'', PyInt 1), (''campaign_id'', PyStr (''c_'' @ split)), (''scenario_id'', PyStr ''normal_batched_chat''),
     (''repeat_index'', PyInt 0), (''block_id'', PyStr ''b'')]"

definition demo_documents :: "(string \<times> py) list" where
  "demo_documents = [(''feature_schema.json'', demo_schema),
     (''label_map.json'', PyDict [(''controlled_anomaly'', PyInt 1), (''normal'', PyInt 0)]),
     (''split_manifest.json'', PyDict [(''runs'', PyList [demo_run_entry ''train'' ''r1'', demo_run_entry ''train'' ''r2'',
        demo_run_entry ''validation'' ''r3'', demo_run_entry ''validation'' ''r4''])])]"

definition demo_file_entry :: "string \<Rightarrow> string list \<Rightarrow> string \<times> py" where
  "demo_file_entry name columns = (name, PyDict [(''sha256'', PyStr name), (''columns'', py_strs columns), (''rows'', PyInt 2)])"

definition demo_files :: "(string \<times> py) list" where
  "demo_files = map (\<lambda>n. (n, PyDict [(''sha256'', PyStr n)])) [''feature_schema.json'', ''label_map.json'', ''split_manifest.json'']
     @ [demo_file_entry ''X_train.csv'' MESSAGE_FEATURE_ORDER, demo_file_entry ''y_train.csv'' [''label''],
        demo_file_entry ''metadata_train.csv'' METADATA_COLUMNS,
        demo_file_entry ''X_validation.csv'' MESSAGE_FEATURE_ORDER, demo_file_entry ''y_validation.csv'' [''label''],
        demo_file_entry ''metadata_validation.csv'' METADATA_COLUMNS]"

definition demo_part :: py where
  "demo_part = PyDict [(''rows'', PyInt 2), (''label_distribution'', PyDict [(''0'', PyInt 1), (''1'', PyInt 1)])]"

definition demo_manifest :: py where
  "demo_manifest = PyDict [(''status'', PyStr ''complete''), (''dataset_id'', PyStr ''d''),
     (''feature_order'', py_strs MESSAGE_FEATURE_ORDER), (''feature_contract_id'', PyStr ''f''),
     (''contract_sha256'', PyStr ''k''), (''preprocessing_fitted'', PyBool False),
     (''splits'', PyDict [(''train'', demo_part), (''validation'', demo_part)]),
     (''output_files'', PyDict demo_files)]"

text \<open>The content of a file stands for itself by the name of the file.\<close>

definition demo_env :: load_env where
  "demo_env = \<lparr>le_bytes = Inr, le_sha = (\<lambda>s. s),
     le_decode = (\<lambda>s. map_option json_of (map_of ((''dataset_manifest.json'', demo_manifest) # demo_documents) s)),
     le_csv = demo_csv,
     le_contract = example_contract, le_contract_hash = Inr ''k'',
     le_int = (\<lambda>s. if s = ''14'' then Inr 14 else if s = ''6'' then Inr 6 else Inr 0),
     le_float = (\<lambda>_. Inr (Fin 0)), le_repr = (\<lambda>_. ''0.0''), le_container = (\<lambda>_. [])\<rparr>"

lemma demo_sha [simp]: "le_sha demo_env s = s" "le_bytes demo_env s = Inr s" "le_csv demo_env = demo_csv"
  by (simp_all add: demo_env_def)

lemma demo_parsed:
  "parse_json (le_decode demo_env) ''dataset_manifest.json'' = Inr demo_manifest"
  "parse_json (le_decode demo_env) ''feature_schema.json'' = Inr demo_schema"
  "parse_json (le_decode demo_env) ''label_map.json'' = Inr (the (map_of demo_documents ''label_map.json''))"
  "parse_json (le_decode demo_env) ''split_manifest.json'' = Inr (the (map_of demo_documents ''split_manifest.json''))"
  by code_simp+

lemma demo_hashes:
  "list_all (\<lambda>n. bindE (path_items demo_manifest [''output_files'', n, ''sha256'']) (\<lambda>h. Inr (py_eq h (PyStr n))) = Inr True)
     (tl loaded_names)"
  by code_simp

lemma demo_read_output:
  assumes "name \<in> set (tl loaded_names)"
  shows "read_output demo_env demo_manifest name d = (Inr name, dict_set name name d)"
proof -
  have "bindE (path_items demo_manifest [''output_files'', name, ''sha256'']) (\<lambda>h. Inr (py_eq h (PyStr name))) = Inr True"
    using demo_hashes assms by (auto simp: list_all_iff)
  then have "bindE (path_items demo_manifest [''output_files'', name, ''sha256'']) (\<lambda>h. check (py_eq h (PyStr name)) e) = Inr ()" for e
    by (auto simp: bindE_Inr_iff simp del: path_items.simps)
  then show ?thesis
    by (simp add: read_output_def bindS_def liftS_def modifyS_def retS_def Let_def del: path_items.simps)
qed

lemma py_eq_strs [simp]: "py_eq (py_strs xs) (py_strs ys) \<longleftrightarrow> xs = ys"
  by (induction xs ys rule: list_induct2') auto

lemma zip_same_eq [simp]: "(\<forall>p\<in>set (zip (map PyStr xs) (map PyStr xs)). py_eq (fst p) (snd p))"
  by (simp add: zip_same_conv_map)

lemma demo_entry:
  "demo_file_entry name columns \<in> set demo_files \<Longrightarrow>
     path_items demo_manifest [''output_files'', name] =
       Inr (PyDict [(''sha256'', PyStr name), (''columns'', py_strs columns), (''rows'', PyInt 2)])"
proof -
  assume "demo_file_entry name columns \<in> set demo_files"
  moreover have "distinct (map fst demo_files)" by code_simp
  ultimately have "map_of demo_files name =
      Some (PyDict [(''sha256'', PyStr name), (''columns'', py_strs columns), (''rows'', PyInt 2)])"
    unfolding demo_file_entry_def by (rule map_of_is_SomeI [rotated])
  then show ?thesis by (simp add: demo_manifest_def lookupE_def)
qed

lemma demo_read_table:
  assumes "demo_csv name = Inr f" and "name \<in> set (tl loaded_names)" and "fr_columns f = columns"
    and "demo_file_entry name columns \<in> set demo_files" and "fr_rows f = [r, q]" and "[] \<notin> set r \<union> set q"
  shows "read_table demo_env demo_manifest name columns d = (Inr f, dict_set name name d)"
proof -
  have "rejectE (ValueError ''table'')
       [Inr (fr_columns f \<noteq> columns), item_ne (PyDict [(''sha256'', PyStr name), (''columns'', py_strs columns), (''rows'', PyInt 2)]) ''columns'' (py_strs columns),
        item_ne (PyDict [(''sha256'', PyStr name), (''columns'', py_strs columns), (''rows'', PyInt 2)]) ''rows'' (PyInt (int (length (fr_rows f)))),
        Inr (fr_rows f = [] \<or> list_ex (\<lambda>r. [] \<in> set r) (fr_rows f))] = Inr ()"
    using assms by (simp add: rejectE_Inr_iff item_ne_def lookupE_def)
  then show ?thesis
    by (simp add: read_table_def demo_read_output [OF assms(2)] bindS_def liftS_def retS_def demo_entry [OF assms(4)]
      assms(1) del: path_items.simps)
qed

lemma demo_read_document:
  "name \<in> set (tl loaded_names) \<Longrightarrow> parse_json (le_decode demo_env) name = Inr v \<Longrightarrow>
     read_document demo_env demo_manifest name d = (Inr v, dict_set name name d)"
  by (simp add: read_document_def demo_read_output bindS_def liftS_def)

definition demo_assignments :: py where
  "demo_assignments = the (map_of demo_documents ''split_manifest.json'')"

lemma demo_checks:
  "check_manifest demo_env demo_manifest ''d'' = Inr ()" "check_schema demo_env demo_schema ''d'' = Inr ()"
  by code_simp+

lemma demo_typed:
  "typed_features demo_env X_frame demo_cells = Inr demo_features"
  "fingerprint (le_repr demo_env) (le_sha demo_env) demo_features = ''[14,6,0.0,0.0,14,0,0]''"
  "bindE (py_item (le_contract demo_env) ''application_header_size_bytes'') int_item = Inr 8"
  by code_simp+

lemma demo_load_row:
  "cell metadata ''feature_hash'' row = ''[14,6,0.0,0.0,14,0,0]'' \<Longrightarrow>
     load_row demo_env X_frame metadata (demo_cells, row) = Inr demo_features"
  unfolding load_row_Inr fst_conv snd_conv demo_typed by (simp add: demo_features_def)

lemma demo_cell: "cell (meta_frame s r q) ''feature_hash'' (demo_meta t u) = ''[14,6,0.0,0.0,14,0,0]''"
  by (simp add: cell_def meta_frame_def METADATA_COLUMNS_def demo_meta_def)

lemma demo_tables_checked:
  "check_tables demo_manifest ''train'' X_frame y_frame (meta_frame ''train'' ''r1'' ''r2'') = Inr ()"
  "check_tables demo_manifest ''validation'' X_frame y_frame (meta_frame ''validation'' ''r3'' ''r4'') = Inr ()"
  by code_simp+

lemma demo_assigned_train:
  "check_assigned demo_env demo_manifest demo_assignments ''train'' y_frame (meta_frame ''train'' ''r1'' ''r2'') = Inr ()"
  by code_simp

lemma demo_assigned_validation:
  "check_assigned demo_env demo_manifest demo_assignments ''validation'' y_frame (meta_frame ''validation'' ''r3'' ''r4'') = Inr ()"
  by code_simp

definition demo_split :: "string \<Rightarrow> string \<Rightarrow> string \<Rightarrow> op_split" where
  "demo_split split r q = \<lparr>op_columns = MESSAGE_FEATURE_ORDER, op_X = [feature_row demo_features, feature_row demo_features],
     op_y = [0, 1], op_meta = meta_frame split r q\<rparr>"

lemma demo_labels: "map (\<lambda>l. if l = ''1'' then 1 else (0 :: int)) (col y_frame ''label'') = [0, 1]"
  by (simp add: y_frame_def col_def cell_def)

lemma demo_rows:
  "mapE (load_row demo_env X_frame (meta_frame s r q)) (zip (fr_rows X_frame) (fr_rows (meta_frame s r q))) =
     Inr [demo_features, demo_features]"
proof -
  have "zip (fr_rows X_frame) (fr_rows (meta_frame s r q)) = [(demo_cells, demo_meta s r), (demo_cells, demo_meta s q)]"
    by (simp add: X_frame_def meta_frame_def)
  then show ?thesis by (simp add: demo_load_row demo_cell)
qed

lemma demo_split_tables:
  "check_split_tables demo_env demo_manifest demo_assignments ''train'' X_frame y_frame (meta_frame ''train'' ''r1'' ''r2'') =
     Inr (demo_split ''train'' ''r1'' ''r2'')"
  "check_split_tables demo_env demo_manifest demo_assignments ''validation'' X_frame y_frame (meta_frame ''validation'' ''r3'' ''r4'') =
     Inr (demo_split ''validation'' ''r3'' ''r4'')"
  by (simp_all only: check_split_tables_def demo_tables_checked demo_rows demo_assigned_train demo_assigned_validation
      bindE_simps demo_labels demo_split_def list.map)

lemma demo_columns:
  "demo_csv ''X_train.csv'' = Inr X_frame" "demo_csv ''X_validation.csv'' = Inr X_frame"
  "demo_csv ''y_train.csv'' = Inr y_frame" "demo_csv ''y_validation.csv'' = Inr y_frame"
  "demo_csv ''metadata_train.csv'' = Inr (meta_frame ''train'' ''r1'' ''r2'')"
  "demo_csv ''metadata_validation.csv'' = Inr (meta_frame ''validation'' ''r3'' ''r4'')"
  "fr_columns X_frame = MESSAGE_FEATURE_ORDER" "fr_columns y_frame = [''label'']"
  "fr_columns (meta_frame s r q) = METADATA_COLUMNS"
  "fr_rows X_frame = [demo_cells, demo_cells]" "fr_rows y_frame = [[''0''], [''1'']]"
  "fr_rows (meta_frame s r q) = [demo_meta s r, demo_meta s q]"
  by (simp_all add: demo_csv_def X_frame_def y_frame_def meta_frame_def)

lemma demo_filled:
  "[] \<notin> set demo_cells \<union> set demo_cells" "[] \<notin> set [''0''] \<union> set [''1'']"
  "s \<noteq> [] \<Longrightarrow> r \<noteq> [] \<Longrightarrow> q \<noteq> [] \<Longrightarrow> [] \<notin> set (demo_meta s r) \<union> set (demo_meta s q)"
  by (simp_all add: demo_cells_def demo_meta_def)

lemma demo_reads:
  "read_table demo_env demo_manifest ''X_train.csv'' MESSAGE_FEATURE_ORDER d = (Inr X_frame, dict_set ''X_train.csv'' ''X_train.csv'' d)"
  "read_table demo_env demo_manifest ''y_train.csv'' [''label''] d = (Inr y_frame, dict_set ''y_train.csv'' ''y_train.csv'' d)"
  "read_table demo_env demo_manifest ''metadata_train.csv'' METADATA_COLUMNS d =
     (Inr (meta_frame ''train'' ''r1'' ''r2''), dict_set ''metadata_train.csv'' ''metadata_train.csv'' d)"
  "read_table demo_env demo_manifest ''X_validation.csv'' MESSAGE_FEATURE_ORDER d = (Inr X_frame, dict_set ''X_validation.csv'' ''X_validation.csv'' d)"
  "read_table demo_env demo_manifest ''y_validation.csv'' [''label''] d = (Inr y_frame, dict_set ''y_validation.csv'' ''y_validation.csv'' d)"
  "read_table demo_env demo_manifest ''metadata_validation.csv'' METADATA_COLUMNS d =
     (Inr (meta_frame ''validation'' ''r3'' ''r4''), dict_set ''metadata_validation.csv'' ''metadata_validation.csv'' d)"
  by (rule demo_read_table [OF demo_columns(1) _ _ _ demo_columns(10) demo_filled(1)]
        demo_read_table [OF demo_columns(3) _ _ _ demo_columns(11) demo_filled(2)]
        demo_read_table [OF demo_columns(5) _ _ _ demo_columns(12) demo_filled(3)]
        demo_read_table [OF demo_columns(2) _ _ _ demo_columns(10) demo_filled(1)]
        demo_read_table [OF demo_columns(4) _ _ _ demo_columns(11) demo_filled(2)]
        demo_read_table [OF demo_columns(6) _ _ _ demo_columns(12) demo_filled(3)];
      simp add: demo_columns loaded_names_def demo_files_def)+

lemma demo_load_tables:
  "\<exists>e. load_split_tables demo_env demo_manifest demo_assignments ''train'' d = (Inr (demo_split ''train'' ''r1'' ''r2''), e)"
  "\<exists>e. load_split_tables demo_env demo_manifest demo_assignments ''validation'' d = (Inr (demo_split ''validation'' ''r3'' ''r4''), e)"
  by (simp_all add: load_split_tables_def bindS_def liftS_def demo_reads demo_split_tables)

lemma demo_no_leak:
  "forE (\<lambda>names. check (\<not> leak (op_meta (demo_split ''train'' ''r1'' ''r2'')) (op_meta (demo_split ''validation'' ''r3'' ''r4'')) names)
      (ValueError ''leak'')) [[''run_id''], [''run_id'', ''session_id''], [''row_id'']] = Inr ()"
  by (simp add: leak_def cols_def demo_split_def cell_def meta_frame_def METADATA_COLUMNS_def demo_meta_def check_def)

lemma demo_load_data: "\<exists>data e. load_operational_data demo_env ''d'' [] = (Inr data, e) \<and>
  od_train data = demo_split ''train'' ''r1'' ''r2'' \<and> od_validation data = demo_split ''validation'' ''r3'' ''r4'' \<and>
  od_schema data = demo_schema"
proof -
  have label: "check (py_eq (the (map_of demo_documents ''label_map.json''))
      (PyDict [(''normal'', PyInt 0), (''controlled_anomaly'', PyInt 1)])) (ValueError ''label map'') = Inr ()"
    by code_simp
  have n: "''feature_schema.json'' \<in> set (tl loaded_names)" "''label_map.json'' \<in> set (tl loaded_names)"
    "''split_manifest.json'' \<in> set (tl loaded_names)"
    by (simp_all add: loaded_names_def)
  note d = demo_read_document [OF n(1) demo_parsed(2)] demo_read_document [OF n(2) demo_parsed(3)]
    demo_read_document [OF n(3) demo_parsed(4), folded demo_assignments_def]
  obtain e where e: "load_split_tables demo_env demo_manifest demo_assignments ''train''
     (dict_set ''split_manifest.json'' ''split_manifest.json'' (dict_set ''label_map.json'' ''label_map.json''
       (dict_set ''feature_schema.json'' ''feature_schema.json'' (dict_set ''dataset_manifest.json'' ''dataset_manifest.json'' []))))
     = (Inr (demo_split ''train'' ''r1'' ''r2''), e)"
    using demo_load_tables(1) by blast
  obtain f where f: "load_split_tables demo_env demo_manifest demo_assignments ''validation'' e
     = (Inr (demo_split ''validation'' ''r3'' ''r4''), f)"
    using demo_load_tables(2) by blast
  have "load_operational_data demo_env ''d'' [] = (Inr \<lparr>od_dataset_id = ''d'', od_schema = demo_schema,
     od_train = demo_split ''train'' ''r1'' ''r2'', od_validation = demo_split ''validation'' ''r3'' ''r4'', od_evidence = f\<rparr>, f)"
    by (simp only: load_operational_data_def bindS_def liftS_def modifyS_def prod.case sum.case demo_sha demo_parsed(1)
        demo_checks d e f label demo_no_leak)
  then show ?thesis by (intro exI conjI) (assumption | simp)+
qed

lemma demo_load: "\<exists>data e. load_operational_data demo_env ''d'' [] = (Inr data, e)"
  using demo_load_data by blast


definition closed_bytes :: "string \<Rightarrow> string res" where
  "closed_bytes name = (if name \<in> set loaded_names then Inr name else Inl (OSError name))"

lemma load_ignores_test_files_witness:
  "\<exists>data e. load_operational_data (demo_env\<lparr>le_bytes := closed_bytes\<rparr>) ''d'' [] = (Inr data, e)"
proof -
  have "\<forall>n\<in>set loaded_names. le_bytes demo_env n = closed_bytes n" by (simp add: closed_bytes_def)
  from load_ignores_test_files [OF this] show ?thesis using demo_load by simp
qed

lemma example_contract_clean: "json_clean example_contract" "no_nan example_contract"
  unfolding example_contract_def MESSAGE_FEATURE_ORDER_def by (auto intro!: json_clean.intros)

lemma example_schema: "isl (dataset_schema example_contract ''d'') = False"
  by code_simp

lemma built_schema_accepted_witness:
  "\<exists>schema. dataset_schema example_contract ''d'' = Inr schema \<and> check_schema demo_env schema ''d'' = Inr ()"
proof -
  have c: "le_contract demo_env = example_contract" by (simp add: demo_env_def)
  obtain schema where s: "dataset_schema example_contract ''d'' = Inr schema" using not_isl [OF example_schema] by blast
  from built_schema_accepted [of demo_env "''d''" schema, unfolded c, OF s example_contract_clean] s show ?thesis by blast
qed

end
