(* ===== verification/Sequences.thy ===== *)
theory Sequences
  imports Operational_Data
begin

text \<open>
  \<open>data_preparation/operational_sequences.py\<close>: the windows of past messages for the sequence
  model. One window for each message, made of that message and the messages before it in the
  same session, padded on the right. Arrays are lists; a cell of the metadata columns added
  here is a number in fresh windows and its text in windows read back from CSV.
\<close>

definition GROUP_COLUMNS :: "string list" where
  "GROUP_COLUMNS = [''campaign_id'', ''run_id'', ''session_id'']"

definition SEQUENCE_COLUMNS :: "string list" where
  "SEQUENCE_COLUMNS = [''window_id'', ''context_length'', ''context_start_request_index'', ''source_row_ids'']"

record seq_cells =
  sc_window_id :: string
  sc_context :: py
  sc_start :: py
  sc_trace :: string

record windows =
  wd_X :: "pyfloat list list list"
  wd_y :: "int list"
  wd_lengths :: "int list"
  wd_mask :: "bool list list"
  wd_positions :: "int list list"
  wd_source_columns :: "string list"
  wd_columns :: "string list"
  wd_rows :: "(string list \<times> seq_cells) list"

section \<open>Sessions in message order\<close>

text \<open>The text of an integer that fits \<open>int64\<close>, written as \<open>str\<close> writes it.\<close>

definition canonical_int :: "string \<Rightarrow> int option" where
  "canonical_int s =
     (let n = (case s of [] \<Rightarrow> 0 | c # r \<Rightarrow> if c = CHR ''-'' then - int (str_nat r) else int (str_nat s)) in
      if int_str n = s \<and> - (2 ^ 63) \<le> n \<and> n < 2 ^ 63 then Some n else None)"

definition check_source :: "op_split \<Rightarrow> unit res" where
  "check_source source =
     check (op_columns source = MESSAGE_FEATURE_ORDER \<and> op_X source \<noteq> [] \<and>
        length (op_X source) = length (fr_rows (op_meta source)) \<and> length (op_y source) = length (op_X source) \<and>
        list_all (\<lambda>v. v \<in> {0, 1}) (op_y source) \<and> list_all (list_all is_finite) (op_X source) \<and>
        \<not> list_ex (list_ex (\<lambda>x. flt x (Fin 0))) (op_X source)) (ValueError ''source'')"

definition one_split :: "frame \<Rightarrow> bool" where
  "one_split m \<longleftrightarrow> length (remdups (col m ''split'')) = 1 \<and> hd (col m ''split'') \<in> {''train'', ''validation''}"

definition check_source_metadata :: "frame \<Rightarrow> unit res" where
  "check_source_metadata m =
     bindE (check (set METADATA_COLUMNS \<subseteq> set (fr_columns m) \<and>
        \<not> list_ex (\<lambda>r. [] \<in> set r) (cols m METADATA_COLUMNS) \<and> distinct (col m ''row_id'') \<and> one_split m)
       (ValueError ''metadata'')) (\<lambda>_.
     check (list_all (\<lambda>(r, g). length (remdups (map (cell m ''campaign_id'') g)) \<le> 1)
        (group_by (cell m ''run_id'') (fr_rows m))) (ValueError ''campaigns of a run''))"

definition request_indices :: "frame \<Rightarrow> int list res" where
  "request_indices m = mapE (\<lambda>s. case canonical_int s of None \<Rightarrow> Inl (ValueError ''request index'') | Some n \<Rightarrow> Inr n)
     (col m ''request_index'')"

definition session_key :: "frame \<Rightarrow> nat \<Rightarrow> string list" where
  "session_key m i = map (\<lambda>n. cell m n (fr_rows m ! i)) GROUP_COLUMNS"

definition sessions_of :: "frame \<Rightarrow> int list \<Rightarrow> nat list list" where
  "sessions_of m indices =
     map (\<lambda>(k, g). sort_key (\<lambda>i. indices ! i) g) (group_by (session_key m) [0..<length (fr_rows m)])"

text \<open>The column of a feature in the input rows.\<close>

definition feature_at :: "op_split \<Rightarrow> string \<Rightarrow> nat \<Rightarrow> pyfloat" where
  "feature_at source name i = (case map_of (zip (op_columns source) (op_X source ! i)) name of Some x \<Rightarrow> x | None \<Rightarrow> NaN)"

definition decreasing_somewhere :: "pyfloat list \<Rightarrow> bool" where
  "decreasing_somewhere xs \<longleftrightarrow> list_ex (\<lambda>(a, b). flt b a) (zip xs (tl xs))"

definition check_session_order :: "op_split \<Rightarrow> int list \<Rightarrow> nat list \<Rightarrow> unit res" where
  "check_session_order source indices g =
     bindE (check (map ((!) indices) g = map int [1..<length g + 1]) (ValueError ''missing or repeated message'')) (\<lambda>_.
     forE (\<lambda>name. check (\<not> decreasing_somewhere (map (feature_at source name) g)) (ValueError name))
       [''connection_duration_ms'', ''bytes_received_total'', ''bytes_sent_total'', ''error_count_total''])"

definition ordered_groups :: "op_split \<Rightarrow> nat list list res" where
  "ordered_groups source =
     bindE (check_source source) (\<lambda>_.
     bindE (check_source_metadata (op_meta source)) (\<lambda>_.
     bindE (request_indices (op_meta source)) (\<lambda>indices.
     bindE (forE (check_session_order source indices) (sessions_of (op_meta source) indices)) (\<lambda>_.
     Inr (sessions_of (op_meta source) indices)))))"

section \<open>Building the windows\<close>

text \<open>\<open>group[max(0, offset + 1 - window_size):offset + 1]\<close>.\<close>

definition history :: "nat \<Rightarrow> nat list \<Rightarrow> nat \<Rightarrow> nat list" where
  "history w g offset = py_slice (offset + 1 - w) (offset + 1) g"

text \<open>One pass of the inner loop: the anchor, its history and the index of its first message.\<close>

record step =
  st_anchor :: nat
  st_history :: "nat list"
  st_start :: int

definition step_at :: "nat \<Rightarrow> nat list \<Rightarrow> nat \<Rightarrow> step" where
  "step_at w g offset = \<lparr>st_anchor = g ! offset, st_history = history w g offset,
     st_start = int offset + 2 - int (length (history w g offset))\<rparr>"

definition window_steps :: "nat \<Rightarrow> nat list list \<Rightarrow> step list" where
  "window_steps w groups = concat (map (\<lambda>g. map (step_at w g) [0..<length g]) groups)"

record arrays =
  ar_X :: "pyfloat list list list"
  ar_lengths :: "int list"
  ar_positions :: "int list list"
  ar_starts :: "int list"
  ar_traces :: "string list"

text \<open>\<open>a[anchor, :len(new)] = new\<close>.\<close>

definition set_prefix :: "'a list \<Rightarrow> 'a list \<Rightarrow> 'a list" where
  "set_prefix new row = new @ drop (length new) row"

definition empty_arrays :: "nat \<Rightarrow> nat \<Rightarrow> arrays" where
  "empty_arrays n w = \<lparr>ar_X = replicate n (replicate w (replicate (length MESSAGE_FEATURE_ORDER) (Fin 0))),
     ar_lengths = replicate n 0, ar_positions = replicate n (replicate w (- 1)), ar_starts = replicate n 0,
     ar_traces = replicate n []\<rparr>"

definition write_window :: "(string list \<Rightarrow> string) \<Rightarrow> op_split \<Rightarrow> step \<Rightarrow> arrays \<Rightarrow> arrays" where
  "write_window dumps source s a =
     \<lparr>ar_X = (ar_X a)[st_anchor s := set_prefix (map ((!) (op_X source)) (st_history s)) (ar_X a ! st_anchor s)],
      ar_lengths = (ar_lengths a)[st_anchor s := int (length (st_history s))],
      ar_positions = (ar_positions a)[st_anchor s := set_prefix (map int (st_history s)) (ar_positions a ! st_anchor s)],
      ar_starts = (ar_starts a)[st_anchor s := st_start s],
      ar_traces = (ar_traces a)[st_anchor s := dumps (map ((!) (col (op_meta source) ''row_id'')) (st_history s))]\<rparr>"

definition fill_arrays :: "(string list \<Rightarrow> string) \<Rightarrow> op_split \<Rightarrow> nat \<Rightarrow> nat list list \<Rightarrow> arrays" where
  "fill_arrays dumps source w groups =
     fold (write_window dumps source) (window_steps w groups) (empty_arrays (length (op_X source)) w)"

definition mask_of :: "nat \<Rightarrow> int list \<Rightarrow> bool list list" where
  "mask_of w lengths = map (\<lambda>n. map (\<lambda>j. int j < n) [0..<w]) lengths"

definition window_id :: "string \<Rightarrow> string \<Rightarrow> string" where
  "window_id dataset_id row_id = dataset_id @ '':'' @ row_id"

definition assemble_windows :: "op_split \<Rightarrow> nat \<Rightarrow> string \<Rightarrow> arrays \<Rightarrow> windows" where
  "assemble_windows source w dataset_id a =
     \<lparr>wd_X = ar_X a, wd_y = op_y source, wd_lengths = ar_lengths a, wd_mask = mask_of w (ar_lengths a),
      wd_positions = ar_positions a, wd_source_columns = fr_columns (op_meta source),
      wd_columns = fr_columns (op_meta source) @ SEQUENCE_COLUMNS,
      wd_rows = map (\<lambda>i. (fr_rows (op_meta source) ! i,
         \<lparr>sc_window_id = window_id dataset_id (col (op_meta source) ''row_id'' ! i), sc_context = PyInt (ar_lengths a ! i),
          sc_start = PyInt (ar_starts a ! i), sc_trace = ar_traces a ! i\<rparr>)) [0..<length (fr_rows (op_meta source))]\<rparr>"

section \<open>Validation against the source\<close>

definition read_trace :: "(string \<Rightarrow> py res) \<Rightarrow> string \<Rightarrow> string list res" where
  "read_trace loads s = bindE (loads s) (\<lambda>v. case v of
     PyList xs \<Rightarrow> (case mapE py_str xs of Inr ss \<Rightarrow> Inr ss | Inl _ \<Rightarrow> Inl (ValueError ''trace''))
   | _ \<Rightarrow> Inl (ValueError ''trace''))"

fun py_int :: "(string \<Rightarrow> int res) \<Rightarrow> py \<Rightarrow> int res" where
  "py_int to_int (PyInt n) = Inr n"
| "py_int to_int (PyStr s) = to_int s"
| "py_int to_int _ = Inl (TypeError ''int'')"

record seq_env =
  se_dumps :: "string list \<Rightarrow> string"
  se_loads :: "string \<Rightarrow> py res"
  se_to_int :: "string \<Rightarrow> int res"

definition check_shapes :: "windows \<Rightarrow> nat \<Rightarrow> nat \<Rightarrow> unit res" where
  "check_shapes ws n w =
     check (length (wd_X ws) = n \<and> list_all (\<lambda>x. length x = w \<and> list_all (\<lambda>r. length r = length MESSAGE_FEATURE_ORDER) x) (wd_X ws) \<and>
        length (wd_y ws) = n \<and> length (wd_lengths ws) = n \<and>
        length (wd_mask ws) = n \<and> list_all (\<lambda>m. length m = w) (wd_mask ws) \<and>
        length (wd_positions ws) = n \<and> list_all (\<lambda>p. length p = w) (wd_positions ws)) (ValueError ''shape'')"

definition padding_is :: "('a \<Rightarrow> bool) \<Rightarrow> bool list list \<Rightarrow> 'a list list \<Rightarrow> bool" where
  "padding_is P valid rows \<longleftrightarrow>
     list_all (\<lambda>(m, r). list_all (\<lambda>(b, x). b \<or> P x) (zip m r)) (zip valid rows)"

definition check_padding :: "windows \<Rightarrow> op_split \<Rightarrow> nat \<Rightarrow> unit res" where
  "check_padding ws source w =
     check (list_all (list_all (list_all is_finite)) (wd_X ws) \<and> wd_y ws = op_y source \<and>
        list_all (\<lambda>n. 1 \<le> n \<and> n \<le> int w) (wd_lengths ws) \<and> wd_mask ws = mask_of w (wd_lengths ws) \<and>
        padding_is (list_all (\<lambda>x. x = Fin 0)) (wd_mask ws) (wd_X ws) \<and>
        padding_is (\<lambda>p. p = - 1) (wd_mask ws) (wd_positions ws)) (ValueError ''padding'')"

definition window_frame :: "windows \<Rightarrow> frame" where
  "window_frame ws = \<lparr>fr_columns = wd_source_columns ws, fr_rows = map fst (wd_rows ws)\<rparr>"

definition check_metadata_rows :: "windows \<Rightarrow> op_split \<Rightarrow> unit res" where
  "check_metadata_rows ws source =
     bindE (check (wd_columns ws = METADATA_COLUMNS @ SEQUENCE_COLUMNS) (ValueError ''columns'')) (\<lambda>_.
     bindE (check (set METADATA_COLUMNS \<subseteq> set (fr_columns (op_meta source))) (KeyError ''columns'')) (\<lambda>_.
     check (cols (window_frame ws) METADATA_COLUMNS = cols (op_meta source) METADATA_COLUMNS) (ValueError ''rows'')))"

definition check_window :: "seq_env \<Rightarrow> windows \<Rightarrow> op_split \<Rightarrow> string \<Rightarrow> step \<Rightarrow> unit res" where
  "check_window env ws source dataset_id s =
     (let i = st_anchor s; h = st_history s; n = length h; m = snd (wd_rows ws ! i); ids = col (op_meta source) ''row_id'' in
      rejectE (ValueError ''window'')
        [Inr (wd_lengths ws ! i \<noteq> int n), Inr (take n (wd_positions ws ! i) \<noteq> map int h),
         Inr (take n (wd_X ws ! i) \<noteq> map ((!) (op_X source)) h),
         Inr (sc_window_id m \<noteq> window_id dataset_id (ids ! i)),
         bindE (py_int (se_to_int env) (sc_context m)) (\<lambda>c. Inr (c \<noteq> int n)),
         bindE (py_int (se_to_int env) (sc_start m)) (\<lambda>c. Inr (c \<noteq> st_start s)),
         bindE (read_trace (se_loads env) (sc_trace m)) (\<lambda>t. Inr (t \<noteq> map ((!) ids) h))])"

definition validate_windows :: "seq_env \<Rightarrow> windows \<Rightarrow> op_split \<Rightarrow> nat \<Rightarrow> string \<Rightarrow> unit res" where
  "validate_windows env ws source w dataset_id =
     bindE (check_shapes ws (length (op_X source)) w) (\<lambda>_.
     bindE (check_padding ws source w) (\<lambda>_.
     bindE (check_metadata_rows ws source) (\<lambda>_.
     bindE (ordered_groups source) (\<lambda>groups.
     forE (check_window env ws source dataset_id) (window_steps w groups)))))"

definition make_windows :: "seq_env \<Rightarrow> op_split \<Rightarrow> py \<Rightarrow> string \<Rightarrow> windows res" where
  "make_windows env source width dataset_id =
     (case width of
        PyInt k \<Rightarrow>
          if \<not> (1 \<le> k \<and> k \<le> 64) then Inl (ValueError ''window size'') else
          bindE (ordered_groups source) (\<lambda>groups.
          let ws = assemble_windows source (nat k) dataset_id (fill_arrays (se_dumps env) source (nat k) groups) in
          bindE (validate_windows env ws source (nat k) dataset_id) (\<lambda>_. Inr ws))
      | _ \<Rightarrow> Inl (ValueError ''window size''))"

end
