(* ===== verification/Sequences_Proofs.thy ===== *)
theory Sequences_Proofs
  imports Sequences
begin

text \<open>
  What the windows promise: they look only at past messages of the same session, and the
  validation of the program never rejects windows it has just built.
\<close>

section \<open>Sessions\<close>

definition session_sorted :: "op_split \<Rightarrow> nat list \<Rightarrow> bool" where
  "session_sorted source g \<longleftrightarrow>
     (\<forall>i\<in>set g. \<forall>j\<in>set g. session_key (op_meta source) i = session_key (op_meta source) j) \<and>
     (\<forall>j<length g. canonical_int (col (op_meta source) ''request_index'' ! (g ! j)) = Some (int j + 1))"

lemma length_col [simp]: "length (col m name) = length (fr_rows m)"
  by (simp add: col_def)

lemma request_indices_nth:
  assumes "request_indices m = Inr indices"
  shows "length indices = length (fr_rows m)"
    and "i < length (fr_rows m) \<Longrightarrow> canonical_int (col m ''request_index'' ! i) = Some (indices ! i)"
proof -
  from assms have l: "list_all2 (\<lambda>s n. (case canonical_int s of None \<Rightarrow> Inl (ValueError ''request index'') | Some n \<Rightarrow> Inr n) = Inr n)
      (col m ''request_index'') indices"
    by (simp add: request_indices_def mapE_Inr_iff)
  from list_all2_lengthD [OF l] show n: "length indices = length (fr_rows m)" by simp
  show "i < length (fr_rows m) \<Longrightarrow> canonical_int (col m ''request_index'' ! i) = Some (indices ! i)"
    using list_all2_nthD [OF l, of i] by (simp split: option.splits)
qed

lemma sessions_mset: "mset (concat (sessions_of m indices)) = mset [0..<length (fr_rows m)]"
proof -
  have "mset (concat (map (\<lambda>(k, g). sort_key f g) gs)) = mset (concat (map snd gs))"
    for f :: "nat \<Rightarrow> int" and gs :: "(string list \<times> nat list) list"
    by (induction gs) auto
  then show ?thesis unfolding sessions_of_def by (simp only: mset_concat_group_by)
qed

lemma ordered_groups_facts:
  assumes "ordered_groups source = Inr groups"
  shows "mset (concat groups) = mset [0..<length (op_X source)]"
    and "g \<in> set groups \<Longrightarrow> session_sorted source g"
    and "check_source source = Inr ()" and "check_source_metadata (op_meta source) = Inr ()"
proof -
  from assms obtain indices where
    c: "check_source source = Inr ()" "check_source_metadata (op_meta source) = Inr ()" and
    i: "request_indices (op_meta source) = Inr indices" and g: "groups = sessions_of (op_meta source) indices" and
    o: "\<And>g. g \<in> set groups \<Longrightarrow> map ((!) indices) g = map int [1..<length g + 1]"
    by (auto simp: ordered_groups_def bindE_Inr_iff forE_Inr_iff check_session_order_def simp del: upt_Suc)
  show "check_source source = Inr ()" "check_source_metadata (op_meta source) = Inr ()" using c by simp_all
  have n: "length (op_X source) = length (fr_rows (op_meta source))" using c(1) by (simp add: check_source_def)
  show m: "mset (concat groups) = mset [0..<length (op_X source)]" by (simp only: g n sessions_mset)
  assume gs: "g \<in> set groups"
  then have range: "j < length (fr_rows (op_meta source))" if "j \<in> set g" for j
    using m that n by (metis UN_I atLeastLessThan_iff set_concat set_mset_mset set_upt)
  have "session_key (op_meta source) a = session_key (op_meta source) b" if "a \<in> set g" "b \<in> set g" for a b
    using gs that unfolding g sessions_of_def by (auto simp: in_group_by_iff)
  moreover have "canonical_int (col (op_meta source) ''request_index'' ! (g ! j)) = Some (int j + 1)" if "j < length g" for j
  proof -
    have "indices ! (g ! j) = map int [1..<length g + 1] ! j" using o [OF gs] that by (metis nth_map)
    then have "indices ! (g ! j) = int j + 1" using that by (simp del: upt_Suc)
    then show ?thesis using request_indices_nth(2) [OF i range] that by simp
  qed
  ultimately show "session_sorted source g" unfolding session_sorted_def by blast
qed

section \<open>Steps and histories\<close>

lemma anchors: "map st_anchor (window_steps w groups) = concat groups"
  by (induction groups) (simp_all add: window_steps_def step_at_def comp_def map_nth)

lemma window_steps_iff:
  "s \<in> set (window_steps w groups) \<longleftrightarrow> (\<exists>g\<in>set groups. \<exists>j<length g. s = step_at w g j)"
proof -
  have "s \<in> set (map (step_at w g) [0..<length g]) \<longleftrightarrow> (\<exists>j<length g. s = step_at w g j)" for g by auto
  then show ?thesis by (simp only: window_steps_def set_concat set_map UN_iff bex_simps)
qed

lemma length_history: "j < length g \<Longrightarrow> length (history w g j) = min w (j + 1)"
  by (auto simp: history_def)

lemma nth_history: "j < length g \<Longrightarrow> k < min w (j + 1) \<Longrightarrow> history w g j ! k = g ! (j + 1 - w + k)"
  unfolding history_def by (subst nth_py_slice) auto

lemma set_history: "set (history w g j) \<subseteq> set g"
  by (simp add: history_def set_py_slice_subset)

lemma step_of:
  assumes "ordered_groups source = Inr groups" and "i < length (op_X source)"
  obtains g j where "g \<in> set groups" "j < length g" "g ! j = i"
    "step_at w g j \<in> set (window_steps w groups)"
proof -
  have "i \<in> set (concat groups)"
    using ordered_groups_facts(1) [OF assms(1)] assms(2) by (metis atLeastLessThan_iff set_mset_mset set_upt zero_le)
  then obtain g where g: "g \<in> set groups" "i \<in> set g" by auto
  then obtain j where "j < length g" "g ! j = i" by (auto simp: in_set_conv_nth)
  with g that show thesis by (auto simp: window_steps_iff)
qed

section \<open>Causality\<close>

lemma padding_nth:
  assumes "padding_is P (mask_of w lengths) rows" and "i < length lengths" and "i < length rows"
    and "length (rows ! i) = w" and "lengths ! i \<le> int j" and "j < w"
  shows "P (rows ! i ! j)"
proof -
  have "list_all (\<lambda>(b, x). b \<or> P x) (zip (map (\<lambda>j. int j < lengths ! i) [0..<w]) (rows ! i))"
    using assms(1-3) by (force simp: padding_is_def mask_of_def list_all_length)
  then show ?thesis using assms(4-6) by (auto simp: list_all_length)
qed

lemma take_padded:
  assumes "take n xs = ys" and "length xs = w" and "n \<le> w" and "\<And>j. n \<le> j \<Longrightarrow> j < w \<Longrightarrow> xs ! j = z"
  shows "xs = ys @ replicate (w - n) z"
proof -
  have "drop n xs = replicate (w - n) z" using assms(2-4) by (intro nth_equalityI) simp_all
  then show ?thesis using assms(1) by (metis append_take_drop_id)
qed

text \<open>The arrays of one checked window: the rows of its history, then padding.\<close>

lemma checked_window_arrays:
  assumes "check_shapes ws n w = Inr ()" and "check_padding ws source w = Inr ()" and "i < n"
    and "check_window env ws source dataset_id s = Inr ()" and "st_anchor s = i" and "length (st_history s) \<le> w"
  shows "wd_X ws ! i = map ((!) (op_X source)) (st_history s) @
      replicate (w - length (st_history s)) (replicate (length MESSAGE_FEATURE_ORDER) (Fin 0))"
    and "wd_positions ws ! i = map int (st_history s) @ replicate (w - length (st_history s)) (- 1)"
    and "wd_mask ws ! i = replicate (length (st_history s)) True @ replicate (w - length (st_history s)) False"
    and "wd_y ws = op_y source"
proof -
  let ?h = "st_history s"
  have cw: "wd_lengths ws ! i = int (length ?h)" "take (length ?h) (wd_positions ws ! i) = map int ?h"
    "take (length ?h) (wd_X ws ! i) = map ((!) (op_X source)) ?h"
    using assms(4,5) by (simp_all add: check_window_def Let_def rejectE_Inr_iff)
  have sh: "i < length (wd_X ws)" "length (wd_X ws ! i) = w" "i < length (wd_positions ws)" "length (wd_positions ws ! i) = w"
    "i < length (wd_lengths ws)" "\<And>q. q < w \<Longrightarrow> length (wd_X ws ! i ! q) = length MESSAGE_FEATURE_ORDER"
    using assms(1,3) by (auto simp: check_shapes_def list_all_length)
  have pa: "padding_is (list_all (\<lambda>x. x = Fin 0)) (mask_of w (wd_lengths ws)) (wd_X ws)"
    "padding_is (\<lambda>p. p = - 1) (mask_of w (wd_lengths ws)) (wd_positions ws)"
    "wd_mask ws = mask_of w (wd_lengths ws)" "wd_y ws = op_y source"
    using assms(2) by (auto simp: check_padding_def)
  have "wd_X ws ! i ! q = replicate (length MESSAGE_FEATURE_ORDER) (Fin 0)" if "length ?h \<le> q" "q < w" for q
  proof -
    have "list_all (\<lambda>x. x = Fin 0) (wd_X ws ! i ! q)"
      using that cw(1) by (intro padding_nth [OF pa(1) sh(5,1,2)]) simp_all
    then show ?thesis using sh(6) [OF that(2)] by (intro nth_equalityI) (simp_all add: list_all_length)
  qed
  then show "wd_X ws ! i = map ((!) (op_X source)) ?h @ replicate (w - length ?h) (replicate (length MESSAGE_FEATURE_ORDER) (Fin 0))"
    using assms(6) by (intro take_padded [OF cw(3) sh(2)])
  have "wd_positions ws ! i ! q = - 1" if "length ?h \<le> q" "q < w" for q
    using that cw(1) by (intro padding_nth [OF pa(2) sh(5,3,4)]) simp_all
  then show "wd_positions ws ! i = map int ?h @ replicate (w - length ?h) (- 1)"
    using assms(6) by (intro take_padded [OF cw(2) sh(4)])
  show "wd_mask ws ! i = replicate (length ?h) True @ replicate (w - length ?h) False"
    using sh(5) cw(1) assms(6) by (intro nth_equalityI) (auto simp: pa(3) mask_of_def nth_append)
  show "wd_y ws = op_y source" by (rule pa(4))
qed

text \<open>
  C6: a window shows the present and the past, never the future. The window of a message is
  made of rows of the message's own session: with message number \<open>k\<close> it has the last
  \<open>min w k\<close> messages, which are numbered consecutively and end with the message itself; the
  values are those rows' own, everything after them is zero and masked, the source positions
  name the rows, and the label is the label of the message.
\<close>

theorem windows_are_causal:
  assumes "make_windows env source (PyInt (int w)) dataset_id = Inr ws" and "i < length (op_X source)"
  shows "\<exists>h k. canonical_int (col (op_meta source) ''request_index'' ! i) = Some (int k) \<and>
    length h = min w k \<and> h \<noteq> [] \<and> last h = i \<and>
    (\<forall>p\<in>set h. session_key (op_meta source) p = session_key (op_meta source) i) \<and>
    (\<forall>j<length h. canonical_int (col (op_meta source) ''request_index'' ! (h ! j)) = Some (int (k - length h + 1 + j))) \<and>
    wd_X ws ! i = map ((!) (op_X source)) h @ replicate (w - length h) (replicate (length MESSAGE_FEATURE_ORDER) (Fin 0)) \<and>
    wd_positions ws ! i = map int h @ replicate (w - length h) (- 1) \<and>
    wd_mask ws ! i = replicate (length h) True @ replicate (w - length h) False \<and> wd_y ws ! i = op_y source ! i"
proof -
  from assms(1) obtain groups where
    g: "ordered_groups source = Inr groups" and w: "1 \<le> w" and v: "validate_windows env ws source w dataset_id = Inr ()"
    by (auto simp: make_windows_def Let_def bindE_Inr_iff split: if_splits)
  from v g have s: "check_shapes ws (length (op_X source)) w = Inr ()" and p: "check_padding ws source w = Inr ()" and
    c: "\<And>s. s \<in> set (window_steps w groups) \<Longrightarrow> check_window env ws source dataset_id s = Inr ()"
    by (auto simp: validate_windows_def bindE_Inr_iff forE_Inr_iff)
  obtain gr j where j: "gr \<in> set groups" "j < length gr" "gr ! j = i" and
    st: "step_at w gr j \<in> set (window_steps w groups)"
    by (rule step_of [OF g assms(2)])
  let ?h = "history w gr j"
  have sorted: "session_sorted source gr" by (rule ordered_groups_facts(2) [OF g j(1)])
  have len: "length ?h = min w (j + 1)" by (rule length_history [OF j(2)])
  have "i < length (op_X source)" "st_anchor (step_at w gr j) = i" "length (st_history (step_at w gr j)) \<le> w"
    using assms(2) j len by (simp_all add: step_at_def)
  note arrays = checked_window_arrays [OF s p this(1) c [OF st] this(2,3), unfolded step_at_def step.simps]
  have last: "?h \<noteq> [] \<and> last ?h = i"
    using len w j nth_history [OF j(2), of "length ?h - 1" w] by (cases "?h = []") (auto simp: last_conv_nth min_def split: if_splits)
  have key: "session_key (op_meta source) q = session_key (op_meta source) i" if "q \<in> set ?h" for q
    using sorted set_history that j by (metis nth_mem session_sorted_def subsetD)
  have idx: "canonical_int (col (op_meta source) ''request_index'' ! (?h ! q)) = Some (int (j + 1 - length ?h + 1 + q))"
    if "q < length ?h" for q
  proof -
    have "canonical_int (col (op_meta source) ''request_index'' ! (gr ! (j + 1 - w + q))) = Some (int (j + 1 - w + q) + 1)"
      using sorted that len j(2) by (auto simp: session_sorted_def)
    then show ?thesis using nth_history [OF j(2), of q w] that len by (auto simp: min_def)
  qed
  have "canonical_int (col (op_meta source) ''request_index'' ! i) = Some (int (j + 1))"
    using sorted j by (auto simp: session_sorted_def)
  then show ?thesis
    using len last key idx arrays by (intro exI [of _ ?h] exI [of _ "j + 1"] conjI) auto
qed

section \<open>Built windows are always valid\<close>

definition untouched :: "nat \<Rightarrow> arrays \<Rightarrow> arrays \<Rightarrow> bool" where
  "untouched i a b \<longleftrightarrow> ar_X b ! i = ar_X a ! i \<and> ar_lengths b ! i = ar_lengths a ! i \<and>
     ar_positions b ! i = ar_positions a ! i \<and> ar_starts b ! i = ar_starts a ! i \<and> ar_traces b ! i = ar_traces a ! i"

definition sized :: "nat \<Rightarrow> arrays \<Rightarrow> bool" where
  "sized n a \<longleftrightarrow> length (ar_X a) = n \<and> length (ar_lengths a) = n \<and> length (ar_positions a) = n \<and>
     length (ar_starts a) = n \<and> length (ar_traces a) = n"

definition written :: "(string list \<Rightarrow> string) \<Rightarrow> op_split \<Rightarrow> nat \<Rightarrow> step \<Rightarrow> arrays \<Rightarrow> bool" where
  "written dumps source w s b \<longleftrightarrow> (let i = st_anchor s; h = st_history s in
     ar_X b ! i = map ((!) (op_X source)) h @ replicate (w - length h) (replicate (length MESSAGE_FEATURE_ORDER) (Fin 0)) \<and>
     ar_lengths b ! i = int (length h) \<and> ar_positions b ! i = map int h @ replicate (w - length h) (- 1) \<and>
     ar_starts b ! i = st_start s \<and> ar_traces b ! i = dumps (map ((!) (col (op_meta source) ''row_id'')) h))"

lemma write_window_sized: "sized n a \<Longrightarrow> sized n (write_window dumps source s a)"
  by (simp add: sized_def write_window_def)

lemma write_window_untouched: "i \<noteq> st_anchor s \<Longrightarrow> untouched i a (write_window dumps source s a)"
  by (simp add: untouched_def write_window_def)

lemma untouched_trans: "untouched i a b \<Longrightarrow> untouched i b c \<Longrightarrow> untouched i a c"
  by (simp add: untouched_def)

lemma fold_writes:
  "sized n a \<Longrightarrow> sized n (fold (write_window dumps source) ss a)"
  "i \<notin> set (map st_anchor ss) \<Longrightarrow> untouched i a (fold (write_window dumps source) ss a)"
proof -
  show "sized n a \<Longrightarrow> sized n (fold (write_window dumps source) ss a)"
    by (induction ss arbitrary: a) (simp_all add: write_window_sized)
  show "i \<notin> set (map st_anchor ss) \<Longrightarrow> untouched i a (fold (write_window dumps source) ss a)"
  proof (induction ss arbitrary: a)
    case Nil
    then show ?case by (simp add: untouched_def)
  next
    case (Cons s ss)
    then have "untouched i a (write_window dumps source s a)" by (intro write_window_untouched) simp
    moreover have "untouched i (write_window dumps source s a) (fold (write_window dumps source) ss (write_window dumps source s a))"
      using Cons by simp
    ultimately show ?case by (auto intro: untouched_trans)
  qed
qed

lemma write_window_written:
  assumes "sized n a" and "st_anchor s < n" and "untouched (st_anchor s) (empty_arrays n w) a" and "length (st_history s) \<le> w"
  shows "written dumps source w s (write_window dumps source s a)"
  using assms by (simp add: sized_def untouched_def written_def write_window_def empty_arrays_def set_prefix_def Let_def)

lemma fold_written:
  assumes "s \<in> set ss" and "distinct (map st_anchor ss)" and "sized n a" and "\<forall>s\<in>set ss. st_anchor s < n \<and> length (st_history s) \<le> w"
    and "\<forall>s\<in>set ss. untouched (st_anchor s) (empty_arrays n w) a"
  shows "written dumps source w s (fold (write_window dumps source) ss a)"
  using assms
proof (induction ss arbitrary: a)
  case Nil
  then show ?case by simp
next
  case (Cons t ss)
  let ?a = "write_window dumps source t a"
  show ?case
  proof (cases "s = t")
    case True
    have "written dumps source w s ?a"
      unfolding True using Cons.prems(4,5) by (intro write_window_written [OF Cons.prems(3)]) auto
    moreover have "untouched (st_anchor s) ?a (fold (write_window dumps source) ss ?a)"
      using Cons.prems(2) True by (intro fold_writes(2)) simp
    ultimately show ?thesis by (simp add: written_def untouched_def Let_def)
  next
    case False
    have "\<forall>r\<in>set ss. untouched (st_anchor r) (empty_arrays n w) ?a"
    proof
      fix r assume "r \<in> set ss"
      then have "st_anchor r \<in> st_anchor ` set ss" and u: "untouched (st_anchor r) (empty_arrays n w) a" using Cons.prems(5) by auto
      then have "st_anchor r \<noteq> st_anchor t" using Cons.prems(2) by auto
      from untouched_trans [OF u write_window_untouched [OF this(1)]] show "untouched (st_anchor r) (empty_arrays n w) ?a" .
    qed
    then show ?thesis using Cons.prems False Cons.IH [of ?a] by (simp add: write_window_sized)
  qed
qed

lemma steps_in_range:
  assumes "ordered_groups source = Inr groups"
  shows "distinct (map st_anchor (window_steps w groups))"
    and "s \<in> set (window_steps w groups) \<Longrightarrow> st_anchor s < length (op_X source) \<and> length (st_history s) \<le> w \<and>
       set (st_history s) \<subseteq> {0..<length (op_X source)}"
    and "s \<in> set (window_steps w groups) \<Longrightarrow> 1 \<le> w \<Longrightarrow> st_history s \<noteq> []"
proof -
  note m = ordered_groups_facts(1) [OF assms]
  show "distinct (map st_anchor (window_steps w groups))"
    unfolding anchors using mset_eq_imp_distinct_iff [OF m] by simp
  have set: "set (concat groups) = {0..<length (op_X source)}" using mset_eq_setD [OF m] by simp
  assume s: "s \<in> set (window_steps w groups)"
  then obtain g j where g: "g \<in> set groups" "j < length g" "s = step_at w g j" by (auto simp: window_steps_iff)
  then have "set g \<subseteq> {0..<length (op_X source)}" using set by auto
  then show "st_anchor s < length (op_X source) \<and> length (st_history s) \<le> w \<and> set (st_history s) \<subseteq> {0..<length (op_X source)}"
    using g set_history [of w g j] by (auto simp: step_at_def length_history subset_iff)
  show "1 \<le> w \<Longrightarrow> st_history s \<noteq> []" using g length_history [of j g w] by (auto simp: step_at_def)
qed

lemma fill_arrays_written:
  assumes "ordered_groups source = Inr groups"
  shows "sized (length (op_X source)) (fill_arrays dumps source w groups)"
    and "s \<in> set (window_steps w groups) \<Longrightarrow> written dumps source w s (fill_arrays dumps source w groups)"
proof -
  have e: "sized (length (op_X source)) (empty_arrays (length (op_X source)) w)" by (simp add: sized_def empty_arrays_def)
  show "sized (length (op_X source)) (fill_arrays dumps source w groups)"
    unfolding fill_arrays_def by (rule fold_writes(1) [OF e])
  assume s: "s \<in> set (window_steps w groups)"
  show "written dumps source w s (fill_arrays dumps source w groups)"
    unfolding fill_arrays_def
    using steps_in_range(2) [OF assms]
    by (intro fold_written [OF s steps_in_range(1) [OF assms] e]) (auto simp: untouched_def)
qed

text \<open>Every position is the anchor of a step, so what holds of each step's row holds of each row.\<close>

lemma all_rows_written:
  assumes "ordered_groups source = Inr groups" and "i < length (op_X source)"
  obtains s where "s \<in> set (window_steps w groups)" "st_anchor s = i" "written dumps source w s (fill_arrays dumps source w groups)"
proof -
  obtain g j where "g ! j = i" "step_at w g j \<in> set (window_steps w groups)" using step_of [OF assms] by metis
  then show thesis using that fill_arrays_written(2) [OF assms(1)] by (auto simp: step_at_def)
qed

lemma mask_of_nth: "i < length ls \<Longrightarrow> mask_of w ls ! i = map (\<lambda>j. int j < ls ! i) [0..<w]"
  by (simp add: mask_of_def)

lemma read_trace_dumps:
  "loads (dumps xs) = Inr (py_strs xs) \<Longrightarrow> read_trace loads (dumps xs) = Inr xs"
proof -
  have "mapE py_str (map PyStr xs) = Inr xs" by (induction xs) simp_all
  then show "loads (dumps xs) = Inr (py_strs xs) \<Longrightarrow> read_trace loads (dumps xs) = Inr xs" by (simp add: read_trace_def)
qed

text \<open>What the five arrays hold at a row, in one place.\<close>

lemma row_facts:
  assumes "ordered_groups source = Inr groups" and "i < length (op_X source)" and "1 \<le> w"
  obtains h where "length h \<le> w" "1 \<le> length h" "set h \<subseteq> {0..<length (op_X source)}"
    "ar_X (fill_arrays dumps source w groups) ! i =
       map ((!) (op_X source)) h @ replicate (w - length h) (replicate (length MESSAGE_FEATURE_ORDER) (Fin 0))"
    "ar_lengths (fill_arrays dumps source w groups) ! i = int (length h)"
    "ar_positions (fill_arrays dumps source w groups) ! i = map int h @ replicate (w - length h) (- 1)"
proof -
  obtain s where s: "s \<in> set (window_steps w groups)" "st_anchor s = i" "written dumps source w s (fill_arrays dumps source w groups)"
    by (rule all_rows_written [OF assms(1,2)])
  have "st_history s \<noteq> []" by (rule steps_in_range(3) [OF assms(1) s(1) assms(3)])
  then have "1 \<le> length (st_history s)" by (cases "st_history s") auto
  then show thesis
    using that [of "st_history s"] steps_in_range(2) [OF assms(1) s(1)] s(2,3) by (simp add: written_def Let_def)
qed

lemma built_shapes:
  assumes "ordered_groups source = Inr groups" and "1 \<le> w" and "list_all (\<lambda>r. length r = length MESSAGE_FEATURE_ORDER) (op_X source)"
  shows "check_shapes (assemble_windows source w did (fill_arrays dumps source w groups)) (length (op_X source)) w = Inr ()"
proof -
  let ?a = "fill_arrays dumps source w groups" and ?n = "length (op_X source)"
  have z: "sized ?n ?a" by (rule fill_arrays_written(1) [OF assms(1)])
  have r: "length (ar_X ?a ! i) = w \<and> list_all (\<lambda>r. length r = length MESSAGE_FEATURE_ORDER) (ar_X ?a ! i) \<and> length (ar_positions ?a ! i) = w"
    if "i < ?n" for i
    by (rule row_facts [OF assms(1) that assms(2), of dumps]) (use assms(3) in \<open>auto simp: list_all_iff subset_iff\<close>)
  have "length (op_y source) = ?n" using ordered_groups_facts(3) [OF assms(1)] by (simp add: check_source_def)
  then show ?thesis
    using z r by (simp add: check_shapes_def assemble_windows_def sized_def list_all_length mask_of_def)
qed

lemma built_padding:
  assumes "ordered_groups source = Inr groups" and "1 \<le> w"
  shows "check_padding (assemble_windows source w did (fill_arrays dumps source w groups)) source w = Inr ()"
proof -
  let ?a = "fill_arrays dumps source w groups" and ?n = "length (op_X source)"
  have z: "length (ar_X ?a) = ?n" "length (ar_lengths ?a) = ?n" "length (ar_positions ?a) = ?n"
    using fill_arrays_written(1) [OF assms(1), of dumps w] by (simp_all add: sized_def)
  have fin: "list_all (list_all is_finite) (op_X source)"
    using ordered_groups_facts(3) [OF assms(1)] by (simp add: check_source_def)
  have r: "list_all (list_all is_finite) (ar_X ?a ! i) \<and> 1 \<le> ar_lengths ?a ! i \<and> ar_lengths ?a ! i \<le> int w \<and>
      (\<forall>j<w. int j < ar_lengths ?a ! i \<or> list_all (\<lambda>x. x = Fin 0) (ar_X ?a ! i ! j)) \<and>
      (\<forall>j<w. int j < ar_lengths ?a ! i \<or> ar_positions ?a ! i ! j = - 1) \<and>
      length (ar_X ?a ! i) = w \<and> length (ar_positions ?a ! i) = w" if "i < ?n" for i
    by (rule row_facts [OF assms(1) that assms(2), of dumps])
      (use fin in \<open>auto simp: list_all_iff subset_iff nth_append\<close>)
  have "padding_is (list_all (\<lambda>x. x = Fin 0)) (mask_of w (ar_lengths ?a)) (ar_X ?a)"
    "padding_is (\<lambda>p. p = - 1) (mask_of w (ar_lengths ?a)) (ar_positions ?a)"
    using r z by (simp_all add: padding_is_def list_all_length mask_of_nth mask_of_def)
  then show ?thesis
    using r z by (simp add: check_padding_def assemble_windows_def list_all_length)
qed

lemma assembled_frame: "window_frame (assemble_windows source w did a) = op_meta source"
  by (simp add: window_frame_def assemble_windows_def comp_def map_nth)

lemma built_metadata:
  assumes "fr_columns (op_meta source) = METADATA_COLUMNS"
  shows "check_metadata_rows (assemble_windows source w did a) source = Inr ()"
  using assms by (simp add: check_metadata_rows_def assembled_frame bindE_Inr_iff)
    (simp add: assemble_windows_def)

lemma built_window:
  assumes "ordered_groups source = Inr groups" and "s \<in> set (window_steps w groups)"
    and "\<And>xs. se_loads env (se_dumps env xs) = Inr (py_strs xs)"
  shows "check_window env (assemble_windows source w did (fill_arrays (se_dumps env) source w groups)) source did s = Inr ()"
proof -
  let ?a = "fill_arrays (se_dumps env) source w groups"
  have n: "length (op_X source) = length (fr_rows (op_meta source))"
    using ordered_groups_facts(3) [OF assms(1)] by (simp add: check_source_def)
  have i: "st_anchor s < length (fr_rows (op_meta source))"
    using steps_in_range(2) [OF assms(1,2)] n by simp
  have w: "written (se_dumps env) source w s ?a" by (rule fill_arrays_written(2) [OF assms(1,2)])
  note t = read_trace_dumps [of "se_loads env" "se_dumps env", OF assms(3)]
  show ?thesis
    using w i by (simp add: check_window_def assemble_windows_def written_def Let_def rejectE_Inr_iff t)
qed

lemma windows_built:
  assumes "ordered_groups source = Inr groups" and "1 \<le> w" and "w \<le> 64"
    and "list_all (\<lambda>r. length r = length MESSAGE_FEATURE_ORDER) (op_X source)"
    and "fr_columns (op_meta source) = METADATA_COLUMNS"
    and "\<And>xs. se_loads env (se_dumps env xs) = Inr (py_strs xs)"
  shows "make_windows env source (PyInt (int w)) dataset_id =
     Inr (assemble_windows source w dataset_id (fill_arrays (se_dumps env) source w groups))"
proof -
  let ?ws = "assemble_windows source w dataset_id (fill_arrays (se_dumps env) source w groups)"
  have "validate_windows env ?ws source w dataset_id = Inr ()"
    using built_window [OF assms(1) _ assms(6)]
    by (simp add: validate_windows_def built_shapes [OF assms(1,2,4)] built_padding [OF assms(1,2)]
        built_metadata [OF assms(5)] assms(1) forE_Inr_iff)
  then show ?thesis using assms(1-3) by (simp add: make_windows_def Let_def)
qed

text \<open>
  C36: windows can always be built. For every source whose sessions are complete, whose
  metadata columns are the dataset's and whose rows have the seven features, and for every
  window size from 1 to 64, building returns windows: the validation that ends it never
  rejects what was just built. The JSON library is only asked to read back the lists of
  strings it wrote.
\<close>

theorem windows_always_built:
  assumes "ordered_groups source = Inr groups" and "1 \<le> w" and "w \<le> 64"
    and "list_all (\<lambda>r. length r = length MESSAGE_FEATURE_ORDER) (op_X source)"
    and "fr_columns (op_meta source) = METADATA_COLUMNS"
    and "\<And>xs. se_loads env (se_dumps env xs) = Inr (py_strs xs)"
  shows "\<exists>ws. make_windows env source (PyInt (int w)) dataset_id = Inr ws \<and> length (wd_X ws) = length (op_X source)"
  using windows_built [OF assms] fill_arrays_written(1) [OF assms(1), of "se_dumps env" w]
  by (simp add: assemble_windows_def sized_def)

end
