(* ===== verification/Sequence_Build.thy ===== *)
theory Sequence_Build
  imports Sequences_Proofs
begin

text \<open>
  The sequence dataset of \<open>data_preparation/operational_sequences.py\<close>: configuration, counts,
  the identity check between the parts and \<open>build_dataset\<close>. Writing and reading back the
  arrays is the environment's; the result lists what is written, in order.
\<close>

section \<open>Configuration\<close>

record sequence_config =
  qc_dataset_id :: string
  qc_source_id :: string
  qc_source_dir :: path
  qc_output_dir :: path
  qc_window_size :: int
  qc_train_rows :: int
  qc_validation_rows :: int

fun range_field :: "int \<Rightarrow> int option \<Rightarrow> py \<Rightarrow> int res" where
  "range_field lo hi (PyInt n) =
     (if lo \<le> n \<and> (case hi of None \<Rightarrow> True | Some h \<Rightarrow> n \<le> h) then Inr n else Inl (ValueError ''range''))"
| "range_field lo hi _ = Inl (ValueError ''strict integer'')"

definition load_sequence_config :: "(string \<Rightarrow> path) \<Rightarrow> (path \<Rightarrow> path) \<Rightarrow> path \<Rightarrow> py \<Rightarrow> sequence_config res" where
  "load_sequence_config to_path resolve file values =
     bindE (bindE (py_item values ''source_dataset_dir'') (config_path to_path resolve file)) (\<lambda>src.
     bindE (bindE (py_item values ''output_dir'') (config_path to_path resolve file)) (\<lambda>out.
     bindE (no_extra [''config_version'', ''dataset_id'', ''source_dataset_id'', ''source_dataset_dir'', ''output_dir'',
        ''window_size'', ''stride'', ''padding_side'', ''target_policy'', ''expected_train_rows'',
        ''expected_validation_rows''] values) (\<lambda>d.
     bindE (default_field d ''config_version'' ''v1'' (one_of [''v1''])) (\<lambda>_.
     bindE (field d ''dataset_id'' dataset_id_field) (\<lambda>did.
     bindE (field d ''source_dataset_id'' dataset_id_field) (\<lambda>sid.
     bindE (default_field d ''window_size'' 8 (range_field 1 (Some 64))) (\<lambda>w.
     bindE (default_field d ''stride'' 1 (range_field 1 (Some 1))) (\<lambda>_.
     bindE (default_field d ''padding_side'' ''right'' (one_of [''right''])) (\<lambda>_.
     bindE (default_field d ''target_policy'' ''current_message_label'' (one_of [''current_message_label''])) (\<lambda>_.
     bindE (default_field d ''expected_train_rows'' 1538 (range_field 1 None)) (\<lambda>tr.
     bindE (default_field d ''expected_validation_rows'' 513 (range_field 1 None)) (\<lambda>vr.
     Inr \<lparr>qc_dataset_id = did, qc_source_id = sid, qc_source_dir = src, qc_output_dir = out,
       qc_window_size = w, qc_train_rows = tr, qc_validation_rows = vr\<rparr>))))))))))))"

section \<open>Counts\<close>

record scenario_windows =
  sw_windows :: nat
  sw_partial :: nat
  sw_length_one :: nat
  sw_normal :: nat
  sw_anomaly :: nat

record window_summary =
  wy_windows :: nat
  wy_campaigns :: nat
  wy_runs :: nat
  wy_sessions :: nat
  wy_labels :: "(int \<times> nat) list"
  wy_full :: nat
  wy_partial :: nat
  wy_length_one :: nat
  wy_lengths :: "(nat \<times> nat) list"
  wy_valid_steps :: nat
  wy_padded_steps :: nat
  wy_scenarios :: "(string \<times> scenario_windows) list"

definition nunique :: "'a list \<Rightarrow> nat" where
  "nunique xs = length (remdups xs)"

definition count_if :: "('a \<Rightarrow> bool) \<Rightarrow> 'a list \<Rightarrow> nat" where
  "count_if P xs = length (filter P xs)"

definition scenario_windows_of :: "windows \<Rightarrow> nat \<Rightarrow> string \<times> nat list \<Rightarrow> string \<times> scenario_windows" where
  "scenario_windows_of ws w g = (fst g,
     \<lparr>sw_windows = length (snd g), sw_partial = count_if (\<lambda>i. wd_lengths ws ! i < int w) (snd g),
      sw_length_one = count_if (\<lambda>i. wd_lengths ws ! i = 1) (snd g),
      sw_normal = count_if (\<lambda>i. wd_y ws ! i = 0) (snd g), sw_anomaly = count_if (\<lambda>i. wd_y ws ! i = 1) (snd g)\<rparr>)"

definition window_summary_of :: "windows \<Rightarrow> nat \<Rightarrow> window_summary" where
  "window_summary_of ws w =
     (let m = window_frame ws in
      \<lparr>wy_windows = length (wd_y ws), wy_campaigns = nunique (col m ''campaign_id''), wy_runs = nunique (col m ''run_id''),
       wy_sessions = nunique (cols m GROUP_COLUMNS),
       wy_labels = map (\<lambda>l. (l, count_if (\<lambda>v. v = l) (wd_y ws))) [0, 1],
       wy_full = count_if (\<lambda>n. n = int w) (wd_lengths ws), wy_partial = count_if (\<lambda>n. n < int w) (wd_lengths ws),
       wy_length_one = count_if (\<lambda>n. n = 1) (wd_lengths ws),
       wy_lengths = map (\<lambda>k. (k, count_if (\<lambda>n. n = int k) (wd_lengths ws))) [1..<w + 1],
       wy_valid_steps = count_if id (concat (wd_mask ws)), wy_padded_steps = count_if Not (concat (wd_mask ws)),
       wy_scenarios = map (scenario_windows_of ws w)
         (sort_key fst (group_by (\<lambda>i. col m ''scenario_id'' ! i) [0..<length (fr_rows m)]))\<rparr>)"

section \<open>Saved arrays\<close>

record archive =
  av_files :: "string list"
  av_windows :: windows

definition load_window_split :: "(string \<Rightarrow> archive res) \<Rightarrow> string \<Rightarrow> windows res" where
  "load_window_split read split =
     (if split \<notin> {''train'', ''validation''} then Inl (ValueError ''train and validation only'')
      else bindE (read split) (\<lambda>a.
        bindE (check (set (av_files a) = {''X'', ''y'', ''lengths'', ''mask'', ''source_positions''}) (ValueError ''arrays'')) (\<lambda>_.
        Inr (av_windows a))))"

text \<open>The number of shared values of some columns.\<close>

definition shared_values :: "frame \<Rightarrow> frame \<Rightarrow> string list \<Rightarrow> nat" where
  "shared_values a b names = nunique (filter (\<lambda>x. x \<in> set (cols b names)) (cols a names))"

definition validate_window_partitions :: "windows \<Rightarrow> windows \<Rightarrow> (string \<times> nat) list res" where
  "validate_window_partitions train validation =
     (let overlaps = map (\<lambda>(name, names). (name, shared_values (window_frame train) (window_frame validation) names))
        [(''campaigns'', [''campaign_id'']), (''runs'', [''run_id'']), (''sessions'', GROUP_COLUMNS), (''rows'', [''row_id''])] in
      if list_ex (\<lambda>(_, n). n \<noteq> 0) overlaps then Inl (ValueError ''shared identifiers'') else Inr overlaps)"

section \<open>Building\<close>

record sequence_env =
  sv_exists :: "path \<Rightarrow> bool"
  sv_resolve :: "path \<Rightarrow> path"
  sv_load :: load_env
  sv_base_manifest :: "py res"
  sv_codec :: seq_env
  sv_read :: "string \<Rightarrow> archive res"
  sv_later_hash :: "string \<Rightarrow> string res"
  sv_lock_kept :: bool

record sequence_report =
  sr_dataset_id :: string
  sr_source_id :: string
  sr_window_size :: int
  sr_schema :: py
  sr_splits :: "(string \<times> window_summary) list"
  sr_overlaps :: "(string \<times> nat) list"
  sr_sources :: "(string, string) dict"

datatype sequence_file =
    ProtocolLock sequence_config "(string, string) dict"
  | WindowArrays string windows
  | WindowMetadata string windows
  | SequenceSchema py
  | SequenceManifest sequence_report
  | ReportText sequence_report
  | ReportJson sequence_report

definition sequence_schema :: "sequence_config \<Rightarrow> op_data \<Rightarrow> py res" where
  "sequence_schema c d =
     bindE (py_item (od_schema d) ''feature_contract_id'') (\<lambda>cid.
     bindE (py_item (od_schema d) ''feature_units'') (\<lambda>units.
     Inr (PyDict
       [(''schema_version'', PyStr ''v1''), (''sequence_contract_id'', PyStr ''server_application_message_sequence_v1''),
        (''dataset_id'', PyStr (qc_dataset_id c)), (''base_dataset_id'', PyStr (od_dataset_id d)),
        (''base_feature_contract_id'', cid), (''feature_order'', py_strs MESSAGE_FEATURE_ORDER), (''feature_units'', units),
        (''window_size'', PyInt (qc_window_size c)),
        (''input_shape'', PyList [PyStr ''batch'', PyInt (qc_window_size c), PyInt (int (length MESSAGE_FEATURE_ORDER))]),
        (''input_dtype'', PyStr ''float64_raw_not_scaled''), (''stride'', PyInt 1), (''include_current_message'', PyBool True),
        (''history_direction'', PyStr ''past_and_current_only''), (''group_columns'', py_strs GROUP_COLUMNS),
        (''time_order'', PyStr ''request_index_ascending_contiguous_from_1''),
        (''padding'', PyDict [(''side'', PyStr ''right''), (''raw_value'', PyFloat (Fin 0)), (''mask_valid'', PyBool True),
           (''mask_padding'', PyBool False), (''source_position_padding'', PyInt (- 1)), (''minimum_valid_length'', PyInt 1)]),
        (''target_policy'', PyStr ''current_message_label''), (''anchor_alignment'', PyStr ''original_message_row_order''),
        (''preprocessing'', PyDict [(''status'', PyStr ''not_fitted''),
           (''future_fit_scope'', PyStr ''unique_original_train_rows_only_not_flattened_windows''),
           (''future_transform_scope'', PyStr ''valid_steps_only_then_zero_pad''), (''tensor_dtype_after_transform'', PyStr ''float32'')]),
        (''excluded_model_metadata'', py_strs (METADATA_COLUMNS @ SEQUENCE_COLUMNS @ [''label'', ''session_summary''])),
        (''test_windows_generated'', PyBool False), (''test_files_read'', PyBool False)])))"

definition check_sequence_target :: "sequence_env \<Rightarrow> sequence_config \<Rightarrow> path list \<Rightarrow> unit res" where
  "check_sequence_target env c outputs =
     bindE (check (\<not> sv_exists env (qc_output_dir c) \<and> \<not> list_ex (sv_exists env) outputs) (FileExistsError ''output'')) (\<lambda>_.
     check (\<not> list_ex (\<lambda>p. path_within (sv_resolve env p) (sv_resolve env (qc_source_dir c))) (qc_output_dir c # outputs))
       (ValueError ''inside the source''))"

definition check_sequence_source :: "sequence_env \<Rightarrow> sequence_config \<Rightarrow> op_data \<Rightarrow> unit res" where
  "check_sequence_source env c d =
     bindE (check (int (length (op_y (od_train d))) = qc_train_rows c \<and>
        int (length (op_y (od_validation d))) = qc_validation_rows c) (ValueError ''row counts'')) (\<lambda>_.
     bindE (sv_base_manifest env) (\<lambda>manifest.
     bindE (path_items manifest [''config_snapshot'', ''split_policy'']) (\<lambda>p.
     check (py_eq p (PyStr ''preassigned_campaign_holdout'')) (ValueError ''holdout needed''))))"

definition check_restored :: "sequence_env \<Rightarrow> sequence_config \<Rightarrow> op_split \<Rightarrow> string \<Rightarrow> windows res" where
  "check_restored env c source split =
     bindE (load_window_split (sv_read env) split) (\<lambda>restored.
     bindE (validate_windows (sv_codec env) restored source (nat (qc_window_size c)) (qc_dataset_id c)) (\<lambda>_. Inr restored))"

definition window_sources_unchanged :: "sequence_env \<Rightarrow> (string, string) dict \<Rightarrow> unit res" where
  "window_sources_unchanged env evidence =
     bindE (forE (\<lambda>(name, digest). bindE (sv_later_hash env name) (\<lambda>h. check (h = digest) (ValueError ''source changed''))) evidence)
       (\<lambda>_. check (sv_lock_kept env) (ValueError ''lock changed''))"

text \<open>\<open>outputs\<close> are the report files, \<open>.json\<close> and \<open>.md\<close> beside the report prefix.\<close>

definition build_sequences :: "sequence_env \<Rightarrow> sequence_config \<Rightarrow> path list \<Rightarrow> (sequence_file list \<times> sequence_report) res" where
  "build_sequences env c outputs =
     bindE (check_sequence_target env c outputs) (\<lambda>_.
     bindE (fst (load_operational_data (sv_load env) (qc_source_id c) [])) (\<lambda>d.
     bindE (check_sequence_source env c d) (\<lambda>_.
     let make = (\<lambda>s. make_windows (sv_codec env) s (PyInt (qc_window_size c)) (qc_dataset_id c)) in
     bindE (make (od_train d)) (\<lambda>train.
     bindE (make (od_validation d)) (\<lambda>validation.
     bindE (validate_window_partitions train validation) (\<lambda>overlaps.
     bindE (check_restored env c (od_train d) ''train'') (\<lambda>_.
     bindE (check_restored env c (od_validation d) ''validation'') (\<lambda>_.
     bindE (sequence_schema c d) (\<lambda>schema.
     bindE (window_sources_unchanged env (od_evidence d)) (\<lambda>_.
     let report = \<lparr>sr_dataset_id = qc_dataset_id c, sr_source_id = od_dataset_id d, sr_window_size = qc_window_size c,
           sr_schema = schema,
           sr_splits = [(''train'', window_summary_of train (nat (qc_window_size c))),
             (''validation'', window_summary_of validation (nat (qc_window_size c)))],
           sr_overlaps = overlaps, sr_sources = od_evidence d\<rparr> in
     Inr ([ProtocolLock c (od_evidence d), WindowArrays ''train'' train, WindowMetadata ''train'' train,
           WindowArrays ''validation'' validation, WindowMetadata ''validation'' validation,
           SequenceSchema schema, SequenceManifest report, ReportText report, ReportJson report], report)))))))))))"

section \<open>What a built sequence dataset promises\<close>

lemma shared_values_0: "shared_values a b names = 0 \<longleftrightarrow> set (cols a names) \<inter> set (cols b names) = {}"
  by (auto simp: shared_values_def nunique_def filter_empty_conv)

lemma validate_window_partitions_Inr:
  "validate_window_partitions t v = Inr overlaps \<Longrightarrow>
     (\<forall>names\<in>{[''campaign_id''], [''run_id''], GROUP_COLUMNS, [''row_id'']}.
        set (cols (window_frame t) names) \<inter> set (cols (window_frame v) names) = {}) \<and> list_all (\<lambda>p. snd p = 0) overlaps"
  by (auto simp: validate_window_partitions_def Let_def shared_values_0 split: if_splits)

lemma built_from_causal:
  assumes "make_windows env source width did = Inr ws"
  obtains w where "width = PyInt (int w)" "1 \<le> w" "w \<le> 64" "validate_windows env ws source w did = Inr ()"
proof -
  from assms obtain k where k: "width = PyInt k" "1 \<le> k" "k \<le> 64" "validate_windows env ws source (nat k) did = Inr ()"
    by (cases width) (auto simp: make_windows_def Let_def bindE_Inr_iff split: if_splits)
  then show thesis using that [of "nat k"] by simp
qed

lemma build_sequences_Inr:
  assumes "build_sequences env c outputs = Inr (files, report)"
  obtains d train validation schema where
    "check_sequence_target env c outputs = Inr ()"
    "\<exists>e. load_operational_data (sv_load env) (qc_source_id c) [] = (Inr d, e)"
    "check_sequence_source env c d = Inr ()"
    "make_windows (sv_codec env) (od_train d) (PyInt (qc_window_size c)) (qc_dataset_id c) = Inr train"
    "make_windows (sv_codec env) (od_validation d) (PyInt (qc_window_size c)) (qc_dataset_id c) = Inr validation"
    "validate_window_partitions train validation = Inr (sr_overlaps report)"
    "\<exists>r. check_restored env c (od_train d) ''train'' = Inr r"
    "\<exists>r. check_restored env c (od_validation d) ''validation'' = Inr r"
    "window_sources_unchanged env (od_evidence d) = Inr ()" "sr_sources report = od_evidence d"
    "files = [ProtocolLock c (od_evidence d), WindowArrays ''train'' train, WindowMetadata ''train'' train,
       WindowArrays ''validation'' validation, WindowMetadata ''validation'' validation,
       SequenceSchema schema, SequenceManifest report, ReportText report, ReportJson report]"
proof -
  from assms obtain d where d: "fst (load_operational_data (sv_load env) (qc_source_id c) []) = Inr d"
    by (auto simp: build_sequences_def bindE_Inr_iff)
  have e: "\<exists>e. load_operational_data (sv_load env) (qc_source_id c) [] = (Inr d, e)"
    using d by (metis prod.collapse)
  from assms show thesis
    unfolding build_sequences_def d bindE_simps Let_def bindE_Inr_iff
    by (auto intro!: that [OF _ e])
qed

text \<open>
  C37: a sequence dataset is built only from the verified train and validation rows. Its
  windows are made from the loaded parts and no campaign, run, session or row is in both;
  what was written could be read back as valid windows of the same rows; the sources named
  are exactly the ten verified files, no test file among them, and each still has its hash;
  the plan is the first file written and the manifest comes after all arrays.
\<close>

theorem sequences_built_sound:
  assumes "build_sequences env c outputs = Inr (files, report)"
  shows "\<not> sv_exists env (qc_output_dir c) \<and> map fst (sr_sources report) = loaded_names \<and>
    list_all (\<lambda>(n, h). sv_later_hash env n = Inr h) (sr_sources report) \<and>
    (\<exists>d e train validation w. load_operational_data (sv_load env) (qc_source_id c) [] = (Inr d, e) \<and> qc_window_size c = int w \<and>
       make_windows (sv_codec env) (od_train d) (PyInt (int w)) (qc_dataset_id c) = Inr train \<and>
       make_windows (sv_codec env) (od_validation d) (PyInt (int w)) (qc_dataset_id c) = Inr validation \<and>
       (\<forall>names\<in>{[''campaign_id''], [''run_id''], GROUP_COLUMNS, [''row_id'']}.
          set (cols (window_frame train) names) \<inter> set (cols (window_frame validation) names) = {}) \<and>
       (\<exists>r. load_window_split (sv_read env) ''train'' = Inr r \<and> validate_windows (sv_codec env) r (od_train d) w (qc_dataset_id c) = Inr ()) \<and>
       (\<exists>r. load_window_split (sv_read env) ''validation'' = Inr r \<and> validate_windows (sv_codec env) r (od_validation d) w (qc_dataset_id c) = Inr ()) \<and>
       files ! 0 = ProtocolLock c (sr_sources report) \<and> files ! 1 = WindowArrays ''train'' train \<and>
       files ! 3 = WindowArrays ''validation'' validation \<and> files ! 6 = SequenceManifest report)"
proof -
  from assms obtain d train validation schema where
    b: "check_sequence_target env c outputs = Inr ()" "\<exists>e. load_operational_data (sv_load env) (qc_source_id c) [] = (Inr d, e)"
      "make_windows (sv_codec env) (od_train d) (PyInt (qc_window_size c)) (qc_dataset_id c) = Inr train"
      "make_windows (sv_codec env) (od_validation d) (PyInt (qc_window_size c)) (qc_dataset_id c) = Inr validation"
      "validate_window_partitions train validation = Inr (sr_overlaps report)"
      "\<exists>r. check_restored env c (od_train d) ''train'' = Inr r" "\<exists>r. check_restored env c (od_validation d) ''validation'' = Inr r"
      "window_sources_unchanged env (od_evidence d) = Inr ()" "sr_sources report = od_evidence d" and
    f: "files = [ProtocolLock c (od_evidence d), WindowArrays ''train'' train, WindowMetadata ''train'' train,
       WindowArrays ''validation'' validation, WindowMetadata ''validation'' validation,
       SequenceSchema schema, SequenceManifest report, ReportText report, ReportJson report]"
    by (rule build_sequences_Inr)
  from b(2) obtain e where e: "load_operational_data (sv_load env) (qc_source_id c) [] = (Inr d, e)" by blast
  obtain w where w: "qc_window_size c = int w" by (rule built_from_causal [OF b(3)]) simp
  have "map fst (od_evidence d) = loaded_names" using loaded_evidence [OF e] by blast
  moreover have "\<not> sv_exists env (qc_output_dir c)" using b(1) by (auto simp: check_sequence_target_def bindE_Inr_iff)
  moreover have "list_all (\<lambda>(n, h). sv_later_hash env n = Inr h) (od_evidence d)"
    using b(8) by (auto simp: window_sources_unchanged_def bindE_Inr_iff forE_Inr_iff list_all_iff)
  moreover obtain r where "load_window_split (sv_read env) ''train'' = Inr r"
      "validate_windows (sv_codec env) r (od_train d) w (qc_dataset_id c) = Inr ()"
    using b(6) w by (auto simp: check_restored_def bindE_Inr_iff)
  moreover obtain q where "load_window_split (sv_read env) ''validation'' = Inr q"
      "validate_windows (sv_codec env) q (od_validation d) w (qc_dataset_id c) = Inr ()"
    using b(7) w by (auto simp: check_restored_def bindE_Inr_iff)
  moreover note conjunct1 [OF validate_window_partitions_Inr [OF b(5)]] b(3,4) [unfolded w]
  moreover have "files ! 0 = ProtocolLock c (od_evidence d)" "files ! 1 = WindowArrays ''train'' train"
    "files ! 3 = WindowArrays ''validation'' validation" "files ! 6 = SequenceManifest report"
    unfolding f by simp_all
  ultimately show ?thesis using e w unfolding b(9) by (intro exI conjI) assumption+
qed

section \<open>The counts of a part\<close>

lemma count_if_append [simp]: "count_if P (xs @ ys) = count_if P xs + count_if P ys"
  by (simp add: count_if_def)

lemma count_if_split: "list_all (\<lambda>x. P x \<noteq> Q x) xs \<Longrightarrow> count_if P xs + count_if Q xs = length xs"
  by (induction xs) (auto simp: count_if_def)

lemma count_mask_row:
  assumes "0 \<le> n" and "n \<le> int w"
  shows "count_if id (map (\<lambda>j. int j < n) [0..<w]) = nat n"
proof -
  have "filter id (map (\<lambda>j. int j < n) [0..<w]) = map (\<lambda>_. True) (filter (\<lambda>j. int j < n) [0..<w])"
    by (simp add: filter_map comp_def)
  moreover have "filter (\<lambda>j. int j < n) [0..<w] = [0..<nat n]"
  proof -
    have "[0..<w] = [0..<nat n] @ [nat n..<w]" using assms upt_add_eq_append [of 0 "nat n" "w - nat n"] by simp
    moreover have "filter (\<lambda>j. int j < n) [0..<nat n] = [0..<nat n]" by (rule filter_True) auto
    moreover have "filter (\<lambda>j. int j < n) [nat n..<w] = []" by (auto simp: filter_empty_conv)
    ultimately show ?thesis by simp
  qed
  ultimately show ?thesis by (simp add: count_if_def)
qed

lemma count_mask:
  "list_all (\<lambda>n. 1 \<le> n \<and> n \<le> int w) ls \<Longrightarrow> count_if id (concat (mask_of w ls)) = sum_list (map nat ls)"
  by (induction ls) (simp_all add: mask_of_def count_mask_row count_if_def [of id "[]"])

lemma length_mask: "length (concat (mask_of w ls)) = length ls * w"
  by (induction ls) (simp_all add: mask_of_def)

lemma count_by_value:
  "list_all (\<lambda>n. 1 \<le> n \<and> n \<le> int w) ls \<Longrightarrow> sum_list (map (\<lambda>k. count_if (\<lambda>n. n = int k) ls) [1..<w + 1]) = length ls"
proof (induction ls)
  case Nil
  then show ?case by (simp add: count_if_def)
next
  case (Cons n ls)
  have c: "count_if (\<lambda>m. m = int k) (n # ls) = (if k = nat n then 1 else 0) + count_if (\<lambda>m. m = int k) ls" if "1 \<le> n" for k
    using that by (auto simp: count_if_def)
  have "sum_list (map (\<lambda>k. if k = nat n then 1 else 0) [1..<w + 1]) = (1 :: nat)" if "1 \<le> n" "n \<le> int w"
  proof -
    have "sum_list (map (\<lambda>k. if k = nat n then 1 else 0) [1..<w + 1]) = (\<Sum>k\<in>{1..<w + 1}. if k = nat n then 1 else (0 :: nat))"
      by (simp only: interv_sum_list_conv_sum_set_nat set_upt)
    also have "\<dots> = 1" using that by (subst sum.delta) auto
    finally show ?thesis .
  qed
  then show ?case using Cons by (simp add: c sum_list_addf del: upt_Suc)
qed

text \<open>
  the summary of a part counts every message once. For windows that were built, the
  windows are as many as the messages; full and partial windows, the windows of each
  length and the windows of the two labels each add up to that number; valid and padded
  steps add up to the array size; and the valid steps are the sum of the lengths, at least
  one for each message.
\<close>

theorem window_counts:
  assumes "make_windows env source (PyInt (int w)) dataset_id = Inr ws"
  shows "wy_windows (window_summary_of ws w) = length (op_X source) \<and>
    wy_full (window_summary_of ws w) + wy_partial (window_summary_of ws w) = length (op_X source) \<and>
    sum_list (map snd (wy_lengths (window_summary_of ws w))) = length (op_X source) \<and>
    sum_list (map snd (wy_labels (window_summary_of ws w))) = length (op_X source) \<and>
    wy_valid_steps (window_summary_of ws w) + wy_padded_steps (window_summary_of ws w) = length (op_X source) * w \<and>
    wy_valid_steps (window_summary_of ws w) = sum_list (map nat (wd_lengths ws)) \<and>
    length (op_X source) \<le> wy_valid_steps (window_summary_of ws w)"
proof -
  let ?n = "length (op_X source)"
  from assms have v: "validate_windows env ws source w dataset_id = Inr ()"
    by (rule built_from_causal) simp
  then obtain groups where g: "ordered_groups source = Inr groups" and
    s: "check_shapes ws ?n w = Inr ()" and p: "check_padding ws source w = Inr ()"
    by (auto simp: validate_windows_def bindE_Inr_iff)
  have l: "length (wd_lengths ws) = ?n" "length (wd_y ws) = ?n" using s by (simp_all add: check_shapes_def)
  have b: "list_all (\<lambda>n. 1 \<le> n \<and> n \<le> int w) (wd_lengths ws)" and m: "wd_mask ws = mask_of w (wd_lengths ws)"
    and y: "wd_y ws = op_y source" using p by (simp_all add: check_padding_def)
  have "list_all (\<lambda>v. v \<in> {0, 1}) (op_y source)"
    using ordered_groups_facts(3) [OF g] by (simp add: check_source_def)
  then have labels: "count_if (\<lambda>v. v = 0) (wd_y ws) + count_if (\<lambda>v. v = 1) (wd_y ws) = ?n"
    unfolding l(2) [symmetric] y by (intro count_if_split) (auto simp: list_all_iff)
  have full: "count_if (\<lambda>n. n = int w) (wd_lengths ws) + count_if (\<lambda>n. n < int w) (wd_lengths ws) = ?n"
    unfolding l(1) [symmetric] using b by (intro count_if_split) (auto simp: list_all_iff)
  have steps: "count_if id (concat (wd_mask ws)) + count_if Not (concat (wd_mask ws)) = ?n * w"
    using count_if_split [of id Not "concat (wd_mask ws)"] by (simp add: m length_mask l list_all_iff)
  have "?n \<le> sum_list (map nat (wd_lengths ws))"
  proof -
    have "length ls \<le> sum_list (map nat ls)" if "list_all (\<lambda>n. 1 \<le> n \<and> n \<le> int w) ls" for ls
      using that by (induction ls) auto
    from this [OF b] show ?thesis by (simp add: l)
  qed
  then show ?thesis
    using labels full steps count_by_value [OF b] count_mask [OF b] l
    by (simp add: window_summary_of_def Let_def comp_def m del: upt_Suc)
qed

end
