(* ===== verification/Sequence_Example.thy ===== *)
theory Sequence_Example
  imports Sequence_Build Operational_Example
begin

text \<open>
  The windows of the concrete dataset directory, and of one session of three messages.
  Lists of strings are written with a mark before each character and after each string.
\<close>

definition mark_dumps :: "string list \<Rightarrow> string" where
  "mark_dumps xs = concat (map (\<lambda>s. concat (map (\<lambda>c. [CHR ''.'', c]) s) @ [CHR '','']) xs)"

fun mark_read :: "string \<Rightarrow> string \<Rightarrow> string list" where
  "mark_read acc (m # r) =
     (if m = CHR '','' then acc # mark_read [] r else (case r of [] \<Rightarrow> [] | c # r \<Rightarrow> mark_read (acc @ [c]) r))"
| "mark_read acc [] = []"

lemma mark_read_dumps: "mark_read [] (mark_dumps xs) = xs"
proof -
  have one: "mark_read acc (concat (map (\<lambda>c. [CHR ''.'', c]) s) @ CHR '','' # r) = (acc @ s) # mark_read [] r" for acc s r
    by (induction s arbitrary: acc) simp_all
  show ?thesis by (induction xs) (simp_all add: mark_dumps_def one)
qed

definition mark_codec :: seq_env where
  "mark_codec = \<lparr>se_dumps = mark_dumps, se_loads = (\<lambda>s. Inr (py_strs (mark_read [] s))),
     se_to_int = (\<lambda>s. case canonical_int s of None \<Rightarrow> Inl (ValueError ''int'') | Some n \<Rightarrow> Inr n)\<rparr>"

lemma mark_codec: "se_loads mark_codec (se_dumps mark_codec xs) = Inr (py_strs xs)"
  by (simp add: mark_codec_def mark_read_dumps)

text \<open>A session of three messages stored out of order.\<close>

definition story_meta :: "string \<Rightarrow> string list" where
  "story_meta k = [''r'' @ k, ''c'', ''n'', ''s'', ''0'', ''1'', k, ''1'', ''1'', ''t'', ''t'', ''1'', ''b'', ''train'', ''h'']"

definition story :: op_split where
  "story = \<lparr>op_columns = MESSAGE_FEATURE_ORDER,
     op_X = map (\<lambda>k. [Fin 14, Fin 6, Fin k, Fin 0, Fin (14 * k), Fin 0, Fin 0]) [2, 1, 3], op_y = [0, 1, 0],
     op_meta = \<lparr>fr_columns = METADATA_COLUMNS, fr_rows = [story_meta ''2'', story_meta ''1'', story_meta ''3'']\<rparr>\<rparr>"

lemma story_groups: "ordered_groups story = Inr [[1, 0, 2]]"
  by code_simp

lemma windows_always_built_witness:
  "\<exists>ws. make_windows mark_codec story (PyInt (int 2)) ''d'' = Inr ws \<and> length (wd_X ws) = length (op_X story)"
  by (rule windows_always_built [OF story_groups _ _ _ _ mark_codec]) (simp_all add: story_def MESSAGE_FEATURE_ORDER_def)

definition story_windows :: windows where
  "story_windows = assemble_windows story 2 ''d'' (fill_arrays (se_dumps mark_codec) story 2 [[1, 0, 2]])"

lemma story_windows: "make_windows mark_codec story (PyInt (int 2)) ''d'' = Inr story_windows"
  unfolding story_windows_def
  by (rule windows_built [OF story_groups _ _ _ _ mark_codec]) (simp_all add: story_def MESSAGE_FEATURE_ORDER_def)

lemma windows_are_causal_witness:
  "\<exists>h. last h = 2 \<and> length h = 2 \<and>
     wd_X story_windows ! 2 = map ((!) (op_X story)) h @ replicate (2 - length h) (replicate (length MESSAGE_FEATURE_ORDER) (Fin 0))"
proof -
  have n: "2 < length (op_X story)" by (simp add: story_def)
  obtain h k where k: "canonical_int (col (op_meta story) ''request_index'' ! 2) = Some (int k)" "length h = min 2 k" "last h = 2"
    "wd_X story_windows ! 2 = map ((!) (op_X story)) h @ replicate (2 - length h) (replicate (length MESSAGE_FEATURE_ORDER) (Fin 0))"
    using windows_are_causal [OF story_windows n] by blast
  have "canonical_int (col (op_meta story) ''request_index'' ! 2) = Some 3" by code_simp
  with k show ?thesis by auto
qed

lemma window_counts_witness:
  "wy_full (window_summary_of story_windows 2) + wy_partial (window_summary_of story_windows 2) = length (op_X story) \<and>
     length (op_X story) \<le> wy_valid_steps (window_summary_of story_windows 2)"
  using window_counts [OF story_windows] by simp

section \<open>The sequence dataset of the concrete directory\<close>

definition demo_windows :: "op_split \<Rightarrow> windows" where
  "demo_windows source = assemble_windows source 4 ''q'' (fill_arrays (se_dumps mark_codec) source 4 [[0], [1]])"

definition literal_split :: "string \<Rightarrow> string \<Rightarrow> string \<Rightarrow> op_split" where
  "literal_split split r q = \<lparr>op_columns = MESSAGE_FEATURE_ORDER,
     op_X = replicate 2 [Fin 14, Fin 6, Fin 0, Fin 0, Fin 14, Fin 0, Fin 0], op_y = [0, 1], op_meta = meta_frame split r q\<rparr>"

lemma demo_split_literal: "demo_split s r q = literal_split s r q"
  by (simp add: demo_split_def literal_split_def feature_row_def demo_features_def float_of_int_exact numeral_2_eq_2)

lemma demo_groups:
  "ordered_groups (demo_split ''train'' ''r1'' ''r2'') = Inr [[0], [1]]"
  "ordered_groups (demo_split ''validation'' ''r3'' ''r4'') = Inr [[0], [1]]"
  unfolding demo_split_literal by code_simp+

lemma demo_split_shape:
  "list_all (\<lambda>r. length r = length MESSAGE_FEATURE_ORDER) (op_X (demo_split s r q))"
  "fr_columns (op_meta (demo_split s r q)) = METADATA_COLUMNS"
  by (simp_all add: demo_split_def feature_row_def MESSAGE_FEATURE_ORDER_def demo_columns)

lemma demo_windows:
  assumes "ordered_groups (demo_split s r q) = Inr [[0], [1]]"
  shows "make_windows mark_codec (demo_split s r q) (PyInt (int 4)) ''q'' = Inr (demo_windows (demo_split s r q))"
  unfolding demo_windows_def
  by (rule windows_built [OF assms _ _ demo_split_shape mark_codec]) simp_all

definition demo_read :: "string \<Rightarrow> archive res" where
  "demo_read split = Inr \<lparr>av_files = [''X'', ''y'', ''lengths'', ''mask'', ''source_positions''],
     av_windows = demo_windows (if split = ''train'' then demo_split ''train'' ''r1'' ''r2''
       else demo_split ''validation'' ''r3'' ''r4'')\<rparr>"

definition demo_sequence_env :: sequence_env where
  "demo_sequence_env = \<lparr>sv_exists = (\<lambda>_. False), sv_resolve = (\<lambda>p. p), sv_load = demo_env,
     sv_base_manifest = Inr (PyDict [(''config_snapshot'', PyDict [(''split_policy'', PyStr ''preassigned_campaign_holdout'')])]),
     sv_codec = mark_codec, sv_read = demo_read, sv_later_hash = Inr, sv_lock_kept = True\<rparr>"

definition demo_sequence_config :: sequence_config where
  "demo_sequence_config = \<lparr>qc_dataset_id = ''q'', qc_source_id = ''d'', qc_source_dir = Abs [''d''],
     qc_output_dir = Abs [''q''], qc_window_size = 4, qc_train_rows = 2, qc_validation_rows = 2\<rparr>"

lemma demo_restored:
  "check_restored demo_sequence_env demo_sequence_config (demo_split ''train'' ''r1'' ''r2'') ''train'' =
     Inr (demo_windows (demo_split ''train'' ''r1'' ''r2''))"
  "check_restored demo_sequence_env demo_sequence_config (demo_split ''validation'' ''r3'' ''r4'') ''validation'' =
     Inr (demo_windows (demo_split ''validation'' ''r3'' ''r4''))"
proof -
  have v: "validate_windows mark_codec (demo_windows (demo_split s r q)) (demo_split s r q) 4 ''q'' = Inr ()"
    if "ordered_groups (demo_split s r q) = Inr [[0], [1]]" for s r q
    using demo_windows [OF that] by (rule built_from_causal) simp
  show "check_restored demo_sequence_env demo_sequence_config (demo_split ''train'' ''r1'' ''r2'') ''train'' =
     Inr (demo_windows (demo_split ''train'' ''r1'' ''r2''))"
    "check_restored demo_sequence_env demo_sequence_config (demo_split ''validation'' ''r3'' ''r4'') ''validation'' =
     Inr (demo_windows (demo_split ''validation'' ''r3'' ''r4''))"
    using v [OF demo_groups(1)] v [OF demo_groups(2)]
    by (simp_all add: check_restored_def load_window_split_def demo_read_def demo_sequence_env_def demo_sequence_config_def check_def)
qed

lemma demo_disjoint:
  "\<exists>o'. validate_window_partitions (demo_windows (demo_split ''train'' ''r1'' ''r2'')) (demo_windows (demo_split ''validation'' ''r3'' ''r4'')) = Inr o'"
  unfolding validate_window_partitions_def demo_windows_def assembled_frame
  by (simp add: Let_def shared_values_def nunique_def cols_def demo_split_def cell_def meta_frame_def METADATA_COLUMNS_def
      demo_meta_def GROUP_COLUMNS_def)

lemma demo_built: "\<exists>files report. build_sequences demo_sequence_env demo_sequence_config [] = Inr (files, report)"
proof -
  obtain d e where d: "load_operational_data demo_env ''d'' [] = (Inr d, e)"
    "od_train d = demo_split ''train'' ''r1'' ''r2''" "od_validation d = demo_split ''validation'' ''r3'' ''r4''"
    "od_schema d = demo_schema"
    using demo_load_data by blast
  obtain ov where ov: "validate_window_partitions (demo_windows (demo_split ''train'' ''r1'' ''r2''))
      (demo_windows (demo_split ''validation'' ''r3'' ''r4'')) = Inr ov"
    using demo_disjoint by blast
  have f: "sv_load demo_sequence_env = demo_env" "sv_codec demo_sequence_env = mark_codec"
    "qc_source_id demo_sequence_config = ''d''" "qc_window_size demo_sequence_config = int 4"
    "qc_dataset_id demo_sequence_config = ''q''"
    by (simp_all add: demo_sequence_env_def demo_sequence_config_def)
  have t: "check_sequence_target demo_sequence_env demo_sequence_config [] = Inr ()"
    by (simp add: check_sequence_target_def demo_sequence_env_def demo_sequence_config_def bindE_Inr_iff)
  have s: "check_sequence_source demo_sequence_env demo_sequence_config d = Inr ()"
    by (simp add: check_sequence_source_def d demo_split_def demo_sequence_env_def demo_sequence_config_def lookupE_def check_def)
  have h: "hashed demo_env (od_evidence d)" using loaded_data_facts [OF d(1)] by blast
  have u: "window_sources_unchanged demo_sequence_env (od_evidence d) = Inr ()"
    using h by (force simp: window_sources_unchanged_def bindE_Inr_iff forE_Inr_iff demo_sequence_env_def hashed_def)
  have q: "\<exists>v. sequence_schema demo_sequence_config d = Inr v"
    by (simp add: sequence_schema_def d demo_schema_def lookupE_def)
  then obtain v where v: "sequence_schema demo_sequence_config d = Inr v" by blast
  show ?thesis
    unfolding build_sequences_def f d(1) fst_conv t s bindE_simps Let_def d(2,3) demo_windows [OF demo_groups(1)]
      demo_windows [OF demo_groups(2)] ov demo_restored v u
    by simp
qed

lemma sequences_built_sound_witness:
  "\<exists>report. map fst (sr_sources report) = loaded_names \<and>
     list_all (\<lambda>(n, h). sv_later_hash demo_sequence_env n = Inr h) (sr_sources (report :: sequence_report))"
proof -
  obtain files report where "build_sequences demo_sequence_env demo_sequence_config [] = Inr (files, report)"
    using demo_built by blast
  from sequences_built_sound [OF this] show ?thesis by (intro exI [of _ report]) simp
qed

end
