(* ===== verification/Prefix_Features.thy ===== *)
theory Prefix_Features
  imports Sequences
begin

text \<open>
  \<open>data_preparation/operational_prefix_features.py\<close>: values made of a message and the messages
  before it in its session, and the input transforms of the experiments. A table is the list of
  its rows in the order of the source. The closing theorem gives each observation as a function
  of the prefix of its session alone.
\<close>

section \<open>Transforms\<close>

definition without_io :: "string list" where
  "without_io = filter (\<lambda>n. n \<notin> {''bytes_received_total'', ''bytes_sent_total''}) MESSAGE_FEATURE_ORDER"

definition TRANSFORM_COLUMNS :: "(string \<times> string list) list" where
  "TRANSFORM_COLUMNS =
     [(''raw7_v1'', MESSAGE_FEATURE_ORDER), (''without_io5_v1'', without_io),
      (''prefix_mean5_v1'', [''packet_size'', ''payload_size'', ''connection_duration_ms'', ''prefix_mean_interval_ms'',
         ''error_count_total'']),
      (''prefix_mean_parsed6_v1'', [''packet_size'', ''payload_size'', ''connection_duration_ms'', ''prefix_mean_interval_ms'',
         ''parsed_bytes_prefix_total'', ''error_count_total''])]"

section \<open>Observations\<close>

record prefix_obs =
  px_mean_interval_ms :: pyfloat
  px_parsed_bytes :: pyfloat
  px_recv_ahead :: pyfloat
  px_recv_same :: bool
  px_is_first :: bool

definition check_prefix_source :: "op_split \<Rightarrow> unit res" where
  "check_prefix_source source =
     bindE (check (op_columns source = MESSAGE_FEATURE_ORDER \<and> length (op_X source) = length (fr_rows (op_meta source)) \<and>
        length (op_y source) = length (op_X source) \<and> op_X source \<noteq> []) (ValueError ''order'')) (\<lambda>_.
     let m = op_meta source in
     bindE (check (set (GROUP_COLUMNS @ [''request_index'', ''row_id'', ''split'']) \<subseteq> set (fr_columns m) \<and>
        distinct (col m ''row_id'') \<and> \<not> list_ex (\<lambda>r. [] \<in> set r) (cols m GROUP_COLUMNS) \<and> one_split m)
        (ValueError ''identifiers'')) (\<lambda>_.
     check (list_all (list_all is_finite) (op_X source) \<and> \<not> list_ex (list_ex (\<lambda>x. flt x (Fin 0))) (op_X source))
        (ValueError ''finite and non-negative'')))"

definition integral :: "pyfloat \<Rightarrow> bool" where
  "integral x \<longleftrightarrow> is_finite x \<and> fval x = of_int \<lfloor>fval x\<rfloor>"

text \<open>The rows of a session in message order, which must be 1, 2, 3, ... without a gap.\<close>

definition session_positions :: "(string \<Rightarrow> pyfloat res) \<Rightarrow> op_split \<Rightarrow> nat list \<Rightarrow> nat list res" where
  "session_positions number source g =
     bindE (mapE (\<lambda>i. number (cell (op_meta source) ''request_index'' (fr_rows (op_meta source) ! i))) g) (\<lambda>numeric.
     bindE (check (list_all integral numeric) (ValueError ''request index'')) (\<lambda>_.
     let ordered = sort_key (\<lambda>p. fval (snd p)) (zip g numeric) in
     bindE (check (map (\<lambda>p. fval (snd p)) ordered = map of_nat [1..<length g + 1]) (ValueError ''consecutive'')) (\<lambda>_.
     Inr (map fst ordered))))"

definition steps_back :: "pyfloat list \<Rightarrow> bool" where
  "steps_back xs \<longleftrightarrow> list_ex (\<lambda>(a, b). flt (fsub b a) (Fin 0)) (zip xs (tl xs))"

text \<open>\<open>np.cumsum\<close>: the running totals of floats.\<close>

fun cumsum_from :: "pyfloat \<Rightarrow> pyfloat list \<Rightarrow> pyfloat list" where
  "cumsum_from s [] = []"
| "cumsum_from s (x # xs) = fadd s x # cumsum_from (fadd s x) xs"

fun cumsum :: "pyfloat list \<Rightarrow> pyfloat list" where
  "cumsum [] = []"
| "cumsum (x # xs) = x # cumsum_from x xs"

definition check_counters :: "op_split \<Rightarrow> nat list \<Rightarrow> unit res" where
  "check_counters source g =
     (let column = (\<lambda>name. map (feature_at source name) g); packets = column ''packet_size'' in
      bindE (check (feq (hd (column ''message_interval_ms'')) (Fin 0) \<and> \<not> list_ex (\<lambda>n. steps_back (column n))
        [''connection_duration_ms'', ''bytes_received_total'', ''bytes_sent_total'', ''error_count_total'']) (ValueError ''counters'')) (\<lambda>_.
      bindE (check (list_all integral packets \<and>
        list_all2 feq packets (map (\<lambda>x. fadd x (Fin 8)) (column ''payload_size''))) (ValueError ''frame size'')) (\<lambda>_.
      check (\<not> list_ex (\<lambda>(r, p). flt r p) (zip (column ''bytes_received_total'') (cumsum packets)))
        (ValueError ''parsed more than received''))))"

definition mean_interval :: "pyfloat \<Rightarrow> nat \<Rightarrow> pyfloat" where
  "mean_interval s k = (if 1 < k then fdiv_pos s (fval (fl (of_nat (k - 1)))) else Fin 0)"

text \<open>The five columns of a session.\<close>

definition session_columns :: "op_split \<Rightarrow> nat list \<Rightarrow> prefix_obs list" where
  "session_columns source g =
     (let column = (\<lambda>name. map (feature_at source name) g);
          totals = cumsum (column ''message_interval_ms''); parsed = cumsum (column ''packet_size'');
          received = column ''bytes_received_total'' in
      map (\<lambda>i. \<lparr>px_mean_interval_ms = mean_interval (totals ! i) (i + 1), px_parsed_bytes = parsed ! i,
          px_recv_ahead = fsub (received ! i) (parsed ! i),
          px_recv_same = (i \<noteq> 0 \<and> feq (received ! i) (received ! (i - 1))), px_is_first = (i = 0)\<rparr>)
        [0..<length g])"

definition empty_obs :: prefix_obs where
  "empty_obs = \<lparr>px_mean_interval_ms = NaN, px_parsed_bytes = NaN, px_recv_ahead = NaN, px_recv_same = True, px_is_first = True\<rparr>"

text \<open>\<open>result.loc[positions] = columns\<close>.\<close>

definition assign_rows :: "nat list \<Rightarrow> 'a list \<Rightarrow> 'a list \<Rightarrow> 'a list" where
  "assign_rows ps vs result = fold (\<lambda>(p, v) r. r[p := v]) (zip ps vs) result"

definition observe_session :: "(string \<Rightarrow> pyfloat res) \<Rightarrow> op_split \<Rightarrow> prefix_obs list \<Rightarrow> nat list \<Rightarrow> prefix_obs list res" where
  "observe_session number source result rows =
     bindE (session_positions number source rows) (\<lambda>g.
     bindE (check_counters source g) (\<lambda>_.
     Inr (assign_rows g (session_columns source g) result)))"

definition session_groups :: "frame \<Rightarrow> nat list list" where
  "session_groups m = map snd (group_by (session_key m) [0..<length (fr_rows m)])"

definition prefix_observations :: "(string \<Rightarrow> pyfloat res) \<Rightarrow> op_split \<Rightarrow> prefix_obs list res" where
  "prefix_observations number source =
     bindE (check_prefix_source source) (\<lambda>_.
     foldE (observe_session number source) (replicate (length (op_X source)) empty_obs) (session_groups (op_meta source)))"

section \<open>Transforming the input\<close>

definition combined_row :: "op_split \<Rightarrow> prefix_obs list \<Rightarrow> nat \<Rightarrow> (string \<times> py) list" where
  "combined_row source obs i =
     zip (op_columns source) (map PyFloat (op_X source ! i)) @
     [(''prefix_mean_interval_ms'', PyFloat (px_mean_interval_ms (obs ! i))),
      (''parsed_bytes_prefix_total'', PyFloat (px_parsed_bytes (obs ! i))),
      (''recv_ahead_of_parsed_bytes'', PyFloat (px_recv_ahead (obs ! i))),
      (''recv_counter_same_as_previous'', PyBool (px_recv_same (obs ! i))), (''is_first_message'', PyBool (px_is_first (obs ! i)))]"

definition transform_prefix_features ::
    "(string \<Rightarrow> pyfloat res) \<Rightarrow> op_split \<Rightarrow> string \<Rightarrow> prefix_obs list option \<Rightarrow> (string list \<times> py list list) res" where
  "transform_prefix_features number source tid observations =
     bindE (case map_of TRANSFORM_COLUMNS tid of None \<Rightarrow> Inl (ValueError ''transform'') | Some cs \<Rightarrow> Inr cs) (\<lambda>columns.
     bindE (case observations of None \<Rightarrow> prefix_observations number source | Some obs \<Rightarrow> Inr obs) (\<lambda>obs.
     bindE (check (length obs = length (op_X source)) (ValueError ''row order'')) (\<lambda>_.
     bindE (mapE (\<lambda>i. mapE (lookupE (combined_row source obs i)) columns) [0..<length (op_X source)]) (\<lambda>rows.
     Inr (columns, rows)))))"

section \<open>Causality\<close>

lemma length_cumsum_from [simp]: "length (cumsum_from s xs) = length xs"
  by (induction s xs rule: cumsum_from.induct) simp_all

lemma length_cumsum [simp]: "length (cumsum xs) = length xs"
  by (cases xs) simp_all

lemma cumsum_from_nth: "i < length xs \<Longrightarrow> cumsum_from s xs ! i = foldl fadd s (take (i + 1) xs)"
  by (induction s xs arbitrary: i rule: cumsum_from.induct) (auto simp: less_Suc_eq_0_disj)

lemma cumsum_nth: "i < length xs \<Longrightarrow> cumsum xs ! i = foldl fadd (hd xs) (tl (take (i + 1) xs))"
  by (cases xs; cases i) (auto simp: cumsum_from_nth)

text \<open>What is observed at the last message of a prefix; nothing after it is looked at.\<close>

definition observed_at :: "op_split \<Rightarrow> nat list \<Rightarrow> prefix_obs" where
  "observed_at source h =
     (let total = (\<lambda>name. foldl fadd (feature_at source name (hd h)) (map (feature_at source name) (tl h)));
          received = feature_at source ''bytes_received_total'' in
      \<lparr>px_mean_interval_ms = mean_interval (total ''message_interval_ms'') (length h), px_parsed_bytes = total ''packet_size'',
       px_recv_ahead = fsub (received (last h)) (total ''packet_size''),
       px_recv_same = (1 < length h \<and> feq (received (last h)) (received (h ! (length h - 2)))), px_is_first = (length h = 1)\<rparr>)"

lemma cumsum_column:
  assumes "i < length g"
  shows "cumsum (map f g) ! i = foldl fadd (f (hd (take (i + 1) g))) (map f (tl (take (i + 1) g)))"
  using assms by (cases g; cases i) (simp_all add: cumsum_from_nth take_map)

lemma session_columns_nth:
  assumes "i < length g"
  shows "session_columns source g ! i = observed_at source (take (i + 1) g)"
proof -
  have n: "length (take (i + 1) g) = i + 1" using assms by simp
  have "last (take (i + 1) g) = g ! i" using assms by (simp add: take_Suc_conv_app_nth)
  moreover have "take (i + 1) g ! (i + 1 - 2) = g ! (i - 1)" by (cases i) simp_all
  ultimately show ?thesis
    using assms unfolding session_columns_def observed_at_def Let_def n by (simp add: cumsum_column)
qed

lemma length_session_columns [simp]: "length (session_columns source g) = length g"
  by (simp add: session_columns_def Let_def)

lemma length_assign_rows [simp]: "length (assign_rows ps vs r) = length r"
  by (induction ps vs arbitrary: r rule: list_induct2') (simp_all add: assign_rows_def)

lemma assign_rows_other: "p \<notin> set ps \<Longrightarrow> assign_rows ps vs r ! p = r ! p"
  by (induction ps vs arbitrary: r rule: list_induct2') (simp_all add: assign_rows_def)

lemma assign_rows_nth:
  assumes "distinct ps" and "length vs = length ps" and "i < length ps" and "set ps \<subseteq> {..<length r}"
  shows "assign_rows ps vs r ! (ps ! i) = vs ! i"
  using assms
proof (induction ps vs arbitrary: r i rule: list_induct2')
  case (4 p ps v vs)
  have step: "assign_rows (p # ps) (v # vs) r = assign_rows ps vs (r[p := v])" by (simp add: assign_rows_def)
  show ?case
  proof (cases i)
    case 0
    then show ?thesis using 4(2-5) by (simp add: step assign_rows_other)
  next
    case (Suc j)
    then show ?thesis using 4(1) [of j "r[p := v]"] 4(2-5) by (simp add: step)
  qed
qed simp_all

lemma session_positions_mset:
  assumes "session_positions number source rows = Inr g"
  shows "mset g = mset rows"
proof -
  obtain numeric where n: "mapE (\<lambda>i. number (cell (op_meta source) ''request_index'' (fr_rows (op_meta source) ! i))) rows = Inr numeric"
    "g = map fst (sort_key (\<lambda>p. fval (snd p)) (zip rows numeric))"
    using assms by (auto simp: session_positions_def bindE_Inr_iff Let_def)
  have "mset g = image_mset fst (mset (zip rows numeric))" by (simp add: n(2))
  also have "\<dots> = mset rows"
    using mapE_length [OF n(1)] by (simp flip: mset_map add: map_fst_zip)
  finally show ?thesis .
qed

lemma session_groups_partition:
  "distinct (concat (session_groups m))" "set (concat (session_groups m)) = {..<length (fr_rows m)}"
proof -
  have "mset (concat (session_groups m)) = mset [0..<length (fr_rows m)]"
    unfolding session_groups_def by (rule mset_concat_group_by)
  then show "distinct (concat (session_groups m))" "set (concat (session_groups m)) = {..<length (fr_rows m)}"
    by (metis distinct_upt mset_eq_imp_distinct_iff) (metis atLeast_upt mset_eq_setD \<open>mset (concat (session_groups m)) = mset [0..<length (fr_rows m)]\<close>)
qed

lemma observe_sessions:
  assumes "foldE (observe_session number source) r groups = Inr obs"
    and "distinct (concat groups)" and "set (concat groups) \<subseteq> {..<length r}"
  shows "length obs = length r \<and> (\<forall>p. p \<notin> set (concat groups) \<longrightarrow> obs ! p = r ! p) \<and>
    (\<forall>rows\<in>set groups. \<exists>g. session_positions number source rows = Inr g \<and> check_counters source g = Inr () \<and>
      (\<forall>i<length g. obs ! (g ! i) = observed_at source (take (i + 1) g)))"
  using assms
proof (induction groups arbitrary: r)
  case Nil
  then show ?case by simp
next
  case (Cons rows groups)
  obtain r' where r': "observe_session number source r rows = Inr r'" "foldE (observe_session number source) r' groups = Inr obs"
    using Cons.prems(1) by (auto simp: bindE_Inr_iff)
  from r'(1) obtain g where g0: "session_positions number source rows = Inr g" "check_counters source g = Inr ()"
    "r' = assign_rows g (session_columns source g) r" by (auto simp: observe_session_def bindE_Inr_iff)
  note g = g0(1,2) r'(2) [unfolded g0(3)]
  note same = session_positions_mset [OF g(1)]
  have g': "set g = set rows" by (rule mset_eq_setD [OF same])
  have dist: "distinct g" using mset_eq_imp_distinct_iff [OF same] Cons.prems(2) by simp
  have prem: "distinct (concat groups)" "set (concat groups) \<subseteq> {..<length (assign_rows g (session_columns source g) r)}"
    using Cons.prems(2,3) by auto
  note ih = Cons.IH [OF g(3) prem]
  have own: "obs ! (g ! i) = observed_at source (take (i + 1) g)" if "i < length g" for i
  proof -
    have "g ! i \<in> set rows" using nth_mem [OF that] g' by simp
    moreover have "set rows \<inter> set (concat groups) = {}" using Cons.prems(2) by simp
    ultimately have "g ! i \<notin> set (concat groups)" by blast
    then have "obs ! (g ! i) = assign_rows g (session_columns source g) r ! (g ! i)"
      using ih by simp
    also have "\<dots> = session_columns source g ! i"
    proof (rule assign_rows_nth [OF dist _ that])
      show "set g \<subseteq> {..<length r}" unfolding g' using Cons.prems(3) by simp
    qed simp
    finally show ?thesis using that by (simp add: session_columns_nth)
  qed
  have rest: "obs ! p = r ! p" if "p \<notin> set (concat (rows # groups))" for p
    using ih that g' by (simp add: assign_rows_other)
  have "length obs = length r" using ih by simp
  moreover have "\<exists>g. session_positions number source q = Inr g \<and> check_counters source g = Inr () \<and>
      (\<forall>i<length g. obs ! (g ! i) = observed_at source (take (i + 1) g))" if "q \<in> set (rows # groups)" for q
    using that g(1,2) own ih by (cases "q = rows") auto
  ultimately show ?case using rest by blast
qed

lemma prefix_observed:
  assumes "prefix_observations number source = Inr obs"
  shows "length obs = length (op_X source) \<and>
    (\<forall>rows\<in>set (session_groups (op_meta source)). \<exists>g. session_positions number source rows = Inr g \<and> mset g = mset rows \<and>
      check_counters source g = Inr () \<and> (\<forall>i<length g. obs ! (g ! i) = observed_at source (take (i + 1) g)))"
proof -
  have n: "length (op_X source) = length (fr_rows (op_meta source))"
    using assms by (auto simp: prefix_observations_def check_prefix_source_def bindE_Inr_iff)
  have f: "foldE (observe_session number source) (replicate (length (op_X source)) empty_obs) (session_groups (op_meta source)) = Inr obs"
    using assms by (auto simp: prefix_observations_def bindE_Inr_iff)
  from observe_sessions [OF f session_groups_partition(1)] session_groups_partition(2) [of "op_meta source"] n
  show ?thesis by (simp add: session_positions_mset) (meson session_positions_mset)
qed


end
