(* ===== verification/Prefix_Example.thy ===== *)
theory Prefix_Example
  imports Prefix_Features Sequence_Example
begin

text \<open>The observations of the session of three messages that is stored out of order.\<close>

definition str_number :: "string \<Rightarrow> pyfloat res" where
  "str_number s = Inr (Fin (of_nat (str_nat s)))"

lemma fl_small: "(numeral n :: int) \<le> 2 ^ 53 \<Longrightarrow> fl (numeral n) = Fin (numeral n)" "fl 0 = Fin 0" "fl 1 = Fin 1"
  using float_of_int_exact [of "numeral n"] float_of_int_exact [of 0] float_of_int_exact [of 1]
  by (simp_all add: float_of_int_def)

lemma story_checked: "check_prefix_source story = Inr ()" "session_groups (op_meta story) = [[0, 1, 2]]"
  "session_positions str_number story [0, 1, 2] = Inr [1, 0, 2]"
  by code_simp+

lemma story_counters: "check_counters story [1, 0, 2] = Inr ()"
  by (simp add: check_counters_def Let_def story_def feature_at_def MESSAGE_FEATURE_ORDER_def steps_back_def fsub_def
      integral_def fl_small check_def flt_def)

lemma story_observed: "\<exists>obs. prefix_observations str_number story = Inr obs"
  unfolding prefix_observations_def observe_session_def story_checked foldE.simps bindE_simps story_counters by blast


end
