(* ===== verification/Campaign_Design.thy ===== *)
theory Campaign_Design
  imports Prefix_Features
begin

text \<open>
  The fixed designs of the two collection batches: \<open>compile_plans\<close> of
  \<open>data_collection/augmentation.py\<close> and \<open>data_collection/recovery_design.py\<close>. A design is the
  parsed JSON file; \<open>shuffle\<close> is \<open>random.Random(seed).shuffle\<close>.
\<close>

section \<open>Reading a design\<close>

abbreviation py_ints :: "int list \<Rightarrow> py" where
  "py_ints ns \<equiv> PyList (map PyInt ns)"

text \<open>\<open>v[i]\<close> with a list index.\<close>

fun py_at :: "nat \<Rightarrow> py \<Rightarrow> py res" where
  "py_at i (PyList xs) = (if i < length xs then Inr (xs ! i) else Inl (IndexError ''list index''))"
| "py_at i _ = Inl (TypeError ''not indexable'')"

definition item_is_not :: "py \<Rightarrow> string \<Rightarrow> bool \<Rightarrow> bool res" where
  "item_is_not d k b = bindE (py_item d k) (\<lambda>x. Inr (x \<noteq> PyBool b))"

definition path_ne :: "py \<Rightarrow> string list \<Rightarrow> py \<Rightarrow> bool res" where
  "path_ne d ks v = bindE (path_items d ks) (\<lambda>x. Inr (\<not> py_eq x v))"

definition py_items :: "py \<Rightarrow> string \<Rightarrow> py list res" where
  "py_items d k = bindE (py_item d k) py_iter"

definition split_counts_differ :: "py list \<Rightarrow> bool res" where
  "split_counts_differ slots = bindE (mapE (\<lambda>s. py_item s ''split'') slots) (\<lambda>vs. bindE (py_set vs) (\<lambda>_.
     Inr (map (\<lambda>n. length (filter (\<lambda>v. py_eq v (PyStr n)) vs)) [''train'', ''validation'', ''test''] \<noteq> [3, 1, 2] \<or>
       length vs \<noteq> 6)))"

definition scenario_names :: "string list" where
  "scenario_names = map scenario_name all_scenarios"

definition scenarios_differ :: "py list \<Rightarrow> bool res" where
  "scenarios_differ items = bindE (py_set items) (\<lambda>_.
     Inr (set items \<noteq> set (map PyStr scenario_names)))"

text \<open>Six slots of distinct names and seeds in the roles 3/1/2, and the seven scenarios.\<close>

definition slot_conditions :: "py list \<Rightarrow> py list \<Rightarrow> bool res list" where
  "slot_conditions slots scenarios =
     [Inr (length slots \<noteq> 6), repeated ''slot_id'' slots, repeated ''seed'' slots, split_counts_differ slots,
      Inr (length scenarios \<noteq> 7), scenarios_differ scenarios]"

definition ident_of :: "py \<Rightarrow> string \<Rightarrow> unit res" where
  "ident_of d k = bindE (bindE (py_item d k) ident_field) (\<lambda>_. Inr ())"

section \<open>Profiles\<close>

record profile_values =
  pv_scenario :: py
  pv_concurrency :: py
  pv_messages_min :: py
  pv_messages_max :: py
  pv_text_sizes :: py
  pv_wait :: py
  pv_batch :: py
  pv_fragment :: py

definition make_profile :: "profile_values \<Rightarrow> traffic_profile res" where
  "make_profile v =
     bindE (py_at 0 (pv_wait v)) (\<lambda>imin.
     bindE (py_at 1 (pv_wait v)) (\<lambda>imax.
     parse_profile (PyDict [(''scenario_id'', pv_scenario v), (''sessions'', PyInt 4), (''concurrency'', pv_concurrency v),
       (''messages_min'', pv_messages_min v), (''messages_max'', pv_messages_max v), (''text_sizes'', pv_text_sizes v),
       (''interval_min_ms'', imin), (''interval_max_ms'', imax), (''batch_size'', pv_batch v),
       (''fragment_size_bytes'', pv_fragment v)])))"

text \<open>A plan of version 2 from its groups; the profiles are validated instances already.\<close>

definition make_plan :: "py \<Rightarrow> int \<Rightarrow> traffic_profile list list \<Rightarrow> campaign_plan res" where
  "make_plan seed reps groups =
     bindE (strict_int 0 (2 ^ 31 - 1) seed) (\<lambda>s.
     bindE (check (1 \<le> length (hd groups) \<and> length (hd groups) \<le> 7) (ValueError ''length'')) (\<lambda>_.
     let plan = \<lparr>cp_version = ''v2'', cp_seed = s, cp_repeats = reps, cp_profiles = hd groups,
                 cp_repeat_profiles = Some groups\<rparr> in
     bindE (validate_scenarios plan) (\<lambda>_. Inr plan)))"

definition is_burst :: "py \<Rightarrow> bool" where
  "is_burst scenario \<longleftrightarrow> py_eq scenario (PyStr ''controlled_burst_chat'')"

definition is_grouped :: "py \<Rightarrow> bool" where
  "is_grouped scenario \<longleftrightarrow> scenario \<in> {PyStr ''normal_batched_chat'', PyStr ''controlled_burst_chat''}"

definition is_fragmented :: "py \<Rightarrow> bool" where
  "is_fragmented scenario \<longleftrightarrow> py_eq scenario (PyStr ''normal_fragmented_chat'')"

definition level_of :: "py \<Rightarrow> string \<Rightarrow> nat \<Rightarrow> py res" where
  "level_of controls k i = bindE (py_item controls k) (py_at i)"

definition plan_seeds :: "(string \<Rightarrow> wire) \<Rightarrow> (py \<times> campaign_plan) list \<Rightarrow> int list res" where
  "plan_seeds digest plans = bindE (mapE (\<lambda>(slot, plan). planned_runs digest plan) plans) (\<lambda>rs.
     Inr (map (\<lambda>(r, p, s). s) (concat rs)))"

text \<open>\<open>random.Random(slot["seed"] * 1009 + repeat).shuffle(profiles)\<close>.\<close>

definition shuffled :: "(int \<Rightarrow> traffic_profile list \<Rightarrow> traffic_profile list) \<Rightarrow> py \<Rightarrow> nat \<Rightarrow> traffic_profile list \<Rightarrow>
    traffic_profile list res" where
  "shuffled shuffle slot r profiles =
     bindE (bindE (py_item slot ''seed'') int_item) (\<lambda>s. Inr (shuffle (s * 1009 + int r) profiles))"

section \<open>The augmentation design\<close>

definition expected_controls :: "(string \<times> py) list" where
  "expected_controls = [(''text_sizes'', py_ints [8, 24, 96, 384, 768]), (''normal_message_count_range'', py_ints [6, 24]),
     (''burst_message_count_range'', py_ints [12, 24]),
     (''normal_wait_ms_ranges'', PyList [py_ints [1, 4], py_ints [5, 15], py_ints [20, 40]]),
     (''burst_intentional_wait_ms'', PyInt 0), (''batch_sizes'', py_ints [1, 4, 8]),
     (''fragment_sizes_bytes'', py_ints [7, 19, 31]), (''concurrency_levels'', py_ints [1, 2, 4])]"

definition check_controls :: "(string \<times> py) list \<Rightarrow> py \<Rightarrow> unit res" where
  "check_controls expected controls =
     rejectE (ValueError ''controls'') (map (\<lambda>(k, v). item_ne controls k v) expected)"

definition check_design :: "py \<Rightarrow> py list \<Rightarrow> py list \<Rightarrow> unit res" where
  "check_design design slots scenarios =
     bindE (rejectE (ValueError ''design'') (
       [item_ne design ''plan_version'' (PyStr ''v1''), item_ne design ''campaign_split_policy'' (PyStr ''preassigned_campaign_holdout''),
        item_ne design ''feature_contract_id'' (PyStr ''server_application_message_v2''),
        item_is_not design ''freeze_reference_before_collection'' True]
       @ slot_conditions slots scenarios
       @ [item_ne design ''repeats_per_campaign'' (PyInt 2), item_ne design ''sessions_per_run'' (PyInt 4)])) (\<lambda>_.
     bindE (py_item design ''safety_limits'') (\<lambda>safety.
     rejectE (ValueError ''safety limits'')
       [item_ne safety ''destination'' (PyStr ''127.0.0.1:4000''), item_is_not safety ''external_traffic_allowed'' False,
        item_ne safety ''max_messages_per_session'' (PyInt 24), item_ne safety ''max_sessions_per_run'' (PyInt 4),
        item_ne safety ''max_concurrency'' (PyInt 4), item_ne safety ''max_text_bytes'' (PyInt 768)]))"

definition compile_profile :: "py \<Rightarrow> nat \<Rightarrow> nat \<Rightarrow> nat \<times> py \<Rightarrow> traffic_profile res" where
  "compile_profile controls slot_index r p =
     (case p of (i, scenario) \<Rightarrow>
      let level = (slot_index + r + i) mod 3 in
      bindE (py_item controls (if is_burst scenario then ''burst_message_count_range'' else ''normal_message_count_range'')) (\<lambda>count.
      bindE (if is_burst scenario then Inr (py_ints [0, 0]) else level_of controls ''normal_wait_ms_ranges'' level) (\<lambda>wait.
      bindE (level_of controls ''concurrency_levels'' level) (\<lambda>conc.
      bindE (py_at 0 count) (\<lambda>mmin.
      bindE (py_at 1 count) (\<lambda>mmax.
      bindE (py_item controls ''text_sizes'') (\<lambda>sizes.
      bindE (if is_grouped scenario then level_of controls ''batch_sizes'' ((level + 1) mod 3) else Inr (PyInt 1)) (\<lambda>batch.
      bindE (if is_fragmented scenario then level_of controls ''fragment_sizes_bytes'' ((level + 2) mod 3) else Inr PyNone) (\<lambda>fragment.
      make_profile \<lparr>pv_scenario = scenario, pv_concurrency = conc, pv_messages_min = mmin, pv_messages_max = mmax,
        pv_text_sizes = sizes, pv_wait = wait, pv_batch = batch, pv_fragment = fragment\<rparr>)))))))))"

definition compile_slot ::
    "(int \<Rightarrow> traffic_profile list \<Rightarrow> traffic_profile list) \<Rightarrow> py \<Rightarrow> py list \<Rightarrow> nat \<times> py \<Rightarrow> (py \<times> campaign_plan) res" where
  "compile_slot shuffle controls scenarios p =
     (case p of (slot_index, slot) \<Rightarrow>
      bindE (ident_of slot ''slot_id'') (\<lambda>_.
      bindE (mapE (\<lambda>r. bindE (mapE (compile_profile controls slot_index r) (enumerate 0 scenarios)) (shuffled shuffle slot r))
        [0..<2]) (\<lambda>groups.
      bindE (py_item slot ''seed'') (\<lambda>seed.
      bindE (make_plan seed 2 groups) (\<lambda>plan. Inr (slot, plan))))))"

definition compile_plans ::
    "(int \<Rightarrow> traffic_profile list \<Rightarrow> traffic_profile list) \<Rightarrow> (string \<Rightarrow> wire) \<Rightarrow> py \<Rightarrow> (py \<times> campaign_plan) list res" where
  "compile_plans shuffle digest design =
     bindE (py_items design ''campaign_slots'') (\<lambda>slots.
     bindE (py_items design ''scenario_ids'') (\<lambda>scenarios.
     bindE (check_design design slots scenarios) (\<lambda>_.
     bindE (py_item design ''planned_generator_controls'') (\<lambda>controls.
     bindE (check_controls expected_controls controls) (\<lambda>_.
     bindE (mapE (compile_slot shuffle controls scenarios) (enumerate 0 slots)) (\<lambda>plans.
     bindE (plan_seeds digest plans) (\<lambda>seeds.
     bindE (check (distinct seeds) (ValueError ''seed collision'')) (\<lambda>_. Inr plans))))))))"

section \<open>The recovery design\<close>

definition recovery_controls :: "(string \<times> py) list" where
  "recovery_controls = [(''text_sizes'', py_ints [8, 24, 96, 384, 768]), (''valid_message_count_range'', py_ints [12, 24]),
     (''batch_sizes'', py_ints [1, 4, 8]),
     (''normal_wait_ms_ranges'', PyList [py_ints [1, 4], py_ints [5, 15], py_ints [20, 40]]),
     (''burst_wait_ms'', PyInt 0), (''fragment_sizes_bytes'', py_ints [7, 19, 31]), (''concurrency_levels'', py_ints [1, 2, 4])]"

definition recovery_safety :: py where
  "recovery_safety = PyDict [(''destination'', PyStr ''127.0.0.1:4000''), (''max_messages_per_session'', PyInt 24),
     (''max_sessions_per_run'', PyInt 4), (''max_concurrency'', PyInt 4), (''max_text_bytes'', PyInt 768),
     (''external_traffic_allowed'', PyBool False), (''auto_collect_now'', PyBool False)]"

definition recovery_candidates :: py where
  "recovery_candidates = PyList (map (\<lambda>(i, t). PyDict [(''id'', PyStr i), (''input_transform_id'', PyStr t)])
     [(''rf_raw7'', ''raw7_v1''), (''rf_without_io5'', ''without_io5_v1''), (''rf_prefix_mean5'', ''prefix_mean5_v1''),
      (''rf_prefix_mean_parsed6'', ''prefix_mean_parsed6_v1'')])"

definition recovery_parameters :: py where
  "recovery_parameters = PyDict [(''n_estimators'', PyInt 100), (''min_samples_leaf'', PyInt 5), (''max_depth'', PyNone),
     (''class_weight'', PyNone), (''random_state'', PyInt 42), (''n_jobs'', PyInt 1)]"

text \<open>Decimal literals are the floats nearest to them.\<close>

definition py_decimal :: "rat \<Rightarrow> py" where
  "py_decimal x = PyFloat (fl x)"

text \<open>\<open>label_text\<close> is the fixed Korean sentence the design names as the source of labels.\<close>

definition check_experiment :: "string \<Rightarrow> py \<Rightarrow> unit res" where
  "check_experiment label_text design =
     bindE (py_item design ''development_experiment'') (\<lambda>experiment.
     bindE (py_item design ''approval_criteria'') (\<lambda>criteria.
     bindE (rejectE (ValueError ''experiment'')
       [item_ne experiment ''fit_scope'' (PyStr ''new_train_only''), item_ne experiment ''selection_scope'' (PyStr ''new_validation_only''),
        item_ne experiment ''model_kind'' (PyStr ''random_forest''), item_ne experiment ''model_parameters'' recovery_parameters,
        item_ne experiment ''candidates'' recovery_candidates,
        item_ne experiment ''thresholds'' (PyList (map py_decimal [3 / 10, 4 / 10, 5 / 10, 6 / 10, 7 / 10])),
        item_ne experiment ''maximum_trials'' (PyInt 20), item_ne criteria ''max_false_positive_rate'' (py_decimal (1 / 10)),
        item_ne criteria ''max_normal_batched_false_positive_rate'' (py_decimal (1 / 10)),
        item_ne criteria ''min_recall'' (py_decimal (1 / 2)), item_ne criteria ''max_single_request_p95_ms'' (PyInt 25),
        item_ne criteria ''max_process_peak_rss_mib'' (PyInt 512), item_ne criteria ''max_deployment_artifacts_mib'' (PyInt 50),
        item_ne criteria ''scope'' (PyStr ''local_advisory_integration_only'')]) (\<lambda>_.
     rejectE (ValueError ''labels and prefixes'')
       [path_ne design [''label_policy'', ''source''] (PyStr label_text),
        bindE (path_items design [''label_policy'', ''keep_early_prefix_labels'']) (\<lambda>x. Inr (x \<noteq> PyBool True)),
        path_ne design [''prefix_policy'', ''group_key''] (py_strs [''campaign_id'', ''run_id'', ''session_id'']),
        path_ne design [''prefix_policy'', ''order''] (PyStr ''request_index'')])))"

definition check_recovery_design :: "py \<Rightarrow> unit res" where
  "check_recovery_design design =
     bindE (rejectE (ValueError ''recovery design'')
       [item_ne design ''plan_version'' (PyStr ''recovery_v1''), item_ne design ''status'' (PyStr ''design_only''),
        item_ne design ''raw_feature_contract_id'' (PyStr ''server_application_message_v2''),
        item_ne design ''split_policy'' (PyStr ''preassigned_campaign_holdout''), item_is_not design ''previous_test_exposed'' True,
        item_ne design ''repeats_per_campaign'' (PyInt 9), item_ne design ''sessions_per_run'' (PyInt 4)]) (\<lambda>_.
     ident_of design ''target_dataset_id'')"

definition recovery_profile :: "py \<Rightarrow> py \<Rightarrow> nat \<Rightarrow> nat \<Rightarrow> py \<Rightarrow> traffic_profile res" where
  "recovery_profile controls conc batch_level wait_level scenario =
     bindE (if is_burst scenario then Inr (py_ints [0, 0]) else level_of controls ''normal_wait_ms_ranges'' wait_level) (\<lambda>wait.
     bindE (py_item controls ''text_sizes'') (\<lambda>sizes.
     bindE (if is_grouped scenario then level_of controls ''batch_sizes'' batch_level else Inr (PyInt 1)) (\<lambda>batch.
     bindE (if is_fragmented scenario then level_of controls ''fragment_sizes_bytes'' ((batch_level + wait_level) mod 3)
            else Inr PyNone) (\<lambda>fragment.
     make_profile \<lparr>pv_scenario = scenario, pv_concurrency = conc, pv_messages_min = PyInt 12, pv_messages_max = PyInt 24,
       pv_text_sizes = sizes, pv_wait = wait, pv_batch = batch, pv_fragment = fragment\<rparr>))))"

definition recovery_repeat :: "py \<Rightarrow> py list \<Rightarrow> nat \<Rightarrow> nat \<Rightarrow> traffic_profile list res" where
  "recovery_repeat controls scenarios slot_index r =
     (let batch_level = r div 3; wait_level = r mod 3 in
      bindE (level_of controls ''concurrency_levels'' ((slot_index + batch_level + wait_level) mod 3)) (\<lambda>conc.
      mapE (recovery_profile controls conc batch_level wait_level) scenarios))"

definition recovery_slot ::
    "(int \<Rightarrow> traffic_profile list \<Rightarrow> traffic_profile list) \<Rightarrow> py \<Rightarrow> py list \<Rightarrow> nat \<times> py \<Rightarrow> (py \<times> campaign_plan) res" where
  "recovery_slot shuffle controls scenarios p =
     (case p of (slot_index, slot) \<Rightarrow>
      bindE (ident_of slot ''slot_id'') (\<lambda>_.
      bindE (mapE (\<lambda>r. bindE (recovery_repeat controls scenarios slot_index r) (shuffled shuffle slot r)) [0..<9]) (\<lambda>groups.
      bindE (py_item slot ''seed'') (\<lambda>seed.
      bindE (make_plan seed 9 groups) (\<lambda>plan. Inr (slot, plan))))))"

definition shared_seed :: "(py \<times> campaign_plan) list \<Rightarrow> py list \<Rightarrow> bool res" where
  "shared_seed previous slots =
     bindE (mapE (\<lambda>(slot, plan). py_item slot ''seed'') previous) (\<lambda>old.
     bindE (mapE (\<lambda>slot. py_item slot ''seed'') slots) (\<lambda>new.
     Inr (list_ex (\<lambda>x. list_ex (py_eq x) new) old)))"

definition compile_recovery_plans ::
    "(int \<Rightarrow> traffic_profile list \<Rightarrow> traffic_profile list) \<Rightarrow> (string \<Rightarrow> wire) \<Rightarrow> string \<Rightarrow> py \<Rightarrow> py
      \<Rightarrow> (py \<times> campaign_plan) list res" where
  "compile_recovery_plans shuffle digest label_text design previous_design =
     bindE (check_recovery_design design) (\<lambda>_.
     bindE (py_items design ''campaign_slots'') (\<lambda>slots.
     bindE (py_items design ''scenario_ids'') (\<lambda>scenarios.
     bindE (rejectE (ValueError ''slots'') (slot_conditions slots scenarios)) (\<lambda>_.
     bindE (py_item design ''generator_controls'') (\<lambda>controls.
     bindE (py_item design ''safety_limits'') (\<lambda>safety.
     bindE (check_controls recovery_controls controls) (\<lambda>_.
     bindE (check (py_eq safety recovery_safety) (ValueError ''safety limits'')) (\<lambda>_.
     bindE (check_experiment label_text design) (\<lambda>_.
     bindE (compile_plans shuffle digest previous_design) (\<lambda>previous.
     bindE (plan_seeds digest previous) (\<lambda>old_seeds.
     bindE (shared_seed previous slots) (\<lambda>b.
     bindE (check (\<not> b) (ValueError ''seed reused'')) (\<lambda>_.
     bindE (mapE (recovery_slot shuffle controls scenarios) (enumerate 0 slots)) (\<lambda>plans.
     bindE (plan_seeds digest plans) (\<lambda>seeds.
     bindE (check (distinct seeds \<and> set old_seeds \<inter> set seeds = {}) (ValueError ''seed collision'')) (\<lambda>_.
     Inr plans))))))))))))))))"

section \<open>Summary and coverage\<close>

record design_summary =
  dy_campaigns :: nat
  dy_runs :: nat
  dy_sessions :: int
  dy_expected_rows :: int
  dy_crossing :: "(int option \<times> int \<times> int) list"

definition empty_summary :: design_summary where
  "empty_summary = \<lparr>dy_campaigns = 0, dy_runs = 0, dy_sessions = 0, dy_expected_rows = 0, dy_crossing = []\<rparr>"

definition batch_pacing :: "traffic_profile \<Rightarrow> int option \<times> int \<times> int" where
  "batch_pacing p = (tp_batch_size p, tp_interval_min_ms p, tp_interval_max_ms p)"

definition summarize_run ::
    "'r rng \<Rightarrow> (wire \<Rightarrow> string) \<Rightarrow> string \<Rightarrow> design_summary \<Rightarrow> int \<times> traffic_profile \<times> int \<Rightarrow> design_summary res" where
  "summarize_run g sha slot_id s run =
     (case run of (r, p, seed) \<Rightarrow>
      bindE (build_expectations g sha p seed (slot_id @ ''_r'' @ int_str r @ ''_'' @ scenario_name (tp_scenario p))
        (scenario_label (tp_scenario p))) (\<lambda>e.
      Inr (s\<lparr>dy_runs := Suc (dy_runs s), dy_sessions := dy_sessions s + tp_sessions p,
        dy_expected_rows := dy_expected_rows s + ex_expected_messages e,
        dy_crossing := (if tp_scenario p = NormalBatchedChat \<and> batch_pacing p \<notin> set (dy_crossing s)
          then dy_crossing s @ [batch_pacing p] else dy_crossing s)\<rparr>)))"

definition summarize_slot ::
    "'r rng \<Rightarrow> (wire \<Rightarrow> string) \<Rightarrow> (string \<Rightarrow> wire) \<Rightarrow> (string, design_summary) dict \<Rightarrow> py \<times> campaign_plan
      \<Rightarrow> (string, design_summary) dict res" where
  "summarize_slot g sha digest splits p =
     (case p of (slot, plan) \<Rightarrow>
      bindE (bindE (py_item slot ''split'') py_str) (\<lambda>split.
      bindE (bindE (py_item slot ''slot_id'') py_str) (\<lambda>slot_id.
      let s = (case map_of splits split of None \<Rightarrow> empty_summary | Some s \<Rightarrow> s) in
      bindE (planned_runs digest plan) (\<lambda>runs.
      bindE (foldE (summarize_run g sha slot_id) (s\<lparr>dy_campaigns := Suc (dy_campaigns s)\<rparr>) runs) (\<lambda>t.
      Inr (dict_set split t splits))))))"

record recovery_summary =
  ry_splits :: "(string, design_summary) dict"
  ry_planned_runs :: nat
  ry_planned_sessions :: int
  ry_candidate_columns :: "(string, string list) dict"

text \<open>The batch sizes of the normal batched chats of a plan of version 2 are all given.\<close>

definition sorted_crossing :: "design_summary \<Rightarrow> design_summary" where
  "sorted_crossing s = s\<lparr>dy_crossing := sort_key (\<lambda>(b, l, h). (the b, l, h)) (dy_crossing s)\<rparr>"

definition candidate_columns :: "py \<Rightarrow> (string, string list) dict res" where
  "candidate_columns design =
     bindE (bindE (path_items design [''development_experiment'', ''candidates'']) py_iter) (\<lambda>items.
     foldE (\<lambda>d item.
       bindE (bindE (py_item item ''id'') py_str) (\<lambda>i.
       bindE (bindE (py_item item ''input_transform_id'') py_str) (\<lambda>t.
       bindE (lookupE TRANSFORM_COLUMNS t) (\<lambda>cs. Inr (dict_set i cs d))))) [] items)"

definition summarize_recovery_design ::
    "'r rng \<Rightarrow> (wire \<Rightarrow> string) \<Rightarrow> (string \<Rightarrow> wire) \<Rightarrow> py \<Rightarrow> (py \<times> campaign_plan) list \<Rightarrow> recovery_summary res" where
  "summarize_recovery_design g sha digest design plans =
     bindE (foldE (summarize_slot g sha digest) [] plans) (\<lambda>splits.
     bindE (candidate_columns design) (\<lambda>columns.
     Inr \<lparr>ry_splits = map (\<lambda>(k, s). (k, sorted_crossing s)) splits, ry_planned_runs = sum_list (map (dy_runs \<circ> snd) splits),
       ry_planned_sessions = sum_list (map (dy_sessions \<circ> snd) splits), ry_candidate_columns = columns\<rparr>))"

text \<open>\<open>recovery_coverage\<close> of \<open>data_collection/recovery.py\<close>, for the plan of one campaign.\<close>

definition profile_named :: "traffic_profile list \<Rightarrow> scenario_id \<Rightarrow> traffic_profile res" where
  "profile_named ps x = (case List.find (\<lambda>p. tp_scenario p = x) (rev ps) of
     None \<Rightarrow> Inl (KeyError (scenario_name x)) | Some p \<Rightarrow> Inr p)"

definition matched_controls :: "traffic_profile \<Rightarrow> traffic_profile \<Rightarrow> bool" where
  "matched_controls normal burst \<longleftrightarrow> tp_sessions normal = tp_sessions burst \<and> tp_concurrency normal = tp_concurrency burst \<and>
     tp_messages_min normal = tp_messages_min burst \<and> tp_messages_max normal = tp_messages_max burst \<and>
     tp_text_sizes normal = tp_text_sizes burst \<and> tp_batch_size normal = tp_batch_size burst \<and>
     tp_interval_min_ms burst = 0 \<and> tp_interval_max_ms burst = 0"

definition coverage_step :: "campaign_plan \<Rightarrow> nat \<Rightarrow> (int option \<times> int \<times> int) res" where
  "coverage_step plan r =
     bindE (profiles_for_repeat plan (int r)) (\<lambda>ps.
     bindE (profile_named ps NormalBatchedChat) (\<lambda>normal.
     bindE (profile_named ps ControlledBurstChat) (\<lambda>burst.
     bindE (check (matched_controls normal burst) (ValueError ''conditions differ'')) (\<lambda>_.
     Inr (batch_pacing normal)))))"

definition nine_combinations :: "(int option \<times> int \<times> int) list" where
  "nine_combinations = map (\<lambda>(b, l, h). (Some b, l, h))
     [(1, 1, 4), (1, 5, 15), (1, 20, 40), (4, 1, 4), (4, 5, 15), (4, 20, 40), (8, 1, 4), (8, 5, 15), (8, 20, 40)]"

definition plan_coverage :: "campaign_plan \<Rightarrow> (int option \<times> int \<times> int) list res" where
  "plan_coverage plan =
     bindE (mapE (coverage_step plan) [0..<nat (cp_repeats plan)]) (\<lambda>observed.
     bindE (check (set observed = set nine_combinations) (ValueError ''missing combination'')) (\<lambda>_.
     Inr nine_combinations))"

text \<open>\<open>coverage[entry["campaign_id"]] = ...\<close>: the value is made before the key is read.\<close>

definition recovery_coverage :: "py \<Rightarrow> (string, py \<times> py \<times> (int option \<times> int \<times> int) list) dict res" where
  "recovery_coverage registry =
     bindE (py_items registry ''campaigns'') (foldE (\<lambda>coverage entry.
       bindE (bindE (py_item entry ''plan_snapshot'') parse_plan) (\<lambda>plan.
       bindE (plan_coverage plan) (\<lambda>combinations.
       bindE (py_item entry ''slot_id'') (\<lambda>slot_id.
       bindE (py_item entry ''split'') (\<lambda>split.
       bindE (bindE (py_item entry ''campaign_id'') py_str) (\<lambda>cid.
       Inr (dict_set cid (slot_id, split, combinations) coverage)))))) ) [])"

end
