(* ===== verification/Campaign_Design_Proofs.thy ===== *)
theory Campaign_Design_Proofs
  imports Campaign_Design
begin

text \<open>
  What a compiled design promises: every planned profile is the one the fixed levels give,
  every repeat has every scenario, no two runs share a seed; and the recovery design passes
  the coverage check of the collection.
\<close>

section \<open>Fixed control values\<close>

lemma strict_eq: "py_eq v (PyInt n) \<Longrightarrow> strict_int lo hi v = Inr m \<Longrightarrow> m = n"
  by (cases v) (auto split: if_splits)

lemma option_eq: "py_eq v (PyInt n) \<Longrightarrow> option_field (strict_int lo hi) v = Inr m \<Longrightarrow> m = Some n"
  by (cases v) (auto split: if_splits)

lemma list_eq_nth:
  assumes "py_eq (PyList xs) (PyList ys)" and "i < length xs"
  shows "py_eq (xs ! i) (ys ! i)"
proof -
  have all: "length xs = length ys" "\<forall>p\<in>set (zip xs ys). py_eq (fst p) (snd p)" using assms(1) by simp_all
  with assms(2) have "(xs ! i, ys ! i) \<in> set (zip xs ys)" by (auto simp: set_zip)
  with all(2) have "py_eq (fst (xs ! i, ys ! i)) (snd (xs ! i, ys ! i))" by (rule bspec)
  then show ?thesis by simp
qed

lemma eq_listE:
  assumes "py_eq v (PyList ys)"
  obtains xs where "v = PyList xs" and "length xs = length ys" and "\<And>i. i < length ys \<Longrightarrow> py_eq (xs ! i) (ys ! i)"
proof (cases v)
  case (PyList xs)
  with assms have "length xs = length ys" by simp
  moreover have "py_eq (xs ! i) (ys ! i)" if "i < length ys" for i
    using list_eq_nth [of xs ys i] assms PyList that \<open>length xs = length ys\<close> by simp
  ultimately show ?thesis using PyList by (intro that)
qed (use assms in auto)

lemma at_eq:
  assumes "py_eq v (PyList ys)" and "py_at i v = Inr x"
  shows "i < length ys \<and> py_eq x (ys ! i)"
  using assms(1) by (rule eq_listE) (use assms(2) in \<open>auto split: if_splits\<close>)

lemma at_strict:
  assumes "py_eq v (py_ints ns)" and "py_at i v = Inr x" and "strict_int lo hi x = Inr m"
  shows "m = ns ! i"
  using at_eq [OF assms(1,2)] assms(3) by (auto intro: strict_eq)

lemma sizes_eq:
  assumes "py_eq v (py_ints ns)" and "text_sizes_field v = Inr ms"
  shows "ms = ns"
proof -
  obtain xs where xs: "v = PyList xs" "length xs = length ns" "\<And>i. i < length ns \<Longrightarrow> py_eq (xs ! i) (PyInt (ns ! i))"
    using assms(1) by (rule eq_listE) auto
  with assms(2) have "mapE (strict_int 1 1024) xs = Inr ms"
    by (auto simp: text_sizes_field_def bindE_Inr_iff split: if_splits)
  then have "list_all2 (\<lambda>x m. strict_int 1 1024 x = Inr m) xs ms" by (simp only: mapE_Inr_iff)
  then show ?thesis
    using xs(2,3) by (auto simp: list_all2_conv_all_nth intro!: nth_equalityI strict_eq)
qed

lemma item_eq: "item_ne d k v = Inr False \<Longrightarrow> py_item d k = Inr x \<Longrightarrow> py_eq x v"
  by (simp add: item_ne_def)

lemma level_eq:
  assumes "item_ne d k (PyList ys) = Inr False" and "level_of d k i = Inr x"
  shows "i < length ys \<and> py_eq x (ys ! i)"
proof -
  from assms(2) obtain v where "py_item d k = Inr v" "py_at i v = Inr x"
    by (auto simp: level_of_def bindE_Inr_iff)
  with assms(1) show ?thesis by (meson at_eq item_eq)
qed

lemma level_ints:
  assumes "item_ne d k (py_ints ns) = Inr False" and "level_of d k i = Inr x"
  shows "py_eq x (PyInt (ns ! i))"
  using level_eq [OF assms] by auto

lemma controls_pin: "check_controls expected d = Inr () \<Longrightarrow> (k, v) \<in> set expected \<Longrightarrow> item_ne d k v = Inr False"
  by (auto simp: check_controls_def rejectE_Inr_iff list_all_iff)

section \<open>Profiles\<close>

lemma make_profileD:
  assumes "make_profile v = Inr p"
  shows "scenario_field (pv_scenario v) = Inr (tp_scenario p)" "tp_sessions p = 4"
    and "strict_int 1 4 (pv_concurrency v) = Inr (tp_concurrency p)"
    and "strict_int 1 32 (pv_messages_min v) = Inr (tp_messages_min p)"
    and "strict_int 1 32 (pv_messages_max v) = Inr (tp_messages_max p)"
    and "text_sizes_field (pv_text_sizes v) = Inr (tp_text_sizes p)"
    and "\<exists>x. py_at 0 (pv_wait v) = Inr x \<and> strict_int 0 100 x = Inr (tp_interval_min_ms p)"
    and "\<exists>x. py_at 1 (pv_wait v) = Inr x \<and> strict_int 0 100 x = Inr (tp_interval_max_ms p)"
    and "option_field (strict_int 1 8) (pv_batch v) = Inr (tp_batch_size p)"
    and "option_field (strict_int 1 256) (pv_fragment v) = Inr (tp_fragment_size_bytes p)"
  using assms
  by (auto simp: make_profile_def parse_profile_def bindE_Inr_iff field_def default_field_def Let_def)

lemma scenario_fieldD: "scenario_field v = Inr s \<Longrightarrow> v = PyStr (scenario_name s)"
  by (cases v) (auto simp: scenario_field_def find_Some_iff split: option.splits)

text \<open>The profile a level stands for.\<close>

definition waits :: "(int \<times> int) list" where
  "waits = [(1, 4), (5, 15), (20, 40)]"

definition leveled :: "nat \<Rightarrow> nat \<Rightarrow> nat \<Rightarrow> nat \<Rightarrow> int \<Rightarrow> scenario_id \<Rightarrow> traffic_profile" where
  "leveled conc wait batch fragment lowest s =
     \<lparr>tp_scenario = s, tp_sessions = 4, tp_concurrency = [1, 2, 4] ! conc,
      tp_messages_min = lowest, tp_messages_max = 24, tp_text_sizes = [8, 24, 96, 384, 768],
      tp_interval_min_ms = (if s = ControlledBurstChat then 0 else fst (waits ! wait)),
      tp_interval_max_ms = (if s = ControlledBurstChat then 0 else snd (waits ! wait)),
      tp_batch_size = Some (if s \<in> {NormalBatchedChat, ControlledBurstChat} then [1, 4, 8] ! batch else 1),
      tp_fragment_size_bytes = (if s = NormalFragmentedChat then Some ([7, 19, 31] ! fragment) else None)\<rparr>"

lemma kinds_of_scenario:
  "is_burst (PyStr (scenario_name s)) \<longleftrightarrow> s = ControlledBurstChat"
  "is_grouped (PyStr (scenario_name s)) \<longleftrightarrow> s \<in> {NormalBatchedChat, ControlledBurstChat}"
  "is_fragmented (PyStr (scenario_name s)) \<longleftrightarrow> s = NormalFragmentedChat"
  by (cases s; simp add: is_burst_def is_grouped_def is_fragmented_def)+

lemma profile_leveled:
  assumes p: "make_profile v = Inr p"
    and conc: "py_eq (pv_concurrency v) (PyInt ([1, 2, 4] ! conc))"
    and lowest: "py_eq (pv_messages_min v) (PyInt lowest)" and highest: "py_eq (pv_messages_max v) (PyInt 24)"
    and sizes: "py_eq (pv_text_sizes v) (py_ints [8, 24, 96, 384, 768])"
    and wait: "py_eq (pv_wait v) (if is_burst (pv_scenario v) then py_ints [0, 0]
        else py_ints [fst (waits ! wait), snd (waits ! wait)])"
    and batch: "py_eq (pv_batch v) (PyInt (if is_grouped (pv_scenario v) then [1, 4, 8] ! batch else 1))"
    and fragment: "if is_fragmented (pv_scenario v) then py_eq (pv_fragment v) (PyInt ([7, 19, 31] ! fragment))
        else pv_fragment v = PyNone"
  shows "p = leveled conc wait batch fragment lowest (tp_scenario p) \<and> pv_scenario v = PyStr (scenario_name (tp_scenario p))"
proof -
  note d = make_profileD [OF p]
  have s: "pv_scenario v = PyStr (scenario_name (tp_scenario p))" by (rule scenario_fieldD [OF d(1)])
  obtain a b where at: "py_at 0 (pv_wait v) = Inr a" "strict_int 0 100 a = Inr (tp_interval_min_ms p)"
    "py_at 1 (pv_wait v) = Inr b" "strict_int 0 100 b = Inr (tp_interval_max_ms p)"
    using d(7,8) by blast
  define w where "w = (if tp_scenario p = ControlledBurstChat then [0, 0] else [fst (waits ! wait), snd (waits ! wait)])"
  have w: "py_eq (pv_wait v) (py_ints w)"
    using wait by (simp add: s kinds_of_scenario w_def split: if_splits)
  have "tp_interval_min_ms p = w ! 0" "tp_interval_max_ms p = w ! 1"
    using at_strict [OF w at(1,2)] at_strict [OF w at(3,4)] by auto
  moreover have "tp_fragment_size_bytes p = (if tp_scenario p = NormalFragmentedChat then Some ([7, 19, 31] ! fragment) else None)"
    using fragment d(10) option_eq by (auto simp: s kinds_of_scenario split: if_splits)
  moreover have "tp_batch_size p =
      Some (if tp_scenario p \<in> {NormalBatchedChat, ControlledBurstChat} then [1, 4, 8] ! batch else 1)"
    using option_eq [OF batch d(9)] by (simp add: s kinds_of_scenario)
  moreover note strict_eq [OF conc d(3)] strict_eq [OF lowest d(4)] strict_eq [OF highest d(5)] sizes_eq [OF sizes d(6)] d(2)
  ultimately show ?thesis
    using s by (simp add: leveled_def w_def)
qed

section \<open>The augmentation design\<close>

definition augmentation_level :: "nat \<Rightarrow> scenario_id \<Rightarrow> traffic_profile" where
  "augmentation_level level s =
     leveled level level ((level + 1) mod 3) ((level + 2) mod 3) (if s = ControlledBurstChat then 12 else 6) s"

lemma wait_level:
  assumes "item_ne controls k (PyList [py_ints [1, 4], py_ints [5, 15], py_ints [20, 40]]) = Inr False"
    and "level_of controls k i = Inr x"
  shows "py_eq x (py_ints [fst (waits ! i), snd (waits ! i)])"
proof -
  have "i < 3" "py_eq x ([py_ints [1, 4], py_ints [5, 15], py_ints [20, 40]] ! i)"
    using level_eq [OF assms] by auto
  moreover then have "i = 0 \<or> i = 1 \<or> i = 2" by linarith
  ultimately show ?thesis by (auto simp: waits_def simp del: py_eq.simps)
qed

lemma wait_choice:
  assumes "item_ne controls k (PyList [py_ints [1, 4], py_ints [5, 15], py_ints [20, 40]]) = Inr False"
    and "(if is_burst s then Inr (py_ints [0, 0]) else level_of controls k i) = Inr wait"
  shows "py_eq wait (if is_burst s then py_ints [0, 0] else py_ints [fst (waits ! i), snd (waits ! i)])"
  using assms(2) wait_level [OF assms(1), of i wait] by (cases "is_burst s") auto

lemma batch_choice:
  assumes "item_ne controls k (py_ints [1, 4, 8]) = Inr False"
    and "(if is_grouped s then level_of controls k i else Inr (PyInt 1)) = Inr batch"
  shows "py_eq batch (PyInt (if is_grouped s then [1, 4, 8] ! i else 1))"
  using assms(2) level_ints [OF assms(1), of i batch] by (cases "is_grouped s") auto

lemma fragment_choice:
  assumes "item_ne controls k (py_ints [7, 19, 31]) = Inr False"
    and "(if is_fragmented s then level_of controls k i else Inr PyNone) = Inr fragment"
  shows "if is_fragmented s then py_eq fragment (PyInt ([7, 19, 31] ! i)) else fragment = PyNone"
  using assms(2) level_ints [OF assms(1), of i fragment] by (cases "is_fragmented s") auto

lemma compile_profile_level:
  assumes controls: "check_controls expected_controls controls = Inr ()"
    and p: "compile_profile controls k r (i, scenario) = Inr p"
  shows "p = augmentation_level ((k + r + i) mod 3) (tp_scenario p) \<and> scenario = PyStr (scenario_name (tp_scenario p))"
proof -
  define level where "level = (k + r + i) mod 3"
  note pin = controls_pin [OF controls, unfolded expected_controls_def]
  obtain count wait conc mmin mmax sizes batch fragment where c:
    "py_item controls (if is_burst scenario then ''burst_message_count_range'' else ''normal_message_count_range'') = Inr count"
    "(if is_burst scenario then Inr (py_ints [0, 0]) else level_of controls ''normal_wait_ms_ranges'' level) = Inr wait"
    "level_of controls ''concurrency_levels'' level = Inr conc" "py_at 0 count = Inr mmin" "py_at 1 count = Inr mmax"
    "py_item controls ''text_sizes'' = Inr sizes"
    "(if is_grouped scenario then level_of controls ''batch_sizes'' ((level + 1) mod 3) else Inr (PyInt 1)) = Inr batch"
    "(if is_fragmented scenario then level_of controls ''fragment_sizes_bytes'' ((level + 2) mod 3) else Inr PyNone) = Inr fragment"
    and m: "make_profile \<lparr>pv_scenario = scenario, pv_concurrency = conc, pv_messages_min = mmin, pv_messages_max = mmax,
        pv_text_sizes = sizes, pv_wait = wait, pv_batch = batch, pv_fragment = fragment\<rparr> = Inr p"
    using p unfolding compile_profile_def Let_def level_def [symmetric] bindE_Inr_iff prod.case by blast
  define lowest where "lowest = (if is_burst scenario then 12 else 6 :: int)"
  have count: "py_eq count (py_ints [lowest, 24])"
  proof (cases "is_burst scenario")
    case True
    have "item_ne controls ''burst_message_count_range'' (py_ints [12, 24]) = Inr False" by (rule pin) simp
    with True c(1) show ?thesis unfolding lowest_def by (simp add: item_eq del: py_eq.simps)
  next
    case False
    have "item_ne controls ''normal_message_count_range'' (py_ints [6, 24]) = Inr False" by (rule pin) simp
    with False c(1) show ?thesis unfolding lowest_def by (simp add: item_eq del: py_eq.simps)
  qed
  have lo: "py_eq mmin (PyInt lowest)" and hi: "py_eq mmax (PyInt 24)"
    using at_eq [OF count c(4)] at_eq [OF count c(5)] by simp_all
  have conc: "py_eq conc (PyInt ([1, 2, 4] ! level))"
    by (rule level_ints [OF pin c(3)]) simp
  have sizes: "py_eq sizes (py_ints [8, 24, 96, 384, 768])"
    by (rule item_eq [OF pin c(6)]) simp
  have "p = leveled level level ((level + 1) mod 3) ((level + 2) mod 3) lowest (tp_scenario p) \<and>
      scenario = PyStr (scenario_name (tp_scenario p))"
    by (rule profile_leveled [OF m, unfolded profile_values.select_convs, OF conc lo hi sizes
        wait_choice [OF pin c(2)] batch_choice [OF pin c(7)] fragment_choice [OF pin c(8)]]) simp_all
  moreover from this have "lowest = (if tp_scenario p = ControlledBurstChat then 12 else 6)"
    by (simp add: lowest_def kinds_of_scenario)
  ultimately show ?thesis by (simp add: augmentation_level_def level_def)
qed

section \<open>The recovery design\<close>

definition recovery_level :: "nat \<Rightarrow> nat \<Rightarrow> scenario_id \<Rightarrow> traffic_profile" where
  "recovery_level k r s =
     leveled ((k + r div 3 + r mod 3) mod 3) (r mod 3) (r div 3) ((r div 3 + r mod 3) mod 3) 12 s"

lemma recovery_repeat_level:
  assumes controls: "check_controls recovery_controls controls = Inr ()"
    and ps: "recovery_repeat controls (map (\<lambda>s. PyStr (scenario_name s)) scenarios) k r = Inr ps"
  shows "ps = map (recovery_level k r) scenarios"
proof -
  note pin = controls_pin [OF controls, unfolded recovery_controls_def]
  obtain conc where conc: "level_of controls ''concurrency_levels'' ((k + r div 3 + r mod 3) mod 3) = Inr conc"
    and m: "mapE (recovery_profile controls conc (r div 3) (r mod 3)) (map (\<lambda>s. PyStr (scenario_name s)) scenarios) = Inr ps"
    using ps by (auto simp: recovery_repeat_def Let_def bindE_Inr_iff)
  have conc': "py_eq conc (PyInt ([1, 2, 4] ! ((k + r div 3 + r mod 3) mod 3)))"
    by (rule level_ints [OF pin conc]) simp
  have one: "p = recovery_level k r s"
    if p: "recovery_profile controls conc (r div 3) (r mod 3) (PyStr (scenario_name s)) = Inr p" for s p
  proof -
    obtain wait sizes batch fragment where c:
      "(if is_burst (PyStr (scenario_name s)) then Inr (py_ints [0, 0])
        else level_of controls ''normal_wait_ms_ranges'' (r mod 3)) = Inr wait"
      "py_item controls ''text_sizes'' = Inr sizes"
      "(if is_grouped (PyStr (scenario_name s)) then level_of controls ''batch_sizes'' (r div 3) else Inr (PyInt 1)) = Inr batch"
      "(if is_fragmented (PyStr (scenario_name s))
        then level_of controls ''fragment_sizes_bytes'' ((r div 3 + r mod 3) mod 3) else Inr PyNone) = Inr fragment"
      and m: "make_profile \<lparr>pv_scenario = PyStr (scenario_name s), pv_concurrency = conc, pv_messages_min = PyInt 12,
        pv_messages_max = PyInt 24, pv_text_sizes = sizes, pv_wait = wait, pv_batch = batch, pv_fragment = fragment\<rparr> = Inr p"
      using p unfolding recovery_profile_def bindE_Inr_iff by blast
    have sizes: "py_eq sizes (py_ints [8, 24, 96, 384, 768])"
      by (rule item_eq [OF pin c(2)]) simp
    have "p = leveled ((k + r div 3 + r mod 3) mod 3) (r mod 3) (r div 3) ((r div 3 + r mod 3) mod 3) 12 (tp_scenario p) \<and>
        PyStr (scenario_name s) = PyStr (scenario_name (tp_scenario p))"
      by (rule profile_leveled [OF m, unfolded profile_values.select_convs, OF conc' _ _ sizes
          wait_choice [OF pin c(1)] batch_choice [OF pin c(3)] fragment_choice [OF pin c(4)]]) simp_all
    then show ?thesis by (simp add: recovery_level_def)
  qed
  have "list_all2 (\<lambda>s p. p = recovery_level k r s) scenarios ps"
    using m one by (auto simp: mapE_Inr_iff list_all2_map1 elim: list_all2_mono)
  then show ?thesis by (simp add: list_all2_conv_all_nth list_eq_iff_nth_eq)
qed

section \<open>Slots\<close>

lemma scenarios_listed:
  assumes "rejectE e (slot_conditions slots items) = Inr ()"
  shows "length slots = 6 \<and> (\<exists>xs. items = map (\<lambda>s. PyStr (scenario_name s)) xs \<and> mset xs = mset all_scenarios)"
proof -
  have c: "length slots = 6" "length items = 7" "set items = set (map PyStr scenario_names)"
    using assms by (auto simp: rejectE_Inr_iff slot_conditions_def scenarios_differ_def bindE_Inr_iff)
  define name where "name = (\<lambda>s. PyStr (scenario_name s))"
  have n: "map PyStr scenario_names = map name all_scenarios" by (simp add: scenario_names_def name_def)
  have inj: "inj name" by (simp add: inj_def name_def)
  have "distinct items"
  proof (rule card_distinct)
    have "card (set items) = card (name ` UNIV)" using c(3) n by simp
    also have "\<dots> = card (set all_scenarios)" using card_image [OF inj] by simp
    also have "\<dots> = 7" by (simp add: all_scenarios_def)
    finally show "card (set items) = length items" using c(2) by simp
  qed
  moreover have "distinct (map name all_scenarios)"
    using inj_on_subset [OF inj] by (simp add: distinct_map) (simp add: all_scenarios_def)
  ultimately have m: "mset items = image_mset name (mset all_scenarios)"
    using c(3) n by (metis mset_map set_eq_iff_mset_eq_distinct)
  have "items = map name (map (inv name) items)"
    unfolding map_map by (rule map_idI [symmetric]) (use c(3) n in \<open>auto simp: inj\<close>)
  moreover have "mset (map (inv name) items) = mset all_scenarios"
    using m by (simp add: multiset.map_comp comp_def inv_f_f [OF inj])
  ultimately show ?thesis using c(1) unfolding name_def by blast
qed

lemma make_planD:
  assumes "make_plan seed reps groups = Inr plan"
  shows "cp_version plan = ''v2'' \<and> cp_repeats plan = reps \<and> cp_repeat_profiles plan = Some groups \<and>
    strict_int 0 (2 ^ 31 - 1) seed = Inr (cp_seed plan)"
  using assms by (auto simp: make_plan_def Let_def bindE_Inr_iff)

lemma mapE_nth: "mapE f xs = Inr ys \<Longrightarrow> i < length xs \<Longrightarrow> length ys = length xs \<and> f (xs ! i) = Inr (ys ! i)"
  by (auto simp: mapE_Inr_iff list_all2_conv_all_nth)

definition permutes :: "(int \<Rightarrow> 'a list \<Rightarrow> 'a list) \<Rightarrow> bool" where
  "permutes shuffle \<longleftrightarrow> (\<forall>s xs. mset (shuffle s xs) = mset xs)"

lemma shuffled_mset: "permutes shuffle \<Longrightarrow> shuffled shuffle slot r xs = Inr ys \<Longrightarrow> mset ys = mset xs"
  by (auto simp: shuffled_def permutes_def bindE_Inr_iff)

text \<open>A repeat of the augmentation design, in any order.\<close>

definition augmented :: "traffic_profile list \<Rightarrow> bool" where
  "augmented g \<longleftrightarrow> mset (map tp_scenario g) = mset all_scenarios \<and>
     (\<forall>p\<in>set g. \<exists>level<3. p = augmentation_level level (tp_scenario p))"

lemma augmented_mset: "augmented g \<Longrightarrow> mset g' = mset g \<Longrightarrow> augmented g'"
  by (metis augmented_def mset_map set_mset_mset)

lemma compile_slotD:
  assumes controls: "check_controls expected_controls controls = Inr ()" and perm: "permutes shuffle"
    and items: "items = map (\<lambda>s. PyStr (scenario_name s)) xs" "mset xs = mset all_scenarios"
    and slot: "compile_slot shuffle controls items (k, slot) = Inr (slot', plan)"
  shows "slot' = slot \<and> cp_version plan = ''v2'' \<and> cp_repeats plan = 2 \<and>
    (\<exists>gs. cp_repeat_profiles plan = Some gs \<and> length gs = 2 \<and> list_all augmented gs)"
proof -
  obtain groups seed where g:
    "mapE (\<lambda>r. bindE (mapE (compile_profile controls k r) (enumerate 0 items)) (shuffled shuffle slot r)) [0..<2] = Inr groups"
    "make_plan seed 2 groups = Inr plan" "slot' = slot"
    using slot by (auto simp: compile_slot_def bindE_Inr_iff simp del: upt.simps)
  have len: "length groups = 2" using mapE_length [OF g(1)] by simp
  have "augmented (groups ! r)" if "r < 2" for r
  proof -
    from mapE_nth [OF g(1), of r] that obtain ps where
      ps: "mapE (compile_profile controls k r) (enumerate 0 items) = Inr ps" "shuffled shuffle slot r ps = Inr (groups ! r)"
      by (auto simp: bindE_Inr_iff)
    have one: "i < length xs \<Longrightarrow> length ps = length xs \<and> tp_scenario (ps ! i) = xs ! i \<and>
        ps ! i = augmentation_level ((k + r + i) mod 3) (tp_scenario (ps ! i))" for i
      using mapE_nth [OF ps(1), of i] compile_profile_level [OF controls, of k r i "items ! i" "ps ! i"]
      by (auto simp: items(1) nth_enumerate_eq)
    have "length ps = length xs" using mapE_length [OF ps(1)] by (simp add: items(1))
    then have "map tp_scenario ps = xs" using one by (simp add: list_eq_iff_nth_eq)
    moreover have "\<exists>level<3. p = augmentation_level level (tp_scenario p)" if "p \<in> set ps" for p
      using that one \<open>length ps = length xs\<close> by (metis in_set_conv_nth mod_less_divisor zero_less_numeral)
    ultimately have "augmented ps" using items(2) by (auto simp: augmented_def)
    then show ?thesis by (rule augmented_mset) (rule shuffled_mset [OF perm ps(2)])
  qed
  then show ?thesis
    using make_planD [OF g(2)] g(3) len by (simp add: list_all_length)
qed

definition plan_augmented :: "campaign_plan \<Rightarrow> bool" where
  "plan_augmented plan \<longleftrightarrow> cp_version plan = ''v2'' \<and> cp_repeats plan = 2 \<and>
     (\<exists>gs. cp_repeat_profiles plan = Some gs \<and> length gs = 2 \<and> list_all augmented gs)"

lemma compiled_plans:
  assumes "compile_plans shuffle digest design = Inr plans" and perm: "permutes shuffle"
  shows "length plans = 6 \<and> list_all (\<lambda>(slot, plan). plan_augmented plan) plans \<and>
    py_items design ''campaign_slots'' = Inr (map fst plans) \<and>
    (\<exists>seeds. plan_seeds digest plans = Inr seeds \<and> distinct seeds)"
proof -
  obtain slots items controls seeds where c: "py_items design ''campaign_slots'' = Inr slots"
    "check_design design slots items = Inr ()" "check_controls expected_controls controls = Inr ()"
    "mapE (compile_slot shuffle controls items) (enumerate 0 slots) = Inr plans"
    "plan_seeds digest plans = Inr seeds" "distinct seeds"
    using assms(1) by (auto simp: compile_plans_def bindE_Inr_iff)
  have "rejectE (ValueError ''slots'') (slot_conditions slots items) = Inr ()"
    using c(2) by (auto simp: check_design_def bindE_Inr_iff rejectE_Inr_iff)
  from scenarios_listed [OF this] obtain xs where
    xs: "length slots = 6" "items = map (\<lambda>s. PyStr (scenario_name s)) xs" "mset xs = mset all_scenarios" by blast
  have len: "length plans = 6" using mapE_length [OF c(4)] xs(1) by simp
  have one: "fst (plans ! i) = slots ! i \<and> plan_augmented (snd (plans ! i))" if "i < 6" for i
    using mapE_nth [OF c(4), of i] that xs(1)
      compile_slotD [OF c(3) perm xs(2,3), of i "slots ! i" "fst (plans ! i)" "snd (plans ! i)"]
    by (simp add: nth_enumerate_eq plan_augmented_def)
  then have "map fst plans = slots" using len xs(1) by (simp add: list_eq_iff_nth_eq)
  with one len c(1,5,6) show ?thesis by (simp add: list_all_length case_prod_unfold)
qed

section \<open>Coverage\<close>

lemma recovery_slotD:
  assumes controls: "check_controls recovery_controls controls = Inr ()" and perm: "permutes shuffle"
    and items: "items = map (\<lambda>s. PyStr (scenario_name s)) xs" "mset xs = mset all_scenarios"
    and slot: "recovery_slot shuffle controls items (k, slot) = Inr (slot', plan)"
  shows "slot' = slot \<and> cp_version plan = ''v2'' \<and> cp_repeats plan = 9 \<and>
    (\<exists>gs. cp_repeat_profiles plan = Some gs \<and> length gs = 9 \<and>
      (\<forall>r<9. mset (gs ! r) = mset (map (recovery_level k r) all_scenarios)))"
proof -
  obtain groups seed where g:
    "mapE (\<lambda>r. bindE (recovery_repeat controls items k r) (shuffled shuffle slot r)) [0..<9] = Inr groups"
    "make_plan seed 9 groups = Inr plan" "slot' = slot"
    using slot by (auto simp: recovery_slot_def bindE_Inr_iff simp del: upt.simps)
  have "mset (groups ! r) = mset (map (recovery_level k r) all_scenarios)" if "r < 9" for r
  proof -
    from mapE_nth [OF g(1), of r] that obtain ps where
      ps: "recovery_repeat controls items k r = Inr ps" "shuffled shuffle slot r ps = Inr (groups ! r)"
      by (auto simp: bindE_Inr_iff)
    have "ps = map (recovery_level k r) xs" using ps(1) unfolding items(1) by (rule recovery_repeat_level [OF controls])
    then show ?thesis using shuffled_mset [OF perm ps(2)] items(2) by simp
  qed
  then show ?thesis using make_planD [OF g(2)] g(3) mapE_length [OF g(1)] by simp
qed

lemma profile_named_level:
  assumes "mset ps = mset (map (recovery_level k r) all_scenarios)"
  shows "profile_named ps s = Inr (recovery_level k r s)"
proof -
  have sc: "tp_scenario (recovery_level k r x) = x" for x by (simp add: recovery_level_def leveled_def)
  have set: "set (rev ps) = range (recovery_level k r)" using mset_eq_setD [OF assms] by simp
  have "find (\<lambda>p. tp_scenario p = s) (rev ps) = Some (recovery_level k r s)"
  proof (cases "find (\<lambda>p. tp_scenario p = s) (rev ps)")
    case None
    then show ?thesis using set sc by (auto simp: find_None_iff)
  next
    case (Some p)
    then obtain i where "i < length (rev ps)" "p = rev ps ! i" "tp_scenario p = s"
      unfolding find_Some_iff by blast
    then have "p \<in> range (recovery_level k r)" "tp_scenario p = s" using set nth_mem by blast+
    with Some sc show ?thesis by auto
  qed
  then show ?thesis by (simp add: profile_named_def)
qed

lemma matched_levels: "matched_controls (recovery_level k r NormalBatchedChat) (recovery_level k r ControlledBurstChat)"
  by (simp add: matched_controls_def recovery_level_def leveled_def)

lemma pacing_level: "batch_pacing (recovery_level k r NormalBatchedChat) =
    (Some ([1, 4, 8] ! (r div 3)), fst (waits ! (r mod 3)), snd (waits ! (r mod 3)))"
  by (simp add: batch_pacing_def recovery_level_def leveled_def)

lemma nine_pacings: "(\<lambda>r. (Some ([1, 4, 8] ! (r div 3)), fst (waits ! (r mod 3)), snd (waits ! (r mod 3)))) ` set [0..<9]
    = set nine_combinations"
  by (simp add: nine_combinations_def waits_def upt_rec)

lemma covered_plan:
  assumes "cp_repeats plan = 9" and "cp_repeat_profiles plan = Some gs"
    and "\<forall>r<9. mset (gs ! r) = mset (map (recovery_level k r) all_scenarios)"
  shows "plan_coverage plan = Inr nine_combinations"
proof -
  have "coverage_step plan r = Inr (Some ([1, 4, 8] ! (r div 3)), fst (waits ! (r mod 3)), snd (waits ! (r mod 3)))"
    if "r < 9" for r
  proof -
    have "profiles_for_repeat plan (int r) = Inr (gs ! r)"
      using assms(1,2) that by (simp add: profiles_for_repeat_def)
    moreover have "profile_named (gs ! r) s = Inr (recovery_level k r s)" for s
      using assms(3) that by (intro profile_named_level) simp
    ultimately show ?thesis
      by (simp add: coverage_step_def matched_levels pacing_level check_def)
  qed
  then have "mapE (coverage_step plan) [0..<9] =
      Inr (map (\<lambda>r. (Some ([1, 4, 8] ! (r div 3)), fst (waits ! (r mod 3)), snd (waits ! (r mod 3)))) [0..<9])"
    by (intro mapE_total) simp
  then show ?thesis
    using assms(1) nine_pacings by (simp add: plan_coverage_def check_def del: upt.simps set_upt)
qed

lemma recovery_plans_covered:
  assumes "compile_recovery_plans shuffle digest label_text design previous = Inr plans" and perm: "permutes shuffle"
  shows "length plans = 6 \<and> (\<forall>(slot, plan)\<in>set plans. plan_coverage plan = Inr nine_combinations) \<and>
    (\<exists>old old_seeds seeds. compile_plans shuffle digest previous = Inr old \<and> plan_seeds digest old = Inr old_seeds \<and>
      plan_seeds digest plans = Inr seeds \<and> distinct seeds \<and> set old_seeds \<inter> set seeds = {})"
proof -
  obtain slots items controls old old_seeds seeds where c:
    "rejectE (ValueError ''slots'') (slot_conditions slots items) = Inr ()"
    "check_controls recovery_controls controls = Inr ()"
    "compile_plans shuffle digest previous = Inr old" "plan_seeds digest old = Inr old_seeds"
    "mapE (recovery_slot shuffle controls items) (enumerate 0 slots) = Inr plans"
    "plan_seeds digest plans = Inr seeds" "distinct seeds" "set old_seeds \<inter> set seeds = {}"
    using assms(1) by (auto simp: compile_recovery_plans_def bindE_Inr_iff)
  from scenarios_listed [OF c(1)] obtain xs where
    xs: "length slots = 6" "items = map (\<lambda>s. PyStr (scenario_name s)) xs" "mset xs = mset all_scenarios" by blast
  have len: "length plans = 6" using mapE_length [OF c(5)] xs(1) by simp
  have "plan_coverage (snd (plans ! i)) = Inr nine_combinations" if "i < 6" for i
    using mapE_nth [OF c(5), of i] that xs(1) covered_plan
      recovery_slotD [OF c(2) perm xs(2,3), of i "slots ! i" "fst (plans ! i)" "snd (plans ! i)"]
    by (auto simp: nth_enumerate_eq)
  then have "\<forall>(slot, plan)\<in>set plans. plan_coverage plan = Inr nine_combinations"
    using len by (auto simp: in_set_conv_nth) (metis snd_conv)
  with len c(3,4,6,7,8) show ?thesis by blast
qed

section \<open>The fixed controls always compile\<close>

definition fragment_py :: "int option \<Rightarrow> py" where
  "fragment_py f = (case f of None \<Rightarrow> PyNone | Some n \<Rightarrow> PyInt n)"

lemma find_scenario: "List.find (\<lambda>x. x = s) all_scenarios = Some s"
  by (cases s) (simp_all add: all_scenarios_def)

lemma make_profile_total:
  assumes "1 \<le> conc" "conc \<le> 4" "1 \<le> mn" "mn \<le> mx" "mx \<le> 32" "0 \<le> a" "a \<le> b" "b \<le> 100" "1 \<le> bt" "bt \<le> 8"
    and "s = ControlledBurstChat \<Longrightarrow> 12 \<le> mn \<and> a = 0 \<and> b = 0" and "f = None \<or> (\<exists>n. f = Some n \<and> 1 \<le> n \<and> n \<le> 256)"
  shows "make_profile \<lparr>pv_scenario = PyStr (scenario_name s), pv_concurrency = PyInt conc, pv_messages_min = PyInt mn,
      pv_messages_max = PyInt mx, pv_text_sizes = py_ints [8, 24, 96, 384, 768], pv_wait = py_ints [a, b],
      pv_batch = PyInt bt, pv_fragment = fragment_py f\<rparr> =
    Inr \<lparr>tp_scenario = s, tp_sessions = 4, tp_concurrency = conc, tp_messages_min = mn, tp_messages_max = mx,
      tp_text_sizes = [8, 24, 96, 384, 768], tp_interval_min_ms = a, tp_interval_max_ms = b,
      tp_batch_size = Some bt, tp_fragment_size_bytes = f\<rparr>"
proof -
  have "option_field (strict_int 1 256) (fragment_py f) = Inr f"
    using assms(12) by (auto simp: fragment_py_def)
  then show ?thesis
    using assms(1-11)
    by (auto simp: make_profile_def parse_profile_def field_def default_field_def Let_def lookupE_def
        scenario_field_def find_scenario text_sizes_field_def validate_ranges_def)
qed

lemma below_three: "i < 3 \<Longrightarrow> i = 0 \<or> i = 1 \<or> i = (2 :: nat)"
  by linarith

lemma leveled_total:
  assumes "c < 3" "w < 3" "b < 3" "f < 3" and "1 \<le> lowest" "lowest \<le> 24" and "s = ControlledBurstChat \<Longrightarrow> 12 \<le> lowest"
  shows "make_profile \<lparr>pv_scenario = PyStr (scenario_name s), pv_concurrency = PyInt ([1, 2, 4] ! c),
      pv_messages_min = PyInt lowest, pv_messages_max = PyInt 24, pv_text_sizes = py_ints [8, 24, 96, 384, 768],
      pv_wait = py_ints (if s = ControlledBurstChat then [0, 0] else [fst (waits ! w), snd (waits ! w)]),
      pv_batch = PyInt (if s \<in> {NormalBatchedChat, ControlledBurstChat} then [1, 4, 8] ! b else 1),
      pv_fragment = fragment_py (if s = NormalFragmentedChat then Some ([7, 19, 31] ! f) else None)\<rparr> =
    Inr (leveled c w b f lowest s)"
proof -
  have r: "1 \<le> [1, 2, 4 :: int] ! c" "[1, 2, 4 :: int] ! c \<le> 4" "0 \<le> fst (waits ! w)" "fst (waits ! w) \<le> snd (waits ! w)"
    "snd (waits ! w) \<le> 100" "1 \<le> [1, 4, 8 :: int] ! b" "[1, 4, 8 :: int] ! b \<le> 8" "1 \<le> [7, 19, 31 :: int] ! f" "[7, 19, 31 :: int] ! f \<le> 256"
    using assms(1-4) [THEN below_three] by (auto simp: waits_def)
  show ?thesis
  proof (cases "s = ControlledBurstChat")
    case True
    then show ?thesis
      using r assms(5-7) make_profile_total [of "[1, 2, 4] ! c" lowest 24 0 0 "[1, 4, 8] ! b" s None]
      by (simp add: leveled_def)
  next
    case False
    then show ?thesis
      using r assms(5-7) make_profile_total [of "[1, 2, 4] ! c" lowest 24 "fst (waits ! w)" "snd (waits ! w)"
          "if s = NormalBatchedChat then [1, 4, 8] ! b else 1" s "if s = NormalFragmentedChat then Some ([7, 19, 31] ! f) else None"]
      by (simp add: leveled_def)
  qed
qed

lemma py_at_ints: "i < length ns \<Longrightarrow> py_at i (py_ints ns) = Inr (PyInt (ns ! i))"
  by simp

lemma recovery_level_of:
  assumes "i < 3"
  shows "level_of (PyDict recovery_controls) ''concurrency_levels'' i = Inr (PyInt ([1, 2, 4] ! i))"
    "level_of (PyDict recovery_controls) ''batch_sizes'' i = Inr (PyInt ([1, 4, 8] ! i))"
    "level_of (PyDict recovery_controls) ''fragment_sizes_bytes'' i = Inr (PyInt ([7, 19, 31] ! i))"
    "level_of (PyDict recovery_controls) ''normal_wait_ms_ranges'' i = Inr (py_ints [fst (waits ! i), snd (waits ! i)])"
    "py_item (PyDict recovery_controls) ''text_sizes'' = Inr (py_ints [8, 24, 96, 384, 768])"
  using below_three [OF assms] by (auto simp: level_of_def recovery_controls_def lookupE_def waits_def)

lemma recovery_repeat_total:
  assumes "r < 9"
  shows "recovery_repeat (PyDict recovery_controls) (map (\<lambda>s. PyStr (scenario_name s)) xs) k r = Inr (map (recovery_level k r) xs)"
proof -
  have lt: "r div 3 < 3" "r mod 3 < 3" "(k + r div 3 + r mod 3) mod 3 < 3" "(r div 3 + r mod 3) mod 3 < 3"
    using assms by auto
  have one: "recovery_profile (PyDict recovery_controls) (PyInt ([1, 2, 4] ! ((k + r div 3 + r mod 3) mod 3))) (r div 3) (r mod 3)
      (PyStr (scenario_name s)) = Inr (recovery_level k r s)" for s
  proof -
    have wait: "(if s = ControlledBurstChat then Inr (py_ints [0, 0])
        else level_of (PyDict recovery_controls) ''normal_wait_ms_ranges'' (r mod 3))
      = Inr (py_ints (if s = ControlledBurstChat then [0, 0] else [fst (waits ! (r mod 3)), snd (waits ! (r mod 3))]))"
      by (simp add: recovery_level_of(4) [OF lt(2)])
    have batch: "(if s \<in> {NormalBatchedChat, ControlledBurstChat} then level_of (PyDict recovery_controls) ''batch_sizes'' (r div 3)
        else Inr (PyInt 1)) = Inr (PyInt (if s \<in> {NormalBatchedChat, ControlledBurstChat} then [1, 4, 8] ! (r div 3) else 1))"
      by (simp add: recovery_level_of(2) [OF lt(1)])
    have fragment: "(if s = NormalFragmentedChat
        then level_of (PyDict recovery_controls) ''fragment_sizes_bytes'' ((r div 3 + r mod 3) mod 3) else Inr PyNone)
      = Inr (fragment_py (if s = NormalFragmentedChat then Some ([7, 19, 31] ! ((r div 3 + r mod 3) mod 3)) else None))"
      by (simp add: recovery_level_of(3) [OF lt(4)] fragment_py_def)
    show ?thesis
      unfolding recovery_profile_def kinds_of_scenario wait batch fragment recovery_level_of(5) [OF lt(1)] bindE_simps
        recovery_level_def
      by (rule leveled_total [OF lt(3,2,1,4)]) simp_all
  qed
  have "mapE (recovery_profile (PyDict recovery_controls) (PyInt ([1, 2, 4] ! ((k + r div 3 + r mod 3) mod 3))) (r div 3) (r mod 3))
      (map (\<lambda>s. PyStr (scenario_name s)) xs) = Inr (map (recovery_level k r) xs)"
    by (induction xs) (simp_all add: one)
  then show ?thesis
    by (simp only: recovery_repeat_def Let_def recovery_level_of(1) [OF lt(3)] bindE_simps)
qed

definition full_group :: "traffic_profile list \<Rightarrow> bool" where
  "full_group g \<longleftrightarrow> mset (map tp_scenario g) = mset all_scenarios \<and> (\<forall>p\<in>set g. tp_batch_size p \<noteq> None)"

lemma full_groupD:
  assumes "full_group g"
  shows "distinct (map (\<lambda>p. scenario_name (tp_scenario p)) g)" "scenario_name ` tp_scenario ` set g = range scenario_name"
    "length g = 7"
proof -
  have m: "mset (map tp_scenario g) = mset all_scenarios" using assms by (simp add: full_group_def)
  have "distinct all_scenarios" by (simp add: all_scenarios_def)
  then have d: "distinct (map tp_scenario g)" using mset_eq_imp_distinct_iff [OF m] by simp
  have "map (\<lambda>p. scenario_name (tp_scenario p)) g = map scenario_name (map tp_scenario g)" by simp
  moreover have "distinct (map scenario_name (map tp_scenario g))"
    unfolding distinct_map [of scenario_name] using d by (simp add: inj_on_def)
  ultimately show "distinct (map (\<lambda>p. scenario_name (tp_scenario p)) g)" by (simp add: comp_def)
  show "scenario_name ` tp_scenario ` set g = range scenario_name"
    using mset_eq_setD [OF m] by simp
  show "length g = 7" using mset_eq_length [OF m] by (simp add: all_scenarios_def)
qed

lemma full_group_mset: "full_group g \<Longrightarrow> mset g' = mset g \<Longrightarrow> full_group g'"
  by (metis full_group_def mset_map set_mset_mset)

lemma full_group_leveled:
  assumes "mset xs = mset all_scenarios" and "\<And>s. tp_scenario (f s) = s" and "\<And>s. tp_batch_size (f s) \<noteq> None"
  shows "full_group (map f xs)"
  using assms by (simp add: full_group_def comp_def)

lemma make_plan_total:
  assumes "0 \<le> n" "n < 2 ^ 31" and "groups \<noteq> []" and "list_all full_group groups" and "int (length groups) = reps"
  shows "\<exists>plan. make_plan (PyInt n) reps groups = Inr plan"
proof -
  let ?plan = "\<lparr>cp_version = ''v2'', cp_seed = n, cp_repeats = reps, cp_profiles = hd groups, cp_repeat_profiles = Some groups\<rparr>"
  obtain g gs where g: "groups = g # gs" using assms(3) by (cases groups) auto
  then have full: "full_group g" using assms(4) by simp
  have "check_group ?plan (map (\<lambda>p. scenario_name (tp_scenario p)) (hd groups)) h = Inr ()" if "h \<in> set groups" for h
  proof -
    have h: "full_group h" using assms(4) that by (simp add: list_all_iff)
    have "scenario_name ` tp_scenario ` set h = scenario_name ` tp_scenario ` set g"
      using full_groupD(2) [OF h] full_groupD(2) [OF full] by simp
    moreover have "\<not> list_ex (\<lambda>p. tp_batch_size p = None) h" using h by (auto simp: full_group_def list_ex_iff)
    ultimately show ?thesis
      using full_groupD(1) [OF h] g by (simp add: check_group_def Let_def image_image)
  qed
  then have "forE (check_group ?plan (map (\<lambda>p. scenario_name (tp_scenario p)) (hd groups))) groups = Inr ()"
    by (simp add: forE_Inr_iff)
  then have "validate_scenarios ?plan = Inr ()"
    using full_groupD(1) [OF full] assms(5) g by (simp add: validate_scenarios_def Let_def)
  then show ?thesis
    using assms(1,2) full_groupD(3) [OF full] g by (simp add: make_plan_def check_def)
qed

lemma shuffled_total: "py_item slot ''seed'' = Inr (PyInt n) \<Longrightarrow> shuffled shuffle slot r ps = Inr (shuffle (n * 1009 + int r) ps)"
  by (simp add: shuffled_def)

lemma leveled_sel [simp]: "tp_scenario (leveled c w b f lowest s) = s" "tp_batch_size (leveled c w b f lowest s) \<noteq> None"
  by (simp_all add: leveled_def)

lemma recovery_slot_total:
  assumes perm: "permutes shuffle" and xs: "mset xs = mset all_scenarios"
    and sid: "ident_of slot ''slot_id'' = Inr ()"
    and seed: "py_item slot ''seed'' = Inr (PyInt n)" "0 \<le> n" "n < 2 ^ 31"
  shows "\<exists>plan. recovery_slot shuffle (PyDict recovery_controls) (map (\<lambda>s. PyStr (scenario_name s)) xs) (k, slot) = Inr (slot, plan) \<and>
    plan_coverage plan = Inr nine_combinations"
proof -
  let ?xs = "map (\<lambda>s. PyStr (scenario_name s)) xs"
  define groups where "groups = map (\<lambda>r. shuffle (n * 1009 + int r) (map (recovery_level k r) xs)) [0..<9]"
  have m: "mapE (\<lambda>r. bindE (recovery_repeat (PyDict recovery_controls) ?xs k r) (shuffled shuffle slot r)) [0..<9] = Inr groups"
    unfolding groups_def by (rule mapE_total) (simp add: recovery_repeat_total shuffled_total [OF seed(1)])
  have "full_group (shuffle (n * 1009 + int r) (map (recovery_level k r) xs))" for r
    by (rule full_group_mset [OF full_group_leveled [OF xs]]) (use perm in \<open>simp_all add: recovery_level_def permutes_def\<close>)
  then have "list_all full_group groups" by (simp add: groups_def list_all_iff)
  moreover have "groups \<noteq> []" "int (length groups) = 9" by (simp_all add: groups_def)
  ultimately obtain plan where plan: "make_plan (PyInt n) 9 groups = Inr plan"
    using make_plan_total [OF seed(2,3)] by blast
  have slot: "recovery_slot shuffle (PyDict recovery_controls) ?xs (k, slot) = Inr (slot, plan)"
    by (simp add: recovery_slot_def sid seed(1) m plan del: upt.simps)
  have "check_controls recovery_controls (PyDict recovery_controls) = Inr ()" by code_simp
  from recovery_slotD [OF this perm refl xs slot] have "plan_coverage plan = Inr nine_combinations"
    using covered_plan by blast
  with slot show ?thesis by blast
qed

lemma augmentation_level_of:
  assumes "i < 3"
  shows "level_of (PyDict expected_controls) ''concurrency_levels'' i = Inr (PyInt ([1, 2, 4] ! i))"
    "level_of (PyDict expected_controls) ''batch_sizes'' i = Inr (PyInt ([1, 4, 8] ! i))"
    "level_of (PyDict expected_controls) ''fragment_sizes_bytes'' i = Inr (PyInt ([7, 19, 31] ! i))"
    "level_of (PyDict expected_controls) ''normal_wait_ms_ranges'' i = Inr (py_ints [fst (waits ! i), snd (waits ! i)])"
    "py_item (PyDict expected_controls) ''text_sizes'' = Inr (py_ints [8, 24, 96, 384, 768])"
  using below_three [OF assms] by (auto simp: level_of_def expected_controls_def lookupE_def waits_def)

lemma compile_profile_total:
  "compile_profile (PyDict expected_controls) k r (i, PyStr (scenario_name s)) = Inr (augmentation_level ((k + r + i) mod 3) s)"
proof -
  define l where "l = (k + r + i) mod 3"
  have lt: "l < 3" "(l + 1) mod 3 < 3" "(l + 2) mod 3 < 3" by (simp_all add: l_def)
  have count: "py_item (PyDict expected_controls)
      (if s = ControlledBurstChat then ''burst_message_count_range'' else ''normal_message_count_range'')
    = Inr (py_ints [if s = ControlledBurstChat then 12 else 6, 24])"
    by (simp add: expected_controls_def lookupE_def)
  have wait: "(if s = ControlledBurstChat then Inr (py_ints [0, 0])
      else level_of (PyDict expected_controls) ''normal_wait_ms_ranges'' l)
    = Inr (py_ints (if s = ControlledBurstChat then [0, 0] else [fst (waits ! l), snd (waits ! l)]))"
    by (simp add: augmentation_level_of(4) [OF lt(1)])
  have batch: "(if s \<in> {NormalBatchedChat, ControlledBurstChat} then level_of (PyDict expected_controls) ''batch_sizes'' ((l + 1) mod 3)
      else Inr (PyInt 1)) = Inr (PyInt (if s \<in> {NormalBatchedChat, ControlledBurstChat} then [1, 4, 8] ! ((l + 1) mod 3) else 1))"
    using augmentation_level_of(2) [OF lt(2)] by simp
  have fragment: "(if s = NormalFragmentedChat
      then level_of (PyDict expected_controls) ''fragment_sizes_bytes'' ((l + 2) mod 3) else Inr PyNone)
    = Inr (fragment_py (if s = NormalFragmentedChat then Some ([7, 19, 31] ! ((l + 2) mod 3)) else None))"
    using augmentation_level_of(3) [OF lt(3)] by (simp add: fragment_py_def)
  have at: "py_at 0 (py_ints [a, b]) = Inr (PyInt a)" "py_at 1 (py_ints [a, b]) = Inr (PyInt b)" for a b by simp_all
  show ?thesis
    unfolding compile_profile_def prod.case Let_def l_def [symmetric] kinds_of_scenario count wait batch fragment
      augmentation_level_of(1,5) [OF lt(1)] bindE_simps at augmentation_level_def
    by (rule leveled_total [OF lt(1,1,2,3)]) simp_all
qed

lemma compile_slot_total:
  assumes perm: "permutes shuffle" and xs: "mset xs = mset all_scenarios"
    and sid: "ident_of slot ''slot_id'' = Inr ()"
    and seed: "py_item slot ''seed'' = Inr (PyInt n)" "0 \<le> n" "n < 2 ^ 31"
  shows "\<exists>plan. compile_slot shuffle (PyDict expected_controls) (map (\<lambda>s. PyStr (scenario_name s)) xs) (k, slot) = Inr (slot, plan) \<and>
    make_plan (PyInt n) 2 (map (\<lambda>r. shuffle (n * 1009 + int r)
      (map (\<lambda>(i, s). augmentation_level ((k + r + i) mod 3) s) (enumerate 0 xs))) [0..<2]) = Inr plan"
proof -
  let ?xs = "map (\<lambda>s. PyStr (scenario_name s)) xs"
  let ?g = "\<lambda>r. map (\<lambda>(i, s). augmentation_level ((k + r + i) mod 3) s) (enumerate 0 xs)"
  define groups where "groups = map (\<lambda>r. shuffle (n * 1009 + int r) (?g r)) [0..<2]"
  have one: "mapE (compile_profile (PyDict expected_controls) k r) (enumerate 0 ?xs) = Inr (?g r)" for r
    by (auto simp: mapE_Inr_iff list_all2_conv_all_nth nth_enumerate_eq compile_profile_total)
  have m: "mapE (\<lambda>r. bindE (mapE (compile_profile (PyDict expected_controls) k r) (enumerate 0 ?xs)) (shuffled shuffle slot r)) [0..<2]
      = Inr groups"
    unfolding groups_def by (rule mapE_total) (simp add: one shuffled_total [OF seed(1)])
  have "full_group (?g r)" for r
  proof -
    have "map tp_scenario (?g r) = xs"
      by (rule nth_equalityI) (simp_all add: nth_enumerate_eq augmentation_level_def)
    moreover have "\<forall>p\<in>set (?g r). tp_batch_size p \<noteq> None" by (auto simp: augmentation_level_def leveled_def)
    ultimately show ?thesis using xs unfolding full_group_def by simp
  qed
  then have "full_group (shuffle (n * 1009 + int r) (?g r))" for r
    by (rule full_group_mset) (use perm in \<open>simp add: permutes_def\<close>)
  then have "list_all full_group groups" by (simp add: groups_def list_all_iff)
  moreover have "groups \<noteq> []" "int (length groups) = 2" by (simp_all add: groups_def)
  ultimately obtain plan where plan: "make_plan (PyInt n) 2 groups = Inr plan"
    using make_plan_total [OF seed(2,3)] by blast
  have "compile_slot shuffle (PyDict expected_controls) ?xs (k, slot) = Inr (slot, plan)"
    by (simp add: compile_slot_def sid seed(1) m plan del: upt.simps)
  with plan show ?thesis unfolding groups_def by blast
qed

section \<open>Properties\<close>

text \<open>
  C39: Whatever design file is given, a compiled batch has six plans of two repeats each, every
  repeat holds each of the seven scenarios once, every profile is one of the three fixed levels
  of the design (at most 24 messages, 768 bytes of text, 40 ms of wait, four sessions), and no
  two runs of the batch share a seed.
\<close>
lemma compiled_plans_within_limits:
  assumes "compile_plans shuffle digest design = Inr plans" and "permutes shuffle"
  shows "length plans = 6 \<and> list_all (\<lambda>(slot, plan). plan_augmented plan) plans \<and>
    py_items design ''campaign_slots'' = Inr (map fst plans) \<and>
    (\<exists>seeds. plan_seeds digest plans = Inr seeds \<and> distinct seeds)"
  by (rule compiled_plans [OF assms])

text \<open>
  C40: On the fixed recovery controls every slot with an identifier and a seed in range compiles,
  for any order of the scenarios and any shuffling, and its plan passes the coverage check of
  the collection: the nine combinations of batch size and pacing, each with a matched burst.
\<close>
lemma recovery_slot_covers:
  assumes "permutes shuffle" and "mset xs = mset all_scenarios" and "ident_of slot ''slot_id'' = Inr ()"
    and "py_item slot ''seed'' = Inr (PyInt n)" and "0 \<le> n" and "n < 2 ^ 31"
  shows "\<exists>plan. recovery_slot shuffle (PyDict recovery_controls) (map (\<lambda>s. PyStr (scenario_name s)) xs) (k, slot) = Inr (slot, plan) \<and>
    plan_coverage plan = Inr nine_combinations"
  by (rule recovery_slot_total [OF assms])

end
