(* ===== verification/Campaign_Example.thy ===== *)
theory Campaign_Example
  imports Campaign_Design_Proofs
begin

text \<open>A small augmentation design, and the witnesses of the design properties.\<close>

definition demo_digest :: "string \<Rightarrow> wire" where
  "demo_digest s = [0, 0, 0, 0, of_char (s ! 0), of_char (s ! 2), of_char (s ! 4), of_nat (length s)]"

definition demo_slot :: "string \<Rightarrow> int \<Rightarrow> string \<Rightarrow> py" where
  "demo_slot i s sp = PyDict [(''slot_id'', PyStr i), (''seed'', PyInt s), (''split'', PyStr sp)]"

definition demo_slots :: "py list" where
  "demo_slots = [demo_slot ''a'' 1 ''train'', demo_slot ''b'' 2 ''train'', demo_slot ''c'' 3 ''train'',
     demo_slot ''d'' 4 ''validation'', demo_slot ''e'' 5 ''test'', demo_slot ''f'' 6 ''test'']"

definition demo_design :: py where
  "demo_design = PyDict [(''plan_version'', PyStr ''v1''), (''campaign_split_policy'', PyStr ''preassigned_campaign_holdout''),
     (''feature_contract_id'', PyStr ''server_application_message_v2''), (''freeze_reference_before_collection'', PyBool True),
     (''campaign_slots'', PyList demo_slots), (''scenario_ids'', py_strs scenario_names), (''repeats_per_campaign'', PyInt 2),
     (''sessions_per_run'', PyInt 4), (''planned_generator_controls'', PyDict expected_controls),
     (''safety_limits'', PyDict [(''destination'', PyStr ''127.0.0.1:4000''), (''external_traffic_allowed'', PyBool False),
       (''max_messages_per_session'', PyInt 24), (''max_sessions_per_run'', PyInt 4), (''max_concurrency'', PyInt 4),
       (''max_text_bytes'', PyInt 768)])]"

abbreviation no_shuffle :: "int \<Rightarrow> 'a list \<Rightarrow> 'a list" where
  "no_shuffle \<equiv> \<lambda>_ xs. xs"

lemma no_shuffle_permutes: "permutes no_shuffle"
  by (simp add: permutes_def)

lemma demo_design_checked: "check_design demo_design demo_slots (map PyStr scenario_names) = Inr ()"
  by code_simp

lemma demo_controls_checked: "check_controls expected_controls (PyDict expected_controls) = Inr ()"
  by code_simp

lemma demo_slot_ok: "i \<in> {''a'', ''b'', ''c'', ''d'', ''e'', ''f''} \<Longrightarrow> ident_of (demo_slot i n sp) ''slot_id'' = Inr ()"
  by (elim insertE emptyE; simp add: ident_of_def demo_slot_def lookupE_def ident_field_def; code_simp)

text \<open>The seeds of a plan depend on its seed and the scenarios of its repeats only.\<close>

definition slot_seeds :: "int \<Rightarrow> int list" where
  "slot_seeds n = concat (map (\<lambda>r. map (\<lambda>s. be_value (take 8 (demo_digest
     (int_str n @ '':'' @ int_str r @ '':'' @ scenario_name s))) mod 2 ^ 31) all_scenarios) [0, 1])"

lemma digits: "int_str 0 = ''0''" "int_str 1 = ''1''" "int_str 2 = ''2''" "int_str 3 = ''3''" "int_str 4 = ''4''"
    "int_str 5 = ''5''" "int_str 6 = ''6''"
  by code_simp+

lemma slot_seeds_values:
  "slot_seeds 1 = [825257487, 825257498, 825257495, 825254681, 825257242, 825257241, 825256214, 825323023, 825323034, 825323031, 825320217, 825322778, 825322777, 825321750]"
  "slot_seeds 2 = [842034703, 842034714, 842034711, 842031897, 842034458, 842034457, 842033430, 842100239, 842100250, 842100247, 842097433, 842099994, 842099993, 842098966]"
  "slot_seeds 3 = [858811919, 858811930, 858811927, 858809113, 858811674, 858811673, 858810646, 858877455, 858877466, 858877463, 858874649, 858877210, 858877209, 858876182]"
  "slot_seeds 4 = [875589135, 875589146, 875589143, 875586329, 875588890, 875588889, 875587862, 875654671, 875654682, 875654679, 875651865, 875654426, 875654425, 875653398]"
  "slot_seeds 5 = [892366351, 892366362, 892366359, 892363545, 892366106, 892366105, 892365078, 892431887, 892431898, 892431895, 892429081, 892431642, 892431641, 892430614]"
  "slot_seeds 6 = [909143567, 909143578, 909143575, 909140761, 909143322, 909143321, 909142294, 909209103, 909209114, 909209111, 909206297, 909208858, 909208857, 909207830]"
  by (simp_all add: slot_seeds_def all_scenarios_def demo_digest_def be_value_def digits)

lemma slot_seeds_distinct: "distinct (concat (map slot_seeds [1, 2, 3, 4, 5, 6]))"
  by (simp add: slot_seeds_values)

lemma demo_slot_compiles:
  assumes "i \<in> {''a'', ''b'', ''c'', ''d'', ''e'', ''f''}" and "0 \<le> n" "n < 2 ^ 31"
  shows "\<exists>plan. compile_slot no_shuffle (PyDict expected_controls) (map PyStr scenario_names) (k, demo_slot i n sp)
      = Inr (demo_slot i n sp, plan) \<and>
    (\<exists>runs. planned_runs demo_digest plan = Inr runs \<and> map (\<lambda>(r, p, s). s) runs = slot_seeds n)"
proof -
  have names: "map PyStr scenario_names = map (\<lambda>s. PyStr (scenario_name s)) all_scenarios"
    by (simp add: scenario_names_def)
  have seed: "py_item (demo_slot i n sp) ''seed'' = Inr (PyInt n)" by (simp add: demo_slot_def lookupE_def)
  define groups where "groups = map (\<lambda>r. map (\<lambda>(i, s). augmentation_level ((k + r + i) mod 3) s) (enumerate 0 all_scenarios)) [0..<2]"
  obtain plan where plan:
    "compile_slot no_shuffle (PyDict expected_controls) (map PyStr scenario_names) (k, demo_slot i n sp) = Inr (demo_slot i n sp, plan)"
    "make_plan (PyInt n) 2 groups = Inr plan"
    using compile_slot_total [OF no_shuffle_permutes refl demo_slot_ok [OF assms(1)] seed assms(2,3), of k]
    unfolding names groups_def by blast
  have p: "cp_version plan = ''v2''" "cp_repeats plan = 2" "cp_repeat_profiles plan = Some groups" "cp_seed plan = n"
    using make_planD [OF plan(2)] assms(2,3) by (auto split: if_splits)
  have seeds: "map (\<lambda>x. run_seed demo_digest plan r (fst x) (snd x))
      (enumerate 0 (map (\<lambda>p. augmentation_level (f (fst p)) (snd p)) (enumerate 0 all_scenarios)))
    = map (\<lambda>s. be_value (take 8 (demo_digest (int_str n @ '':'' @ int_str r @ '':'' @ scenario_name s))) mod 2 ^ 31) all_scenarios"
    for r f
    by (rule nth_equalityI) (simp_all add: nth_enumerate_eq run_seed_def p encoded_seed_def augmentation_level_def)
  have "planned_runs demo_digest plan = Inr (concat (map (\<lambda>r. map (\<lambda>(i, p). (int r, p, run_seed demo_digest plan (int r) i p))
      (enumerate 0 (groups ! r))) [0..<2]))"
    using planned_runs_eq [of plan demo_digest] p by (simp add: repeat_profiles_of_def)
  moreover have "map (\<lambda>(r, p, s). s) (concat (map (\<lambda>r. map (\<lambda>(i, p). (int r, p, run_seed demo_digest plan (int r) i p))
      (enumerate 0 (groups ! r))) [0..<2])) = slot_seeds n"
    using seeds [where r = 0 and f = "\<lambda>i. (k + i) mod 3"] seeds [where r = 1 and f = "\<lambda>i. Suc (k + i) mod 3"]
    by (simp add: groups_def slot_seeds_def upt_rec comp_def case_prod_unfold)
  ultimately show ?thesis using plan(1) by blast
qed

lemma mapE_ex:
  assumes "\<And>x. x \<in> set xs \<Longrightarrow> \<exists>y. f x = Inr y \<and> Q x y"
  shows "\<exists>ys. mapE f xs = Inr ys \<and> list_all2 Q xs ys"
  using assms
proof (induction xs)
  case (Cons x xs)
  then obtain y ys where "f x = Inr y" "Q x y" "mapE f xs = Inr ys" "list_all2 Q xs ys" by force
  then show ?case by (intro exI [of _ "y # ys"]) simp
qed simp

definition slot_plan_ok :: "nat \<times> py \<Rightarrow> py \<times> campaign_plan \<Rightarrow> bool" where
  "slot_plan_ok x y \<longleftrightarrow> (\<exists>runs. planned_runs demo_digest (snd y) = Inr runs \<and>
     map (\<lambda>(r, p, s). s) runs = slot_seeds (int (fst x) + 1))"

lemma demo_slots_compile:
  assumes "x \<in> set (enumerate 0 demo_slots)"
  shows "\<exists>y. compile_slot no_shuffle (PyDict expected_controls) (map PyStr scenario_names) x = Inr y \<and> slot_plan_ok x y"
proof -
  obtain k i n sp where "x = (k, demo_slot i n sp)" "i \<in> {''a'', ''b'', ''c'', ''d'', ''e'', ''f''}" "n = int k + 1" "n \<le> 6"
    using assms by (auto simp: demo_slots_def)
  with demo_slot_compiles [of i n k sp] show ?thesis by (auto simp: slot_plan_ok_def)
qed

lemma demo_design_compiles: "\<exists>plans. compile_plans no_shuffle demo_digest demo_design = Inr plans"
proof -
  from mapE_ex [of "enumerate 0 demo_slots" _ slot_plan_ok, OF demo_slots_compile] obtain plans where
    plans: "mapE (compile_slot no_shuffle (PyDict expected_controls) (map PyStr scenario_names)) (enumerate 0 demo_slots) = Inr plans"
      "list_all2 slot_plan_ok (enumerate 0 demo_slots) plans" by blast
  have "\<exists>rs. mapE (\<lambda>(slot, plan). planned_runs demo_digest plan) plans = Inr rs \<and>
      map (map (\<lambda>(r, p, s). s)) rs = map (\<lambda>x. slot_seeds (int (fst x) + 1)) (enumerate 0 demo_slots)"
    using plans(2) by (induction rule: list_all2_induct) (auto simp: slot_plan_ok_def case_prod_unfold)
  then obtain rs where rs: "mapE (\<lambda>(slot, plan). planned_runs demo_digest plan) plans = Inr rs"
    "map (map (\<lambda>(r, p, s). s)) rs = map slot_seeds [1, 2, 3, 4, 5, 6]"
    by (auto simp: demo_slots_def)
  have "plan_seeds demo_digest plans = Inr (concat (map slot_seeds [1, 2, 3, 4, 5, 6]))"
    unfolding plan_seeds_def rs(1) rs(2) [symmetric] by (simp add: map_concat)
  note seeds = this
  have items: "py_items demo_design ''campaign_slots'' = Inr demo_slots"
    "py_items demo_design ''scenario_ids'' = Inr (map PyStr scenario_names)"
    "py_item demo_design ''planned_generator_controls'' = Inr (PyDict expected_controls)"
    by (simp_all add: py_items_def demo_design_def lookupE_def)
  have ok: "check (distinct (concat (map slot_seeds [1, 2, 3, 4, 5, 6]))) e = Inr ()" for e
    using slot_seeds_distinct by (simp only: check_Inr_iff)
  show ?thesis
    unfolding compile_plans_def items bindE_simps demo_design_checked demo_controls_checked plans(1) seeds ok by blast
qed

lemma compiled_plans_within_limits_witness:
  "\<exists>plans. compile_plans no_shuffle demo_digest demo_design = Inr plans \<and> length plans = 6 \<and>
    list_all (\<lambda>(slot, plan). plan_augmented plan) plans"
proof -
  obtain plans where p: "compile_plans no_shuffle demo_digest demo_design = Inr plans" using demo_design_compiles by blast
  from compiled_plans_within_limits [OF p no_shuffle_permutes] p show ?thesis by blast
qed

lemma recovery_slot_covers_witness:
  "\<exists>plan. recovery_slot no_shuffle (PyDict recovery_controls) (map (\<lambda>s. PyStr (scenario_name s)) all_scenarios)
      (0, demo_slot ''a'' 7 ''train'') = Inr (demo_slot ''a'' 7 ''train'', plan) \<and> plan_coverage plan = Inr nine_combinations"
proof (rule recovery_slot_covers [OF no_shuffle_permutes refl])
  show "ident_of (demo_slot ''a'' 7 ''train'') ''slot_id'' = Inr ()" by (rule demo_slot_ok) simp
  show "py_item (demo_slot ''a'' 7 ''train'') ''seed'' = Inr (PyInt 7)" by (simp add: demo_slot_def lookupE_def)
qed simp_all

end
