(* ===== verification/Batch.thy ===== *)
theory Batch
  imports Campaign_Design Capture
begin

text \<open>
  What the collection of a batch reads and computes: the frozen reference model, the check of
  locked files, the summaries of quality and of the generator controls, the output locations
  (\<open>data_collection/augmentation.py\<close> and \<open>data_collection/recovery.py\<close>). The record \<open>disk\<close> is what
  the files give at one moment; the text of a path, \<open>with_suffix\<close> and the CSV reader are its
  parameters beside those of the dataset.
\<close>

record 'r disk =
  dk_data :: "'r dataset_env"
  dk_str :: "path \<Rightarrow> string"
  dk_suffix :: "path \<Rightarrow> string \<Rightarrow> path"
  dk_csv :: "path \<Rightarrow> frame res"
  dk_number :: "string \<Rightarrow> pyfloat res"

abbreviation dk_audit :: "'r disk \<Rightarrow> 'r audit_env" where
  "dk_audit d \<equiv> de_audit (dk_data d)"

abbreviation dk_hash :: "'r disk \<Rightarrow> path \<Rightarrow> string res" where
  "dk_hash d \<equiv> au_file_hash (dk_audit d)"

abbreviation dk_path :: "'r disk \<Rightarrow> string \<Rightarrow> path" where
  "dk_path d \<equiv> de_to_path (dk_data d)"

abbreviation dk_resolve :: "'r disk \<Rightarrow> path \<Rightarrow> path" where
  "dk_resolve d \<equiv> au_resolve (dk_audit d)"

abbreviation dk_json :: "'r disk \<Rightarrow> path \<Rightarrow> py res" where
  "dk_json d \<equiv> read_json (dk_audit d)"

definition str_item :: "py \<Rightarrow> string \<Rightarrow> string res" where
  "str_item v k = bindE (py_item v k) py_str"

text \<open>\<open>f"{type(error).__name__}: {error}"\<close>.\<close>

fun exn_text :: "exn \<Rightarrow> string" where
  "exn_text StopIteration = ''StopIteration: ''"
| "exn_text (ValueError t) = ''ValueError: '' @ t"
| "exn_text (TypeError t) = ''TypeError: '' @ t"
| "exn_text (KeyError t) = ''KeyError: '' @ t"
| "exn_text (IndexError t) = ''IndexError: '' @ t"
| "exn_text (RuntimeError t) = ''RuntimeError: '' @ t"
| "exn_text (TimeoutError t) = ''TimeoutError: '' @ t"
| "exn_text (OSError t) = ''OSError: '' @ t"
| "exn_text (FileExistsError t) = ''FileExistsError: '' @ t"
| "exn_text (FileNotFoundError t) = ''FileNotFoundError: '' @ t"
| "exn_text (StructError t) = ''error: '' @ t"
| "exn_text (AttributeError t) = ''AttributeError: '' @ t"
| "exn_text (OverflowError t) = ''OverflowError: '' @ t"
| "exn_text (ZeroDivisionError t) = ''ZeroDivisionError: '' @ t"
| "exn_text (AssertionError t) = ''AssertionError: '' @ t"

section \<open>Locked files\<close>

text \<open>Locked files by the text of their path; the digests come from JSON.\<close>

type_synonym locked = "(string \<times> py) list"

definition verify_hash :: "'r disk \<Rightarrow> string \<times> py \<Rightarrow> unit res" where
  "verify_hash d e =
     (case e of (path, digest) \<Rightarrow>
      if \<not> de_is_file (dk_data d) (dk_path d path) then Inl (ValueError ''locked file changed'')
      else bindE (dk_hash d (dk_path d path)) (\<lambda>h.
        check (py_eq (PyStr h) digest) (ValueError ''locked file changed'')))"

definition verify_hashes :: "'r disk \<Rightarrow> locked \<Rightarrow> unit res" where
  "verify_hashes d hashes = forE (verify_hash d) hashes"

text \<open>The entries of a dict of hashes in JSON.\<close>

definition locked_of :: "py \<Rightarrow> string \<Rightarrow> locked res" where
  "locked_of v k = bindE (py_item v k) (\<lambda>w. case w of PyDict e \<Rightarrow> Inr e | _ \<Rightarrow> Inl (TypeError ''mapping expected''))"

record reference =
  rf_candidate_id :: py
  rf_kind :: py
  rf_threshold :: py
  rf_model_sha256 :: py
  rf_file_sha256 :: locked

fun relative_parts :: "path \<Rightarrow> path \<Rightarrow> string" where
  "relative_parts (Abs p) (Abs r) = concat (map (\<lambda>(i, c). if i = 0 then c else CHR ''/'' # c) (enumerate 0 (drop (length r) p)))"
| "relative_parts p r = []"

definition thresholds_ne :: "py \<Rightarrow> bool res" where
  "thresholds_ne selection =
     bindE (py_item selection ''threshold'') (\<lambda>x.
     bindE (path_items selection [''selected_trial'', ''threshold'']) (\<lambda>y. Inr (\<not> py_eq x y)))"

definition lock_artifact :: "'r disk \<Rightarrow> path \<Rightarrow> py \<Rightarrow> locked \<Rightarrow> path \<Rightarrow> locked res" where
  "lock_artifact d base manifest hashes p =
     bindE (dk_hash d p) (\<lambda>digest.
     bindE (path_items manifest [''artifacts'', relative_parts p base, ''sha256'']) (\<lambda>expected.
     bindE (check (py_eq expected (PyStr digest)) (ValueError ''artifact hash'')) (\<lambda>_.
     Inr (dict_set (dk_str d p) (PyStr digest) hashes))))"

definition freeze_reference :: "'r disk \<Rightarrow> path \<Rightarrow> reference res" where
  "freeze_reference d selection_path0 =
     (let selection_path = dk_resolve d selection_path0; base = path_parent selection_path;
          manifest_path = path_join base (Rel [''experiment_manifest.json'']) in
      bindE (dk_json d selection_path) (\<lambda>selection.
      bindE (dk_json d manifest_path) (\<lambda>manifest.
      bindE (rejectE (ValueError ''reference model'')
        [item_ne manifest ''status'' (PyStr ''complete''), item_ne selection ''status'' (PyStr ''selected''),
         item_ne selection ''feature_contract_id'' (PyStr ''server_application_message_v2''), thresholds_ne selection,
         item_is_not selection ''test_evaluated'' False]) (\<lambda>_.
      bindE (mapE (\<lambda>k. bindE (str_item selection k) (\<lambda>s. inside_path (dk_audit d) base (path_of s)))
        [''model_path'', ''feature_schema_path'', ''label_map_path'']) (\<lambda>paths.
      bindE (foldE (lock_artifact d base manifest) [] (selection_path # paths)) (\<lambda>hashes.
      bindE (bindE (str_item selection ''model_path'') (\<lambda>s. inside_path (dk_audit d) base (path_of s))) (\<lambda>model_path.
      bindE (dk_hash d model_path) (\<lambda>h.
      bindE (bindE (py_item selection ''model_sha256'') (\<lambda>m. check (py_eq (PyStr h) m) (ValueError ''model hash''))) (\<lambda>_.
      bindE (dk_hash d manifest_path) (\<lambda>mh.
      bindE (path_items selection [''selected_trial'', ''candidate_id'']) (\<lambda>candidate.
      bindE (path_items selection [''selected_trial'', ''kind'']) (\<lambda>kind.
      bindE (py_item selection ''threshold'') (\<lambda>threshold.
      bindE (py_item selection ''model_sha256'') (\<lambda>model_hash.
      Inr \<lparr>rf_candidate_id = candidate, rf_kind = kind, rf_threshold = threshold, rf_model_sha256 = model_hash,
        rf_file_sha256 = dict_set (dk_str d manifest_path) (PyStr mh) hashes\<rparr>))))))))))))))"

section \<open>Quality of a batch\<close>

record quality_summary =
  qs_passed :: bool
  qs_runs :: int
  qs_passed_runs :: int
  qs_eligible_runs :: int
  qs_totals :: "(string \<times> int) list"
  qs_labels :: label_counts
  qs_results :: "(string \<times> bool \<times> (string \<times> int) list \<times> path) list"

definition same_campaigns :: "py \<Rightarrow> campaign_report list \<Rightarrow> bool res" where
  "same_campaigns registry reports =
     bindE (py_items registry ''campaigns'') (\<lambda>entries.
     bindE (mapE (\<lambda>e. py_item e ''campaign_id'') entries) (\<lambda>ids.
     bindE (py_set ids) (\<lambda>_.
     let found = map (PyStr \<circ> rp_campaign_id) reports in
     Inr (list_all (\<lambda>x. list_ex (py_eq x) ids) found \<and> list_all (\<lambda>x. list_ex (py_eq x) found) ids))))"

definition sum_reports :: "(campaign_report \<Rightarrow> int res) \<Rightarrow> campaign_report list \<Rightarrow> int res" where
  "sum_reports f reports = bindE (mapE f reports) (\<lambda>ns. Inr (sum_list ns))"

definition label_total :: "string \<Rightarrow> string \<Rightarrow> campaign_report \<Rightarrow> int res" where
  "label_total unit label r = bindE (lookupE (rp_labels r) unit) (\<lambda>c. lookupE c label)"

text \<open>The reports with the directories of their campaigns.\<close>

definition summarize_quality :: "py \<Rightarrow> (path \<times> campaign_report) list \<Rightarrow> quality_summary res" where
  "summarize_quality registry located =
     (let reports = map snd located in
      bindE (rejectE (ValueError ''all six reports'') [Inr (length reports \<noteq> 6),
        bindE (same_campaigns registry reports) (\<lambda>b. Inr (\<not> b))]) (\<lambda>_.
      bindE (mapE (\<lambda>(n, _). bindE (sum_reports (\<lambda>r. lookupE (rp_totals r) n) reports) (\<lambda>t. Inr (n, t)))
        (rp_totals (hd reports))) (\<lambda>totals.
      bindE (mapE (\<lambda>(unit, _). bindE (mapE (\<lambda>label. bindE (sum_reports (label_total unit label) reports) (\<lambda>t. Inr (label, t)))
          [''0'', ''1'']) (\<lambda>c. Inr (unit, c))) (rp_labels (hd reports))) (\<lambda>labels.
      Inr \<lparr>qs_passed = list_all rp_passed reports, qs_runs = sum_list (map rp_run_count reports),
        qs_passed_runs = sum_list (map rp_passed_runs reports), qs_eligible_runs = sum_list (map rp_eligible_runs reports),
        qs_totals = totals, qs_labels = labels,
        qs_results = map (\<lambda>(p, r). (rp_campaign_id r, rp_passed r, rp_totals r,
          path_join p (Rel [''quality_report.json'']))) located\<rparr>))))"

section \<open>Controls of a batch\<close>

record coverage =
  cv_concurrency :: "int list"
  cv_batch :: "int option list"
  cv_fragment :: "int list"
  cv_wait :: "(int \<times> int) list"

definition add_to :: "'a \<Rightarrow> 'a list \<Rightarrow> 'a list" where
  "add_to x xs = (if x \<in> set xs then xs else xs @ [x])"

definition cover_profile :: "string \<Rightarrow> (string, coverage) dict \<Rightarrow> traffic_profile \<Rightarrow> (string, coverage) dict" where
  "cover_profile split d p =
     (let key = split @ '':'' @ scenario_name (tp_scenario p);
          c = (case dict_get d key of Some c \<Rightarrow> c
               | None \<Rightarrow> \<lparr>cv_concurrency = [], cv_batch = [], cv_fragment = [], cv_wait = []\<rparr>) in
      dict_set key
        \<lparr>cv_concurrency = add_to (tp_concurrency p) (cv_concurrency c), cv_batch = add_to (tp_batch_size p) (cv_batch c),
         cv_fragment = (case tp_fragment_size_bytes p of None \<Rightarrow> cv_fragment c | Some n \<Rightarrow> add_to n (cv_fragment c)),
         cv_wait = add_to (tp_interval_min_ms p, tp_interval_max_ms p) (cv_wait c)\<rparr> d)"

definition cover_entry :: "(string \<Rightarrow> wire) \<Rightarrow> (string, coverage) dict \<Rightarrow> py \<Rightarrow> (string, coverage) dict res" where
  "cover_entry digest d entry =
     bindE (bindE (py_item entry ''plan_snapshot'') parse_plan) (\<lambda>plan.
     bindE (planned_runs digest plan) (\<lambda>runs.
     bindE (str_item entry ''split'') (\<lambda>split.
     Inr (foldl (cover_profile split) d (map (\<lambda>(r, p, s). p) runs)))))"

text \<open>\<open>sorted\<close> of the batch sizes: a missing size among others does not compare.\<close>

definition sorted_coverage :: "coverage \<Rightarrow> coverage res" where
  "sorted_coverage c =
     bindE (check (1 < length (cv_batch c) \<longrightarrow> None \<notin> set (cv_batch c)) (TypeError ''order'')) (\<lambda>_.
     Inr \<lparr>cv_concurrency = sort (cv_concurrency c),
       cv_batch = (if 1 < length (cv_batch c) then sort_key the (cv_batch c) else cv_batch c),
       cv_fragment = sort (cv_fragment c), cv_wait = sort (cv_wait c)\<rparr>)"

definition planned_coverage :: "(string \<Rightarrow> wire) \<Rightarrow> py \<Rightarrow> (string, coverage) dict res" where
  "planned_coverage digest registry =
     bindE (py_items registry ''campaigns'') (\<lambda>entries.
     bindE (foldE (cover_entry digest) [] entries) (\<lambda>d.
     mapE (\<lambda>(k, c). bindE (sorted_coverage c) (\<lambda>s. Inr (k, s))) d))"

record extent =
  xt_count :: nat
  xt_minimum :: "py option"
  xt_maximum :: "py option"

definition extreme :: "(py \<Rightarrow> py \<Rightarrow> bool res) \<Rightarrow> py list \<Rightarrow> py option res" where
  "extreme better vs = (case vs of [] \<Rightarrow> Inr None
     | v # rest \<Rightarrow> bindE (foldE (\<lambda>best x. bindE (better best x) (\<lambda>b. Inr (if b then x else best))) v rest) (\<lambda>x. Inr (Some x)))"

definition extent_of :: "py list \<Rightarrow> extent res" where
  "extent_of vs =
     bindE (extreme py_gt vs) (\<lambda>mn.
     bindE (extreme (\<lambda>best x. py_gt x best) vs) (\<lambda>mx.
     Inr \<lparr>xt_count = length vs, xt_minimum = mn, xt_maximum = mx\<rparr>))"

definition range_names :: "string list" where
  "range_names = [''packet_size'', ''connection_duration_ms'', ''message_interval_ms'']"

text \<open>A row of a table read with \<open>csv.DictReader\<close>.\<close>

definition dict_row :: "frame \<Rightarrow> string list \<Rightarrow> string \<Rightarrow> string res" where
  "dict_row f row k = lookupE (zip (fr_columns f) row) k"

definition add_row ::
    "'r disk \<Rightarrow> frame \<Rightarrow> frame \<Rightarrow> (string, (string \<times> py list) list) dict \<Rightarrow> string list \<times> string list
      \<Rightarrow> (string, (string \<times> py list) list) dict res" where
  "add_row d rows metadata acc p =
     (case p of (row, meta) \<Rightarrow>
      bindE (dict_row metadata meta ''scenario_id'') (\<lambda>s.
      let fields = (case dict_get acc s of Some f \<Rightarrow> f | None \<Rightarrow> map (\<lambda>n. (n, [])) range_names) in
      bindE (mapE (\<lambda>(n, vs). bindE (bindE (dict_row rows row n) (dk_number d)) (\<lambda>x. Inr (n, vs @ [PyFloat x]))) fields) (\<lambda>f.
      Inr (dict_set s f acc))))"

definition session_waits :: "py \<Rightarrow> (py list \<times> py list \<times> py list) res" where
  "session_waits session =
     bindE (py_items session ''send_groups'') (\<lambda>groups.
     bindE (mapE (\<lambda>g. py_item g ''start_interval_ms'') (tl groups)) (\<lambda>is.
     bindE (mapE (\<lambda>g. py_item g ''send_duration_ms'') groups) (\<lambda>ds.
     bindE (mapE (\<lambda>g. py_item g ''wait_after_ms'') (butlast groups)) (\<lambda>ws.
     Inr (is, ds, ws)))))"

definition campaign_waits :: "'r disk \<Rightarrow> py \<Rightarrow> (py list \<times> py list \<times> py list) list res" where
  "campaign_waits d entry =
     bindE (str_item entry ''campaign_dir'') (\<lambda>s.
     let base = dk_path d s in
     bindE (bindE (dk_json d (path_join base (Rel [''campaign_manifest.json'']))) (\<lambda>m. py_items m ''runs'')) (\<lambda>runs.
     bindE (mapE (\<lambda>run. bindE (str_item run ''run_id'') (\<lambda>rid.
        bindE (bindE (dk_json d (path_join base (Rel [''outcomes'', rid @ ''_traffic.json'']))) (\<lambda>doc. py_items doc ''sessions''))
          (mapE session_waits))) runs) (\<lambda>xss. Inr (concat xss))))"

record observed_ranges =
  og_by_scenario :: "(string, (string \<times> extent) list) dict"
  og_start_interval :: extent
  og_send_duration :: extent
  og_planned_wait :: extent

definition entries_of_split :: "py \<Rightarrow> string \<Rightarrow> py list res" where
  "entries_of_split registry split =
     bindE (py_items registry ''campaigns'') (\<lambda>entries.
     bindE (mapE (\<lambda>e. bindE (py_item e ''split'') (\<lambda>s. Inr (e, s))) entries) (\<lambda>es.
     Inr (map fst (filter (\<lambda>(e, s). py_eq s (PyStr split)) es))))"

definition observed_split :: "'r disk \<Rightarrow> py \<Rightarrow> path \<Rightarrow> string \<Rightarrow> observed_ranges res" where
  "observed_split d registry out split =
     bindE (dk_csv d (path_join out (Rel [''X_'' @ split @ ''.csv'']))) (\<lambda>rows.
     bindE (dk_csv d (path_join out (Rel [''metadata_'' @ split @ ''.csv'']))) (\<lambda>metadata.
     bindE (foldE (add_row d rows metadata) [] (zip (fr_rows rows) (fr_rows metadata))) (\<lambda>by_scenario.
     bindE (entries_of_split registry split) (\<lambda>entries.
     bindE (bindE (mapE (campaign_waits d) entries) (\<lambda>xss. Inr (concat xss))) (\<lambda>ws.
     bindE (mapE (\<lambda>(s, fields). bindE (mapE (\<lambda>(n, vs). bindE (extent_of vs) (\<lambda>x. Inr (n, x))) fields) (\<lambda>f. Inr (s, f)))
        by_scenario) (\<lambda>messages.
     bindE (extent_of (concat (map fst ws))) (\<lambda>intervals.
     bindE (extent_of (concat (map (fst \<circ> snd) ws))) (\<lambda>durations.
     bindE (extent_of (concat (map (snd \<circ> snd) ws))) (\<lambda>waits.
     Inr \<lparr>og_by_scenario = messages, og_start_interval = intervals, og_send_duration = durations,
       og_planned_wait = waits\<rparr>)))))))))"

record controls_summary =
  cu_planned :: "(string, coverage) dict"
  cu_observed :: "(string, observed_ranges) dict"

text \<open>The test files are not read here.\<close>

definition summarize_controls :: "'r disk \<Rightarrow> py \<Rightarrow> path \<Rightarrow> controls_summary res" where
  "summarize_controls d registry out =
     bindE (planned_coverage (de_digest (dk_data d)) registry) (\<lambda>planned.
     bindE (mapE (\<lambda>split. bindE (observed_split d registry out split) (\<lambda>x. Inr (split, x))) [''train'', ''validation'']) (\<lambda>observed.
     Inr \<lparr>cu_planned = planned, cu_observed = observed\<rparr>))"

section \<open>Output locations\<close>

definition report_files :: "'r disk \<Rightarrow> path list \<Rightarrow> path list" where
  "report_files d ps = concat (map (\<lambda>p. map (dk_suffix d p) [''.json'', ''.md'']) ps)"

definition require_new_outputs :: "'r disk \<Rightarrow> path \<Rightarrow> path \<Rightarrow> path \<Rightarrow> unit res" where
  "require_new_outputs d out report_prefix dataset_prefix =
     (let files = map (dk_resolve d) (report_files d [report_prefix, dataset_prefix]) in
      bindE (check (length (remdups files) = 4) (ValueError ''different report paths'')) (\<lambda>_.
      bindE (check (\<not> (de_exists (dk_data d) out \<or> list_ex (de_exists (dk_data d)) files)) (FileExistsError ''outputs'')) (\<lambda>_.
      check (\<not> list_ex (\<lambda>p. is_relative_to p (dk_resolve d out)) files) (ValueError ''reports inside the dataset''))))"

section \<open>The recovery reference\<close>

definition hash_ne :: "'r disk \<Rightarrow> py \<Rightarrow> string list \<Rightarrow> path \<Rightarrow> bool res" where
  "hash_ne d v ks p = bindE (path_items v ks) (\<lambda>x. bindE (dk_hash d p) (\<lambda>h. Inr (\<not> py_eq x (PyStr h))))"

definition descriptor_files :: "'r disk \<Rightarrow> py \<Rightarrow> locked res" where
  "descriptor_files d descriptor =
     bindE (py_item descriptor ''files'') (\<lambda>files.
     case files of
       PyDict items \<Rightarrow> mapE (\<lambda>(_, item). bindE (str_item item ''path'') (\<lambda>s. bindE (py_item item ''sha256'') (\<lambda>h.
         Inr (dk_str d (dk_resolve d (dk_path d s)), h)))) items
     | _ \<Rightarrow> Inl (AttributeError ''values''))"

definition freeze_recovery_reference :: "'r disk \<Rightarrow> path \<Rightarrow> path \<Rightarrow> path \<Rightarrow> reference res" where
  "freeze_recovery_reference d final_report diagnosis_report design_path =
     bindE (dk_json d final_report) (\<lambda>final.
     bindE (dk_json d diagnosis_report) (\<lambda>diagnosis.
     bindE (rejectE (ValueError ''diagnosis and approval'')
       [item_ne final ''status'' (PyStr ''complete''), item_ne final ''selected_model_id'' (PyStr ''selected_rf''),
        path_ne final [''approval'', ''status''] (PyStr ''withheld_after_test''),
        item_ne diagnosis ''status'' (PyStr ''complete''), item_ne diagnosis ''candidate_id'' (PyStr ''rf_leaf_5''),
        item_ne diagnosis ''threshold'' (py_decimal (3 / 10)), hash_ne d diagnosis [''recovery_plan_sha256''] design_path,
        hash_ne d diagnosis [''previous_test_evidence'', ''sha256''] final_report]) (\<lambda>_.
     bindE (path_items final [''models'', ''selected_rf'']) (\<lambda>descriptor.
     bindE (rejectE (ValueError ''reference policy'')
       [item_ne descriptor ''candidate_id'' (PyStr ''rf_leaf_5''), item_ne descriptor ''threshold'' (py_decimal (3 / 10))]) (\<lambda>_.
     bindE (locked_of diagnosis ''protected_sha256'') (\<lambda>protected.
     bindE (descriptor_files d descriptor) (\<lambda>files.
     bindE (dk_hash d final_report) (\<lambda>fh.
     bindE (dk_hash d diagnosis_report) (\<lambda>dh.
     let hashes = dict_update (dict_update protected files)
           [(dk_str d (dk_resolve d final_report), PyStr fh), (dk_str d (dk_resolve d diagnosis_report), PyStr dh)] in
     bindE (verify_hashes d hashes) (\<lambda>_.
     bindE (path_items descriptor [''files'', ''model'', ''sha256'']) (\<lambda>model_hash.
     Inr \<lparr>rf_candidate_id = PyStr ''rf_leaf_5'', rf_kind = PyStr ''random_forest'', rf_threshold = py_decimal (3 / 10),
       rf_model_sha256 = model_hash, rf_file_sha256 = hashes\<rparr>)))))))))))"

section \<open>Counts against the plan\<close>

definition total_of :: "quality_summary \<Rightarrow> string \<Rightarrow> int res" where
  "total_of q n = lookupE (qs_totals q) n"

definition total_ne :: "quality_summary \<Rightarrow> string \<Rightarrow> py \<Rightarrow> string \<Rightarrow> bool res" where
  "total_ne q n planned k = bindE (total_of q n) (\<lambda>t. bindE (py_item planned k) (\<lambda>v. Inr (\<not> py_eq (PyInt t) v)))"

definition count_ne :: "int \<Rightarrow> py \<Rightarrow> string \<Rightarrow> bool res" where
  "count_ne n planned k = bindE (py_item planned k) (\<lambda>v. Inr (\<not> py_eq (PyInt n) v))"

definition split_count :: "dataset_report \<Rightarrow> string \<Rightarrow> split_counts res" where
  "split_count dataset name =
     (case List.find (\<lambda>(s, c). split_name s = name) (dp_splits dataset) of
        None \<Rightarrow> Inl (KeyError name) | Some (s, c) \<Rightarrow> Inr c)"

definition check_split_count :: "dataset_report \<Rightarrow> string \<times> py \<Rightarrow> unit res" where
  "check_split_count dataset e =
     (case e of (name, expected) \<Rightarrow>
      bindE (split_count dataset name) (\<lambda>actual.
      rejectE (ValueError ''messages or campaigns of a split'')
        [count_ne (int (sn_rows actual)) expected ''expected_message_rows'',
         count_ne (int (sn_campaigns actual)) expected ''campaigns'']))"

definition verify_collected_counts :: "py \<Rightarrow> quality_summary \<Rightarrow> dataset_report \<Rightarrow> unit res" where
  "verify_collected_counts registry quality dataset =
     bindE (py_item registry ''planned_summary'') (\<lambda>planned.
     bindE (rejectE (ValueError ''runs, sessions or summaries'')
       [Inr (\<not> qs_passed quality), count_ne (qs_runs quality) planned ''planned_runs'',
        count_ne (qs_passed_runs quality) planned ''planned_runs'', total_ne quality ''sessions'' planned ''planned_sessions'',
        total_ne quality ''summaries'' planned ''planned_sessions'']) (\<lambda>_.
     bindE (locked_of planned ''splits'') (\<lambda>splits.
     bindE (forE (check_split_count dataset) splits) (\<lambda>_.
     bindE (total_of quality ''messages'') (\<lambda>n.
     check (n = sum_list (map (int \<circ> sn_rows \<circ> snd) (dp_splits dataset))) (ValueError ''messages''))))))"

end
