(* ===== verification/Batch_Collect.thy ===== *)
theory Batch_Collect
  imports Batch
begin

text \<open>
  \<open>collect_batch\<close> and \<open>collect_recovery_batch\<close>: the campaigns of a prepared batch are run and
  audited one after the other under locked inputs, the dataset is built when all of them passed,
  and the runtime file is written in every case. The world of the batch is the world of the
  captures with the documents written by the batch; \<open>bn_disk\<close> is what its files give, writes can
  fail as \<open>bn_write_error\<close> says.
\<close>

section \<open>State\<close>

record runtime =
  rt_batch_id :: py
  rt_started_at :: string
  rt_status :: string
  rt_executed :: "(py \<times> bool \<times> bool) list"
  rt_error :: "exn option"
  rt_finished_at :: "string option"

record batch_report =
  bo_batch_id :: py
  bo_batch_path :: path
  bo_generated_at :: string
  bo_assignment :: py
  bo_assignment_sha256 :: string
  bo_quality :: quality_summary
  bo_dataset_output :: path
  bo_dataset_manifest_sha256 :: string
  bo_dataset :: dataset_report
  bo_coverage :: "(string, py \<times> py \<times> (int option \<times> int \<times> int) list) dict option"
  bo_controls :: controls_summary

record completion =
  co_locked_inputs :: locked
  co_sources :: "(path, string) dict"
  co_outputs :: locked
  co_completed_at :: string

datatype batch_doc =
    JsonDoc py
  | RuntimeDoc runtime
  | QualityDoc campaign_report
  | DatasetDoc dataset_report
  | DatasetConfigDoc dataset_config
  | ReportDoc batch_report
  | CompletionDoc completion
  | MarkdownDoc

record batch_world =
  bw_world :: world
  bw_docs :: "path \<Rightarrow> batch_doc option"
  bw_datasets :: "(path \<times> dataset_file list) list"

record ('c, 'r) batch_env =
  bn_net :: "'c net"
  bn_captures :: "path \<Rightarrow> string \<Rightarrow> 'c capture_env"
  bn_disk :: "batch_world \<Rightarrow> 'r disk"
  bn_write_error :: "path \<Rightarrow> batch_world \<Rightarrow> exn option"
  bn_ports_free :: "batch_world \<Rightarrow> bool"
  bn_now :: "batch_world \<Rightarrow> string"

text \<open>The local variables of a collection.\<close>

record batch_run =
  bt_world :: batch_world
  bt_runtime :: runtime
  bt_reports :: "(path \<times> campaign_report) list"

section \<open>Statements\<close>

definition write_file :: "('c, 'r) batch_env \<Rightarrow> path \<Rightarrow> batch_doc \<Rightarrow> (batch_world, unit) act" where
  "write_file env p doc w =
     (case bn_write_error env p w of Some e \<Rightarrow> (Inl e, w)
      | None \<Rightarrow> (Inr (), w\<lparr>bw_docs := (bw_docs w)(p \<mapsto> doc)\<rparr>))"

text \<open>Reading the files as they are now.\<close>

definition look :: "('c, 'r) batch_env \<Rightarrow> ('r disk \<Rightarrow> 'a res) \<Rightarrow> (batch_world, 'a) act" where
  "look env f w = (f (bn_disk env w), w)"

definition on_world :: "(world, 'a) act \<Rightarrow> (batch_world, 'a) act" where
  "on_world m w = (let (r, v) = m (bw_world w) in (r, w\<lparr>bw_world := v\<rparr>))"

definition on_batch :: "(batch_world, 'a) act \<Rightarrow> (batch_run, 'a) act" where
  "on_batch m s = (let (r, w) = m (bt_world s) in (r, s\<lparr>bt_world := w\<rparr>))"

definition runtime_path :: "path \<Rightarrow> path" where
  "runtime_path base = path_join base (Rel [''batch_runtime.json''])"

definition save_runtime :: "('c, 'r) batch_env \<Rightarrow> path \<Rightarrow> (batch_run, unit) act" where
  "save_runtime env base s = on_batch (write_file env (runtime_path base) (RuntimeDoc (bt_runtime s))) s"

text \<open>A report is a JSON file and a Markdown file.\<close>

definition save_pair :: "('c, 'r) batch_env \<Rightarrow> path \<Rightarrow> batch_doc \<Rightarrow> (batch_world, unit) act" where
  "save_pair env p doc =
     bindS (look env (\<lambda>d. Inr (dk_suffix d p ''.json'', dk_suffix d p ''.md''))) (\<lambda>(j, m).
     bindS (write_file env j doc) (\<lambda>_. write_file env m MarkdownDoc))"

definition check_locked :: "('c, 'r) batch_env \<Rightarrow> locked \<Rightarrow> (batch_run, unit) act" where
  "check_locked env fixed = on_batch (look env (\<lambda>d. verify_hashes d fixed))"

definition ports_free :: "('c, 'r) batch_env \<Rightarrow> (batch_run, unit) act" where
  "ports_free env s = (check (bn_ports_free env (bt_world s)) (RuntimeError ''port in use''), s)"

section \<open>One campaign\<close>

definition entry_path :: "'r disk \<Rightarrow> py \<Rightarrow> path res" where
  "entry_path d entry = bindE (str_item entry ''campaign_dir'') (\<lambda>s. Inr (dk_path d s))"

definition audit_at :: "'r disk \<Rightarrow> path \<Rightarrow> campaign_report res" where
  "audit_at d dir = audit_campaign (dk_audit d) (de_digest (dk_data d)) (de_run_dirs (dk_data d) dir) dir"

definition add_executed :: "py \<Rightarrow> bool \<Rightarrow> bool \<Rightarrow> batch_run \<Rightarrow> batch_run" where
  "add_executed cid executed passed s =
     s\<lparr>bt_runtime := (bt_runtime s)\<lparr>rt_executed := rt_executed (bt_runtime s) @ [(cid, executed, passed)]\<rparr>\<rparr>"

definition add_report :: "path \<Rightarrow> campaign_report \<Rightarrow> batch_run \<Rightarrow> batch_run" where
  "add_report dir r s = s\<lparr>bt_reports := bt_reports s @ [(dir, r)]\<rparr>"

definition collect_campaign :: "('c, 'r) batch_env \<Rightarrow> path \<Rightarrow> locked \<Rightarrow> py \<Rightarrow> (batch_run, unit) act" where
  "collect_campaign env base fixed entry =
     bindS (check_locked env fixed) (\<lambda>_.
     bindS (on_batch (look env (\<lambda>d. entry_path d entry))) (\<lambda>dir.
     bindS (liftS (forE (\<lambda>k. bindE (py_item entry k) (\<lambda>_. Inr ())) [''slot_id'', ''split'', ''seed''])) (\<lambda>_.
     bindS (on_batch (on_world (run_campaign (bn_net env) (bn_captures env dir) dir))) (\<lambda>executed.
     bindS (on_batch (look env (\<lambda>d. audit_at d dir))) (\<lambda>checked.
     bindS (on_batch (save_pair env (path_join dir (Rel [''quality_report''])) (QualityDoc checked))) (\<lambda>_.
     bindS (modifyS (add_report dir checked)) (\<lambda>_.
     bindS (liftS (py_item entry ''campaign_id'')) (\<lambda>cid.
     bindS (modifyS (add_executed cid (cs_passed executed) (rp_passed checked))) (\<lambda>_.
     bindS (save_runtime env base) (\<lambda>_.
     liftS (check (cs_passed executed \<and> rp_passed checked) (RuntimeError ''campaign failed''))))))))))))"

section \<open>The dataset\<close>

definition batch_dataset_config :: "'r disk \<Rightarrow> py \<Rightarrow> path \<Rightarrow> path \<Rightarrow> dataset_config res" where
  "batch_dataset_config d registry registry_path out =
     bindE (py_item registry ''target_dataset_id'') (\<lambda>target.
     bindE (bindE (py_items registry ''campaigns'') (mapE (entry_path d))) (\<lambda>dirs.
     bindE (dataset_id_field target) (\<lambda>did.
     bindE (check (dirs \<noteq> []) (ValueError ''min_length'')) (\<lambda>_.
     let c = \<lparr>dc_version = ''v2'', dc_dataset_id = did, dc_campaign_dirs = dirs, dc_output_dir = out, dc_policy = Preassigned,
              dc_registry = Some registry_path, dc_validation_blocks = 1, dc_test_blocks = 1, dc_all_scenarios = True,
              dc_duplicate_error = False\<rparr> in
     bindE (validate_policy c) (\<lambda>_. Inr c)))))"

definition add_dataset :: "path \<Rightarrow> dataset_file list \<Rightarrow> batch_world \<Rightarrow> batch_world" where
  "add_dataset out files w = w\<lparr>bw_datasets := bw_datasets w @ [(out, files)]\<rparr>"

text \<open>The files of a dataset and the hashes taken as they are written; the manifest comes last.\<close>

fun dataset_file_name :: "dataset_file \<Rightarrow> string" where
  "dataset_file_name (FeatureCsv s _) = ''X_'' @ split_name s @ ''.csv''"
| "dataset_file_name (LabelCsv s _) = ''y_'' @ split_name s @ ''.csv''"
| "dataset_file_name (MetadataCsv s _) = ''metadata_'' @ split_name s @ ''.csv''"
| "dataset_file_name (SchemaJson _) = ''feature_schema.json''"
| "dataset_file_name LabelMapJson = ''label_map.json''"
| "dataset_file_name (SplitManifestJson _ _ _ _) = ''split_manifest.json''"
| "dataset_file_name (DatasetManifestJson _) = ''dataset_manifest.json''"

definition written_hashes :: "'r disk \<Rightarrow> path \<Rightarrow> dataset_file list \<Rightarrow> (path \<times> string) list res" where
  "written_hashes d out files =
     mapE (\<lambda>f. let p = path_join out (Rel [dataset_file_name f]) in bindE (dk_hash d p) (\<lambda>h. Inr (p, h))) (butlast files)"

text \<open>
  The part after the campaigns: \<open>counts\<close> is the further check of the recovery batch. Building
  writes the files of the dataset.
\<close>

definition collect_dataset ::
    "('c, 'r) batch_env \<Rightarrow> path \<Rightarrow> py \<Rightarrow> path \<Rightarrow> locked \<Rightarrow> (quality_summary \<Rightarrow> dataset_report \<Rightarrow> unit res)
      \<Rightarrow> path \<Rightarrow> path \<Rightarrow> (batch_run, quality_summary \<times> dataset_report \<times> (path \<times> string) list) act" where
  "collect_dataset env base registry registry_path fixed counts out dataset_prefix =
     bindS (check_locked env fixed) (\<lambda>_.
     bindS (\<lambda>s. liftS (summarize_quality registry (bt_reports s)) s) (\<lambda>quality.
     bindS (on_batch (look env (\<lambda>d. batch_dataset_config d registry registry_path out))) (\<lambda>config.
     bindS (on_batch (write_file env (path_join base (Rel [''dataset_config.json''])) (DatasetConfigDoc config))) (\<lambda>_.
     bindS (on_batch (look env (\<lambda>d. build_dataset (dk_data d) config))) (\<lambda>(files, dataset).
     bindS (on_batch (modifyS (add_dataset out files))) (\<lambda>_.
     bindS (on_batch (look env (\<lambda>d. written_hashes d out files))) (\<lambda>hashes.
     bindS (liftS (counts quality dataset)) (\<lambda>_.
     bindS (check_locked env fixed) (\<lambda>_.
     bindS (on_batch (save_pair env dataset_prefix (DatasetDoc dataset))) (\<lambda>_.
     retS (quality, dataset, hashes)))))))))))"

definition make_batch_report ::
    "('c, 'r) batch_env \<Rightarrow> path \<Rightarrow> py \<Rightarrow> path \<Rightarrow> path \<Rightarrow> quality_summary \<Rightarrow> dataset_report
      \<Rightarrow> (string, py \<times> py \<times> (int option \<times> int \<times> int) list) dict option \<Rightarrow> (batch_world, batch_report) act" where
  "make_batch_report env base registry registry_path out quality dataset coverage w =
     (bindE (py_item registry ''batch_id'') (\<lambda>bid.
      bindE (dk_hash (bn_disk env w) registry_path) (\<lambda>ah.
      bindE (dk_hash (bn_disk env w) (path_join out (Rel [''dataset_manifest.json'']))) (\<lambda>dh.
      bindE (summarize_controls (bn_disk env w) registry out) (\<lambda>controls.
      Inr \<lparr>bo_batch_id = bid, bo_batch_path = base, bo_generated_at = bn_now env w, bo_assignment = registry,
        bo_assignment_sha256 = ah, bo_quality = quality, bo_dataset_output = out, bo_dataset_manifest_sha256 = dh,
        bo_dataset = dataset, bo_coverage = coverage, bo_controls = controls\<rparr>)))), w)"

definition mark_complete :: "batch_run \<Rightarrow> batch_run" where
  "mark_complete s = s\<lparr>bt_runtime := (bt_runtime s)\<lparr>rt_status := ''complete''\<rparr>\<rparr>"

section \<open>The frame of a collection\<close>

text \<open>\<open>except\<close> and \<open>finally\<close>: the outcome is recorded, then the runtime file is written.\<close>

definition record_failure :: "exn \<Rightarrow> batch_run \<Rightarrow> batch_run" where
  "record_failure e s = s\<lparr>bt_runtime := (bt_runtime s)\<lparr>rt_status := ''failed'', rt_error := Some e\<rparr>\<rparr>"

definition finish :: "('c, 'r) batch_env \<Rightarrow> batch_run \<Rightarrow> batch_run" where
  "finish env s = s\<lparr>bt_runtime := (bt_runtime s)\<lparr>rt_finished_at := Some (bn_now env (bt_world s))\<rparr>\<rparr>"

definition guarded :: "('c, 'r) batch_env \<Rightarrow> path \<Rightarrow> (batch_run, 'a) act \<Rightarrow> (batch_run, 'a) act" where
  "guarded env base body s =
     (case body s of (r, t) \<Rightarrow>
      let t1 = (case r of Inl e \<Rightarrow> record_failure e t | Inr _ \<Rightarrow> t) in
      (case save_runtime env base (finish env t1) of
         (Inl e, u) \<Rightarrow> (Inl e, u)
       | (Inr _, u) \<Rightarrow> (r, u)))"

definition started :: "('c, 'r) batch_env \<Rightarrow> py \<Rightarrow> batch_world \<Rightarrow> batch_run" where
  "started env bid w =
     \<lparr>bt_world = w, bt_runtime = \<lparr>rt_batch_id = bid, rt_started_at = bn_now env w, rt_status = ''running'',
        rt_executed = [], rt_error = None, rt_finished_at = None\<rparr>, bt_reports = []\<rparr>"

definition run_guarded :: "('c, 'r) batch_env \<Rightarrow> path \<Rightarrow> py \<Rightarrow> (batch_run, 'a) act \<Rightarrow> (batch_world, 'a) act" where
  "run_guarded env base bid body w = (case guarded env base body (started env bid w) of (r, s) \<Rightarrow> (r, bt_world s))"

section \<open>The augmentation batch\<close>

definition collect_body ::
    "('c, 'r) batch_env \<Rightarrow> path \<Rightarrow> py \<Rightarrow> path \<Rightarrow> locked \<Rightarrow> path \<Rightarrow> path \<Rightarrow> path \<Rightarrow> (batch_run, batch_report) act" where
  "collect_body env base registry registry_path fixed out report_prefix dataset_prefix =
     bindS (check_locked env fixed) (\<lambda>_.
     bindS (ports_free env) (\<lambda>_.
     bindS (liftS (py_items registry ''campaigns'')) (\<lambda>entries.
     bindS (forS (collect_campaign env base fixed) entries) (\<lambda>_.
     bindS (collect_dataset env base registry registry_path fixed (\<lambda>_ _. Inr ()) out dataset_prefix) (\<lambda>(quality, dataset, hashes).
     bindS (on_batch (make_batch_report env base registry registry_path out quality dataset None)) (\<lambda>report.
     bindS (on_batch (save_pair env report_prefix (ReportDoc report))) (\<lambda>_.
     bindS (modifyS mark_complete) (\<lambda>_.
     retS report))))))))"

definition batch_inputs :: "'r disk \<Rightarrow> path \<Rightarrow> (py \<times> path \<times> locked \<times> py) res" where
  "batch_inputs d base =
     (let registry_path = path_join base (Rel [''assignment_manifest.json'']) in
      bindE (dk_json d registry_path) (\<lambda>registry.
      bindE (dk_json d (path_join base (Rel [''prepared_manifest.json'']))) (\<lambda>prepared.
      bindE (py_item prepared ''assignment_sha256'') (\<lambda>ah.
      bindE (locked_of registry ''locked_file_sha256'') (\<lambda>locked.
      bindE (locked_of prepared ''campaign_manifest_sha256'') (\<lambda>manifests.
      bindE (py_item registry ''batch_id'') (\<lambda>bid.
      Inr (registry, registry_path, dict_update (dict_update [(dk_str d registry_path, ah)] locked) manifests, bid))))))))"

definition batch_is_new :: "'r disk \<Rightarrow> path \<Rightarrow> path \<Rightarrow> path list \<Rightarrow> unit res" where
  "batch_is_new d base out ps =
     bindE (check (\<not> (de_exists (dk_data d) out \<or> list_ex (de_exists (dk_data d)) (report_files d ps)))
        (FileExistsError ''outputs'')) (\<lambda>_.
     check (\<not> de_exists (dk_data d) (runtime_path base)) (FileExistsError ''batch was run''))"

definition collect_batch :: "('c, 'r) batch_env \<Rightarrow> path \<Rightarrow> path \<Rightarrow> path \<Rightarrow> path \<Rightarrow> (batch_world, batch_report) act" where
  "collect_batch env base out report_prefix dataset_prefix =
     bindS (look env (\<lambda>d. batch_is_new d base out [report_prefix, dataset_prefix])) (\<lambda>_.
     bindS (look env (\<lambda>d. batch_inputs d base)) (\<lambda>(registry, registry_path, fixed, bid).
     run_guarded env base bid (collect_body env base registry registry_path fixed out report_prefix dataset_prefix)))"

section \<open>The recovery batch\<close>

definition recovery_inputs ::
    "'r disk \<Rightarrow> path \<Rightarrow> path \<Rightarrow> (py \<times> path \<times> locked \<times> py \<times> path \<times> path \<times> path) res" where
  "recovery_inputs d base server_exe =
     (let registry_path = path_join base (Rel [''assignment_manifest.json'']);
          prepared_path = path_join base (Rel [''prepared_manifest.json'']) in
      bindE (dk_json d registry_path) (\<lambda>registry.
      bindE (dk_json d prepared_path) (\<lambda>prepared.
      bindE (rejectE (ValueError ''prepared batch'') [get_ne registry ''batch_kind'' (PyStr ''recovery_v1''),
        get_ne prepared ''status'' (PyStr ''prepared'')]) (\<lambda>_.
      bindE (rejectE (ValueError ''Server.exe'') [item_ne registry ''server_exe'' (PyStr (dk_str d (dk_resolve d server_exe)))]) (\<lambda>_.
      bindE (py_item registry ''outputs'') (\<lambda>output.
      bindE (mapE (\<lambda>n. bindE (str_item output n) (\<lambda>s. Inr (dk_path d s))) [''dataset_output'', ''report_prefix'', ''dataset_report_prefix'']) (\<lambda>ps.
      bindE (require_new_outputs d (ps ! 0) (ps ! 1) (ps ! 2)) (\<lambda>_.
      bindE (py_item prepared ''assignment_sha256'') (\<lambda>ah.
      bindE (dk_hash d prepared_path) (\<lambda>ph.
      bindE (locked_of registry ''locked_file_sha256'') (\<lambda>locked.
      bindE (locked_of prepared ''capture_input_sha256'') (\<lambda>captures.
      bindE (py_item registry ''batch_id'') (\<lambda>bid.
      Inr (registry, registry_path,
        dict_update (dict_update (dict_set (dk_str d prepared_path) (PyStr ph) [(dk_str d registry_path, ah)]) locked) captures,
        bid, ps ! 0, ps ! 1, ps ! 2))))))))))))))"

text \<open>The hashes of everything the batch produced.\<close>

definition output_hash :: "'r disk \<Rightarrow> path \<Rightarrow> (string \<times> py) res" where
  "output_hash d p = bindE (dk_hash d p) (\<lambda>h. Inr (dk_str d p, PyStr h))"

definition batch_outputs :: "'r disk \<Rightarrow> (path \<times> string) list \<Rightarrow> path \<Rightarrow> path \<Rightarrow> path \<Rightarrow> locked res" where
  "batch_outputs d dataset_files out report_prefix dataset_prefix =
     bindE (mapE (output_hash d) (report_files d [report_prefix, dataset_prefix])) (\<lambda>reports.
     bindE (output_hash d (path_join out (Rel [''dataset_manifest.json'']))) (\<lambda>manifest.
     Inr (dict_update (dict_update [] (reports @ [manifest])) (map (\<lambda>(p, h). (dk_str d p, PyStr h)) dataset_files))))"

definition source_locks :: "'r disk \<Rightarrow> (path, string) dict \<Rightarrow> locked" where
  "source_locks d sources = map (\<lambda>(p, h). (dk_str d p, PyStr h)) sources"

definition complete_recovery ::
    "('c, 'r) batch_env \<Rightarrow> path \<Rightarrow> locked \<Rightarrow> dataset_report \<Rightarrow> (path \<times> string) list \<Rightarrow> path \<Rightarrow> path \<Rightarrow> path
      \<Rightarrow> (batch_run, unit) act" where
  "complete_recovery env base fixed dataset hashes out report_prefix dataset_prefix =
     bindS (on_batch (look env (\<lambda>d. batch_outputs d hashes out report_prefix dataset_prefix))) (\<lambda>outputs.
     bindS (check_locked env fixed) (\<lambda>_.
     bindS (on_batch (look env (\<lambda>d. verify_hashes d (source_locks d (dp_evidence dataset))))) (\<lambda>_.
     bindS (check_locked env outputs) (\<lambda>_.
     bindS (\<lambda>s. on_batch (write_file env (path_join base (Rel [''completion_manifest.json'']))
        (CompletionDoc \<lparr>co_locked_inputs = fixed, co_sources = dp_evidence dataset, co_outputs = outputs,
           co_completed_at = bn_now env (bt_world s)\<rparr>)) s) (\<lambda>_.
     modifyS mark_complete)))))"

definition recovery_body ::
    "('c, 'r) batch_env \<Rightarrow> path \<Rightarrow> py \<Rightarrow> path \<Rightarrow> locked \<Rightarrow> path \<Rightarrow> path \<Rightarrow> path \<Rightarrow> (batch_run, batch_report) act" where
  "recovery_body env base registry registry_path fixed out report_prefix dataset_prefix =
     bindS (check_locked env fixed) (\<lambda>_.
     bindS (ports_free env) (\<lambda>_.
     bindS (liftS (recovery_coverage registry)) (\<lambda>coverage.
     bindS (save_runtime env base) (\<lambda>_.
     bindS (liftS (py_items registry ''campaigns'')) (\<lambda>entries.
     bindS (forS (collect_campaign env base fixed) entries) (\<lambda>_.
     bindS (collect_dataset env base registry registry_path fixed (verify_collected_counts registry) out dataset_prefix) (\<lambda>(quality, dataset, hashes).
     bindS (on_batch (make_batch_report env base registry registry_path out quality dataset (Some coverage))) (\<lambda>report.
     bindS (on_batch (save_pair env report_prefix (ReportDoc report))) (\<lambda>_.
     bindS (complete_recovery env base fixed dataset hashes out report_prefix dataset_prefix) (\<lambda>_.
     retS report))))))))))"

definition collect_recovery_batch :: "('c, 'r) batch_env \<Rightarrow> path \<Rightarrow> path \<Rightarrow> (batch_world, batch_report) act" where
  "collect_recovery_batch env root0 server_exe =
     bindS (look env (\<lambda>d. Inr (dk_resolve d root0))) (\<lambda>base.
     bindS (look env (\<lambda>d. check (\<not> de_exists (dk_data d) (runtime_path base)) (FileExistsError ''batch was run''))) (\<lambda>_.
     bindS (look env (\<lambda>d. recovery_inputs d base server_exe)) (\<lambda>(registry, registry_path, fixed, bid, out, report_prefix, dataset_prefix).
     run_guarded env base bid (recovery_body env base registry registry_path fixed out report_prefix dataset_prefix))))"

end
