(* ===== verification/Batch_Proofs.thy ===== *)
theory Batch_Proofs
  imports Batch_Collect
begin

text \<open>
  What a collection leaves behind. Both collections have the same phases: statements before the
  campaigns, the campaigns, the dataset, statements after it. The locale \<open>batch_phases\<close> states what
  the varying phases must keep; it is interpreted on the augmentation batch and on the recovery
  batch.
\<close>

section \<open>Statements that keep a relation\<close>

definition keeps :: "('s \<Rightarrow> 's \<Rightarrow> bool) \<Rightarrow> ('s, 'a) act \<Rightarrow> bool" where
  "keeps R m \<longleftrightarrow> (\<forall>s. R s (snd (m s)))"

lemma keepsD: "keeps R m \<Longrightarrow> m s = (r, t) \<Longrightarrow> R s t"
  by (metis keeps_def snd_conv)

lemma keeps_act:
  assumes "transp R" and "keeps R m" and "\<And>a. keeps R (f a)"
  shows "keeps R (bindS m f)"
  using assms unfolding keeps_def bindS_def transp_def
  by (auto split: prod.split sum.split) (metis snd_conv)+

lemma keeps_each: "reflp R \<Longrightarrow> transp R \<Longrightarrow> (\<And>x. keeps R (f x)) \<Longrightarrow> keeps R (forS f xs)"
proof (induction xs)
  case Nil
  then show ?case by (simp add: keeps_def retS_def reflp_def)
next
  case (Cons x xs)
  then show ?case by (simp add: keeps_act)
qed

lemma keeps_pure: "reflp R \<Longrightarrow> keeps R (liftS r)" "reflp R \<Longrightarrow> keeps R (retS a)"
  by (auto simp: keeps_def liftS_def retS_def reflp_def)

lemma keeps_mono: "keeps R m \<Longrightarrow> (\<And>s t. R s t \<Longrightarrow> Q s t) \<Longrightarrow> keeps Q m"
  by (simp add: keeps_def)

lemma bindS_assoc: "bindS (bindS m f) g = bindS m (\<lambda>a. bindS (f a) g)"
  by (rule ext) (simp add: bindS_def split: prod.split sum.split)

text \<open>Input and output of the batch leave its local variables and the datasets alone.\<close>

definition same_locals :: "batch_run \<Rightarrow> batch_run \<Rightarrow> bool" where
  "same_locals s t \<longleftrightarrow> bt_runtime t = bt_runtime s \<and> bt_reports t = bt_reports s \<and>
     bw_datasets (bt_world t) = bw_datasets (bt_world s)"

lemma same_locals_order: "reflp same_locals" "transp same_locals"
  by (auto simp: reflp_def transp_def same_locals_def)

definition same_datasets :: "batch_world \<Rightarrow> batch_world \<Rightarrow> bool" where
  "same_datasets v w \<longleftrightarrow> bw_datasets w = bw_datasets v"

lemma same_datasets_order: "reflp same_datasets" "transp same_datasets"
  by (auto simp: reflp_def transp_def same_datasets_def)

lemma same_datasets_basic: "keeps same_datasets (look env f)" "keeps same_datasets (write_file env p doc)"
  "keeps same_datasets (on_world m)"
  by (auto simp: keeps_def look_def write_file_def on_world_def same_datasets_def Let_def split: option.split prod.split)

lemma same_datasets_pair: "keeps same_datasets (save_pair env p doc)"
  unfolding save_pair_def by (auto intro!: keeps_act same_datasets_order same_datasets_basic)

lemma same_datasets_report: "keeps same_datasets (make_batch_report env base registry p out q d c)"
  by (simp add: keeps_def make_batch_report_def same_datasets_def)

lemma on_batch_locals: "keeps same_datasets m \<Longrightarrow> keeps same_locals (on_batch m)"
  by (auto simp: keeps_def on_batch_def same_locals_def same_datasets_def Let_def split: prod.split) (metis snd_conv)

lemma locals_basic: "keeps same_locals (check_locked env fixed)" "keeps same_locals (save_runtime env base)"
  "keeps same_locals (ports_free env)" "keeps same_locals (liftS r)" "keeps same_locals (retS a)"
proof -
  show "keeps same_locals (check_locked env fixed)"
    unfolding check_locked_def by (rule on_batch_locals [OF same_datasets_basic(1)])
  have "same_locals s (snd (on_batch (write_file env (runtime_path base) (RuntimeDoc (bt_runtime s))) s))" for s
    using on_batch_locals [OF same_datasets_basic(2)] unfolding keeps_def by blast
  then show "keeps same_locals (save_runtime env base)" by (simp add: keeps_def save_runtime_def)
qed (simp_all add: keeps_def ports_free_def same_locals_def liftS_def retS_def)

section \<open>The campaigns\<close>

text \<open>The run that backs a report: locked files verified, the captures passed, then the audit passed.\<close>

definition campaign_evidence :: "('c, 'r) batch_env \<Rightarrow> locked \<Rightarrow> path \<times> campaign_report \<Rightarrow> bool" where
  "campaign_evidence env fixed p \<longleftrightarrow> (\<exists>w v summary.
     verify_hashes (bn_disk env w) fixed = Inr () \<and>
     run_campaign (bn_net env) (bn_captures env (fst p)) (fst p) (bw_world w) = (Inr summary, v) \<and> cs_passed summary \<and>
     audit_at (bn_disk env (w\<lparr>bw_world := v\<rparr>)) (fst p) = Inr (snd p) \<and> rp_passed (snd p))"

lemma on_batch_Inr_iff:
  "on_batch m s = (Inr a, t) \<longleftrightarrow> (\<exists>w. m (bt_world s) = (Inr a, w) \<and> t = s\<lparr>bt_world := w\<rparr>)"
  by (auto simp: on_batch_def Let_def split: prod.splits)

lemma look_Inr_iff: "look env f w = (Inr a, v) \<longleftrightarrow> f (bn_disk env w) = Inr a \<and> v = w"
  by (auto simp: look_def)

lemma on_world_Inr_iff:
  "on_world m w = (Inr a, v) \<longleftrightarrow> (\<exists>x. m (bw_world w) = (Inr a, x) \<and> v = w\<lparr>bw_world := x\<rparr>)"
  by (auto simp: on_world_def Let_def split: prod.splits)

lemma check_locked_Inr_iff:
  "check_locked env fixed s = (Inr u, t) \<longleftrightarrow> verify_hashes (bn_disk env (bt_world s)) fixed = Inr () \<and> t = s"
  by (auto simp: check_locked_def on_batch_Inr_iff look_Inr_iff)

text \<open>What stays during the campaigns: all but the reports and the list of executed campaigns.\<close>

definition same_frame :: "batch_run \<Rightarrow> batch_run \<Rightarrow> bool" where
  "same_frame s t \<longleftrightarrow> rt_batch_id (bt_runtime t) = rt_batch_id (bt_runtime s) \<and> rt_error (bt_runtime t) = rt_error (bt_runtime s) \<and>
     rt_status (bt_runtime t) = rt_status (bt_runtime s) \<and> bw_datasets (bt_world t) = bw_datasets (bt_world s)"

lemma same_frame_order: "reflp same_frame" "transp same_frame"
  by (auto simp: reflp_def transp_def same_frame_def)

lemma locals_frame: "keeps same_locals m \<Longrightarrow> keeps same_frame m"
  by (erule keeps_mono) (simp add: same_locals_def same_frame_def)

lemma frame_modify: "keeps same_frame (modifyS (add_report dir r))" "keeps same_frame (modifyS (add_executed cid a b))"
  by (simp_all add: keeps_def modifyS_def add_report_def add_executed_def same_frame_def)

lemma collect_campaign_frame: "keeps same_frame (collect_campaign env base fixed entry)"
  unfolding collect_campaign_def
  by (intro keeps_act [OF same_frame_order(2)] frame_modify locals_frame locals_basic on_batch_locals
      same_datasets_basic same_datasets_pair)

lemma collect_campaign_Inr:
  assumes "collect_campaign env base fixed entry s = (Inr u, t)"
  shows "\<exists>dir cid report. py_item entry ''campaign_id'' = Inr cid \<and> campaign_evidence env fixed (dir, report) \<and>
    bt_reports t = bt_reports s @ [(dir, report)] \<and>
    rt_executed (bt_runtime t) = rt_executed (bt_runtime s) @ [(cid, True, True)]"
proof -
  obtain dir executed w checked cid w1 where c:
    "verify_hashes (bn_disk env (bt_world s)) fixed = Inr ()"
    "run_campaign (bn_net env) (bn_captures env dir) dir (bw_world (bt_world s)) = (Inr executed, w)"
    "audit_at (bn_disk env ((bt_world s)\<lparr>bw_world := w\<rparr>)) dir = Inr checked"
    "save_pair env (path_join dir (Rel [''quality_report''])) (QualityDoc checked) ((bt_world s)\<lparr>bw_world := w\<rparr>) = (Inr (), w1)"
    "py_item entry ''campaign_id'' = Inr cid"
    "save_runtime env base (add_executed cid (cs_passed executed) (rp_passed checked) (add_report dir checked (s\<lparr>bt_world := w1\<rparr>)))
      = (Inr (), t)"
    "cs_passed executed" "rp_passed checked"
    using assms unfolding collect_campaign_def bindS_Inr_iff check_locked_Inr_iff act_simps on_batch_Inr_iff look_Inr_iff
      on_world_Inr_iff check_Inr_iff by (auto simp del: forE.simps)
  have "same_datasets ((bt_world s)\<lparr>bw_world := w\<rparr>) w1" by (rule keepsD [OF same_datasets_pair c(4)])
  moreover have "same_locals (add_executed cid (cs_passed executed) (rp_passed checked) (add_report dir checked (s\<lparr>bt_world := w1\<rparr>))) t"
    by (rule keepsD [OF locals_basic(2) c(6)])
  ultimately have "bt_reports t = bt_reports s @ [(dir, checked)]"
    "rt_executed (bt_runtime t) = rt_executed (bt_runtime s) @ [(cid, True, True)]"
    using c(7,8) by (simp_all add: same_locals_def add_executed_def add_report_def)
  moreover have "campaign_evidence env fixed (dir, checked)"
    unfolding campaign_evidence_def using c(1,2,3,7,8) by auto
  ultimately show ?thesis using c(5) by blast
qed

lemma campaigns_Inr:
  assumes "forS (collect_campaign env base fixed) entries s = (Inr u, t)"
  shows "\<exists>rs cids. mapE (\<lambda>e. py_item e ''campaign_id'') entries = Inr cids \<and> length rs = length entries \<and>
    bt_reports t = bt_reports s @ rs \<and> list_all (campaign_evidence env fixed) rs \<and>
    rt_executed (bt_runtime t) = rt_executed (bt_runtime s) @ map (\<lambda>c. (c, True, True)) cids"
  using assms
proof (induction entries arbitrary: s)
  case Nil
  then show ?case by auto
next
  case (Cons e es)
  obtain s1 where s1: "collect_campaign env base fixed e s = (Inr (), s1)" "forS (collect_campaign env base fixed) es s1 = (Inr u, t)"
    using Cons.prems by (auto simp: bindS_Inr_iff)
  obtain dir cid report where one: "py_item e ''campaign_id'' = Inr cid" "campaign_evidence env fixed (dir, report)"
    "bt_reports s1 = bt_reports s @ [(dir, report)]" "rt_executed (bt_runtime s1) = rt_executed (bt_runtime s) @ [(cid, True, True)]"
    using collect_campaign_Inr [OF s1(1)] by blast
  obtain rs cids where rest: "mapE (\<lambda>e. py_item e ''campaign_id'') es = Inr cids" "length rs = length es"
    "bt_reports t = bt_reports s1 @ rs" "list_all (campaign_evidence env fixed) rs"
    "rt_executed (bt_runtime t) = rt_executed (bt_runtime s1) @ map (\<lambda>c. (c, True, True)) cids"
    using Cons.IH [OF s1(2)] by blast
  show ?case
    by (rule exI [of _ "(dir, report) # rs"], rule exI [of _ "cid # cids"]) (use one rest in simp)
qed

section \<open>The dataset\<close>

definition same_vars :: "batch_run \<Rightarrow> batch_run \<Rightarrow> bool" where
  "same_vars s t \<longleftrightarrow> bt_reports t = bt_reports s \<and> rt_executed (bt_runtime t) = rt_executed (bt_runtime s) \<and>
     rt_error (bt_runtime t) = rt_error (bt_runtime s) \<and> rt_batch_id (bt_runtime t) = rt_batch_id (bt_runtime s)"

lemma same_vars_order: "reflp same_vars" "transp same_vars"
  by (auto simp: reflp_def transp_def same_vars_def)

definition same_after :: "batch_run \<Rightarrow> batch_run \<Rightarrow> bool" where
  "same_after s t \<longleftrightarrow> same_vars s t \<and> bw_datasets (bt_world t) = bw_datasets (bt_world s)"

lemma same_after_order: "reflp same_after" "transp same_after"
  by (auto simp: reflp_def transp_def same_after_def same_vars_def)

lemma locals_vars: "keeps same_locals m \<Longrightarrow> keeps same_vars m"
  by (erule keeps_mono) (simp add: same_locals_def same_vars_def)

lemma locals_after: "keeps same_locals m \<Longrightarrow> keeps same_after m"
  by (erule keeps_mono) (simp add: same_locals_def same_after_def same_vars_def)

lemma vars_basic: "keeps same_vars (on_batch m)" "keeps same_vars (\<lambda>s. liftS (f s) s)"
  by (auto simp: keeps_def on_batch_def liftS_def same_vars_def Let_def split: prod.split)

lemma collect_dataset_vars: "keeps same_vars (collect_dataset env base registry p fixed counts out dp)"
  unfolding collect_dataset_def
  by (intro keeps_act [OF same_vars_order(2)] keeps_pure [OF same_vars_order(1)] vars_basic locals_vars [OF locals_basic(1)]
      case_prodI2 | clarsimp split: prod.split)+

lemma collect_dataset_datasets:
  assumes "collect_dataset env base registry p fixed counts out dp s = (r, t)"
  shows "bw_datasets (bt_world t) = bw_datasets (bt_world s) \<or> (\<exists>q. summarize_quality registry (bt_reports s) = Inr q)"
proof (cases "summarize_quality registry (bt_reports s)")
  case (Inl e)
  have l: "same_locals s (snd (check_locked env fixed s))" using locals_basic(1) [of env fixed] by (simp add: keeps_def)
  then have "summarize_quality registry (bt_reports (snd (check_locked env fixed s))) = Inl e"
    using Inl by (simp add: same_locals_def)
  then have "t = snd (check_locked env fixed s)"
    using assms unfolding collect_dataset_def
    by (auto simp: bindS_def liftS_def split: prod.splits sum.splits)
  with l show ?thesis by (simp add: same_locals_def)
qed simp

lemma collect_dataset_Inr:
  assumes "collect_dataset env base registry p fixed counts out dp s = (Inr (q, d, h), t)"
  shows "summarize_quality registry (bt_reports s) = Inr q \<and> counts q d = Inr () \<and>
    (\<exists>w c files. build_dataset (dk_data (bn_disk env w)) c = Inr (files, d) \<and> dc_output_dir c = out)"
proof -
  obtain s1 config w files where c: "summarize_quality registry (bt_reports s) = Inr q"
    "batch_dataset_config (bn_disk env (bt_world s)) registry p out = Inr config"
    "build_dataset (dk_data (bn_disk env w)) config = Inr (files, d)" "counts q d = Inr ()"
    using assms unfolding collect_dataset_def bindS_Inr_iff check_locked_Inr_iff act_simps on_batch_Inr_iff look_Inr_iff
      case_prod_unfold by (auto simp: act_simps bindS_Inr_iff)
  moreover have "dc_output_dir config = out" using c(2) by (auto simp: batch_dataset_config_def Let_def bindE_Inr_iff)
  ultimately show ?thesis by blast
qed

section \<open>Phases of a collection\<close>

definition phases ::
    "('c, 'r) batch_env \<Rightarrow> path \<Rightarrow> py \<Rightarrow> path \<Rightarrow> locked \<Rightarrow> (quality_summary \<Rightarrow> dataset_report \<Rightarrow> unit res) \<Rightarrow> path \<Rightarrow> path
      \<Rightarrow> (batch_run, 'p) act \<Rightarrow> ('p \<Rightarrow> quality_summary \<Rightarrow> dataset_report \<Rightarrow> (path \<times> string) list \<Rightarrow> (batch_run, batch_report) act)
      \<Rightarrow> (batch_run, batch_report) act" where
  "phases env base registry p fixed counts out dp pre after =
     bindS pre (\<lambda>c.
     bindS (liftS (py_items registry ''campaigns'')) (\<lambda>entries.
     bindS (forS (collect_campaign env base fixed) entries) (\<lambda>_.
     bindS (collect_dataset env base registry p fixed counts out dp) (\<lambda>(q, d, h). after c q d h))))"

text \<open>All six campaigns of the registry were executed, passed, and are backed by evidence.\<close>

definition batch_passed :: "('c, 'r) batch_env \<Rightarrow> locked \<Rightarrow> py \<Rightarrow> batch_run \<Rightarrow> quality_summary \<Rightarrow> bool" where
  "batch_passed env fixed registry t q \<longleftrightarrow>
     summarize_quality registry (bt_reports t) = Inr q \<and> list_all (campaign_evidence env fixed) (bt_reports t) \<and>
     (\<exists>entries cids. py_items registry ''campaigns'' = Inr entries \<and> mapE (\<lambda>e. py_item e ''campaign_id'') entries = Inr cids \<and>
        length cids = 6 \<and> rt_executed (bt_runtime t) = map (\<lambda>c. (c, True, True)) cids)"

lemma batch_passed_vars: "batch_passed env fixed registry s q \<Longrightarrow> same_vars s t \<Longrightarrow> batch_passed env fixed registry t q"
  by (simp add: batch_passed_def same_vars_def)

lemma quality_six: "summarize_quality registry rs = Inr q \<Longrightarrow> length rs = 6"
  by (auto simp: summarize_quality_def Let_def bindE_Inr_iff rejectE_Inr_iff)

locale batch_phases =
  fixes pre :: "(batch_run, 'p) act"
    and after :: "'p \<Rightarrow> quality_summary \<Rightarrow> dataset_report \<Rightarrow> (path \<times> string) list \<Rightarrow> (batch_run, batch_report) act"
  assumes pre_locals: "keeps same_locals pre"
    and after_vars: "keeps same_after (after c q d h)"
    and after_complete: "after c q d h s = (Inr a, t) \<Longrightarrow>
      rt_status (bt_runtime t) = ''complete'' \<and> bo_quality a = q \<and> bo_dataset a = d"
begin

lemma phases_outcome:
  assumes run: "phases env base registry p fixed counts out dp pre after s = (r, t)"
    and fresh: "rt_executed (bt_runtime s) = []" "bt_reports s = []"
  shows "rt_error (bt_runtime t) = rt_error (bt_runtime s) \<and> rt_batch_id (bt_runtime t) = rt_batch_id (bt_runtime s) \<and>
    (bw_datasets (bt_world t) \<noteq> bw_datasets (bt_world s) \<longrightarrow> (\<exists>q. batch_passed env fixed registry t q)) \<and>
    (\<forall>a. r = Inr a \<longrightarrow> rt_status (bt_runtime t) = ''complete'' \<and> batch_passed env fixed registry t (bo_quality a) \<and>
      counts (bo_quality a) (bo_dataset a) = Inr ())"
proof -
  obtain r0 s0 where pre: "pre s = (r0, s0)" by fastforce
  have same0: "same_locals s s0" by (rule keepsD [OF pre_locals pre])
  show ?thesis
  proof (cases r0)
    case (Inl e)
    with run pre have "r = Inl e" "t = s0" by (simp_all add: phases_def bindS_def)
    with same0 show ?thesis by (simp add: same_locals_def)
  next
    case (Inr c)
    show ?thesis
    proof (cases "py_items registry ''campaigns''")
      case items: (Inl e)
      with run pre Inr have "r = Inl e" "t = s0" by (simp_all add: phases_def bindS_def liftS_def)
      with same0 show ?thesis by (simp add: same_locals_def)
    next
      case items: (Inr entries)
      obtain r1 s1 where loop: "forS (collect_campaign env base fixed) entries s0 = (r1, s1)" by fastforce
      have "keeps same_frame (forS (collect_campaign env base fixed) entries)"
        by (intro keeps_each same_frame_order collect_campaign_frame)
      then have same1: "same_frame s0 s1" using loop by (rule keepsD)
      show ?thesis
      proof (cases r1)
        case (Inl e)
        with run pre \<open>r0 = Inr c\<close> items loop have "r = Inl e" "t = s1" by (simp_all add: phases_def bindS_def liftS_def)
        with same0 same1 show ?thesis by (simp add: same_locals_def same_frame_def)
      next
        case one: (Inr u)
        obtain r2 s2 where ds: "collect_dataset env base registry p fixed counts out dp s1 = (r2, s2)" by fastforce
        have same2: "same_vars s1 s2" by (rule keepsD [OF collect_dataset_vars ds])
        have passed: "batch_passed env fixed registry s2 q" if q: "summarize_quality registry (bt_reports s1) = Inr q" for q
        proof -
          obtain rs cids where c: "mapE (\<lambda>e. py_item e ''campaign_id'') entries = Inr cids" "length rs = length entries"
            "bt_reports s1 = rs" "list_all (campaign_evidence env fixed) rs" "rt_executed (bt_runtime s1) = map (\<lambda>c. (c, True, True)) cids"
            using campaigns_Inr [OF loop [unfolded one]] same0 fresh by (auto simp: same_locals_def)
          then have "length cids = 6" using quality_six [OF q] mapE_length [OF c(1)] by simp
          with c items q have "batch_passed env fixed registry s1 q" unfolding batch_passed_def by auto
          then show ?thesis using same2 by (rule batch_passed_vars)
        qed
        show ?thesis
        proof (cases r2)
          case (Inl e)
          with run pre \<open>r0 = Inr c\<close> items loop one ds have "r = Inl e" "t = s2" by (simp_all add: phases_def bindS_def liftS_def)
          then show ?thesis
            using same0 same1 same2 collect_dataset_datasets [OF ds] passed
            by (auto simp: same_locals_def same_frame_def same_vars_def)
        next
          case (Inr x)
          obtain q d h where x: "r2 = Inr (q, d, h)" using Inr by (cases x) auto
          with run pre \<open>r0 = Inr c\<close> items loop one ds have last: "after c q d h s2 = (r, t)"
            by (simp add: phases_def bindS_def liftS_def)
          have same3: "same_after s2 t" by (rule keepsD [OF after_vars last])
          have q: "summarize_quality registry (bt_reports s1) = Inr q" "counts q d = Inr ()"
            using collect_dataset_Inr [OF ds [unfolded x]] by auto
          have "batch_passed env fixed registry t q"
            using passed [OF q(1)] same3 by (auto simp: same_after_def intro: batch_passed_vars)
          then show ?thesis
            using same0 same1 same2 same3 q after_complete [of c q d h s2 _ t] last
            by (auto simp: same_locals_def same_frame_def same_vars_def same_after_def)
        qed
      qed
    qed
  qed
qed

text \<open>What is on record after the frame: the outcome, and datasets only of passed batches.\<close>

lemma recorded:
  assumes run: "run_guarded env base bid (phases env base registry p fixed counts out dp pre after) w = (r, w')"
    and writes: "isl r \<longrightarrow> (\<forall>v. bn_write_error env (runtime_path base) v = None)"
  shows "\<exists>t. bw_docs w' (runtime_path base) = Some (RuntimeDoc (bt_runtime t)) \<and> rt_batch_id (bt_runtime t) = bid \<and>
    rt_finished_at (bt_runtime t) \<noteq> None \<and>
    (bw_datasets w' \<noteq> bw_datasets w \<longrightarrow> (\<exists>q. batch_passed env fixed registry t q)) \<and>
    (\<forall>e. r = Inl e \<longrightarrow> rt_status (bt_runtime t) = ''failed'' \<and> rt_error (bt_runtime t) = Some e) \<and>
    (\<forall>a. r = Inr a \<longrightarrow> rt_status (bt_runtime t) = ''complete'' \<and> rt_error (bt_runtime t) = None \<and>
      batch_passed env fixed registry t (bo_quality a) \<and> counts (bo_quality a) (bo_dataset a) = Inr ())"
proof -
  let ?body = "phases env base registry p fixed counts out dp pre after"
  obtain r1 t1 where body: "?body (started env bid w) = (r1, t1)" by fastforce
  define t2 where "t2 = finish env (case r1 of Inl e \<Rightarrow> record_failure e t1 | Inr _ \<Rightarrow> t1)"
  have fresh: "rt_executed (bt_runtime (started env bid w)) = []" "bt_reports (started env bid w) = []"
    by (simp_all add: started_def)
  note out = phases_outcome [OF body fresh]
  have world: "bt_world t2 = bt_world t1" by (simp add: t2_def finish_def record_failure_def split: sum.split)
  have ok: "bn_write_error env (runtime_path base) (bt_world t2) = None \<and> r = r1"
    using run writes body unfolding run_guarded_def guarded_def
    by (auto simp: t2_def [symmetric] save_runtime_def on_batch_def write_file_def Let_def split: option.splits sum.splits)
  then have w': "w' = (bt_world t2)\<lparr>bw_docs := (bw_docs (bt_world t2))(runtime_path base \<mapsto> RuntimeDoc (bt_runtime t2))\<rparr>"
    using run body unfolding run_guarded_def guarded_def
    by (auto simp: t2_def [symmetric] save_runtime_def on_batch_def write_file_def Let_def split: sum.splits)
  have passed: "batch_passed env fixed registry t1 q \<Longrightarrow> batch_passed env fixed registry t2 q" for q
    by (auto simp: batch_passed_def t2_def finish_def record_failure_def split: sum.split)
  have ids: "rt_batch_id (bt_runtime t2) = bid" "rt_finished_at (bt_runtime t2) \<noteq> None"
    using out by (auto simp: t2_def finish_def record_failure_def started_def split: sum.split)
  have "bw_docs w' (runtime_path base) = Some (RuntimeDoc (bt_runtime t2))" "bw_datasets w' = bw_datasets (bt_world t1)"
    using w' world by simp_all
  moreover have "\<forall>e. r = Inl e \<longrightarrow> rt_status (bt_runtime t2) = ''failed'' \<and> rt_error (bt_runtime t2) = Some e"
    using ok by (auto simp: t2_def finish_def record_failure_def)
  moreover have "\<forall>a. r = Inr a \<longrightarrow> rt_status (bt_runtime t2) = ''complete'' \<and> rt_error (bt_runtime t2) = None \<and>
      batch_passed env fixed registry t2 (bo_quality a) \<and> counts (bo_quality a) (bo_dataset a) = Inr ()"
    using ok out passed by (auto simp: t2_def finish_def started_def)
  moreover have "bw_datasets (bt_world t1) \<noteq> bw_datasets w \<longrightarrow> (\<exists>q. batch_passed env fixed registry t2 q)"
    using out passed by (auto simp: started_def)
  ultimately show ?thesis using ids by (intro exI [of _ t2]) simp
qed

end

section \<open>The two batches\<close>

definition augmentation_pre :: "('c, 'r) batch_env \<Rightarrow> locked \<Rightarrow> (batch_run, unit) act" where
  "augmentation_pre env fixed = bindS (check_locked env fixed) (\<lambda>_. ports_free env)"

definition augmentation_after ::
    "('c, 'r) batch_env \<Rightarrow> path \<Rightarrow> py \<Rightarrow> path \<Rightarrow> path \<Rightarrow> path \<Rightarrow> unit \<Rightarrow> quality_summary \<Rightarrow> dataset_report
      \<Rightarrow> (path \<times> string) list \<Rightarrow> (batch_run, batch_report) act" where
  "augmentation_after env base registry p out rp c q d h =
     bindS (on_batch (make_batch_report env base registry p out q d None)) (\<lambda>report.
     bindS (on_batch (save_pair env rp (ReportDoc report))) (\<lambda>_.
     bindS (modifyS mark_complete) (\<lambda>_. retS report)))"

definition recovery_pre :: "('c, 'r) batch_env \<Rightarrow> path \<Rightarrow> py \<Rightarrow> locked
    \<Rightarrow> (batch_run, (string, py \<times> py \<times> (int option \<times> int \<times> int) list) dict) act" where
  "recovery_pre env base registry fixed =
     bindS (check_locked env fixed) (\<lambda>_.
     bindS (ports_free env) (\<lambda>_.
     bindS (liftS (recovery_coverage registry)) (\<lambda>coverage.
     bindS (save_runtime env base) (\<lambda>_. retS coverage))))"

definition recovery_after ::
    "('c, 'r) batch_env \<Rightarrow> path \<Rightarrow> py \<Rightarrow> path \<Rightarrow> locked \<Rightarrow> path \<Rightarrow> path \<Rightarrow> path
      \<Rightarrow> (string, py \<times> py \<times> (int option \<times> int \<times> int) list) dict \<Rightarrow> quality_summary \<Rightarrow> dataset_report
      \<Rightarrow> (path \<times> string) list \<Rightarrow> (batch_run, batch_report) act" where
  "recovery_after env base registry p fixed out rp dp c q d h =
     bindS (on_batch (make_batch_report env base registry p out q d (Some c))) (\<lambda>report.
     bindS (on_batch (save_pair env rp (ReportDoc report))) (\<lambda>_.
     bindS (complete_recovery env base fixed d h out rp dp) (\<lambda>_. retS report)))"

lemma bindS_retS: "bindS (retS a) f = f a"
  by (rule ext) (simp add: bindS_def retS_def)

lemma collect_body_phases:
  "collect_body env base registry p fixed out rp dp =
     phases env base registry p fixed (\<lambda>_ _. Inr ()) out dp (augmentation_pre env fixed) (augmentation_after env base registry p out rp)"
  unfolding collect_body_def phases_def augmentation_pre_def augmentation_after_def bindS_assoc ..

lemma recovery_body_phases:
  "recovery_body env base registry p fixed out rp dp =
     phases env base registry p fixed (verify_collected_counts registry) out dp (recovery_pre env base registry fixed)
       (recovery_after env base registry p fixed out rp dp)"
  unfolding recovery_body_def phases_def recovery_pre_def recovery_after_def bindS_assoc bindS_retS ..

lemma after_mark: "keeps same_after (modifyS mark_complete)"
  by (simp add: keeps_def modifyS_def mark_complete_def same_after_def same_vars_def)

lemma after_io: "keeps same_datasets m \<Longrightarrow> keeps same_after (on_batch m)"
  by (intro locals_after on_batch_locals)

lemma make_batch_report_Inr:
  "make_batch_report env base registry p out q d c w = (Inr a, v) \<Longrightarrow> bo_quality a = q \<and> bo_dataset a = d"
  by (auto simp: make_batch_report_def bindE_Inr_iff)

lemma complete_recovery_status: "complete_recovery env base fixed d h out rp dp s = (Inr u, t) \<Longrightarrow> rt_status (bt_runtime t) = ''complete''"
  unfolding complete_recovery_def by (auto simp: bindS_Inr_iff mark_complete_def)

lemma after_io_at: "(\<And>s. keeps same_datasets (m s)) \<Longrightarrow> keeps same_after (\<lambda>s. on_batch (m s) s)"
  using after_io unfolding keeps_def by blast

lemma complete_recovery_after: "keeps same_after (complete_recovery env base fixed d h out rp dp)"
  unfolding complete_recovery_def
  by (intro keeps_act [OF same_after_order(2)] after_io same_datasets_basic locals_after [OF locals_basic(1)] after_mark
      after_io_at)

interpretation augmentation: batch_phases "augmentation_pre env fixed" "augmentation_after env base registry p out rp"
  for env :: "('c, 'r) batch_env" and fixed base registry p out rp
proof (unfold_locales, goal_cases)
  case 1
  show ?case unfolding augmentation_pre_def by (intro keeps_act [OF same_locals_order(2)] locals_basic)
next
  case (2 c q d h)
  show ?case unfolding augmentation_after_def
    by (intro keeps_act [OF same_after_order(2)] after_io same_datasets_report same_datasets_pair after_mark
        keeps_pure same_after_order)
next
  case (3 c q d h s a t)
  then show ?case unfolding augmentation_after_def
    by (auto simp: bindS_Inr_iff on_batch_Inr_iff mark_complete_def dest: make_batch_report_Inr)
qed

interpretation recovery: batch_phases "recovery_pre env base registry fixed" "recovery_after env base registry p fixed out rp dp"
  for env :: "('c, 'r) batch_env" and base registry fixed p out rp dp
proof (unfold_locales, goal_cases)
  case 1
  show ?case unfolding recovery_pre_def by (intro keeps_act [OF same_locals_order(2)] locals_basic)
next
  case (2 c q d h)
  show ?case unfolding recovery_after_def
    by (intro keeps_act [OF same_after_order(2)] after_io same_datasets_report same_datasets_pair complete_recovery_after
        keeps_pure same_after_order)
next
  case (3 c q d h s a t)
  then show ?case unfolding recovery_after_def
    by (auto simp: bindS_Inr_iff on_batch_Inr_iff dest: make_batch_report_Inr complete_recovery_status)
qed

section \<open>Passed batches in numbers\<close>

lemma passed_report_runs:
  assumes "make_report cid purpose issues results = Inr r" and "rp_passed r"
  shows "rp_passed_runs r = rp_run_count r"
  using assms by (auto simp: make_report_def final_results_def bindE_Inr_iff Let_def list_all_iff filter_id_conv split: if_splits)

lemma evidence_runs: "campaign_evidence env fixed p \<Longrightarrow> rp_passed (snd p) \<and> rp_passed_runs (snd p) = rp_run_count (snd p)"
  by (auto simp: campaign_evidence_def audit_at_def audit_campaign_def bindE_Inr_iff intro: passed_report_runs)

lemma quality_fields:
  assumes "summarize_quality registry rs = Inr q"
  shows "qs_passed q = list_all rp_passed (map snd rs)" "qs_runs q = sum_list (map rp_run_count (map snd rs))"
    "qs_passed_runs q = sum_list (map rp_passed_runs (map snd rs))" "length (qs_results q) = length rs"
  using assms by (auto simp: summarize_quality_def Let_def bindE_Inr_iff simp del: map_map)

lemma batch_passed_numbers:
  assumes "batch_passed env fixed registry t q"
  shows "qs_passed q \<and> qs_passed_runs q = qs_runs q \<and> length (qs_results q) = 6"
proof -
  have q: "summarize_quality registry (bt_reports t) = Inr q" using assms by (simp add: batch_passed_def)
  have e: "list_all (\<lambda>p. rp_passed (snd p) \<and> rp_passed_runs (snd p) = rp_run_count (snd p)) (bt_reports t)"
    using assms by (auto simp: batch_passed_def list_all_iff dest: evidence_runs)
  then have "map rp_passed_runs (map snd (bt_reports t)) = map rp_run_count (map snd (bt_reports t))"
    by (simp add: list_all_iff)
  then have "qs_passed_runs q = qs_runs q" unfolding quality_fields(2,3) [OF q] by (rule arg_cong)
  moreover have "qs_passed q" using e unfolding quality_fields(1) [OF q] by (simp add: list_all_iff)
  ultimately show ?thesis using quality_fields(4) [OF q] quality_six [OF q] by simp
qed

section \<open>Properties\<close>

text \<open>The outcome on record for a batch in a world: its runtime file, and what backs a dataset.\<close>

definition batch_recorded :: "('c, 'r) batch_env \<Rightarrow> path \<Rightarrow> locked \<Rightarrow> py \<Rightarrow> batch_world \<Rightarrow> batch_world \<Rightarrow> batch_report res \<Rightarrow> bool" where
  "batch_recorded env base fixed registry w w' r \<longleftrightarrow> (\<exists>t. bw_docs w' (runtime_path base) = Some (RuntimeDoc (bt_runtime t)) \<and>
     rt_finished_at (bt_runtime t) \<noteq> None \<and>
     (bw_datasets w' \<noteq> bw_datasets w \<longrightarrow> (\<exists>q. batch_passed env fixed registry t q)) \<and>
     (\<forall>e. r = Inl e \<longrightarrow> rt_status (bt_runtime t) = ''failed'' \<and> rt_error (bt_runtime t) = Some e) \<and>
     (\<forall>a. r = Inr a \<longrightarrow> rt_status (bt_runtime t) = ''complete'' \<and> rt_error (bt_runtime t) = None \<and>
       batch_passed env fixed registry t (bo_quality a) \<and> qs_passed (bo_quality a) \<and>
       qs_passed_runs (bo_quality a) = qs_runs (bo_quality a)))"

lemma batch_recordedI:
  assumes "\<exists>t. bw_docs w' (runtime_path base) = Some (RuntimeDoc (bt_runtime t)) \<and> rt_batch_id (bt_runtime t) = bid \<and>
    rt_finished_at (bt_runtime t) \<noteq> None \<and>
    (bw_datasets w' \<noteq> bw_datasets w \<longrightarrow> (\<exists>q. batch_passed env fixed registry t q)) \<and>
    (\<forall>e. r = Inl e \<longrightarrow> rt_status (bt_runtime t) = ''failed'' \<and> rt_error (bt_runtime t) = Some e) \<and>
    (\<forall>a. r = Inr a \<longrightarrow> rt_status (bt_runtime t) = ''complete'' \<and> rt_error (bt_runtime t) = None \<and>
      batch_passed env fixed registry t (bo_quality a) \<and> counts (bo_quality a) (bo_dataset a) = Inr ())"
  shows "batch_recorded env base fixed registry w w' r"
proof -
  obtain t where t: "bw_docs w' (runtime_path base) = Some (RuntimeDoc (bt_runtime t))" "rt_finished_at (bt_runtime t) \<noteq> None"
    "bw_datasets w' \<noteq> bw_datasets w \<longrightarrow> (\<exists>q. batch_passed env fixed registry t q)"
    "\<forall>e. r = Inl e \<longrightarrow> rt_status (bt_runtime t) = ''failed'' \<and> rt_error (bt_runtime t) = Some e"
    "\<forall>a. r = Inr a \<longrightarrow> rt_status (bt_runtime t) = ''complete'' \<and> rt_error (bt_runtime t) = None \<and>
      batch_passed env fixed registry t (bo_quality a)"
    using assms by blast
  have "\<forall>a. r = Inr a \<longrightarrow> rt_status (bt_runtime t) = ''complete'' \<and> rt_error (bt_runtime t) = None \<and>
    batch_passed env fixed registry t (bo_quality a) \<and> qs_passed (bo_quality a) \<and> qs_passed_runs (bo_quality a) = qs_runs (bo_quality a)"
    using t(5) batch_passed_numbers by blast
  with t(1-4) show ?thesis unfolding batch_recorded_def by blast
qed

lemma collect_batch_recorded:
  assumes "collect_batch env base out rp dp w = (r, w')"
    and "isl r \<longrightarrow> (\<forall>v. bn_write_error env (runtime_path base) v = None)"
  shows "(isl r \<and> w' = w) \<or> (\<exists>registry p fixed bid. batch_inputs (bn_disk env w) base = Inr (registry, p, fixed, bid) \<and>
    batch_recorded env base fixed registry w w' r)"
proof (cases "batch_is_new (bn_disk env w) base out [rp, dp]")
  case (Inl e)
  with assms(1) show ?thesis by (auto simp: collect_batch_def bindS_def look_def)
next
  case new: (Inr u)
  show ?thesis
  proof (cases "batch_inputs (bn_disk env w) base")
    case (Inl e)
    with assms(1) new show ?thesis by (auto simp: collect_batch_def bindS_def look_def)
  next
    case (Inr x)
    obtain registry p fixed bid where x: "x = (registry, p, fixed, bid)" by (cases x)
    have run: "run_guarded env base bid (phases env base registry p fixed (\<lambda>_ _. Inr ()) out dp (augmentation_pre env fixed)
        (augmentation_after env base registry p out rp)) w = (r, w')"
      using assms(1) new Inr x by (simp add: collect_batch_def bindS_def look_def collect_body_phases)
    show ?thesis
      using batch_recordedI [OF augmentation.recorded [OF run assms(2)]] Inr x by blast
  qed
qed

lemma collect_recovery_recorded:
  assumes "collect_recovery_batch env root0 exe w = (r, w')"
    and "isl r \<longrightarrow> (\<forall>p v. bn_write_error env (runtime_path p) v = None)"
  shows "(isl r \<and> w' = w) \<or> (\<exists>base registry p fixed bid out rp dp. base = dk_resolve (bn_disk env w) root0 \<and>
    recovery_inputs (bn_disk env w) base exe = Inr (registry, p, fixed, bid, out, rp, dp) \<and>
    batch_recorded env base fixed registry w w' r \<and>
    (\<forall>a. r = Inr a \<longrightarrow> verify_collected_counts registry (bo_quality a) (bo_dataset a) = Inr ()))"
proof -
  define base where "base = dk_resolve (bn_disk env w) root0"
  show ?thesis
  proof (cases "de_exists (dk_data (bn_disk env w)) (runtime_path base)")
    case True
    with assms(1) show ?thesis by (auto simp: collect_recovery_batch_def bindS_def look_def base_def check_def)
  next
    case new: False
    show ?thesis
    proof (cases "recovery_inputs (bn_disk env w) base exe")
      case (Inl e)
      with assms(1) new show ?thesis by (auto simp: collect_recovery_batch_def bindS_def look_def base_def check_def)
    next
      case (Inr x)
      obtain registry p fixed bid out rp dp where x: "x = (registry, p, fixed, bid, out, rp, dp)" by (cases x)
      have run: "run_guarded env base bid (phases env base registry p fixed (verify_collected_counts registry) out dp
          (recovery_pre env base registry fixed) (recovery_after env base registry p fixed out rp dp)) w = (r, w')"
        using assms(1) new Inr x
        by (simp add: collect_recovery_batch_def bindS_def look_def recovery_body_phases base_def [symmetric] check_def)
      have writes: "isl r \<longrightarrow> (\<forall>v. bn_write_error env (runtime_path base) v = None)" using assms(2) by blast
      show ?thesis
        using batch_recordedI [OF recovery.recorded [OF run writes]] recovery.recorded [OF run writes] Inr x base_def by blast
    qed
  qed
qed

text \<open>
  C23: A collection either fails before it starts and changes nothing, or it ends with its outcome in
  the runtime file: failed with the exception it raises, or complete, and then all six campaigns of
  the registry ran under unchanged locked files and passed their audits, every run of them. A
  dataset is only ever built in the second case of six passed campaigns.
\<close>
lemma batch_outcome_recorded:
  assumes "\<And>p v. bn_write_error env (runtime_path p) v = None"
  shows "case collect_batch env base out rp dp w of (r, w') \<Rightarrow>
    (isl r \<and> w' = w) \<or> (\<exists>registry p fixed bid. batch_inputs (bn_disk env w) base = Inr (registry, p, fixed, bid) \<and>
      batch_recorded env base fixed registry w w' r)"
  using collect_batch_recorded [of env base out rp dp w] assms by (auto split: prod.split)

text \<open>
  The recovery collection keeps the same record, for the resolved directory and the locked
  outputs of the registry; and when it returns a report, the runs, sessions, summaries and messages
  it collected are those the prepared plan promised.
\<close>
lemma recovery_outcome_recorded:
  assumes "\<And>p v. bn_write_error env (runtime_path p) v = None"
  shows "case collect_recovery_batch env base0 exe w of (r, w') \<Rightarrow>
    (isl r \<and> w' = w) \<or> (\<exists>base registry p fixed bid out rp dp. base = dk_resolve (bn_disk env w) base0 \<and>
      recovery_inputs (bn_disk env w) base exe = Inr (registry, p, fixed, bid, out, rp, dp) \<and>
      batch_recorded env base fixed registry w w' r \<and>
      (\<forall>a. r = Inr a \<longrightarrow> verify_collected_counts registry (bo_quality a) (bo_dataset a) = Inr ()))"
  using collect_recovery_recorded [of env base0 exe w] assms by (auto split: prod.split)

end
