(* ===== verification/Batch_Example.thy ===== *)
theory Batch_Example
  imports Batch_Proofs Quality_Example Dataset_Example
begin

text \<open>Prepared batches whose locked assignment file is gone when the collection starts.\<close>

definition batch_json :: "(string \<times> json) list" where
  "batch_json =
    [(''assignment_manifest.json'', JObj [(''batch_kind'', JStr ''recovery_v1''), (''batch_id'', JStr ''b''),
        (''server_exe'', JStr ''Server.exe''), (''locked_file_sha256'', JObj []), (''campaigns'', JList []),
        (''outputs'', JObj [(''dataset_output'', JStr ''d''), (''report_prefix'', JStr ''r''), (''dataset_report_prefix'', JStr ''s'')])]),
     (''prepared_manifest.json'', JObj [(''status'', JStr ''prepared''), (''assignment_sha256'', JStr ''h''),
        (''campaign_manifest_sha256'', JObj []), (''capture_input_sha256'', JObj [])])]"

definition batch_disk :: "unit disk" where
  "batch_disk = \<lparr>dk_data = example_env\<lparr>de_audit := header_env\<lparr>au_decode := map_of batch_json\<rparr>, de_is_file := (\<lambda>_. False)\<rparr>,
     dk_str = last_part, dk_suffix = (\<lambda>p s. Abs [last_part p @ s]), dk_csv = (\<lambda>_. Inl (FileNotFoundError ''csv'')),
     dk_number = (\<lambda>_. Inl (ValueError ''float''))\<rparr>"

definition batch_env :: "(wire, unit) batch_env" where
  "batch_env = \<lparr>bn_net = undefined, bn_captures = undefined, bn_disk = (\<lambda>_. batch_disk), bn_write_error = (\<lambda>_ _. None),
     bn_ports_free = (\<lambda>_. True), bn_now = (\<lambda>_. ''t'')\<rparr>"

definition batch_start :: batch_world where
  "batch_start = \<lparr>bw_world = undefined, bw_docs = (\<lambda>_. None), bw_datasets = []\<rparr>"

definition batch_registry :: py where
  "batch_registry = PyDict [(''batch_kind'', PyStr ''recovery_v1''), (''batch_id'', PyStr ''b''), (''server_exe'', PyStr ''Server.exe''),
     (''locked_file_sha256'', PyDict []), (''campaigns'', PyList []),
     (''outputs'', PyDict [(''dataset_output'', PyStr ''d''), (''report_prefix'', PyStr ''r''), (''dataset_report_prefix'', PyStr ''s'')])]"

definition batch_prepared :: py where
  "batch_prepared = PyDict [(''status'', PyStr ''prepared''), (''assignment_sha256'', PyStr ''h''),
     (''campaign_manifest_sha256'', PyDict []), (''capture_input_sha256'', PyDict [])]"

lemma batch_documents:
  "dk_json batch_disk (Abs [''b'', ''assignment_manifest.json'']) = Inr batch_registry"
  "dk_json batch_disk (Abs [''b'', ''prepared_manifest.json'']) = Inr batch_prepared"
  by (simp_all add: batch_disk_def read_json_def parse_json_def batch_json_def header_env_def example_env_def
      unique_object_def unique_entry_def batch_registry_def batch_prepared_def)

lemma batch_disk_simps: "dk_str batch_disk = last_part" "dk_path batch_disk = (\<lambda>s. Abs [s])" "dk_resolve batch_disk = (\<lambda>p. p)"
  "de_is_file (dk_data batch_disk) p = False" "de_exists (dk_data batch_disk) p = False" "dk_hash batch_disk p = Inr ''h''"
  "dk_suffix batch_disk = (\<lambda>p s. Abs [last_part p @ s])"
  by (simp_all add: batch_disk_def example_env_def header_env_def)

lemma batch_inputs_read:
  "batch_inputs batch_disk (Abs [''b'']) =
     Inr (batch_registry, Abs [''b'', ''assignment_manifest.json''], [(''assignment_manifest.json'', PyStr ''h'')], PyStr ''b'')"
  "recovery_inputs batch_disk (Abs [''b'']) (Abs [''Server.exe'']) =
     Inr (batch_registry, Abs [''b'', ''assignment_manifest.json''],
       [(''assignment_manifest.json'', PyStr ''h''), (''prepared_manifest.json'', PyStr ''h'')], PyStr ''b'',
       Abs [''d''], Abs [''r''], Abs [''s''])"
proof -
  note docs = batch_documents [unfolded batch_disk_def]
  show "batch_inputs batch_disk (Abs [''b'']) =
     Inr (batch_registry, Abs [''b'', ''assignment_manifest.json''], [(''assignment_manifest.json'', PyStr ''h'')], PyStr ''b'')"
    by (simp add: batch_inputs_def Let_def batch_documents batch_disk_simps)
      (simp add: batch_registry_def batch_prepared_def lookupE_def locked_of_def dict_update_def)
  show "recovery_inputs batch_disk (Abs [''b'']) (Abs [''Server.exe'']) =
     Inr (batch_registry, Abs [''b'', ''assignment_manifest.json''],
       [(''assignment_manifest.json'', PyStr ''h''), (''prepared_manifest.json'', PyStr ''h'')], PyStr ''b'',
       Abs [''d''], Abs [''r''], Abs [''s''])"
    by (simp add: recovery_inputs_def Let_def batch_documents batch_disk_simps)
      (simp add: batch_registry_def batch_prepared_def lookupE_def locked_of_def dict_update_def str_item_def get_ne_def
        item_ne_def py_get_def rejectE_def require_new_outputs_def report_files_def batch_disk_simps check_def)
qed

lemma batch_env_simps: "bn_disk batch_env w = batch_disk" "bn_write_error batch_env p w = None"
  by (simp_all add: batch_env_def)

lemma locked_gone: "check_locked batch_env (e # fixed) s = (Inl (ValueError ''locked file changed''), s)"
  by (cases e) (simp add: check_locked_def on_batch_def look_def batch_env_simps verify_hashes_def verify_hash_def batch_disk_simps)

lemma guarded_gone:
  assumes "\<And>s. body s = (Inl e, s)"
  shows "\<exists>rt. run_guarded batch_env base bid body w = (Inl e, w\<lparr>bw_docs := (bw_docs w)(runtime_path base \<mapsto> RuntimeDoc rt)\<rparr>)"
  by (auto simp: run_guarded_def guarded_def assms save_runtime_def on_batch_def write_file_def batch_env_simps finish_def
      record_failure_def started_def)

lemma bodies_gone:
  "collect_body batch_env base registry p (l # fixed) out rp dp s = (Inl (ValueError ''locked file changed''), s)"
  "recovery_body batch_env base registry p (l # fixed) out rp dp s = (Inl (ValueError ''locked file changed''), s)"
  by (simp_all add: collect_body_def recovery_body_def bindS_def locked_gone)

lemma batch_gone:
  "\<exists>rt. collect_batch batch_env (Abs [''b'']) (Abs [''o'']) (Abs [''r'']) (Abs [''s'']) batch_start =
    (Inl (ValueError ''locked file changed''),
     batch_start\<lparr>bw_docs := (bw_docs batch_start)(runtime_path (Abs [''b'']) \<mapsto> RuntimeDoc rt)\<rparr>)"
proof -
  have new: "batch_is_new batch_disk (Abs [''b'']) (Abs [''o'']) [Abs [''r''], Abs [''s'']] = Inr ()"
    by (simp add: batch_is_new_def report_files_def batch_disk_simps check_def)
  show ?thesis
    using guarded_gone [where base = "Abs [''b'']" and bid = "PyStr ''b''" and w = batch_start, OF bodies_gone(1)]
    by (simp add: collect_batch_def bindS_def look_def batch_env_simps new batch_inputs_read)
qed

lemma recovery_gone:
  "\<exists>rt. collect_recovery_batch batch_env (Abs [''b'']) (Abs [''Server.exe'']) batch_start =
    (Inl (ValueError ''locked file changed''),
     batch_start\<lparr>bw_docs := (bw_docs batch_start)(runtime_path (Abs [''b'']) \<mapsto> RuntimeDoc rt)\<rparr>)"
  using guarded_gone [where base = "Abs [''b'']" and bid = "PyStr ''b''" and w = batch_start, OF bodies_gone(2)]
  by (simp add: collect_recovery_batch_def bindS_def look_def batch_env_simps batch_disk_simps batch_inputs_read check_def)

lemma written_differs: "batch_start\<lparr>bw_docs := (bw_docs batch_start)(p \<mapsto> doc)\<rparr> \<noteq> batch_start"
proof
  assume "batch_start\<lparr>bw_docs := (bw_docs batch_start)(p \<mapsto> doc)\<rparr> = batch_start"
  then have "bw_docs (batch_start\<lparr>bw_docs := (bw_docs batch_start)(p \<mapsto> doc)\<rparr>) p = bw_docs batch_start p" by simp
  then show False by (simp add: batch_start_def)
qed

lemma batch_changed:
  "\<exists>v. v \<noteq> batch_start \<and> collect_batch batch_env (Abs [''b'']) (Abs [''o'']) (Abs [''r'']) (Abs [''s'']) batch_start =
    (Inl (ValueError ''locked file changed''), v)"
  using batch_gone written_differs by metis

lemma recovery_changed:
  "\<exists>v. v \<noteq> batch_start \<and> collect_recovery_batch batch_env (Abs [''b'']) (Abs [''Server.exe'']) batch_start =
    (Inl (ValueError ''locked file changed''), v)"
  using recovery_gone written_differs by metis

lemma batch_outcome_recorded_witness:
  "\<exists>fixed registry v. v \<noteq> batch_start \<and>
     batch_recorded batch_env (Abs [''b'']) fixed registry batch_start v (Inl (ValueError ''locked file changed''))"
proof -
  obtain v where v: "v \<noteq> batch_start" and run: "collect_batch batch_env (Abs [''b'']) (Abs [''o'']) (Abs [''r'']) (Abs [''s'']) batch_start =
    (Inl (ValueError ''locked file changed''), v)" using batch_changed by blast
  from batch_outcome_recorded [where env = batch_env and base = "Abs [''b'']" and out = "Abs [''o'']" and rp = "Abs [''r'']"
      and dp = "Abs [''s'']" and w = batch_start, OF batch_env_simps(2), unfolded run prod.case]
  show ?thesis using v by (elim disjE exE conjE; simp; blast)
qed

lemma recovery_outcome_recorded_witness:
  "\<exists>fixed registry v. v \<noteq> batch_start \<and>
     batch_recorded batch_env (Abs [''b'']) fixed registry batch_start v (Inl (ValueError ''locked file changed''))"
proof -
  obtain v where v: "v \<noteq> batch_start" and run: "collect_recovery_batch batch_env (Abs [''b'']) (Abs [''Server.exe'']) batch_start =
    (Inl (ValueError ''locked file changed''), v)" using recovery_changed by blast
  from recovery_outcome_recorded [where env = batch_env and ?base0.0 = "Abs [''b'']" and exe = "Abs [''Server.exe'']"
      and w = batch_start, OF batch_env_simps(2), unfolded run prod.case]
  show ?thesis using v unfolding batch_env_simps batch_disk_simps by (elim disjE exE conjE; simp; blast)
qed

end
