(* ===== verification/Batch_Prepare.thy ===== *)
theory Batch_Prepare
  imports Batch_Collect
begin

text \<open>
  \<open>prepare_batch\<close> and \<open>prepare_recovery_batch\<close>: the roles, plans and locked files of a batch are
  written before any campaign is prepared, and the batch is sealed by a manifest of the prepared
  files. The record \<open>preparation\<close> holds the random generator, the shuffling, the environment of
  \<open>prepare_campaign\<close> and what \<open>glob\<close> finds.
\<close>

record 'g preparation =
  bp_rng :: "'g rng"
  bp_shuffle :: "int \<Rightarrow> traffic_profile list \<Rightarrow> traffic_profile list"
  bp_campaign :: prepare_env
  bp_glob :: "path \<Rightarrow> path list"
  bp_ai_root :: path
  bp_label_text :: string

section \<open>Documents\<close>

fun py_opt :: "int option \<Rightarrow> py" where
  "py_opt None = PyNone"
| "py_opt (Some n) = PyInt n"

text \<open>\<open>plan.model_dump(mode="json")\<close>.\<close>

definition profile_document :: "traffic_profile \<Rightarrow> py" where
  "profile_document p = PyDict
     [(''scenario_id'', PyStr (scenario_name (tp_scenario p))), (''sessions'', PyInt (tp_sessions p)),
      (''concurrency'', PyInt (tp_concurrency p)), (''messages_min'', PyInt (tp_messages_min p)),
      (''messages_max'', PyInt (tp_messages_max p)), (''text_sizes'', py_ints (tp_text_sizes p)),
      (''interval_min_ms'', PyInt (tp_interval_min_ms p)), (''interval_max_ms'', PyInt (tp_interval_max_ms p)),
      (''batch_size'', py_opt (tp_batch_size p)), (''fragment_size_bytes'', py_opt (tp_fragment_size_bytes p))]"

definition plan_document :: "campaign_plan \<Rightarrow> py" where
  "plan_document plan = PyDict
     [(''plan_version'', PyStr (cp_version plan)), (''seed'', PyInt (cp_seed plan)), (''repeats'', PyInt (cp_repeats plan)),
      (''profiles'', PyList (map profile_document (cp_profiles plan))),
      (''repeat_profiles'', (case cp_repeat_profiles plan of None \<Rightarrow> PyNone
         | Some gs \<Rightarrow> PyList (map (\<lambda>g. PyList (map profile_document g)) gs)))]"

text \<open>\<open>{**slot, "campaign_id": ..., "campaign_dir": ..., "plan_snapshot": ...}\<close>.\<close>

definition batch_entry :: "'r disk \<Rightarrow> path \<Rightarrow> string \<Rightarrow> py \<times> campaign_plan \<Rightarrow> py" where
  "batch_entry d base cid p =
     PyDict (dict_update (as_dict (fst p)) [(''campaign_id'', PyStr cid),
       (''campaign_dir'', PyStr (dk_str d (path_join base (Rel [cid])))), (''plan_snapshot'', plan_document (snd p))])"

definition check_entry :: "'r disk \<Rightarrow> prepare_env \<Rightarrow> bool \<Rightarrow> py \<times> py \<times> campaign_plan \<Rightarrow> unit res" where
  "check_entry d pe named e =
     (case e of (entry, _, plan) \<Rightarrow>
      bindE (str_item entry ''campaign_id'') (\<lambda>cid.
      bindE (if named then bindE (ident_field (PyStr cid)) (\<lambda>_. Inr ()) else Inr ()) (\<lambda>_.
      bindE (entry_path d entry) (\<lambda>dir.
      validate_capture_paths (pe_digest pe) (pe_windows pe) (pe_path_length pe) dir cid plan))))"

definition reference_document :: "reference \<Rightarrow> (string \<times> py) list \<Rightarrow> py" where
  "reference_document r extra = PyDict
     ([(''candidate_id'', rf_candidate_id r), (''kind'', rf_kind r), (''threshold'', rf_threshold r)] @ extra @
      [(''model_sha256'', rf_model_sha256 r), (''file_sha256'', PyDict (rf_file_sha256 r)), (''model_loaded'', PyBool False),
       (''prediction_performed'', PyBool False), (''fit_performed'', PyBool False)])"

definition lock_file :: "'r disk \<Rightarrow> locked \<Rightarrow> path \<Rightarrow> locked res" where
  "lock_file d locked p = bindE (dk_hash d p) (\<lambda>h. Inr (dict_set (dk_str d p) (PyStr h) locked))"

text \<open>The key is the resolved path, the digest is read at the path itself.\<close>

definition lock_resolved :: "'r disk \<Rightarrow> locked \<Rightarrow> path \<Rightarrow> locked res" where
  "lock_resolved d locked p = bindE (dk_hash d p) (\<lambda>h. Inr (dict_set (dk_str d (dk_resolve d p)) (PyStr h) locked))"

definition make_base :: "path \<Rightarrow> (batch_world, unit) act" where
  "make_base base = on_world (on_store (mkdir_parents base))"

definition prepare_entry :: "'g preparation \<Rightarrow> path \<Rightarrow> string \<times> campaign_plan \<Rightarrow> (batch_world, path) act" where
  "prepare_entry pr base p =
     on_world (on_store (prepare_campaign (bp_rng pr) (bp_campaign pr) (snd p) (fst p) base ''controlled_experiment''))"

section \<open>The augmentation batch\<close>

definition batch_code :: "'g preparation \<Rightarrow> path list" where
  "batch_code pr =
     (let ai = bp_ai_root pr in
      bp_glob pr (path_join ai (Rel [''data_collection''])) @
      [path_join ai (Rel [''data_collection'', ''augmentation.py'']), path_join ai (Rel [''data_preparation'', ''operational_dataset.py'']),
       path_join ai (Rel [''configs'', ''operational_feature_schema.json''])])"

definition lock_batch :: "'r disk \<Rightarrow> 'g preparation \<Rightarrow> reference \<Rightarrow> path \<Rightarrow> path \<Rightarrow> path \<Rightarrow> locked res" where
  "lock_batch d pr reference design_path server_exe scenario_manifest =
     bindE (foldE (lock_resolved d) [] [design_path, server_exe, scenario_manifest]) (\<lambda>locked.
     foldE (lock_file d) (dict_update locked (rf_file_sha256 reference)) (batch_code pr))"

definition plan_batch ::
    "'r disk \<Rightarrow> 'g preparation \<Rightarrow> path \<Rightarrow> string \<Rightarrow> path \<Rightarrow> path \<Rightarrow> path
      \<Rightarrow> (path \<times> py \<times> reference \<times> (py \<times> py \<times> campaign_plan) list \<times> locked) res" where
  "plan_batch d pr design_path batch_id output_dir server_exe scenario_manifest =
     bindE (ident_field (PyStr batch_id)) (\<lambda>_.
     bindE (dk_json d design_path) (\<lambda>design.
     bindE (compile_plans (bp_shuffle pr) (pe_digest (bp_campaign pr)) design) (\<lambda>plans.
     bindE (str_item design ''reference_selection'') (\<lambda>selection.
     bindE (freeze_reference d (path_join (path_parent design_path) (dk_path d selection))) (\<lambda>reference.
     let base = path_join (dk_resolve d output_dir) (Rel [batch_id]) in
     bindE (mapE (\<lambda>(slot, plan). bindE (str_item slot ''slot_id'') (\<lambda>sid.
        Inr (batch_entry d base (batch_id @ ''_'' @ sid) (slot, plan), slot, plan))) plans) (\<lambda>entries.
     bindE (forE (check_entry d (bp_campaign pr) True) entries) (\<lambda>_.
     bindE (lock_batch d pr reference design_path server_exe scenario_manifest) (\<lambda>locked.
     Inr (base, design, reference, entries, locked)))))))))"

definition batch_registry_document ::
    "'r disk \<Rightarrow> string \<Rightarrow> string \<Rightarrow> py \<Rightarrow> reference \<Rightarrow> py list \<Rightarrow> locked \<Rightarrow> path \<Rightarrow> py res" where
  "batch_registry_document d now batch_id design reference entries locked design_path =
     bindE (py_item design ''feature_contract_id'') (\<lambda>contract.
     bindE (py_item design ''target_dataset_id'') (\<lambda>target.
     bindE (dk_hash d design_path) (\<lambda>h.
     Inr (PyDict [(''assignment_version'', PyStr ''v1''), (''batch_id'', PyStr batch_id), (''locked_at_utc'', PyStr now),
       (''prepared_before_collection'', PyBool True), (''split_policy'', PyStr ''preassigned_campaign_holdout''),
       (''feature_contract_id'', contract), (''target_dataset_id'', target), (''campaigns'', PyList entries),
       (''reference_baseline'', reference_document reference []), (''locked_file_sha256'', PyDict locked),
       (''design_path'', PyStr (dk_str d design_path)), (''design_sha256'', PyStr h)]))))"

definition campaign_manifest_hash :: "'r disk \<Rightarrow> py \<Rightarrow> (string \<times> py) res" where
  "campaign_manifest_hash d entry =
     bindE (entry_path d entry) (\<lambda>dir.
     let p = path_join dir (Rel [''campaign_manifest.json'']) in
     bindE (dk_hash d p) (\<lambda>h. Inr (dk_str d p, PyStr h)))"

text \<open>The id of a campaign and its plan, in the order of the registry.\<close>

definition named_plans :: "(py \<times> py \<times> campaign_plan) list \<Rightarrow> (string \<times> campaign_plan) list res" where
  "named_plans entries = mapE (\<lambda>(entry, _, plan). bindE (str_item entry ''campaign_id'') (\<lambda>cid. Inr (cid, plan))) entries"

definition prepare_batch ::
    "('c, 'r) batch_env \<Rightarrow> 'g preparation \<Rightarrow> path \<Rightarrow> string \<Rightarrow> path \<Rightarrow> path \<Rightarrow> path \<Rightarrow> (batch_world, path) act" where
  "prepare_batch env pr design_path0 batch_id output_dir server_exe scenario_manifest =
     bindS (look env (\<lambda>d. Inr (dk_resolve d design_path0))) (\<lambda>design_path.
     bindS (look env (\<lambda>d. plan_batch d pr design_path batch_id output_dir server_exe scenario_manifest))
       (\<lambda>(base, design, reference, entries, locked).
     let registry_path = path_join base (Rel [''assignment_manifest.json'']) in
     bindS (make_base base) (\<lambda>_.
     bindS (\<lambda>w. look env (\<lambda>d. batch_registry_document d (bn_now env w) batch_id design reference (map fst entries) locked design_path) w)
       (\<lambda>registry.
     bindS (write_file env registry_path (JsonDoc registry)) (\<lambda>_.
     bindS (liftS (named_plans entries)) (\<lambda>plans.
     bindS (forS (\<lambda>p. bindS (prepare_entry pr base p) (\<lambda>_. retS ())) plans) (\<lambda>_.
     bindS (look env (\<lambda>d. dk_hash d registry_path)) (\<lambda>ah.
     bindS (look env (\<lambda>d. mapE (campaign_manifest_hash d) (map fst entries))) (\<lambda>manifests.
     bindS (\<lambda>w. write_file env (path_join base (Rel [''prepared_manifest.json'']))
       (JsonDoc (PyDict [(''assignment_sha256'', PyStr ah), (''prepared_at_utc'', PyStr (bn_now env w)),
          (''campaign_manifest_sha256'', PyDict (dict_update [] manifests))])) w) (\<lambda>_.
     retS base))))))))))"

section \<open>The recovery batch\<close>

definition outside_batch :: "'r disk \<Rightarrow> path \<Rightarrow> path list \<Rightarrow> unit res" where
  "outside_batch d base ps =
     check (\<not> list_ex (\<lambda>p. is_relative_to (dk_resolve d p) base) ps) (ValueError ''outputs inside the batch'')"

definition recovery_code :: "'g preparation \<Rightarrow> path list" where
  "recovery_code pr =
     (let ai = bp_ai_root pr in
      bp_glob pr (path_join ai (Rel [''data_collection''])) @ bp_glob pr (path_join ai (Rel [''inference_api''])) @
      map (\<lambda>ns. path_join ai (Rel ns))
        [[''scripts'', ''collect_operational_recovery.py''], [''data_preparation'', ''operational_dataset.py''],
         [''data_preparation'', ''operational_prefix_features.py'']])"

record recovery_paths =
  vp_design :: path
  vp_previous :: path
  vp_output_dir :: path
  vp_server_exe :: path
  vp_scenario_manifest :: path
  vp_dataset_output :: path
  vp_report_prefix :: path
  vp_dataset_prefix :: path
  vp_final_report :: path
  vp_diagnosis_report :: path

definition lock_recovery :: "'r disk \<Rightarrow> 'g preparation \<Rightarrow> reference \<Rightarrow> recovery_paths \<Rightarrow> locked res" where
  "lock_recovery d pr reference v =
     bindE (foldE (lock_resolved d) [] [vp_design v, vp_previous v, vp_server_exe v, vp_scenario_manifest v,
        path_join (bp_ai_root pr) (Rel [''configs'', ''operational_feature_schema.json''])]) (\<lambda>locked.
     foldE (lock_resolved d) (dict_update locked (rf_file_sha256 reference)) (recovery_code pr))"

definition plan_recovery_batch ::
    "'r disk \<Rightarrow> 'g preparation \<Rightarrow> recovery_paths \<Rightarrow> string
      \<Rightarrow> (path \<times> py \<times> reference \<times> (py \<times> py \<times> campaign_plan) list \<times> locked) res" where
  "plan_recovery_batch d pr v batch_id =
     bindE (ident_field (PyStr batch_id)) (\<lambda>_.
     bindE (require_new_outputs d (vp_dataset_output v) (vp_report_prefix v) (vp_dataset_prefix v)) (\<lambda>_.
     bindE (dk_json d (vp_design v)) (\<lambda>design.
     bindE (dk_json d (vp_previous v)) (\<lambda>previous.
     bindE (compile_recovery_plans (bp_shuffle pr) (pe_digest (bp_campaign pr)) (bp_label_text pr) design previous) (\<lambda>plans.
     bindE (freeze_recovery_reference d (dk_resolve d (vp_final_report v)) (dk_resolve d (vp_diagnosis_report v)) (vp_design v)) (\<lambda>reference.
     bindE (check (de_is_file (dk_data d) (vp_server_exe v)) (FileNotFoundError ''Server.exe'')) (\<lambda>_.
     let base = path_join (dk_resolve d (vp_output_dir v)) (Rel [batch_id]) in
     bindE (outside_batch d base [vp_dataset_output v, vp_report_prefix v, vp_dataset_prefix v]) (\<lambda>_.
     let entries = map (\<lambda>(i, slot, plan). (batch_entry d base (batch_id @ ''_c'' @ nat_str i) (slot, plan), slot, plan)) (enumerate 0 plans) in
     bindE (forE (check_entry d (bp_campaign pr) False) entries) (\<lambda>_.
     bindE (lock_recovery d pr reference v) (\<lambda>locked.
     Inr (base, design, reference, entries, locked)))))))))))"

definition crossing_document :: "int option \<times> int \<times> int \<Rightarrow> py" where
  "crossing_document c = (case c of (b, l, h) \<Rightarrow> PyList [py_opt b, PyInt l, PyInt h])"

definition summary_document :: "recovery_summary \<Rightarrow> py" where
  "summary_document s = PyDict
     [(''status'', PyStr ''compiled_design_not_collected''),
      (''splits'', PyDict (map (\<lambda>(k, y). (k, PyDict [(''campaigns'', PyInt (int (dy_campaigns y))), (''runs'', PyInt (int (dy_runs y))),
         (''sessions'', PyInt (dy_sessions y)), (''expected_message_rows'', PyInt (dy_expected_rows y)),
         (''normal_batch_crossing'', PyList (map crossing_document (dy_crossing y)))])) (ry_splits s))),
      (''planned_runs'', PyInt (int (ry_planned_runs s))), (''planned_sessions'', PyInt (ry_planned_sessions s)),
      (''candidate_input_columns'', PyDict (map (\<lambda>(k, cs). (k, py_strs cs)) (ry_candidate_columns s))),
      (''planned_trial_count'', PyInt 20), (''collection_performed'', PyBool False), (''fit_performed'', PyBool False)]"

definition recovery_registry_document ::
    "'r disk \<Rightarrow> 'g preparation \<Rightarrow> string \<Rightarrow> recovery_paths \<Rightarrow> string \<Rightarrow> py \<Rightarrow> reference \<Rightarrow> (py \<times> py \<times> campaign_plan) list \<Rightarrow> locked \<Rightarrow> py res" where
  "recovery_registry_document d pr now v batch_id design reference entries locked =
     bindE (py_item design ''split_policy'') (\<lambda>policy.
     bindE (py_item design ''raw_feature_contract_id'') (\<lambda>contract.
     bindE (py_item design ''target_dataset_id'') (\<lambda>target.
     bindE (summarize_recovery_design (bp_rng pr) (pe_frame_hash (bp_campaign pr)) (pe_digest (bp_campaign pr)) design (map snd entries)) (\<lambda>summary.
     bindE (dk_hash d (vp_design v)) (\<lambda>h.
     Inr (PyDict [(''assignment_version'', PyStr ''v1''), (''batch_kind'', PyStr ''recovery_v1''), (''batch_id'', PyStr batch_id),
       (''locked_at_utc'', PyStr now), (''prepared_before_collection'', PyBool True), (''split_policy'', policy),
       (''feature_contract_id'', contract), (''target_dataset_id'', target), (''campaigns'', PyList (map fst entries)),
       (''reference_baseline'', reference_document reference [(''deployment_approval'', PyStr ''withheld_after_test''),
          (''previous_test_exposed'', PyBool True)]),
       (''recovery_plan_snapshot'', design), (''planned_summary'', summary_document summary), (''locked_file_sha256'', PyDict locked),
       (''design_path'', PyStr (dk_str d (vp_design v))), (''design_sha256'', PyStr h),
       (''server_exe'', PyStr (dk_str d (dk_resolve d (vp_server_exe v)))),
       (''outputs'', PyDict [(''dataset_output'', PyStr (dk_str d (dk_resolve d (vp_dataset_output v)))),
          (''report_prefix'', PyStr (dk_str d (dk_resolve d (vp_report_prefix v)))),
          (''dataset_report_prefix'', PyStr (dk_str d (dk_resolve d (vp_dataset_prefix v))))])]))))))"

text \<open>The inputs of a prepared campaign: its manifest and the configuration and expectations of every run.\<close>

definition capture_inputs :: "'r disk \<Rightarrow> path \<Rightarrow> locked \<Rightarrow> locked res" where
  "capture_inputs d campaign_root locked =
     (let manifest_path = path_join campaign_root (Rel [''campaign_manifest.json'']) in
      bindE (dk_json d manifest_path) (\<lambda>manifest.
      bindE (lock_file d locked manifest_path) (\<lambda>locked1.
      bindE (py_items manifest ''runs'') (\<lambda>runs.
      foldE (\<lambda>l run. foldE (\<lambda>l name. bindE (str_item run name) (\<lambda>s. lock_file d l (path_join campaign_root (dk_path d s)))) l
        [''config_file'', ''expectations_file'']) locked1 runs))))"

definition prepare_recovery_entry ::
    "('c, 'r) batch_env \<Rightarrow> 'g preparation \<Rightarrow> path \<Rightarrow> locked \<Rightarrow> string \<times> campaign_plan \<Rightarrow> (batch_world, locked) act" where
  "prepare_recovery_entry env pr base locked p =
     bindS (prepare_entry pr base p) (\<lambda>campaign_root. look env (\<lambda>d. capture_inputs d campaign_root locked))"

primrec foldS :: "('b \<Rightarrow> 'a \<Rightarrow> ('s, 'b) act) \<Rightarrow> 'b \<Rightarrow> 'a list \<Rightarrow> ('s, 'b) act" where
  "foldS f b [] = retS b"
| "foldS f b (x # xs) = bindS (f b x) (\<lambda>c. foldS f c xs)"

definition write_recovery_batch ::
    "('c, 'r) batch_env \<Rightarrow> 'g preparation \<Rightarrow> recovery_paths \<Rightarrow> string \<Rightarrow> path \<Rightarrow> py \<Rightarrow> reference
      \<Rightarrow> (py \<times> py \<times> campaign_plan) list \<Rightarrow> locked \<Rightarrow> (batch_world, path) act" where
  "write_recovery_batch env pr v batch_id base design reference entries locked =
     (let registry_path = path_join base (Rel [''assignment_manifest.json'']) in
      bindS (\<lambda>w. look env (\<lambda>d. recovery_registry_document d pr (bn_now env w) v batch_id design reference entries locked) w) (\<lambda>registry.
      bindS (write_file env registry_path (JsonDoc registry)) (\<lambda>_.
      bindS (liftS (named_plans entries)) (\<lambda>plans.
      bindS (foldS (prepare_recovery_entry env pr base) [] plans) (\<lambda>captures.
      bindS (look env (\<lambda>d. verify_hashes d locked)) (\<lambda>_.
      bindS (look env (\<lambda>d. dk_hash d registry_path)) (\<lambda>ah.
      bindS (\<lambda>w. write_file env (path_join base (Rel [''prepared_manifest.json'']))
        (JsonDoc (PyDict [(''status'', PyStr ''prepared''), (''assignment_sha256'', PyStr ah), (''prepared_at_utc'', PyStr (bn_now env w)),
           (''capture_input_sha256'', PyDict captures), (''collection_started'', PyBool False)])) w) (\<lambda>_.
      retS base))))))))"

text \<open>A failure is left in the directory before it is raised again.\<close>

definition failure_document :: "exn \<Rightarrow> py" where
  "failure_document e = PyDict [(''status'', PyStr ''failed''), (''error'', PyStr (exn_text e))]"

definition record_preparation_failure :: "('c, 'r) batch_env \<Rightarrow> path \<Rightarrow> (batch_world, 'a) act \<Rightarrow> (batch_world, 'a) act" where
  "record_preparation_failure env base m w =
     (case m w of
        (Inr a, v) \<Rightarrow> (Inr a, v)
      | (Inl e, v) \<Rightarrow> bindS (write_file env (path_join base (Rel [''preparation_failure.json''])) (JsonDoc (failure_document e)))
          (\<lambda>_. raiseS e) v)"

definition prepare_recovery_batch ::
    "('c, 'r) batch_env \<Rightarrow> 'g preparation \<Rightarrow> recovery_paths \<Rightarrow> string \<Rightarrow> (batch_world, path) act" where
  "prepare_recovery_batch env pr v0 batch_id =
     bindS (look env (\<lambda>d. Inr (v0\<lparr>vp_design := dk_resolve d (vp_design v0), vp_previous := dk_resolve d (vp_previous v0)\<rparr>))) (\<lambda>v.
     bindS (look env (\<lambda>d. plan_recovery_batch d pr v batch_id)) (\<lambda>(base, design, reference, entries, locked).
     bindS (make_base base) (\<lambda>_.
     record_preparation_failure env base (write_recovery_batch env pr v batch_id base design reference entries locked))))"

end
