(* ===== verification/Holdout.thy ===== *)
theory Holdout
  imports Batch Sequences
begin

text \<open>
  \<open>evaluation/operational_final_data.py\<close>: the reservation of a test set for one locked policy, the
  loading of the test files under that reservation, and the windows of the final evaluation. A file
  is the JSON value it holds or its raw content, and a directory that must be new is an entry too;
  \<open>file_env\<close> holds the environment of the dataset loader (SHA-256, the JSON grammar, parsers), the JSON
  text of a document, paths and the fixed explanatory text of a receipt. A written document reads back as itself; files are opened for
  writing with mode \<open>x\<close>.
\<close>

section \<open>Files\<close>

datatype stored = Document py | Content string | Folder

type_synonym store = "path \<Rightarrow> stored option"

record file_env =
  fv_load :: load_env
  fv_dumps :: "py \<Rightarrow> string"
  fv_path :: "string \<Rightarrow> path"
  fv_text :: "path \<Rightarrow> string"
  fv_resolve :: "path \<Rightarrow> path"
  fv_key :: "py \<Rightarrow> string"
  fv_now :: string
  fv_notice :: string

text \<open>The bytes of a file and their digest.\<close>

fun stored_text :: "file_env \<Rightarrow> stored \<Rightarrow> string" where
  "stored_text env (Content c) = c"
| "stored_text env (Document v) = fv_dumps env v"
| "stored_text env Folder = []"

definition fv_sha :: "file_env \<Rightarrow> stored \<Rightarrow> string" where
  "fv_sha env f = le_sha (fv_load env) (stored_text env f)"

definition read_stored :: "file_env \<Rightarrow> store \<Rightarrow> path \<Rightarrow> stored res" where
  "read_stored env s p = (case s p of None \<Rightarrow> Inl (FileNotFoundError (fv_text env p))
     | Some f \<Rightarrow> if f = Folder then Inl (OSError (fv_text env p)) else Inr f)"

definition file_sha :: "file_env \<Rightarrow> store \<Rightarrow> path \<Rightarrow> string res" where
  "file_sha env s p = bindE (read_stored env s p) (\<lambda>f. Inr (fv_sha env f))"

definition json_at :: "file_env \<Rightarrow> store \<Rightarrow> path \<Rightarrow> py res" where
  "json_at env s p = bindE (read_stored env s p) (\<lambda>f. case f of
     Document v \<Rightarrow> Inr v | Content c \<Rightarrow> parse_json (le_decode (fv_load env)) c | Folder \<Rightarrow> Inl (OSError []))"

text \<open>\<open>write_json\<close>: the file must be new.\<close>

definition write_new :: "file_env \<Rightarrow> path \<Rightarrow> py \<Rightarrow> (store, unit) act" where
  "write_new env p v s = (if s p \<noteq> None then (Inl (FileExistsError (fv_text env p)), s) else (Inr (), s(p \<mapsto> Document v)))"

text \<open>\<open>mkdir(exist_ok=False)\<close>.\<close>

definition make_dir :: "file_env \<Rightarrow> path \<Rightarrow> (store, unit) act" where
  "make_dir env p s = (if s p \<noteq> None then (Inl (FileExistsError (fv_text env p)), s) else (Inr (), s(p \<mapsto> Folder)))"

definition reading :: "(store \<Rightarrow> 'a res) \<Rightarrow> (store, 'a) act" where
  "reading f s = (f s, s)"

lemma bindS_reading: "bindS (reading f) g s = (case f s of Inl e \<Rightarrow> (Inl e, s) | Inr a \<Rightarrow> g a s)"
  by (simp add: bindS_def reading_def)

lemma bindS_lift: "bindS (liftS r) g s = (case r of Inl e \<Rightarrow> (Inl e, s) | Inr a \<Rightarrow> g a s)"
  by (simp add: bindS_def liftS_def)

definition verify_stored :: "file_env \<Rightarrow> store \<Rightarrow> locked \<Rightarrow> unit res" where
  "verify_stored env s hashes = forE (\<lambda>(name, digest).
     case s (fv_path env name) of None \<Rightarrow> Inl (ValueError name)
     | Some f \<Rightarrow> check (f \<noteq> Folder \<and> py_eq (PyStr (fv_sha env f)) digest) (ValueError name)) hashes"

section \<open>Reservation\<close>

definition TEST_FILES :: "string list" where
  "TEST_FILES = [''X_test.csv'', ''y_test.csv'', ''metadata_test.csv'']"

definition in_dir :: "path \<Rightarrow> string \<Rightarrow> path" where
  "in_dir p name = path_join p (Rel [name])"

definition expected_test_hashes :: "file_env \<Rightarrow> path \<Rightarrow> store \<Rightarrow> py res" where
  "expected_test_hashes env directory s =
     bindE (json_at env s (in_dir directory ''dataset_manifest.json'')) (\<lambda>manifest.
     bindE (mapE (\<lambda>n. bindE (path_items manifest [''output_files'', n, ''sha256'']) (\<lambda>h. Inr (n, h))) TEST_FILES)
       (\<lambda>hs. Inr (PyDict hs)))"

text \<open>The locked candidate, read before the test.\<close>

definition read_gate :: "file_env \<Rightarrow> path \<Rightarrow> string \<Rightarrow> store \<Rightarrow> py res" where
  "read_gate env gate_path gate_hash s =
     bindE (file_sha env s gate_path) (\<lambda>h.
     bindE (check (h = gate_hash) (ValueError ''gate hash'')) (\<lambda>_.
     json_at env s gate_path))"

definition gate_refusals :: "py \<Rightarrow> bool res list" where
  "gate_refusals gate = [item_ne gate ''status'' (PyStr ''candidate_locked_before_test''),
     item_is_not gate ''test_files_read'' False]"

definition policy_fields :: "string list" where
  "policy_fields = [''expected_test_sha256'', ''policy_signature'', ''selected_model_id'']"

definition receipt_document :: "file_env \<Rightarrow> path \<Rightarrow> string \<Rightarrow> py list \<Rightarrow> py" where
  "receipt_document env gate_path gate_hash values = PyDict
     ([(''status'', PyStr ''reserved_after_candidate_lock''), (''reserved_at_utc'', PyStr (fv_now env))] @
      zip policy_fields values @
      [(''first_candidate_lock'', PyStr (fv_text env (fv_resolve env gate_path))),
       (''first_candidate_lock_sha256'', PyStr gate_hash), (''notice'', PyStr (fv_notice env))])"

definition receipt_path :: "file_env \<Rightarrow> path \<Rightarrow> py \<Rightarrow> path" where
  "receipt_path env registry expected = in_dir registry (fv_key env expected @ ''.json'')"

definition take_receipt :: "file_env \<Rightarrow> path \<Rightarrow> string \<Rightarrow> path \<Rightarrow> py list \<Rightarrow> (store, path \<times> bool) act" where
  "take_receipt env gate_path gate_hash path values s =
     (case write_new env path (receipt_document env gate_path gate_hash values) s of
        (Inl _, s') \<Rightarrow>
          bindS (reading (\<lambda>s. json_at env s path)) (\<lambda>existing.
          bindS (liftS (rejectE (ValueError ''reserved for another policy'')
            (map (\<lambda>(k, v). item_ne existing k v) (zip policy_fields values)))) (\<lambda>_.
          retS (path, True))) s'
      | (Inr _, s') \<Rightarrow> (Inr (path, False), s'))"

definition reserve_holdout :: "file_env \<Rightarrow> path \<Rightarrow> path \<Rightarrow> string \<Rightarrow> (store, path \<times> bool) act" where
  "reserve_holdout env registry gate_path gate_hash =
     bindS (reading (read_gate env gate_path gate_hash)) (\<lambda>gate.
     bindS (liftS (rejectE (ValueError ''gate'') (gate_refusals gate))) (\<lambda>_.
     bindS (liftS (py_item gate ''expected_test_sha256'')) (\<lambda>expected.
     bindS (liftS (mapE (py_item gate) policy_fields)) (\<lambda>values.
     take_receipt env gate_path gate_hash (receipt_path env registry expected) values))))"

section \<open>Loading the test\<close>

definition receipt_refusals :: "py \<Rightarrow> py \<Rightarrow> bool res list" where
  "receipt_refusals gate receipt = gate_refusals gate @
     item_ne receipt ''status'' (PyStr ''reserved_after_candidate_lock'') #
     map (\<lambda>k. bindE (py_item receipt k) (\<lambda>a. bindE (py_item gate k) (\<lambda>b. Inr (\<not> py_eq a b))))
       [''policy_signature'', ''expected_test_sha256'', ''selected_model_id'']"

definition read_test_table :: "file_env \<Rightarrow> store \<Rightarrow> path \<Rightarrow> py \<Rightarrow> py \<Rightarrow> string \<times> string list \<Rightarrow> (string \<times> string \<times> frame) res" where
  "read_test_table env s directory gate manifest p =
     (case p of (name, columns) \<Rightarrow>
      bindE (read_stored env s (in_dir directory name)) (\<lambda>f.
      let digest = fv_sha env f in
      bindE (path_items gate [''expected_test_sha256'', name]) (\<lambda>h.
      bindE (check (py_eq (PyStr digest) h) (ValueError name)) (\<lambda>_.
      bindE (le_csv (fv_load env) (stored_text env f)) (\<lambda>t.
      bindE (path_items manifest [''output_files'', name]) (\<lambda>description.
      bindE (rejectE (ValueError name)
        [Inr (fr_columns t \<noteq> columns), item_ne description ''columns'' (py_strs columns), Inr (fr_rows t = []),
         bindE (py_item description ''rows'') (\<lambda>n. Inr (\<not> py_eq (PyInt (int (length (fr_rows t)))) n)),
         Inr (list_ex (\<lambda>r. [] \<in> set r) (fr_rows t))]) (\<lambda>_.
      Inr (name, digest, t))))))))"

definition check_test_tables :: "py \<Rightarrow> frame \<Rightarrow> frame \<Rightarrow> frame \<Rightarrow> unit res" where
  "check_test_tables manifest raw targets metadata =
     bindE (check (length (fr_rows raw) = length (fr_rows targets) \<and> length (fr_rows targets) = length (fr_rows metadata))
       (ValueError ''test tables'')) (\<lambda>_.
     bindE (path_items manifest [''splits'', ''test'', ''rows'']) (\<lambda>n.
     check (py_eq (PyInt (int (length (fr_rows metadata)))) n \<and> set (col targets ''label'') = {''0'', ''1''} \<and>
         set (col metadata ''split'') = {''test''} \<and> distinct (col metadata ''row_id'') \<and>
         distinct (cols metadata (GROUP_COLUMNS @ [''request_index'']))) (ValueError ''test tables'')))"

definition test_features :: "load_env \<Rightarrow> py \<Rightarrow> frame \<Rightarrow> string list \<Rightarrow> message_features res" where
  "test_features env schema raw row =
     bindE (mapE (\<lambda>n. bindE (path_items schema [''feature_dtypes'', n]) (\<lambda>t.
        if py_eq t (PyStr ''integer'')
        then bindE (le_int env (cell raw n row)) (\<lambda>i. Inr (n, PyInt i))
        else bindE (le_float env (cell raw n row)) (\<lambda>x. Inr (n, PyFloat x)))) MESSAGE_FEATURE_ORDER) (\<lambda>d.
     parse_message_features (PyDict d))"

definition test_row :: "load_env \<Rightarrow> py \<Rightarrow> frame \<Rightarrow> frame \<Rightarrow> string list \<times> string list \<Rightarrow> message_features res" where
  "test_row env schema raw metadata p =
     bindE (test_features env schema raw (fst p)) (\<lambda>f.
     bindE (check (fingerprint (le_repr env) (le_sha env) f = cell metadata ''feature_hash'' (snd p))
       (ValueError ''test row'')) (\<lambda>_.
     bindE (bindE (py_item (le_contract env) ''application_header_size_bytes'') int_item) (\<lambda>header.
     bindE (check (mf_packet_size f = mf_payload_size f + header) (ValueError ''test row'')) (\<lambda>_.
     Inr f))))"

definition identity_columns :: "string list list" where
  "identity_columns = [[''campaign_id''], [''run_id''], GROUP_COLUMNS, [''row_id'']]"

definition check_test_split :: "load_env \<Rightarrow> py \<Rightarrow> py \<Rightarrow> frame \<Rightarrow> frame \<Rightarrow> unit res" where
  "check_test_split env manifest assignments targets metadata =
     bindE (assigned_runs assignments ''test'') (\<lambda>assigned.
     bindE (check (set (map fst assigned) = set (col metadata ''run_id'')) (ValueError ''test runs'')) (\<lambda>_.
     bindE (forE (check_run env metadata assigned) (group_by (cell metadata ''run_id'') (fr_rows metadata))) (\<lambda>_.
     bindE (path_items manifest [''splits'', ''test'', ''label_distribution'']) (\<lambda>d.
     check (py_eq (label_counts_py (col targets ''label'')) d) (ValueError ''distribution'')))))"

definition check_apart :: "op_data \<Rightarrow> frame \<Rightarrow> unit res" where
  "check_apart data metadata =
     forE (\<lambda>names. forE (\<lambda>other. check (\<not> leak metadata (op_meta other) names) (ValueError ''mixed with the test''))
       [od_train data, od_validation data]) identity_columns"

definition make_test_split :: "load_env \<Rightarrow> op_data \<Rightarrow> py \<Rightarrow> py \<Rightarrow> frame \<Rightarrow> frame \<Rightarrow> frame \<Rightarrow> op_split res" where
  "make_test_split env data manifest assignments raw targets metadata =
     bindE (check_test_tables manifest raw targets metadata) (\<lambda>_.
     bindE (mapE (test_row env (od_schema data) raw metadata) (zip (fr_rows raw) (fr_rows metadata))) (\<lambda>fs.
     bindE (check_test_split env manifest assignments targets metadata) (\<lambda>_.
     bindE (check_apart data metadata) (\<lambda>_.
     Inr \<lparr>op_columns = MESSAGE_FEATURE_ORDER, op_X = map feature_row fs,
       op_y = map (\<lambda>l. if l = ''1'' then 1 else 0) (col targets ''label''), op_meta = metadata\<rparr>))))"

definition check_test_manifest :: "file_env \<Rightarrow> store \<Rightarrow> path \<Rightarrow> op_data \<Rightarrow> py \<Rightarrow> py \<Rightarrow> unit res" where
  "check_test_manifest env s directory data gate manifest =
     rejectE (ValueError ''test manifest'')
       [bindE (file_sha env s (in_dir directory ''dataset_manifest.json'')) (\<lambda>h.
          bindE (lookupE (od_evidence data) ''dataset_manifest.json'') (\<lambda>e. Inr (h \<noteq> e))),
        bindE (expected_test_hashes env directory s) (\<lambda>e. bindE (py_item gate ''expected_test_sha256'') (\<lambda>g. Inr (\<not> py_eq e g))),
        item_ne manifest ''dataset_id'' (PyStr (od_dataset_id data))]"

definition load_test ::
    "file_env \<Rightarrow> path \<Rightarrow> op_data \<Rightarrow> path \<Rightarrow> string \<Rightarrow> path \<Rightarrow> store \<Rightarrow> (op_split \<times> (string, string) dict) res" where
  "load_test env directory data gate_path gate_hash receipt s =
     bindE (read_gate env gate_path gate_hash s) (\<lambda>gate.
     bindE (json_at env s receipt) (\<lambda>record.
     bindE (rejectE (ValueError ''gate and receipt'') (receipt_refusals gate record)) (\<lambda>_.
     bindE (bindE (locked_of gate ''pre_test_protected_sha256'') (verify_stored env s)) (\<lambda>_.
     bindE (json_at env s (in_dir directory ''dataset_manifest.json'')) (\<lambda>manifest.
     bindE (check_test_manifest env s directory data gate manifest) (\<lambda>_.
     bindE (mapE (read_test_table env s directory gate manifest)
       (zip TEST_FILES [MESSAGE_FEATURE_ORDER, [''label''], METADATA_COLUMNS])) (\<lambda>tables.
     let frames = map (\<lambda>(n, h, f). f) tables in
     bindE (json_at env s (in_dir directory ''split_manifest.json'')) (\<lambda>assignments.
     bindE (make_test_split (fv_load env) data manifest assignments (frames ! 0) (frames ! 1) (frames ! 2)) (\<lambda>split.
     Inr (split, map (\<lambda>(n, h, f). (n, h)) tables))))))))))"

section \<open>Windows of the final evaluation\<close>

definition check_evaluation_source :: "op_split \<Rightarrow> unit res" where
  "check_evaluation_source source =
     bindE (check_source source) (\<lambda>_.
     let m = op_meta source in
     check (fr_columns m = METADATA_COLUMNS \<and> \<not> list_ex (\<lambda>r. [] \<in> set r) (fr_rows m) \<and> distinct (col m ''row_id'') \<and>
         length (remdups (col m ''split'')) = 1 \<and> hd (col m ''split'') \<in> {''train'', ''validation'', ''test''} \<and>
         list_all (\<lambda>(r, g). length (remdups (map (cell m ''campaign_id'') g)) \<le> 1) (group_by (cell m ''run_id'') (fr_rows m)))
       (ValueError ''evaluation metadata''))"

definition make_evaluation_windows :: "(string list \<Rightarrow> string) \<Rightarrow> op_split \<Rightarrow> py \<Rightarrow> string \<Rightarrow> windows res" where
  "make_evaluation_windows dumps source width dataset_id =
     bindE (case width of PyInt k \<Rightarrow> check (1 \<le> k \<and> k \<le> 64) (ValueError ''window size'')
       | _ \<Rightarrow> Inl (ValueError ''window size'')) (\<lambda>_.
     bindE (check_evaluation_source source) (\<lambda>_.
     bindE (request_indices (op_meta source)) (\<lambda>indices.
     let groups = sessions_of (op_meta source) indices; w = (case width of PyInt k \<Rightarrow> nat k | _ \<Rightarrow> 0) in
     bindE (forE (check_session_order source indices) groups) (\<lambda>_.
     Inr (assemble_windows source w dataset_id (fill_arrays dumps source w groups))))))"

definition row_text :: "load_env \<Rightarrow> string list \<times> seq_cells \<Rightarrow> string list" where
  "row_text env r = fst r @ [sc_window_id (snd r), py_show env (sc_context (snd r)), py_show env (sc_start (snd r)), sc_trace (snd r)]"

definition validate_evaluation_windows ::
    "load_env \<Rightarrow> (string list \<Rightarrow> string) \<Rightarrow> windows \<Rightarrow> op_split \<Rightarrow> py \<Rightarrow> string \<Rightarrow> unit res" where
  "validate_evaluation_windows env dumps ws source width dataset_id =
     bindE (make_evaluation_windows dumps source width dataset_id) (\<lambda>expected.
     bindE (check (wd_X ws = wd_X expected \<and> wd_y ws = wd_y expected \<and> wd_lengths ws = wd_lengths expected \<and>
         wd_mask ws = wd_mask expected \<and> wd_positions ws = wd_positions expected) (ValueError ''evaluation windows'')) (\<lambda>_.
     check (wd_columns ws = METADATA_COLUMNS @ SEQUENCE_COLUMNS \<and> map (row_text env) (wd_rows ws) = map (row_text env) (wd_rows expected))
       (ValueError ''evaluation window rows'')))"

end
