(* ===== verification/Policy.thy ===== *)
theory Policy
  imports Batch "HOL-Library.Product_Lexorder"
begin

text \<open>
  Judging predictions and choosing a decision policy: \<open>calculate_metrics\<close> and \<open>scenario_metrics\<close> of
  \<open>training/train_operational_logistic_regression.py\<close>, the diagnostics and the selection rules of
  \<open>evaluation/compare_operational_*.py\<close> and \<open>training/run_operational_validation_experiment.py\<close>.
  The scores of scikit-learn are parameters (\<open>metric_lib\<close>); arrays are lists with one entry for
  each row of the table.
\<close>

section \<open>Order of values\<close>

text \<open>\<open>a < b\<close>; tuples and lists compare at the first place where they differ.\<close>

fun py_lt :: "py \<Rightarrow> py \<Rightarrow> bool res" and list_lt :: "py list \<Rightarrow> py list \<Rightarrow> bool res" where
  "py_lt (PyStr s) (PyStr t) = Inr (s < t)"
| "py_lt (PyList xs) (PyList ys) = list_lt xs ys"
| "py_lt a b = py_gt b a"
| "list_lt xs [] = Inr False"
| "list_lt [] (y # ys) = Inr True"
| "list_lt (x # xs) (y # ys) = (if py_eq x y then list_lt xs ys else py_lt x y)"

fun py_neg :: "py \<Rightarrow> py res" where
  "py_neg (PyInt n) = Inr (PyInt (- n))"
| "py_neg (PyBool b) = Inr (PyInt (if b then - 1 else 0))"
| "py_neg (PyFloat x) = Inr (PyFloat (fneg x))"
| "py_neg _ = Inl (TypeError ''neg'')"

section \<open>Counting errors\<close>

definition decide :: "pyfloat \<Rightarrow> pyfloat list \<Rightarrow> int list" where
  "decide threshold ps = map (\<lambda>p. if fle threshold p then 1 else 0) ps"

record error_counts =
  ec_rows :: int
  ec_normal :: int
  ec_anomaly :: int
  ec_fp :: int
  ec_fn :: int

text \<open>Pairs of a label and a prediction.\<close>

definition count_errors :: "(int \<times> int) list \<Rightarrow> error_counts" where
  "count_errors ps = (let n = (\<lambda>P. int (length (filter P ps))) in
     \<lparr>ec_rows = int (length ps), ec_normal = n (\<lambda>(y, p). y = 0), ec_anomaly = n (\<lambda>(y, p). y = 1),
      ec_fp = n (\<lambda>(y, p). y = 0 \<and> p = 1), ec_fn = n (\<lambda>(y, p). y = 1 \<and> p = 0)\<rparr>)"

definition ratio :: "int \<Rightarrow> int \<Rightarrow> pyfloat" where
  "ratio a b = fl (of_int a / of_int b)"

definition ratio_or_none :: "int \<Rightarrow> int \<Rightarrow> py" where
  "ratio_or_none a b = (if b = 0 then PyNone else PyFloat (ratio a b))"

definition ratioE :: "int \<Rightarrow> int \<Rightarrow> pyfloat res" where
  "ratioE a b = (if b = 0 then Inl (ZeroDivisionError ''ratio'') else Inr (ratio a b))"

definition fpr_of :: "error_counts \<Rightarrow> py" where
  "fpr_of c = ratio_or_none (ec_fp c) (ec_normal c)"

definition recall_of :: "error_counts \<Rightarrow> py" where
  "recall_of c = ratio_or_none (ec_anomaly c - ec_fn c) (ec_anomaly c)"

text \<open>The four documents made of the counts differ in their keys.\<close>

definition counts_document :: "string \<Rightarrow> string \<Rightarrow> string \<Rightarrow> error_counts \<Rightarrow> py" where
  "counts_document normal anomaly fpr c = PyDict
     [(''rows'', PyInt (ec_rows c)), (normal, PyInt (ec_normal c)), (anomaly, PyInt (ec_anomaly c)),
      (''fp'', PyInt (ec_fp c)), (''fn'', PyInt (ec_fn c)), (''recall'', recall_of c), (fpr, fpr_of c)]"

text \<open>The pairs of the rows that satisfy a predicate.\<close>

definition pairs_where :: "(nat \<Rightarrow> bool) \<Rightarrow> op_split \<Rightarrow> int list \<Rightarrow> (int \<times> int) list" where
  "pairs_where P source prediction =
     map (\<lambda>i. (op_y source ! i, prediction ! i)) (filter P [0..<length (op_y source)])"

definition scenario_at :: "op_split \<Rightarrow> nat \<Rightarrow> string" where
  "scenario_at source i = cell (op_meta source) ''scenario_id'' (fr_rows (op_meta source) ! i)"

definition scenario_metrics :: "op_split \<Rightarrow> int list \<Rightarrow> py" where
  "scenario_metrics source prediction =
     PyDict (map (\<lambda>s. (s, counts_document ''normal_rows'' ''controlled_anomaly_rows'' ''false_positive_rate''
         (count_errors (pairs_where (\<lambda>i. scenario_at source i = s) source prediction))))
       (sort (remdups (col (op_meta source) ''scenario_id''))))"

definition message_position_counts :: "(string \<Rightarrow> int res) \<Rightarrow> op_split \<Rightarrow> int list \<Rightarrow> py res" where
  "message_position_counts to_int source prediction =
     bindE (mapE to_int (col (op_meta source) ''request_index'')) (\<lambda>indices.
     Inr (PyDict (map (\<lambda>(name, P). (name, counts_document ''normal'' ''anomaly'' ''fpr''
         (count_errors (pairs_where P source prediction))))
       [(''first_message'', \<lambda>i. indices ! i = 1), (''later_messages'', \<lambda>i. indices ! i \<noteq> 1)])))"

definition coverage_metrics :: "op_split \<Rightarrow> int list \<Rightarrow> int list \<Rightarrow> int \<Rightarrow> py" where
  "coverage_metrics source prediction lengths width =
     PyDict (map (\<lambda>(name, P). (name, counts_document ''normal'' ''controlled_anomaly'' ''false_positive_rate''
         (count_errors (pairs_where (\<lambda>i. P (lengths ! i)) source prediction))))
       [(''length_one'', \<lambda>n. n = 1), (''partial_length_2_to_max_minus_1'', \<lambda>n. 1 < n \<and> n < width),
        (''full_window'', \<lambda>n. n = width)])"

section \<open>Metrics\<close>

record metric_lib =
  ml_confusion :: "int list \<Rightarrow> int list \<Rightarrow> (int \<times> int \<times> int \<times> int) res"
  ml_accuracy :: "int list \<Rightarrow> int list \<Rightarrow> pyfloat res"
  ml_precision :: "int list \<Rightarrow> int list \<Rightarrow> pyfloat res"
  ml_recall :: "int list \<Rightarrow> int list \<Rightarrow> pyfloat res"
  ml_f1 :: "int list \<Rightarrow> int list \<Rightarrow> pyfloat res"
  ml_roc_auc :: "int list \<Rightarrow> pyfloat list \<Rightarrow> pyfloat res"
  ml_average_precision :: "int list \<Rightarrow> pyfloat list \<Rightarrow> pyfloat res"
  ml_log_loss :: "int list \<Rightarrow> pyfloat list \<Rightarrow> pyfloat res"

definition confusion_document :: "int \<times> int \<times> int \<times> int \<Rightarrow> py" where
  "confusion_document m = (case m of (tn, fp, fn, tp) \<Rightarrow> PyDict
     [(''label_order'', py_ints [0, 1]), (''rows'', PyStr ''actual''), (''columns'', PyStr ''predicted''),
      (''values'', PyList [py_ints [tn, fp], py_ints [fn, tp]]),
      (''tn'', PyInt tn), (''fp'', PyInt fp), (''fn'', PyInt fn), (''tp'', PyInt tp)])"

definition calculate_metrics :: "metric_lib \<Rightarrow> int list \<Rightarrow> pyfloat list \<Rightarrow> pyfloat \<Rightarrow> py res" where
  "calculate_metrics lib y probability threshold =
     (let prediction = decide threshold probability in
      bindE (ml_confusion lib y prediction) (\<lambda>(tn, fp, fn, tp).
      bindE (ml_accuracy lib y prediction) (\<lambda>accuracy.
      bindE (ml_precision lib y prediction) (\<lambda>precision.
      bindE (ml_recall lib y prediction) (\<lambda>recall.
      bindE (ml_f1 lib y prediction) (\<lambda>f1.
      bindE (ml_roc_auc lib y probability) (\<lambda>roc_auc.
      bindE (ml_average_precision lib y probability) (\<lambda>ap.
      bindE (ml_log_loss lib y probability) (\<lambda>loss.
      bindE (ratioE fp (fp + tn)) (\<lambda>fpr.
      bindE (ratioE fn (fn + tp)) (\<lambda>fnr.
      Inr (PyDict [(''rows'', PyInt (int (length y))), (''accuracy'', PyFloat accuracy), (''precision'', PyFloat precision),
        (''recall'', PyFloat recall), (''f1'', PyFloat f1), (''roc_auc'', PyFloat roc_auc),
        (''average_precision'', PyFloat ap), (''log_loss'', PyFloat loss),
        (''false_positive_rate'', PyFloat fpr), (''false_negative_rate'', PyFloat fnr),
        (''confusion_matrix'', confusion_document (tn, fp, fn, tp))]))))))))))))"

section \<open>Criteria\<close>

definition limit_reason :: "string \<times> py \<times> py \<times> bool \<Rightarrow> string list res" where
  "limit_reason row = (case row of (name, value, limit, upper) \<Rightarrow>
     if value = PyNone then Inr [name @ '' cannot be verified''] else
     bindE (py_isfinite value) (\<lambda>finite.
     if \<not> finite then Inr [name @ '' cannot be verified''] else
     bindE (if upper then py_gt value limit else py_gt limit value) (\<lambda>bad.
     Inr (if bad then [name @ '' misses its limit''] else []))))"

definition policy_rows :: "py \<Rightarrow> py \<Rightarrow> (string \<times> py \<times> py \<times> bool) list res" where
  "policy_rows trial criteria =
     bindE (py_item trial ''metrics'') (\<lambda>metrics.
     bindE (py_item trial ''by_scenario'') (\<lambda>scenarios.
     bindE (case scenarios of PyDict d \<Rightarrow>
         Inr (case map_of d ''normal_batched_chat'' of None \<Rightarrow> PyDict [] | Some b \<Rightarrow> b)
       | _ \<Rightarrow> Inl (AttributeError ''get'')) (\<lambda>batch.
     bindE (py_getE metrics ''false_positive_rate'') (\<lambda>fpr.
     bindE (py_item criteria ''max_false_positive_rate'') (\<lambda>max_fpr.
     bindE (py_getE batch ''false_positive_rate'') (\<lambda>batch_fpr.
     bindE (py_item criteria ''max_normal_batched_false_positive_rate'') (\<lambda>max_batch.
     bindE (py_getE metrics ''recall'') (\<lambda>recall.
     bindE (py_item criteria ''min_recall'') (\<lambda>min_recall.
     Inr [(''FPR'', fpr, max_fpr, True), (''batched FPR'', batch_fpr, max_batch, True),
          (''recall'', recall, min_recall, False)])))))))))"

definition rejection_reasons :: "py \<Rightarrow> py \<Rightarrow> string list res" where
  "rejection_reasons trial criteria =
     bindE (policy_rows trial criteria) (\<lambda>rows. bindE (mapE limit_reason rows) (\<lambda>rs. Inr (concat rs)))"

text \<open>The rule of the first experiments. A scalar is expected where numpy is asked for \<open>isfinite\<close>.\<close>

record selection_rule =
  rule_max_fpr :: pyfloat
  rule_min_recall :: pyfloat

fun np_isfinite :: "py \<Rightarrow> bool res" where
  "np_isfinite (PyInt n) = (if - (2 ^ 63) \<le> n \<and> n < 2 ^ 64 then Inr True else Inl (TypeError ''isfinite''))"
| "np_isfinite (PyBool b) = Inr True"
| "np_isfinite (PyFloat x) = Inr (is_finite x)"
| "np_isfinite _ = Inl (TypeError ''isfinite'')"

definition not_a_rate :: "py \<Rightarrow> string \<Rightarrow> bool res" where
  "not_a_rate metrics name =
     bindE (bindE (py_item metrics name) np_isfinite) (\<lambda>finite.
     if \<not> finite then Inr True else
     bindE (py_item metrics name) (\<lambda>v.
     anyE [py_gt (PyInt 0) v, py_gt v (PyInt 1)]))"

definition eligibility_reasons :: "py \<Rightarrow> bool \<Rightarrow> selection_rule \<Rightarrow> string list res" where
  "eligibility_reasons metrics acceptable rule =
     bindE (anyE (map (not_a_rate metrics) [''false_positive_rate'', ''recall'', ''f1''])) (\<lambda>invalid.
     if invalid then Inr [''not a rate''] else
     bindE (bindE (py_item metrics ''false_positive_rate'') (\<lambda>v. py_gt v (PyFloat (rule_max_fpr rule)))) (\<lambda>high.
     bindE (bindE (py_item metrics ''recall'') (\<lambda>v. py_gt (PyFloat (rule_min_recall rule)) v)) (\<lambda>low.
     Inr ((if acceptable then [] else [''not converged'']) @ (if high then [''FPR''] else []) @
       (if low then [''recall''] else [])))))"

section \<open>Choice\<close>

definition trial_key :: "py \<Rightarrow> py list res" where
  "trial_key trial =
     bindE (bindE (path_items trial [''metrics'', ''recall'']) py_neg) (\<lambda>recall.
     bindE (bindE (path_items trial [''metrics'', ''f1'']) py_neg) (\<lambda>f1.
     bindE (path_items trial [''metrics'', ''false_positive_rate'']) (\<lambda>fpr.
     bindE (py_item trial ''candidate_id'') (\<lambda>candidate.
     bindE (py_item trial ''threshold'') (\<lambda>threshold.
     Inr [recall, f1, fpr, candidate, threshold])))))"

text \<open>\<open>min(xs, key=...)\<close> on a non-empty list: the first of the smallest.\<close>

definition min_pass :: "('a \<Rightarrow> py list res) \<Rightarrow> py list \<times> 'a \<Rightarrow> 'a \<Rightarrow> (py list \<times> 'a) res" where
  "min_pass key best y =
     bindE (key y) (\<lambda>k. bindE (list_lt k (fst best)) (\<lambda>less. Inr (if less then (k, y) else best)))"

definition min_by :: "('a \<Rightarrow> py list res) \<Rightarrow> 'a \<Rightarrow> 'a list \<Rightarrow> 'a res" where
  "min_by key x xs = bindE (key x) (\<lambda>k. bindE (foldE (min_pass key) (k, x) xs) (\<lambda>best. Inr (snd best)))"

definition filterE :: "('a \<Rightarrow> bool res) \<Rightarrow> 'a list \<Rightarrow> 'a list res" where
  "filterE P xs = bindE (mapE (\<lambda>x. bindE (P x) (\<lambda>b. Inr (if b then [x] else []))) xs) (\<lambda>xss. Inr (concat xss))"

definition choose_by :: "(py \<Rightarrow> string list res) \<Rightarrow> py list \<Rightarrow> py option res" where
  "choose_by reasons trials =
     bindE (filterE (\<lambda>t. bindE (reasons t) (\<lambda>r. Inr (r = []))) trials) (\<lambda>feasible.
     case feasible of [] \<Rightarrow> Inr None | t # ts \<Rightarrow> bindE (min_by trial_key t ts) (\<lambda>b. Inr (Some b)))"

definition choose_trial :: "py list \<Rightarrow> py \<Rightarrow> py option res" where
  "choose_trial trials criteria = choose_by (\<lambda>t. rejection_reasons t criteria) trials"

definition trial_eligibility :: "selection_rule \<Rightarrow> py \<Rightarrow> string list res" where
  "trial_eligibility rule t =
     bindE (py_item t ''metrics'') (\<lambda>metrics. bindE (py_item t ''training_acceptable'') (\<lambda>a.
       eligibility_reasons metrics (truthy a) rule))"

definition choose_eligible :: "selection_rule \<Rightarrow> py list \<Rightarrow> py option res" where
  "choose_eligible rule trials = choose_by (trial_eligibility rule) trials"

section \<open>The chosen trial\<close>

text \<open>The key of a trial whose scores are finite numbers, as a value of the lexicographic order.\<close>

definition finite_num :: "py \<Rightarrow> rat option" where
  "finite_num v = (case num_val v of Some (Fin x) \<Rightarrow> Some x | _ \<Rightarrow> None)"

definition rank :: "py list \<Rightarrow> (rat \<times> rat \<times> rat \<times> string \<times> rat) option" where
  "rank k =
     (if length k = 5
      then case (finite_num (k ! 0), finite_num (k ! 1), finite_num (k ! 2), k ! 3, finite_num (k ! 4)) of
          (Some w, Some x, Some y, PyStr s, Some z) \<Rightarrow> Some (w, x, y, s, z) | _ \<Rightarrow> None
      else None)"

definition trial_rank :: "py \<Rightarrow> (rat \<times> rat \<times> rat \<times> string \<times> rat) option" where
  "trial_rank t = (case trial_key t of Inr k \<Rightarrow> rank k | Inl _ \<Rightarrow> None)"

lemma num_order:
  assumes "finite_num a = Some x" and "finite_num b = Some y"
  shows "py_eq a b \<longleftrightarrow> x = y" and "py_lt a b = Inr (x < y)"
  using assms by (cases a; cases b; auto simp: finite_num_def py_gt_def flt_def split: pyfloat.splits)+

lemma rank_Some:
  assumes "rank k = Some r"
  obtains a b c s e where "k = [a, b, c, PyStr s, e]"
    "finite_num a = Some (fst r)" "finite_num b = Some (fst (snd r))" "finite_num c = Some (fst (snd (snd r)))"
    "s = fst (snd (snd (snd r)))" "finite_num e = Some (snd (snd (snd (snd r))))"
proof -
  from assms have "length k = 5" by (auto simp: rank_def split: if_splits)
  then obtain a b c d e where k: "k = [a, b, c, d, e]" by (auto simp: length_Suc_conv numeral_eq_Suc)
  from assms obtain w x y s z where "finite_num a = Some w" "finite_num b = Some x" "finite_num c = Some y"
    "d = PyStr s" "finite_num e = Some z" "r = (w, x, y, s, z)"
    unfolding k by (simp add: rank_def split: option.splits py.splits)
  with k that show ?thesis by simp
qed

lemma list_lt_rank:
  assumes "rank k = Some r" and "rank l = Some q"
  shows "list_lt k l = Inr (r < q)"
proof -
  obtain a b c s e where k: "k = [a, b, c, PyStr s, e]" "finite_num a = Some (fst r)"
    "finite_num b = Some (fst (snd r))" "finite_num c = Some (fst (snd (snd r)))"
    "s = fst (snd (snd (snd r)))" "finite_num e = Some (snd (snd (snd (snd r))))"
    using rank_Some [OF assms(1)] .
  obtain a' b' c' s' e' where l: "l = [a', b', c', PyStr s', e']" "finite_num a' = Some (fst q)"
    "finite_num b' = Some (fst (snd q))" "finite_num c' = Some (fst (snd (snd q)))"
    "s' = fst (snd (snd (snd q)))" "finite_num e' = Some (snd (snd (snd (snd q))))"
    using rank_Some [OF assms(2)] .
  obtain r1 r2 r3 r4 r5 where r: "r = (r1, r2, r3, r4, r5)" by (cases r)
  obtain q1 q2 q3 q4 q5 where q: "q = (q1, q2, q3, q4, q5)" by (cases q)
  have lex: "x < y \<or> x \<le> y \<and> P \<longleftrightarrow> (if x = y then P else x < y)" for x y :: "'a :: order" and P
    by (auto simp: order.order_iff_strict)
  show ?thesis
    by (simp add: k(1) l(1) num_order [OF k(2) l(2)] num_order [OF k(3) l(3)] num_order [OF k(4) l(4)]
        num_order [OF k(6) l(6)] k(5) l(5) r q lex)
qed

text \<open>
  The interface of a choice by key: keys of ranked elements exist and are ordered as their ranks. What
  the code takes by \<open>min\<close> is then an element of the least rank.
\<close>

locale ranked_choice =
  fixes key :: "'a \<Rightarrow> py list res" and rank :: "'a \<Rightarrow> 'r :: linorder option"
  assumes ranked: "rank x = Some r \<Longrightarrow> \<exists>k. key x = Inr k"
    and order: "rank x = Some r \<Longrightarrow> rank y = Some q \<Longrightarrow> key x = Inr k \<Longrightarrow> key y = Inr l \<Longrightarrow> list_lt k l = Inr (r < q)"
begin

lemma min_pass_ranked:
  assumes "key x = Inr k" and "rank x = Some r" and "key y = Inr l" and "rank y = Some q"
  shows "min_pass key (k, x) y = Inr (if q < r then (l, y) else (k, x))"
  using assms by (simp add: min_pass_def order)

lemma min_by_fold:
  assumes "\<forall>y\<in>set xs. rank y \<noteq> None" and "key x = Inr k" and "rank x = Some r"
  shows "\<exists>bk b. foldE (min_pass key) (k, x) xs = Inr (bk, b) \<and> b \<in> set (x # xs) \<and>
     the (rank b) \<le> r \<and> (\<forall>y\<in>set xs. the (rank b) \<le> the (rank y))"
  using assms
proof (induction xs arbitrary: x k r)
  case Nil
  then show ?case by simp
next
  case (Cons y ys)
  from Cons.prems(1) obtain q where q: "rank y = Some q" by auto
  obtain l where l: "key y = Inr l" using ranked [OF q] by blast
  note pass = min_pass_ranked [OF Cons.prems(2,3) l q]
  have rest: "\<forall>z\<in>set ys. rank z \<noteq> None" using Cons.prems(1) by simp
  show ?case
  proof (cases "q < r")
    case True
    from Cons.IH [OF rest l q] obtain bk b where
      "foldE (min_pass key) (l, y) ys = Inr (bk, b)" "b \<in> set (y # ys)" "the (rank b) \<le> q"
      "\<forall>z\<in>set ys. the (rank b) \<le> the (rank z)" by blast
    moreover from this(3) True have "the (rank b) \<le> r" by (meson order.strict_implies_order order.trans)
    ultimately show ?thesis using True by (simp add: pass q)
  next
    case False
    from Cons.IH [OF rest Cons.prems(2,3)] obtain bk b where
      "foldE (min_pass key) (k, x) ys = Inr (bk, b)" "b \<in> set (x # ys)" "the (rank b) \<le> r"
      "\<forall>z\<in>set ys. the (rank b) \<le> the (rank z)" by blast
    moreover from this(3) False have "the (rank b) \<le> q" by (meson not_less order.trans)
    ultimately show ?thesis using False by (auto simp: pass q)
  qed
qed

lemma min_by_least:
  assumes "\<forall>y\<in>set (x # xs). rank y \<noteq> None"
  shows "\<exists>b. min_by key x xs = Inr b \<and> b \<in> set (x # xs) \<and>
    (\<forall>y\<in>set (x # xs). the (rank b) \<le> the (rank y))"
proof -
  from assms obtain r where r: "rank x = Some r" by auto
  then obtain k where k: "key x = Inr k" using ranked by blast
  have "\<forall>y\<in>set xs. rank y \<noteq> None" using assms by simp
  from min_by_fold [OF this k r] r show ?thesis by (auto simp: min_by_def k)
qed

end

interpretation trial: ranked_choice trial_key trial_rank
  by unfold_locales (auto simp: trial_rank_def list_lt_rank split: sum.splits)

text \<open>Keys made of numbers and a name at the end.\<close>

lemma list_lt_numbers:
  assumes "length vs = length ws" and "list_all (\<lambda>v. finite_num v \<noteq> None) vs" and "list_all (\<lambda>v. finite_num v \<noteq> None) ws"
  shows "list_lt (vs @ [PyStr s]) (ws @ [PyStr t]) =
    Inr ((map (\<lambda>v. the (finite_num v)) vs, s) < (map (\<lambda>v. the (finite_num v)) ws, t))"
  using assms
proof (induction vs ws rule: list_induct2)
  case Nil
  then show ?case by (simp add: less_prod_def)
next
  case (Cons v vs w ws)
  then show ?case by (auto simp: num_order less_prod_def)
qed

lemma filterE_Inr: "filterE P xs = Inr ys \<longleftrightarrow> (\<forall>x\<in>set xs. \<exists>b. P x = Inr b) \<and> ys = filter (\<lambda>x. P x = Inr True) xs"
proof (induction xs arbitrary: ys)
  case Nil
  then show ?case by (auto simp: filterE_def)
next
  case (Cons x xs)
  have step: "filterE P (x # xs) = bindE (P x) (\<lambda>b. bindE (filterE P xs) (\<lambda>zs. Inr (if b then x # zs else zs)))"
    by (cases "P x") (auto simp: filterE_def bindE_def split: sum.split)
  show ?case
  proof (cases "P x")
    case (Inl e)
    then show ?thesis by (simp add: step)
  next
    case (Inr b)
    then show ?thesis by (cases b) (auto simp: step bindE_Inr_iff Cons.IH)
  qed
qed

lemma choose_by_spec:
  assumes "choose_by reasons trials = Inr c" and "\<And>t. t \<in> set trials \<Longrightarrow> reasons t = Inr [] \<Longrightarrow> trial_rank t \<noteq> None"
  shows "case c of None \<Rightarrow> \<forall>t\<in>set trials. \<exists>r. reasons t = Inr r \<and> r \<noteq> []
    | Some t \<Rightarrow> t \<in> set trials \<and> reasons t = Inr [] \<and>
        (\<forall>u\<in>set trials. reasons u = Inr [] \<longrightarrow> the (trial_rank t) \<le> the (trial_rank u))"
proof -
  let ?P = "\<lambda>t. bindE (reasons t) (\<lambda>r. Inr (r = []))"
  from assms(1) obtain feasible where f: "filterE ?P trials = Inr feasible" and
    c: "(case feasible of [] \<Rightarrow> Inr None | t # ts \<Rightarrow> bindE (min_by trial_key t ts) (\<lambda>b. Inr (Some b))) = Inr c"
    by (auto simp: choose_by_def bindE_Inr_iff)
  have P: "?P t = Inr True \<longleftrightarrow> reasons t = Inr []" for t by (auto simp: bindE_Inr_iff)
  have feasible: "feasible = filter (\<lambda>t. reasons t = Inr []) trials" and total: "\<forall>t\<in>set trials. \<exists>r. reasons t = Inr r"
    using f by (auto simp: filterE_Inr P bindE_Inr_iff)
  show ?thesis
  proof (cases feasible)
    case Nil
    have "\<forall>t\<in>set trials. reasons t \<noteq> Inr []" using feasible [symmetric] unfolding Nil by (simp add: filter_empty_conv)
    with Nil c total show ?thesis by fastforce
  next
    case (Cons t ts)
    have "\<forall>y\<in>set (t # ts). trial_rank y \<noteq> None"
      unfolding Cons [symmetric] feasible using assms(2) by simp
    from trial.min_by_least [OF this] obtain b where b: "min_by trial_key t ts = Inr b" "b \<in> set feasible"
      "\<forall>y\<in>set feasible. the (trial_rank b) \<le> the (trial_rank y)" unfolding Cons by blast
    from c b(1) Cons have "c = Some b" by simp
    with b(2,3) show ?thesis by (simp add: feasible)
  qed
qed

text \<open>What an empty list of reasons means.\<close>

definition limit_met :: "string \<times> py \<times> py \<times> bool \<Rightarrow> bool" where
  "limit_met row \<longleftrightarrow> (case row of (name, value, limit, upper) \<Rightarrow>
     \<exists>x y. num_val value = Some x \<and> num_val limit = Some y \<and> is_finite x \<and>
       (if upper then \<not> flt y x else \<not> flt x y))"

lemma limit_reason_met: "limit_reason row = Inr [] \<Longrightarrow> limit_met row"
proof -
  assume a: "limit_reason row = Inr []"
  obtain n v l u where row: "row = (n, v, l, u)" by (cases row)
  from a row have "v \<noteq> PyNone" "py_isfinite v = Inr True" "(if u then py_gt v l else py_gt l v) = Inr False"
    by (auto simp: limit_reason_def bindE_Inr_iff split: if_splits)
  then show ?thesis
    by (cases v) (auto simp: row limit_met_def py_gt_def split: option.splits if_splits)
qed

lemma rejection_reasons_Nil:
  "rejection_reasons trial criteria = Inr [] \<longleftrightarrow>
     (\<exists>rows. policy_rows trial criteria = Inr rows \<and> list_all (\<lambda>row. limit_reason row = Inr []) rows)"
  by (auto simp: rejection_reasons_def bindE_Inr_iff mapE_Inr_iff list_all2_conv_all_nth list_all_length set_conv_nth)
    (metis length_replicate nth_mem nth_replicate in_set_replicate)+


end
