(* ===== verification/Policy_Compare.thy ===== *)
theory Policy_Compare
  imports Policy
begin

text \<open>
  \<open>evaluation/compare_operational_recovery.py\<close> beside the choice itself: a trial of a candidate at a
  threshold, the diagnostics of a model on the validation messages, and the comparison of the
  policies with the frozen reference. \<open>judge_env\<close> holds the scores of scikit-learn and the parser of
  \<open>astype("int64")\<close>.
\<close>

record judge_env =
  je_lib :: metric_lib
  je_int :: "string \<Rightarrow> int res"

section \<open>Trials\<close>

definition threshold_value :: "py \<Rightarrow> pyfloat res" where
  "threshold_value v = (case num_val v of None \<Rightarrow> Inl (TypeError ''threshold'') | Some x \<Rightarrow> Inr x)"

definition make_trial :: "judge_env \<Rightarrow> (string \<times> py) list \<Rightarrow> op_split \<Rightarrow> pyfloat list \<Rightarrow> py \<Rightarrow> py \<Rightarrow> py res" where
  "make_trial env candidate source probability threshold criteria =
     bindE (threshold_value threshold) (\<lambda>t.
     let prediction = decide t probability in
     bindE (calculate_metrics (je_lib env) (op_y source) probability t) (\<lambda>metrics.
     bindE (message_position_counts (je_int env) source prediction) (\<lambda>positions.
     let trial = dict_update candidate [(''threshold'', threshold), (''metrics'', metrics),
       (''by_scenario'', scenario_metrics source prediction), (''by_message_position'', positions)] in
     bindE (rejection_reasons (PyDict trial) criteria) (\<lambda>reasons.
     Inr (PyDict (dict_update trial [(''rejection_reasons'', py_strs reasons),
       (''validation_feasible'', PyBool (reasons = []))]))))))"

section \<open>Diagnostics\<close>

definition prediction_transitions :: "int list \<Rightarrow> int list \<Rightarrow> int list \<Rightarrow> py res" where
  "prediction_transitions y old new =
     bindE (check (length y = length old \<and> length old = length new \<and>
        list_all (list_all (\<lambda>v. v = 0 \<or> v = 1)) [y, old, new]) (ValueError ''binary labels and predictions'')) (\<lambda>_.
     Inr (PyDict (map (\<lambda>(name, P). (name, PyInt (int (length (filter P (zip y (zip old new)))))))
       [(''both_correct'', \<lambda>(a, b, c). b = a \<and> c = a), (''both_wrong'', \<lambda>(a, b, c). b \<noteq> a \<and> c \<noteq> a),
        (''corrected_fp'', \<lambda>(a, b, c). a = 0 \<and> b = 1 \<and> c = 0), (''corrected_fn'', \<lambda>(a, b, c). a = 1 \<and> b = 0 \<and> c = 1),
        (''new_fp'', \<lambda>(a, b, c). a = 0 \<and> b = 0 \<and> c = 1), (''new_fn'', \<lambda>(a, b, c). a = 1 \<and> b = 1 \<and> c = 0)])))"

text \<open>The burst messages with their number, in the order of the table.\<close>

definition burst_rows :: "judge_env \<Rightarrow> op_split \<Rightarrow> (nat \<times> int) list res" where
  "burst_rows env source =
     bindE (mapE (je_int env) (col (op_meta source) ''request_index'')) (\<lambda>indices.
     Inr (filter (\<lambda>(i, n). scenario_at source i = ''controlled_burst_chat'') (enumerate 0 indices)))"

definition missed :: "int list \<Rightarrow> (nat \<times> int) list \<Rightarrow> py" where
  "missed prediction rows = PyInt (int (length (filter (\<lambda>(i, n). prediction ! i = 0) rows)))"

definition burst_session :: "op_split \<Rightarrow> int list \<Rightarrow> string list \<times> (nat \<times> int) list \<Rightarrow> py" where
  "burst_session source prediction g =
     (let rows = sort_key snd (snd g);
          positives = filter (\<lambda>(i, n). prediction ! i = 1) rows;
          duration = feature_at source ''connection_duration_ms'' in
      PyDict [(''run_id'', PyStr (fst g ! 0)), (''session_id'', PyStr (fst g ! 1)),
        (''message_rows'', PyInt (int (length rows))), (''fn'', missed prediction rows),
        (''first_positive_request_index'', (case positives of [] \<Rightarrow> PyNone | (i, n) # _ \<Rightarrow> PyInt n)),
        (''first_positive_elapsed_from_first_message_ms'', (case positives of [] \<Rightarrow> PyNone
           | (i, n) # _ \<Rightarrow> PyFloat (fsub (duration i) (duration (fst (hd rows))))))])"

definition prefix_diagnostics :: "judge_env \<Rightarrow> op_split \<Rightarrow> pyfloat list \<Rightarrow> pyfloat \<Rightarrow> py res" where
  "prefix_diagnostics env source probability threshold =
     bindE (burst_rows env source) (\<lambda>burst.
     let prediction = decide threshold probability;
         key = (\<lambda>p. map (\<lambda>n. cell (op_meta source) n (fr_rows (op_meta source) ! fst p)) [''run_id'', ''session_id'']) in
     Inr (PyDict
       [(''burst_sessions'', PyList (map (burst_session source prediction) (group_by key burst))),
        (''burst_by_request_index'', PyList (map (\<lambda>(n, rows). PyDict [(''request_index'', PyInt n),
            (''observed_messages'', PyInt (int (length rows))), (''fn'', missed prediction rows)])
          (sort_key fst (group_by snd burst))))]))"

section \<open>Comparison\<close>

text \<open>A compared policy: its description and its probabilities.\<close>

record arm =
  ar_info :: "(string \<times> py) list"
  ar_threshold :: py
  ar_probability :: "pyfloat list"

definition make_arm :: "py \<Rightarrow> py \<Rightarrow> py \<Rightarrow> string \<Rightarrow> pyfloat list \<Rightarrow> arm" where
  "make_arm candidate threshold transform scope probability =
     \<lparr>ar_info = [(''candidate_id'', candidate), (''threshold'', threshold), (''input_transform_id'', transform),
        (''training_scope'', PyStr scope)],
      ar_threshold = threshold, ar_probability = probability\<rparr>"

type_synonym arms = "(string, arm) dict"

definition best_by_candidate :: "py list \<Rightarrow> py list \<Rightarrow> py \<Rightarrow> (string, py option) dict res" where
  "best_by_candidate candidates trials criteria =
     foldE (\<lambda>d item. bindE (str_item item ''id'') (\<lambda>k.
       bindE (filterE (\<lambda>t. bindE (py_item t ''candidate_id'') (\<lambda>c. Inr (py_eq c (PyStr k)))) trials) (\<lambda>own.
       bindE (choose_trial own criteria) (\<lambda>b. Inr (dict_set k b d))))) [] candidates"

definition candidate_arms ::
    "(string, pyfloat list) dict \<Rightarrow> (string, py option) dict \<Rightarrow> arms \<Rightarrow> py \<Rightarrow> arms res" where
  "candidate_arms probabilities best arms item =
     bindE (str_item item ''id'') (\<lambda>k.
     bindE (py_item item ''input_transform_id'') (\<lambda>transform.
     bindE (lookupE probabilities k) (\<lambda>probability.
     let arms' = dict_set (k @ ''__default_0_5'')
       (make_arm (PyStr k) (PyFloat (Fin (1 / 2))) transform ''new_train_only'' probability) arms in
     bindE (lookupE best k) (\<lambda>b. case b of None \<Rightarrow> Inr arms'
       | Some t \<Rightarrow> bindE (py_item t ''threshold'') (\<lambda>threshold.
           Inr (dict_set (k @ ''__best_feasible'')
             (make_arm (PyStr k) threshold transform ''new_train_only'' probability) arms'))))))"

definition threshold_0_3 :: py where
  "threshold_0_3 = PyFloat (fl (3 / 10))"

definition compared_arms ::
    "py list \<Rightarrow> (string, pyfloat list) dict \<Rightarrow> pyfloat list \<Rightarrow> (string, py option) dict \<Rightarrow> py option \<Rightarrow> arms res" where
  "compared_arms candidates probabilities reference best selected =
     bindE (lookupE probabilities ''rf_raw7'') (\<lambda>raw7.
     bindE (foldE (candidate_arms probabilities best)
       [(''frozen_reference_0_3'', make_arm (PyStr ''rf_leaf_5'') threshold_0_3 (PyStr ''raw7_v1'') ''previous_train_only'' reference),
        (''new_raw7_0_3'', make_arm (PyStr ''rf_raw7'') threshold_0_3 (PyStr ''raw7_v1'') ''new_train_only'' raw7)]
       candidates) (\<lambda>arms.
     case selected of None \<Rightarrow> Inr arms
     | Some t \<Rightarrow>
         bindE (str_item t ''candidate_id'') (\<lambda>c.
         bindE (py_item t ''threshold'') (\<lambda>threshold.
         bindE (py_item t ''input_transform_id'') (\<lambda>transform.
         bindE (lookupE probabilities c) (\<lambda>probability.
         Inr (dict_set ''selected_validation_policy''
           (make_arm (PyStr c) threshold transform ''new_train_only'' probability) arms)))))))"

text \<open>A message on which a policy and the reference disagree.\<close>

definition change_document :: "op_split \<Rightarrow> int list \<Rightarrow> int list \<Rightarrow> pyfloat list \<Rightarrow> pyfloat list \<Rightarrow> nat \<Rightarrow> py" where
  "change_document source old new old_p new_p i = PyDict
     [(''row_id'', PyStr (cell (op_meta source) ''row_id'' (fr_rows (op_meta source) ! i))),
      (''label'', PyInt (op_y source ! i)),
      (''change_type'', PyStr ((if new ! i = op_y source ! i then ''corrected_'' else ''new_'') @
         (if op_y source ! i = 0 then ''fp'' else ''fn''))),
      (''reference_prediction'', PyInt (old ! i)), (''prediction'', PyInt (new ! i)),
      (''reference_probability'', PyFloat (old_p ! i)), (''probability'', PyFloat (new_p ! i))]"

type_synonym columns = "(string, py list) dict"

record comparison =
  cm_models :: "(string, py) dict"
  cm_changes :: "(string, py list) dict"
  cm_best :: "(string, py option) dict"
  cm_selected :: "py option"
  cm_frame :: columns

definition start_frame :: "op_split \<Rightarrow> prefix_obs list \<Rightarrow> columns" where
  "start_frame source observed =
     map (\<lambda>n. (n, map PyStr (col (op_meta source) n))) (fr_columns (op_meta source)) @
     map (\<lambda>n. (n, map (\<lambda>i. PyFloat (feature_at source n i)) [0..<length (op_X source)])) (op_columns source) @
     [(''prefix_mean_interval_ms'', map (\<lambda>x. PyFloat (px_mean_interval_ms x)) observed),
      (''parsed_bytes_prefix_total'', map (\<lambda>x. PyFloat (px_parsed_bytes x)) observed)]"

definition compare_arm ::
    "judge_env \<Rightarrow> op_split \<Rightarrow> pyfloat list \<Rightarrow> comparison \<Rightarrow> string \<times> arm \<Rightarrow> comparison res" where
  "compare_arm env source reference acc p =
     (case p of (name, arm) \<Rightarrow>
      bindE (threshold_value (ar_threshold arm)) (\<lambda>t.
      let probability = ar_probability arm; prediction = decide t probability;
          old = decide (fl (3 / 10)) reference in
      bindE (calculate_metrics (je_lib env) (op_y source) probability t) (\<lambda>metrics.
      bindE (message_position_counts (je_int env) source prediction) (\<lambda>positions.
      bindE (prefix_diagnostics env source probability t) (\<lambda>burst.
      let model = dict_update (ar_info arm) [(''metrics'', metrics), (''by_scenario'', scenario_metrics source prediction),
            (''by_message_position'', positions), (''burst_prefix'', burst)];
          frame = dict_update (cm_frame acc) [(name @ ''__probability'', map PyFloat probability),
            (name @ ''__prediction'', map PyInt prediction),
            (name @ ''__threshold'', replicate (length (op_y source)) (ar_threshold arm))] in
      if name = ''frozen_reference_0_3''
      then Inr (acc\<lparr>cm_models := dict_set name (PyDict model) (cm_models acc), cm_frame := frame\<rparr>)
      else bindE (prediction_transitions (op_y source) old prediction) (\<lambda>transitions.
        Inr (acc\<lparr>cm_models := dict_set name (PyDict (dict_update model [(''transitions_from_reference'', transitions)])) (cm_models acc),
          cm_changes := dict_set name (map (change_document source old prediction reference probability)
            (filter (\<lambda>i. old ! i \<noteq> prediction ! i) [0..<length old])) (cm_changes acc),
          cm_frame := frame\<rparr>)))))))"

definition compare ::
    "judge_env \<Rightarrow> op_split \<Rightarrow> py list \<Rightarrow> (string, pyfloat list) dict \<Rightarrow> pyfloat list \<Rightarrow> py list \<Rightarrow> py \<Rightarrow>
      prefix_obs list \<Rightarrow> comparison res" where
  "compare env source candidates probabilities reference trials criteria observed =
     bindE (choose_trial trials criteria) (\<lambda>selected.
     bindE (best_by_candidate candidates trials criteria) (\<lambda>best.
     bindE (compared_arms candidates probabilities reference best selected) (\<lambda>arms.
     foldE (compare_arm env source reference)
       \<lparr>cm_models = [], cm_changes = [], cm_best = best, cm_selected = selected,
        cm_frame = dict_set ''label'' (map PyInt (op_y source)) (start_frame source observed)\<rparr> arms)))"

section \<open>What the counts mean\<close>

text \<open>Every message falls in exactly one class of the transitions.\<close>

lemma transitions_partition:
  assumes "prediction_transitions y old new = Inr v"
  obtains bc bw cfp cfn nfp nfn :: nat where
    "v = PyDict [(''both_correct'', PyInt (int bc)), (''both_wrong'', PyInt (int bw)), (''corrected_fp'', PyInt (int cfp)),
       (''corrected_fn'', PyInt (int cfn)), (''new_fp'', PyInt (int nfp)), (''new_fn'', PyInt (int nfn))]"
    "bc + bw + cfp + cfn + nfp + nfn = length y"
proof -
  have sum: "length (filter (\<lambda>(a, b, c). b = a \<and> c = a) ps) + length (filter (\<lambda>(a, b, c). b \<noteq> a \<and> c \<noteq> a) ps) +
      length (filter (\<lambda>(a, b, c). a = 0 \<and> b = 1 \<and> c = 0) ps) + length (filter (\<lambda>(a, b, c). a = 1 \<and> b = 0 \<and> c = 1) ps) +
      length (filter (\<lambda>(a, b, c). a = 0 \<and> b = 0 \<and> c = 1) ps) + length (filter (\<lambda>(a, b, c). a = 1 \<and> b = 1 \<and> c = 0) ps) = length ps"
    if "\<forall>(a, b, c)\<in>set ps. a \<in> {0, 1} \<and> b \<in> {0, 1} \<and> c \<in> {0, 1}" for ps :: "(int \<times> int \<times> int) list"
    using that
  proof (induction ps)
    case Nil
    then show ?case by simp
  next
    case (Cons p ps)
    obtain a b c where p: "p = (a, b, c)" by (cases p)
    have "\<forall>(a, b, c)\<in>set ps. a \<in> {0, 1} \<and> b \<in> {0, 1} \<and> c \<in> {0, 1}" using Cons.prems by simp
    note ih = Cons.IH [OF this]
    have "a = 0 \<or> a = 1" "b = 0 \<or> b = 1" "c = 0 \<or> c = 1" using Cons.prems by (simp_all add: p)
    with ih show ?case unfolding p by (elim disjE) simp_all
  qed
  from assms have len: "length y = length old" "length old = length new" and
    bin: "\<forall>v\<in>set y. v = 0 \<or> v = 1" "\<forall>v\<in>set old. v = 0 \<or> v = 1" "\<forall>v\<in>set new. v = 0 \<or> v = 1"
    by (auto simp: prediction_transitions_def bindE_Inr_iff list_all_iff)
  have "\<forall>(a, b, c)\<in>set (zip y (zip old new)). a \<in> {0, 1} \<and> b \<in> {0, 1} \<and> c \<in> {0, 1}"
  proof (intro ballI, clarify)
    fix a b c assume p: "(a, b, c) \<in> set (zip y (zip old new))"
    then have q: "a \<in> set y" "(b, c) \<in> set (zip old new)" by (rule set_zip_leftD, rule set_zip_rightD)
    from q(2) have "b \<in> set old" "c \<in> set new" by (rule set_zip_leftD, rule set_zip_rightD)
    with q(1) bin show "a \<in> {0, 1} \<and> b \<in> {0, 1} \<and> c \<in> {0, 1}" by simp
  qed
  from sum [OF this] len show ?thesis
    using assms by (intro that) (auto simp: prediction_transitions_def bindE_Inr_iff)
qed

text \<open>The counted rates are proportions.\<close>

lemma ratio_bounds:
  assumes "0 \<le> a" and "a \<le> b" and "0 < b"
  shows "\<not> flt (ratio a b) (Fin 0) \<and> \<not> flt (Fin 1) (ratio a b)"
proof -
  have "(0 :: rat) \<le> of_int a / of_int b" "of_int a / of_int b \<le> (1 :: rat)" using assms by simp_all
  then have "rne 0 \<le> rne (of_int a / of_int b)" "rne (of_int a / of_int b) \<le> rne 1" by (auto intro: rne_mono simp del: rne_0 rne_1)
  moreover have "rne 0 = 0" "rne 1 = 1" by simp_all
  ultimately show ?thesis by (simp add: ratio_def fl_def Let_def flt_def not_le)
qed

lemma count_errors_bounds:
  "0 \<le> ec_fp (count_errors ps) \<and> ec_fp (count_errors ps) \<le> ec_normal (count_errors ps) \<and>
   0 \<le> ec_fn (count_errors ps) \<and> ec_fn (count_errors ps) \<le> ec_anomaly (count_errors ps)"
  by (induction ps) (auto simp: count_errors_def Let_def)

end
