(* ===== verification/Cost_Gate.thy ===== *)
theory Cost_Gate
  imports Holdout Policy_Compare
begin

text \<open>
  \<open>evaluation/run_operational_recovery_cost.py\<close>: what may be opened before the test, the verified
  training evidence, the checks of the measured cost and the limits it must keep, with
  \<open>latency_summary\<close> of the cost worker and \<open>summarize_cost\<close>. The numpy functions are parameters
  (\<open>cost_lib\<close>); the measurement itself is a set of JSON records.
\<close>

record cost_lib =
  kl_choice :: "int \<Rightarrow> int \<Rightarrow> int \<Rightarrow> bool \<Rightarrow> int list"
  kl_median :: "pyfloat list \<Rightarrow> pyfloat"
  kl_percentile95 :: "pyfloat list \<Rightarrow> pyfloat"
  kl_mean :: "pyfloat list \<Rightarrow> pyfloat"
  kl_matrix_hash :: "string list \<Rightarrow> pyfloat list list \<Rightarrow> string"
  kl_digest :: "py \<Rightarrow> string res"

section \<open>Files closed before the test\<close>

text \<open>\<open>Path(name).name\<close>, and a name split into \<open>stem\<close> and \<open>suffix\<close> at its last dot.\<close>

fun path_name :: "path \<Rightarrow> string" where
  "path_name (Abs p) = (if p = [] then [] else last p)"
| "path_name (Rel p) = (if p = [] then [] else last p)"

definition stem_suffix :: "string \<Rightarrow> string \<times> string" where
  "stem_suffix name =
     (let after = length (takeWhile (\<lambda>c. c \<noteq> CHR ''.'') (rev name)); i = length name - after - 1 in
      if after < length name \<and> 0 < i \<and> 0 < after then (take i name, drop i name) else (name, []))"

fun split_on :: "char \<Rightarrow> string \<Rightarrow> string list" where
  "split_on d [] = [[]]"
| "split_on d (c # cs) = (if c = d then [] # split_on d cs else (case split_on d cs of [] \<Rightarrow> [[c]] | w # ws \<Rightarrow> (c # w) # ws))"

definition closed_before_test :: "path \<Rightarrow> bool" where
  "closed_before_test p \<longleftrightarrow>
     (let name = path_name p; stem = fst (stem_suffix name); suffix = snd (stem_suffix name) in
      name \<in> set TEST_FILES \<or> suffix = ''.jsonl'' \<or> name = ''collection_summary.json'' \<or>
      (''test'' \<in> set (split_on (CHR ''_'') stem) \<and> suffix \<in> {''.csv'', ''.npz''}))"

definition verify_without_holdout :: "file_env \<Rightarrow> store \<Rightarrow> locked \<Rightarrow> unit res" where
  "verify_without_holdout env s evidence =
     bindE (forE (\<lambda>(name, _). check (\<not> closed_before_test (fv_path env name)) (ValueError ''holdout file'')) evidence) (\<lambda>_.
     verify_stored env s evidence)"

section \<open>Training evidence\<close>

record cost_config =
  kc_experiment_id :: string
  kc_dataset_id :: string
  kc_dataset_dir :: path
  kc_training_root :: path
  kc_training_report :: path
  kc_design_path :: path
  kc_artifact_dir :: path
  kc_report_prefix :: path
  kc_expected_train_rows :: int
  kc_expected_validation_rows :: int
  kc_expected_test_rows :: int
  kc_benchmark :: py
  kc_process_repeats :: int
  kc_single_repeats :: int
  kc_batch_repeats :: int
  kc_sampling_seed :: int
  kc_document :: py

definition threshold_0_7 :: py where
  "threshold_0_7 = PyFloat (fl (7 / 10))"

definition equal_field :: "py \<Rightarrow> py \<Rightarrow> unit res" where
  "equal_field expected v = check (py_eq v expected) (ValueError ''literal'')"

definition bounded_float :: "rat \<Rightarrow> rat \<Rightarrow> py \<Rightarrow> unit res" where
  "bounded_float lo hi v = (case v of
       PyFloat x \<Rightarrow> check (flt (Fin lo) x \<and> fle x (Fin hi)) (ValueError ''float range'')
     | PyInt n \<Rightarrow> check (lo < of_int n \<and> of_int n \<le> hi) (ValueError ''float range'')
     | _ \<Rightarrow> Inl (ValueError ''strict float''))"

definition parse_benchmark :: "py \<Rightarrow> (int \<times> int \<times> int \<times> int) res" where
  "parse_benchmark v =
     bindE (model_fields [''process_repeats'', ''warmup_repeats'', ''single_request_repeats'', ''batch_repeats'',
        ''sampling_seed'', ''cpu_threads'', ''probability_absolute_tolerance'', ''worker_timeout_seconds''] v) (\<lambda>d.
     bindE (field d ''process_repeats'' (strict_int 1 5)) (\<lambda>processes.
     bindE (field d ''warmup_repeats'' (strict_int 1 100)) (\<lambda>_.
     bindE (field d ''single_request_repeats'' (strict_int 1 2000)) (\<lambda>single.
     bindE (field d ''batch_repeats'' (strict_int 1 30)) (\<lambda>batch.
     bindE (field d ''sampling_seed'' (strict_int 0 (2 ^ 32 - 1))) (\<lambda>seed.
     bindE (field d ''cpu_threads'' (equal_field (PyInt 1))) (\<lambda>_.
     bindE (field d ''probability_absolute_tolerance'' (bounded_float 0 (1 / 10000))) (\<lambda>_.
     bindE (field d ''worker_timeout_seconds'' (strict_int 1 600)) (\<lambda>_.
     Inr (processes, single, batch, seed))))))))))"

definition positive_count :: "py \<Rightarrow> int res" where
  "positive_count v = (case v of PyInt n \<Rightarrow> if 1 \<le> n then Inr n else Inl (ValueError ''ge 1'') | _ \<Rightarrow> Inl (ValueError ''strict integer''))"

definition path_field :: "file_env \<Rightarrow> py \<Rightarrow> path res" where
  "path_field env v = bindE (str_field v) (\<lambda>s. Inr (fv_path env s))"

definition parse_cost_config :: "file_env \<Rightarrow> py \<Rightarrow> cost_config res" where
  "parse_cost_config env v =
     bindE (model_fields [''config_version'', ''experiment_id'', ''dataset_id'', ''dataset_dir'', ''training_root'',
        ''training_report'', ''design_path'', ''artifact_dir'', ''report_prefix'', ''expected_train_rows'',
        ''expected_validation_rows'', ''expected_test_rows'', ''candidate_id'', ''input_transform_id'', ''threshold'',
        ''benchmark'', ''test_rule'', ''scope''] v) (\<lambda>d.
     bindE (field d ''config_version'' (literal_field ''v1'')) (\<lambda>_.
     bindE (field d ''experiment_id'' ident_field) (\<lambda>experiment_id.
     bindE (field d ''dataset_id'' ident_field) (\<lambda>dataset_id.
     bindE (field d ''dataset_dir'' (path_field env)) (\<lambda>dataset_dir.
     bindE (field d ''training_root'' (path_field env)) (\<lambda>training_root.
     bindE (field d ''training_report'' (path_field env)) (\<lambda>training_report.
     bindE (field d ''design_path'' (path_field env)) (\<lambda>design_path.
     bindE (field d ''artifact_dir'' (path_field env)) (\<lambda>artifact_dir.
     bindE (field d ''report_prefix'' (path_field env)) (\<lambda>report_prefix.
     bindE (field d ''expected_train_rows'' positive_count) (\<lambda>train.
     bindE (field d ''expected_validation_rows'' positive_count) (\<lambda>validation.
     bindE (field d ''expected_test_rows'' positive_count) (\<lambda>test.
     bindE (field d ''candidate_id'' (literal_field ''rf_raw7'')) (\<lambda>_.
     bindE (field d ''input_transform_id'' (literal_field ''raw7_v1'')) (\<lambda>_.
     bindE (field d ''threshold'' (equal_field threshold_0_7)) (\<lambda>_.
     bindE (field d ''benchmark'' parse_benchmark) (\<lambda>(processes, single, batch, seed).
     bindE (field d ''test_rule'' (literal_field ''confirm_selected_policy_without_reselection'')) (\<lambda>_.
     bindE (field d ''scope'' (literal_field ''local_advisory_integration_only'')) (\<lambda>_.
     bindE (lookupE d ''benchmark'') (\<lambda>benchmark.
     Inr \<lparr>kc_experiment_id = experiment_id, kc_dataset_id = dataset_id, kc_dataset_dir = dataset_dir, kc_training_root = training_root,
       kc_training_report = training_report, kc_design_path = design_path, kc_artifact_dir = artifact_dir,
       kc_report_prefix = report_prefix, kc_expected_train_rows = train,
       kc_expected_validation_rows = validation, kc_expected_test_rows = test, kc_benchmark = benchmark,
       kc_process_repeats = processes, kc_single_repeats = single, kc_batch_repeats = batch,
       kc_sampling_seed = seed, kc_document = v\<rparr>))))))))))))))))))))"

text \<open>The named path entries are resolved against the directory of the configuration file.\<close>

definition resolve_paths :: "file_env \<Rightarrow> string list \<Rightarrow> path \<Rightarrow> py \<Rightarrow> py res" where
  "resolve_paths env names p values =
     bindE (mapE (\<lambda>k. bindE (str_item values k) (\<lambda>s.
        Inr (k, PyStr (fv_text env (fv_resolve env (path_join (path_parent (fv_resolve env p)) (fv_path env s))))))) names) (\<lambda>resolved.
     bindE (dict_items values) (\<lambda>d. Inr (PyDict (dict_update d resolved))))"

definition inside_dir :: "file_env \<Rightarrow> path \<Rightarrow> string \<Rightarrow> path res" where
  "inside_dir env base name =
     (let p = fv_resolve env (path_join base (fv_path env name)) in
      if path_within p (fv_resolve env base) then Inr p else Inl (ValueError ''outside the directory''))"

text \<open>The manifest itself, its artifacts and its reports, as evidence.\<close>

definition manifest_locks :: "file_env \<Rightarrow> store \<Rightarrow> path \<Rightarrow> path \<Rightarrow> py \<Rightarrow> locked res" where
  "manifest_locks env s base manifest_path manifest =
     bindE (file_sha env s manifest_path) (\<lambda>h.
     bindE (bindE (py_item manifest ''artifacts'') dict_items) (\<lambda>artifacts.
     bindE (mapE (\<lambda>(name, item). bindE (inside_dir env base name) (\<lambda>p. bindE (py_item item ''sha256'') (\<lambda>d.
        Inr (fv_text env p, d)))) artifacts) (\<lambda>locks.
     bindE (locked_of manifest ''reports'') (\<lambda>reports.
     Inr (dict_update (dict_update [(fv_text env manifest_path, PyStr h)] locks) reports)))))"

definition input_hashes :: "op_data \<Rightarrow> py" where
  "input_hashes data = PyDict (map (\<lambda>(k, h). (k, PyStr h)) (od_evidence data))"

definition options_ne :: "py option \<Rightarrow> py \<Rightarrow> bool" where
  "options_ne a v = (\<not> py_eq (case a of None \<Rightarrow> PyNone | Some x \<Rightarrow> x) v)"

definition replayed_choice_ne :: "py \<Rightarrow> py \<Rightarrow> bool res" where
  "replayed_choice_ne report selection =
     bindE (py_items report ''trials'') (\<lambda>trials.
     bindE (path_items report [''protocol'', ''recovery_plan'', ''approval_criteria'']) (\<lambda>criteria.
     bindE (choose_trial trials criteria) (\<lambda>c.
     bindE (py_item selection ''selected_trial'') (\<lambda>t. Inr (options_ne c t)))))"

definition training_evidence ::
    "file_env \<Rightarrow> cost_lib \<Rightarrow> store \<Rightarrow> cost_config \<Rightarrow> op_data \<Rightarrow> (py \<times> py \<times> locked) res" where
  "training_evidence env lib s c data =
     (let base = kc_training_root c; manifest_path = in_dir base ''experiment_manifest.json'' in
      bindE (json_at env s manifest_path) (\<lambda>manifest.
      bindE (rejectE (ValueError ''complete training'')
        [item_ne manifest ''status'' (PyStr ''complete''), item_ne manifest ''input_sha256'' (input_hashes data),
         item_is_not manifest ''test_evaluated'' False, item_is_not manifest ''deployment_ready'' False]) (\<lambda>_.
      bindE (manifest_locks env s base manifest_path manifest) (\<lambda>evidence.
      bindE (verify_without_holdout env s evidence) (\<lambda>_.
      bindE (check (fv_text env (kc_training_report c) \<in> set (map fst evidence)) (ValueError ''training report'')) (\<lambda>_.
      bindE (json_at env s (kc_training_report c)) (\<lambda>report.
      bindE (json_at env s (in_dir base ''protocol_lock.json'')) (\<lambda>lock.
      bindE (json_at env s (in_dir base ''selection.json'')) (\<lambda>selection.
      bindE (rejectE (ValueError ''protocol and report'')
        [item_ne report ''status'' (PyStr ''complete''), item_ne report ''dataset_id'' (PyStr (od_dataset_id data)),
         item_ne report ''input_sha256'' (input_hashes data), items_ne lock ''protocol'' report ''protocol'',
         items_ne lock ''protocol_sha256'' report ''protocol_sha256'',
         items_ne manifest ''protocol_sha256'' report ''protocol_sha256'',
         items_ne selection ''protocol_sha256'' report ''protocol_sha256'',
         bindE (bindE (py_item report ''protocol'') (kl_digest lib)) (\<lambda>h. item_ne report ''protocol_sha256'' (PyStr h))]) (\<lambda>_.
      bindE (locked_of report ''protected_sha256'') (\<lambda>protected.
      let evidence' = dict_update evidence protected in
      bindE (verify_without_holdout env s evidence') (\<lambda>_.
      bindE (rejectE (ValueError ''plan and selection'')
        [bindE (json_at env s (kc_design_path c)) (\<lambda>d. bindE (path_items report [''protocol'', ''recovery_plan'']) (\<lambda>p. Inr (\<not> py_eq d p))),
         item_ne selection ''status'' (PyStr ''selected_pending_cost_and_test''),
         bindE (path_items report [''selection'', ''selected_trial'']) (\<lambda>t. item_ne selection ''selected_trial'' t),
         replayed_choice_ne report selection]) (\<lambda>_.
      bindE (py_item selection ''selected_trial'') (\<lambda>chosen.
      bindE (rejectE (ValueError ''another policy'')
        [item_ne chosen ''candidate_id'' (PyStr ''rf_raw7''), item_ne chosen ''threshold'' threshold_0_7,
         item_ne chosen ''input_transform_id'' (PyStr ''raw7_v1''), item_ne selection ''threshold'' threshold_0_7,
         item_ne selection ''positive_class'' (PyInt 1), item_ne selection ''comparison'' (PyStr ''>='')]) (\<lambda>_.
      Inr (report, selection, evidence'))))))))))))))))"

section \<open>Measured cost\<close>

definition sample_values :: "py \<Rightarrow> pyfloat list res" where
  "sample_values v = bindE (py_iter v) (mapE (\<lambda>x. case x of PyInt n \<Rightarrow> Inr (float_of_int n) | PyFloat f \<Rightarrow> Inr f
     | PyBool b \<Rightarrow> Inr (Fin (if b then 1 else 0)) | _ \<Rightarrow> Inl (ValueError ''float64'')))"

definition smaller :: "pyfloat \<Rightarrow> pyfloat \<Rightarrow> pyfloat" where
  "smaller a b = (if flt b a then b else a)"

definition larger :: "pyfloat \<Rightarrow> pyfloat \<Rightarrow> pyfloat" where
  "larger a b = (if flt a b then b else a)"

definition latency_summary :: "cost_lib \<Rightarrow> py \<Rightarrow> py res" where
  "latency_summary lib samples =
     bindE (sample_values samples) (\<lambda>values.
     bindE (check (values \<noteq> [] \<and> list_all is_finite values \<and> \<not> list_ex (\<lambda>x. flt x (Fin 0)) values) (ValueError ''samples'')) (\<lambda>_.
     Inr (PyDict [(''samples_ms'', samples), (''median_ms'', PyFloat (kl_median lib values)),
       (''p95_ms'', PyFloat (kl_percentile95 lib values)), (''mean_ms'', PyFloat (kl_mean lib values)),
       (''minimum_ms'', PyFloat (foldl smaller (hd values) (tl values))),
       (''maximum_ms'', PyFloat (foldl larger (hd values) (tl values)))])))"

definition median_at :: "cost_lib \<Rightarrow> py list \<Rightarrow> string list \<Rightarrow> py res" where
  "median_at lib runs ks =
     bindE (mapE (\<lambda>r. path_items r ks) runs) (\<lambda>vs. bindE (sample_values (PyList vs)) (\<lambda>xs. Inr (PyFloat (kl_median lib xs))))"

definition largest :: "py list \<Rightarrow> py res" where
  "largest vs = bindE (extreme (\<lambda>best x. py_gt x best) vs) (\<lambda>m. case m of None \<Rightarrow> Inl (ValueError ''max of nothing'') | Some v \<Rightarrow> Inr v)"

definition run_unusable :: "py \<Rightarrow> bool res" where
  "run_unusable r = anyE [item_ne r ''status'' (PyStr ''complete''), item_ne r ''input_split'' (PyStr ''validation''),
     bindE (py_item r ''single_batch_decisions_equal'') (\<lambda>v. Inr (\<not> truthy v))]"

definition summarize_cost :: "cost_lib \<Rightarrow> py list \<Rightarrow> py res" where
  "summarize_cost lib runs =
     bindE (rejectE (ValueError ''complete runs'') (Inr (runs = []) # map run_unusable runs)) (\<lambda>_.
     bindE (mapE (\<lambda>r. path_items r [''memory'', ''after_benchmark'', ''native_peak_working_set_bytes'']) runs) (\<lambda>peaks.
     bindE (bindE (mapE (\<lambda>r. py_item r ''required_model_files_bytes'') runs) py_set) (\<lambda>required.
     bindE (check (length required = 1) (ValueError ''file sizes'')) (\<lambda>_.
     bindE (median_at lib runs [''single_request'', ''features_to_decision'', ''median_ms'']) (\<lambda>single.
     bindE (bindE (mapE (\<lambda>r. path_items r [''single_request'', ''features_to_decision'', ''p95_ms'']) runs) largest) (\<lambda>p95.
     bindE (median_at lib runs [''single_request'', ''model_only'', ''median_ms'']) (\<lambda>model_only.
     bindE (median_at lib runs [''batch'', ''median_ms'']) (\<lambda>batch.
     bindE (median_at lib runs [''batch'', ''amortized_per_message_median_ms'']) (\<lambda>amortized.
     bindE (if PyNone \<in> set peaks then Inr PyNone else largest peaks) (\<lambda>peak.
     bindE (path_items (hd runs) [''memory'', ''model_and_scaler_array_bytes'']) (\<lambda>arrays.
     Inr (PyDict [(''process_runs'', PyInt (int (length runs))), (''single_request_median_ms'', single),
       (''single_request_worst_process_p95_ms'', p95), (''model_only_median_ms'', model_only),
       (''batch_median_ms'', batch), (''batch_amortized_per_message_median_ms'', amortized),
       (''maximum_native_process_peak_rss_bytes'', peak), (''required_model_files_bytes'', hd required),
       (''model_and_scaler_array_bytes'', arrays),
       (''memory_scope'', PyStr ''whole_isolated_process_including_framework_inputs_and_benchmark_caches'')]))))))))))))"

section \<open>Checking the measurement\<close>

definition samples_ne :: "py \<Rightarrow> string list \<Rightarrow> int \<Rightarrow> bool res" where
  "samples_ne run ks n = bindE (bindE (path_items run ks) py_iter) (\<lambda>xs. Inr (int (length xs) \<noteq> n))"

definition sampled_rows :: "cost_lib \<Rightarrow> cost_config \<Rightarrow> int \<Rightarrow> py" where
  "sampled_rows lib c rows =
     py_ints (kl_choice lib (kc_sampling_seed c) rows (kc_single_repeats c) (rows < kc_single_repeats c))"

definition divide_by_rows :: "py \<Rightarrow> int \<Rightarrow> py res" where
  "divide_by_rows v n = (case num_val v of None \<Rightarrow> Inl (TypeError ''div'') | Some x \<Rightarrow>
     if n = 0 then Inl (ZeroDivisionError ''div'') else Inr (PyFloat (fdiv_pos x (of_int n))))"

definition check_batch :: "cost_lib \<Rightarrow> py \<Rightarrow> int \<Rightarrow> unit res" where
  "check_batch lib batch rows =
     rejectE (ValueError ''batch summary'')
       [bindE (dict_items batch) (\<lambda>d. bindE (bindE (py_item batch ''samples_ms'') (latency_summary lib)) (\<lambda>expected.
          Inr (\<not> py_eq (PyDict (filter (\<lambda>(k, _). k \<noteq> ''amortized_per_message_median_ms'') d)) expected))),
        bindE (py_item batch ''amortized_per_message_median_ms'') (\<lambda>a.
          bindE (bindE (py_item batch ''median_ms'') (\<lambda>m. divide_by_rows m rows)) (\<lambda>q. Inr (\<not> py_eq a q)))]"

definition request_kinds :: "string list" where
  "request_kinds = [''features_to_decision'', ''model_only'']"

definition validate_run :: "cost_lib \<Rightarrow> cost_config \<Rightarrow> py \<Rightarrow> int \<Rightarrow> py \<Rightarrow> unit res" where
  "validate_run lib c descriptor rows run =
     bindE (rejectE (ValueError ''worker'')
       [item_ne run ''descriptor'' descriptor, item_ne run ''input_rows'' (PyInt rows),
        item_ne run ''sample_indices'' (sampled_rows lib c rows), item_is_not run ''torch_imported'' False,
        item_is_not run ''model_training_performed'' False, item_is_not run ''test_files_read'' False,
        path_ne run [''environment'', ''cpu_threads''] (PyInt 1),
        bindE (py_item run ''required_model_files_bytes'') (\<lambda>n.
          bindE (bindE (bindE (py_item descriptor ''files'') dict_items) sum_bytes) (\<lambda>t. Inr (\<not> py_eq n t)))]) (\<lambda>_.
     bindE (bindE (path_items run [''environment'', ''threadpools'']) py_iter) (\<lambda>pools.
     bindE (rejectE (ValueError ''threads'') (map (\<lambda>p. item_ne p ''num_threads'' (PyInt 1)) pools)) (\<lambda>_.
     bindE (rejectE (ValueError ''samples'')
       (map (\<lambda>k. samples_ne run [''single_request'', k, ''samples_ms''] (kc_single_repeats c)) request_kinds @
        [samples_ne run [''batch'', ''samples_ms''] (kc_batch_repeats c)])) (\<lambda>_.
     bindE (forE (\<lambda>k. bindE (bindE (path_items run [''single_request'', k, ''samples_ms'']) (latency_summary lib)) (\<lambda>expected.
        rejectE (ValueError ''single summary'') [path_ne run [''single_request'', k] expected])) request_kinds) (\<lambda>_.
     bindE (py_item run ''batch'') (\<lambda>batch. check_batch lib batch rows))))))"

definition validate_cost_runs :: "cost_lib \<Rightarrow> cost_config \<Rightarrow> py \<Rightarrow> int \<Rightarrow> (string \<times> py) list \<Rightarrow> unit res" where
  "validate_cost_runs lib c descriptor rows costs =
     bindE (str_item descriptor ''id'') (\<lambda>k.
     bindE (check (set (map fst costs) = {k}) (ValueError ''only the selected model'')) (\<lambda>_.
     bindE (lookupE costs k) (\<lambda>result.
     bindE (py_items result ''process_records'') (\<lambda>runs.
     bindE (rejectE (ValueError ''processes'') [Inr (int (length runs) \<noteq> kc_process_repeats c), repeated ''pid'' runs]) (\<lambda>_.
     bindE (forE (validate_run lib c descriptor rows) runs) (\<lambda>_.
     bindE (summarize_cost lib runs) (\<lambda>summary.
     rejectE (ValueError ''cost summary'') [item_ne result ''summary'' summary])))))))"

section \<open>Cost limits\<close>

definition cost_rows :: "py \<Rightarrow> (string \<times> py \<times> string) list res" where
  "cost_rows criteria =
     bindE (py_item criteria ''max_single_request_p95_ms'') (\<lambda>p95.
     bindE (bindE (py_item criteria ''max_process_peak_rss_mib'') (\<lambda>m. py_mul_int m (1024 ^ 2))) (\<lambda>rss.
     bindE (bindE (py_item criteria ''max_deployment_artifacts_mib'') (\<lambda>m. py_mul_int m (1024 ^ 2))) (\<lambda>size.
     Inr [(''single_request_worst_process_p95_ms'', p95, ''p95''),
          (''maximum_native_process_peak_rss_bytes'', rss, ''peak RSS''),
          (''required_model_files_bytes'', size, ''file size'')])))"

definition cost_reason :: "py \<Rightarrow> string \<times> py \<times> string \<Rightarrow> string list res" where
  "cost_reason cost row = (case row of (key, limit, title) \<Rightarrow>
     bindE (py_getE cost key) (\<lambda>v.
     bindE (if v = PyNone then Inr True else
        bindE (np_isfinite v) (\<lambda>finite. if \<not> finite then Inr True else
        bindE (py_gt (PyInt 0) v) (\<lambda>negative.
        Inr (negative \<or> (key = ''maximum_native_process_peak_rss_bytes'' \<and> py_eq v (PyInt 0)))))) (\<lambda>unusable.
     if unusable then Inr [title @ '' not measured''] else
     bindE (py_gt v limit) (\<lambda>over. Inr (if over then [title @ '' over its limit''] else [])))))"

definition cost_rejections :: "py \<Rightarrow> py \<Rightarrow> string list res" where
  "cost_rejections cost criteria =
     bindE (cost_rows criteria) (\<lambda>rows. bindE (mapE (cost_reason cost) rows) (\<lambda>rs. Inr (concat rs)))"

end
