(* ===== verification/Test_Run.thy ===== *)
theory Test_Run
  imports Cost_Gate Sequence_Build
begin

text \<open>
  \<open>evaluation/run_operational_recovery_test.py\<close>: one locked random forest is confirmed on the test
  set. The completed cost stage is verified, the evaluation protocol is written, the test set is
  reserved, loaded and judged, and a deployment bundle is exported only under an approving verdict.
  \<open>test_env\<close> holds joblib, the predictions of a stored model, numpy archives, the CSV form of the
  predictions, versions and what \<open>rglob\<close> finds.
\<close>

record test_env =
  tv_files :: file_env
  tv_judge :: judge_env
  tv_cost :: cost_lib
  tv_load_model :: "stored \<Rightarrow> loaded_pipeline res"
  tv_predict :: "stored \<Rightarrow> pyfloat list list \<Rightarrow> pyfloat list res"
  tv_npz :: "stored \<Rightarrow> (string list \<times> pyfloat list list) res"
  tv_suffix :: "path \<Rightarrow> string \<Rightarrow> path"
  tv_csv :: "columns \<Rightarrow> string"
  tv_uncsv :: "string \<Rightarrow> columns res"
  tv_found :: "store \<Rightarrow> path \<Rightarrow> path list"
  tv_render :: "py \<Rightarrow> string"
  tv_versions :: py
  tv_limitations :: "string list"
  tv_notice :: string
  tv_code :: "path list"

section \<open>Configuration\<close>

record test_config =
  tc_experiment_id :: string
  tc_dataset_id :: string
  tc_dataset_dir :: path
  tc_cost_root :: path
  tc_cost_report :: path
  tc_cost_manifest_sha256 :: string
  tc_candidate_lock_sha256 :: string
  tc_artifact_dir :: path
  tc_report_prefix :: path
  tc_registry_dir :: path
  tc_expected_rows :: int
  tc_document :: py

definition config_paths :: "string list" where
  "config_paths = [''dataset_dir'', ''cost_root'', ''cost_report'', ''artifact_dir'', ''report_prefix'', ''holdout_registry_dir'']"

definition parse_test_config :: "file_env \<Rightarrow> py \<Rightarrow> test_config res" where
  "parse_test_config env v =
     bindE (model_fields ([''config_version'', ''experiment_id'', ''dataset_id''] @ config_paths @
        [''expected_cost_manifest_sha256'', ''expected_candidate_lock_sha256'', ''expected_test_rows'', ''candidate_id'',
         ''threshold'', ''test_rule'', ''scope'']) v) (\<lambda>d.
     bindE (field d ''config_version'' (literal_field ''v1'')) (\<lambda>_.
     bindE (field d ''experiment_id'' ident_field) (\<lambda>experiment_id.
     bindE (field d ''dataset_id'' ident_field) (\<lambda>dataset_id.
     bindE (field d ''dataset_dir'' (path_field env)) (\<lambda>dataset_dir.
     bindE (field d ''cost_root'' (path_field env)) (\<lambda>cost_root.
     bindE (field d ''cost_report'' (path_field env)) (\<lambda>cost_report.
     bindE (field d ''expected_cost_manifest_sha256'' (pattern_field is_sha256)) (\<lambda>manifest_sha.
     bindE (field d ''expected_candidate_lock_sha256'' (pattern_field is_sha256)) (\<lambda>lock_sha.
     bindE (field d ''artifact_dir'' (path_field env)) (\<lambda>artifact_dir.
     bindE (field d ''report_prefix'' (path_field env)) (\<lambda>report_prefix.
     bindE (field d ''holdout_registry_dir'' (path_field env)) (\<lambda>registry.
     bindE (field d ''expected_test_rows'' positive_count) (\<lambda>rows.
     bindE (field d ''candidate_id'' (literal_field ''rf_raw7'')) (\<lambda>_.
     bindE (field d ''threshold'' (equal_field threshold_0_7)) (\<lambda>_.
     bindE (field d ''test_rule'' (literal_field ''confirm_selected_policy_without_reselection'')) (\<lambda>_.
     bindE (field d ''scope'' (literal_field ''local_advisory_integration_only'')) (\<lambda>_.
     Inr \<lparr>tc_experiment_id = experiment_id, tc_dataset_id = dataset_id, tc_dataset_dir = dataset_dir,
       tc_cost_root = cost_root, tc_cost_report = cost_report, tc_cost_manifest_sha256 = manifest_sha,
       tc_candidate_lock_sha256 = lock_sha, tc_artifact_dir = artifact_dir, tc_report_prefix = report_prefix,
       tc_registry_dir = registry, tc_expected_rows = rows, tc_document = v\<rparr>)))))))))))))))))"

definition load_test_config :: "file_env \<Rightarrow> store \<Rightarrow> path \<Rightarrow> test_config res" where
  "load_test_config env s p = bindE (json_at env s p) (\<lambda>v. bindE (resolve_paths env config_paths p v) (parse_test_config env))"

section \<open>The completed cost stage\<close>

definition gate_path_of :: "test_config \<Rightarrow> path" where
  "gate_path_of c = in_dir (tc_cost_root c) ''candidate_lock.json''"

definition path_item_ne :: "file_env \<Rightarrow> py \<Rightarrow> string \<Rightarrow> path \<Rightarrow> bool res" where
  "path_item_ne env v k p = bindE (str_item v k) (\<lambda>s. Inr (fv_resolve env (fv_path env s) \<noteq> p))"

definition check_cost_files :: "file_env \<Rightarrow> store \<Rightarrow> test_config \<Rightarrow> unit res" where
  "check_cost_files env s c =
     rejectE (ValueError ''cost record and lock'')
       [bindE (file_sha env s (in_dir (tc_cost_root c) ''cost_manifest.json'')) (\<lambda>h. Inr (h \<noteq> tc_cost_manifest_sha256 c)),
        bindE (file_sha env s (gate_path_of c)) (\<lambda>h. Inr (h \<noteq> tc_candidate_lock_sha256 c))]"

definition check_cost_status :: "test_config \<Rightarrow> py \<Rightarrow> py \<Rightarrow> unit res" where
  "check_cost_status c manifest gate =
     rejectE (ValueError ''waiting for the test'')
       [item_ne manifest ''status'' (PyStr ''complete''),
        item_ne manifest ''result_status'' (PyStr ''candidate_locked_pending_independent_test''),
        item_ne manifest ''candidate_lock_sha256'' (PyStr (tc_candidate_lock_sha256 c)),
        item_is_not manifest ''test_evaluated'' False,
        item_ne gate ''status'' (PyStr ''candidate_locked_before_test''), item_is_not gate ''test_files_read'' False]"

definition check_cost_report ::
    "file_env \<Rightarrow> test_config \<Rightarrow> cost_config \<Rightarrow> op_data \<Rightarrow> py \<Rightarrow> py \<Rightarrow> unit res" where
  "check_cost_report env c cost data report gate =
     rejectE (ValueError ''cost report'')
       [item_ne report ''status'' (PyStr ''candidate_locked_pending_independent_test''),
        item_is_not report ''cost_verified'' True, item_is_not report ''test_evaluated'' False,
        item_is_not report ''deployment_ready'' False,
        item_ne report ''candidate_lock_sha256'' (PyStr (tc_candidate_lock_sha256 c)),
        path_item_ne env report ''candidate_lock_path'' (fv_resolve env (gate_path_of c)),
        Inr (kc_dataset_dir cost \<noteq> tc_dataset_dir c), Inr (kc_dataset_id cost \<noteq> tc_dataset_id c),
        item_ne gate ''dataset_id'' (PyStr (od_dataset_id data)),
        path_item_ne env gate ''dataset_dir'' (tc_dataset_dir c),
        item_ne gate ''expected_test_rows'' (PyInt (tc_expected_rows c)),
        item_ne gate ''input_sha256'' (input_hashes data),
        Inr (int (length (op_y (od_train data))) \<noteq> kc_expected_train_rows cost),
        Inr (int (length (op_y (od_validation data))) \<noteq> kc_expected_validation_rows cost)]"

definition check_policy :: "py \<Rightarrow> py \<Rightarrow> py \<Rightarrow> py \<Rightarrow> unit res" where
  "check_policy gate report protocol descriptor =
     rejectE (ValueError ''fixed policy'')
       [bindE (py_item gate ''selected_model_id'') (\<lambda>m. bindE (py_item descriptor ''id'') (\<lambda>i. Inr (\<not> py_eq m i))),
        item_ne report ''descriptor'' descriptor, item_ne protocol ''descriptor'' descriptor,
        items_ne gate ''criteria'' report ''criteria'', items_ne gate ''criteria'' protocol ''criteria'',
        items_ne gate ''selected_trial'' report ''selected_trial'',
        bindE (py_item gate ''cost_summary'') (\<lambda>a. bindE (path_items report [''cost'', ''summary'']) (\<lambda>b. Inr (\<not> py_eq a b))),
        item_ne descriptor ''candidate_id'' (PyStr ''rf_raw7''), item_ne descriptor ''threshold'' threshold_0_7,
        item_ne descriptor ''kind'' (PyStr ''random_forest''), item_ne descriptor ''input_transform_id'' (PyStr ''raw7_v1''),
        item_is_not descriptor ''requires_ordered_session_prefix'' False,
        item_ne gate ''test_rule'' (PyStr ''confirm_selected_policy_without_reselection''),
        path_ne gate [''criteria'', ''scope''] (PyStr ''local_advisory_integration_only'')]"

definition signature_of :: "cost_lib \<Rightarrow> py \<Rightarrow> py \<Rightarrow> py \<Rightarrow> string res" where
  "signature_of lib descriptor gate expected =
     bindE (py_item gate ''criteria'') (\<lambda>criteria. bindE (py_item gate ''test_rule'') (\<lambda>rule.
     kl_digest lib (PyDict [(''descriptor'', descriptor), (''criteria'', criteria), (''test_rule'', rule),
       (''expected_test_sha256'', expected)])))"

definition check_job :: "test_env \<Rightarrow> store \<Rightarrow> cost_config \<Rightarrow> op_data \<Rightarrow> py \<Rightarrow> py \<Rightarrow> unit res" where
  "check_job env s cost data descriptor job =
     (let fe = tv_files env; X = op_X (od_validation data) in
      bindE (rejectE (ValueError ''cost job'')
        [item_ne job ''descriptor'' descriptor, item_ne job ''benchmark'' (kc_benchmark cost),
         item_ne job ''input_split'' (PyStr ''validation''),
         bindE (str_item job ''input_path'') (\<lambda>p. bindE (file_sha fe s (fv_path fe p)) (\<lambda>h. item_ne job ''input_sha256'' (PyStr h)))]) (\<lambda>_.
      bindE (bindE (str_item job ''input_path'') (\<lambda>p. bindE (read_stored fe s (fv_path fe p)) (tv_npz env))) (\<lambda>(names, a).
      check (names = [''X''] \<and> a = X) (ValueError ''cost input''))))"

definition check_criteria :: "py \<Rightarrow> unit res" where
  "check_criteria gate =
     bindE (py_item gate ''selected_trial'') (\<lambda>trial. bindE (py_item gate ''criteria'') (\<lambda>criteria.
     bindE (rejection_reasons trial criteria) (\<lambda>r. if r \<noteq> [] then Inl (ValueError ''criteria'') else
     bindE (py_item gate ''cost_summary'') (\<lambda>cost.
     bindE (cost_rejections cost criteria) (\<lambda>q. check (q = []) (ValueError ''criteria''))))))"

definition verify_cost_completion :: "test_env \<Rightarrow> store \<Rightarrow> test_config \<Rightarrow> op_data \<Rightarrow> (py \<times> py \<times> locked) res" where
  "verify_cost_completion env s c data =
     (let fe = tv_files env; base = tc_cost_root c; manifest_path = in_dir base ''cost_manifest.json'' in
      bindE (check_cost_files fe s c) (\<lambda>_.
      bindE (json_at fe s manifest_path) (\<lambda>manifest.
      bindE (json_at fe s (gate_path_of c)) (\<lambda>gate.
      bindE (check_cost_status c manifest gate) (\<lambda>_.
      bindE (file_sha fe s (gate_path_of c)) (\<lambda>gate_sha.
      bindE (manifest_locks fe s base manifest_path manifest) (\<lambda>locks.
      let protected = dict_update [(fv_text fe manifest_path, PyStr (tc_cost_manifest_sha256 c)),
        (fv_text fe (gate_path_of c), PyStr gate_sha)] locks in
      bindE (verify_without_holdout fe s protected) (\<lambda>_.
      bindE (locked_of manifest ''reports'') (\<lambda>reports.
      bindE (check (fv_text fe (tc_cost_report c) \<in> set (map fst reports)) (ValueError ''cost report'')) (\<lambda>_.
      bindE (json_at fe s (tc_cost_report c)) (\<lambda>report.
      bindE (json_at fe s (in_dir base ''cost_protocol_lock.json'')) (\<lambda>protocol.
      bindE (bindE (py_item protocol ''config'') (parse_cost_config fe)) (\<lambda>cost.
      bindE (check_cost_report fe c cost data report gate) (\<lambda>_.
      bindE (py_item gate ''descriptor'') (\<lambda>descriptor.
      bindE (check_policy gate report protocol descriptor) (\<lambda>_.
      bindE (expected_test_hashes fe (tc_dataset_dir c) s) (\<lambda>expected.
      bindE (signature_of (tv_cost env) descriptor gate expected) (\<lambda>signature.
      bindE (rejectE (ValueError ''policy signature'')
        [item_ne gate ''expected_test_sha256'' expected, item_ne protocol ''expected_test_sha256'' expected,
         item_ne gate ''policy_signature'' (PyStr signature)]) (\<lambda>_.
      bindE (locked_of report ''protected_sha256'') (\<lambda>more.
      bindE (locked_of gate ''pre_test_protected_sha256'') (\<lambda>pre.
      let protected' = dict_update (dict_update protected more) pre in
      bindE (verify_without_holdout fe s protected') (\<lambda>_.
      bindE (str_item descriptor ''id'') (\<lambda>k.
      bindE (py_item report ''cost'') (\<lambda>measured.
      bindE (validate_cost_runs (tv_cost env) cost descriptor (int (length (op_y (od_validation data)))) [(k, measured)]) (\<lambda>_.
      bindE (check_criteria gate) (\<lambda>_.
      bindE (json_at fe s (path_join base (Rel [''cost'', k, ''job.json'']))) (\<lambda>job.
      bindE (check_job env s cost data descriptor job) (\<lambda>_.
      bindE (rejectE (ValueError ''validation matrix'') [item_ne protocol ''validation_matrix_sha256''
        (PyStr (kl_matrix_hash (tv_cost env) (op_columns (od_validation data)) (op_X (od_validation data))))]) (\<lambda>_.
      Inr (gate, report, protected'))))))))))))))))))))))))))))))"

section \<open>The locked model\<close>

text \<open>\<open>FrozenRuntime\<close> of a descriptor that is not an LSTM.\<close>

record frozen =
  fz_threshold :: py
  fz_pipeline :: loaded_pipeline
  fz_model :: stored

definition descriptor_file :: "py \<Rightarrow> string \<Rightarrow> string res" where
  "descriptor_file descriptor role = bindE (path_items descriptor [''files'', role]) (\<lambda>f. str_item f ''path'')"

definition freeze_runtime :: "test_env \<Rightarrow> store \<Rightarrow> py \<Rightarrow> frozen res" where
  "freeze_runtime env s descriptor =
     (let fe = tv_files env in
      bindE (py_item descriptor ''threshold'') (\<lambda>threshold.
      bindE (bindE (py_item descriptor ''files'') dict_items) (\<lambda>files.
      bindE (mapE (\<lambda>(role, f). bindE (str_item f ''path'') (\<lambda>p. bindE (py_item f ''sha256'') (\<lambda>h. Inr (p, h)))) files) (\<lambda>hashes.
      bindE (verify_stored fe s hashes) (\<lambda>_.
      bindE (bindE (descriptor_file descriptor ''model'') (\<lambda>p. read_stored fe s (fv_path fe p))) (\<lambda>model.
      bindE (tv_load_model env model) (\<lambda>pipeline.
      bindE (lookupE (lp_steps pipeline) ''classifier'') (\<lambda>classifier.
      bindE (rejectE (ValueError ''n_jobs'') [bindE (item_ne descriptor ''kind'' (PyStr ''random_forest'')) (\<lambda>other.
          Inr (\<not> other \<and> cl_n_jobs classifier \<noteq> 1))]) (\<lambda>_.
      Inr \<lparr>fz_threshold = threshold, fz_pipeline = pipeline, fz_model = model\<rparr>)))))))))"

definition document_at :: "test_env \<Rightarrow> store \<Rightarrow> py \<Rightarrow> string \<Rightarrow> py res" where
  "document_at env s descriptor role =
     bindE (descriptor_file descriptor role) (\<lambda>p. json_at (tv_files env) s (fv_path (tv_files env) p))"

definition check_runtime :: "op_data \<Rightarrow> frozen \<Rightarrow> py \<Rightarrow> py \<Rightarrow> py \<Rightarrow> py \<Rightarrow> unit res" where
  "check_runtime data runtime schema policy features labels =
     (let steps = lp_steps (fz_pipeline runtime); m = snd (hd steps) in
      rejectE (ValueError ''inference path'')
        [Inr (map fst steps \<noteq> [''classifier''] \<or> \<not> cl_is_random_forest m \<or> cl_n_jobs m \<noteq> 1 \<or> cl_classes m \<noteq> [0, 1] \<or>
           cl_feature_names_in m \<noteq> MESSAGE_FEATURE_ORDER),
         item_ne schema ''model_input_features'' (py_strs MESSAGE_FEATURE_ORDER),
         item_ne schema ''raw_input_features'' (py_strs MESSAGE_FEATURE_ORDER),
         item_ne schema ''input_transform_id'' (PyStr ''raw7_v1''),
         item_is_not schema ''requires_ordered_session_prefix'' False,
         Inr (\<not> py_eq features (od_schema data)),
         Inr (\<not> py_eq labels (PyDict [(''normal'', PyInt 0), (''controlled_anomaly'', PyInt 1)])),
         item_ne policy ''threshold'' threshold_0_7, item_ne policy ''positive_class'' (PyInt 1),
         item_ne policy ''comparison'' (PyStr ''>='')])"

definition validate_runtime :: "test_env \<Rightarrow> store \<Rightarrow> py \<Rightarrow> op_data \<Rightarrow> frozen res" where
  "validate_runtime env s gate data =
     bindE (py_item gate ''descriptor'') (\<lambda>descriptor.
     bindE (freeze_runtime env s descriptor) (\<lambda>runtime.
     bindE (document_at env s descriptor ''model_input_schema'') (\<lambda>schema.
     bindE (document_at env s descriptor ''decision_policy'') (\<lambda>policy.
     bindE (document_at env s descriptor ''feature_schema'') (\<lambda>features.
     bindE (document_at env s descriptor ''label_map'') (\<lambda>labels.
     bindE (check_runtime data runtime schema policy features labels) (\<lambda>_.
     bindE (tv_predict env (fz_model runtime) (op_X (od_validation data))) (\<lambda>probability.
     bindE (py_item descriptor ''candidate_id'') (\<lambda>candidate.
     bindE (py_item descriptor ''input_transform_id'') (\<lambda>transform.
     bindE (py_item gate ''criteria'') (\<lambda>criteria.
     bindE (make_trial (tv_judge env) [(''candidate_id'', candidate), (''input_transform_id'', transform)]
       (od_validation data) probability (fz_threshold runtime) criteria) (\<lambda>replay.
     bindE (rejectE (ValueError ''validation result'') [item_ne gate ''selected_trial'' replay]) (\<lambda>_.
     Inr runtime)))))))))))))"

section \<open>Judging the test\<close>

definition check_test_session :: "op_split \<Rightarrow> int list \<Rightarrow> nat list \<Rightarrow> unit res" where
  "check_test_session source indices g =
     bindE (check (map ((!) indices) g = map int [1..<length g + 1]) (ValueError ''missing or repeated message'')) (\<lambda>_.
     bindE (check (feature_at source ''message_interval_ms'' (hd g) = Fin 0) (ValueError ''first interval'')) (\<lambda>_.
     forE (\<lambda>name. check (\<not> decreasing_somewhere (map (feature_at source name) g)) (ValueError name))
       [''connection_duration_ms'', ''bytes_received_total'', ''bytes_sent_total'', ''error_count_total'']))"

definition validate_test_sessions :: "judge_env \<Rightarrow> op_split \<Rightarrow> unit res" where
  "validate_test_sessions env source =
     bindE (mapE (je_int env) (col (op_meta source) ''request_index'')) (\<lambda>indices.
     forE (check_test_session source indices) (sessions_of (op_meta source) indices))"

definition campaign_metrics :: "op_split \<Rightarrow> int list \<Rightarrow> py" where
  "campaign_metrics source prediction =
     PyDict (map (\<lambda>c. (c, counts_document ''normal'' ''anomaly'' ''false_positive_rate''
         (count_errors (pairs_where (\<lambda>i. cell (op_meta source) ''campaign_id'' (fr_rows (op_meta source) ! i) = c) source prediction))))
       (sort (remdups (col (op_meta source) ''campaign_id''))))"

definition error_type :: "int \<Rightarrow> int \<Rightarrow> string" where
  "error_type y p = (if y = 0 \<and> p = 1 then ''FP'' else if y = 1 \<and> p = 0 then ''FN'' else ''correct'')"

definition prediction_table :: "op_split \<Rightarrow> pyfloat list \<Rightarrow> int list \<Rightarrow> py \<Rightarrow> columns" where
  "prediction_table source probability prediction threshold =
     dict_update (map (\<lambda>n. (n, map PyStr (col (op_meta source) n))) (fr_columns (op_meta source)) @
       map (\<lambda>n. (n, map (\<lambda>i. PyFloat (feature_at source n i)) [0..<length (op_X source)])) (op_columns source))
       [(''label'', map PyInt (op_y source)), (''anomaly_probability'', map PyFloat probability),
        (''prediction'', map PyInt prediction), (''threshold'', map (\<lambda>_. threshold) prediction),
        (''error_type'', map2 (\<lambda>y p. PyStr (error_type y p)) (op_y source) prediction)]"

definition evaluate_test :: "test_env \<Rightarrow> op_split \<Rightarrow> frozen \<Rightarrow> (py \<times> columns) res" where
  "evaluate_test env source runtime =
     bindE (tv_predict env (fz_model runtime) (op_X source)) (\<lambda>probability.
     bindE (check (length probability = length (op_y source) \<and> list_all is_finite probability \<and>
         \<not> list_ex (\<lambda>p. flt p (Fin 0) \<or> flt (Fin 1) p) probability) (ValueError ''probabilities'')) (\<lambda>_.
     bindE (threshold_value (fz_threshold runtime)) (\<lambda>t.
     let prediction = decide t probability; je = tv_judge env in
     bindE (calculate_metrics (je_lib je) (op_y source) probability t) (\<lambda>metrics.
     bindE (message_position_counts (je_int je) source prediction) (\<lambda>positions.
     bindE (prefix_diagnostics je source probability t) (\<lambda>burst.
     Inr (PyDict [(''metrics'', metrics), (''by_scenario'', scenario_metrics source prediction),
        (''by_message_position'', positions), (''by_campaign'', campaign_metrics source prediction),
        (''burst_prefix'', burst)], prediction_table source probability prediction (fz_threshold runtime))))))))"

section \<open>The deployment bundle\<close>

definition check_verdict :: "file_env \<Rightarrow> store \<Rightarrow> py \<Rightarrow> py \<Rightarrow> unit res" where
  "check_verdict env s gate verdict =
     bindE (str_item verdict ''candidate_lock_path'') (\<lambda>p.
     rejectE (ValueError ''approval'')
       [item_ne verdict ''status'' (PyStr APPROVED), bindE (py_item verdict ''reasons'') (\<lambda>r. Inr (truthy r)),
        items_ne verdict ''policy_signature'' gate ''policy_signature'',
        bindE (json_at env s (fv_path env p)) (\<lambda>g. Inr (\<not> py_eq g gate)),
        bindE (file_sha env s (fv_path env p)) (\<lambda>h. item_ne verdict ''candidate_lock_sha256'' (PyStr h))])"

definition file_entry :: "test_env \<Rightarrow> string \<Rightarrow> stored \<Rightarrow> py" where
  "file_entry env name f = PyDict [(''path'', PyStr name), (''sha256'', PyStr (fv_sha (tv_files env) f)), (''bytes'', PyInt (int (length (stored_text (tv_files env) f))))]"

definition copy_role :: "test_env \<Rightarrow> path \<Rightarrow> py \<Rightarrow> (string \<times> py) list \<Rightarrow> string \<Rightarrow> (store, (string \<times> py) list) act" where
  "copy_role env directory gate files role =
     (let fe = tv_files env in
      bindS (liftS (path_items gate [''descriptor'', ''files'', role])) (\<lambda>original.
      bindS (liftS (str_item original ''path'')) (\<lambda>p.
      let name = path_name (fv_path fe p); target = in_dir directory name in
      bindS (reading (\<lambda>s. read_stored fe s (fv_path fe p))) (\<lambda>f.
      bindS (modifyS (\<lambda>s. s(target \<mapsto> f))) (\<lambda>_.
      bindS (liftS (rejectE (ValueError ''copy'') [item_ne original ''sha256'' (PyStr (fv_sha fe f))])) (\<lambda>_.
      retS (dict_set role (file_entry env name f) files)))))))"

primrec foldA :: "('b \<Rightarrow> 'a \<Rightarrow> ('s, 'b) act) \<Rightarrow> 'b \<Rightarrow> 'a list \<Rightarrow> ('s, 'b) act" where
  "foldA f acc [] = retS acc"
| "foldA f acc (x # xs) = bindS (f acc x) (\<lambda>acc'. foldA f acc' xs)"

definition decision_document :: py where
  "decision_document = PyDict
     [(''candidate_id'', PyStr ''rf_raw7''), (''threshold'', threshold_0_7), (''positive_class'', PyInt 1),
      (''comparison'', PyStr ''>=''), (''input_transform_id'', PyStr ''raw7_v1''),
      (''selection'', PyStr ''locked_validation_and_cost_policy_confirmed_on_test''),
      (''scope'', PyStr ''local_advisory_integration_only''), (''test_confirmed'', PyBool True),
      (''automatic_blocking_allowed'', PyBool False)]"

definition bundle_manifest ::
    "test_env \<Rightarrow> path \<Rightarrow> py \<Rightarrow> op_data \<Rightarrow> path \<Rightarrow> py \<Rightarrow> string \<Rightarrow> (string \<times> py) list \<Rightarrow> py \<Rightarrow> py res" where
  "bundle_manifest env directory gate data verdict_path verdict verdict_sha files required =
     (let fe = tv_files env in
      bindE (py_item gate ''selected_model_id'') (\<lambda>model_id.
      bindE (py_item (od_schema data) ''feature_contract_id'') (\<lambda>contract_id.
      bindE (py_item verdict ''candidate_lock_sha256'') (\<lambda>lock_sha.
      bindE (py_item gate ''policy_signature'') (\<lambda>signature.
      Inr (PyDict [(''manifest_version'', PyStr ''operational_rf_deployment_v1''), (''status'', PyStr APPROVED),
        (''model_id'', model_id), (''kind'', PyStr ''random_forest''), (''candidate_id'', PyStr ''rf_raw7''),
        (''threshold'', threshold_0_7), (''positive_class'', PyInt 1), (''comparison'', PyStr ''>=''),
        (''dataset_id'', PyStr (od_dataset_id data)), (''feature_contract_id'', contract_id),
        (''feature_order'', py_strs MESSAGE_FEATURE_ORDER), (''input_transform_id'', PyStr ''raw7_v1''),
        (''requires_ordered_session_prefix'', PyBool False), (''preprocessing'', PyStr ''identity_no_scaler''),
        (''files'', PyDict files), (''required_files_bytes'', required), (''candidate_lock_sha256'', lock_sha),
        (''policy_signature'', signature), (''test_verdict_path'', PyStr (fv_text fe (fv_resolve fe verdict_path))),
        (''test_verdict_sha256'', PyStr verdict_sha), (''local_integration_approved'', PyBool True),
        (''requires_complete_evaluation_manifest'', PyBool True),
        (''evaluation_manifest_path'', PyStr (fv_text fe (fv_resolve fe (in_dir (path_parent directory) ''evaluation_manifest.json'')))),
        (''fastapi_integration_implemented'', PyBool False), (''production_ready'', PyBool False),
        (''automatic_blocking_allowed'', PyBool False), (''environment'', tv_versions env)]))))))"

definition artifact_budget :: "py \<Rightarrow> py res" where
  "artifact_budget gate = bindE (path_items gate [''criteria'', ''max_deployment_artifacts_mib'']) (\<lambda>m.
     bindE (py_mul_int m 1024) (\<lambda>k. py_mul_int k 1024))"

definition export_approved_bundle :: "test_env \<Rightarrow> path \<Rightarrow> py \<Rightarrow> op_data \<Rightarrow> path \<Rightarrow> (store, py) act" where
  "export_approved_bundle env directory gate data verdict_path =
     (let fe = tv_files env; decision = in_dir directory ''decision_policy.json'';
          manifest_path = in_dir directory ''deployment_manifest.json'' in
      bindS (reading (\<lambda>s. json_at fe s verdict_path)) (\<lambda>verdict.
      bindS (reading (\<lambda>s. check_verdict fe s gate verdict)) (\<lambda>_.
      bindS (make_dir fe directory) (\<lambda>_.
      bindS (foldA (copy_role env directory gate) [] [''model'', ''feature_schema'', ''model_input_schema'', ''label_map'']) (\<lambda>files.
      bindS (write_new fe decision decision_document) (\<lambda>_.
      let files' = dict_set ''decision_policy'' (file_entry env ''decision_policy.json'' (Document decision_document)) files in
      bindS (liftS (sum_bytes files')) (\<lambda>required.
      bindS (liftS (rejectE (ValueError ''budget'') [bindE (artifact_budget gate) (py_gt required)])) (\<lambda>_.
      bindS (reading (\<lambda>s. file_sha fe s verdict_path)) (\<lambda>verdict_sha.
      bindS (liftS (bundle_manifest env directory gate data verdict_path verdict verdict_sha files' required)) (\<lambda>manifest.
      bindS (write_new fe manifest_path manifest) (\<lambda>_.
      bindS (liftS (py_add required (PyInt (int (length (stored_text fe (Document manifest))))))) (\<lambda>total.
      retS (PyDict [(''directory'', PyStr (fv_text fe (fv_resolve fe directory))),
        (''manifest_sha256'', PyStr (fv_sha fe (Document manifest))), (''required_files_bytes'', required),
        (''total_directory_bytes'', total), (''manifest'', manifest)])))))))))))))"

section \<open>The run\<close>

text \<open>The dataset loader on the stored files of a directory.\<close>

definition store_load :: "file_env \<Rightarrow> store \<Rightarrow> path \<Rightarrow> load_env" where
  "store_load env s directory =
     (fv_load env)\<lparr>le_bytes := \<lambda>n. bindE (read_stored env s (in_dir directory n)) (\<lambda>f. Inr (stored_text env f))\<rparr>"

definition output_paths :: "test_env \<Rightarrow> test_config \<Rightarrow> path list" where
  "output_paths env c = map (tv_suffix env (tc_report_prefix c)) [''.json'', ''.md'', ''.predictions.csv'']"

definition check_locations :: "test_env \<Rightarrow> store \<Rightarrow> test_config \<Rightarrow> unit res" where
  "check_locations env s c =
     (let fe = tv_files env; res = fv_resolve fe; outputs = output_paths env c in
      bindE (check (s (tc_artifact_dir c) = None \<and> list_all (\<lambda>p. s p = None) outputs) (FileExistsError ''outputs'')) (\<lambda>_.
      check (\<not> list_ex (\<lambda>p. list_ex (\<lambda>r. is_relative_to (res p) (res r)) [tc_dataset_dir c, tc_cost_root c, tc_registry_dir c])
            (tc_artifact_dir c # outputs) \<and>
          \<not> list_ex (\<lambda>p. is_relative_to (res p) (res (tc_artifact_dir c))) outputs \<and>
          \<not> list_ex (\<lambda>r. is_relative_to (res (tc_registry_dir c)) (res r)) [tc_dataset_dir c, tc_cost_root c, tc_artifact_dir c])
        (ValueError ''separate locations'')))"

definition raw_roots :: "file_env \<Rightarrow> locked \<Rightarrow> path list" where
  "raw_roots env protected =
     concat (map (\<lambda>(n, _). if path_name (fv_path env n) = ''assignment_manifest.json''
       then [path_parent (fv_resolve env (fv_path env n))] else []) protected)"

definition lock_code :: "file_env \<Rightarrow> store \<Rightarrow> path list \<Rightarrow> locked res" where
  "lock_code env s paths = mapE (\<lambda>p. bindE (file_sha env s p) (\<lambda>h. Inr (fv_text env p, PyStr h))) paths"

record test_plan =
  tp_config :: test_config
  tp_data :: op_data
  tp_gate :: py
  tp_protected :: locked
  tp_runtime :: frozen

definition plan_test :: "test_env \<Rightarrow> py \<Rightarrow> store \<Rightarrow> test_plan res" where
  "plan_test env document s =
     (let fe = tv_files env in
      bindE (parse_test_config fe document) (\<lambda>c.
      bindE (check_locations env s c) (\<lambda>_.
      bindE (fst (load_operational_data (store_load fe s (tc_dataset_dir c)) (tc_dataset_id c) [])) (\<lambda>data.
      bindE (verify_cost_completion env s c data) (\<lambda>(gate, report, protected).
      bindE (check (\<not> list_ex (\<lambda>p. list_ex (is_relative_to (fv_resolve fe p)) (raw_roots fe protected))
          (tc_registry_dir c # tc_artifact_dir c # output_paths env c)) (ValueError ''raw batch'')) (\<lambda>_.
      bindE (validate_runtime env s gate data) (\<lambda>runtime.
      bindE (lock_code fe s (tv_code env)) (\<lambda>code.
      let protected' = dict_update protected code in
      bindE (verify_without_holdout fe s protected') (\<lambda>_.
      Inr \<lparr>tp_config = c, tp_data = data, tp_gate = gate, tp_protected = protected', tp_runtime = runtime\<rparr>)))))))))"

definition protocol_document :: "file_env \<Rightarrow> test_plan \<Rightarrow> py res" where
  "protocol_document env plan =
     bindE (py_item (tp_gate plan) ''policy_signature'') (\<lambda>signature.
     Inr (PyDict [(''status'', PyStr ''locked_before_holdout_reservation_and_test''), (''locked_at_utc'', PyStr (fv_now env)),
       (''config'', tc_document (tp_config plan)),
       (''candidate_lock_sha256'', PyStr (tc_candidate_lock_sha256 (tp_config plan))), (''policy_signature'', signature),
       (''protected_sha256'', PyDict (tp_protected plan)), (''test_files_read'', PyBool False),
       (''model_training_performed'', PyBool False), (''selection_used_test'', PyBool False)]))"

text \<open>What is decided once the test has been judged.\<close>

record judged =
  jd_test :: op_split
  jd_evidence :: "(string, string) dict"
  jd_receipt :: path
  jd_used :: bool
  jd_protected :: locked
  jd_result :: py
  jd_table :: columns
  jd_reasons :: "string list"

definition approval_status :: "string list \<Rightarrow> string" where
  "approval_status reasons = (if reasons = [] then APPROVED else ''withheld_after_test'')"

definition evaluation_kind :: "bool \<Rightarrow> string" where
  "evaluation_kind used = (if used then ''same_policy_recheck_of_exposed_test'' else ''first_locked_policy_confirmation'')"

definition text_dict :: "(string, string) dict \<Rightarrow> py" where
  "text_dict d = PyDict (map (\<lambda>(k, v). (k, PyStr v)) d)"

definition verdict_document :: "file_env \<Rightarrow> test_plan \<Rightarrow> judged \<Rightarrow> py res" where
  "verdict_document env plan j =
     (let gate = tp_gate plan; c = tp_config plan in
      bindE (py_item gate ''policy_signature'') (\<lambda>signature.
      bindE (py_item (jd_result j) ''metrics'') (\<lambda>metrics.
      bindE (py_item (jd_result j) ''by_scenario'') (\<lambda>scenarios.
      bindE (py_item gate ''criteria'') (\<lambda>criteria.
      bindE (py_item gate ''cost_summary'') (\<lambda>cost.
      Inr (PyDict [(''status'', PyStr (approval_status (jd_reasons j))), (''reasons'', py_strs (jd_reasons j)),
        (''candidate_lock_path'', PyStr (fv_text env (gate_path_of c))),
        (''candidate_lock_sha256'', PyStr (tc_candidate_lock_sha256 c)), (''policy_signature'', signature),
        (''test_input_sha256'', text_dict (jd_evidence j)), (''metrics'', metrics), (''by_scenario'', scenarios),
        (''criteria'', criteria), (''cost_summary'', cost), (''holdout_receipt_path'', PyStr (fv_text env (jd_receipt j))),
        (''holdout_previously_reserved'', PyBool (jd_used j)), (''evaluation_kind'', PyStr (evaluation_kind (jd_used j))),
        (''production_ready'', PyBool False), (''automatic_blocking_allowed'', PyBool False)])))))))"

text \<open>Reservation, loading and judgement; the receipt is taken before a test file is opened.\<close>

definition judge_test :: "test_env \<Rightarrow> test_plan \<Rightarrow> locked \<Rightarrow> path \<times> bool \<Rightarrow> store \<Rightarrow> judged res" where
  "judge_test env plan protected r s =
     (let fe = tv_files env; c = tp_config plan; gate = tp_gate plan in
      case r of (receipt, used) \<Rightarrow>
      bindE (file_sha fe s receipt) (\<lambda>h.
      let locks = dict_set (fv_text fe receipt) (PyStr h) protected in
      bindE (verify_without_holdout fe s locks) (\<lambda>_.
      bindE (load_test fe (tc_dataset_dir c) (tp_data plan) (gate_path_of c) (tc_candidate_lock_sha256 c) receipt s) (\<lambda>(test, evidence).
      bindE (check (int (length (op_y test)) = tc_expected_rows c) (ValueError ''test rows'')) (\<lambda>_.
      bindE (validate_test_sessions (tv_judge env) test) (\<lambda>_.
      bindE (evaluate_test env test (tp_runtime plan)) (\<lambda>(result, table).
      bindE (py_item gate ''criteria'') (\<lambda>criteria.
      bindE (rejection_reasons result criteria) (\<lambda>reasons.
      bindE (py_item gate ''cost_summary'') (\<lambda>cost.
      bindE (cost_rejections cost criteria) (\<lambda>more.
      Inr \<lparr>jd_test = test, jd_evidence = evidence, jd_receipt = receipt, jd_used = used,
        jd_protected = dict_update locks (map (\<lambda>(n, d). (fv_text fe (in_dir (tc_dataset_dir c) n), PyStr d)) evidence),
        jd_result = result, jd_table = table, jd_reasons = reasons @ more\<rparr>)))))))))))"

definition rows_ne :: "columns \<Rightarrow> columns \<Rightarrow> string \<Rightarrow> bool res" where
  "rows_ne saved table name = bindE (lookupE saved name) (\<lambda>a. bindE (lookupE table name) (\<lambda>b.
     Inr (\<not> py_eq (PyList a) (PyList b))))"

definition check_saved :: "columns \<Rightarrow> columns \<Rightarrow> unit res" where
  "check_saved saved table =
     bindE (rejectE (ValueError ''saved predictions'') (map (rows_ne saved table) [''row_id'', ''label'', ''anomaly_probability'', ''prediction''])) (\<lambda>_.
     bindE (lookupE saved ''threshold'') (\<lambda>ts. check (list_all (\<lambda>t. py_eq t threshold_0_7) ts) (ValueError ''saved predictions'')))"

definition write_text :: "file_env \<Rightarrow> path \<Rightarrow> string \<Rightarrow> (store, unit) act" where
  "write_text env p t s = (if s p \<noteq> None then (Inl (FileExistsError (fv_text env p)), s) else (Inr (), s(p \<mapsto> Content t)))"

definition save_predictions :: "test_env \<Rightarrow> path \<Rightarrow> columns \<Rightarrow> (store, unit) act" where
  "save_predictions env p table =
     bindS (write_text (tv_files env) p (tv_csv env table)) (\<lambda>_.
     bindS (reading (\<lambda>s. bindE (read_stored (tv_files env) s p) (\<lambda>f. tv_uncsv env (stored_text (tv_files env) f)))) (\<lambda>saved.
     liftS (check_saved saved table)))"

section \<open>Report\<close>

definition excluded_of :: "py \<Rightarrow> frame \<Rightarrow> py list res" where
  "excluded_of manifest metadata =
     bindE (dict_items manifest) (\<lambda>d.
     bindE (case map_of d ''excluded_sources'' of None \<Rightarrow> Inr [] | Some v \<Rightarrow> py_iter v) (\<lambda>entries.
     filterE (\<lambda>e. bindE (py_item e ''campaign_id'') (\<lambda>c. Inr (list_ex (\<lambda>x. py_eq c (PyStr x)) (col metadata ''campaign_id'')))) entries))"

definition coverage_document :: "frame \<Rightarrow> py list \<Rightarrow> py res" where
  "coverage_document m excluded =
     bindE (filterE (\<lambda>e. bindE (py_item e ''scenario_id'') (\<lambda>x. Inr (py_eq x (PyStr ''invalid_frame_size'')))) excluded) (\<lambda>header.
     Inr (PyDict [(''rows'', PyInt (int (length (fr_rows m)))), (''campaigns'', PyInt (int (nunique (col m ''campaign_id'')))),
       (''runs'', PyInt (int (nunique (col m ''run_id'')))), (''sessions'', PyInt (int (nunique (cols m GROUP_COLUMNS)))),
       (''excluded_header_runs'', PyInt (int (length header))), (''excluded_sources'', PyList excluded)]))"

definition test_report :: "test_env \<Rightarrow> test_plan \<Rightarrow> judged \<Rightarrow> string \<Rightarrow> py option \<Rightarrow> py \<Rightarrow> py res" where
  "test_report env plan j protocol_sha bundle manifest =
     (let fe = tv_files env; c = tp_config plan; gate = tp_gate plan; m = op_meta (jd_test j); reasons = jd_reasons j in
      bindE (excluded_of manifest m) (\<lambda>excluded.
      bindE (mapE (py_item gate) [''selected_model_id'', ''descriptor'', ''policy_signature'', ''criteria'', ''cost_summary'', ''selected_trial'']) (\<lambda>g.
      bindE (coverage_document m excluded) (\<lambda>coverage.
      Inr (PyDict ([(''report_version'', PyStr ''v1''), (''status'', PyStr ''complete''), (''generated_at_utc'', PyStr (fv_now fe)),
        (''experiment_id'', PyStr (tc_experiment_id c)), (''dataset_id'', PyStr (od_dataset_id (tp_data plan))),
        (''selected_model_id'', g ! 0), (''candidate_id'', PyStr ''rf_raw7''), (''threshold'', threshold_0_7),
        (''feature_order'', py_strs MESSAGE_FEATURE_ORDER), (''descriptor'', g ! 1),
        (''candidate_lock_sha256'', PyStr (tc_candidate_lock_sha256 c)), (''cost_manifest_sha256'', PyStr (tc_cost_manifest_sha256 c)),
        (''policy_signature'', g ! 2), (''evaluation_protocol_lock_sha256'', PyStr protocol_sha), (''test'', jd_result j),
        (''criteria'', g ! 3), (''cost_summary'', g ! 4), (''validation_reference'', g ! 5),
        (''test_input_sha256'', text_dict (jd_evidence j)), (''coverage'', coverage),
        (''approval'', PyDict [(''status'', PyStr (approval_status reasons)), (''reasons'', py_strs reasons),
           (''local_integration_approved'', PyBool (reasons = [])), (''production_ready'', PyBool False),
           (''automatic_blocking_allowed'', PyBool False)]),
        (''deployment_bundle'', (case bundle of None \<Rightarrow> PyNone | Some b \<Rightarrow> b)),
        (''holdout_receipt_path'', PyStr (fv_text fe (jd_receipt j))), (''holdout_previously_reserved'', PyBool (jd_used j)),
        (''evaluation_kind'', PyStr (evaluation_kind (jd_used j))), (''protected_sha256'', PyDict (jd_protected j)),
        (''remaining_major_stages'', PyInt (if reasons = [] then 3 else 4)),
        (''limitations'', py_strs (tv_limitations env)), (''test_evaluated'', PyBool True)] @
        map (\<lambda>k. (k, PyBool False)) [''selection_used_test'', ''thresholds_changed'', ''model_training_performed'', ''cost_remeasured''] @
        [(''fastapi_still_dummy'', PyBool True)]))))))"

definition complete_document :: "test_env \<Rightarrow> test_plan \<Rightarrow> judged \<Rightarrow> store \<Rightarrow> py res" where
  "complete_document env plan j s =
     (let fe = tv_files env; c = tp_config plan in
      bindE (mapE (\<lambda>p. bindE (read_stored fe s p) (\<lambda>f. Inr (relative_parts p (tc_artifact_dir c),
         PyDict [(''sha256'', PyStr (fv_sha fe f)), (''bytes'', PyInt (int (length (stored_text fe f))))]))) (tv_found env s (tc_artifact_dir c))) (\<lambda>inventory.
      bindE (lock_code fe s (output_paths env c)) (\<lambda>reports.
      bindE (py_item (tp_gate plan) ''policy_signature'') (\<lambda>signature.
      Inr (PyDict [(''status'', PyStr ''complete''), (''approval_status'', PyStr (approval_status (jd_reasons j))),
        (''artifacts'', PyDict inventory), (''reports'', PyDict reports),
        (''candidate_lock_sha256'', PyStr (tc_candidate_lock_sha256 c)), (''policy_signature'', signature),
        (''test_evaluated'', PyBool True), (''model_training_performed'', PyBool False), (''production_ready'', PyBool False)])))))"

text \<open>The part of the run after the reservation.\<close>

definition finish_test :: "test_env \<Rightarrow> test_plan \<Rightarrow> locked \<Rightarrow> path \<Rightarrow> path \<times> bool \<Rightarrow> (store, py) act" where
  "finish_test env plan protected protocol_path r =
     (let fe = tv_files env; c = tp_config plan; verdict_path = in_dir (tc_artifact_dir c) ''test_verdict.json'';
          outputs = output_paths env c in
      bindS (reading (judge_test env plan protected r)) (\<lambda>j.
      bindS (liftS (verdict_document fe plan j)) (\<lambda>verdict.
      bindS (write_new fe verdict_path verdict) (\<lambda>_.
      bindS (reading (\<lambda>s. verify_stored fe s (jd_protected j))) (\<lambda>_.
      bindS (if jd_reasons j = []
        then bindS (export_approved_bundle env (in_dir (tc_artifact_dir c) ''deployment_bundle'') (tp_gate plan) (tp_data plan) verdict_path)
          (\<lambda>b. retS (Some b))
        else retS None) (\<lambda>bundle.
      bindS (save_predictions env (outputs ! 2) (jd_table j)) (\<lambda>_.
      bindS (reading (\<lambda>s. json_at fe s (in_dir (tc_dataset_dir c) ''dataset_manifest.json''))) (\<lambda>manifest.
      bindS (reading (\<lambda>s. file_sha fe s protocol_path)) (\<lambda>protocol_sha.
      bindS (liftS (test_report env plan j protocol_sha bundle manifest)) (\<lambda>report.
      bindS (write_new fe (outputs ! 0) report) (\<lambda>_.
      bindS (write_text fe (outputs ! 1) (tv_render env report)) (\<lambda>_.
      bindS (reading (\<lambda>s. verify_stored fe s (jd_protected j))) (\<lambda>_.
      bindS (reading (complete_document env plan j)) (\<lambda>complete.
      bindS (write_new fe (in_dir (tc_artifact_dir c) ''evaluation_manifest.json'') complete) (\<lambda>_.
      retS report)))))))))))))))"

definition failure_note :: "test_env \<Rightarrow> exn \<Rightarrow> bool \<Rightarrow> py" where
  "failure_note env e reserved = PyDict [(''status'', PyStr ''failed''), (''error'', PyStr (exn_text e)),
     (''holdout_reserved_this_attempt'', PyBool reserved), (''production_ready'', PyBool False), (''notice'', PyStr (tv_notice env))]"

text \<open>\<open>except BaseException\<close>: the failure is recorded and raised again.\<close>

definition noting_failure :: "file_env \<Rightarrow> path \<Rightarrow> (exn \<Rightarrow> py) \<Rightarrow> (store, 'a) act \<Rightarrow> (store, 'a) act" where
  "noting_failure env p note m s =
     (case m s of (Inr a, s') \<Rightarrow> (Inr a, s')
      | (Inl e, s') \<Rightarrow> (case write_new env p (note e) s' of
           (Inl e', s'') \<Rightarrow> (Inl e', s'') | (Inr _, s'') \<Rightarrow> (Inl e, s'')))"

definition run_test :: "test_env \<Rightarrow> py \<Rightarrow> (store, py) act" where
  "run_test env document =
     (let fe = tv_files env in
      bindS (reading (plan_test env document)) (\<lambda>plan.
      let c = tp_config plan; failure = in_dir (tc_artifact_dir c) ''evaluation_failure.json'';
          protocol_path = in_dir (tc_artifact_dir c) ''evaluation_protocol_lock.json'' in
      bindS (make_dir fe (tc_artifact_dir c)) (\<lambda>_.
      bindS (noting_failure fe failure (\<lambda>e. failure_note env e False)
        (bindS (liftS (protocol_document fe plan)) (\<lambda>protocol.
         bindS (write_new fe protocol_path protocol) (\<lambda>_.
         bindS (reading (\<lambda>s. file_sha fe s protocol_path)) (\<lambda>h.
         bindS (reserve_holdout fe (tc_registry_dir c) (gate_path_of c) (tc_candidate_lock_sha256 c)) (\<lambda>r.
         retS (dict_set (fv_text fe protocol_path) (PyStr h) (tp_protected plan), r))))))) (\<lambda>(protected, r).
      noting_failure fe failure (\<lambda>e. failure_note env e True) (finish_test env plan protected protocol_path r)))))"

end
