(* ===== verification/Cost_Run.thy ===== *)
theory Cost_Run
  imports Test_Run
begin

text \<open>
  The run of \<open>evaluation/run_operational_recovery_cost.py\<close>: the selected model is frozen in a bundle
  of its own, its cost is measured by worker processes (\<open>benchmark_models\<close> of
  \<open>run_operational_final_evaluation.py\<close>), and the candidate is locked for the test when every limit
  holds. \<open>cost_env\<close> adds to \<open>test_env\<close> the worker process, the numpy archive of the inputs and the
  parameters of a stored classifier.
\<close>

record cost_env =
  ce_test :: test_env
  ce_worker :: "path \<Rightarrow> path \<Rightarrow> store \<Rightarrow> bool res \<times> store"
  ce_npz :: "pyfloat list list \<Rightarrow> string"
  ce_parameters :: "stored \<Rightarrow> py res"

abbreviation ce_files :: "cost_env \<Rightarrow> file_env" where
  "ce_files env \<equiv> tv_files (ce_test env)"

definition cost_paths :: "string list" where
  "cost_paths = [''dataset_dir'', ''training_root'', ''training_report'', ''design_path'', ''artifact_dir'', ''report_prefix'']"

definition load_cost_config :: "file_env \<Rightarrow> store \<Rightarrow> path \<Rightarrow> cost_config res" where
  "load_cost_config env s p = bindE (json_at env s p) (\<lambda>v. bindE (resolve_paths env cost_paths p v) (parse_cost_config env))"

section \<open>The frozen candidate\<close>

definition candidate_dir :: "cost_config \<Rightarrow> path" where
  "candidate_dir c = path_join (kc_training_root c) (Rel [''candidates'', ''rf_raw7''])"

definition item_differs :: "py \<Rightarrow> string \<Rightarrow> string res \<Rightarrow> bool res" where
  "item_differs v k h = bindE (py_item v k) (\<lambda>x. bindE h (\<lambda>d. Inr (\<not> py_eq x (PyStr d))))"

definition check_selected_model ::
    "cost_env \<Rightarrow> store \<Rightarrow> cost_config \<Rightarrow> op_data \<Rightarrow> py \<Rightarrow> py \<Rightarrow> py \<Rightarrow> py \<Rightarrow> unit res" where
  "check_selected_model env s c data schema summary raw_schema label_map =
     (let lib = tv_cost (ce_test env) in
      rejectE (ValueError ''selected model'')
        [item_ne schema ''input_transform_id'' (PyStr ''raw7_v1''),
         item_ne schema ''model_input_features'' (py_strs MESSAGE_FEATURE_ORDER),
         item_ne schema ''raw_input_features'' (py_strs MESSAGE_FEATURE_ORDER),
         item_is_not schema ''requires_ordered_session_prefix'' False,
         item_ne schema ''preprocessing'' (PyStr ''identity_no_scaler''),
         Inr (\<not> py_eq raw_schema (od_schema data)),
         Inr (\<not> py_eq label_map (PyDict [(''normal'', PyInt 0), (''controlled_anomaly'', PyInt 1)])),
         item_ne summary ''train_rows'' (PyInt (int (length (op_y (od_train data))))),
         item_ne summary ''fit_scope'' (PyStr ''new_train_only''),
         item_differs summary ''model_sha256'' (file_sha (ce_files env) s (in_dir (candidate_dir c) ''pipeline.joblib'')),
         item_differs summary ''train_matrix_sha256'' (Inr (kl_matrix_hash lib (op_columns (od_train data)) (op_X (od_train data)))),
         item_differs summary ''validation_matrix_sha256''
           (Inr (kl_matrix_hash lib (op_columns (od_validation data)) (op_X (od_validation data))))])"

definition bundle_roles :: "cost_config \<Rightarrow> (string \<times> path \<times> string) list" where
  "bundle_roles c =
     [(''model'', in_dir (candidate_dir c) ''pipeline.joblib'', ''pipeline.joblib''),
      (''feature_schema'', in_dir (kc_training_root c) ''raw_feature_schema.json'', ''feature_schema.json''),
      (''model_input_schema'', in_dir (candidate_dir c) ''model_input_schema.json'', ''model_input_schema.json''),
      (''label_map'', in_dir (kc_training_root c) ''label_map.json'', ''label_map.json'')]"

text \<open>The entry of a file that the bundle holds.\<close>

definition stored_entry :: "file_env \<Rightarrow> store \<Rightarrow> path \<Rightarrow> py res" where
  "stored_entry env s p = bindE (read_stored env s p) (\<lambda>f.
     Inr (PyDict [(''path'', PyStr (fv_text env (fv_resolve env p))), (''sha256'', PyStr (fv_sha env f)),
       (''bytes'', PyInt (int (length (stored_text env f))))]))"

definition copy_file :: "file_env \<Rightarrow> path \<Rightarrow> (string \<times> py) list \<Rightarrow> string \<times> path \<times> string \<Rightarrow> (store, (string \<times> py) list) act" where
  "copy_file env directory files r =
     (case r of (role, origin, name) \<Rightarrow>
      let target = in_dir directory name in
      bindS (reading (\<lambda>s. read_stored env s origin)) (\<lambda>f.
      bindS (modifyS (\<lambda>s. s(target \<mapsto> f))) (\<lambda>_.
      bindS (reading (\<lambda>s. bindE (file_sha env s target) (\<lambda>h. bindE (file_sha env s origin) (\<lambda>g.
        check (h = g) (ValueError ''copy''))))) (\<lambda>_.
      bindS (reading (\<lambda>s. stored_entry env s target)) (\<lambda>e.
      retS (dict_set role e files))))))"

definition candidate_policy :: py where
  "candidate_policy = PyDict
     [(''candidate_id'', PyStr ''rf_raw7''), (''threshold'', threshold_0_7), (''positive_class'', PyInt 1),
      (''comparison'', PyStr ''>=''), (''input_transform_id'', PyStr ''raw7_v1''),
      (''selection'', PyStr ''validation_selected_pending_cost_and_test''), (''test_confirmed'', PyBool False),
      (''deployment_ready'', PyBool False), (''automatic_blocking_allowed'', PyBool False)]"

definition candidate_descriptor :: "(string \<times> py) list \<Rightarrow> py \<Rightarrow> py" where
  "candidate_descriptor files metrics = PyDict
     [(''id'', PyStr ''selected_recovery_rf''), (''kind'', PyStr ''random_forest''), (''candidate_id'', PyStr ''rf_raw7''),
      (''threshold'', threshold_0_7), (''input_transform_id'', PyStr ''raw7_v1''),
      (''requires_ordered_session_prefix'', PyBool False), (''files'', PyDict files), (''validation_metrics'', metrics)]"

definition check_frozen_forest :: "cost_env \<Rightarrow> py \<Rightarrow> frozen \<Rightarrow> unit res" where
  "check_frozen_forest env report runtime =
     bindE (path_items report [''protocol'', ''full_rf_parameters'']) (\<lambda>expected.
     let steps = lp_steps (fz_pipeline runtime); m = snd (hd steps) in
     rejectE (ValueError ''forest'')
       [bindE (lookupE steps ''classifier'') (\<lambda>k. Inr (\<not> cl_is_random_forest k)),
        bindE (ce_parameters env (fz_model runtime)) (\<lambda>q. Inr (\<not> py_eq q expected)),
        Inr (map fst steps \<noteq> [''classifier''] \<or> cl_classes m \<noteq> [0, 1] \<or> cl_feature_names_in m \<noteq> MESSAGE_FEATURE_ORDER)])"

definition column_ne :: "columns \<Rightarrow> string \<Rightarrow> py list \<Rightarrow> bool res" where
  "column_ne saved name vs = bindE (lookupE saved name) (\<lambda>a. Inr (\<not> py_eq (PyList a) (PyList vs)))"

definition check_saved_candidate :: "op_split \<Rightarrow> pyfloat list \<Rightarrow> columns \<Rightarrow> unit res" where
  "check_saved_candidate source probability saved =
     rejectE (ValueError ''saved candidate'')
       [column_ne saved ''row_id'' (map PyStr (col (op_meta source) ''row_id'')),
        column_ne saved ''label'' (map PyInt (op_y source)),
        column_ne saved ''anomaly_probability'' (map PyFloat probability)]"

text \<open>The frozen model predicts what was stored, and its trial is the chosen one again.\<close>

definition replay_candidate :: "cost_env \<Rightarrow> cost_config \<Rightarrow> op_data \<Rightarrow> py \<Rightarrow> py \<Rightarrow> py \<Rightarrow> store \<Rightarrow> unit res" where
  "replay_candidate env c data report chosen descriptor s =
     (let te = ce_test env; fe = ce_files env; source = od_validation data in
      bindE (freeze_runtime te s descriptor) (\<lambda>runtime.
      bindE (check_frozen_forest env report runtime) (\<lambda>_.
      bindE (tv_predict te (fz_model runtime) (op_X source)) (\<lambda>probability.
      bindE (bindE (read_stored fe s (in_dir (candidate_dir c) ''validation_predictions.csv''))
        (\<lambda>f. tv_uncsv te (stored_text fe f))) (\<lambda>saved.
      bindE (check_saved_candidate source probability saved) (\<lambda>_.
      bindE (path_items report [''protocol'', ''recovery_plan'', ''approval_criteria'']) (\<lambda>criteria.
      bindE (make_trial (tv_judge te) [(''candidate_id'', PyStr ''rf_raw7''), (''input_transform_id'', PyStr ''raw7_v1'')]
        source probability threshold_0_7 criteria) (\<lambda>replay.
      check (py_eq replay chosen) (ValueError ''replayed trial'')))))))))"

definition freeze_selected :: "cost_env \<Rightarrow> cost_config \<Rightarrow> op_data \<Rightarrow> py \<Rightarrow> py \<Rightarrow> path \<Rightarrow> (store, py \<times> locked) act" where
  "freeze_selected env c data report selection directory =
     (let fe = ce_files env; policy = in_dir directory ''decision_policy.json'' in
      bindS (liftS (py_item selection ''selected_trial'')) (\<lambda>chosen.
      bindS (reading (\<lambda>s. json_at fe s (in_dir (candidate_dir c) ''model_input_schema.json''))) (\<lambda>schema.
      bindS (reading (\<lambda>s. json_at fe s (in_dir (candidate_dir c) ''training_summary.json''))) (\<lambda>summary.
      bindS (reading (\<lambda>s. json_at fe s (in_dir (kc_training_root c) ''raw_feature_schema.json''))) (\<lambda>raw_schema.
      bindS (reading (\<lambda>s. json_at fe s (in_dir (kc_training_root c) ''label_map.json''))) (\<lambda>label_map.
      bindS (reading (\<lambda>s. check_selected_model env s c data schema summary raw_schema label_map)) (\<lambda>_.
      bindS (liftS (rejectE (ValueError ''model path'')
        [path_item_ne fe selection ''model_path'' (fv_resolve fe (in_dir (candidate_dir c) ''pipeline.joblib''))])) (\<lambda>_.
      bindS (make_dir fe directory) (\<lambda>_.
      bindS (foldA (copy_file fe directory) [] (bundle_roles c)) (\<lambda>files.
      bindS (write_new fe policy candidate_policy) (\<lambda>_.
      bindS (reading (\<lambda>s. stored_entry fe s policy)) (\<lambda>e.
      let files' = dict_set ''decision_policy'' e files in
      bindS (liftS (py_item chosen ''metrics'')) (\<lambda>metrics.
      let descriptor = candidate_descriptor files' metrics in
      bindS (reading (replay_candidate env c data report chosen descriptor)) (\<lambda>_.
      bindS (liftS (mapE (\<lambda>(_, f). bindE (str_item f ''path'') (\<lambda>p. bindE (py_item f ''sha256'') (\<lambda>h. Inr (p, h)))) files')) (\<lambda>evidence.
      retS (descriptor, dict_update [] evidence))))))))))))))))"

section \<open>The measurement\<close>

definition job_document :: "file_env \<Rightarrow> cost_config \<Rightarrow> py \<Rightarrow> path \<Rightarrow> string \<Rightarrow> py \<Rightarrow> py" where
  "job_document env c descriptor input_path input_sha indices = PyDict
     [(''descriptor'', descriptor), (''benchmark'', kc_benchmark c),
      (''input_path'', PyStr (fv_text env (fv_resolve env input_path))), (''input_sha256'', PyStr input_sha),
      (''input_split'', PyStr ''validation''), (''sample_indices'', indices)]"

text \<open>One worker process and the record it leaves.\<close>

definition measure_once :: "cost_env \<Rightarrow> py \<Rightarrow> py \<Rightarrow> path \<Rightarrow> path \<Rightarrow> py list \<Rightarrow> nat \<Rightarrow> (store, py list) act" where
  "measure_once env descriptor indices directory input_path runs repeat =
     (let fe = ce_files env; output = in_dir directory (''process_'' @ nat_str repeat @ ''.json'') in
      bindS (ce_worker env (in_dir directory ''job.json'') output) (\<lambda>finished.
      bindS (liftS (check finished (ValueError ''cost worker''))) (\<lambda>_.
      bindS (reading (\<lambda>s. json_at fe s output)) (\<lambda>run.
      bindS (reading (\<lambda>s. rejectE (ValueError ''worker input'')
        [item_ne run ''descriptor'' descriptor, item_ne run ''sample_indices'' indices,
         item_differs run ''input_sha256'' (file_sha fe s input_path)])) (\<lambda>_.
      retS (runs @ [run]))))))"

definition benchmark_model ::
    "cost_env \<Rightarrow> cost_config \<Rightarrow> op_data \<Rightarrow> path \<Rightarrow> py \<Rightarrow> (string \<times> py) list \<Rightarrow> string \<times> py \<Rightarrow> (store, (string \<times> py) list) act" where
  "benchmark_model env c data directory indices costs d =
     (case d of (name, descriptor) \<Rightarrow>
      let fe = ce_files env; model_dir = in_dir directory name; input_path = in_dir model_dir ''validation_input.npz'' in
      bindS (make_dir fe model_dir) (\<lambda>_.
      bindS (write_text fe input_path (ce_npz env (op_X (od_validation data)))) (\<lambda>_.
      bindS (reading (\<lambda>s. file_sha fe s input_path)) (\<lambda>h.
      bindS (write_new fe (in_dir model_dir ''job.json'') (job_document fe c descriptor input_path h indices)) (\<lambda>_.
      bindS (foldA (measure_once env descriptor indices model_dir input_path) [] [0..<nat (kc_process_repeats c)]) (\<lambda>runs.
      bindS (liftS (summarize_cost (tv_cost (ce_test env)) runs)) (\<lambda>summary.
      retS (dict_set name (PyDict [(''summary'', summary), (''process_records'', PyList runs)]) costs))))))))"

definition benchmark_models ::
    "cost_env \<Rightarrow> cost_config \<Rightarrow> (string \<times> py) list \<Rightarrow> op_data \<Rightarrow> path \<Rightarrow> (store, (string \<times> py) list \<times> locked) act" where
  "benchmark_models env c descriptors data directory =
     (let fe = ce_files env;
          indices = sampled_rows (tv_cost (ce_test env)) c (int (length (op_y (od_validation data)))) in
      bindS (make_dir fe directory) (\<lambda>_.
      bindS (foldA (benchmark_model env c data directory indices) [] descriptors) (\<lambda>costs.
      bindS (reading (\<lambda>s. lock_code fe s (tv_found (ce_test env) s directory))) (\<lambda>evidence.
      retS (costs, evidence)))))"

section \<open>The run\<close>

definition cost_outputs :: "test_env \<Rightarrow> cost_config \<Rightarrow> path list" where
  "cost_outputs env c = map (tv_suffix env (kc_report_prefix c)) [''.json'', ''.md'']"

definition check_cost_locations :: "test_env \<Rightarrow> store \<Rightarrow> cost_config \<Rightarrow> unit res" where
  "check_cost_locations env s c =
     (let res = fv_resolve (tv_files env); outputs = cost_outputs env c in
      bindE (check (s (kc_artifact_dir c) = None \<and> list_all (\<lambda>p. s p = None) outputs) (FileExistsError ''cost record'')) (\<lambda>_.
      check (\<not> list_ex (\<lambda>p. list_ex (\<lambda>r. is_relative_to (res p) (res r))
            [kc_dataset_dir c, kc_training_root c, kc_training_report c, kc_design_path c]) (kc_artifact_dir c # outputs) \<and>
          \<not> list_ex (\<lambda>p. is_relative_to (res p) (res (kc_artifact_dir c))) outputs)
        (ValueError ''separate locations'')))"

definition check_row_counts :: "cost_config \<Rightarrow> op_data \<Rightarrow> py \<Rightarrow> unit res" where
  "check_row_counts c data manifest =
     rejectE (ValueError ''row counts'')
       [Inr (int (length (op_y (od_train data))) \<noteq> kc_expected_train_rows c),
        Inr (int (length (op_y (od_validation data))) \<noteq> kc_expected_validation_rows c),
        path_ne manifest [''splits'', ''test'', ''rows''] (PyInt (kc_expected_test_rows c))]"

record cost_plan =
  kp_config :: cost_config
  kp_data :: op_data
  kp_report :: py
  kp_selection :: py
  kp_criteria :: py
  kp_protected :: locked

definition plan_cost :: "cost_env \<Rightarrow> py \<Rightarrow> store \<Rightarrow> cost_plan res" where
  "plan_cost env document s =
     (let te = ce_test env; fe = ce_files env in
      bindE (parse_cost_config fe document) (\<lambda>c.
      bindE (check_cost_locations te s c) (\<lambda>_.
      bindE (fst (load_operational_data (store_load fe s (kc_dataset_dir c)) (kc_dataset_id c) [])) (\<lambda>data.
      bindE (json_at fe s (in_dir (kc_dataset_dir c) ''dataset_manifest.json'')) (\<lambda>manifest.
      bindE (check_row_counts c data manifest) (\<lambda>_.
      bindE (training_evidence fe (tv_cost te) s c data) (\<lambda>(report, selection, protected).
      bindE (check (\<not> list_ex (\<lambda>p. list_ex (is_relative_to (fv_resolve fe p)) (raw_roots fe protected))
          (kc_artifact_dir c # cost_outputs te c)) (ValueError ''raw batch'')) (\<lambda>_.
      bindE (path_items report [''protocol'', ''recovery_plan'', ''approval_criteria'']) (\<lambda>criteria.
      bindE (lock_code fe s (tv_code te)) (\<lambda>code.
      let protected' = dict_update protected code in
      bindE (verify_without_holdout fe s protected') (\<lambda>_.
      Inr \<lparr>kp_config = c, kp_data = data, kp_report = report, kp_selection = selection, kp_criteria = criteria,
        kp_protected = protected'\<rparr>)))))))))))"

definition cost_protocol :: "cost_env \<Rightarrow> cost_plan \<Rightarrow> py \<Rightarrow> locked \<Rightarrow> store \<Rightarrow> py res" where
  "cost_protocol env plan descriptor protected s =
     (let fe = ce_files env; c = kp_config plan; source = od_validation (kp_data plan) in
      bindE (expected_test_hashes fe (kc_dataset_dir c) s) (\<lambda>expected.
      Inr (PyDict [(''status'', PyStr ''locked_before_cost_measurement''), (''locked_at_utc'', PyStr (fv_now fe)),
        (''config'', kc_document c), (''descriptor'', descriptor), (''criteria'', kp_criteria plan),
        (''protected_sha256'', PyDict protected),
        (''validation_matrix_sha256'', PyStr (kl_matrix_hash (tv_cost (ce_test env)) (op_columns source) (op_X source))),
        (''expected_test_sha256'', expected), (''test_files_read'', PyBool False),
        (''validation_prior_use'', PyStr ''candidate_and_threshold_selection_completed''),
        (''no_fallback_on_cost_failure'', PyBool True)])))"

text \<open>The gate: the candidate that the test may confirm.\<close>

definition lock_candidate :: "cost_env \<Rightarrow> cost_plan \<Rightarrow> py \<Rightarrow> py \<Rightarrow> py \<Rightarrow> locked \<Rightarrow> store \<Rightarrow> py res" where
  "lock_candidate env plan descriptor chosen summary protected s =
     (let fe = ce_files env; c = kp_config plan; rule = PyStr ''confirm_selected_policy_without_reselection'' in
      bindE (expected_test_hashes fe (kc_dataset_dir c) s) (\<lambda>expected.
      bindE (signature_of (tv_cost (ce_test env)) descriptor
        (PyDict [(''criteria'', kp_criteria plan), (''test_rule'', rule)]) expected) (\<lambda>signature.
      bindE (py_item descriptor ''id'') (\<lambda>model_id.
      Inr (PyDict [(''status'', PyStr ''candidate_locked_before_test''), (''locked_at_utc'', PyStr (fv_now fe)),
        (''selected_model_id'', model_id), (''descriptor'', descriptor), (''criteria'', kp_criteria plan),
        (''policy_signature'', PyStr signature), (''expected_test_sha256'', expected),
        (''dataset_id'', PyStr (od_dataset_id (kp_data plan))), (''dataset_dir'', PyStr (fv_text fe (kc_dataset_dir c))),
        (''expected_test_rows'', PyInt (kc_expected_test_rows c)), (''input_sha256'', input_hashes (kp_data plan)),
        (''cost_summary'', summary), (''selected_trial'', chosen), (''test_rule'', rule),
        (''test_files_read'', PyBool False), (''pre_test_protected_sha256'', PyDict protected),
        (''local_integration_approved'', PyBool False), (''production_ready'', PyBool False),
        (''automatic_blocking_allowed'', PyBool False)])))))"

definition cost_gate_path :: "cost_config \<Rightarrow> path" where
  "cost_gate_path c = in_dir (kc_artifact_dir c) ''candidate_lock.json''"

text \<open>The gate is written only when nothing speaks against the candidate.\<close>

definition lock_when_accepted ::
    "cost_env \<Rightarrow> cost_plan \<Rightarrow> py \<Rightarrow> py \<Rightarrow> py \<Rightarrow> string list \<Rightarrow> locked \<Rightarrow> (store, py \<times> locked) act" where
  "lock_when_accepted env plan descriptor chosen summary reasons protected =
     (let fe = ce_files env; gate_path = cost_gate_path (kp_config plan) in
      if reasons \<noteq> [] then retS (PyNone, protected) else
      bindS (reading (lock_candidate env plan descriptor chosen summary protected)) (\<lambda>gate.
      bindS (write_new fe gate_path gate) (\<lambda>_.
      bindS (reading (\<lambda>s. file_sha fe s gate_path)) (\<lambda>h.
      retS (PyStr h, dict_set (fv_text fe gate_path) (PyStr h) protected)))))"

definition cost_result ::
    "cost_env \<Rightarrow> cost_plan \<Rightarrow> py \<Rightarrow> py \<Rightarrow> py \<Rightarrow> string list \<Rightarrow> string \<Rightarrow> py \<Rightarrow> locked \<Rightarrow> py" where
  "cost_result env plan descriptor chosen cost reasons protocol_sha gate_hash protected =
     (let te = ce_test env; c = kp_config plan; data = kp_data plan in
      PyDict ([(''report_version'', PyStr ''v1''), (''generated_at_utc'', PyStr (fv_now (tv_files te))),
        (''status'', PyStr (if reasons = [] then ''candidate_locked_pending_independent_test'' else ''withheld_before_test_due_to_cost'')),
        (''experiment_id'', PyStr (kc_experiment_id c)), (''dataset_id'', PyStr (od_dataset_id data)),
        (''train_rows'', PyInt (int (length (op_y (od_train data))))),
        (''validation_rows'', PyInt (int (length (op_y (od_validation data))))), (''selected_trial'', chosen),
        (''descriptor'', descriptor), (''benchmark'', kc_benchmark c), (''criteria'', kp_criteria plan), (''cost'', cost),
        (''rejection_reasons'', py_strs reasons), (''cost_protocol_lock_sha256'', PyStr protocol_sha),
        (''candidate_lock_path'', if reasons = [] then PyStr (fv_text (tv_files te) (cost_gate_path c)) else PyNone),
        (''candidate_lock_sha256'', gate_hash), (''protected_sha256'', PyDict protected),
        (''cost_verified'', PyBool (reasons = [])), (''fastapi_still_dummy'', PyBool True),
        (''limitations'', py_strs (tv_limitations te))] @
        map (\<lambda>k. (k, PyBool False)) [''test_files_read'', ''test_evaluated'', ''holdout_reserved'', ''model_training_performed'',
          ''threshold_search_performed'', ''test_confirmed'', ''deployment_ready'', ''production_ready'', ''automatic_blocking_allowed'']))"

text \<open>The files below the artifact directory, by their relative path.\<close>

definition inventory_of :: "test_env \<Rightarrow> path \<Rightarrow> store \<Rightarrow> (string \<times> py) list res" where
  "inventory_of env base s =
     mapE (\<lambda>p. bindE (read_stored (tv_files env) s p) (\<lambda>f. Inr (relative_parts p base,
       PyDict [(''sha256'', PyStr (fv_sha (tv_files env) f)), (''bytes'', PyInt (int (length (stored_text (tv_files env) f))))])))
       (tv_found env s base)"

definition cost_manifest :: "test_env \<Rightarrow> cost_config \<Rightarrow> py \<Rightarrow> py \<Rightarrow> store \<Rightarrow> py res" where
  "cost_manifest env c outcome gate_hash s =
     bindE (inventory_of env (kc_artifact_dir c) s) (\<lambda>inventory.
     bindE (lock_code (tv_files env) s (cost_outputs env c)) (\<lambda>reports.
     Inr (PyDict [(''status'', PyStr ''complete''), (''result_status'', outcome), (''artifacts'', PyDict inventory),
       (''reports'', PyDict reports), (''candidate_lock_sha256'', gate_hash), (''test_evaluated'', PyBool False),
       (''deployment_ready'', PyBool False)])))"

definition cost_reasons :: "py \<Rightarrow> py \<Rightarrow> py \<Rightarrow> string list res" where
  "cost_reasons chosen summary criteria =
     bindE (rejection_reasons chosen criteria) (\<lambda>r. bindE (cost_rejections summary criteria) (\<lambda>q. Inr (r @ q)))"

definition measure_candidate :: "cost_env \<Rightarrow> cost_plan \<Rightarrow> (store, py) act" where
  "measure_candidate env plan =
     (let te = ce_test env; fe = ce_files env; c = kp_config plan; data = kp_data plan; base = kc_artifact_dir c;
          outputs = cost_outputs te c; protocol_path = in_dir base ''cost_protocol_lock.json'' in
      bindS (freeze_selected env c data (kp_report plan) (kp_selection plan) (in_dir base ''candidate_bundle'')) (\<lambda>(descriptor, frozen_files).
      let protected = dict_update (kp_protected plan) frozen_files in
      bindS (reading (cost_protocol env plan descriptor protected)) (\<lambda>protocol.
      bindS (write_new fe protocol_path protocol) (\<lambda>_.
      bindS (reading (\<lambda>s. file_sha fe s protocol_path)) (\<lambda>protocol_sha.
      let protected = dict_set (fv_text fe protocol_path) (PyStr protocol_sha) protected in
      bindS (liftS (str_item descriptor ''id'')) (\<lambda>k.
      bindS (benchmark_models env c [(k, descriptor)] data (in_dir base ''cost'')) (\<lambda>(costs, measured).
      bindS (reading (\<lambda>s. verify_without_holdout fe s protected)) (\<lambda>_.
      bindS (liftS (validate_cost_runs (tv_cost te) c descriptor (int (length (op_y (od_validation data)))) costs)) (\<lambda>_.
      let protected = dict_update protected measured in
      bindS (reading (\<lambda>s. verify_without_holdout fe s protected)) (\<lambda>_.
      bindS (liftS (lookupE costs k)) (\<lambda>cost.
      bindS (liftS (py_item (kp_selection plan) ''selected_trial'')) (\<lambda>chosen.
      bindS (liftS (py_item cost ''summary'')) (\<lambda>summary.
      bindS (liftS (cost_reasons chosen summary (kp_criteria plan))) (\<lambda>reasons.
      bindS (lock_when_accepted env plan descriptor chosen summary reasons protected) (\<lambda>(gate_hash, protected).
      bindS (reading (\<lambda>s. file_sha fe s protocol_path)) (\<lambda>locked_sha.
      let result = cost_result env plan descriptor chosen cost reasons locked_sha gate_hash protected in
      bindS (write_new fe (outputs ! 0) result) (\<lambda>_.
      bindS (write_text fe (outputs ! 1) (tv_render te result)) (\<lambda>_.
      bindS (reading (\<lambda>s. verify_without_holdout fe s protected)) (\<lambda>_.
      bindS (liftS (py_item result ''status'')) (\<lambda>outcome.
      bindS (reading (cost_manifest te c outcome gate_hash)) (\<lambda>manifest.
      bindS (write_new fe (in_dir base ''cost_manifest.json'') manifest) (\<lambda>_.
      retS result))))))))))))))))))))))"

definition cost_failure :: "exn \<Rightarrow> py" where
  "cost_failure e = PyDict [(''status'', PyStr ''failed''), (''error'', PyStr (exn_text e)),
     (''test_evaluated'', PyBool False), (''deployment_ready'', PyBool False)]"

definition run_cost :: "cost_env \<Rightarrow> py \<Rightarrow> (store, py) act" where
  "run_cost env document =
     bindS (reading (plan_cost env document)) (\<lambda>plan.
     let base = kc_artifact_dir (kp_config plan) in
     bindS (make_dir (ce_files env) base) (\<lambda>_.
     noting_failure (ce_files env) (in_dir base ''cost_failure.json'') cost_failure (measure_candidate env plan)))"

end
