(* ===== verification/Recovery_Evidence.thy ===== *)
theory Recovery_Evidence
  imports Cost_Run Prefix_Features
begin

text \<open>
  What \<open>training/run_operational_recovery_experiment.py\<close> establishes before it trains: its
  configuration, the provenance of the collected data (\<open>verify_provenance\<close>), the frozen reference
  model (\<open>load_reference\<close>, with \<open>load_verified_model\<close> of \<open>evaluation/compare_operational_baselines.py\<close>
  for the random forest), the input schema of a candidate, and the locations of its outputs.
\<close>

section \<open>Configuration\<close>

record recovery_config =
  rc_experiment_id :: string
  rc_dataset_id :: string
  rc_dataset_dir :: path
  rc_design_path :: path
  rc_previous_plan :: path
  rc_collection_report :: path
  rc_reference_id :: string
  rc_reference_dir :: path
  rc_reference_model_dir :: path
  rc_artifact_dir :: path
  rc_report_prefix :: path
  rc_comparison_prefix :: path
  rc_expected_train_rows :: int
  rc_expected_validation_rows :: int

definition recovery_config_paths :: "string list" where
  "recovery_config_paths = [''dataset_dir'', ''design_path'', ''previous_plan'', ''collection_report'', ''reference_dataset_dir'',
     ''reference_model_dir'', ''artifact_dir'', ''report_prefix'', ''comparison_report_prefix'']"

definition parse_recovery_config :: "file_env \<Rightarrow> py \<Rightarrow> recovery_config res" where
  "parse_recovery_config env v =
     bindE (no_extra ([''config_version'', ''experiment_id'', ''dataset_id'', ''reference_dataset_id'',
        ''expected_train_rows'', ''expected_validation_rows''] @ recovery_config_paths) v) (\<lambda>d.
     bindE (default_field d ''config_version'' ''v1'' (one_of [''v1''])) (\<lambda>_.
     bindE (field d ''experiment_id'' ident_field) (\<lambda>experiment_id.
     bindE (field d ''dataset_id'' ident_field) (\<lambda>dataset_id.
     bindE (field d ''dataset_dir'' (path_field env)) (\<lambda>dataset_dir.
     bindE (field d ''design_path'' (path_field env)) (\<lambda>design_path.
     bindE (field d ''previous_plan'' (path_field env)) (\<lambda>previous_plan.
     bindE (field d ''collection_report'' (path_field env)) (\<lambda>collection_report.
     bindE (field d ''reference_dataset_id'' ident_field) (\<lambda>reference_id.
     bindE (field d ''reference_dataset_dir'' (path_field env)) (\<lambda>reference_dir.
     bindE (field d ''reference_model_dir'' (path_field env)) (\<lambda>reference_model_dir.
     bindE (field d ''artifact_dir'' (path_field env)) (\<lambda>artifact_dir.
     bindE (field d ''report_prefix'' (path_field env)) (\<lambda>report_prefix.
     bindE (field d ''comparison_report_prefix'' (path_field env)) (\<lambda>comparison_prefix.
     bindE (default_field d ''expected_train_rows'' 7976 positive_count) (\<lambda>train.
     bindE (default_field d ''expected_validation_rows'' 2737 positive_count) (\<lambda>validation.
     Inr \<lparr>rc_experiment_id = experiment_id, rc_dataset_id = dataset_id, rc_dataset_dir = dataset_dir,
       rc_design_path = design_path, rc_previous_plan = previous_plan, rc_collection_report = collection_report,
       rc_reference_id = reference_id, rc_reference_dir = reference_dir, rc_reference_model_dir = reference_model_dir,
       rc_artifact_dir = artifact_dir, rc_report_prefix = report_prefix, rc_comparison_prefix = comparison_prefix,
       rc_expected_train_rows = train, rc_expected_validation_rows = validation\<rparr>))))))))))))))))"

definition load_recovery_config :: "file_env \<Rightarrow> store \<Rightarrow> path \<Rightarrow> recovery_config res" where
  "load_recovery_config env s p =
     bindE (json_at env s p) (\<lambda>v. bindE (resolve_paths env recovery_config_paths p v) (parse_recovery_config env))"

section \<open>Provenance of the collected data\<close>

definition items_differ :: "py res \<Rightarrow> py res \<Rightarrow> bool res" where
  "items_differ a b = bindE a (\<lambda>x. bindE b (\<lambda>y. Inr (\<not> py_eq x y)))"

definition check_collection ::
    "file_env \<Rightarrow> store \<Rightarrow> recovery_config \<Rightarrow> op_data \<Rightarrow> py \<Rightarrow> py \<Rightarrow> py \<Rightarrow> py \<Rightarrow> unit res" where
  "check_collection env s c data design collection registry completion =
     rejectE (ValueError ''provenance'')
       [item_ne collection ''status'' (PyStr ''complete''), item_ne completion ''status'' (PyStr ''complete''),
        bindE (path_items collection [''quality'', ''passed'']) (\<lambda>v. Inr (\<not> truthy v)),
        item_is_not collection ''model_training_performed'' False,
        item_is_not collection ''trained_model_prediction_performed'' False,
        item_is_not collection ''test_model_evaluated'' False,
        path_item_ne env collection ''dataset_output'' (fv_resolve env (rc_dataset_dir c)),
        bindE (py_item collection ''dataset_manifest_sha256'') (\<lambda>h.
          bindE (lookupE (od_evidence data) ''dataset_manifest.json'') (\<lambda>e. Inr (\<not> py_eq h (PyStr e)))),
        item_ne collection ''assignment'' registry,
        item_ne registry ''recovery_plan_snapshot'' design,
        item_differs registry ''design_sha256'' (file_sha env s (rc_design_path c)),
        item_ne registry ''target_dataset_id'' (PyStr (od_dataset_id data))]"

text \<open>The output hash that the completion record has for a file; \<open>get\<close> of a missing one gives \<open>None\<close>.\<close>

definition lock_input :: "file_env \<Rightarrow> recovery_config \<Rightarrow> py \<Rightarrow> locked \<Rightarrow> string \<times> string \<Rightarrow> locked res" where
  "lock_input env c completion evidence p =
     (case p of (name, digest) \<Rightarrow>
      let path = fv_text env (in_dir (rc_dataset_dir c) name) in
      bindE (bindE (py_item completion ''output_sha256'') (\<lambda>d. get_ne d path (PyStr digest))) (\<lambda>differs.
      if differs then Inl (ValueError name) else Inr (dict_set path (PyStr digest) evidence)))"

definition check_assigned :: "py \<Rightarrow> op_data \<Rightarrow> string \<times> op_split \<Rightarrow> unit res" where
  "check_assigned registry data p =
     (case p of (split, source) \<Rightarrow>
      bindE (py_items registry ''campaigns'') (\<lambda>campaigns.
      bindE (filterE (\<lambda>e. bindE (py_item e ''split'') (\<lambda>v. Inr (py_eq v (PyStr split)))) campaigns) (\<lambda>entries.
      bindE (mapE (\<lambda>e. str_item e ''campaign_id'') entries) (\<lambda>ids.
      bindE (check (set (col (op_meta source) ''campaign_id'') = set ids) (ValueError ''assigned campaigns'')) (\<lambda>_.
      rejectE (ValueError ''planned rows'')
        [path_ne registry [''planned_summary'', ''splits'', split, ''expected_message_rows'']
           (PyInt (int (length (op_y source))))])))))"

definition verify_provenance :: "file_env \<Rightarrow> store \<Rightarrow> recovery_config \<Rightarrow> op_data \<Rightarrow> py \<Rightarrow> (py \<times> locked) res" where
  "verify_provenance env s c data design =
     bindE (json_at env s (rc_collection_report c)) (\<lambda>collection.
     bindE (str_item collection ''batch_path'') (\<lambda>batch.
     let base = fv_path env batch; registry_path = in_dir base ''assignment_manifest.json'';
         completion_path = in_dir base ''completion_manifest.json'' in
     bindE (json_at env s registry_path) (\<lambda>registry.
     bindE (json_at env s completion_path) (\<lambda>completion.
     bindE (check_collection env s c data design collection registry completion) (\<lambda>_.
     bindE (path_items completion [''output_sha256'', fv_text env (rc_collection_report c)]) (\<lambda>report_sha.
     bindE (py_item collection ''assignment_sha256'') (\<lambda>registry_sha.
     bindE (py_item collection ''dataset_manifest_sha256'') (\<lambda>manifest_sha.
     let locks = dict_update [] [(fv_text env (rc_collection_report c), report_sha), (fv_text env registry_path, registry_sha),
         (fv_text env (in_dir (rc_dataset_dir c) ''dataset_manifest.json''), manifest_sha)] in
     bindE (rejectE (ValueError ''registry'') [items_differ (path_items completion [''locked_input_sha256'', fv_text env registry_path])
       (lookupE locks (fv_text env registry_path))]) (\<lambda>_.
     bindE (file_sha env s completion_path) (\<lambda>completion_sha.
     bindE (foldE (lock_input env c completion) (dict_set (fv_text env completion_path) (PyStr completion_sha) locks)
       (od_evidence data)) (\<lambda>evidence.
     bindE (verify_stored env s evidence) (\<lambda>_.
     bindE (forE (check_assigned registry data) [(''train'', od_train data), (''validation'', od_validation data)]) (\<lambda>_.
     bindE (check (set (col (op_meta (od_train data)) ''campaign_id'') \<inter> set (col (op_meta (od_validation data)) ''campaign_id'') = {})
       (ValueError ''campaigns of both splits'')) (\<lambda>_.
     Inr (registry, evidence)))))))))))))))"

section \<open>The reference model\<close>

definition ARTIFACT_FILES :: "string list" where
  "ARTIFACT_FILES = [''pipeline.joblib'', ''feature_schema.json'', ''label_map.json'', ''decision_policy.json'',
     ''validation_predictions.csv'']"

definition check_training_manifest :: "op_data \<Rightarrow> py \<Rightarrow> unit res" where
  "check_training_manifest data manifest =
     bindE (rejectE (ValueError ''training manifest'')
       [get_ne manifest ''status'' (PyStr ''complete''), get_ne manifest ''dataset_id'' (PyStr (od_dataset_id data)),
        bindE (py_getE manifest ''feature_contract_id'') (\<lambda>v. items_differ (Inr v) (py_item (od_schema data) ''feature_contract_id'')),
        get_ne manifest ''input_sha256'' (input_hashes data)]) (\<lambda>_.
     bindE (bindE (py_item manifest ''artifacts'') dict_items) (\<lambda>artifacts.
     check (set (map fst artifacts) = set ARTIFACT_FILES) (ValueError ''artifacts'')))"

definition check_artifact :: "file_env \<Rightarrow> store \<Rightarrow> path \<Rightarrow> py \<Rightarrow> string \<Rightarrow> unit res" where
  "check_artifact env s directory manifest name =
     bindE (file_sha env s (in_dir directory name)) (\<lambda>h.
     rejectE (ValueError name) [path_ne manifest [''artifacts'', name, ''sha256''] (PyStr h)])"

definition baseline_policy :: py where
  "baseline_policy = PyDict [(''positive_class'', PyInt 1), (''threshold'', PyFloat (Fin (1 / 2))), (''comparison'', PyStr ''>=''),
     (''selection'', PyStr ''fixed_baseline_not_tuned''), (''deployment_ready'', PyBool False)]"

definition check_baseline :: "load_env \<Rightarrow> op_data \<Rightarrow> py \<Rightarrow> py \<Rightarrow> py \<Rightarrow> unit res" where
  "check_baseline env data schema labels decision =
     bindE (rejectE (ValueError ''schema or labels'')
       [bindE (assess_model_schema (le_contract env) ''message'' schema) (\<lambda>problems. Inr (problems \<noteq> [])),
        bindE (py_getE schema ''feature_dtypes'') (\<lambda>v. items_differ (Inr v) (py_item (od_schema data) ''feature_dtypes'')),
        Inr (\<not> py_eq labels (PyDict [(''normal'', PyInt 0), (''controlled_anomaly'', PyInt 1)]))]) (\<lambda>_.
     check (py_eq decision baseline_policy) (ValueError ''fixed threshold''))"

text \<open>The only JSON report of the training.\<close>

definition training_report_of :: "file_env \<Rightarrow> py \<Rightarrow> (path \<times> py) res" where
  "training_report_of env manifest =
     bindE (bindE (py_item manifest ''reports'') dict_items) (\<lambda>reports.
     case filter (\<lambda>(p, h). snd (stem_suffix (path_name (fv_path env p))) = ''.json'') reports of
       [(p, h)] \<Rightarrow> Inr (fv_path env p, h) | _ \<Rightarrow> Inl (ValueError ''one report''))"

definition check_training_report :: "op_data \<Rightarrow> py \<Rightarrow> unit res" where
  "check_training_report data report =
     rejectE (ValueError ''training report'')
       [get_ne report ''experiment'' (PyStr ''operational_random_forest_fixed_baseline''),
        get_ne report ''dataset_id'' (PyStr (od_dataset_id data)), get_ne report ''input_sha256'' (input_hashes data),
        get_ne report ''feature_order'' (py_strs MESSAGE_FEATURE_ORDER), get_ne report ''fit_scope'' (PyStr ''train_only''),
        get_is_not report ''test_evaluated'' False, get_is_not report ''test_files_read'' False,
        bindE (dict_items report) (\<lambda>d. get_ne (case map_of d ''config'' of None \<Rightarrow> PyDict [] | Some v \<Rightarrow> v)
          ''threshold'' (PyFloat (Fin (1 / 2))))]"

definition check_forest :: "cost_env \<Rightarrow> stored \<Rightarrow> loaded_pipeline \<Rightarrow> py \<Rightarrow> py \<Rightarrow> unit res" where
  "check_forest env model pipeline schema report =
     (let steps = lp_steps pipeline in
      bindE (check (lp_is_pipeline pipeline \<and> (case map_of steps ''classifier'' of None \<Rightarrow> False | Some k \<Rightarrow> cl_is_random_forest k) \<and>
          cl_classes (snd (last steps)) = [0, 1] \<and> cl_feature_names_in (snd (hd steps)) = MESSAGE_FEATURE_ORDER)
        (ValueError ''model kind'')) (\<lambda>_.
      bindE (rejectE (ValueError ''preprocessing'')
        [Inr (map fst steps \<noteq> [''classifier'']), path_ne schema [''preprocessing'', ''kind''] (PyStr ''identity'')]) (\<lambda>_.
      bindE (bindE (py_item report ''model_parameters'') dict_items) (\<lambda>expected.
      rejectE (ValueError ''training parameters'')
        (map (\<lambda>(name, v). bindE (ce_parameters env model) (\<lambda>q. get_ne q name v)) expected)))))"

record verified_model =
  vm_model :: stored
  vm_report :: py
  vm_report_path :: path
  vm_report_sha :: py
  vm_manifest_sha :: string
  vm_artifacts :: "(string \<times> py) list"
  vm_saved :: columns

definition load_verified_forest :: "cost_env \<Rightarrow> store \<Rightarrow> path \<Rightarrow> op_data \<Rightarrow> verified_model res" where
  "load_verified_forest env s directory data =
     (let te = ce_test env; fe = ce_files env; doc = (\<lambda>n. json_at fe s (in_dir directory n)) in
      bindE (doc ''training_manifest.json'') (\<lambda>manifest.
      bindE (check_training_manifest data manifest) (\<lambda>_.
      bindE (forE (check_artifact fe s directory manifest) ARTIFACT_FILES) (\<lambda>_.
      bindE (doc ''feature_schema.json'') (\<lambda>schema.
      bindE (doc ''label_map.json'') (\<lambda>labels.
      bindE (doc ''decision_policy.json'') (\<lambda>decision.
      bindE (check_baseline (fv_load fe) data schema labels decision) (\<lambda>_.
      bindE (training_report_of fe manifest) (\<lambda>(report_path, report_sha).
      bindE (file_sha fe s report_path) (\<lambda>h.
      bindE (check (py_eq (PyStr h) report_sha) (ValueError ''training report'')) (\<lambda>_.
      bindE (json_at fe s report_path) (\<lambda>report.
      bindE (check_training_report data report) (\<lambda>_.
      bindE (read_stored fe s (in_dir directory ''pipeline.joblib'')) (\<lambda>model.
      bindE (tv_load_model te model) (\<lambda>pipeline.
      bindE (check_forest env model pipeline schema report) (\<lambda>_.
      bindE (file_sha fe s (in_dir directory ''training_manifest.json'')) (\<lambda>manifest_sha.
      bindE (bindE (py_item manifest ''artifacts'') dict_items) (\<lambda>artifacts.
      bindE (bindE (read_stored fe s (in_dir directory ''validation_predictions.csv'')) (\<lambda>f. tv_uncsv te (stored_text fe f))) (\<lambda>saved.
      Inr \<lparr>vm_model = model, vm_report = report, vm_report_path = report_path, vm_report_sha = report_sha,
        vm_manifest_sha = manifest_sha, vm_artifacts = artifacts, vm_saved = saved\<rparr>)))))))))))))))))))"

definition check_reference :: "cost_env \<Rightarrow> store \<Rightarrow> recovery_config \<Rightarrow> op_data \<Rightarrow> op_data \<Rightarrow> py \<Rightarrow> unit res" where
  "check_reference env s c data old frozen =
     rejectE (ValueError ''frozen reference'')
       [item_ne frozen ''candidate_id'' (PyStr ''rf_leaf_5''), item_ne frozen ''threshold'' threshold_0_3,
        item_ne frozen ''deployment_approval'' (PyStr ''withheld_after_test''),
        bindE (file_sha (ce_files env) s (in_dir (rc_reference_model_dir c) ''pipeline.joblib'')) (\<lambda>h. item_ne frozen ''model_sha256'' (PyStr h)),
        items_ne (od_schema old) ''raw_input_features'' (od_schema data) ''raw_input_features'']"

text \<open>The reference model, its description and the files that must not change.\<close>

definition load_reference :: "cost_env \<Rightarrow> store \<Rightarrow> recovery_config \<Rightarrow> op_data \<Rightarrow> py \<Rightarrow> (stored \<times> py \<times> locked) res" where
  "load_reference env s c data registry =
     (let fe = ce_files env; model_dir = rc_reference_model_dir c in
      bindE (py_item registry ''reference_baseline'') (\<lambda>frozen.
      bindE (fst (load_operational_data (store_load fe s (rc_reference_dir c)) (rc_reference_id c) [])) (\<lambda>old.
      bindE (load_verified_forest env s model_dir old) (\<lambda>m.
      bindE (check_reference env s c data old frozen) (\<lambda>_.
      bindE (locked_of frozen ''file_sha256'') (\<lambda>files.
      bindE (verify_stored fe s files) (\<lambda>_.
      bindE (mapE (\<lambda>(n, d). bindE (py_item d ''sha256'') (\<lambda>h. Inr (fv_text fe (in_dir model_dir n), h))) (vm_artifacts m)) (\<lambda>artifacts.
      bindE (py_item frozen ''model_sha256'') (\<lambda>model_sha.
      bindE (py_item (vm_report m) ''model_parameters'') (\<lambda>parameters.
      Inr (vm_model m,
        PyDict [(''candidate_id'', PyStr ''rf_leaf_5''), (''threshold'', threshold_0_3), (''model_sha256'', model_sha),
          (''previous_train_rows'', PyInt (int (length (op_y (od_train old))))),
          (''deployment_approval'', PyStr ''withheld_after_test''), (''training_parameters'', parameters)],
        dict_update files
          (map (\<lambda>(n, h). (fv_text fe (in_dir (rc_reference_dir c) n), PyStr h)) (od_evidence old) @
           [(fv_text fe (in_dir model_dir ''training_manifest.json''), PyStr (vm_manifest_sha m)),
            (fv_text fe (vm_report_path m), vm_report_sha m)] @ artifacts))))))))))))"

section \<open>The input of a candidate\<close>

text \<open>Without the two entries that only hold explanations (\<open>derivations\<close>, \<open>metadata_usage\<close>).\<close>

definition input_schema :: "string \<Rightarrow> op_data \<Rightarrow> py res" where
  "input_schema transform data =
     (let stateful = (transform \<in> {''prefix_mean5_v1'', ''prefix_mean_parsed6_v1''}) in
      bindE (py_item (od_schema data) ''feature_contract_id'') (\<lambda>contract_id.
      bindE (lookupE TRANSFORM_COLUMNS transform) (\<lambda>columns.
      Inr (PyDict [(''schema_version'', PyStr ''recovery_model_input_v1''), (''dataset_id'', PyStr (od_dataset_id data)),
        (''raw_feature_contract_id'', contract_id), (''raw_input_features'', py_strs MESSAGE_FEATURE_ORDER),
        (''input_transform_id'', PyStr transform), (''model_input_features'', py_strs columns),
        (''preprocessing'', PyStr ''identity_no_scaler''), (''requires_ordered_session_prefix'', PyBool stateful),
        (''group_key'', py_strs GROUP_COLUMNS), (''order'', PyStr ''request_index''),
        (''derived_units'', PyDict (if stateful then [(''prefix_mean_interval_ms'', PyStr ''ms''),
           (''parsed_bytes_prefix_total'', PyStr ''byte'')] else [])),
        (''history_scope'', PyStr (if stateful then ''past_and_current_only'' else ''current_raw_snapshot'')),
        (''missing_history_policy'', PyStr ''reject_without_zero_fill''), (''live_transform_implemented'', PyBool False),
        (''excluded_predictor_fields'', py_strs [''label'', ''scenario_id'', ''campaign_id'', ''run_id'', ''session_id'', ''request_index''])]))))"

section \<open>The plan\<close>

definition recovery_outputs :: "test_env \<Rightarrow> recovery_config \<Rightarrow> path list" where
  "recovery_outputs env c = concat (map (\<lambda>p. map (tv_suffix env p) [''.json'', ''.md'']) [rc_report_prefix c, rc_comparison_prefix c])"

definition check_recovery_locations :: "test_env \<Rightarrow> store \<Rightarrow> recovery_config \<Rightarrow> unit res" where
  "check_recovery_locations env s c =
     (let res = fv_resolve (tv_files env); outputs = recovery_outputs env c in
      bindE (check (distinct (map res outputs)) (ValueError ''report paths'')) (\<lambda>_.
      bindE (check (s (rc_artifact_dir c) = None \<and> list_all (\<lambda>p. s p = None) outputs) (FileExistsError ''experiment'')) (\<lambda>_.
      check (\<not> list_ex (\<lambda>p. list_ex (\<lambda>r. is_relative_to (res p) (res r))
          [rc_dataset_dir c, rc_reference_dir c, rc_reference_model_dir c]) (rc_artifact_dir c # outputs))
        (ValueError ''existing data or model''))))"

end
