(* ===== verification/Frozen_Audit.thy ===== *)
theory Frozen_Audit
  imports Recovery_Evidence
begin

text \<open>
  \<open>evaluation/audit_frozen_operational_baseline.py\<close>: the sessions behind the errors of a fixed model
  (\<open>session_diagnostics\<close>), and the check that the validation data are the campaigns that were assigned
  to it before the collection (\<open>verify_campaign_assignment\<close>).
\<close>

section \<open>Sessions\<close>

record session_facts =
  sf_scenario :: string
  sf_detected :: bool
  sf_errors :: int
  sf_document :: py

text \<open>The messages of a session are pairs of a row of the table and a message number.\<close>

definition session_facts_of :: "op_split \<Rightarrow> int list \<Rightarrow> string list \<times> (nat \<times> int) list \<Rightarrow> session_facts res" where
  "session_facts_of source prediction g =
     (let rows = sort_key snd (snd g); first = fst (hd rows);
          wrong = filter (\<lambda>(i, n). op_y source ! i \<noteq> prediction ! i) rows;
          positives = filter (\<lambda>(i, n). prediction ! i = 1) rows;
          duration = feature_at source ''connection_duration_ms'';
          per_first = (\<lambda>f. case positives of [] \<Rightarrow> PyNone | (i, n) # _ \<Rightarrow> f i n) in
      bindE (check (length (remdups (map (\<lambda>(i, n). op_y source ! i) rows)) = 1 \<and>
          length (remdups (map (\<lambda>(i, n). scenario_at source i) rows)) = 1) (ValueError ''mixed session'')) (\<lambda>_.
      Inr \<lparr>sf_scenario = scenario_at source first, sf_detected = (positives \<noteq> []), sf_errors = int (length wrong),
        sf_document = PyDict [(''run_id'', PyStr (fst g ! 0)), (''session_id'', PyStr (fst g ! 1)),
          (''scenario_id'', PyStr (scenario_at source first)), (''label'', PyInt (op_y source ! first)),
          (''message_rows'', PyInt (int (length rows))), (''error_rows'', PyInt (int (length wrong))),
          (''misclassified_request_indices'', py_ints (map snd wrong)),
          (''first_positive_request_index'', per_first (\<lambda>i n. PyInt n)),
          (''first_positive_connection_duration_ms'', per_first (\<lambda>i n. PyFloat (duration i))),
          (''first_positive_elapsed_from_first_message_ms'', per_first (\<lambda>i n. PyFloat (fsub (duration i) (duration first))))]\<rparr>))"

record session_counts =
  sn_sessions :: int
  sn_detected :: int
  sn_undetected :: int
  sn_with_errors :: int

definition tally_session :: "(string, session_counts) dict \<Rightarrow> session_facts \<Rightarrow> (string, session_counts) dict" where
  "tally_session d f =
     (let c = (case dict_get d (sf_scenario f) of Some c \<Rightarrow> c
        | None \<Rightarrow> \<lparr>sn_sessions = 0, sn_detected = 0, sn_undetected = 0, sn_with_errors = 0\<rparr>) in
      dict_set (sf_scenario f)
        \<lparr>sn_sessions = sn_sessions c + 1,
         sn_detected = sn_detected c + (if sf_detected f then 1 else 0),
         sn_undetected = sn_undetected c + (if sf_detected f then 0 else 1),
         sn_with_errors = sn_with_errors c + (if sf_errors f > 0 then 1 else 0)\<rparr> d)"

definition session_counts_document :: "session_counts \<Rightarrow> py" where
  "session_counts_document c = PyDict
     [(''sessions'', PyInt (sn_sessions c)), (''sessions_with_any_positive'', PyInt (sn_detected c)),
      (''sessions_without_positive'', PyInt (sn_undetected c)), (''sessions_with_errors'', PyInt (sn_with_errors c))]"

definition numbered_rows :: "judge_env \<Rightarrow> op_split \<Rightarrow> (nat \<times> int) list res" where
  "numbered_rows env source =
     bindE (mapE (je_int env) (col (op_meta source) ''request_index'')) (\<lambda>indices. Inr (enumerate 0 indices))"

definition prefix_document :: "int list \<Rightarrow> int \<times> (nat \<times> int) list \<Rightarrow> py" where
  "prefix_document prediction g =
     (case g of (n, rows) \<Rightarrow>
      let tp = int (length (filter (\<lambda>(i, k). prediction ! i = 1) rows)) in
      PyDict [(''request_index'', PyInt n), (''observed_messages'', PyInt (int (length rows))), (''tp'', PyInt tp),
        (''fn'', missed prediction rows), (''recall'', PyFloat (ratio tp (int (length rows))))])"

definition session_diagnostics :: "judge_env \<Rightarrow> op_split \<Rightarrow> pyfloat list \<Rightarrow> py res" where
  "session_diagnostics env source probability =
     bindE (numbered_rows env source) (\<lambda>rows.
     let prediction = decide (fl (7 / 10)) probability;
         key = (\<lambda>p. map (\<lambda>n. cell (op_meta source) n (fr_rows (op_meta source) ! fst p)) [''run_id'', ''session_id'']) in
     bindE (mapE (session_facts_of source prediction) (group_by key rows)) (\<lambda>facts.
     bindE (burst_rows env source) (\<lambda>burst.
     Inr (PyDict [(''sessions'', PyList (map sf_document facts)),
       (''by_scenario'', PyDict (map (\<lambda>(k, c). (k, session_counts_document c)) (foldl tally_session [] facts))),
       (''burst_by_request_index'', PyList (map (prefix_document prediction) (sort_key fst (group_by snd burst))))]))))"

section \<open>Assigned campaigns\<close>

definition campaign_role :: "(string, string) dict \<Rightarrow> py \<Rightarrow> (string, string) dict res" where
  "campaign_role d entry = bindE (str_item entry ''campaign_id'') (\<lambda>k. bindE (str_item entry ''split'') (\<lambda>r. Inr (dict_set k r d)))"

definition check_roles :: "py \<Rightarrow> py \<Rightarrow> unit res" where
  "check_roles registry assignments =
     bindE (py_items registry ''campaigns'') (\<lambda>campaigns.
     bindE (foldE campaign_role [] campaigns) (\<lambda>roles.
     bindE (py_items assignments ''runs'') (\<lambda>runs.
     rejectE (ValueError ''campaign roles'')
       (Inr (length roles \<noteq> length campaigns) #
        map (\<lambda>run. bindE (str_item run ''campaign_id'') (\<lambda>k. bindE (py_item run ''split'') (\<lambda>v.
          Inr (\<not> py_eq (case dict_get roles k of None \<Rightarrow> PyNone | Some r \<Rightarrow> PyStr r) v)))) runs))))"

text \<open>The planned runs of the entries: identifier, scenario and number of sessions.\<close>

definition planned_of_entry :: "(string \<Rightarrow> wire) \<Rightarrow> py \<Rightarrow> (string \<times> scenario_id \<times> int) list res" where
  "planned_of_entry digest entry =
     bindE (bindE (py_item entry ''plan_snapshot'') parse_plan) (\<lambda>plan.
     bindE (planned_runs digest plan) (\<lambda>runs.
     bindE (str_item entry ''campaign_id'') (\<lambda>k.
     Inr (map (\<lambda>(r, p, _). (run_id_of k r p, tp_scenario p, tp_sessions p)) runs))))"

definition header_run :: "string \<times> scenario_id \<times> int \<Rightarrow> bool" where
  "header_run p \<longleftrightarrow> scenario_name (fst (snd p)) = ''invalid_frame_size''"

definition assigned_registry :: "file_env \<Rightarrow> store \<Rightarrow> op_data \<Rightarrow> py \<Rightarrow> py \<Rightarrow> (py \<times> path \<times> string) res" where
  "assigned_registry env s data frozen manifest =
     bindE (py_item manifest ''config_snapshot'') (\<lambda>config.
     bindE (rejectE (ValueError ''campaign holdout'')
       [item_ne config ''split_policy'' (PyStr ''preassigned_campaign_holdout''),
        bindE (py_getE config ''campaign_registry'') (\<lambda>v. Inr (\<not> truthy v))]) (\<lambda>_.
     bindE (str_item config ''campaign_registry'') (\<lambda>name.
     let registry_path = fv_resolve env (fv_path env name) in
     bindE (file_sha env s registry_path) (\<lambda>h.
     bindE (rejectE (ValueError ''registry'') [path_ne manifest [''source_file_sha256'', fv_text env registry_path] (PyStr h)]) (\<lambda>_.
     bindE (json_at env s registry_path) (\<lambda>registry.
     bindE (rejectE (ValueError ''baseline'')
       [get_is_not registry ''prepared_before_collection'' True,
        item_ne registry ''target_dataset_id'' (PyStr (od_dataset_id data)), item_ne registry ''reference_baseline'' frozen]) (\<lambda>_.
     Inr (registry, registry_path, h))))))))"

definition validation_entries :: "py \<Rightarrow> (py list \<times> string list) res" where
  "validation_entries registry =
     bindE (py_items registry ''campaigns'') (\<lambda>campaigns.
     bindE (filterE (\<lambda>e. bindE (py_item e ''split'') (\<lambda>v. Inr (py_eq v (PyStr ''validation'')))) campaigns) (\<lambda>entries.
     bindE (mapE (\<lambda>e. str_item e ''campaign_id'') entries) (\<lambda>ids. Inr (entries, remdups ids))))"

definition excluded_runs :: "py \<Rightarrow> string list \<Rightarrow> py list res" where
  "excluded_runs manifest ids =
     bindE (py_items manifest ''excluded_sources'') (\<lambda>sources.
     bindE (filterE (\<lambda>e. bindE (str_item e ''campaign_id'') (\<lambda>k. Inr (k \<in> set ids))) sources) (\<lambda>excluded.
     bindE (rejectE (ValueError ''excluded run'') (map (\<lambda>e. get_ne e ''scenario_id'' (PyStr ''invalid_frame_size'')) excluded)) (\<lambda>_.
     Inr excluded)))"

definition assignment_coverage :: "op_data \<Rightarrow> string list \<Rightarrow> (string \<times> scenario_id \<times> int) list \<Rightarrow> py list \<Rightarrow> py" where
  "assignment_coverage data ids planned excluded =
     (let m = op_meta (od_validation data); names = (\<lambda>ps. int (length (remdups (map fst ps))));
          sessions = (\<lambda>ps. sum_list (map (snd \<circ> snd) ps)) in
      PyDict [(''campaigns'', PyInt (int (length ids))), (''planned_runs'', PyInt (int (length planned))),
        (''message_observable_runs'', PyInt (names (filter (\<lambda>p. \<not> header_run p) planned))),
        (''header_rejection_runs'', PyInt (names (filter header_run planned))),
        (''planned_sessions'', PyInt (sessions planned)),
        (''message_observable_sessions'', PyInt (int (nunique (cols m [''run_id'', ''session_id''])))),
        (''header_rejection_sessions'', PyInt (sessions (filter header_run planned))),
        (''message_rows'', PyInt (int (length (op_y (od_validation data))))), (''excluded_sources'', PyList excluded)])"

definition verify_campaign_assignment ::
    "(string \<Rightarrow> wire) \<Rightarrow> file_env \<Rightarrow> store \<Rightarrow> path \<Rightarrow> op_data \<Rightarrow> py \<Rightarrow> (py \<times> locked) res" where
  "verify_campaign_assignment digest env s directory data frozen =
     (let m = op_meta (od_validation data) in
      bindE (json_at env s (in_dir directory ''dataset_manifest.json'')) (\<lambda>manifest.
      bindE (assigned_registry env s data frozen manifest) (\<lambda>(registry, registry_path, h).
      bindE (json_at env s (in_dir directory ''split_manifest.json'')) (\<lambda>assignments.
      bindE (check_roles registry assignments) (\<lambda>_.
      bindE (validation_entries registry) (\<lambda>(entries, ids).
      bindE (check (ids \<noteq> [] \<and> set (col m ''campaign_id'') = set ids) (ValueError ''validation campaigns'')) (\<lambda>_.
      bindE (excluded_runs manifest ids) (\<lambda>excluded.
      bindE (mapE (planned_of_entry digest) entries) (\<lambda>planned.
      bindE (mapE (\<lambda>e. str_item e ''run_id'') excluded) (\<lambda>excluded_ids.
      bindE (check (set (col m ''run_id'') = set (map fst (filter (\<lambda>p. \<not> header_run p) (concat planned))) \<and>
          set excluded_ids = set (map fst (filter header_run (concat planned)))) (ValueError ''run coverage'')) (\<lambda>_.
      Inr (assignment_coverage data ids (concat planned) excluded, [(fv_text env registry_path, PyStr h)]))))))))))))"

section \<open>Tallies\<close>

text \<open>Every session is counted once, as detected or not.\<close>

definition tallied :: "(string, session_counts) dict \<Rightarrow> string \<Rightarrow> session_counts" where
  "tallied d k = (case dict_get d k of Some c \<Rightarrow> c | None \<Rightarrow> \<lparr>sn_sessions = 0, sn_detected = 0, sn_undetected = 0, sn_with_errors = 0\<rparr>)"

lemma tally_session_counts:
  "tallied (foldl tally_session d facts) k =
     \<lparr>sn_sessions = sn_sessions (tallied d k) + int (length (filter (\<lambda>f. sf_scenario f = k) facts)),
      sn_detected = sn_detected (tallied d k) + int (length (filter (\<lambda>f. sf_scenario f = k \<and> sf_detected f) facts)),
      sn_undetected = sn_undetected (tallied d k) + int (length (filter (\<lambda>f. sf_scenario f = k \<and> \<not> sf_detected f) facts)),
      sn_with_errors = sn_with_errors (tallied d k) + int (length (filter (\<lambda>f. sf_scenario f = k \<and> sf_errors f > 0) facts))\<rparr>"
proof (induction facts arbitrary: d)
  case Nil
  then show ?case by simp
next
  case (Cons f facts)
  have "tallied (tally_session d f) k = (if k = sf_scenario f then
      \<lparr>sn_sessions = sn_sessions (tallied d k) + 1,
       sn_detected = sn_detected (tallied d k) + (if sf_detected f then 1 else 0),
       sn_undetected = sn_undetected (tallied d k) + (if sf_detected f then 0 else 1),
       sn_with_errors = sn_with_errors (tallied d k) + (if sf_errors f > 0 then 1 else 0)\<rparr> else tallied d k)"
    by (simp add: tally_session_def tallied_def Let_def)
  with Cons.IH [of "tally_session d f"] show ?case by simp
qed

lemma tally_complete:
  "sn_sessions (tallied (foldl tally_session [] facts) k) =
     sn_detected (tallied (foldl tally_session [] facts) k) + sn_undetected (tallied (foldl tally_session [] facts) k)"
proof -
  have "length (filter (\<lambda>f. sf_scenario f = k) facts) = length (filter (\<lambda>f. sf_scenario f = k \<and> sf_detected f) facts) +
      length (filter (\<lambda>f. sf_scenario f = k \<and> \<not> sf_detected f) facts)" by (induction facts) auto
  moreover have "tallied [] k = \<lparr>sn_sessions = 0, sn_detected = 0, sn_undetected = 0, sn_with_errors = 0\<rparr>"
    by (simp add: tallied_def)
  ultimately show ?thesis by (simp add: tally_session_counts)
qed

end
