(* ===== verification/Final_Selection.thy ===== *)
theory Final_Selection
  imports Cost_Run
begin

text \<open>
  \<open>evaluation/run_operational_final_evaluation.py\<close>, the evaluation of one policy for each kind of model:
  its configuration, the reasons against a model, the choice of the candidate before the test from
  validation metrics and measured cost, and the deployment bundle of the candidate. Metrics, costs and
  descriptors are JSON values.
\<close>

section \<open>Configuration\<close>

fun is_candidate_id :: "string \<Rightarrow> bool" where
  "is_candidate_id [] = False"
| "is_candidate_id (c # cs) \<longleftrightarrow> CHR ''a'' \<le> c \<and> c \<le> CHR ''z'' \<and>
     list_all (\<lambda>d. CHR ''a'' \<le> d \<and> d \<le> CHR ''z'' \<or> CHR ''0'' \<le> d \<and> d \<le> CHR ''9'' \<or> d = CHR ''_'') cs \<and> length cs \<le> 63"

definition candidate_id_field :: "py \<Rightarrow> string res" where
  "candidate_id_field v = bindE (str_field v) (\<lambda>s. if is_candidate_id s then Inr s else Inl (ValueError ''candidate id''))"

text \<open>A strict float with bounds; \<open>allow_inf_nan\<close> is off for every model.\<close>

definition float_field :: "(pyfloat \<Rightarrow> bool) \<Rightarrow> py \<Rightarrow> pyfloat res" where
  "float_field ok v =
     bindE (case v of PyInt n \<Rightarrow> Inr (float_of_int n) | PyFloat x \<Rightarrow> Inr x | _ \<Rightarrow> Inl (ValueError ''strict float'')) (\<lambda>x.
     if is_finite x \<and> ok x then Inr x else Inl (ValueError ''float range''))"

definition above_zero :: "pyfloat \<Rightarrow> bool" where
  "above_zero x \<longleftrightarrow> flt (Fin 0) x"

definition is_rate :: "pyfloat \<Rightarrow> bool" where
  "is_rate x \<longleftrightarrow> fle (Fin 0) x \<and> fle x (Fin 1)"

record model_policy =
  mp_id :: string
  mp_kind :: string
  mp_candidate_id :: string
  mp_threshold :: pyfloat

definition parse_policy :: "py \<Rightarrow> model_policy res" where
  "parse_policy v =
     bindE (model_fields [''id'', ''kind'', ''candidate_id'', ''threshold''] v) (\<lambda>d.
     bindE (field d ''id'' candidate_id_field) (\<lambda>id.
     bindE (field d ''kind'' (one_of [''logistic_regression'', ''random_forest'', ''lstm''])) (\<lambda>kind.
     bindE (field d ''candidate_id'' candidate_id_field) (\<lambda>candidate.
     bindE (field d ''threshold'' (float_field (\<lambda>x. flt (Fin 0) x \<and> flt x (Fin 1)))) (\<lambda>threshold.
     Inr \<lparr>mp_id = id, mp_kind = kind, mp_candidate_id = candidate, mp_threshold = threshold\<rparr>)))))"

record criteria =
  cr_max_fpr :: pyfloat
  cr_min_recall :: pyfloat
  cr_max_p95 :: pyfloat
  cr_max_rss_mib :: pyfloat
  cr_max_artifacts_mib :: pyfloat

definition parse_criteria :: "py \<Rightarrow> criteria res" where
  "parse_criteria v =
     bindE (model_fields [''max_false_positive_rate'', ''min_recall'', ''max_single_request_p95_ms'',
        ''max_process_peak_rss_mib'', ''max_deployment_artifacts_mib'', ''scope''] v) (\<lambda>d.
     bindE (field d ''max_false_positive_rate'' (float_field is_rate)) (\<lambda>fpr.
     bindE (field d ''min_recall'' (float_field is_rate)) (\<lambda>recall.
     bindE (field d ''max_single_request_p95_ms'' (float_field above_zero)) (\<lambda>p95.
     bindE (field d ''max_process_peak_rss_mib'' (float_field above_zero)) (\<lambda>rss.
     bindE (field d ''max_deployment_artifacts_mib'' (float_field above_zero)) (\<lambda>artifacts.
     bindE (field d ''scope'' (literal_field ''local_advisory_integration_only'')) (\<lambda>_.
     Inr \<lparr>cr_max_fpr = fpr, cr_min_recall = recall, cr_max_p95 = p95, cr_max_rss_mib = rss,
       cr_max_artifacts_mib = artifacts\<rparr>)))))))"

record final_config =
  fc_experiment_id :: string
  fc_dataset_id :: string
  fc_paths :: "(string \<times> path) list"
  fc_expected_train_rows :: int
  fc_expected_validation_rows :: int
  fc_expected_test_rows :: int
  fc_window_size :: int
  fc_models :: "model_policy list"
  fc_criteria :: criteria

definition final_paths :: "string list" where
  "final_paths = [''dataset_dir'', ''sequence_dir'', ''augmentation_report'', ''lstm_report'', ''augmentation_root'',
     ''lstm_root'', ''artifact_dir'', ''holdout_registry_dir'', ''report_prefix'']"

text \<open>\<open>Field(min_length=1, max_length=3)\<close>, then the validator: one policy for each id and for each kind.\<close>

definition check_models :: "model_policy list \<Rightarrow> unit res" where
  "check_models ms =
     bindE (check (1 \<le> length ms \<and> length ms \<le> 3) (ValueError ''models'')) (\<lambda>_.
     check (distinct (map mp_id ms) \<and> distinct (map mp_kind ms)) (ValueError ''one policy for each kind''))"

definition parse_final_config :: "file_env \<Rightarrow> py \<Rightarrow> final_config res" where
  "parse_final_config env v =
     bindE (model_fields ([''config_version'', ''experiment_id'', ''dataset_id''] @ final_paths @
        [''expected_train_rows'', ''expected_validation_rows'', ''expected_test_rows'', ''window_size'', ''models'',
         ''benchmark'', ''criteria'', ''selection_rule'', ''test_rule'', ''validation_prior_use'']) v) (\<lambda>d.
     bindE (field d ''config_version'' (literal_field ''v1'')) (\<lambda>_.
     bindE (field d ''experiment_id'' ident_field) (\<lambda>experiment_id.
     bindE (field d ''dataset_id'' ident_field) (\<lambda>dataset_id.
     bindE (mapE (\<lambda>k. bindE (field d k (path_field env)) (\<lambda>p. Inr (k, p))) final_paths) (\<lambda>paths.
     bindE (field d ''expected_train_rows'' positive_count) (\<lambda>train.
     bindE (field d ''expected_validation_rows'' positive_count) (\<lambda>validation.
     bindE (field d ''expected_test_rows'' positive_count) (\<lambda>test.
     bindE (field d ''window_size'' (strict_int 1 64)) (\<lambda>width.
     bindE (bindE (field d ''models'' list_field) (mapE parse_policy)) (\<lambda>models.
     bindE (field d ''benchmark'' parse_benchmark) (\<lambda>_.
     bindE (field d ''criteria'' parse_criteria) (\<lambda>criteria.
     bindE (field d ''selection_rule'' (literal_field ''validation_recall_f1_fpr_then_cost_then_id'')) (\<lambda>_.
     bindE (field d ''test_rule'' (literal_field ''confirm_locked_candidate_without_model_or_threshold_reselection'')) (\<lambda>_.
     bindE (field d ''validation_prior_use'' (literal_field ''lr_rf_and_lstm_selection_completed'')) (\<lambda>_.
     bindE (check_models models) (\<lambda>_.
     Inr \<lparr>fc_experiment_id = experiment_id, fc_dataset_id = dataset_id, fc_paths = paths, fc_expected_train_rows = train,
       fc_expected_validation_rows = validation, fc_expected_test_rows = test, fc_window_size = width,
       fc_models = models, fc_criteria = criteria\<rparr>))))))))))))))))"

definition load_final_config :: "file_env \<Rightarrow> store \<Rightarrow> path \<Rightarrow> final_config res" where
  "load_final_config env s p = bindE (json_at env s p) (\<lambda>v. bindE (resolve_paths env final_paths p v) (parse_final_config env))"

section \<open>Reasons against a model\<close>

definition not_a_cost :: "py \<Rightarrow> string \<Rightarrow> bool res" where
  "not_a_cost cost name =
     bindE (bindE (py_item cost name) np_isfinite) (\<lambda>finite.
     if \<not> finite then Inr True else bindE (py_item cost name) (py_gt (PyInt 0)))"

definition over_mib :: "py \<Rightarrow> pyfloat \<Rightarrow> bool res" where
  "over_mib v mib = bindE (py_mul_int (PyFloat mib) 1048576) (py_gt v)"

definition peak_rejected :: "py \<Rightarrow> pyfloat \<Rightarrow> bool res" where
  "peak_rejected peak mib =
     (if peak = PyNone then Inr True else
      bindE (np_isfinite peak) (\<lambda>finite. if \<not> finite then Inr True else
      bindE (py_gt peak (PyInt 0)) (\<lambda>positive. if \<not> positive then Inr True else over_mib peak mib)))"

definition final_rejections :: "py \<Rightarrow> py \<Rightarrow> criteria \<Rightarrow> string list res" where
  "final_rejections metrics cost c =
     bindE (anyE (map (not_a_rate metrics) [''false_positive_rate'', ''recall'', ''f1''])) (\<lambda>invalid.
     if invalid then Inr [''performance metrics not valid''] else
     bindE (anyE (map (not_a_cost cost) [''single_request_worst_process_p95_ms'', ''required_model_files_bytes''])) (\<lambda>invalid.
     if invalid then Inr [''cost metrics not valid''] else
     bindE (bindE (py_item metrics ''false_positive_rate'') (\<lambda>v. py_gt v (PyFloat (cr_max_fpr c)))) (\<lambda>fpr.
     bindE (bindE (py_item metrics ''recall'') (py_gt (PyFloat (cr_min_recall c)))) (\<lambda>recall.
     bindE (bindE (py_item cost ''single_request_worst_process_p95_ms'') (\<lambda>v. py_gt v (PyFloat (cr_max_p95 c)))) (\<lambda>p95.
     bindE (bindE (py_item cost ''maximum_native_process_peak_rss_bytes'') (\<lambda>v. peak_rejected v (cr_max_rss_mib c))) (\<lambda>peak.
     bindE (bindE (py_item cost ''required_model_files_bytes'') (\<lambda>v. over_mib v (cr_max_artifacts_mib c))) (\<lambda>size.
     Inr (concat (map2 (\<lambda>bad reason. if bad then [reason] else []) [fpr, recall, p95, peak, size]
       [''FPR'', ''recall'', ''p95'', ''peak RSS'', ''file size''])))))))))"

section \<open>The candidate before the test\<close>

definition model_reasons :: "(string \<times> py) list \<Rightarrow> criteria \<Rightarrow> string \<times> py \<Rightarrow> (string \<times> string list) res" where
  "model_reasons costs c m =
     bindE (py_item (snd m) ''validation_metrics'') (\<lambda>metrics.
     bindE (bindE (lookupE costs (fst m)) (\<lambda>v. py_item v ''summary'')) (\<lambda>cost.
     bindE (final_rejections metrics cost c) (\<lambda>r. Inr (fst m, r))))"

definition final_key :: "(string \<times> py) list \<Rightarrow> (string \<times> py) list \<Rightarrow> string \<Rightarrow> py list res" where
  "final_key descriptors costs name =
     bindE (lookupE descriptors name) (\<lambda>d.
     bindE (bindE (path_items d [''validation_metrics'', ''recall'']) py_neg) (\<lambda>recall.
     bindE (bindE (path_items d [''validation_metrics'', ''f1'']) py_neg) (\<lambda>f1.
     bindE (path_items d [''validation_metrics'', ''false_positive_rate'']) (\<lambda>fpr.
     bindE (bindE (lookupE costs name) (\<lambda>v. py_item v ''summary'')) (\<lambda>cost.
     bindE (py_item cost ''single_request_worst_process_p95_ms'') (\<lambda>p95.
     bindE (py_item cost ''maximum_native_process_peak_rss_bytes'') (\<lambda>peak.
     bindE (py_item cost ''required_model_files_bytes'') (\<lambda>size.
     Inr [recall, f1, fpr, p95, peak, size, PyStr name]))))))))"

definition select_before_test ::
    "(string \<times> py) list \<Rightarrow> (string \<times> py) list \<Rightarrow> criteria \<Rightarrow> (string option \<times> (string \<times> string list) list) res" where
  "select_before_test descriptors costs c =
     bindE (mapE (model_reasons costs c) descriptors) (\<lambda>reasons.
     case map fst (filter (\<lambda>(_, r). r = []) reasons) of
       [] \<Rightarrow> Inr (None, reasons)
     | n # ns \<Rightarrow> bindE (min_by (final_key descriptors costs) n ns) (\<lambda>chosen. Inr (Some chosen, reasons)))"

section \<open>The deployment bundle\<close>

definition role_name :: "py \<Rightarrow> string \<Rightarrow> string res" where
  "role_name kind role = lookupE
     [(''model'', if kind = PyStr ''lstm'' then ''model.pt'' else ''pipeline.joblib''), (''scaler'', ''scaler.joblib''),
      (''feature_schema'', ''feature_schema.json''), (''label_map'', ''label_map.json''),
      (''sequence_schema'', ''sequence_schema.json'')] role"

definition copy_final :: "test_env \<Rightarrow> path \<Rightarrow> py \<Rightarrow> (string \<times> py) list \<Rightarrow> string \<times> py \<Rightarrow> (store, (string \<times> py) list) act" where
  "copy_final env directory kind files r =
     (let fe = tv_files env; (role, source) = r in
      bindS (liftS (role_name kind role)) (\<lambda>name.
      bindS (liftS (str_item source ''path'')) (\<lambda>p.
      bindS (reading (\<lambda>s. read_stored fe s (fv_path fe p))) (\<lambda>f.
      bindS (modifyS (\<lambda>s. s(in_dir directory name \<mapsto> f))) (\<lambda>_.
      bindS (liftS (rejectE (ValueError ''copy'') [item_ne source ''sha256'' (PyStr (fv_sha fe f))])) (\<lambda>_.
      retS (dict_set role (file_entry env name f) files)))))))"

definition final_decision_policy :: "py \<Rightarrow> py" where
  "final_decision_policy threshold = PyDict
     [(''positive_class'', PyInt 1), (''threshold'', threshold), (''comparison'', PyStr ''>=''),
      (''selection'', PyStr ''locked_validation_and_cost_policy_confirmed_on_test''),
      (''automatic_blocking_allowed'', PyBool False)]"

definition final_manifest :: "py \<Rightarrow> op_data \<Rightarrow> string \<Rightarrow> (string \<times> py) list \<Rightarrow> py res" where
  "final_manifest descriptor data gate_sha files =
     bindE (py_item descriptor ''id'') (\<lambda>model_id.
     bindE (py_item descriptor ''kind'') (\<lambda>kind.
     bindE (py_item descriptor ''candidate_id'') (\<lambda>candidate.
     bindE (py_item descriptor ''threshold'') (\<lambda>threshold.
     bindE (py_item (od_schema data) ''feature_contract_id'') (\<lambda>contract_id.
     bindE (py_item descriptor ''architecture'') (\<lambda>architecture.
     bindE (if kind = PyStr ''lstm'' then py_item descriptor ''window_size'' else Inr PyNone) (\<lambda>width.
     Inr (PyDict [(''manifest_version'', PyStr ''v1''), (''status'', PyStr APPROVED), (''model_id'', model_id),
       (''kind'', kind), (''candidate_id'', candidate), (''threshold'', threshold), (''positive_class'', PyInt 1),
       (''feature_contract_id'', contract_id), (''feature_order'', py_strs MESSAGE_FEATURE_ORDER),
       (''architecture'', architecture), (''window_size'', width), (''files'', PyDict files),
       (''dataset_id'', PyStr (od_dataset_id data)), (''candidate_lock_sha256'', PyStr gate_sha),
       (''local_integration_approved'', PyBool True), (''production_ready'', PyBool False),
       (''automatic_blocking_allowed'', PyBool False)]))))))))"

text \<open>The directory is new, so its files are the copies, the policy and the manifest.\<close>

definition export_bundle :: "test_env \<Rightarrow> path \<Rightarrow> py \<Rightarrow> op_data \<Rightarrow> string \<Rightarrow> (store, py) act" where
  "export_bundle env directory descriptor data gate_sha =
     (let fe = tv_files env; manifest_path = in_dir directory ''deployment_manifest.json'' in
      bindS (make_dir fe directory) (\<lambda>_.
      bindS (liftS (py_item descriptor ''kind'')) (\<lambda>kind.
      bindS (liftS (bindE (py_item descriptor ''files'') dict_items)) (\<lambda>sources.
      bindS (foldA (copy_final env directory kind) [] sources) (\<lambda>copied.
      bindS (liftS (py_item descriptor ''threshold'')) (\<lambda>threshold.
      let policy = final_decision_policy threshold in
      bindS (write_new fe (in_dir directory ''decision_policy.json'') policy) (\<lambda>_.
      let files = dict_set ''decision_policy'' (file_entry env ''decision_policy.json'' (Document policy)) copied in
      bindS (liftS (final_manifest descriptor data gate_sha files)) (\<lambda>manifest.
      bindS (write_new fe manifest_path manifest) (\<lambda>_.
      bindS (liftS (bindE (sum_bytes files) (\<lambda>n. py_add n (PyInt (int (length (stored_text fe (Document manifest)))))))) (\<lambda>total.
      retS (PyDict [(''directory'', PyStr (fv_text fe (fv_resolve fe directory))),
        (''manifest_sha256'', PyStr (fv_sha fe (Document manifest))), (''total_directory_bytes'', total),
        (''manifest'', manifest)])))))))))))"

end
