(* ===== verification/Final_Run.thy ===== *)
theory Final_Run
  imports Final_Selection
begin

text \<open>
  \<open>run_evaluation\<close> of \<open>evaluation/run_operational_final_evaluation.py\<close> around the frozen models: where
  it may write, the verified windows of the validation set, the protocol, and everything from the
  choice of the candidate to the report. The descriptors and runtimes of \<open>freeze_models\<close> and the
  costs of \<open>benchmark_models\<close> are part of the plan that the run starts from.
\<close>

record final_env =
  fe_test :: test_env
  fe_snapshot :: "final_config \<Rightarrow> py"
  fe_windows :: seq_env
  fe_archive :: "windows \<Rightarrow> string \<times> string"
  fe_restore :: "stored \<Rightarrow> stored \<Rightarrow> windows res"

abbreviation fe_files :: "final_env \<Rightarrow> file_env" where
  "fe_files env \<equiv> tv_files (fe_test env)"

definition final_path :: "final_config \<Rightarrow> string \<Rightarrow> path" where
  "final_path c name = the (map_of (fc_paths c) name)"

definition final_outputs :: "final_env \<Rightarrow> final_config \<Rightarrow> path list" where
  "final_outputs env c = map (tv_suffix (fe_test env) (final_path c ''report_prefix'')) [''.json'', ''.md'', ''.predictions.csv'']"

section \<open>Before the models\<close>

definition check_final_locations :: "final_env \<Rightarrow> store \<Rightarrow> final_config \<Rightarrow> unit res" where
  "check_final_locations env s c =
     (let res = fv_resolve (fe_files env); outputs = final_outputs env c in
      bindE (check (s (final_path c ''artifact_dir'') = None \<and> list_all (\<lambda>p. s p = None) outputs) (FileExistsError ''final evaluation'')) (\<lambda>_.
      check (\<not> list_ex (\<lambda>p. list_ex (\<lambda>r. is_relative_to (res p) (res r))
            (map (final_path c) [''dataset_dir'', ''sequence_dir'', ''augmentation_root'', ''lstm_root'']))
          (outputs @ [final_path c ''artifact_dir'', final_path c ''holdout_registry_dir'']))
        (ValueError ''inside the data or the models'')))"

definition load_final_data :: "final_env \<Rightarrow> store \<Rightarrow> final_config \<Rightarrow> op_data res" where
  "load_final_data env s c =
     bindE (fst (load_operational_data (store_load (fe_files env) s (final_path c ''dataset_dir'')) (fc_dataset_id c) [])) (\<lambda>data.
     bindE (check (int (length (op_y (od_train data))) = fc_expected_train_rows c \<and>
         int (length (op_y (od_validation data))) = fc_expected_validation_rows c) (ValueError ''row counts'')) (\<lambda>_.
     Inr data))"

definition sequence_evidence :: "final_env \<Rightarrow> store \<Rightarrow> final_config \<Rightarrow> op_data \<Rightarrow> (string \<times> locked) res" where
  "sequence_evidence env s c data =
     (let fe = fe_files env; base = final_path c ''sequence_dir''; p = in_dir base ''sequence_manifest.json'' in
      bindE (json_at fe s p) (\<lambda>manifest.
      bindE (rejectE (ValueError ''sequence source'')
        [item_ne manifest ''status'' (PyStr ''complete''), item_ne manifest ''source_input_sha256'' (input_hashes data),
         item_ne manifest ''window_size'' (PyInt (fc_window_size c))]) (\<lambda>_.
      bindE (bindE (py_item manifest ''output_files'') dict_items) (\<lambda>files.
      bindE (mapE (\<lambda>(name, v). bindE (py_item v ''sha256'') (\<lambda>h. Inr (fv_text fe (path_join base (fv_path fe name)), h))) files) (\<lambda>locks.
      bindE (file_sha fe s p) (\<lambda>h.
      let evidence = dict_set (fv_text fe p) (PyStr h) (dict_update [] locks) in
      bindE (verify_stored fe s evidence) (\<lambda>_.
      bindE (str_item manifest ''dataset_id'') (\<lambda>did. Inr (did, evidence)))))))))"

text \<open>The stored windows pass both validations, the one of their build and the one of the evaluation.\<close>

definition check_final_windows :: "final_env \<Rightarrow> final_config \<Rightarrow> windows \<Rightarrow> op_split \<Rightarrow> string \<Rightarrow> unit res" where
  "check_final_windows env c ws source did =
     bindE (validate_windows (fe_windows env) ws source (nat (fc_window_size c)) did) (\<lambda>_.
     validate_evaluation_windows (fv_load (fe_files env)) (se_dumps (fe_windows env)) ws source (PyInt (fc_window_size c)) did)"

section \<open>The plan\<close>

record model_runtime =
  rt_kind :: string
  rt_threshold :: pyfloat
  rt_rows :: "pyfloat list list \<Rightarrow> pyfloat list res"
  rt_windows :: "windows \<Rightarrow> pyfloat list res"

record final_plan =
  fp_config :: final_config
  fp_data :: op_data
  fp_descriptors :: "(string \<times> py) list"
  fp_runtimes :: "(string \<times> model_runtime) list"
  fp_expected_test :: py
  fp_costs :: "(string \<times> py) list"
  fp_protected :: locked

abbreviation final_digest :: "final_env \<Rightarrow> py \<Rightarrow> string res" where
  "final_digest env \<equiv> kl_digest (tv_cost (fe_test env))"

text \<open>What is locked before the costs are measured and the test is opened.\<close>

definition final_protected :: "final_env \<Rightarrow> store \<Rightarrow> final_config \<Rightarrow> op_data \<Rightarrow> locked \<Rightarrow> locked \<Rightarrow> locked res" where
  "final_protected env s c data sequences models =
     (let fe = fe_files env in
      bindE (lock_code fe s (tv_code (fe_test env))) (\<lambda>code.
      Inr (dict_update (dict_update (dict_update
        (map (\<lambda>(n, h). (fv_text fe (in_dir (final_path c ''dataset_dir'') n), PyStr h)) (od_evidence data)) sequences) models) code)))"

definition final_protocol :: "final_env \<Rightarrow> final_config \<Rightarrow> (string \<times> py) list \<Rightarrow> locked \<Rightarrow> py \<Rightarrow> py res" where
  "final_protocol env c descriptors protected expected =
     bindE (final_digest env (fe_snapshot env c)) (\<lambda>h.
     Inr (PyDict [(''status'', PyStr ''locked_before_cost_and_test''), (''locked_at_utc'', PyStr (fv_now (fe_files env))),
       (''protocol'', fe_snapshot env c), (''protocol_sha256'', PyStr h), (''models'', PyDict descriptors),
       (''protected_sha256'', PyDict protected), (''expected_test_sha256'', expected),
       (''test_files_read'', PyBool False), (''model_training_performed'', PyBool False)]))"

text \<open>The artifact directory is created and the protocol written; its hash joins what is protected.\<close>

definition lock_protocol ::
    "final_env \<Rightarrow> final_config \<Rightarrow> op_data \<Rightarrow> locked \<Rightarrow> (string \<times> py) list \<times> locked \<Rightarrow> (store, locked \<times> py) act" where
  "lock_protocol env c data sequences frozen =
     (let fe = fe_files env; base = final_path c ''artifact_dir''; p = in_dir base ''protocol_lock.json'' in
      bindS (reading (\<lambda>s. final_protected env s c data sequences (snd frozen))) (\<lambda>protected.
      bindS (reading (expected_test_hashes fe (final_path c ''dataset_dir''))) (\<lambda>expected.
      bindS (make_dir fe base) (\<lambda>_.
      bindS (liftS (final_protocol env c (fst frozen) protected expected)) (\<lambda>protocol.
      bindS (write_new fe p protocol) (\<lambda>_.
      bindS (reading (\<lambda>s. file_sha fe s p)) (\<lambda>h.
      retS (dict_set (fv_text fe p) (PyStr h) protected, expected))))))))"

section \<open>The lock of the candidate\<close>

definition criteria_document :: "criteria \<Rightarrow> py" where
  "criteria_document c = PyDict
     [(''max_false_positive_rate'', PyFloat (cr_max_fpr c)), (''min_recall'', PyFloat (cr_min_recall c)),
      (''max_single_request_p95_ms'', PyFloat (cr_max_p95 c)), (''max_process_peak_rss_mib'', PyFloat (cr_max_rss_mib c)),
      (''max_deployment_artifacts_mib'', PyFloat (cr_max_artifacts_mib c)), (''scope'', PyStr ''local_advisory_integration_only'')]"

definition final_signature :: "final_env \<Rightarrow> final_plan \<Rightarrow> string \<Rightarrow> string res" where
  "final_signature env plan selected = final_digest env (PyDict
     [(''models'', PyDict (fp_descriptors plan)), (''criteria'', criteria_document (fc_criteria (fp_config plan))),
      (''selection_rule'', PyStr ''validation_recall_f1_fpr_then_cost_then_id''),
      (''test_rule'', PyStr ''confirm_locked_candidate_without_model_or_threshold_reselection''),
      (''selected_model_id'', PyStr selected)])"

definition final_gate :: "final_env \<Rightarrow> final_plan \<Rightarrow> string \<Rightarrow> py res" where
  "final_gate env plan selected =
     bindE (final_signature env plan selected) (\<lambda>signature.
     bindE (final_digest env (fe_snapshot env (fp_config plan))) (\<lambda>protocol_sha.
     Inr (PyDict [(''status'', PyStr ''candidate_locked_before_test''), (''locked_at_utc'', PyStr (fv_now (fe_files env))),
       (''selected_model_id'', PyStr selected), (''models'', PyDict (fp_descriptors plan)),
       (''selection_scope'', PyStr ''validation_and_cost_only''),
       (''criteria'', criteria_document (fc_criteria (fp_config plan))), (''policy_signature'', PyStr signature),
       (''expected_test_sha256'', fp_expected_test plan), (''pre_test_protected_sha256'', PyDict (fp_protected plan)),
       (''test_files_read'', PyBool False), (''protocol_sha256'', PyStr protocol_sha)])))"

section \<open>The test\<close>

definition test_id :: "final_config \<Rightarrow> string" where
  "test_id c = fc_experiment_id c @ ''_test_sequence''"

definition save_test_windows :: "final_env \<Rightarrow> final_config \<Rightarrow> op_split \<Rightarrow> windows \<Rightarrow> (store, unit) act" where
  "save_test_windows env c test ws =
     (let fe = fe_files env; directory = in_dir (final_path c ''artifact_dir'') ''test_windows'';
          arrays = in_dir directory ''test.npz''; table = in_dir directory ''metadata_test.csv'' in
      bindS (make_dir fe directory) (\<lambda>_.
      bindS (write_text fe arrays (fst (fe_archive env ws))) (\<lambda>_.
      bindS (write_text fe table (snd (fe_archive env ws))) (\<lambda>_.
      reading (\<lambda>s. bindE (read_stored fe s arrays) (\<lambda>a. bindE (read_stored fe s table) (\<lambda>m.
        bindE (fe_restore env a m) (\<lambda>restored.
        validate_evaluation_windows (fv_load fe) (se_dumps (fe_windows env)) restored test (PyInt (fc_window_size c)) (test_id c)))))))))"

definition model_scores :: "op_split \<Rightarrow> windows \<Rightarrow> model_runtime \<Rightarrow> pyfloat list res" where
  "model_scores test ws r = (if rt_kind r = ''lstm'' then rt_windows r ws else rt_rows r (op_X test))"

text \<open>One model on the test: its result without the transitions, and its decisions.\<close>

definition evaluate_model ::
    "final_env \<Rightarrow> final_config \<Rightarrow> op_split \<Rightarrow> windows \<Rightarrow> string \<times> model_runtime \<Rightarrow> (string \<times> (string \<times> py) list \<times> pyfloat list \<times> int list) res" where
  "evaluate_model env c test ws m =
     (let (name, r) = m; je = tv_judge (fe_test env) in
      bindE (model_scores test ws r) (\<lambda>probability.
      let prediction = decide (rt_threshold r) probability in
      bindE (calculate_metrics (je_lib je) (op_y test) probability (rt_threshold r)) (\<lambda>metrics.
      bindE (prefix_diagnostics je test probability (rt_threshold r)) (\<lambda>diagnostics.
      Inr (name, [(''metrics'', metrics), (''by_scenario'', scenario_metrics test prediction),
        (''coverage'', coverage_metrics test prediction (wd_lengths ws) (fc_window_size c)), (''prefix'', diagnostics)],
        probability, prediction)))))"

definition with_transitions ::
    "op_split \<Rightarrow> int list \<Rightarrow> string \<times> (string \<times> py) list \<times> pyfloat list \<times> int list \<Rightarrow> (string \<times> py) res" where
  "with_transitions test locked r = (case r of (name, result, probability, prediction) \<Rightarrow>
     bindE (prediction_transitions (op_y test) locked prediction) (\<lambda>t.
     Inr (name, PyDict (dict_set ''transitions_from_locked_candidate'' t result))))"

definition final_predictions ::
    "op_split \<Rightarrow> windows \<Rightarrow> (string \<times> model_runtime) list \<Rightarrow> (string \<times> (string \<times> py) list \<times> pyfloat list \<times> int list) list \<Rightarrow> columns" where
  "final_predictions test ws runtimes rs =
     dict_update (map (\<lambda>n. (n, map PyStr (col (op_meta test) n))) (fr_columns (op_meta test)))
       ([(''label'', map PyInt (op_y test)), (''context_length'', map PyInt (wd_lengths ws))] @
        map (\<lambda>n. (n, map (\<lambda>i. PyFloat (feature_at test n i)) [0..<length (op_X test)])) MESSAGE_FEATURE_ORDER @
        concat (map (\<lambda>(r, name, _, probability, prediction).
          [(name @ ''__probability'', map PyFloat probability), (name @ ''__prediction'', map PyInt prediction),
           (name @ ''__threshold'', map (\<lambda>_. PyFloat (rt_threshold (snd r))) prediction)]) (zip runtimes rs)))"

text \<open>The results of every model, with the transitions from the decisions of the locked one.\<close>

definition evaluate_models :: "final_env \<Rightarrow> final_plan \<Rightarrow> op_split \<Rightarrow> windows \<Rightarrow> string \<Rightarrow> ((string \<times> py) list \<times> columns) res" where
  "evaluate_models env plan test ws selected =
     bindE (mapE (evaluate_model env (fp_config plan) test ws) (fp_runtimes plan)) (\<lambda>rs.
     bindE (lookupE (map (\<lambda>(name, _, _, prediction). (name, prediction)) rs) selected) (\<lambda>locked.
     bindE (mapE (with_transitions test locked) rs) (\<lambda>results.
     Inr (results, final_predictions test ws (fp_runtimes plan) rs))))"

record confirmed =
  cf_results :: "(string \<times> py) list"
  cf_input :: "(string, string) dict"
  cf_windows :: windows
  cf_receipt :: path
  cf_used :: bool
  cf_protected :: locked
  cf_reasons :: "string list"
  cf_bundle :: "py option"
  cf_gate_sha :: string

definition final_summary :: "final_plan \<Rightarrow> string \<Rightarrow> py res" where
  "final_summary plan name = bindE (lookupE (fp_costs plan) name) (\<lambda>v. py_item v ''summary'')"

definition confirmation_reasons :: "final_plan \<Rightarrow> (string \<times> py) list \<Rightarrow> string \<Rightarrow> string list res" where
  "confirmation_reasons plan results selected =
     bindE (bindE (lookupE results selected) (\<lambda>r. py_item r ''metrics'')) (\<lambda>metrics.
     bindE (final_summary plan selected) (\<lambda>cost. final_rejections metrics cost (fc_criteria (fp_config plan))))"

definition confirm_candidate :: "final_env \<Rightarrow> final_plan \<Rightarrow> string \<Rightarrow> (store, confirmed) act" where
  "confirm_candidate env plan selected =
     (let fe = fe_files env; c = fp_config plan; data = fp_data plan; base = final_path c ''artifact_dir'';
          gate_path = in_dir base ''candidate_lock.json''; dataset = final_path c ''dataset_dir'' in
      bindS (liftS (final_gate env plan selected)) (\<lambda>gate.
      bindS (write_new fe gate_path gate) (\<lambda>_.
      bindS (reading (\<lambda>s. file_sha fe s gate_path)) (\<lambda>gate_sha.
      bindS (reserve_holdout fe (final_path c ''holdout_registry_dir'') gate_path gate_sha) (\<lambda>(receipt, used).
      bindS (reading (\<lambda>s. file_sha fe s receipt)) (\<lambda>receipt_sha.
      bindS (reading (load_test fe dataset data gate_path gate_sha receipt)) (\<lambda>(test, evidence).
      bindS (liftS (check (int (length (op_y test)) = fc_expected_test_rows c) (ValueError ''test rows''))) (\<lambda>_.
      bindS (liftS (make_evaluation_windows (se_dumps (fe_windows env)) test (PyInt (fc_window_size c)) (test_id c))) (\<lambda>ws.
      bindS (save_test_windows env c test ws) (\<lambda>_.
      bindS (liftS (evaluate_models env plan test ws selected)) (\<lambda>(results, table).
      bindS (liftS (confirmation_reasons plan results selected)) (\<lambda>reasons.
      bindS (if reasons = []
        then bindS (liftS (lookupE (fp_descriptors plan) selected)) (\<lambda>d.
             bindS (export_bundle (fe_test env) (in_dir base ''deployment_bundle'') d data gate_sha) (\<lambda>b. retS (Some b)))
        else retS None) (\<lambda>bundle.
      bindS (write_text fe (final_outputs env c ! 2) (tv_csv (fe_test env) table)) (\<lambda>_.
      retS \<lparr>cf_results = results, cf_input = evidence, cf_windows = ws, cf_receipt = receipt, cf_used = used,
        cf_protected = dict_update (dict_set (fv_text fe receipt) (PyStr receipt_sha)
            (dict_set (fv_text fe gate_path) (PyStr gate_sha) (fp_protected plan)))
          (map (\<lambda>(n, d). (fv_text fe (in_dir dataset n), PyStr d)) evidence),
        cf_reasons = reasons, cf_bundle = bundle, cf_gate_sha = gate_sha\<rparr>))))))))))))))"

section \<open>The report\<close>

definition count_document :: "('a \<Rightarrow> string) \<Rightarrow> ('a \<times> nat) list \<Rightarrow> py" where
  "count_document show ns = PyDict (map (\<lambda>(k, n). (show k, PyInt (int n))) ns)"

definition window_document :: "windows \<Rightarrow> nat \<Rightarrow> py" where
  "window_document ws w =
     (let y = window_summary_of ws w; n = (\<lambda>k. PyInt (int k)) in
      PyDict [(''shape'', py_ints [int (length (wd_X ws)), int w, int (length MESSAGE_FEATURE_ORDER)]),
        (''windows'', n (wy_windows y)), (''campaigns'', n (wy_campaigns y)), (''runs'', n (wy_runs y)),
        (''sessions'', n (wy_sessions y)), (''label_distribution'', count_document int_str (wy_labels y)),
        (''full_windows'', n (wy_full y)), (''partial_windows'', n (wy_partial y)), (''length_one_windows'', n (wy_length_one y)),
        (''context_length_distribution'', count_document nat_str (wy_lengths y)),
        (''valid_steps'', n (wy_valid_steps y)), (''padded_steps'', n (wy_padded_steps y)),
        (''by_scenario'', PyDict (map (\<lambda>(name, v). (name, PyDict
           [(''windows'', n (sw_windows v)), (''partial_windows'', n (sw_partial v)), (''length_one_windows'', n (sw_length_one v)),
            (''normal'', n (sw_normal v)), (''controlled_anomaly'', n (sw_anomaly v))])) (wy_scenarios y)))])"

definition option_or_none :: "('a \<Rightarrow> py) \<Rightarrow> 'a option \<Rightarrow> py" where
  "option_or_none f v = (case v of None \<Rightarrow> PyNone | Some x \<Rightarrow> f x)"

definition final_status :: "confirmed option \<Rightarrow> string" where
  "final_status cf = (case cf of None \<Rightarrow> ''incomplete_no_pre_test_candidate'' | Some _ \<Rightarrow> ''complete'')"

definition final_approval :: "confirmed option \<Rightarrow> string \<times> string list" where
  "final_approval cf = (case cf of None \<Rightarrow> (''withheld_before_test'', [''no candidate met the criteria before the test''])
     | Some r \<Rightarrow> (approval_status (cf_reasons r), cf_reasons r))"

definition final_report ::
    "final_env \<Rightarrow> final_plan \<Rightarrow> string option \<times> (string \<times> string list) list \<Rightarrow> confirmed option \<Rightarrow> locked \<Rightarrow> py res" where
  "final_report env plan choice cf protected =
     (let fe = fe_files env; c = fp_config plan; approval = final_approval cf in
      bindE (final_digest env (fe_snapshot env c)) (\<lambda>h.
      Inr (PyDict [(''report_version'', PyStr ''v1''), (''status'', PyStr (final_status cf)), (''generated_at_utc'', PyStr (fv_now fe)),
        (''experiment_id'', PyStr (fc_experiment_id c)), (''protocol'', fe_snapshot env c), (''protocol_sha256'', PyStr h),
        (''models'', PyDict (fp_descriptors plan)), (''costs'', PyDict (fp_costs plan)),
        (''selected_model_id'', option_or_none PyStr (fst choice)),
        (''pre_test_rejections'', PyDict (map (\<lambda>(n, r). (n, py_strs r)) (snd choice))),
        (''selection_used_test'', PyBool False), (''thresholds_changed'', PyBool False),
        (''candidate_lock_sha256'', option_or_none (\<lambda>r. PyStr (cf_gate_sha r)) cf), (''test_evaluated'', PyBool (cf \<noteq> None)),
        (''test_input_sha256'', text_dict (case cf of None \<Rightarrow> [] | Some r \<Rightarrow> cf_input r)),
        (''test_results'', PyDict (case cf of None \<Rightarrow> [] | Some r \<Rightarrow> cf_results r)),
        (''test_windows'', option_or_none (\<lambda>r. window_document (cf_windows r) (nat (fc_window_size c))) cf),
        (''holdout_receipt_path'', option_or_none (\<lambda>r. PyStr (fv_text fe (cf_receipt r))) cf),
        (''holdout_previously_reserved'', PyBool (case cf of None \<Rightarrow> False | Some r \<Rightarrow> cf_used r)),
        (''protected_sha256'', PyDict protected),
        (''approval'', PyDict [(''status'', PyStr (fst approval)), (''reasons'', py_strs (snd approval)),
           (''production_ready'', PyBool False), (''automatic_blocking_allowed'', PyBool False)]),
        (''deployment_bundle'', option_or_none id (case cf of None \<Rightarrow> None | Some r \<Rightarrow> cf_bundle r)),
        (''model_training_performed'', PyBool False), (''fastapi_still_dummy'', PyBool True),
        (''limitations'', py_strs (tv_limitations (fe_test env)))])))"

definition final_inventory ::
    "final_env \<Rightarrow> final_plan \<Rightarrow> string option \<Rightarrow> confirmed option \<Rightarrow> store \<Rightarrow> py res" where
  "final_inventory env plan selected cf s =
     (let c = fp_config plan in
      bindE (inventory_of (fe_test env) (final_path c ''artifact_dir'') s) (\<lambda>inventory.
      bindE (lock_code (fe_files env) s (filter (\<lambda>p. s p \<noteq> None) (final_outputs env c))) (\<lambda>reports.
      Inr (PyDict [(''status'', PyStr (final_status cf)), (''approval_status'', PyStr (fst (final_approval cf))),
        (''selected_model_id'', option_or_none PyStr selected),
        (''candidate_lock_sha256'', option_or_none (\<lambda>r. PyStr (cf_gate_sha r)) cf), (''artifacts'', PyDict inventory),
        (''reports'', PyDict reports), (''test_evaluated'', PyBool (cf \<noteq> None)),
        (''model_training_performed'', PyBool False), (''production_ready'', PyBool False)]))))"

section \<open>The run\<close>

definition confirm_selected :: "final_env \<Rightarrow> final_plan \<Rightarrow> string option \<Rightarrow> (store, confirmed option) act" where
  "confirm_selected env plan selected = (case selected of None \<Rightarrow> retS None
     | Some name \<Rightarrow> bindS (confirm_candidate env plan name) (\<lambda>r. retS (Some r)))"

definition run_final :: "final_env \<Rightarrow> final_plan \<Rightarrow> (store, py) act" where
  "run_final env plan =
     (let fe = fe_files env; c = fp_config plan; outputs = final_outputs env c in
      bindS (reading (\<lambda>s. verify_stored fe s (fp_protected plan))) (\<lambda>_.
      bindS (liftS (select_before_test (fp_descriptors plan) (fp_costs plan) (fc_criteria c))) (\<lambda>choice.
      bindS (confirm_selected env plan (fst choice)) (\<lambda>cf.
      let protected = (case cf of None \<Rightarrow> fp_protected plan | Some r \<Rightarrow> cf_protected r) in
      bindS (reading (\<lambda>s. verify_stored fe s protected)) (\<lambda>_.
      bindS (liftS (final_report env plan choice cf protected)) (\<lambda>report.
      bindS (write_new fe (outputs ! 0) report) (\<lambda>_.
      bindS (write_text fe (outputs ! 1) (tv_render (fe_test env) report)) (\<lambda>_.
      bindS (reading (final_inventory env plan (fst choice) cf)) (\<lambda>manifest.
      bindS (write_new fe (in_dir (final_path c ''artifact_dir'') ''evaluation_manifest.json'') manifest) (\<lambda>_.
      retS report))))))))))"

end
