(* ===== verification/Final_Proofs.thy ===== *)
theory Final_Proofs
  imports Final_Selection
begin

text \<open>
  What the choice of \<open>select_before_test\<close> means: the candidate meets every criterion with numbers, and
  comes first among the models that do.
\<close>

section \<open>The numbers of an accepted model\<close>

definition num_at :: "py \<Rightarrow> string \<Rightarrow> rat option" where
  "num_at d k = (case py_item d k of Inr v \<Rightarrow> finite_num v | Inl _ \<Rightarrow> None)"

definition finite_criteria :: "criteria \<Rightarrow> bool" where
  "finite_criteria c \<longleftrightarrow> list_all is_finite
     [cr_max_fpr c, cr_min_recall c, cr_max_p95 c, cr_max_rss_mib c, cr_max_artifacts_mib c]"

definition within_mib :: "rat \<Rightarrow> pyfloat \<Rightarrow> bool" where
  "within_mib x mib \<longleftrightarrow> fle (Fin x) (fl (fval mib * 1048576))"

definition meets_criteria :: "py \<Rightarrow> py \<Rightarrow> criteria \<Rightarrow> bool" where
  "meets_criteria metrics cost c \<longleftrightarrow> (\<exists>fpr recall f1 p95 peak size.
     num_at metrics ''false_positive_rate'' = Some fpr \<and> num_at metrics ''recall'' = Some recall \<and>
     num_at metrics ''f1'' = Some f1 \<and> num_at cost ''single_request_worst_process_p95_ms'' = Some p95 \<and>
     num_at cost ''maximum_native_process_peak_rss_bytes'' = Some peak \<and>
     num_at cost ''required_model_files_bytes'' = Some size \<and>
     {fpr, recall, f1} \<subseteq> {0..1} \<and> fpr \<le> fval (cr_max_fpr c) \<and> fval (cr_min_recall c) \<le> recall \<and>
     0 \<le> p95 \<and> p95 \<le> fval (cr_max_p95 c) \<and> 0 < peak \<and> within_mib peak (cr_max_rss_mib c) \<and>
     0 \<le> size \<and> within_mib size (cr_max_artifacts_mib c))"

lemma float_field_finite: "float_field ok v = Inr x \<Longrightarrow> is_finite x"
  by (auto simp: float_field_def bindE_Inr_iff split: if_splits)

lemma parse_criteria_finite: "parse_criteria v = Inr c \<Longrightarrow> finite_criteria c"
  by (auto simp: parse_criteria_def field_def bindE_Inr_iff finite_criteria_def dest: float_field_finite)

lemma np_isfinite_num: "np_isfinite v = Inr True \<Longrightarrow> \<exists>x. finite_num v = Some x"
  by (cases v) (auto simp: finite_num_def split: pyfloat.splits if_splits elim!: is_finite.elims)

lemma py_gt_finite: "finite_num a = Some x \<Longrightarrow> finite_num b = Some y \<Longrightarrow> py_gt a b = Inr (y < x)"
  by (auto simp: finite_num_def py_gt_def flt_def split: option.splits pyfloat.splits)

lemma finite_num_float: "is_finite x \<Longrightarrow> finite_num (PyFloat x) = Some (fval x)"
  by (cases x) (simp_all add: finite_num_def)

lemma finite_num_int: "finite_num (PyInt n) = Some (of_int n)"
  by (simp add: finite_num_def)

lemma accepted_rate:
  assumes "not_a_rate d k = Inr False"
  shows "\<exists>v x. py_item d k = Inr v \<and> finite_num v = Some x \<and> num_at d k = Some x \<and> 0 \<le> x \<and> x \<le> 1"
proof -
  from assms obtain v where v: "py_item d k = Inr v" "np_isfinite v = Inr True"
    and b: "py_gt (PyInt 0) v = Inr False" "py_gt v (PyInt 1) = Inr False"
    by (auto simp: not_a_rate_def bindE_Inr_iff split: if_splits)
  obtain x where x: "finite_num v = Some x" using np_isfinite_num [OF v(2)] by blast
  from b v(1) x show ?thesis
    by (auto simp: num_at_def py_gt_finite [OF finite_num_int x] py_gt_finite [OF x finite_num_int])
qed

lemma accepted_cost:
  assumes "not_a_cost d k = Inr False"
  shows "\<exists>v x. py_item d k = Inr v \<and> finite_num v = Some x \<and> num_at d k = Some x \<and> 0 \<le> x"
proof -
  from assms obtain v where v: "py_item d k = Inr v" "np_isfinite v = Inr True" and b: "py_gt (PyInt 0) v = Inr False"
    by (auto simp: not_a_cost_def bindE_Inr_iff split: if_splits)
  obtain x where x: "finite_num v = Some x" using np_isfinite_num [OF v(2)] by blast
  from b v(1) x show ?thesis by (auto simp: num_at_def py_gt_finite [OF finite_num_int x])
qed

lemma accepted_size:
  assumes "over_mib v mib = Inr False" and "finite_num v = Some x" and "is_finite mib"
  shows "within_mib x mib"
proof -
  obtain r where mib: "mib = Fin r" using assms(3) by (cases mib) simp_all
  have "num_val v = Some (Fin x)" using assms(2) by (auto simp: finite_num_def split: option.splits pyfloat.splits)
  then have "\<not> flt (fl (r * 1048576)) (Fin x)"
    using assms(1) by (auto simp: over_mib_def mib py_gt_def bindE_Inr_iff)
  moreover have "fl y \<noteq> NaN" for y by (simp add: fl_def Let_def)
  ultimately show ?thesis
    by (cases "fl (r * 1048576)") (auto simp: within_mib_def mib flt_def)
qed

lemma accepted_peak:
  assumes "peak_rejected v mib = Inr False" and "is_finite mib"
  shows "\<exists>x. finite_num v = Some x \<and> 0 < x \<and> within_mib x mib"
proof -
  from assms(1) have v: "np_isfinite v = Inr True" "py_gt v (PyInt 0) = Inr True" "over_mib v mib = Inr False"
    by (auto simp: peak_rejected_def bindE_Inr_iff split: if_splits)
  obtain x where x: "finite_num v = Some x" using np_isfinite_num [OF v(1)] by blast
  with v(2) accepted_size [OF v(3) x assms(2)] show ?thesis by (auto simp: py_gt_finite [OF x finite_num_int])
qed

lemma unless_Inr_Nil: "bindE r (\<lambda>b. if b then Inr [x] else f) = Inr [] \<longleftrightarrow> r = Inr False \<and> f = Inr []"
  by (cases r) auto

lemma no_rejection_meets:
  assumes "final_rejections metrics cost c = Inr []" and "finite_criteria c"
  shows "meets_criteria metrics cost c"
proof -
  have fin: "is_finite (cr_max_fpr c)" "is_finite (cr_min_recall c)" "is_finite (cr_max_p95 c)"
    "is_finite (cr_max_rss_mib c)" "is_finite (cr_max_artifacts_mib c)"
    using assms(2) by (simp_all add: finite_criteria_def)
  from assms(1) obtain fpr recall p95 peak size where
    rates: "list_all (\<lambda>r. r = Inr False) (map (not_a_rate metrics) [''false_positive_rate'', ''recall'', ''f1''])" and
    costs: "list_all (\<lambda>r. r = Inr False) (map (not_a_cost cost) [''single_request_worst_process_p95_ms'', ''required_model_files_bytes''])" and
    fpr: "py_item metrics ''false_positive_rate'' = Inr fpr" "py_gt fpr (PyFloat (cr_max_fpr c)) = Inr False" and
    recall: "py_item metrics ''recall'' = Inr recall" "py_gt (PyFloat (cr_min_recall c)) recall = Inr False" and
    p95: "py_item cost ''single_request_worst_process_p95_ms'' = Inr p95" "py_gt p95 (PyFloat (cr_max_p95 c)) = Inr False" and
    peak: "py_item cost ''maximum_native_process_peak_rss_bytes'' = Inr peak" "peak_rejected peak (cr_max_rss_mib c) = Inr False" and
    size: "py_item cost ''required_model_files_bytes'' = Inr size" "over_mib size (cr_max_artifacts_mib c) = Inr False"
    unfolding final_rejections_def unless_Inr_Nil anyE_False_iff unfolding bindE_Inr_iff by (auto split: if_splits)
  obtain a where a: "finite_num fpr = Some a" "num_at metrics ''false_positive_rate'' = Some a" "0 \<le> a" "a \<le> 1"
    using accepted_rate [of metrics "''false_positive_rate''"] rates fpr by auto
  obtain b where b: "finite_num recall = Some b" "num_at metrics ''recall'' = Some b" "0 \<le> b" "b \<le> 1"
    using accepted_rate [of metrics "''recall''"] rates recall by auto
  obtain d where d: "num_at metrics ''f1'' = Some d" "0 \<le> d" "d \<le> 1"
    using accepted_rate [of metrics "''f1''"] rates by auto
  obtain p where p: "finite_num p95 = Some p" "num_at cost ''single_request_worst_process_p95_ms'' = Some p" "0 \<le> p"
    using accepted_cost [of cost "''single_request_worst_process_p95_ms''"] costs p95 by auto
  obtain q where q: "finite_num size = Some q" "num_at cost ''required_model_files_bytes'' = Some q" "0 \<le> q"
    using accepted_cost [of cost "''required_model_files_bytes''"] costs size by auto
  obtain m where m: "finite_num peak = Some m" "0 < m" "within_mib m (cr_max_rss_mib c)"
    using accepted_peak [OF peak(2) fin(4)] by blast
  have "a \<le> fval (cr_max_fpr c)" "fval (cr_min_recall c) \<le> b" "p \<le> fval (cr_max_p95 c)"
    using fpr(2) recall(2) p95(2) a(1) b(1) p(1)
    by (simp_all add: py_gt_finite finite_num_float [OF fin(1)] finite_num_float [OF fin(2)] finite_num_float [OF fin(3)])
  then show ?thesis
    unfolding meets_criteria_def using a b d p q m accepted_size [OF size(2) q(1) fin(5)] peak(1)
    by (auto simp: num_at_def)
qed

section \<open>The candidate\<close>

definition final_rank :: "(string \<times> py) list \<Rightarrow> (string \<times> py) list \<Rightarrow> string \<Rightarrow> (rat list \<times> string) option" where
  "final_rank descriptors costs name = (case final_key descriptors costs name of
     Inl _ \<Rightarrow> None
   | Inr k \<Rightarrow> if list_all (\<lambda>v. finite_num v \<noteq> None) (take 6 k) then Some (map (\<lambda>v. the (finite_num v)) (take 6 k), name) else None)"

lemma final_key_form: "final_key descriptors costs name = Inr k \<Longrightarrow> \<exists>vs. length vs = 6 \<and> k = vs @ [PyStr name]"
  by (auto simp: final_key_def bindE_Inr_iff)

lemma final_rank_Some:
  assumes "final_rank descriptors costs name = Some r"
  obtains vs where "final_key descriptors costs name = Inr (vs @ [PyStr name])" "length vs = 6"
    "list_all (\<lambda>v. finite_num v \<noteq> None) vs" "r = (map (\<lambda>v. the (finite_num v)) vs, name)"
proof -
  from assms obtain k where k: "final_key descriptors costs name = Inr k"
    by (auto simp: final_rank_def split: sum.splits)
  obtain vs where "length vs = 6" "k = vs @ [PyStr name]" using final_key_form [OF k] by blast
  with assms k that show ?thesis by (auto simp: final_rank_def split: if_splits)
qed

interpretation candidate: ranked_choice "final_key descriptors costs" "final_rank descriptors costs" for descriptors costs
proof unfold_locales
  fix x r
  assume "final_rank descriptors costs x = Some r"
  then show "\<exists>k. final_key descriptors costs x = Inr k" by (rule final_rank_Some) blast
next
  fix x r y q k l
  assume x: "final_rank descriptors costs x = Some r" and y: "final_rank descriptors costs y = Some q"
    and k: "final_key descriptors costs x = Inr k" and l: "final_key descriptors costs y = Inr l"
  from x y show "list_lt k l = Inr (r < q)"
    by (elim final_rank_Some) (simp add: k l list_lt_numbers)
qed

lemma py_neg_finite: "finite_num v = Some x \<Longrightarrow> \<exists>w. py_neg v = Inr w \<and> finite_num w = Some (- x)"
  by (cases v) (auto simp: finite_num_def split: pyfloat.splits)

lemma num_at_item: "num_at d k = Some x \<Longrightarrow> \<exists>v. py_item d k = Inr v \<and> finite_num v = Some x"
  by (auto simp: num_at_def split: sum.splits)

lemma meets_ranked:
  assumes "meets_criteria metrics cost c" and "map_of descriptors name = Some d" and "py_item d ''validation_metrics'' = Inr metrics"
    and "map_of costs name = Some e" and "py_item e ''summary'' = Inr cost"
  shows "final_rank descriptors costs name \<noteq> None"
proof -
  from assms(1) obtain fpr recall f1 p95 peak size where n:
    "num_at metrics ''false_positive_rate'' = Some fpr" "num_at metrics ''recall'' = Some recall" "num_at metrics ''f1'' = Some f1"
    "num_at cost ''single_request_worst_process_p95_ms'' = Some p95"
    "num_at cost ''maximum_native_process_peak_rss_bytes'' = Some peak" "num_at cost ''required_model_files_bytes'' = Some size"
    unfolding meets_criteria_def by blast
  note v = n [THEN num_at_item]
  from v(2) obtain a r where r: "py_item metrics ''recall'' = Inr a" "py_neg a = Inr r" "\<exists>x. finite_num r = Some x"
    by (blast dest: py_neg_finite)
  from v(3) obtain b f where f: "py_item metrics ''f1'' = Inr b" "py_neg b = Inr f" "\<exists>x. finite_num f = Some x"
    by (blast dest: py_neg_finite)
  show ?thesis
    using v(1,4,5,6) r f assms(2-5)
    by (auto simp: final_rank_def final_key_def lookupE_Some)
qed

lemma model_reasons_Inr:
  "model_reasons costs c m = Inr nr \<longleftrightarrow>
     (\<exists>metrics e cost. py_item (snd m) ''validation_metrics'' = Inr metrics \<and> map_of costs (fst m) = Some e \<and>
        py_item e ''summary'' = Inr cost \<and> fst nr = fst m \<and> final_rejections metrics cost c = Inr (snd nr))"
  by (cases nr) (auto simp: model_reasons_def bindE_Inr_iff)

lemma listed_meets:
  assumes "list_all2 (\<lambda>m nr. model_reasons costs c m = Inr nr) descriptors reasons" and "distinct (map fst descriptors)"
    and "finite_criteria c" and "(n, []) \<in> set reasons"
  shows "\<exists>metrics cost d e. map_of descriptors n = Some d \<and> py_item d ''validation_metrics'' = Inr metrics \<and>
    map_of costs n = Some e \<and> py_item e ''summary'' = Inr cost \<and> meets_criteria metrics cost c"
proof -
  from assms(4) obtain i where i: "i < length reasons" "reasons ! i = (n, [])" by (auto simp: in_set_conv_nth)
  with assms(1) have m: "model_reasons costs c (descriptors ! i) = Inr (n, [])" and l: "i < length descriptors"
    by (auto simp: list_all2_conv_all_nth)
  then have "map_of descriptors n = Some (snd (descriptors ! i))"
    using assms(2) by (intro map_of_is_SomeI) (auto simp: model_reasons_Inr prod_eq_iff in_set_conv_nth intro!: exI [of _ i])
  with m show ?thesis
    using no_rejection_meets [OF _ assms(3)] by (auto simp: model_reasons_Inr)
qed

text \<open>
  The candidate locked before the test meets every criterion with finite numbers: rates between 0
  and 1, the false positive rate and the recall within their limits, p95 latency, a measured positive
  peak memory and the size of the model files within theirs. Among the models without a reason
  against them it comes first: more recall, then more F1, fewer false positives, lower latency,
  memory and size, the smaller name. Without a candidate every model has a reason against it.
\<close>
lemma select_before_test_best:
  assumes "parse_criteria v = Inr c" and "distinct (map fst descriptors)"
    and "select_before_test descriptors costs c = Inr (chosen, reasons)"
  shows "map fst reasons = map fst descriptors \<and>
    (case chosen of None \<Rightarrow> \<forall>(n, r)\<in>set reasons. r \<noteq> []
     | Some n \<Rightarrow> (n, []) \<in> set reasons \<and>
        (\<exists>metrics cost. path_items (PyDict descriptors) [n, ''validation_metrics''] = Inr metrics \<and>
           path_items (PyDict costs) [n, ''summary''] = Inr cost \<and> meets_criteria metrics cost c) \<and>
        (\<forall>m. (m, []) \<in> set reasons \<longrightarrow> the (final_rank descriptors costs n) \<le> the (final_rank descriptors costs m)))"
proof -
  let ?names = "map fst (filter (\<lambda>(_, r). r = []) reasons)"
  let ?choice = "\<lambda>rs. case map fst (filter (\<lambda>(_, r). r = []) rs) of [] \<Rightarrow> Inr (None, rs)
      | n # ns \<Rightarrow> bindE (min_by (final_key descriptors costs) n ns) (\<lambda>b. Inr (Some b, rs))"
  obtain rs where rs: "mapE (model_reasons costs c) descriptors = Inr rs" and choice: "?choice rs = Inr (chosen, reasons)"
    using assms(3) unfolding select_before_test_def bindE_Inr_iff by blast
  from choice have eq: "rs = reasons" by (auto simp: bindE_Inr_iff split: list.splits)
  note all = rs [unfolded eq mapE_Inr_iff] and ch = choice [unfolded eq]
  have names: "map fst reasons = map fst descriptors"
    using all by (induction rule: list_all2_induct) (auto simp: model_reasons_Inr)
  note meets = listed_meets [OF all assms(2) parse_criteria_finite [OF assms(1)]]
  have ranked: "final_rank descriptors costs n \<noteq> None" if "(n, []) \<in> set reasons" for n
    using meets [OF that] meets_ranked by blast
  show ?thesis
  proof (cases ?names)
    case Nil
    with ch names show ?thesis by (auto simp: filter_empty_conv split: prod.splits)
  next
    case (Cons n ns)
    have "\<forall>y\<in>set (n # ns). final_rank descriptors costs y \<noteq> None"
      unfolding Cons [symmetric] using ranked by auto
    from candidate.min_by_least [OF this] obtain b where b: "min_by (final_key descriptors costs) n ns = Inr b"
      "b \<in> set ?names" "\<forall>y\<in>set ?names. the (final_rank descriptors costs b) \<le> the (final_rank descriptors costs y)"
      unfolding Cons by blast
    from b(2) have "(b, []) \<in> set reasons" by auto
    moreover from ch Cons b(1) have "chosen = Some b" by simp
    ultimately show ?thesis using names meets [of b] b(3) by (force simp: lookupE_Some)
  qed
qed

end
