(* ===== verification/Final_Confirm.thy ===== *)
theory Final_Confirm
  imports Final_Run Final_Proofs
begin

text \<open>
  The test of \<open>run_evaluation\<close> only confirms: the candidate is the choice from validation and cost, and
  its approval is the verdict of the same criteria on its test metrics.
\<close>

lemma reading_Inr: "reading f s = (Inr b, t) \<longleftrightarrow> f s = Inr b \<and> t = s"
  by (auto simp: reading_def)

lemma write_new_Inr: "write_new env p v s = (Inr u, t) \<longleftrightarrow> s p = None \<and> t = s(p \<mapsto> Document v)"
  by (auto simp: write_new_def)

lemma write_text_Inr: "write_text env p v s = (Inr u, t) \<longleftrightarrow> s p = None \<and> t = s(p \<mapsto> Content v)"
  by (auto simp: write_text_def)

lemmas act_inv = reading_Inr write_new_Inr write_text_Inr bindS_Inr_iff

lemma confirmed_facts:
  assumes "confirm_candidate env plan selected s = (Inr r, t)"
  shows "confirmation_reasons plan (cf_results r) selected = Inr (cf_reasons r) \<and> (cf_reasons r \<noteq> [] \<longrightarrow> cf_bundle r = None)"
  using assms unfolding confirm_candidate_def Let_def
  by (auto simp: act_inv split: prod.splits if_splits)

text \<open>What the report says.\<close>

lemma report_items:
  assumes "final_report env plan choice cf protected = Inr report"
  shows "py_item report ''selected_model_id'' = Inr (option_or_none PyStr (fst choice))"
    and "py_item report ''test_evaluated'' = Inr (PyBool (cf \<noteq> None))"
    and "path_items report [''approval'', ''status''] = Inr (PyStr (fst (final_approval cf)))"
    and "py_item report ''test_results'' = Inr (PyDict (case cf of None \<Rightarrow> [] | Some r \<Rightarrow> cf_results r))"
    and "py_item report ''deployment_bundle'' = Inr (option_or_none id (case cf of None \<Rightarrow> None | Some r \<Rightarrow> cf_bundle r))"
  using assms by (auto simp: final_report_def Let_def bindE_Inr_iff lookupE_def)

definition written_by :: "final_env \<Rightarrow> final_plan \<Rightarrow> path set" where
  "written_by env plan = set (take 2 (final_outputs env (fp_config plan))) \<union>
     {in_dir (final_path (fp_config plan) ''artifact_dir'') ''evaluation_manifest.json''}"

lemma run_final_Inr:
  assumes "run_final env plan s = (Inr report, s')"
  obtains choice cf u protected where
    "select_before_test (fp_descriptors plan) (fp_costs plan) (fc_criteria (fp_config plan)) = Inr choice"
    "confirm_selected env plan (fst choice) s = (Inr cf, u)" "final_report env plan choice cf protected = Inr report"
    "\<forall>p. p \<notin> written_by env plan \<longrightarrow> s' p = u p"
  using assms unfolding run_final_def Let_def
  by (auto simp: act_inv written_by_def final_outputs_def)


end
