(* ===== verification/Verdict_Proofs.thy ===== *)
theory Verdict_Proofs
  imports Cost_Run
begin

text \<open>
  How the stages fit together: a verdict without reasons passes the limits that the serving loader
  checks (\<open>Approved_Bundle\<close>), and a candidate that the cost stage locks is accepted by the
  reservation and the criteria of the test stage.
\<close>

section \<open>Values within their limits\<close>

lemma py_getE_item: "py_getE d k = Inr v \<Longrightarrow> v \<noteq> PyNone \<Longrightarrow> py_item d k = Inr v"
  by (cases d) (auto simp: py_get_def lookupE_def split: option.splits)

lemma finite_of_np: "np_isfinite v = Inr True \<Longrightarrow> py_gt (PyInt 0) v = Inr False \<Longrightarrow> py_isfinite v = Inr True"
proof (cases v)
  case (PyInt n)
  assume "np_isfinite v = Inr True" "py_gt (PyInt 0) v = Inr False"
  then have "0 \<le> n" "n \<le> 2 ^ 64" by (auto simp: PyInt py_gt_def flt_def split: if_splits)
  from float_of_int_range [OF this] show ?thesis by (auto simp: PyInt)
qed auto

lemma limit_from_reason:
  assumes "limit_reason (n, v, l, u) = Inr []" and "py_gt (PyInt 0) v = Inr False"
  shows "v \<noteq> PyNone \<and> check_limit (v, l, u) = Inr ()"
  using assms by (auto simp: limit_reason_def check_limit_def rejectE_Inr_iff bindE_Inr_iff split: if_splits)

lemma limit_from_cost:
  assumes "cost_reason cost (k, l, t) = Inr []"
  shows "\<exists>v. py_item cost k = Inr v \<and> check_limit (v, l, True) = Inr ()"
proof -
  from assms obtain v where get: "py_getE cost k = Inr v" and ok: "v \<noteq> PyNone" "np_isfinite v = Inr True"
    "py_gt (PyInt 0) v = Inr False" "py_gt v l = Inr False"
    by (auto simp: cost_reason_def bindE_Inr_iff split: if_splits)
  have "check_limit (v, l, True) = Inr ()"
    using ok finite_of_np [OF ok(2,3)] by (simp add: check_limit_def rejectE_Inr_iff)
  with py_getE_item [OF get ok(1)] show ?thesis by blast
qed

text \<open>The counted rates of the test are not negative.\<close>

definition sound_scores :: "metric_lib \<Rightarrow> bool" where
  "sound_scores lib \<longleftrightarrow>
     (\<forall>y p tn fp fn tp. ml_confusion lib y p = Inr (tn, fp, fn, tp) \<longrightarrow> 0 \<le> tn \<and> 0 \<le> fp) \<and>
     (\<forall>y p x. ml_recall lib y p = Inr x \<longrightarrow> \<not> flt x (Fin 0))"

lemma not_negative: "\<not> flt x (Fin 0) \<Longrightarrow> py_gt (PyInt 0) (PyFloat x) = Inr False"
  by (simp add: py_gt_def)

lemma metric_values:
  assumes "calculate_metrics lib y probability t = Inr m" and "sound_scores lib"
  obtains x z where "py_getE m ''false_positive_rate'' = Inr (PyFloat x)" "\<not> flt x (Fin 0)"
    "py_getE m ''recall'' = Inr (PyFloat z)" "\<not> flt z (Fin 0)"
proof -
  from assms(1) obtain tn fp fn tp recall fpr where
    c: "ml_confusion lib y (decide t probability) = Inr (tn, fp, fn, tp)" and
    r: "ml_recall lib y (decide t probability) = Inr recall" and
    f: "ratioE fp (fp + tn) = Inr fpr" and
    m: "py_getE m ''false_positive_rate'' = Inr (PyFloat fpr)" "py_getE m ''recall'' = Inr (PyFloat recall)"
    by (auto simp: calculate_metrics_def Let_def bindE_Inr_iff py_get_def)
  have "0 \<le> tn" "0 \<le> fp" "\<not> flt recall (Fin 0)" using assms(2) c r unfolding sound_scores_def by blast+
  moreover from f have "fp + tn \<noteq> 0" "fpr = ratio fp (fp + tn)" by (auto simp: ratioE_def split: if_splits)
  ultimately have "\<not> flt fpr (Fin 0)" using ratio_bounds [of fp "fp + tn"] by simp
  with m \<open>\<not> flt recall (Fin 0)\<close> show ?thesis using that by blast
qed

lemma counted_fpr:
  assumes "py_getE (counts_document a b k (count_errors ps)) k = Inr v" and "v \<noteq> PyNone"
    and "k \<notin> {''rows'', a, b, ''fp'', ''fn'', ''recall''}"
  shows "py_gt (PyInt 0) v = Inr False"
proof -
  let ?c = "count_errors ps"
  have v: "v = ratio_or_none (ec_fp ?c) (ec_normal ?c)" using assms(1,3) by (simp add: counts_document_def py_get_def fpr_of_def)
  then have "ec_normal ?c \<noteq> 0" using assms(2) by (auto simp: ratio_or_none_def)
  with count_errors_bounds [of ps] ratio_bounds [of "ec_fp ?c" "ec_normal ?c"] show ?thesis
    by (simp add: v ratio_or_none_def not_negative)
qed

lemma scenario_fpr:
  assumes "py_item (scenario_metrics source prediction) name = Inr batch"
    and "py_getE batch ''false_positive_rate'' = Inr v" and "v \<noteq> PyNone"
  shows "py_gt (PyInt 0) v = Inr False"
proof -
  have "batch \<in> range (\<lambda>s. counts_document ''normal_rows'' ''controlled_anomaly_rows'' ''false_positive_rate''
         (count_errors (pairs_where (\<lambda>i. scenario_at source i = s) source prediction)))"
    using assms(1) by (auto simp: scenario_metrics_def lookupE_def map_of_map_restrict restrict_map_def split: option.splits if_splits)
  then obtain ps where "batch = counts_document ''normal_rows'' ''controlled_anomaly_rows'' ''false_positive_rate'' (count_errors ps)"
    by blast
  with counted_fpr [of "''normal_rows''" "''controlled_anomaly_rows''" "''false_positive_rate''" ps v] assms(2,3)
  show ?thesis by simp
qed

section \<open>An approving verdict\<close>

lemma evaluated:
  assumes "evaluate_test env source runtime = Inr (result, table)"
  obtains m p t prediction where "py_item result ''metrics'' = Inr m"
    "py_item result ''by_scenario'' = Inr (scenario_metrics source prediction)"
    "calculate_metrics (je_lib (tv_judge env)) (op_y source) p t = Inr m"
proof -
  from assms obtain m p t where "py_item result ''metrics'' = Inr m"
    "py_item result ''by_scenario'' = Inr (scenario_metrics source (decide t p))"
    "calculate_metrics (je_lib (tv_judge env)) (op_y source) p t = Inr m"
    by (auto simp: evaluate_test_def Let_def bindE_Inr_iff lookupE_def)
  then show ?thesis using that by blast
qed

lemma policy_limits:
  assumes "py_item result ''metrics'' = Inr m" and "py_item result ''by_scenario'' = Inr (scenario_metrics source prediction)"
    and "calculate_metrics lib y p t = Inr m" and "sound_scores lib" and "rejection_reasons result criteria = Inr []"
  shows "\<exists>fpr l1 b bfpr l2 recall l3.
     py_item m ''false_positive_rate'' = Inr fpr \<and> py_item criteria ''max_false_positive_rate'' = Inr l1 \<and>
     py_item (scenario_metrics source prediction) ''normal_batched_chat'' = Inr b \<and> py_item b ''false_positive_rate'' = Inr bfpr \<and>
     py_item criteria ''max_normal_batched_false_positive_rate'' = Inr l2 \<and> py_item m ''recall'' = Inr recall \<and>
     py_item criteria ''min_recall'' = Inr l3 \<and>
     check_limit (fpr, l1, True) = Inr () \<and> check_limit (bfpr, l2, True) = Inr () \<and> check_limit (recall, l3, False) = Inr ()"
proof -
  let ?sc = "scenario_metrics source prediction"
  obtain d where d: "?sc = PyDict d" by (simp add: scenario_metrics_def)
  let ?b = "case map_of d ''normal_batched_chat'' of None \<Rightarrow> PyDict [] | Some b \<Rightarrow> b"
  from assms(5) obtain rows where rows: "policy_rows result criteria = Inr rows" "list_all (\<lambda>row. limit_reason row = Inr []) rows"
    by (auto simp: rejection_reasons_Nil)
  from rows(1) obtain fpr l1 bfpr l2 recall l3 where
    g: "py_getE m ''false_positive_rate'' = Inr fpr" "py_getE ?b ''false_positive_rate'' = Inr bfpr" "py_getE m ''recall'' = Inr recall" and
    l: "py_item criteria ''max_false_positive_rate'' = Inr l1" "py_item criteria ''max_normal_batched_false_positive_rate'' = Inr l2"
      "py_item criteria ''min_recall'' = Inr l3" and
    r: "rows = [(''FPR'', fpr, l1, True), (''batched FPR'', bfpr, l2, True), (''recall'', recall, l3, False)]"
    unfolding policy_rows_def assms(1,2) d by (auto simp: bindE_Inr_iff)
  obtain x z where m: "fpr = PyFloat x" "\<not> flt x (Fin 0)" "recall = PyFloat z" "\<not> flt z (Fin 0)"
    using metric_values [OF assms(3,4)] g by (metis sum.inject(2))
  have reasons: "limit_reason (''FPR'', fpr, l1, True) = Inr []" "limit_reason (''batched FPR'', bfpr, l2, True) = Inr []"
    "limit_reason (''recall'', recall, l3, False) = Inr []" using rows(2) by (simp_all add: r)
  then have present: "bfpr \<noteq> PyNone" by (auto simp: limit_reason_def)
  then obtain b where b: "map_of d ''normal_batched_chat'' = Some b"
    using g(2) by (auto simp: py_get_def split: option.splits)
  then have item: "py_item ?sc ''normal_batched_chat'' = Inr b" and bfpr: "py_getE b ''false_positive_rate'' = Inr bfpr"
    using g(2) by (simp_all add: d lookupE_def)
  note batched = scenario_fpr [OF item bfpr present]
  have "check_limit (fpr, l1, True) = Inr ()" "check_limit (recall, l3, False) = Inr ()" "check_limit (bfpr, l2, True) = Inr ()"
    using limit_from_reason [OF reasons(1)] limit_from_reason [OF reasons(3)] limit_from_reason [OF reasons(2) batched]
    by (simp_all add: m not_negative)
  moreover have "py_item m ''false_positive_rate'' = Inr fpr" "py_item m ''recall'' = Inr recall"
    using py_getE_item [OF g(1)] py_getE_item [OF g(3)] m by simp_all
  ultimately show ?thesis using l item py_getE_item [OF bfpr present] by blast
qed

lemma cost_limits:
  assumes "cost_rejections cost criteria = Inr []"
  shows "\<exists>p95 l4 rss mib l5. py_item cost ''single_request_worst_process_p95_ms'' = Inr p95 \<and>
     py_item criteria ''max_single_request_p95_ms'' = Inr l4 \<and>
     py_item cost ''maximum_native_process_peak_rss_bytes'' = Inr rss \<and>
     py_item criteria ''max_process_peak_rss_mib'' = Inr mib \<and> py_mul_int mib (1024 ^ 2) = Inr l5 \<and>
     check_limit (p95, l4, True) = Inr () \<and> check_limit (rss, l5, True) = Inr ()"
proof -
  from assms obtain rows rs where rows: "cost_rows criteria = Inr rows" "mapE (cost_reason cost) rows = Inr rs" "concat rs = []"
    by (auto simp: cost_rejections_def bindE_Inr_iff)
  then have nil: "cost_reason cost row = Inr []" if "row \<in> set rows" for row
    using that by (auto simp: mapE_Inr_iff list_all2_conv_all_nth in_set_conv_nth [of row])
  from rows(1) obtain l4 mib l5 l6 where
    l: "py_item criteria ''max_single_request_p95_ms'' = Inr l4" "py_item criteria ''max_process_peak_rss_mib'' = Inr mib"
      "py_mul_int mib (1024 ^ 2) = Inr l5" and
    r: "rows = [(''single_request_worst_process_p95_ms'', l4, ''p95''), (''maximum_native_process_peak_rss_bytes'', l5, ''peak RSS''),
       (''required_model_files_bytes'', l6, ''file size'')]"
    by (auto simp: cost_rows_def bindE_Inr_iff simp del: power_numeral)
  have "cost_reason cost (''single_request_worst_process_p95_ms'', l4, ''p95'') = Inr []"
    "cost_reason cost (''maximum_native_process_peak_rss_bytes'', l5, ''peak RSS'') = Inr []" using nil by (simp_all add: r)
  from limit_from_cost [OF this(1)] limit_from_cost [OF this(2)] l show ?thesis by blast
qed

lemma judged_facts:
  assumes "judge_test env plan protected r s = Inr j" and "jd_reasons j = []"
  obtains test table criteria cost where "evaluate_test env test (tp_runtime plan) = Inr (jd_result j, table)"
    "py_item (tp_gate plan) ''criteria'' = Inr criteria" "py_item (tp_gate plan) ''cost_summary'' = Inr cost"
    "rejection_reasons (jd_result j) criteria = Inr []" "cost_rejections cost criteria = Inr []"
  using assms by (cases r) (auto simp: judge_test_def Let_def bindE_Inr_iff split: prod.splits)

text \<open>
  C3: The approval of the test stage is the one that serving relies on. When a judged test has no
  reason against it, the verdict that is written has the approved status, and the limits that the
  bundle loader of the API reads out of it - the two false positive rates, the recall, the latency
  and the memory of the measured cost, against the locked criteria - are all present, finite, not
  negative and kept, so that the check of the loader cannot refuse them.
\<close>
theorem approved_verdict_within_limits:
  assumes "judge_test env plan protected r s = Inr j" and "jd_reasons j = []"
    and "verdict_document (tv_files env) plan j = Inr v" and "sound_scores (je_lib (tv_judge env))"
  shows "py_item v ''status'' = Inr (PyStr APPROVED) \<and>
    (\<exists>criteria rows. py_item v ''criteria'' = Inr criteria \<and> py_item (tp_gate plan) ''criteria'' = Inr criteria \<and>
       limit_rows v criteria = Inr rows \<and> length rows = 5 \<and> forE check_limit rows = Inr ())"
proof -
  obtain test table criteria cost where j: "evaluate_test env test (tp_runtime plan) = Inr (jd_result j, table)"
    "py_item (tp_gate plan) ''criteria'' = Inr criteria" "py_item (tp_gate plan) ''cost_summary'' = Inr cost"
    "rejection_reasons (jd_result j) criteria = Inr []" "cost_rejections cost criteria = Inr []"
    using judged_facts [OF assms(1,2)] .
  obtain m p t prediction where e: "py_item (jd_result j) ''metrics'' = Inr m"
    "py_item (jd_result j) ''by_scenario'' = Inr (scenario_metrics test prediction)"
    "calculate_metrics (je_lib (tv_judge env)) (op_y test) p t = Inr m"
    using evaluated [OF j(1)] .
  from assms(3) e j have v: "py_item v ''status'' = Inr (PyStr APPROVED)" "py_item v ''criteria'' = Inr criteria"
    "py_item v ''metrics'' = Inr m" "py_item v ''by_scenario'' = Inr (scenario_metrics test prediction)"
    "py_item v ''cost_summary'' = Inr cost"
    by (auto simp: verdict_document_def Let_def bindE_Inr_iff lookupE_def assms(2) approval_status_def)
  from policy_limits [OF e assms(4) j(4)] cost_limits [OF j(5)] v j(2) show ?thesis
    by (auto simp: limit_rows_def bindE_Inr_iff simp del: power_numeral)
qed

section \<open>A locked candidate\<close>

lemma json_at_document: "s p = Some (Document v) \<Longrightarrow> json_at env s p = Inr v \<and> file_sha env s p = Inr (fv_sha env (Document v))"
  by (simp add: json_at_def file_sha_def read_stored_def)

text \<open>What the gate holds.\<close>

lemma gate_items:
  assumes "lock_candidate env plan descriptor chosen summary protected s = Inr gate"
  obtains expected signature where
    "expected_test_hashes (ce_files env) (kc_dataset_dir (kp_config plan)) s = Inr expected"
    "signature_of (tv_cost (ce_test env)) descriptor gate expected = Inr signature"
    "py_item gate ''expected_test_sha256'' = Inr expected" "py_item gate ''policy_signature'' = Inr (PyStr signature)"
    "py_item gate ''criteria'' = Inr (kp_criteria plan)" "py_item gate ''selected_trial'' = Inr chosen"
    "py_item gate ''cost_summary'' = Inr summary" "py_item gate ''descriptor'' = Inr descriptor"
    "isl (py_item gate ''selected_model_id'') = False"
    "rejectE (ValueError ''gate'') (gate_refusals gate) = Inr ()"
  using assms by (auto simp: lock_candidate_def Let_def bindE_Inr_iff lookupE_def signature_of_def gate_refusals_def
      rejectE_Inr_iff item_ne_def item_is_not_def)

text \<open>
  C14: The cost stage and the test stage agree on what may be tested. When a reason speaks against
  the measured candidate nothing is written; otherwise the gate that is written holds the policy
  signature that the test stage recomputes, meets the criteria that it checks again, and an unused
  test set can be reserved under it.
\<close>
theorem locked_candidate_accepted:
  assumes "cost_reasons chosen summary (kp_criteria plan) = Inr reasons"
    and "lock_when_accepted env plan descriptor chosen summary reasons protected s = (Inr (h, protected'), s')"
  shows "if reasons \<noteq> [] then s' = s \<and> h = PyNone \<and> protected' = protected
    else \<exists>gate gate_hash expected signature.
      h = PyStr gate_hash \<and> s' = s(cost_gate_path (kp_config plan) \<mapsto> Document gate) \<and>
      expected_test_hashes (ce_files env) (kc_dataset_dir (kp_config plan)) s = Inr expected \<and>
      signature_of (tv_cost (ce_test env)) descriptor gate expected = Inr signature \<and>
      py_item gate ''policy_signature'' = Inr (PyStr signature) \<and>
      check_criteria gate = Inr () \<and>
      (\<forall>registry. s' (receipt_path (ce_files env) registry expected) = None \<longrightarrow>
         fst (reserve_holdout (ce_files env) registry (cost_gate_path (kp_config plan)) gate_hash s') =
           Inr (receipt_path (ce_files env) registry expected, False))"
proof (cases "reasons = []")
  case False
  with assms(2) show ?thesis by (simp add: lock_when_accepted_def Let_def retS_def)
next
  case True
  let ?fe = "ce_files env" and ?p = "cost_gate_path (kp_config plan)"
  from assms(2) True obtain gate where gate: "lock_candidate env plan descriptor chosen summary protected s = Inr gate" and
    s': "s' = s(?p \<mapsto> Document gate)" and h: "h = PyStr (fv_sha ?fe (Document gate))"
    by (auto simp: lock_when_accepted_def Let_def bindS_Inr_iff reading_def write_new_def retS_def file_sha_def read_stored_def
        split: if_splits)
  from gate_items [OF gate] obtain expected signature where i:
    "expected_test_hashes ?fe (kc_dataset_dir (kp_config plan)) s = Inr expected"
    "signature_of (tv_cost (ce_test env)) descriptor gate expected = Inr signature"
    "py_item gate ''expected_test_sha256'' = Inr expected" "py_item gate ''policy_signature'' = Inr (PyStr signature)"
    "py_item gate ''criteria'' = Inr (kp_criteria plan)" "py_item gate ''selected_trial'' = Inr chosen"
    "py_item gate ''cost_summary'' = Inr summary" "isl (py_item gate ''selected_model_id'') = False"
    "rejectE (ValueError ''gate'') (gate_refusals gate) = Inr ()" by metis
  from assms(1) True have "rejection_reasons chosen (kp_criteria plan) = Inr []" "cost_rejections summary (kp_criteria plan) = Inr []"
    by (auto simp: cost_reasons_def bindE_Inr_iff)
  then have criteria: "check_criteria gate = Inr ()" by (simp add: check_criteria_def i check_def)
  have read: "read_gate ?fe ?p (fv_sha ?fe (Document gate)) s' = Inr gate"
    using json_at_document [of s' ?p gate ?fe] by (simp add: read_gate_def s' check_def)
  from i(8) obtain model where "py_item gate ''selected_model_id'' = Inr model" by (cases "py_item gate ''selected_model_id''") auto
  then have fields: "mapE (py_item gate) policy_fields = Inr [expected, PyStr signature, model]"
    by (simp add: policy_fields_def i)
  have "fst (reserve_holdout ?fe registry ?p (fv_sha ?fe (Document gate)) s') = Inr (receipt_path ?fe registry expected, False)"
    if "s' (receipt_path ?fe registry expected) = None" for registry
    using that by (simp add: reserve_holdout_def bindS_reading bindS_lift read i(3,9) fields take_receipt_def write_new_def)
  with True h s' i(1,2,4) criteria show ?thesis by (metis (no_types, lifting))
qed

end
