(* ===== verification/Holdout_Proofs.thy ===== *)
theory Holdout_Proofs
  imports Holdout Sequences_Proofs
begin

text \<open>
  A reserved test set stays with one policy through every history of attempts; a test split is only
  built from the files the gate locked; the windows of the final evaluation are those of the
  training windows.
\<close>

section \<open>Histories of the registry\<close>

datatype holdout_event =
    Reserved py path bool
  | Refused exn
  | Elsewhere

text \<open>
  Attempts to reserve, at any time and with any gate, between which the rest of the file system
  changes freely.
\<close>

inductive attempts :: "file_env \<Rightarrow> path \<Rightarrow> store \<Rightarrow> holdout_event list \<Rightarrow> store \<Rightarrow> bool"
  for env :: file_env and registry :: path and s0 :: store where
  start: "attempts env registry s0 [] s0"
| reserved: "attempts env registry s0 es s \<Longrightarrow> read_gate env gate_path gate_hash s = Inr gate \<Longrightarrow>
    reserve_holdout (env\<lparr>fv_now := now\<rparr>) registry gate_path gate_hash s = (Inr (p, used), s') \<Longrightarrow>
    attempts env registry s0 (es @ [Reserved gate p used]) s'"
| refused: "attempts env registry s0 es s \<Longrightarrow>
    reserve_holdout (env\<lparr>fv_now := now\<rparr>) registry gate_path gate_hash s = (Inl e, s') \<Longrightarrow>
    attempts env registry s0 (es @ [Refused e]) s'"
| elsewhere: "attempts env registry s0 es s \<Longrightarrow> (\<And>n. s' (in_dir registry n) = s (in_dir registry n)) \<Longrightarrow>
    attempts env registry s0 (es @ [Elsewhere]) s'"

definition agrees :: "py \<Rightarrow> py \<Rightarrow> string \<Rightarrow> bool" where
  "agrees receipt gate k \<longleftrightarrow> (\<exists>x y. py_item receipt k = Inr x \<and> py_item gate k = Inr y \<and> (x = y \<or> py_eq x y))"

lemma at_any_time [simp]:
  "read_stored (env\<lparr>fv_now := t\<rparr>) = read_stored env" "json_at (env\<lparr>fv_now := t\<rparr>) = json_at env"
  "read_gate (env\<lparr>fv_now := t\<rparr>) = read_gate env" "receipt_path (env\<lparr>fv_now := t\<rparr>) = receipt_path env"
proof -
  have stored: "read_stored (env\<lparr>fv_now := t\<rparr>) = read_stored env"
    by (simp add: fun_eq_iff read_stored_def split: option.split)
  then have json: "json_at (env\<lparr>fv_now := t\<rparr>) = json_at env"
    by (simp add: fun_eq_iff json_at_def bindE_def split: sum.split stored.split)
  show "read_stored (env\<lparr>fv_now := t\<rparr>) = read_stored env" "json_at (env\<lparr>fv_now := t\<rparr>) = json_at env"
    by (fact stored, fact json)
  have "stored_text (env\<lparr>fv_now := t\<rparr>) f = stored_text env f" for f by (cases f) simp_all
  then have "fv_sha (env\<lparr>fv_now := t\<rparr>) = fv_sha env" by (simp add: fun_eq_iff fv_sha_def)
  then show "read_gate (env\<lparr>fv_now := t\<rparr>) = read_gate env"
    by (simp add: fun_eq_iff read_gate_def file_sha_def stored json)
  show "receipt_path (env\<lparr>fv_now := t\<rparr>) = receipt_path env" by (simp add: fun_eq_iff receipt_path_def)
qed

lemma json_at_exists: "json_at env s p = Inr v \<Longrightarrow> s p \<noteq> None"
  by (cases "s p") (simp_all add: json_at_def read_stored_def)

lemma receipt_item:
  assumes "mapE (py_item gate) policy_fields = Inr values" and "k \<in> set policy_fields"
  shows "agrees (receipt_document env gp gh values) gate k"
proof -
  from assms(1) obtain a b c where v: "values = [a, b, c]" "py_item gate ''expected_test_sha256'' = Inr a"
    "py_item gate ''policy_signature'' = Inr b" "py_item gate ''selected_model_id'' = Inr c"
    by (auto simp: policy_fields_def bindE_Inr_iff)
  from assms(2) consider "k = ''expected_test_sha256''" | "k = ''policy_signature''" | "k = ''selected_model_id''"
    by (auto simp: policy_fields_def)
  then show ?thesis by cases (simp_all add: agrees_def receipt_document_def policy_fields_def v)
qed

lemma existing_agrees:
  assumes "mapE (py_item gate) policy_fields = Inr values"
    and "rejectE e (map (\<lambda>(k, v). item_ne existing k v) (zip policy_fields values)) = Inr u"
    and "k \<in> set policy_fields"
  shows "agrees existing gate k"
proof -
  from assms(1) obtain a b c where v: "values = [a, b, c]" "py_item gate ''expected_test_sha256'' = Inr a"
    "py_item gate ''policy_signature'' = Inr b" "py_item gate ''selected_model_id'' = Inr c"
    by (auto simp: policy_fields_def bindE_Inr_iff)
  from assms(2,3) show ?thesis
    by (auto simp: rejectE_Inr_iff policy_fields_def v item_ne_def bindE_Inr_iff agrees_def)
qed

text \<open>One attempt: what it may change, and what a success means.\<close>

lemma reserve_outcome:
  assumes "reserve_holdout env registry gp gh s = (r, s')"
  shows "(s' = s \<or> (\<exists>p v. s p = None \<and> s' = s(p \<mapsto> v))) \<and>
    (\<forall>p used. r = Inr (p, used) \<longrightarrow> (\<exists>gate n receipt. read_gate env gp gh s = Inr gate \<and> p = in_dir registry n \<and>
       (used \<longleftrightarrow> s p \<noteq> None) \<and> json_at env s' p = Inr receipt \<and> list_all (agrees receipt gate) policy_fields))"
proof (cases "\<exists>gate expected values. read_gate env gp gh s = Inr gate \<and> rejectE (ValueError ''gate'') (gate_refusals gate) = Inr () \<and>
    py_item gate ''expected_test_sha256'' = Inr expected \<and> mapE (py_item gate) policy_fields = Inr values")
  case True
  then obtain gate expected "values" where g: "read_gate env gp gh s = Inr gate"
    "rejectE (ValueError ''gate'') (gate_refusals gate) = Inr ()" "py_item gate ''expected_test_sha256'' = Inr expected"
    "mapE (py_item gate) policy_fields = Inr values" by blast
  let ?p = "receipt_path env registry expected"
  have p: "?p = in_dir registry (fv_key env expected @ ''.json'')" by (simp add: receipt_path_def)
  have run: "take_receipt env gp gh ?p values s = (r, s')"
    using assms by (simp add: reserve_holdout_def bindS_reading bindS_lift g)
  show ?thesis
  proof (cases "s ?p")
    case None
    then have r: "r = Inr (?p, False)" "s' = s(?p \<mapsto> Document (receipt_document env gp gh values))"
      using run by (simp_all add: take_receipt_def write_new_def)
    have "json_at env s' ?p = Inr (receipt_document env gp gh values)" by (simp add: r json_at_def read_stored_def)
    moreover have "list_all (agrees (receipt_document env gp gh values) gate) policy_fields"
      using receipt_item [OF g(4)] by (simp add: list_all_iff)
    ultimately show ?thesis using None p g(1) r by auto
  next
    case (Some f)
    then have r: "s' = s" "r = bindE (json_at env s ?p) (\<lambda>existing. bindE (rejectE (ValueError ''reserved for another policy'')
           (map (\<lambda>(k, v). item_ne existing k v) (zip policy_fields values))) (\<lambda>_. Inr (?p, True)))"
      using run by (auto simp: take_receipt_def write_new_def bindS_reading bindS_lift bindE_def retS_def split: sum.splits)
    show ?thesis
    proof (cases r)
      case (Inr x)
      then have "bindE (json_at env s ?p) (\<lambda>existing. bindE (rejectE (ValueError ''reserved for another policy'')
           (map (\<lambda>(k, v). item_ne existing k v) (zip policy_fields values))) (\<lambda>_. Inr (?p, True))) = Inr x"
        using r(2) by simp
      then obtain existing where e: "json_at env s ?p = Inr existing" "x = (?p, True)"
        "rejectE (ValueError ''reserved for another policy'') (map (\<lambda>(k, v). item_ne existing k v) (zip policy_fields values)) = Inr ()"
        by (auto simp: bindE_Inr_iff)
      have "list_all (agrees existing gate) policy_fields" using existing_agrees [OF g(4) e(3)] by (simp add: list_all_iff)
      with Some p g(1) r(1) Inr e show ?thesis by auto
    qed (simp add: r(1))
  qed
next
  case False
  then have "s' = s \<and> isl r"
    using assms by (auto simp: reserve_holdout_def bindS_reading bindS_lift split: sum.splits)
  then show ?thesis by (cases r) auto
qed

definition receipt_kept :: "file_env \<Rightarrow> path \<Rightarrow> store \<Rightarrow> holdout_event \<Rightarrow> bool" where
  "receipt_kept env registry s e \<longleftrightarrow> (case e of Reserved gate p used \<Rightarrow>
     \<exists>n receipt. p = in_dir registry n \<and> json_at env s p = Inr receipt \<and> list_all (agrees receipt gate) policy_fields
   | _ \<Rightarrow> True)"

lemma receipt_kept_mono:
  assumes "receipt_kept env registry s e" and "\<And>n. s (in_dir registry n) \<noteq> None \<Longrightarrow> s' (in_dir registry n) = s (in_dir registry n)"
  shows "receipt_kept env registry s' e"
proof (cases e)
  case (Reserved gate p used)
  with assms(1) obtain n receipt where n: "p = in_dir registry n" "json_at env s p = Inr receipt" "list_all (agrees receipt gate) policy_fields"
    by (auto simp: receipt_kept_def)
  from n(2) have "s p \<noteq> None" by (rule json_at_exists)
  with assms(2) n(1) have "json_at env s' p = json_at env s p" by (simp add: json_at_def read_stored_def)
  with n Reserved show ?thesis by (auto simp: receipt_kept_def)
qed (simp_all add: receipt_kept_def)

text \<open>A grant of a path granted before is marked.\<close>

definition marked_after :: "holdout_event \<Rightarrow> holdout_event \<Rightarrow> bool" where
  "marked_after e e' \<longleftrightarrow> (\<forall>g p u g' u'. e = Reserved g p u \<longrightarrow> e' = Reserved g' p u' \<longrightarrow> u')"

lemma attempts_invariant:
  "attempts env registry s0 es s \<Longrightarrow> list_all (receipt_kept env registry s) es \<and> sorted_wrt marked_after es"
proof (induction rule: attempts.induct)
  case start
  then show ?case by simp
next
  case (reserved es s gp gh gate now p used s')
  from reserve_outcome [OF reserved.hyps(3)] reserved.hyps(2) obtain n receipt where
    change: "s' = s \<or> (\<exists>q v. s q = None \<and> s' = s(q \<mapsto> v))" and
    p: "p = in_dir registry n" "used \<longleftrightarrow> s p \<noteq> None" "json_at env s' p = Inr receipt" "list_all (agrees receipt gate) policy_fields"
    by auto
  have kept: "receipt_kept env registry s' e" if "receipt_kept env registry s e" for e
    by (rule receipt_kept_mono [OF that]) (use change in auto)
  have old: "used" if "Reserved g p u \<in> set es" for g u
  proof -
    from that reserved.IH have "receipt_kept env registry s (Reserved g p u)" by (auto simp: list_all_iff)
    then have "s p \<noteq> None" by (auto simp: receipt_kept_def dest: json_at_exists)
    with p(2) show ?thesis by simp
  qed
  have "receipt_kept env registry s' (Reserved gate p used)" using p by (auto simp: receipt_kept_def)
  with kept old reserved.IH show ?case by (auto simp: list_all_iff sorted_wrt_append marked_after_def)
next
  case (refused es s now gp gh e s')
  from reserve_outcome [OF refused.hyps(2)] have change: "s' = s \<or> (\<exists>q v. s q = None \<and> s' = s(q \<mapsto> v))" by blast
  have kept: "receipt_kept env registry s' e" if "receipt_kept env registry s e" for e
    by (rule receipt_kept_mono [OF that]) (use change in auto)
  then show ?case using refused.IH by (auto simp: list_all_iff sorted_wrt_append receipt_kept_def marked_after_def)
next
  case (elsewhere es s s')
  have kept: "receipt_kept env registry s' e" if "receipt_kept env registry s e" for e
    by (rule receipt_kept_mono [OF that]) (use elsewhere.hyps in simp)
  then show ?case using elsewhere.IH by (auto simp: list_all_iff sorted_wrt_append receipt_kept_def marked_after_def)
qed

text \<open>
  C4: A reserved test set belongs to one policy for good. In every history of attempts each receipt
  granted is still in the registry at the end and agrees with the gate of every attempt that was
  granted it, in the expected test files, the policy signature and the model; and every grant after
  the first is marked as a repetition.
\<close>
theorem holdout_single_policy:
  assumes "attempts env registry s0 es s"
  shows "(\<forall>gate p used. Reserved gate p used \<in> set es \<longrightarrow>
      (\<exists>receipt. json_at env s p = Inr receipt \<and> list_all (agrees receipt gate) policy_fields)) \<and>
    (\<forall>i j g g' p u u'. i < j \<longrightarrow> j < length es \<longrightarrow> es ! i = Reserved g p u \<longrightarrow> es ! j = Reserved g' p u' \<longrightarrow> u')"
proof -
  from attempts_invariant [OF assms] have kept: "list_all (receipt_kept env registry s) es" and
    marked: "\<forall>i j. i < j \<longrightarrow> j < length es \<longrightarrow> marked_after (es ! i) (es ! j)"
    by (auto simp: sorted_wrt_iff_nth_less)
  show ?thesis
  proof (intro conjI allI impI)
    fix gate p used assume "Reserved gate p used \<in> set es"
    with kept have "receipt_kept env registry s (Reserved gate p used)" by (simp add: list_all_iff)
    then show "\<exists>receipt. json_at env s p = Inr receipt \<and> list_all (agrees receipt gate) policy_fields"
      by (auto simp: receipt_kept_def)
  next
    fix i j g g' p u u'
    assume "i < j" "j < length es" "es ! i = Reserved g p u" "es ! j = Reserved g' p u'"
    with marked show "u'" by (metis marked_after_def)
  qed
qed

section \<open>The loaded test\<close>

lemma test_row_Inr:
  "test_row env schema raw metadata p = Inr f \<longleftrightarrow> test_features env schema raw (fst p) = Inr f \<and>
     fingerprint (le_repr env) (le_sha env) f = cell metadata ''feature_hash'' (snd p) \<and>
     bindE (py_item (le_contract env) ''application_header_size_bytes'') int_item =
       Inr (mf_packet_size f - mf_payload_size f)"
  by (auto simp: test_row_def bindE_Inr_iff)

lemma check_test_tables_Inr:
  "check_test_tables manifest raw targets metadata = Inr u \<Longrightarrow>
     length (fr_rows raw) = length (fr_rows targets) \<and> length (fr_rows targets) = length (fr_rows metadata) \<and>
     set (col targets ''label'') = {''0'', ''1''} \<and> set (col metadata ''split'') = {''test''} \<and>
     distinct (col metadata ''row_id'') \<and> distinct (cols metadata (GROUP_COLUMNS @ [''request_index'']))"
  unfolding check_test_tables_def bindE_Inr_iff check_Inr_iff by blast

lemma check_apart_Inr:
  "check_apart data metadata = Inr u \<Longrightarrow> names \<in> set identity_columns \<Longrightarrow>
     set (cols metadata names) \<inter> (set (cols (op_meta (od_train data)) names) \<union> set (cols (op_meta (od_validation data)) names)) = {}"
  by (auto simp: check_apart_def identity_columns_def bindE_Inr_iff leak_iff)

text \<open>What is promised of a test split.\<close>

definition test_loaded :: "load_env \<Rightarrow> op_data \<Rightarrow> op_split \<Rightarrow> bool" where
  "test_loaded env data d \<longleftrightarrow>
     set (op_y d) = {0, 1} \<and> length (op_X d) = length (op_y d) \<and> length (op_X d) = length (fr_rows (op_meta d)) \<and>
     (\<exists>fs. op_X d = map feature_row fs \<and> map (fingerprint (le_repr env) (le_sha env)) fs = col (op_meta d) ''feature_hash'') \<and>
     set (col (op_meta d) ''split'') = {''test''} \<and> distinct (col (op_meta d) ''row_id'') \<and>
     (\<forall>names\<in>set identity_columns. set (cols (op_meta d) names) \<inter>
        (set (cols (op_meta (od_train data)) names) \<union> set (cols (op_meta (od_validation data)) names)) = {})"

lemma make_test_split_loaded:
  assumes "make_test_split env data manifest assignments raw targets metadata = Inr d"
  shows "test_loaded env data d"
proof -
  from assms obtain fs where t: "check_test_tables manifest raw targets metadata = Inr ()" and
    fs: "list_all2 (\<lambda>p f. test_row env (od_schema data) raw metadata p = Inr f) (zip (fr_rows raw) (fr_rows metadata)) fs" and
    apart: "check_apart data metadata = Inr ()" and
    d: "d = \<lparr>op_columns = MESSAGE_FEATURE_ORDER, op_X = map feature_row fs,
       op_y = map (\<lambda>l. if l = ''1'' then 1 else 0) (col targets ''label''), op_meta = metadata\<rparr>"
    by (auto simp: make_test_split_def bindE_Inr_iff mapE_Inr_iff)
  note shape = check_test_tables_Inr [OF t]
  have n: "length fs = length (fr_rows metadata)" using list_all2_lengthD [OF fs] shape by simp
  have "test_row env (od_schema data) raw metadata (fr_rows raw ! i, fr_rows metadata ! i) = Inr (fs ! i)"
    if "i < length fs" for i
    using list_all2_nthD2 [OF fs that] that n shape by simp
  then have "map (fingerprint (le_repr env) (le_sha env)) fs = col metadata ''feature_hash''"
    using n by (intro nth_equalityI) (simp_all add: col_def test_row_Inr)
  moreover have "set (op_y d) = (\<lambda>l. if l = ''1'' then 1 else 0) ` set (col targets ''label'')" by (simp add: d)
  then have "set (op_y d) = {0, 1}" using shape by auto
  ultimately show ?thesis using shape n check_apart_Inr [OF apart]
    by (auto simp: test_loaded_def d col_def)
qed

lemma read_test_table_Inr:
  assumes "read_test_table env s directory gate manifest (name, columns) = Inr (n, h, t)"
  shows "n = name \<and> (\<exists>f e. s (in_dir directory name) = Some f \<and> h = fv_sha env f \<and>
    path_items gate [''expected_test_sha256'', name] = Inr e \<and> py_eq (PyStr h) e)"
  using assms by (auto simp: read_test_table_def bindE_Inr_iff Let_def read_stored_def split: option.splits if_splits)

text \<open>
  C13: A test split is only built under a receipt that agrees with the locked gate and from the very
  files the gate locked: each of the three tables has the digest of the gate, every row matches its
  stored fingerprint, all of them belong to the test split, and no campaign, run, session or row of
  it occurs in the training or validation data.
\<close>
theorem loaded_test_sound:
  assumes "load_test env directory data gate_path gate_hash receipt s = Inr (d, evidence)"
  shows "\<exists>gate taken. read_gate env gate_path gate_hash s = Inr gate \<and> json_at env s receipt = Inr taken \<and>
    list_all (\<lambda>k. agrees taken gate k) policy_fields \<and>
    (\<forall>name\<in>set TEST_FILES. \<exists>f e. s (in_dir directory name) = Some f \<and> map_of evidence name = Some (fv_sha env f) \<and>
       path_items gate [''expected_test_sha256'', name] = Inr e \<and> py_eq (PyStr (fv_sha env f)) e) \<and>
    test_loaded (fv_load env) data d"
proof -
  let ?specs = "zip TEST_FILES [MESSAGE_FEATURE_ORDER, [''label''], METADATA_COLUMNS]"
  from assms obtain gate taken manifest tables assignments where
    g: "read_gate env gate_path gate_hash s = Inr gate" "json_at env s receipt = Inr taken"
      "rejectE (ValueError ''gate and receipt'') (receipt_refusals gate taken) = Inr ()" and
    t: "list_all2 (\<lambda>p x. read_test_table env s directory gate manifest p = Inr x) ?specs tables" and
    d: "make_test_split (fv_load env) data manifest assignments (map (\<lambda>(n, h, f). f) tables ! 0)
          (map (\<lambda>(n, h, f). f) tables ! 1) (map (\<lambda>(n, h, f). f) tables ! 2) = Inr d" and
    e: "evidence = map (\<lambda>(n, h, f). (n, h)) tables"
    by (auto simp: load_test_def bindE_Inr_iff mapE_Inr_iff Let_def)
  have "list_all (\<lambda>k. agrees taken gate k) policy_fields"
    using g(3) by (auto simp: rejectE_Inr_iff receipt_refusals_def policy_fields_def bindE_Inr_iff agrees_def)
  moreover from t obtain x y z where xyz: "tables = [x, y, z]"
    "read_test_table env s directory gate manifest (''X_test.csv'', MESSAGE_FEATURE_ORDER) = Inr x"
    "read_test_table env s directory gate manifest (''y_test.csv'', [''label'']) = Inr y"
    "read_test_table env s directory gate manifest (''metadata_test.csv'', METADATA_COLUMNS) = Inr z"
    by (auto simp: TEST_FILES_def list_all2_Cons1)
  obtain n1 h1 f1 n2 h2 f2 n3 h3 f3 where split: "x = (n1, h1, f1)" "y = (n2, h2, f2)" "z = (n3, h3, f3)"
    by (cases x, cases y, cases z)
  have "\<forall>name\<in>set TEST_FILES. \<exists>f e. s (in_dir directory name) = Some f \<and> map_of evidence name = Some (fv_sha env f) \<and>
       path_items gate [''expected_test_sha256'', name] = Inr e \<and> py_eq (PyStr (fv_sha env f)) e"
    using read_test_table_Inr [OF xyz(2) [unfolded split]] read_test_table_Inr [OF xyz(3) [unfolded split]]
      read_test_table_Inr [OF xyz(4) [unfolded split]]
    by (auto simp: TEST_FILES_def e xyz(1) split)
  ultimately show ?thesis using g make_test_split_loaded [OF d] by blast
qed

section \<open>Evaluation windows\<close>

lemma make_evaluation_windows_Inr:
  "make_evaluation_windows dumps source (PyInt k) dataset_id = Inr ws \<longleftrightarrow>
     1 \<le> k \<and> k \<le> 64 \<and> check_evaluation_source source = Inr () \<and>
     (\<exists>indices. request_indices (op_meta source) = Inr indices \<and>
        forE (check_session_order source indices) (sessions_of (op_meta source) indices) = Inr () \<and>
        ws = assemble_windows source (nat k) dataset_id
          (fill_arrays dumps source (nat k) (sessions_of (op_meta source) indices)))"
  by (auto simp: make_evaluation_windows_def bindE_Inr_iff Let_def)

text \<open>On tables with exactly the metadata columns the two constructions of windows agree.\<close>

lemma cells_all:
  assumes "distinct (fr_columns m)" and "length row = length (fr_columns m)"
  shows "map (\<lambda>n. cell m n row) (fr_columns m) = row"
  using assms by (intro nth_equalityI) (simp_all add: cell_def map_of_zip_nth)

lemma evaluation_windows_agree:
  assumes "make_windows env source width dataset_id = Inr ws" and "fr_columns (op_meta source) = METADATA_COLUMNS"
    and "list_all (\<lambda>r. length r = length METADATA_COLUMNS) (fr_rows (op_meta source))"
  shows "make_evaluation_windows (se_dumps env) source width dataset_id = Inr ws"
proof -
  from assms(1) obtain k groups where k: "width = PyInt k" "1 \<le> k" "k \<le> 64" "ordered_groups source = Inr groups"
    "ws = assemble_windows source (nat k) dataset_id (fill_arrays (se_dumps env) source (nat k) groups)"
    by (auto simp: make_windows_def bindE_Inr_iff Let_def split: py.splits if_splits)
  from k(4) obtain indices where o: "check_source source = Inr ()" "check_source_metadata (op_meta source) = Inr ()"
    "request_indices (op_meta source) = Inr indices"
    "forE (check_session_order source indices) (sessions_of (op_meta source) indices) = Inr ()"
    "groups = sessions_of (op_meta source) indices"
    by (auto simp: ordered_groups_def bindE_Inr_iff)
  have "distinct METADATA_COLUMNS" by (simp add: METADATA_COLUMNS_def)
  then have "cols (op_meta source) METADATA_COLUMNS = fr_rows (op_meta source)"
    using assms(2,3) cells_all [of "op_meta source"] by (simp add: cols_def list_all_iff map_idI)
  with o(1,2) assms(2) have "check_evaluation_source source = Inr ()"
    by (auto simp: check_evaluation_source_def check_source_metadata_def bindE_Inr_iff one_split_def Let_def)
  with k o show ?thesis by (simp add: make_evaluation_windows_Inr)
qed

text \<open>Freshly built windows pass their own check.\<close>

lemma evaluation_windows_accepted:
  assumes "make_evaluation_windows dumps source width dataset_id = Inr ws"
  shows "validate_evaluation_windows env dumps ws source width dataset_id = Inr ()"
proof -
  have "fr_columns (op_meta source) = METADATA_COLUMNS"
    using assms by (auto simp: make_evaluation_windows_def check_evaluation_source_def bindE_Inr_iff Let_def)
  moreover have "wd_columns ws = fr_columns (op_meta source) @ SEQUENCE_COLUMNS"
    using assms by (auto simp: make_evaluation_windows_def bindE_Inr_iff Let_def assemble_windows_def)
  ultimately show ?thesis by (simp add: validate_evaluation_windows_def assms check_def)
qed

end
