(* ===== verification/Holdout_Example.thy ===== *)
theory Holdout_Example
  imports Holdout_Proofs Policy_Compare Operational_Example
begin

text \<open>
  A concrete registry: a test set reserved twice under one gate, loaded under the receipt. The test
  tables have one message of each label, beside the train and validation data of the dataset example.
\<close>

definition hold_load :: load_env where
  "hold_load = demo_env\<lparr>le_csv := \<lambda>name.
     if name = ''X_test.csv'' then Inr X_frame else if name = ''y_test.csv'' then Inr y_frame
     else if name = ''metadata_test.csv'' then Inr (meta_frame ''test'' ''r5'' ''r6'') else demo_csv name\<rparr>"

definition hold_receipt_path :: path where "hold_receipt_path = Abs [''g'', ''k.json'']"

text \<open>The only path that is read from a text is that of the receipt.\<close>

definition hold_env :: file_env where
  "hold_env = \<lparr>fv_load = hold_load, fv_dumps = (\<lambda>_. ''doc''), fv_path = (\<lambda>_. hold_receipt_path), fv_text = (\<lambda>_. ''p''),
     fv_resolve = (\<lambda>p. p), fv_key = (\<lambda>_. ''k''), fv_now = ''t'', fv_notice = ''n''\<rparr>"

definition hold_criteria :: py where
  "hold_criteria = PyDict [(''max_false_positive_rate'', PyFloat (Fin (1 / 8))),
     (''max_normal_batched_false_positive_rate'', PyFloat (Fin (1 / 8))), (''min_recall'', PyFloat (Fin (1 / 2))),
     (''max_single_request_p95_ms'', PyFloat (Fin 25)), (''max_process_peak_rss_mib'', PyInt 512),
     (''max_deployment_artifacts_mib'', PyInt 50)]"

definition hold_cost :: py where
  "hold_cost = PyDict [(''single_request_worst_process_p95_ms'', PyFloat (Fin 9)),
     (''maximum_native_process_peak_rss_bytes'', PyInt 1000), (''required_model_files_bytes'', PyInt 5)]"

definition hold_gate :: py where
  "hold_gate = PyDict [(''status'', PyStr ''candidate_locked_before_test''), (''test_files_read'', PyBool False),
     (''expected_test_sha256'', PyDict (map (\<lambda>n. (n, PyStr n)) TEST_FILES)), (''policy_signature'', PyStr ''p''),
     (''selected_model_id'', PyStr ''m''), (''pre_test_protected_sha256'', PyDict []),
     (''criteria'', hold_criteria), (''cost_summary'', hold_cost)]"

definition hold_manifest :: py where
  "hold_manifest = PyDict [(''dataset_id'', PyStr ''d''), (''splits'', PyDict [(''test'', demo_part)]),
     (''output_files'', PyDict [demo_file_entry ''X_test.csv'' MESSAGE_FEATURE_ORDER, demo_file_entry ''y_test.csv'' [''label''],
        demo_file_entry ''metadata_test.csv'' METADATA_COLUMNS])]"

definition hold_assignments :: py where
  "hold_assignments = PyDict [(''runs'', PyList [demo_run_entry ''test'' ''r5'', demo_run_entry ''test'' ''r6''])]"

definition hold_dir :: path where "hold_dir = Abs [''d'']"
definition hold_registry :: path where "hold_registry = Abs [''g'']"
definition hold_gate_path :: path where "hold_gate_path = Abs [''candidate_lock.json'']"
definition hold_store :: store where
  "hold_store = map_of ([(hold_gate_path, Document hold_gate), (Abs [''d'', ''dataset_manifest.json''], Document hold_manifest),
     (Abs [''d'', ''split_manifest.json''], Document hold_assignments)] @
     map (\<lambda>n. (Abs [''d'', n], Content n)) TEST_FILES)"

definition hold_receipt :: py where
  "hold_receipt = receipt_document hold_env hold_gate_path ''doc'' [PyDict (map (\<lambda>n. (n, PyStr n)) TEST_FILES), PyStr ''p'', PyStr ''m'']"

definition hold_reserved :: store where
  "hold_reserved = hold_store(hold_receipt_path \<mapsto> Document hold_receipt)"

definition hold_data :: op_data where
  "hold_data = \<lparr>od_dataset_id = ''d'', od_schema = demo_schema, od_train = demo_split ''train'' ''r1'' ''r2'',
     od_validation = demo_split ''validation'' ''r3'' ''r4'', od_evidence = [(''dataset_manifest.json'', ''doc'')]\<rparr>"

section \<open>Reservation\<close>

lemma hold_stored:
  "hold_store hold_gate_path = Some (Document hold_gate)" "hold_store hold_receipt_path = None"
  "hold_reserved hold_gate_path = Some (Document hold_gate)" "hold_reserved hold_receipt_path = Some (Document hold_receipt)"
  by code_simp+

lemma hold_sha: "fv_sha hold_env (Document v) = ''doc''" "fv_sha hold_env (Content n) = n"
  by (simp_all add: fv_sha_def hold_env_def hold_load_def demo_env_def)

lemma hold_gate_read:
  "s hold_gate_path = Some (Document hold_gate) \<Longrightarrow> read_gate hold_env hold_gate_path ''doc'' s = Inr hold_gate"
  by (simp add: read_gate_def file_sha_def json_at_def read_stored_def hold_sha check_def)

lemma hold_gate_fields:
  "rejectE (ValueError ''gate'') (gate_refusals hold_gate) = Inr ()"
  "py_item hold_gate ''expected_test_sha256'' = Inr (PyDict (map (\<lambda>n. (n, PyStr n)) TEST_FILES))"
  "mapE (py_item hold_gate) policy_fields = Inr [PyDict (map (\<lambda>n. (n, PyStr n)) TEST_FILES), PyStr ''p'', PyStr ''m'']"
  by code_simp+

lemma hold_key: "receipt_path hold_env hold_registry e = hold_receipt_path"
  by (simp add: receipt_path_def hold_env_def in_dir_def hold_registry_def hold_receipt_path_def)

lemma hold_first: "reserve_holdout hold_env hold_registry hold_gate_path ''doc'' hold_store = (Inr (hold_receipt_path, False), hold_reserved)"
  by (simp add: reserve_holdout_def bindS_reading bindS_lift hold_gate_read hold_stored hold_gate_fields hold_key
      take_receipt_def write_new_def hold_reserved_def hold_receipt_def)

lemma hold_repeat_agrees:
  "rejectE (ValueError ''reserved for another policy'') (map (\<lambda>(k, v). item_ne hold_receipt k v)
     (zip policy_fields [PyDict (map (\<lambda>n. (n, PyStr n)) TEST_FILES), PyStr ''p'', PyStr ''m''])) = Inr ()"
  by code_simp

lemma hold_again: "reserve_holdout hold_env hold_registry hold_gate_path ''doc'' hold_reserved = (Inr (hold_receipt_path, True), hold_reserved)"
  by (simp add: reserve_holdout_def bindS_reading bindS_lift hold_gate_read hold_stored hold_gate_fields hold_key
      take_receipt_def write_new_def json_at_def read_stored_def hold_repeat_agrees retS_def)

lemma hold_same_time: "hold_env\<lparr>fv_now := fv_now hold_env\<rparr> = hold_env"
  by simp

lemma hold_history:
  "attempts hold_env hold_registry hold_store [Reserved hold_gate hold_receipt_path False, Reserved hold_gate hold_receipt_path True]
     hold_reserved"
proof -
  have "attempts hold_env hold_registry hold_store ([] @ [Reserved hold_gate hold_receipt_path False]) hold_reserved"
    by (rule attempts.reserved [OF attempts.start hold_gate_read [where s = hold_store, OF hold_stored(1)], where now = "fv_now hold_env"])
      (simp only: hold_same_time hold_first)
  from attempts.reserved [OF this hold_gate_read [where s = hold_reserved, OF hold_stored(3)], where now = "fv_now hold_env"]
  show ?thesis by (simp add: hold_same_time hold_again)
qed

lemma holdout_single_policy_witness:
  "\<exists>receipt. json_at hold_env hold_reserved hold_receipt_path = Inr receipt \<and> list_all (agrees receipt hold_gate) policy_fields"
  using holdout_single_policy [OF hold_history] by auto

section \<open>Loading\<close>

lemma hold_load_fields:
  "le_csv hold_load ''X_test.csv'' = Inr X_frame" "le_csv hold_load ''y_test.csv'' = Inr y_frame"
  "le_csv hold_load ''metadata_test.csv'' = Inr (meta_frame ''test'' ''r5'' ''r6'')"
  "le_repr hold_load = le_repr demo_env" "le_sha hold_load = le_sha demo_env" "le_contract hold_load = le_contract demo_env"
  by (simp_all add: hold_load_def)

lemma hold_table:
  assumes "(name, columns) \<in> {(''X_test.csv'', MESSAGE_FEATURE_ORDER), (''y_test.csv'', [''label'']), (''metadata_test.csv'', METADATA_COLUMNS)}"
    and "le_csv hold_load name = Inr f" and "fr_columns f = columns" and "fr_rows f = [r, q]" and "[] \<notin> set r \<union> set q"
  shows "read_test_table hold_env hold_reserved hold_dir hold_gate hold_manifest (name, columns) = Inr (name, name, f)"
proof -
  have stored: "hold_reserved (in_dir hold_dir name) = Some (Content name)"
    using assms(1) by (auto simp: hold_reserved_def hold_store_def in_dir_def hold_dir_def hold_receipt_path_def hold_gate_path_def TEST_FILES_def)
  have locked: "path_items hold_gate [''expected_test_sha256'', name] = Inr (PyStr name)"
    using assms(1) by (auto simp: hold_gate_def TEST_FILES_def lookupE_def)
  have entry: "path_items hold_manifest [''output_files'', name] =
      Inr (PyDict [(''sha256'', PyStr name), (''columns'', py_strs columns), (''rows'', PyInt 2)])"
    using assms(1) by (auto simp: hold_manifest_def demo_file_entry_def lookupE_def)
  have content: "stored_text hold_env (Content name) = name" "fv_load hold_env = hold_load" by (simp_all add: hold_env_def)
  show ?thesis
    using assms(2-5) by (simp add: read_test_table_def read_stored_def stored hold_sha locked entry content check_def rejectE_def item_ne_def lookupE_def
        del: path_items.simps)
qed

lemma hold_typed: "test_features hold_load demo_schema X_frame demo_cells = Inr demo_features"
  by code_simp

lemma hold_row:
  "test_row hold_load demo_schema X_frame (meta_frame s r q) (demo_cells, demo_meta t u) = Inr demo_features"
  unfolding test_row_Inr fst_conv snd_conv hold_typed hold_load_fields demo_typed demo_cell by (simp add: demo_features_def)

lemma hold_rows:
  "mapE (test_row hold_load demo_schema X_frame (meta_frame s r q)) (zip (fr_rows X_frame) (fr_rows (meta_frame s r q))) =
     Inr [demo_features, demo_features]"
  by (simp add: demo_columns hold_row)

lemma hold_tables_checked:
  "check_test_tables hold_manifest X_frame y_frame (meta_frame ''test'' ''r5'' ''r6'') = Inr ()"
  by code_simp

lemma hold_split_checked:
  "check_test_split hold_load hold_manifest hold_assignments y_frame (meta_frame ''test'' ''r5'' ''r6'') = Inr ()"
  by code_simp

lemma hold_apart:
  "check_apart hold_data (meta_frame ''test'' ''r5'' ''r6'') = Inr ()"
proof -
  have "list_all (\<lambda>names. \<not> leak (meta_frame ''test'' ''r5'' ''r6'') (meta_frame ''train'' ''r1'' ''r2'') names \<and>
      \<not> leak (meta_frame ''test'' ''r5'' ''r6'') (meta_frame ''validation'' ''r3'' ''r4'') names) identity_columns"
    by code_simp
  then show ?thesis
    by (simp add: check_apart_def hold_data_def demo_split_def identity_columns_def check_def)
qed

lemmas hold_checks = hold_tables_checked hold_split_checked hold_apart

lemma hold_split:
  "make_test_split hold_load hold_data hold_manifest hold_assignments X_frame y_frame (meta_frame ''test'' ''r5'' ''r6'') =
     Inr (demo_split ''test'' ''r5'' ''r6'')"
proof -
  have "od_schema hold_data = demo_schema" by (simp add: hold_data_def)
  then show ?thesis
    by (simp only: make_test_split_def hold_checks hold_rows bindE_simps demo_labels demo_split_def list.map)
qed

lemma hold_documents:
  "json_at hold_env hold_reserved hold_receipt_path = Inr hold_receipt"
  "json_at hold_env hold_reserved (in_dir hold_dir ''dataset_manifest.json'') = Inr hold_manifest"
  "json_at hold_env hold_reserved (in_dir hold_dir ''split_manifest.json'') = Inr hold_assignments"
  by (simp_all add: json_at_def read_stored_def hold_reserved_def hold_store_def in_dir_def hold_dir_def hold_receipt_path_def hold_gate_path_def)

lemma hold_receipt_agrees:
  "rejectE (ValueError ''gate and receipt'') (receipt_refusals hold_gate hold_receipt) = Inr ()"
  by code_simp

lemma hold_unlocked: "locked_of hold_gate ''pre_test_protected_sha256'' = Inr []"
  by code_simp

lemma hold_manifest_checked:
  "check_test_manifest hold_env hold_reserved hold_dir hold_data hold_gate hold_manifest = Inr ()"
proof -
  have "expected_test_hashes hold_env hold_dir hold_reserved = Inr (PyDict (map (\<lambda>n. (n, PyStr n)) TEST_FILES))"
    by code_simp
  moreover have "file_sha hold_env hold_reserved (in_dir hold_dir ''dataset_manifest.json'') = Inr ''doc''"
    by code_simp
  ultimately show ?thesis
    by (simp add: check_test_manifest_def hold_data_def hold_gate_fields rejectE_def item_ne_def hold_manifest_def lookupE_def TEST_FILES_def)
qed

lemmas hold_agreement = hold_receipt_agrees hold_unlocked hold_manifest_checked

lemma hold_loaded:
  "load_test hold_env hold_dir hold_data hold_gate_path ''doc'' hold_receipt_path hold_reserved =
     Inr (demo_split ''test'' ''r5'' ''r6'', [(''X_test.csv'', ''X_test.csv''), (''y_test.csv'', ''y_test.csv''), (''metadata_test.csv'', ''metadata_test.csv'')])"
proof -
  have tables: "mapE (read_test_table hold_env hold_reserved hold_dir hold_gate hold_manifest)
       (zip TEST_FILES [MESSAGE_FEATURE_ORDER, [''label''], METADATA_COLUMNS]) =
     Inr [(''X_test.csv'', ''X_test.csv'', X_frame), (''y_test.csv'', ''y_test.csv'', y_frame),
       (''metadata_test.csv'', ''metadata_test.csv'', meta_frame ''test'' ''r5'' ''r6'')]"
    by (simp add: TEST_FILES_def hold_table [OF _ hold_load_fields(1) demo_columns(7) demo_columns(10) demo_filled(1)]
        hold_table [OF _ hold_load_fields(2) demo_columns(8) demo_columns(11) demo_filled(2)]
        hold_table [OF _ hold_load_fields(3) demo_columns(9) demo_columns(12) demo_filled(3)])
  have env: "fv_load hold_env = hold_load" by (simp add: hold_env_def)
  show ?thesis
    by (simp add: load_test_def hold_gate_read [where s = hold_reserved, OF hold_stored(3)] hold_documents hold_agreement verify_stored_def tables env hold_split Let_def)
qed

lemma loaded_test_sound_witness:
  "test_loaded hold_load hold_data (demo_split ''test'' ''r5'' ''r6'')"
proof -
  have "fv_load hold_env = hold_load" by (simp add: hold_env_def)
  with loaded_test_sound [OF hold_loaded] show ?thesis by auto
qed

end
