(* ===== verification/Policy_Example.thy ===== *)
theory Policy_Example
  imports Policy_Compare
begin

text \<open>Three concrete trials: one that detects more but breaks the false positive limit, and two acceptable ones.\<close>

definition demo_trial :: "string \<Rightarrow> rat \<Rightarrow> rat \<Rightarrow> py" where
  "demo_trial name recall fpr = PyDict
     [(''candidate_id'', PyStr name), (''threshold'', PyFloat (Fin (1 / 2))),
      (''metrics'', PyDict [(''recall'', PyFloat (Fin recall)), (''f1'', PyFloat (Fin (9 / 10))),
         (''false_positive_rate'', PyFloat (Fin fpr))]),
      (''by_scenario'', PyDict [(''normal_batched_chat'', PyDict [(''false_positive_rate'', PyFloat (Fin fpr))])])]"

definition trial_criteria :: py where
  "trial_criteria = PyDict [(''max_false_positive_rate'', PyFloat (Fin (1 / 20))),
     (''max_normal_batched_false_positive_rate'', PyFloat (Fin (1 / 10))), (''min_recall'', PyFloat (Fin (3 / 4)))]"

definition demo_trials :: "py list" where
  "demo_trials = [demo_trial ''a'' (99 / 100) (1 / 5), demo_trial ''b'' (4 / 5) (1 / 100), demo_trial ''c'' (9 / 10) (1 / 25)]"

lemma demo_ranks:
  "trial_rank (demo_trial name recall fpr) = Some (- recall, - (9 / 10), fpr, name, 1 / 2)"
  by (simp add: trial_rank_def trial_key_def demo_trial_def lookupE_def rank_def finite_num_def)

lemma demo_reasons:
  "map (\<lambda>t. rejection_reasons t trial_criteria) demo_trials =
     [Inr [''FPR misses its limit'', ''batched FPR misses its limit''], Inr [], Inr []]"
  by code_simp

lemma demo_choice: "choose_trial demo_trials trial_criteria = Inr (Some (demo_trial ''c'' (9 / 10) (1 / 25)))"
  by code_simp


end
