(* ===== verification/Verdict_Example.thy ===== *)
theory Verdict_Example
  imports Verdict_Proofs Holdout_Example Policy_Example
begin

text \<open>
  The test set of the holdout example, judged by a model that is right on both messages, and a
  candidate that is locked after its cost was measured.
\<close>

definition hold_scores :: metric_lib where
  "hold_scores = \<lparr>ml_confusion = (\<lambda>_ _. Inr (1, 0, 0, 1)), ml_accuracy = (\<lambda>_ _. Inr (Fin 1)), ml_precision = (\<lambda>_ _. Inr (Fin 1)),
     ml_recall = (\<lambda>_ _. Inr (Fin 1)), ml_f1 = (\<lambda>_ _. Inr (Fin 1)), ml_roc_auc = (\<lambda>_ _. Inr (Fin 1)),
     ml_average_precision = (\<lambda>_ _. Inr (Fin 1)), ml_log_loss = (\<lambda>_ _. Inr (Fin 0))\<rparr>"

definition hold_judge :: judge_env where
  "hold_judge = \<lparr>je_lib = hold_scores, je_int = (\<lambda>s. Inr (int (str_nat s)))\<rparr>"

definition hold_cost_lib :: cost_lib where
  "hold_cost_lib = \<lparr>kl_choice = (\<lambda>_ _ _ _. []), kl_median = hd, kl_percentile95 = hd, kl_mean = hd,
     kl_matrix_hash = (\<lambda>_ _. ''x''), kl_digest = (\<lambda>_. Inr ''p'')\<rparr>"

definition hold_test :: test_env where
  "hold_test = \<lparr>tv_files = hold_env, tv_judge = hold_judge, tv_cost = hold_cost_lib,
     tv_load_model = (\<lambda>_. Inr \<lparr>lp_is_pipeline = True, lp_steps = []\<rparr>),
     tv_predict = (\<lambda>_ _. Inr [Fin (1 / 4), Fin (3 / 4)]), tv_npz = (\<lambda>_. Inr ([], [])), tv_suffix = (\<lambda>p _. p),
     tv_csv = (\<lambda>_. ''csv''), tv_uncsv = (\<lambda>_. Inr []), tv_found = (\<lambda>_ _. []), tv_render = (\<lambda>_. ''md''),
     tv_versions = PyNone, tv_limitations = [], tv_notice = ''n'', tv_code = []\<rparr>"

definition hold_runtime :: frozen where
  "hold_runtime = \<lparr>fz_threshold = PyFloat (Fin (1 / 2)), fz_pipeline = \<lparr>lp_is_pipeline = True, lp_steps = []\<rparr>, fz_model = Content ''m''\<rparr>"

definition hold_config :: test_config where
  "hold_config = \<lparr>tc_experiment_id = ''e'', tc_dataset_id = ''d'', tc_dataset_dir = hold_dir, tc_cost_root = Abs [],
     tc_cost_report = Abs [''r''], tc_cost_manifest_sha256 = ''doc'', tc_candidate_lock_sha256 = ''doc'', tc_artifact_dir = Abs [''a''],
     tc_report_prefix = Abs [''q''], tc_registry_dir = hold_registry, tc_expected_rows = 2, tc_document = PyNone\<rparr>"

definition hold_plan :: test_plan where
  "hold_plan = \<lparr>tp_config = hold_config, tp_data = hold_data, tp_gate = hold_gate, tp_protected = [], tp_runtime = hold_runtime\<rparr>"

section \<open>An approved test\<close>

abbreviation hold_split_data :: op_split where
  "hold_split_data \<equiv> demo_split ''test'' ''r5'' ''r6''"

text \<open>The same split with its numbers worked out.\<close>

definition judged_split :: op_split where
  "judged_split = \<lparr>op_columns = MESSAGE_FEATURE_ORDER, op_X = replicate 2 (map Fin [14, 6, 0, 0, 14, 0, 0]), op_y = [0, 1],
     op_meta = meta_frame ''test'' ''r5'' ''r6''\<rparr>"

lemma hold_split_numbers: "hold_split_data = judged_split"
  by (simp add: demo_split_def judged_split_def feature_row_def demo_features_def float_of_int_exact numeral_2_eq_2)

lemma hold_sessions: "validate_test_sessions hold_judge hold_split_data = Inr ()"
  unfolding hold_split_numbers by code_simp

lemma hold_indices: "mapE (je_int hold_judge) (col (op_meta judged_split) ''request_index'') = Inr [1, 1]"
  by code_simp

lemma hold_scenario:
  "sort (remdups (col (op_meta judged_split) ''scenario_id'')) = [''normal_batched_chat'']"
  "pairs_where (\<lambda>i. scenario_at judged_split i = ''normal_batched_chat'') judged_split [0, 1] = [(0, 0), (1, 1)]"
  by code_simp+

lemma hold_ratio: "ratio 0 1 = Fin 0" "ratio 1 1 = Fin 1"
  by (simp_all add: ratio_def fl_def)

lemma hold_decided: "decide (Fin (1 / 2)) [Fin (1 / 4), Fin (3 / 4)] = [0, 1]"
  by (simp add: decide_def)

lemma hold_counts: "count_errors [(0, 0), (1, 1)] = \<lparr>ec_rows = 2, ec_normal = 1, ec_anomaly = 1, ec_fp = 0, ec_fn = 0\<rparr>"
  by (simp add: count_errors_def Let_def)

lemma hold_scored:
  "\<exists>m. calculate_metrics hold_scores (op_y judged_split) [Fin (1 / 4), Fin (3 / 4)] (Fin (1 / 2)) = Inr m \<and>
     py_getE m ''false_positive_rate'' = Inr (PyFloat (Fin 0)) \<and> py_getE m ''recall'' = Inr (PyFloat (Fin 1))"
  by (simp add: calculate_metrics_def Let_def hold_scores_def ratioE_def hold_ratio py_get_def)

lemma hold_scenarios:
  "scenario_metrics judged_split [0, 1] = PyDict [(''normal_batched_chat'', PyDict
     [(''rows'', PyInt 2), (''normal_rows'', PyInt 1), (''controlled_anomaly_rows'', PyInt 1), (''fp'', PyInt 0), (''fn'', PyInt 0),
      (''recall'', PyFloat (Fin 1)), (''false_positive_rate'', PyFloat (Fin 0))])]"
  by (simp add: scenario_metrics_def hold_scenario hold_counts counts_document_def recall_of_def fpr_of_def ratio_or_none_def hold_ratio)

lemma hold_cost_accepted: "cost_rejections hold_cost hold_criteria = Inr []"
  by code_simp

lemma hold_evaluated:
  obtains result table where "evaluate_test hold_test hold_split_data hold_runtime = Inr (result, table)"
    "rejection_reasons result hold_criteria = Inr []"
proof -
  obtain m where m: "calculate_metrics hold_scores (op_y judged_split) [Fin (1 / 4), Fin (3 / 4)] (Fin (1 / 2)) = Inr m"
    "py_getE m ''false_positive_rate'' = Inr (PyFloat (Fin 0))" "py_getE m ''recall'' = Inr (PyFloat (Fin 1))"
    using hold_scored by blast
  have test: "tv_predict hold_test f X = Inr [Fin (1 / 4), Fin (3 / 4)]" "je_lib (tv_judge hold_test) = hold_scores"
    "tv_judge hold_test = hold_judge" "fz_threshold hold_runtime = PyFloat (Fin (1 / 2))" "length (op_y judged_split) = 2" for f X
    by (simp_all add: hold_test_def hold_judge_def hold_runtime_def judged_split_def)
  obtain positions burst where d: "message_position_counts (je_int hold_judge) judged_split [0, 1] = Inr positions"
    "prefix_diagnostics hold_judge judged_split [Fin (1 / 4), Fin (3 / 4)] (Fin (1 / 2)) = Inr burst"
    by (simp add: message_position_counts_def prefix_diagnostics_def burst_rows_def hold_indices Let_def)
  obtain result table where e: "evaluate_test hold_test judged_split hold_runtime = Inr (result, table)"
    "py_item result ''metrics'' = Inr m" "py_item result ''by_scenario'' = Inr (scenario_metrics judged_split [0, 1])"
    by (simp add: evaluate_test_def test(1,3-5) test(2) [unfolded test(3)] threshold_value_def flt_def hold_decided d m(1) check_def Let_def lookupE_def)
  have "rejection_reasons result hold_criteria = Inr []"
    by (simp add: rejection_reasons_def policy_rows_def e hold_scenarios m hold_criteria_def lookupE_def py_get_def
        limit_reason_def py_gt_def flt_def)
  with e(1) that show ?thesis by (simp add: hold_split_numbers)
qed

lemma hold_receipt_locked: "verify_without_holdout hold_env hold_reserved [(''p'', PyStr ''doc'')] = Inr ()"
  by code_simp

lemma hold_gate_limits: "py_item hold_gate ''criteria'' = Inr hold_criteria" "py_item hold_gate ''cost_summary'' = Inr hold_cost"
  "py_item hold_gate ''policy_signature'' = Inr (PyStr ''p'')"
  by (simp_all add: hold_gate_def lookupE_def)

lemma hold_judged:
  "\<exists>j v. judge_test hold_test hold_plan [] (hold_receipt_path, False) hold_reserved = Inr j \<and> jd_reasons j = [] \<and>
     verdict_document (tv_files hold_test) hold_plan j = Inr v"
proof -
  from hold_evaluated obtain result table where e: "evaluate_test hold_test hold_split_data hold_runtime = Inr (result, table)"
    "rejection_reasons result hold_criteria = Inr []" .
  obtain m p t prediction where r: "py_item result ''metrics'' = Inr m"
    "py_item result ''by_scenario'' = Inr (scenario_metrics hold_split_data prediction)" using evaluated [OF e(1)] .
  have rows: "length (op_y hold_split_data) = 2" by (simp add: hold_split_numbers judged_split_def)
  have sha: "file_sha hold_env hold_reserved hold_receipt_path = Inr ''doc''"
    by (simp add: file_sha_def read_stored_def hold_stored hold_sha)
  have env: "tv_files hold_test = hold_env" "tv_judge hold_test = hold_judge" "fv_text hold_env q = ''p''"
    "tp_config hold_plan = hold_config" "tp_gate hold_plan = hold_gate" "tp_data hold_plan = hold_data" "tp_runtime hold_plan = hold_runtime"
    "tc_dataset_dir hold_config = hold_dir" "gate_path_of hold_config = hold_gate_path" "tc_candidate_lock_sha256 hold_config = ''doc''"
    "tc_expected_rows hold_config = 2" for q
    by (simp_all add: hold_test_def hold_env_def hold_plan_def hold_config_def gate_path_of_def in_dir_def hold_gate_path_def)
  show ?thesis
    by (simp add: judge_test_def verdict_document_def Let_def env sha hold_receipt_locked hold_loaded rows hold_sessions e hold_cost_accepted
        hold_gate_limits r check_def)
qed

lemma approved_verdict_within_limits_witness:
  "\<exists>v criteria rows. py_item v ''status'' = Inr (PyStr APPROVED) \<and> py_item v ''criteria'' = Inr criteria \<and>
     limit_rows v criteria = Inr rows \<and> length rows = 5 \<and> forE check_limit rows = Inr ()"
proof -
  from hold_judged obtain j v where j: "judge_test hold_test hold_plan [] (hold_receipt_path, False) hold_reserved = Inr j"
    "jd_reasons j = []" "verdict_document (tv_files hold_test) hold_plan j = Inr v" by blast
  have "sound_scores (je_lib (tv_judge hold_test))"
    by (simp add: sound_scores_def hold_test_def hold_judge_def hold_scores_def flt_def)
  from approved_verdict_within_limits [OF j this] show ?thesis by blast
qed

section \<open>A locked candidate\<close>

definition hold_cost_env :: cost_env where
  "hold_cost_env = \<lparr>ce_test = hold_test, ce_worker = (\<lambda>_ _ s. (Inr True, s)), ce_npz = (\<lambda>_. ''x''), ce_parameters = (\<lambda>_. Inr PyNone)\<rparr>"

definition hold_cost_config :: cost_config where
  "hold_cost_config = \<lparr>kc_experiment_id = ''e'', kc_dataset_id = ''d'', kc_dataset_dir = hold_dir, kc_training_root = Abs [''t''],
     kc_training_report = Abs [''u''], kc_design_path = Abs [''v''], kc_artifact_dir = Abs [''b''], kc_report_prefix = Abs [''w''],
     kc_expected_train_rows = 2, kc_expected_validation_rows = 2, kc_expected_test_rows = 2, kc_benchmark = PyNone,
     kc_process_repeats = 1, kc_single_repeats = 1, kc_batch_repeats = 1, kc_sampling_seed = 1, kc_document = PyNone\<rparr>"

definition hold_cost_plan :: cost_plan where
  "hold_cost_plan = \<lparr>kp_config = hold_cost_config, kp_data = hold_data, kp_report = PyNone, kp_selection = PyNone,
     kp_criteria = hold_criteria, kp_protected = []\<rparr>"

definition hold_chosen :: py where
  "hold_chosen = demo_trial ''rf_raw7'' (9 / 10) (1 / 16)"

definition hold_descriptor :: py where
  "hold_descriptor = PyDict [(''id'', PyStr ''m'')]"

lemma hold_no_reasons: "cost_reasons hold_chosen hold_cost (kp_criteria hold_cost_plan) = Inr []"
proof -
  have "cost_reasons hold_chosen hold_cost hold_criteria = Inr []" by code_simp
  then show ?thesis by (simp add: hold_cost_plan_def)
qed

lemma hold_expected: "expected_test_hashes hold_env hold_dir hold_store = Inr (PyDict (map (\<lambda>n. (n, PyStr n)) TEST_FILES))"
  by code_simp

lemma hold_lock:
  "\<exists>h protected s. lock_when_accepted hold_cost_env hold_cost_plan hold_descriptor hold_chosen hold_cost [] [] hold_store =
     (Inr (h, protected), s)"
proof -
  have env: "tv_files (ce_test hold_cost_env) = hold_env" "tv_cost (ce_test hold_cost_env) = hold_cost_lib"
    "kl_digest hold_cost_lib v = Inr ''p''" "kp_config hold_cost_plan = hold_cost_config" "kc_dataset_dir hold_cost_config = hold_dir" for v
    by (simp_all add: hold_cost_env_def hold_test_def hold_cost_lib_def hold_cost_plan_def hold_cost_config_def)
  have new: "hold_store (cost_gate_path hold_cost_config) = None" by code_simp
  show ?thesis
    by (simp add: lock_when_accepted_def Let_def env bindS_reading lock_candidate_def hold_expected signature_of_def lookupE_def
        hold_descriptor_def new bindS_def write_new_def reading_def file_sha_def read_stored_def retS_def)
qed

lemma locked_candidate_accepted_witness:
  "\<exists>gate. check_criteria gate = Inr () \<and> snd (lock_when_accepted hold_cost_env hold_cost_plan hold_descriptor hold_chosen hold_cost
     [] [] hold_store) = hold_store(cost_gate_path hold_cost_config \<mapsto> Document gate)"
proof -
  from hold_lock obtain h protected s where l: "lock_when_accepted hold_cost_env hold_cost_plan hold_descriptor hold_chosen hold_cost
     [] [] hold_store = (Inr (h, protected), s)" by blast
  have "kp_config hold_cost_plan = hold_cost_config" by (simp add: hold_cost_plan_def)
  with locked_candidate_accepted [OF hold_no_reasons l] l show ?thesis by auto
qed

end
