(* ===== verification/Final_Example.thy ===== *)
theory Final_Example
  imports Final_Confirm Verdict_Example
begin

text \<open>
  A final evaluation of two models on the test set of the holdout example: the random forest is
  chosen for its recall, locked, confirmed on the test and exported.
\<close>

definition fin_names :: "(string \<times> path) list" where
  "fin_names = map (\<lambda>q. (concat (map ((@) ''/'') q), Abs q))
     ([[''m'', ''pipeline.joblib''], [''a'', ''candidate_lock.json''], [''g'', ''k.json''], [''d'', ''dataset_manifest.json'']] @
      map (\<lambda>n. [''d'', n]) TEST_FILES)"

definition fin_files :: file_env where
  "fin_files = hold_env\<lparr>fv_path := (\<lambda>s. case map_of fin_names s of None \<Rightarrow> Abs [] | Some p \<Rightarrow> p),
     fv_text := (\<lambda>p. case p of Abs q \<Rightarrow> concat (map ((@) ''/'') q) | Rel q \<Rightarrow> concat q)\<rparr>"

definition fin_windows :: windows where
  "fin_windows = assemble_windows judged_split 2 ''e_test_sequence'' (fill_arrays (\<lambda>_. ''r'') judged_split 2 [[0], [1]])"

definition fin_env :: final_env where
  "fin_env = \<lparr>fe_test = hold_test\<lparr>tv_files := fin_files,
       tv_suffix := (\<lambda>p suffix. case p of Abs q \<Rightarrow> Abs (q @ [suffix]) | Rel q \<Rightarrow> Rel (q @ [suffix]))\<rparr>,
     fe_snapshot = (\<lambda>_. PyStr ''snapshot''),
     fe_windows = \<lparr>se_dumps = (\<lambda>_. ''r''), se_loads = (\<lambda>_. Inr PyNone), se_to_int = (\<lambda>s. Inr (int (str_nat s)))\<rparr>,
     fe_archive = (\<lambda>_. (''npz'', ''csv'')),
     fe_restore = (\<lambda>_ _. Inr fin_windows)\<rparr>"

definition fin_limits :: py where
  "fin_limits = PyDict [(''max_false_positive_rate'', PyFloat (Fin (1 / 8))), (''min_recall'', PyFloat (Fin (1 / 2))),
     (''max_single_request_p95_ms'', PyInt 25), (''max_process_peak_rss_mib'', PyInt 512),
     (''max_deployment_artifacts_mib'', PyInt 50), (''scope'', PyStr ''local_advisory_integration_only'')]"

definition fin_criteria :: criteria where
  "fin_criteria = \<lparr>cr_max_fpr = Fin (1 / 8), cr_min_recall = Fin (1 / 2), cr_max_p95 = Fin 25, cr_max_rss_mib = Fin 512,
     cr_max_artifacts_mib = Fin 50\<rparr>"

definition fin_config :: final_config where
  "fin_config = \<lparr>fc_experiment_id = ''e'', fc_dataset_id = ''d'',
     fc_paths = [(''dataset_dir'', hold_dir), (''artifact_dir'', Abs [''a'']), (''holdout_registry_dir'', hold_registry),
       (''report_prefix'', Abs [''q''])],
     fc_expected_train_rows = 2, fc_expected_validation_rows = 2, fc_expected_test_rows = 2, fc_window_size = 2,
     fc_models = [], fc_criteria = fin_criteria\<rparr>"

definition fin_descriptor :: "string \<Rightarrow> string \<Rightarrow> rat \<Rightarrow> py" where
  "fin_descriptor name kind recall = PyDict [(''id'', PyStr name), (''kind'', PyStr kind), (''candidate_id'', PyStr ''c''),
     (''threshold'', PyFloat (Fin (1 / 2))), (''architecture'', PyNone),
     (''files'', PyDict [(''model'', PyDict [(''path'', PyStr ''/m/pipeline.joblib''), (''sha256'', PyStr ''bytes''), (''bytes'', PyInt 5)])]),
     (''validation_metrics'', PyDict [(''recall'', PyFloat (Fin recall)), (''f1'', PyFloat (Fin (3 / 4))),
        (''false_positive_rate'', PyFloat (Fin (1 / 16)))])]"

definition fin_runtime :: "rat \<Rightarrow> model_runtime" where
  "fin_runtime x = \<lparr>rt_kind = ''random_forest'', rt_threshold = Fin (1 / 2), rt_rows = (\<lambda>_. Inr [Fin x, Fin (3 / 4)]),
     rt_windows = (\<lambda>_. Inl (ValueError ''lstm''))\<rparr>"

definition fin_plan :: final_plan where
  "fin_plan = \<lparr>fp_config = fin_config, fp_data = hold_data,
     fp_descriptors = [(''lr'', fin_descriptor ''lr'' ''logistic_regression'' (3 / 5)), (''rf'', fin_descriptor ''rf'' ''random_forest'' (4 / 5))],
     fp_runtimes = [(''lr'', fin_runtime (3 / 4)), (''rf'', fin_runtime (1 / 4))],
     fp_expected_test = PyDict (map (\<lambda>n. (n, PyStr n)) TEST_FILES),
     fp_costs = map (\<lambda>n. (n, PyDict [(''summary'', hold_cost)])) [''lr'', ''rf''],
     fp_protected = [(''/d/dataset_manifest.json'', PyStr ''doc'')]\<rparr>"

definition fin_store :: store where
  "fin_store = hold_store(Abs [''m'', ''pipeline.joblib''] \<mapsto> Content ''bytes'')"

definition fin_gate :: py where
  "fin_gate = PyDict [(''status'', PyStr ''candidate_locked_before_test''), (''locked_at_utc'', PyStr ''t''),
     (''selected_model_id'', PyStr ''rf''), (''models'', PyDict (fp_descriptors fin_plan)),
     (''selection_scope'', PyStr ''validation_and_cost_only''), (''criteria'', criteria_document fin_criteria),
     (''policy_signature'', PyStr ''p''), (''expected_test_sha256'', PyDict (map (\<lambda>n. (n, PyStr n)) TEST_FILES)),
     (''pre_test_protected_sha256'', PyDict [(''/d/dataset_manifest.json'', PyStr ''doc'')]),
     (''test_files_read'', PyBool False), (''protocol_sha256'', PyStr ''p'')]"

definition fin_gate_path :: path where "fin_gate_path = Abs [''a'', ''candidate_lock.json'']"
definition fin_locked :: store where "fin_locked = fin_store(fin_gate_path \<mapsto> Document fin_gate)"

definition fin_receipt :: py where
  "fin_receipt = receipt_document fin_files fin_gate_path ''doc'' [PyDict (map (\<lambda>n. (n, PyStr n)) TEST_FILES), PyStr ''p'', PyStr ''rf'']"

definition fin_reserved :: store where
  "fin_reserved = fin_locked(hold_receipt_path \<mapsto> Document fin_receipt)"

lemma fin_env_fields:
  "tv_files (fe_test fin_env) = fin_files" "fp_config fin_plan = fin_config" "fp_data fin_plan = hold_data"
  "final_path fin_config ''artifact_dir'' = Abs [''a'']" "final_path fin_config ''dataset_dir'' = hold_dir"
  "final_path fin_config ''holdout_registry_dir'' = hold_registry" "fc_criteria fin_config = fin_criteria"
  "fc_expected_test_rows fin_config = 2" "fc_window_size fin_config = 2" "fv_load fin_files = hold_load"
  "fp_protected fin_plan = [(''/d/dataset_manifest.json'', PyStr ''doc'')]" "test_id fin_config = ''e_test_sequence''"
  "se_dumps (fe_windows fin_env) = (\<lambda>_. ''r'')"
  by (simp_all add: fin_env_def fin_plan_def final_path_def fin_config_def fin_files_def hold_env_def test_id_def)


section \<open>The choice\<close>

lemma fin_mib: "fl 536870912 = Fin 536870912" "fl 52428800 = Fin 52428800"
  using float_of_int_exact [of 536870912] float_of_int_exact [of 52428800] by (simp_all add: float_of_int_def)

lemma fin_parsed: "parse_criteria fin_limits = Inr fin_criteria"
  by (simp add: parse_criteria_def fin_limits_def field_def lookupE_def float_field_def is_rate_def above_zero_def flt_def
      float_of_int_exact literal_field_def check_def fin_criteria_def)

lemma fin_limits_kept:
  assumes "py_item metrics ''false_positive_rate'' = Inr (PyFloat (Fin x))" and "py_item metrics ''recall'' = Inr (PyFloat (Fin y))"
    and "py_item metrics ''f1'' = Inr (PyFloat (Fin z))" and "0 \<le> x" and "x \<le> 1 / 8" and "1 / 2 \<le> y" and "y \<le> 1" and "0 \<le> z" and "z \<le> 1"
  shows "final_rejections metrics hold_cost fin_criteria = Inr []"
  using assms
  by (simp add: final_rejections_def not_a_rate_def not_a_cost_def peak_rejected_def over_mib_def hold_cost_def fin_criteria_def
      lookupE_def py_gt_def flt_def fin_mib)

lemma fin_selected:
  "select_before_test (fp_descriptors fin_plan) (fp_costs fin_plan) fin_criteria = Inr (Some ''rf'', [(''lr'', []), (''rf'', [])])"
proof -
  have reasons: "model_reasons (fp_costs fin_plan) fin_criteria (n, fin_descriptor n k r) = Inr (n, [])"
    if "n \<in> {''lr'', ''rf''}" "1 / 2 \<le> r" "r \<le> 1" for n k r
    using that fin_limits_kept [of _ "1 / 16" r "3 / 4"]
    by (auto simp: model_reasons_def fin_descriptor_def lookupE_def fin_plan_def)
  have key: "final_key (fp_descriptors fin_plan) (fp_costs fin_plan) n = Inr [PyFloat (Fin (- r)), PyFloat (Fin (- (3 / 4))),
      PyFloat (Fin (1 / 16)), PyFloat (Fin 9), PyInt 1000, PyInt 5, PyStr n]"
    if "(n, r) \<in> {(''lr'', 3 / 5), (''rf'', 4 / 5)}" for n r
    using that by (auto simp: final_key_def fin_plan_def fin_descriptor_def hold_cost_def lookupE_def)
  have ds: "fp_descriptors fin_plan = [(''lr'', fin_descriptor ''lr'' ''logistic_regression'' (3 / 5)), (''rf'', fin_descriptor ''rf'' ''random_forest'' (4 / 5))]"
    by (simp add: fin_plan_def)
  have "list_lt [PyFloat (Fin (- (4 / 5))), PyFloat (Fin (- (3 / 4))), PyFloat (Fin (1 / 16)), PyFloat (Fin 9), PyInt 1000, PyInt 5, PyStr ''rf'']
      [PyFloat (Fin (- (3 / 5))), PyFloat (Fin (- (3 / 4))), PyFloat (Fin (1 / 16)), PyFloat (Fin 9), PyInt 1000, PyInt 5, PyStr ''lr''] = Inr True"
    by (simp add: py_gt_def flt_def)
  then have "min_by (final_key (fp_descriptors fin_plan) (fp_costs fin_plan)) ''lr'' [''rf''] = Inr ''rf''"
    by (simp add: min_by_def min_pass_def key [of "''lr''" "3 / 5"] key [of "''rf''" "4 / 5"] del: list_lt.simps py_lt.simps)
  then show ?thesis
    by (simp add: select_before_test_def ds reasons)
qed

section \<open>The lock and the test\<close>

lemma fin_paths:
  "fv_path fin_files ''/d/dataset_manifest.json'' = Abs [''d'', ''dataset_manifest.json'']"
  "fv_path fin_files ''/m/pipeline.joblib'' = Abs [''m'', ''pipeline.joblib'']"
  "fv_path fin_files ''/a/candidate_lock.json'' = fin_gate_path" "fv_path fin_files ''/g/k.json'' = hold_receipt_path"
  "fv_path fin_files ''/d/X_test.csv'' = Abs [''d'', ''X_test.csv'']" "fv_path fin_files ''/d/y_test.csv'' = Abs [''d'', ''y_test.csv'']"
  "fv_path fin_files ''/d/metadata_test.csv'' = Abs [''d'', ''metadata_test.csv'']"
  by (simp_all add: fin_files_def fin_names_def TEST_FILES_def fin_gate_path_def hold_receipt_path_def)

lemma fin_texts:
  "fv_text fin_files fin_gate_path = ''/a/candidate_lock.json''" "fv_text fin_files hold_receipt_path = ''/g/k.json''"
  "fv_text fin_files (in_dir hold_dir n) = ''/d/'' @ n"
  by (simp_all add: fin_files_def fin_gate_path_def hold_receipt_path_def in_dir_def hold_dir_def)

lemma fin_sha: "fv_sha fin_files (Document v) = ''doc''" "fv_sha fin_files (Content n) = n" "stored_text fin_files (Content n) = n"
  "stored_text fin_files (Document v) = ''doc''"
  by (simp_all add: fv_sha_def fin_files_def hold_env_def hold_load_def demo_env_def)

lemma fin_stored:
  "fin_store (Abs (''a'' # p)) = None" "fin_store (Abs (''q'' # p)) = None" "fin_store hold_receipt_path = None"
  "fin_store (Abs [''m'', ''pipeline.joblib'']) = Some (Content ''bytes'')"
  "fin_store (Abs [''d'', ''dataset_manifest.json'']) = Some (Document hold_manifest)"
  "fin_store (Abs [''d'', ''split_manifest.json'']) = Some (Document hold_assignments)"
  "fin_store (Abs [''d'', ''X_test.csv'']) = Some (Content ''X_test.csv'')" "fin_store (Abs [''d'', ''y_test.csv'']) = Some (Content ''y_test.csv'')"
  "fin_store (Abs [''d'', ''metadata_test.csv'']) = Some (Content ''metadata_test.csv'')"
  by (simp_all add: fin_store_def hold_store_def hold_gate_path_def hold_receipt_path_def TEST_FILES_def)

lemma fin_unchanged: "verify_stored fin_files fin_store [(''/d/dataset_manifest.json'', PyStr ''doc'')] = Inr ()"
  by (simp add: verify_stored_def fin_paths fin_stored fin_sha check_def)

lemma fin_gate: "final_gate fin_env fin_plan ''rf'' = Inr fin_gate"
proof -
  have "kl_digest (tv_cost (fe_test fin_env)) v = Inr ''p''" "fv_now fin_files = ''t''"
    "fp_expected_test fin_plan = PyDict (map (\<lambda>n. (n, PyStr n)) TEST_FILES)" for v
    by (simp_all add: fin_env_def hold_test_def hold_cost_lib_def fin_files_def hold_env_def fin_plan_def)
  then show ?thesis
    by (simp add: final_gate_def final_signature_def fin_env_fields fin_gate_def)
qed

lemma fin_gate_fields:
  "rejectE (ValueError ''gate'') (gate_refusals fin_gate) = Inr ()"
  "py_item fin_gate ''expected_test_sha256'' = Inr (PyDict (map (\<lambda>n. (n, PyStr n)) TEST_FILES))"
  "mapE (py_item fin_gate) policy_fields = Inr [PyDict (map (\<lambda>n. (n, PyStr n)) TEST_FILES), PyStr ''p'', PyStr ''rf'']"
  "locked_of fin_gate ''pre_test_protected_sha256'' = Inr [(''/d/dataset_manifest.json'', PyStr ''doc'')]"
  by (simp_all add: fin_gate_def gate_refusals_def item_ne_def item_is_not_def lookupE_def policy_fields_def locked_of_def rejectE_def)

lemma fin_gate_read:
  "s fin_gate_path = Some (Document fin_gate) \<Longrightarrow> read_gate fin_files fin_gate_path ''doc'' s = Inr fin_gate"
  by (simp add: read_gate_def file_sha_def json_at_def read_stored_def fin_sha check_def)

lemma fin_locked: "fin_locked fin_gate_path = Some (Document fin_gate)" "fin_locked hold_receipt_path = None"
  "fin_reserved fin_gate_path = Some (Document fin_gate)" "fin_reserved hold_receipt_path = Some (Document fin_receipt)"
  by (simp_all add: fin_locked_def fin_reserved_def fin_stored fin_gate_path_def hold_receipt_path_def fin_store_def hold_store_def hold_gate_path_def TEST_FILES_def)

lemma fin_reserve:
  "reserve_holdout fin_files hold_registry fin_gate_path ''doc'' fin_locked = (Inr (hold_receipt_path, False), fin_reserved)"
proof -
  have "receipt_path fin_files hold_registry e = hold_receipt_path" for e
    by (simp add: receipt_path_def fin_files_def hold_env_def in_dir_def hold_registry_def hold_receipt_path_def)
  then show ?thesis
    by (simp add: reserve_holdout_def bindS_reading bindS_lift fin_gate_read fin_locked fin_gate_fields
        take_receipt_def write_new_def fin_reserved_def fin_receipt_def)
qed

lemma fin_table:
  assumes "(name, columns) \<in> {(''X_test.csv'', MESSAGE_FEATURE_ORDER), (''y_test.csv'', [''label'']), (''metadata_test.csv'', METADATA_COLUMNS)}"
    and "le_csv hold_load name = Inr f" and "fr_columns f = columns" and "fr_rows f = [r, q]" and "[] \<notin> set r \<union> set q"
  shows "read_test_table fin_files fin_reserved hold_dir fin_gate hold_manifest (name, columns) = Inr (name, name, f)"
proof -
  have stored: "fin_reserved (in_dir hold_dir name) = Some (Content name)"
    using assms(1) by (auto simp: fin_reserved_def fin_locked_def fin_stored in_dir_def hold_dir_def hold_receipt_path_def fin_gate_path_def)
  have locked: "path_items fin_gate [''expected_test_sha256'', name] = Inr (PyStr name)"
    using assms(1) by (auto simp: fin_gate_def TEST_FILES_def lookupE_def)
  have entry: "path_items hold_manifest [''output_files'', name] =
      Inr (PyDict [(''sha256'', PyStr name), (''columns'', py_strs columns), (''rows'', PyInt 2)])"
    using assms(1) by (auto simp: hold_manifest_def demo_file_entry_def lookupE_def)
  show ?thesis
    using assms(2-5) by (simp add: read_test_table_def read_stored_def stored fin_sha locked entry fin_env_fields check_def rejectE_def
        item_ne_def lookupE_def del: path_items.simps)
qed

lemma fin_manifest_checked: "check_test_manifest fin_files fin_reserved hold_dir hold_data fin_gate hold_manifest = Inr ()"
proof -
  have stored: "fin_reserved (Abs [''d'', ''dataset_manifest.json'']) = Some (Document hold_manifest)"
    by (simp add: fin_reserved_def fin_locked_def fin_stored hold_receipt_path_def fin_gate_path_def)
  have "expected_test_hashes fin_files hold_dir fin_reserved = Inr (PyDict (map (\<lambda>n. (n, PyStr n)) TEST_FILES))"
    by (simp add: expected_test_hashes_def json_at_def read_stored_def in_dir_def hold_dir_def stored hold_manifest_def TEST_FILES_def
        demo_file_entry_def lookupE_def)
  moreover have "file_sha fin_files fin_reserved (in_dir hold_dir ''dataset_manifest.json'') = Inr ''doc''"
    by (simp add: file_sha_def read_stored_def in_dir_def hold_dir_def stored fin_sha)
  ultimately show ?thesis
    by (simp add: check_test_manifest_def hold_data_def fin_gate_fields rejectE_def item_ne_def hold_manifest_def lookupE_def TEST_FILES_def)
qed

lemma fin_loaded:
  "load_test fin_files hold_dir hold_data fin_gate_path ''doc'' hold_receipt_path fin_reserved =
     Inr (judged_split, [(''X_test.csv'', ''X_test.csv''), (''y_test.csv'', ''y_test.csv''), (''metadata_test.csv'', ''metadata_test.csv'')])"
proof -
  have tables: "mapE (read_test_table fin_files fin_reserved hold_dir fin_gate hold_manifest)
       (zip TEST_FILES [MESSAGE_FEATURE_ORDER, [''label''], METADATA_COLUMNS]) =
     Inr [(''X_test.csv'', ''X_test.csv'', X_frame), (''y_test.csv'', ''y_test.csv'', y_frame),
       (''metadata_test.csv'', ''metadata_test.csv'', meta_frame ''test'' ''r5'' ''r6'')]"
    by (simp add: TEST_FILES_def fin_table [OF _ hold_load_fields(1) demo_columns(7) demo_columns(10) demo_filled(1)]
        fin_table [OF _ hold_load_fields(2) demo_columns(8) demo_columns(11) demo_filled(2)]
        fin_table [OF _ hold_load_fields(3) demo_columns(9) demo_columns(12) demo_filled(3)])
  have documents: "json_at fin_files fin_reserved hold_receipt_path = Inr fin_receipt"
    "json_at fin_files fin_reserved (in_dir hold_dir ''dataset_manifest.json'') = Inr hold_manifest"
    "json_at fin_files fin_reserved (in_dir hold_dir ''split_manifest.json'') = Inr hold_assignments"
    by (simp_all add: json_at_def read_stored_def fin_locked(3,4))
      (simp_all add: fin_reserved_def fin_locked_def fin_stored in_dir_def hold_dir_def hold_receipt_path_def fin_gate_path_def)
  have agrees: "rejectE (ValueError ''gate and receipt'') (receipt_refusals fin_gate fin_receipt) = Inr ()"
    by (simp add: receipt_refusals_def gate_refusals_def fin_receipt_def receipt_document_def policy_fields_def fin_gate_def
        items_ne_def item_ne_def item_is_not_def lookupE_def rejectE_def TEST_FILES_def)
  have kept: "verify_stored fin_files fin_reserved [(''/d/dataset_manifest.json'', PyStr ''doc'')] = Inr ()"
    by (simp add: verify_stored_def fin_paths fin_reserved_def fin_locked_def hold_receipt_path_def fin_gate_path_def fin_stored fin_sha check_def)
  show ?thesis
    by (simp add: load_test_def fin_gate_read [where s = fin_reserved, OF fin_locked(3)] documents agrees fin_gate_fields kept
        fin_manifest_checked tables fin_env_fields hold_split hold_split_numbers Let_def)
qed

lemma fin_made: "make_evaluation_windows (\<lambda>_. ''r'') judged_split (PyInt 2) ''e_test_sequence'' = Inr fin_windows"
proof -
  have "check_evaluation_source judged_split = Inr ()" "request_indices (op_meta judged_split) = Inr [1, 1]"
    "sessions_of (op_meta judged_split) [1, 1] = [[0], [1]]" "forE (check_session_order judged_split [1, 1]) [[0], [1]] = Inr ()"
    by code_simp+
  then show ?thesis by (simp add: make_evaluation_windows_def check_def Let_def fin_windows_def)
qed

lemma fin_windows_valid: "validate_evaluation_windows hold_load (\<lambda>_. ''r'') fin_windows judged_split (PyInt 2) ''e_test_sequence'' = Inr ()"
proof -
  have "wd_columns fin_windows = METADATA_COLUMNS @ SEQUENCE_COLUMNS"
    by (simp add: fin_windows_def assemble_windows_def Let_def judged_split_def meta_frame_def)
  then show ?thesis by (simp add: validate_evaluation_windows_def fin_made check_def)
qed

lemma fin_scored: "\<exists>m. (\<forall>p t. calculate_metrics hold_scores (op_y judged_split) p t = Inr m) \<and>
    py_item m ''false_positive_rate'' = Inr (PyFloat (Fin 0)) \<and> py_item m ''recall'' = Inr (PyFloat (Fin 1)) \<and> py_item m ''f1'' = Inr (PyFloat (Fin 1))"
  by (simp add: calculate_metrics_def Let_def hold_scores_def ratioE_def hold_ratio lookupE_def)

lemma fin_evaluated:
  "\<exists>results table r m. evaluate_models fin_env fin_plan judged_split fin_windows ''rf'' = Inr (results, table) \<and>
     lookupE results ''rf'' = Inr r \<and> py_item r ''metrics'' = Inr m \<and> final_rejections m hold_cost fin_criteria = Inr []"
proof -
  obtain m where m: "\<And>p t. calculate_metrics hold_scores (op_y judged_split) p t = Inr m" and
    limits: "py_item m ''false_positive_rate'' = Inr (PyFloat (Fin 0))" "py_item m ''recall'' = Inr (PyFloat (Fin 1))" "py_item m ''f1'' = Inr (PyFloat (Fin 1))"
    using fin_scored by blast
  have env: "tv_judge (fe_test fin_env) = hold_judge" "je_lib hold_judge = hold_scores"
    "fp_runtimes fin_plan = [(''lr'', fin_runtime (3 / 4)), (''rf'', fin_runtime (1 / 4))]"
    by (simp_all add: fin_env_def hold_test_def hold_judge_def fin_plan_def)
  have burst: "\<exists>d. prefix_diagnostics hold_judge judged_split p t = Inr d" for p t
    by (simp add: prefix_diagnostics_def burst_rows_def hold_indices Let_def)
  obtain d1 d2 where d: "prefix_diagnostics hold_judge judged_split [Fin (3 / 4), Fin (3 / 4)] (Fin (1 / 2)) = Inr d1"
    "prefix_diagnostics hold_judge judged_split [Fin (1 / 4), Fin (3 / 4)] (Fin (1 / 2)) = Inr d2" using burst by metis
  have y: "op_y judged_split = [0, 1]" by (simp add: judged_split_def)
  show ?thesis
    using fin_limits_kept [OF limits]
    by (simp add: evaluate_models_def env fin_env_fields evaluate_model_def model_scores_def fin_runtime_def m [unfolded y] d decide_def Let_def
        with_transitions_def prediction_transitions_def y check_def lookupE_def)
qed

section \<open>The run\<close>

definition fin_saved :: store where
  "fin_saved = fin_reserved(Abs [''a'', ''test_windows''] \<mapsto> Folder, Abs [''a'', ''test_windows'', ''test.npz''] \<mapsto> Content ''npz'',
     Abs [''a'', ''test_windows'', ''metadata_test.csv''] \<mapsto> Content ''csv'')"

lemma fin_dirs: "in_dir (Abs p) n = Abs (p @ [n])"
  by (simp add: in_dir_def)

lemma fin_reserved_other:
  "p \<noteq> fin_gate_path \<Longrightarrow> p \<noteq> hold_receipt_path \<Longrightarrow> fin_reserved p = fin_store p"
  by (simp add: fin_reserved_def fin_locked_def)

lemma fin_other: "Abs (''a'' # p) = fin_gate_path \<longleftrightarrow> p = [''candidate_lock.json'']" "Abs (''a'' # p) \<noteq> hold_receipt_path"
  "Abs (''q'' # p) \<noteq> fin_gate_path" "Abs (''q'' # p) \<noteq> hold_receipt_path" "Abs (''m'' # p) \<noteq> fin_gate_path" "Abs (''m'' # p) \<noteq> hold_receipt_path"
  "Abs (''d'' # p) \<noteq> fin_gate_path" "Abs (''d'' # p) \<noteq> hold_receipt_path"
  by (auto simp: fin_gate_path_def hold_receipt_path_def)

lemma fin_save: "save_test_windows fin_env fin_config judged_split fin_windows fin_reserved = (Inr (), fin_saved)"
proof -
  have env: "fe_archive fin_env ws = (''npz'', ''csv'')" "fe_restore fin_env a b = Inr fin_windows" for ws a b
    by (simp_all add: fin_env_def)
  show ?thesis
    by (simp add: save_test_windows_def fin_env_fields env fin_dirs bindS_def make_dir_def write_text_def fin_reserved_other fin_other
        fin_stored reading_def read_stored_def fin_windows_valid fin_saved_def Let_def)
qed

definition fin_rf :: py where
  "fin_rf = fin_descriptor ''rf'' ''random_forest'' (4 / 5)"

lemma fin_exported:
  "\<exists>b t. export_bundle (fe_test fin_env) (Abs [''a'', ''deployment_bundle'']) fin_rf hold_data ''doc'' fin_saved = (Inr b, t) \<and>
     (\<forall>p. take 2 p \<noteq> [''a'', ''deployment_bundle''] \<longrightarrow> t (Abs p) = fin_saved (Abs p))"
proof -
  have d: "py_item fin_rf ''kind'' = Inr (PyStr ''random_forest'')" "py_item fin_rf ''threshold'' = Inr (PyFloat (Fin (1 / 2)))"
    "py_item fin_rf ''id'' = Inr (PyStr ''rf'')" "py_item fin_rf ''candidate_id'' = Inr (PyStr ''c'')" "py_item fin_rf ''architecture'' = Inr PyNone"
    "py_item fin_rf ''files'' = Inr (PyDict [(''model'', PyDict [(''path'', PyStr ''/m/pipeline.joblib''), (''sha256'', PyStr ''bytes''), (''bytes'', PyInt 5)])])"
    by (simp_all add: fin_rf_def fin_descriptor_def lookupE_def)
  have schema: "py_item (od_schema hold_data) ''feature_contract_id'' = Inr (PyStr ''f'')"
    by (simp add: hold_data_def demo_schema_def lookupE_def)
  have saved: "fin_saved (Abs (''a'' # ''deployment_bundle'' # p)) = None" "fin_saved (Abs [''m'', ''pipeline.joblib'']) = Some (Content ''bytes'')" for p
    by (simp_all add: fin_saved_def fin_reserved_other fin_other fin_stored)
  show ?thesis
    by (auto simp: export_bundle_def fin_env_fields fin_dirs bindS_def make_dir_def saved liftS_def d copy_final_def role_name_def lookupE_def
        str_item_def reading_def read_stored_def fin_paths modifyS_def fin_sha rejectE_def item_ne_def retS_def file_entry_def write_new_def
        final_manifest_def schema sum_bytes_def final_decision_policy_def Let_def)
qed

lemma fin_outputs: "final_outputs fin_env fin_config = [Abs [''q'', ''.json''], Abs [''q'', ''.md''], Abs [''q'', ''.predictions.csv'']]"
  by (simp add: final_outputs_def fin_env_def final_path_def fin_config_def)

lemma fin_confirmed:
  "\<exists>r t. confirm_candidate fin_env fin_plan ''rf'' fin_store = (Inr r, t) \<and> verify_stored fin_files t (cf_protected r) = Inr () \<and>
     t (Abs [''q'', ''.json'']) = None \<and> t (Abs [''q'', ''.md'']) = None \<and> t (Abs [''a'', ''evaluation_manifest.json'']) = None \<and>
     t (Abs [''q'', ''.predictions.csv'']) = Some (Content ''csv'')"
proof -
  obtain results table r m where e: "evaluate_models fin_env fin_plan judged_split fin_windows ''rf'' = Inr (results, table)"
    "lookupE results ''rf'' = Inr r" "py_item r ''metrics'' = Inr m" "final_rejections m hold_cost fin_criteria = Inr []"
    using fin_evaluated by blast
  obtain b t where x: "export_bundle (fe_test fin_env) (Abs [''a'', ''deployment_bundle'']) fin_rf hold_data ''doc'' fin_saved = (Inr b, t)"
    and kept: "\<And>p. take 2 p \<noteq> [''a'', ''deployment_bundle''] \<Longrightarrow> t (Abs p) = fin_saved (Abs p)"
    using fin_exported by blast
  have gate_path: "Abs [''a'', ''candidate_lock.json''] = fin_gate_path" by (simp add: fin_gate_path_def)
  have reasons: "confirmation_reasons fin_plan results ''rf'' = Inr []"
    using e(2-4) by (simp add: confirmation_reasons_def final_summary_def fin_plan_def lookupE_def fin_env_fields fin_config_def)
  have descriptor: "lookupE (fp_descriptors fin_plan) ''rf'' = Inr fin_rf"
    by (simp add: fin_plan_def fin_rf_def lookupE_def)
  have locked: "fin_store fin_gate_path = None" "fin_store(fin_gate_path \<mapsto> Document fin_gate) = fin_locked"
    by (simp_all add: fin_stored fin_gate_path_def fin_locked_def)
  have sha: "file_sha fin_files fin_locked fin_gate_path = Inr ''doc''" "file_sha fin_files fin_reserved hold_receipt_path = Inr ''doc''"
    by (simp_all add: file_sha_def read_stored_def fin_locked fin_sha)
  have csv: "tv_csv (fe_test fin_env) v = ''csv''" for v by (simp add: fin_env_def hold_test_def)
  have rows: "length (op_y judged_split) = 2" by (simp add: judged_split_def)
  have free: "t (Abs (''q'' # p)) = None" "t (Abs [''a'', ''evaluation_manifest.json'']) = None" for p
    by (simp_all add: kept fin_saved_def fin_reserved_other fin_other fin_stored)
  have files: "t (Abs [''d'', n]) = fin_store (Abs [''d'', n])" "t fin_gate_path = Some (Document fin_gate)"
    "t hold_receipt_path = Some (Document fin_receipt)" for n
    using kept [of "[''d'', n]"] kept [of "[''a'', ''candidate_lock.json'']"] kept [of "[''g'', ''k.json'']"] fin_locked(3,4)
    by (simp_all add: fin_saved_def fin_reserved_other fin_other fin_gate_path_def hold_receipt_path_def)
  have apart: "fin_gate_path \<noteq> Abs (''q'' # p)" "hold_receipt_path \<noteq> Abs (''q'' # p)" "hold_receipt_path \<noteq> fin_gate_path" for p
    by (simp_all add: fin_gate_path_def hold_receipt_path_def)
  show ?thesis
    by (simp add: confirm_candidate_def fin_env_fields fin_dirs gate_path Let_def bindS_lift bindS_reading fin_gate bindS_def write_new_def locked
        sha fin_reserve fin_loaded rows check_def fin_made fin_save e(1) reasons descriptor x retS_def liftS_def reading_def fin_outputs free
        write_text_def verify_stored_def fin_texts files fin_paths fin_stored fin_sha dict_update_def apart csv)
qed


end
