(* ===== verification/Training.thy ===== *)
theory Training
  imports Final_Selection
begin

text \<open>
  \<open>train_model\<close> of \<open>training/train_operational_logistic_regression.py\<close> and
  \<open>training/train_operational_random_forest.py\<close>: from the configuration to the stored pipeline, its
  report and the manifest that is written last. scikit-learn's fit is an argument: it returns the
  fitted pipeline with the attributes that the code reads, its predictions and its serialised bytes.
  The texts of the two reports are an argument as well.
\<close>

section \<open>Configurations\<close>

record training_paths =
  tp_dataset :: string
  tp_dataset_dir :: path
  tp_artifact_dir :: path
  tp_report_prefix :: path

record lr_config = training_paths +
  lc_C :: pyfloat
  lc_max_iter :: int
  lc_tol :: pyfloat
  lc_random_state :: int

record rf_config = training_paths +
  rc_n_estimators :: int
  rc_max_depth :: "int option"
  rc_min_samples_leaf :: int
  rc_random_state :: int

definition required_field :: "(string \<times> py) list \<Rightarrow> string \<Rightarrow> (py \<Rightarrow> 'a res) \<Rightarrow> 'a res" where
  "required_field d name p = (case map_of d name of None \<Rightarrow> Inl (ValueError name) | Some v \<Rightarrow> p v)"

definition depth_field :: "py \<Rightarrow> int option res" where
  "depth_field v = (if v = PyNone then Inr None else bindE (positive_count v) (\<lambda>n. Inr (Some n)))"

definition seed_field :: "py \<Rightarrow> int res" where
  "seed_field = strict_int 0 (2 ^ 32 - 1)"

text \<open>A literal field; a missing one has its value already.\<close>

definition fixed_field :: "(string \<times> py) list \<Rightarrow> string \<times> py \<Rightarrow> unit res" where
  "fixed_field d r = default_field d (fst r) () (\<lambda>v. check (v = snd r) (ValueError (fst r)))"

definition training_names :: "string list" where
  "training_names = [''config_version'', ''dataset_id'', ''dataset_dir'', ''artifact_dir'', ''report_prefix'']"

definition parse_paths :: "file_env \<Rightarrow> (string \<times> py) list \<Rightarrow> (string \<times> path list) res" where
  "parse_paths env d =
     bindE (fixed_field d (''config_version'', PyStr ''v1'')) (\<lambda>_.
     bindE (required_field d ''dataset_id'' ident_field) (\<lambda>dataset_id.
     bindE (mapE (\<lambda>k. required_field d k (path_field env)) (drop 2 training_names)) (\<lambda>paths. Inr (dataset_id, paths))))"

definition parse_lr :: "file_env \<Rightarrow> py \<Rightarrow> lr_config res" where
  "parse_lr env v =
     bindE (no_extra (training_names @ [''C'', ''max_iter'', ''tol'', ''solver'', ''random_state'', ''threshold'']) v) (\<lambda>d.
     bindE (parse_paths env d) (\<lambda>(dataset_id, paths).
     bindE (default_field d ''C'' (Fin 1) (float_field above_zero)) (\<lambda>c.
     bindE (default_field d ''max_iter'' 1000 positive_count) (\<lambda>iterations.
     bindE (default_field d ''tol'' (fl (1 / 10000)) (float_field above_zero)) (\<lambda>tol.
     bindE (default_field d ''random_state'' 42 seed_field) (\<lambda>seed.
     bindE (forE (fixed_field d) [(''solver'', PyStr ''lbfgs''), (''threshold'', PyFloat (Fin (1 / 2)))]) (\<lambda>_.
     Inr \<lparr>tp_dataset = dataset_id, tp_dataset_dir = paths ! 0, tp_artifact_dir = paths ! 1, tp_report_prefix = paths ! 2,
       lc_C = c, lc_max_iter = iterations, lc_tol = tol, lc_random_state = seed\<rparr>)))))))"

definition forest_literals :: "(string \<times> py) list" where
  "forest_literals = [(''criterion'', PyStr ''gini''), (''min_samples_split'', PyInt 2), (''max_features'', PyStr ''sqrt''),
     (''bootstrap'', PyBool True), (''class_weight'', PyNone), (''n_jobs'', PyInt 1)]"

definition parse_rf :: "file_env \<Rightarrow> py \<Rightarrow> rf_config res" where
  "parse_rf env v =
     bindE (no_extra (training_names @ [''n_estimators'', ''max_depth'', ''min_samples_leaf'', ''random_state'', ''threshold''] @
        map fst forest_literals) v) (\<lambda>d.
     bindE (parse_paths env d) (\<lambda>(dataset_id, paths).
     bindE (default_field d ''n_estimators'' 100 (strict_int 1 1000)) (\<lambda>trees.
     bindE (default_field d ''max_depth'' None depth_field) (\<lambda>depth.
     bindE (default_field d ''min_samples_leaf'' 1 positive_count) (\<lambda>leaf.
     bindE (default_field d ''random_state'' 42 seed_field) (\<lambda>seed.
     bindE (forE (fixed_field d) (forest_literals @ [(''threshold'', PyFloat (Fin (1 / 2)))])) (\<lambda>_.
     Inr \<lparr>tp_dataset = dataset_id, tp_dataset_dir = paths ! 0, tp_artifact_dir = paths ! 1, tp_report_prefix = paths ! 2,
       rc_n_estimators = trees, rc_max_depth = depth, rc_min_samples_leaf = leaf, rc_random_state = seed\<rparr>)))))))"

definition load_training :: "(file_env \<Rightarrow> py \<Rightarrow> 'a res) \<Rightarrow> file_env \<Rightarrow> store \<Rightarrow> path \<Rightarrow> 'a res" where
  "load_training parse env s p =
     bindE (json_at env s p) (\<lambda>v. bindE (resolve_paths env (drop 2 training_names) p v) (parse env))"

definition TRAINING_THRESHOLD :: pyfloat where
  "TRAINING_THRESHOLD = Fin (1 / 2)"

definition paths_document :: "file_env \<Rightarrow> 'a training_paths_scheme \<Rightarrow> (string \<times> py) list" where
  "paths_document env c = [(''config_version'', PyStr ''v1''), (''dataset_id'', PyStr (tp_dataset c)),
     (''dataset_dir'', PyStr (fv_text env (tp_dataset_dir c))), (''artifact_dir'', PyStr (fv_text env (tp_artifact_dir c))),
     (''report_prefix'', PyStr (fv_text env (tp_report_prefix c)))]"

definition lr_document :: "file_env \<Rightarrow> lr_config \<Rightarrow> py" where
  "lr_document env c = PyDict (paths_document env c @
     [(''C'', PyFloat (lc_C c)), (''max_iter'', PyInt (lc_max_iter c)), (''tol'', PyFloat (lc_tol c)), (''solver'', PyStr ''lbfgs''),
      (''random_state'', PyInt (lc_random_state c)), (''threshold'', PyFloat TRAINING_THRESHOLD)])"

definition model_parameters :: "rf_config \<Rightarrow> (string \<times> py) list" where
  "model_parameters c =
     [(''n_estimators'', PyInt (rc_n_estimators c)), (''criterion'', PyStr ''gini''),
      (''max_depth'', (case rc_max_depth c of None \<Rightarrow> PyNone | Some n \<Rightarrow> PyInt n)), (''min_samples_split'', PyInt 2),
      (''min_samples_leaf'', PyInt (rc_min_samples_leaf c)), (''max_features'', PyStr ''sqrt''), (''bootstrap'', PyBool True),
      (''class_weight'', PyNone), (''random_state'', PyInt (rc_random_state c)), (''n_jobs'', PyInt 1)]"

definition rf_document :: "file_env \<Rightarrow> rf_config \<Rightarrow> py" where
  "rf_document env c = PyDict (paths_document env c @ model_parameters c @ [(''threshold'', PyFloat TRAINING_THRESHOLD)])"

section \<open>Fitted pipelines\<close>

record fitted =
  ft_bytes :: string
  ft_predict :: "pyfloat list list \<Rightarrow> pyfloat list res"
  ft_classes :: "int list"

record lr_fit = fitted +
  lf_warnings :: "string list"
  lf_iterations :: int
  lf_weights :: "pyfloat list"
  lf_intercept :: pyfloat
  lf_mean :: "pyfloat list"
  lf_var :: "pyfloat list"
  lf_scale :: "pyfloat list"
  lf_samples :: int

text \<open>Depth and nodes of every tree; importances are finite.\<close>

record rf_fit = fitted +
  rf_trees :: "(int \<times> int) list"
  rf_importances :: "rat list"

record training_env =
  tn_test :: test_env
  tn_fit_lr :: "lr_config \<Rightarrow> pyfloat list list \<Rightarrow> int list \<Rightarrow> lr_fit res"
  tn_fit_rf :: "(string \<times> py) list \<Rightarrow> pyfloat list list \<Rightarrow> int list \<Rightarrow> rf_fit res"
  tn_seconds :: pyfloat
  tn_mean :: "int list \<Rightarrow> pyfloat"
  tn_lr_code :: "(string \<times> path) list"
  tn_rf_code :: "(string \<times> path) list"

abbreviation tn_files :: "training_env \<Rightarrow> file_env" where
  "tn_files env \<equiv> tv_files (tn_test env)"

definition feature_values :: "pyfloat list \<Rightarrow> py" where
  "feature_values xs = PyDict (zip MESSAGE_FEATURE_ORDER (map PyFloat xs))"

definition learned_parameters :: "lr_fit \<Rightarrow> py" where
  "learned_parameters f = PyDict
     [(''coefficient_space'', PyStr ''standardized_features''), (''positive_class'', PyStr ''controlled_anomaly''),
      (''weights'', feature_values (lf_weights f)), (''intercept'', PyFloat (lf_intercept f)),
      (''scaler_mean'', feature_values (lf_mean f)), (''scaler_variance'', feature_values (lf_var f)),
      (''scaler_scale'', feature_values (lf_scale f)), (''scaler_samples_seen'', PyInt (lf_samples f)),
      (''constant_training_features'', py_strs (map fst (filter (\<lambda>(_, v). feq v (Fin 0)) (zip MESSAGE_FEATURE_ORDER (lf_var f)))))]"

definition lr_training :: "training_env \<Rightarrow> lr_config \<Rightarrow> lr_fit \<Rightarrow> py" where
  "lr_training env c f = PyDict
     [(''fit_seconds'', PyFloat (tn_seconds env)),
      (''convergence'', PyDict [(''max_iter'', PyInt (lc_max_iter c)), (''iterations_used'', PyInt (lf_iterations f)),
         (''converged'', PyBool (lf_warnings f = [])), (''warnings'', py_strs (lf_warnings f))])]"

definition rf_training :: "training_env \<Rightarrow> rf_fit \<Rightarrow> py res" where
  "rf_training env f =
     bindE (check (rf_trees f \<noteq> []) (ValueError ''min of an empty list'')) (\<lambda>_.
     let depths = map fst (rf_trees f) in
     Inr (PyDict
       [(''fit_seconds'', PyFloat (tn_seconds env)), (''trees_fitted'', PyInt (int (length (rf_trees f)))),
        (''convergence'', PyDict [(''applicable'', PyBool False), (''reason'', PyStr ''a fixed number of trees'')]),
        (''tree_depth'', PyDict [(''minimum'', PyInt (Min (set depths))), (''maximum'', PyInt (Max (set depths))),
           (''mean'', PyFloat (tn_mean env depths))]),
        (''total_tree_nodes'', PyInt (sum_list (map snd (rf_trees f))))]))"

definition constant_features :: "op_split \<Rightarrow> string list" where
  "constant_features source =
     map (\<lambda>i. MESSAGE_FEATURE_ORDER ! i)
       (filter (\<lambda>i. nunique (map (\<lambda>r. r ! i) (op_X source)) = 1) [0..<length MESSAGE_FEATURE_ORDER])"

text \<open>Sorted by importance, the larger first, then by name.\<close>

definition feature_importances :: "rf_fit \<Rightarrow> py res" where
  "feature_importances f =
     bindE (check (length (rf_importances f) = length MESSAGE_FEATURE_ORDER) (ValueError ''strict zip'')) (\<lambda>_.
     Inr (PyList (map (\<lambda>(n, x). PyDict [(''feature'', PyStr n), (''importance'', PyFloat (Fin x))])
       (sort_key (\<lambda>(n, x). (- x, n)) (zip MESSAGE_FEATURE_ORDER (rf_importances f))))))"

section \<open>The report\<close>

definition split_document :: "op_split \<Rightarrow> py" where
  "split_document source =
     (let m = op_meta source in PyDict
       [(''rows'', PyInt (int (length (op_y source)))), (''runs'', PyInt (int (nunique (col m ''run_id'')))),
        (''sessions'', PyInt (int (nunique (cols m [''run_id'', ''session_id''])))),
        (''label_distribution'', PyDict (map (\<lambda>(k, l). (k, PyInt (int (length (filter (\<lambda>y. y = l) (op_y source))))))
           [(''0'', 0), (''1'', 1)]))])"

definition label_map_document :: py where
  "label_map_document = PyDict [(''normal'', PyInt 0), (''controlled_anomaly'', PyInt 1)]"

definition code_hashes :: "file_env \<Rightarrow> store \<Rightarrow> (string \<times> path) list \<Rightarrow> (string \<times> py) list res" where
  "code_hashes env s code = mapE (\<lambda>(n, p). bindE (file_sha env s p) (\<lambda>h. Inr (n, PyStr h))) code"

text \<open>
  What the two reports share. \<open>own\<close> are the entries of one of the two models: its name, its
  configuration and what it learned.
\<close>

definition training_report ::
    "training_env \<Rightarrow> 'a training_paths_scheme \<Rightarrow> op_data \<Rightarrow> pyfloat list \<Rightarrow> pyfloat list \<Rightarrow> (string \<times> path) list \<Rightarrow>
     (string \<times> py) list \<Rightarrow> store \<Rightarrow> (string \<times> py) list res" where
  "training_report env c data p_train p_validation code own s =
     (let fe = tn_files env; te = tn_test env; lib = je_lib (tv_judge te); validation = od_validation data in
      bindE (py_item (od_schema data) ''feature_contract_id'') (\<lambda>contract_id.
      bindE (calculate_metrics lib (op_y (od_train data)) p_train TRAINING_THRESHOLD) (\<lambda>train.
      bindE (calculate_metrics lib (op_y validation) p_validation TRAINING_THRESHOLD) (\<lambda>metrics.
      bindE (code_hashes fe s code) (\<lambda>hashes.
      Inr ([(''report_version'', PyStr ''v1''), (''generated_at_utc'', PyStr (fv_now fe)), (''dataset_id'', PyStr (od_dataset_id data)),
        (''feature_contract_id'', contract_id), (''feature_order'', py_strs MESSAGE_FEATURE_ORDER), (''label_map'', label_map_document),
        (''fit_scope'', PyStr ''train_only''), (''evaluated_splits'', py_strs [''train'', ''validation'']), (''test_files_read'', PyBool False),
        (''test_evaluated'', PyBool False), (''threshold_selection'', PyStr ''fixed_baseline_not_tuned''), (''deployment_ready'', PyBool False),
        (''artifact_dir'', PyStr (fv_text fe (tp_artifact_dir c))),
        (''dataset_splits'', PyDict [(''train'', split_document (od_train data)), (''validation'', split_document validation)]),
        (''train_metrics'', train), (''validation_metrics'', metrics),
        (''validation_by_scenario'', scenario_metrics validation (decide TRAINING_THRESHOLD p_validation)),
        (''input_sha256'', input_hashes data), (''code_sha256'', PyDict hashes), (''environment'', tv_versions te),
        (''limitations'', py_strs (tv_limitations te))] @ own))))))"

section \<open>The files\<close>

definition error_name :: "int \<Rightarrow> int \<Rightarrow> string" where
  "error_name y p = (if p = y then ''correct'' else if p = 1 then ''false_positive'' else ''false_negative'')"

definition prediction_columns :: "op_split \<Rightarrow> pyfloat \<Rightarrow> pyfloat list \<Rightarrow> columns" where
  "prediction_columns source threshold probability =
     (let prediction = decide threshold probability in
      dict_update (map (\<lambda>n. (n, map PyStr (col (op_meta source) n))) (fr_columns (op_meta source)))
        [(''label'', map PyInt (op_y source)), (''anomaly_probability'', map PyFloat probability),
         (''predicted_label'', map PyInt prediction),
         (''error_type'', map2 (\<lambda>y p. PyStr (error_name y p)) (op_y source) prediction)])"

definition training_policy :: py where
  "training_policy = PyDict [(''positive_class'', PyInt 1), (''threshold'', PyFloat TRAINING_THRESHOLD), (''comparison'', PyStr ''>=''),
     (''selection'', PyStr ''fixed_baseline_not_tuned''), (''deployment_ready'', PyBool False)]"

definition fitted_schema :: "op_data \<Rightarrow> py \<Rightarrow> py res" where
  "fitted_schema data preprocessing =
     bindE (dict_items (od_schema data)) (\<lambda>d. Inr (PyDict (dict_set ''preprocessing'' preprocessing d)))"

definition training_outputs :: "training_env \<Rightarrow> 'a training_paths_scheme \<Rightarrow> path list" where
  "training_outputs env c = map (tv_suffix (tn_test env) (tp_report_prefix c)) [''.json'', ''.md'']"

definition training_manifest ::
    "training_env \<Rightarrow> 'a training_paths_scheme \<Rightarrow> op_data \<Rightarrow> (string \<times> py) list \<Rightarrow> (string \<times> py) list \<Rightarrow> store \<Rightarrow> py res" where
  "training_manifest env c data own artifacts s =
     bindE (py_item (od_schema data) ''feature_contract_id'') (\<lambda>contract_id.
     bindE (lock_code (tn_files env) s (training_outputs env c)) (\<lambda>reports.
     Inr (PyDict ([(''status'', PyStr ''complete'')] @ own @ [(''deployment_ready'', PyBool False),
       (''dataset_id'', PyStr (od_dataset_id data)), (''feature_contract_id'', contract_id), (''artifacts'', PyDict artifacts),
       (''input_sha256'', input_hashes data), (''reports'', PyDict reports)]))))"

text \<open>From the report to the manifest; the stored pipeline is loaded again and must predict the same.\<close>

definition store_training ::
    "training_env \<Rightarrow> 'a training_paths_scheme \<Rightarrow> op_data \<Rightarrow> string \<Rightarrow> pyfloat list \<Rightarrow> py \<Rightarrow> (string \<times> py) list \<Rightarrow>
     (string \<times> py) list \<Rightarrow> (store, py) act" where
  "store_training env c data content probability preprocessing own draft =
     (let fe = tn_files env; te = tn_test env; base = tp_artifact_dir c; outs = training_outputs env c; source = od_validation data in
      bindS (make_dir fe base) (\<lambda>_.
      bindS (modifyS (\<lambda>s. s(in_dir base ''pipeline.joblib'' \<mapsto> Content content))) (\<lambda>_.
      bindS (liftS (tv_predict te (Content content) (op_X source))) (\<lambda>again.
      bindS (liftS (check (list_all2 feq probability again) (ValueError ''reloaded prediction''))) (\<lambda>_.
      bindS (liftS (fitted_schema data preprocessing)) (\<lambda>schema.
      bindS (write_new fe (in_dir base ''feature_schema.json'') schema) (\<lambda>_.
      bindS (write_new fe (in_dir base ''label_map.json'') label_map_document) (\<lambda>_.
      bindS (write_new fe (in_dir base ''decision_policy.json'') training_policy) (\<lambda>_.
      bindS (modifyS (\<lambda>s. s(in_dir base ''validation_predictions.csv'' \<mapsto>
        Content (tv_csv te (prediction_columns source TRAINING_THRESHOLD probability))))) (\<lambda>_.
      bindS (reading (inventory_of te base)) (\<lambda>artifacts.
      let report = PyDict (draft @ [(''artifacts'', PyDict artifacts)]) in
      bindS (write_new fe (outs ! 0) report) (\<lambda>_.
      bindS (write_text fe (outs ! 1) (tv_render te report)) (\<lambda>_.
      bindS (reading (training_manifest env c data own artifacts)) (\<lambda>manifest.
      bindS (write_new fe (in_dir base ''training_manifest.json'') manifest) (\<lambda>_.
      retS report)))))))))))))))"

section \<open>Training\<close>

definition check_training_locations :: "training_env \<Rightarrow> store \<Rightarrow> 'a training_paths_scheme \<Rightarrow> unit res" where
  "check_training_locations env s c =
     check (s (tp_artifact_dir c) = None \<and> list_all (\<lambda>p. s p = None) (training_outputs env c)) (FileExistsError ''experiment'')"

definition training_data :: "training_env \<Rightarrow> 'a training_paths_scheme \<Rightarrow> store \<Rightarrow> op_data res" where
  "training_data env c s = fst (load_operational_data (store_load (tn_files env) s (tp_dataset_dir c)) (tp_dataset c) [])"

text \<open>The scores of a fitted pipeline on both splits, its classes checked first.\<close>

definition both_scores :: "'a fitted_scheme \<Rightarrow> op_data \<Rightarrow> (pyfloat list \<times> pyfloat list) res" where
  "both_scores f data =
     bindE (check (ft_classes f = [0, 1]) (ValueError ''class order'')) (\<lambda>_.
     bindE (ft_predict f (op_X (od_train data))) (\<lambda>p_train.
     bindE (ft_predict f (op_X (od_validation data))) (\<lambda>p_validation. Inr (p_train, p_validation))))"

definition train_lr :: "training_env \<Rightarrow> lr_config \<Rightarrow> (store, py) act" where
  "train_lr env c =
     bindS (reading (\<lambda>s. check_training_locations env s c)) (\<lambda>_.
     bindS (reading (training_data env c)) (\<lambda>data.
     bindS (liftS (tn_fit_lr env c (op_X (od_train data)) (op_y (od_train data)))) (\<lambda>f.
     bindS (liftS (both_scores f data)) (\<lambda>(p_train, p_validation).
     bindS (reading (training_report env c data p_train p_validation (tn_lr_code env)
       [(''experiment'', PyStr ''operational_logistic_regression_fixed_baseline''), (''config'', lr_document (tn_files env) c),
        (''training'', lr_training env c f), (''learned_parameters'', learned_parameters f)])) (\<lambda>draft.
     store_training env c data (ft_bytes f) p_validation
       (PyDict [(''status'', PyStr ''fitted''), (''fit_scope'', PyStr ''train_only''), (''kind'', PyStr ''StandardScaler''),
          (''stored_in'', PyStr ''pipeline.joblib:scaler'')])
       [(''converged'', PyBool (lf_warnings f = []))] draft)))))"

definition train_rf :: "training_env \<Rightarrow> rf_config \<Rightarrow> (store, py) act" where
  "train_rf env c =
     bindS (reading (\<lambda>s. check_training_locations env s c)) (\<lambda>_.
     bindS (reading (training_data env c)) (\<lambda>data.
     bindS (liftS (tn_fit_rf env (model_parameters c) (op_X (od_train data)) (op_y (od_train data)))) (\<lambda>f.
     bindS (liftS (both_scores f data)) (\<lambda>(p_train, p_validation).
     bindS (liftS (rf_training env f)) (\<lambda>training.
     bindS (liftS (feature_importances f)) (\<lambda>importances.
     bindS (reading (training_report env c data p_train p_validation (tn_rf_code env)
       [(''experiment'', PyStr ''operational_random_forest_fixed_baseline''), (''config'', rf_document (tn_files env) c),
        (''model_parameters'', PyDict (model_parameters c)), (''preprocessing'', PyStr ''identity_no_scaler''), (''training'', training),
        (''constant_training_features'', py_strs (constant_features (od_train data))), (''feature_importances'', importances)])) (\<lambda>draft.
     store_training env c data (ft_bytes f) p_validation
       (PyDict [(''status'', PyStr ''not_required''), (''fit_scope'', PyStr ''not_applicable''), (''kind'', PyStr ''identity''),
          (''stored_in'', PyStr ''pipeline.joblib'')])
       [] draft)))))))"

end
