(* ===== verification/Validation_Experiment.thy ===== *)
theory Validation_Experiment
  imports Training
begin

text \<open>
  \<open>training/run_operational_validation_experiment.py\<close>: the configuration of the experiment, its grid of
  candidates and thresholds, and the run from the locked protocol to the selection. The rule of the
  choice is in \<open>Policy\<close>, the training of one candidate in \<open>Training\<close>.
\<close>

section \<open>Configuration\<close>

datatype model_candidate =
    LogisticCandidate (candidate_name: string) pyfloat
  | ForestCandidate (candidate_name: string) int "int option"

record common_parameters =
  cp_random_state :: int
  cp_lr_max_iter :: int
  cp_lr_tol :: pyfloat
  cp_rf_estimators :: int

record experiment_config =
  xc_experiment_id :: string
  xc_dataset_id :: string
  xc_dataset_dir :: path
  xc_artifact_dir :: path
  xc_report_prefix :: path
  xc_thresholds :: "pyfloat list"
  xc_rule :: selection_rule
  xc_common :: common_parameters
  xc_candidates :: "model_candidate list"

text \<open>The kind tells the two models apart.\<close>

definition parse_candidate :: "py \<Rightarrow> model_candidate res" where
  "parse_candidate v =
     bindE (case v of PyDict d \<Rightarrow> required_field d ''kind'' (one_of [''logistic_regression'', ''random_forest''])
       | _ \<Rightarrow> Inl (ValueError ''object expected'')) (\<lambda>kind.
     if kind = ''logistic_regression'' then
       bindE (no_extra [''id'', ''kind'', ''C''] v) (\<lambda>d.
       bindE (required_field d ''id'' candidate_id_field) (\<lambda>id.
       bindE (required_field d ''C'' (float_field above_zero)) (\<lambda>c. Inr (LogisticCandidate id c))))
     else
       bindE (no_extra [''id'', ''kind'', ''min_samples_leaf'', ''max_depth''] v) (\<lambda>d.
       bindE (required_field d ''id'' candidate_id_field) (\<lambda>id.
       bindE (required_field d ''min_samples_leaf'' positive_count) (\<lambda>leaf.
       bindE (default_field d ''max_depth'' None depth_field) (\<lambda>depth. Inr (ForestCandidate id leaf depth))))))"

definition TIE_BREAKERS :: "string list" where
  "TIE_BREAKERS = [''f1_desc'', ''false_positive_rate_asc'', ''candidate_id_asc'', ''threshold_asc'']"

definition default_rule :: selection_rule where
  "default_rule = \<lparr>rule_max_fpr = fl (1 / 10), rule_min_recall = Fin (1 / 2)\<rparr>"

definition parse_rule :: "py \<Rightarrow> selection_rule res" where
  "parse_rule v =
     bindE (no_extra [''max_false_positive_rate'', ''min_recall'', ''primary_metric'', ''tie_breakers''] v) (\<lambda>d.
     bindE (default_field d ''max_false_positive_rate'' (rule_max_fpr default_rule) (float_field is_rate)) (\<lambda>fpr.
     bindE (default_field d ''min_recall'' (rule_min_recall default_rule) (float_field is_rate)) (\<lambda>recall.
     bindE (default_field d ''primary_metric'' () (literal_field ''recall'')) (\<lambda>_.
     bindE (default_field d ''tie_breakers'' TIE_BREAKERS (\<lambda>w. bindE (list_field w) (mapE str_field))) (\<lambda>ties.
     bindE (check (ties = TIE_BREAKERS) (ValueError ''tie breakers'')) (\<lambda>_.
     Inr \<lparr>rule_max_fpr = fpr, rule_min_recall = recall\<rparr>))))))"

definition default_common :: common_parameters where
  "default_common = \<lparr>cp_random_state = 42, cp_lr_max_iter = 1000, cp_lr_tol = fl (1 / 10000), cp_rf_estimators = 100\<rparr>"

definition parse_common :: "py \<Rightarrow> common_parameters res" where
  "parse_common v =
     bindE (no_extra [''random_state'', ''lr_max_iter'', ''lr_tol'', ''rf_n_estimators''] v) (\<lambda>d.
     bindE (default_field d ''random_state'' (cp_random_state default_common) seed_field) (\<lambda>seed.
     bindE (default_field d ''lr_max_iter'' (cp_lr_max_iter default_common) positive_count) (\<lambda>iterations.
     bindE (default_field d ''lr_tol'' (cp_lr_tol default_common) (float_field above_zero)) (\<lambda>tol.
     bindE (default_field d ''rf_n_estimators'' (cp_rf_estimators default_common) (strict_int 1 1000)) (\<lambda>trees.
     Inr \<lparr>cp_random_state = seed, cp_lr_max_iter = iterations, cp_lr_tol = tol, cp_rf_estimators = trees\<rparr>)))))"

text \<open>
  The settings of a candidate without its identifier; the code compares their JSON texts, which
  are equal exactly when the settings are.
\<close>

fun unnamed :: "model_candidate \<Rightarrow> model_candidate" where
  "unnamed (LogisticCandidate _ c) = LogisticCandidate [] c"
| "unnamed (ForestCandidate _ leaf depth) = ForestCandidate [] leaf depth"

text \<open>Thresholds equal to their sorted set are strictly increasing.\<close>

definition check_space :: "model_candidate list \<Rightarrow> pyfloat list \<Rightarrow> unit res" where
  "check_space candidates thresholds =
     bindE (check (distinct (map candidate_name candidates)) (ValueError ''candidate ids'')) (\<lambda>_.
     bindE (check (sorted_wrt flt thresholds \<and> Fin (1 / 2) \<in> set thresholds) (ValueError ''thresholds'')) (\<lambda>_.
     check (distinct (map unnamed candidates)) (ValueError ''same settings'')))"

definition sized_list :: "nat \<Rightarrow> nat \<Rightarrow> (py \<Rightarrow> 'a res) \<Rightarrow> py \<Rightarrow> 'a list res" where
  "sized_list lo hi p v = bindE (list_field v) (\<lambda>xs.
     bindE (check (lo \<le> length xs \<and> length xs \<le> hi) (ValueError ''length'')) (\<lambda>_. mapE p xs))"

definition experiment_paths :: "string list" where
  "experiment_paths = [''dataset_dir'', ''artifact_dir'', ''report_prefix'']"

definition parse_experiment :: "file_env \<Rightarrow> py \<Rightarrow> experiment_config res" where
  "parse_experiment env v =
     bindE (no_extra ([''config_version'', ''experiment_id'', ''dataset_id''] @ experiment_paths @
        [''thresholds'', ''selection_rule'', ''common_parameters'', ''candidates'']) v) (\<lambda>d.
     bindE (default_field d ''config_version'' () (literal_field ''v1'')) (\<lambda>_.
     bindE (required_field d ''experiment_id'' ident_field) (\<lambda>experiment_id.
     bindE (required_field d ''dataset_id'' ident_field) (\<lambda>dataset_id.
     bindE (mapE (\<lambda>k. required_field d k (path_field env)) experiment_paths) (\<lambda>paths.
     bindE (required_field d ''thresholds'' (sized_list 1 15 (float_field (\<lambda>x. flt (Fin 0) x \<and> flt x (Fin 1))))) (\<lambda>thresholds.
     bindE (default_field d ''selection_rule'' default_rule parse_rule) (\<lambda>rule.
     bindE (default_field d ''common_parameters'' default_common parse_common) (\<lambda>common.
     bindE (required_field d ''candidates'' (sized_list 1 8 parse_candidate)) (\<lambda>candidates.
     bindE (check_space candidates thresholds) (\<lambda>_.
     Inr \<lparr>xc_experiment_id = experiment_id, xc_dataset_id = dataset_id, xc_dataset_dir = paths ! 0,
       xc_artifact_dir = paths ! 1, xc_report_prefix = paths ! 2, xc_thresholds = thresholds, xc_rule = rule,
       xc_common = common, xc_candidates = candidates\<rparr>))))))))))"

definition load_experiment :: "file_env \<Rightarrow> store \<Rightarrow> path \<Rightarrow> experiment_config res" where
  "load_experiment env s p = bindE (json_at env s p) (\<lambda>v. bindE (resolve_paths env experiment_paths p v) (parse_experiment env))"

section \<open>One candidate\<close>

text \<open>\<open>xe_code\<close> are the four sources whose hashes the report holds.\<close>

record experiment_env =
  xe_training :: training_env
  xe_snapshot :: "experiment_config \<Rightarrow> py"
  xe_code :: "(string \<times> path) list"

abbreviation xe_test :: "experiment_env \<Rightarrow> test_env" where
  "xe_test env \<equiv> tn_test (xe_training env)"

abbreviation xe_files :: "experiment_env \<Rightarrow> file_env" where
  "xe_files env \<equiv> tv_files (xe_test env)"

definition kind_of :: "model_candidate \<Rightarrow> string" where
  "kind_of m = (case m of LogisticCandidate _ _ \<Rightarrow> ''logistic_regression'' | ForestCandidate _ _ _ \<Rightarrow> ''random_forest'')"

definition candidate_root :: "experiment_config \<Rightarrow> string \<Rightarrow> path" where
  "candidate_root c name = path_join (xc_artifact_dir c) (Rel [''candidates'', name])"

text \<open>\<open>train_model\<close> of the module that the kind of the candidate names.\<close>

definition train_candidate :: "experiment_env \<Rightarrow> experiment_config \<Rightarrow> model_candidate \<Rightarrow> (store, py) act" where
  "train_candidate env c m =
     (let common = xc_common c; prefix = path_join (xc_artifact_dir c) (Rel [''candidate_reports'', candidate_name m]) in
      case m of
        LogisticCandidate name r \<Rightarrow> train_lr (xe_training env)
          \<lparr>tp_dataset = xc_dataset_id c, tp_dataset_dir = xc_dataset_dir c, tp_artifact_dir = candidate_root c name, tp_report_prefix = prefix,
            lc_C = r, lc_max_iter = cp_lr_max_iter common, lc_tol = cp_lr_tol common, lc_random_state = cp_random_state common\<rparr>
      | ForestCandidate name leaf depth \<Rightarrow> train_rf (xe_training env)
          \<lparr>tp_dataset = xc_dataset_id c, tp_dataset_dir = xc_dataset_dir c, tp_artifact_dir = candidate_root c name, tp_report_prefix = prefix,
            rc_n_estimators = cp_rf_estimators common, rc_max_depth = depth, rc_min_samples_leaf = leaf,
            rc_random_state = cp_random_state common\<rparr>)"

definition fit_candidate :: "experiment_env \<Rightarrow> experiment_config \<Rightarrow> op_data \<Rightarrow> model_candidate \<Rightarrow> (store, py \<times> pyfloat list) act" where
  "fit_candidate env c data m =
     (let fe = xe_files env; root = candidate_root c (candidate_name m); source = od_validation data in
      bindS (train_candidate env c m) (\<lambda>result.
      bindS (liftS (rejectE (ValueError ''inputs changed'') [item_ne result ''input_sha256'' (input_hashes data)])) (\<lambda>_.
      bindS (reading (\<lambda>s. read_stored fe s (in_dir root ''pipeline.joblib''))) (\<lambda>content.
      bindS (liftS (rejectE (ValueError ''artifact hash'')
        [path_ne result [''artifacts'', ''pipeline.joblib'', ''sha256''] (PyStr (fv_sha fe content))])) (\<lambda>_.
      bindS (liftS (tv_predict (xe_test env) content (op_X source))) (\<lambda>probability.
      bindS (liftS (calculate_metrics (je_lib (tv_judge (xe_test env))) (op_y source) probability (Fin (1 / 2)))) (\<lambda>metrics.
      bindS (liftS (rejectE (ValueError ''metrics at 0.5'') [item_ne result ''validation_metrics'' metrics])) (\<lambda>_.
      retS (result, probability)))))))))"

text \<open>What the code stores as \<open>training_acceptable\<close>.\<close>

definition acceptable :: "model_candidate \<Rightarrow> py \<Rightarrow> py res" where
  "acceptable m result = (if kind_of m = ''random_forest'' then Inr (PyBool True)
     else path_items result [''training'', ''convergence'', ''converged''])"

definition grid_trial ::
    "experiment_env \<Rightarrow> experiment_config \<Rightarrow> op_data \<Rightarrow> model_candidate \<Rightarrow> py \<Rightarrow> pyfloat list \<Rightarrow> pyfloat \<Rightarrow> py res" where
  "grid_trial env c data m ok probability t =
     (let source = od_validation data in
      bindE (calculate_metrics (je_lib (tv_judge (xe_test env))) (op_y source) probability t) (\<lambda>metrics.
      bindE (eligibility_reasons metrics (truthy ok) (xc_rule c)) (\<lambda>reasons.
      Inr (PyDict [(''candidate_id'', PyStr (candidate_name m)), (''kind'', PyStr (kind_of m)), (''threshold'', PyFloat t),
        (''training_acceptable'', ok), (''eligible'', PyBool (reasons = [])), (''rejection_reasons'', py_strs reasons),
        (''metrics'', metrics), (''validation_by_scenario'', scenario_metrics source (decide t probability))]))))"

definition settings_document :: "model_candidate \<Rightarrow> py" where
  "settings_document m = (case m of
     LogisticCandidate name c \<Rightarrow> PyDict [(''id'', PyStr name), (''kind'', PyStr (kind_of m)), (''C'', PyFloat c)]
   | ForestCandidate name leaf depth \<Rightarrow> PyDict [(''id'', PyStr name), (''kind'', PyStr (kind_of m)), (''min_samples_leaf'', PyInt leaf),
       (''max_depth'', (case depth of None \<Rightarrow> PyNone | Some n \<Rightarrow> PyInt n))])"

definition candidate_entry :: "model_candidate \<Rightarrow> py \<Rightarrow> py \<Rightarrow> py option \<Rightarrow> py res" where
  "candidate_entry m ok result best =
     bindE (mapE (py_item result) [''training'', ''train_metrics'', ''validation_metrics'']) (\<lambda>r.
     bindE (path_items result [''artifacts'', ''pipeline.joblib'', ''sha256'']) (\<lambda>h.
     Inr (PyDict [(''id'', PyStr (candidate_name m)), (''kind'', PyStr (kind_of m)), (''specification'', settings_document m),
       (''training_acceptable'', ok), (''training'', r ! 0), (''train_metrics'', r ! 1), (''default_validation_metrics'', r ! 2),
       (''best_feasible_trial'', (case best of None \<Rightarrow> PyNone | Some t \<Rightarrow> t)),
       (''pipeline_path'', PyStr (''candidates/'' @ candidate_name m @ ''/pipeline.joblib'')), (''pipeline_sha256'', h),
       (''candidate_report_path'', PyStr (''candidate_reports/'' @ candidate_name m @ ''.json''))])))"

text \<open>What the loop has so far: the trials, the entries, the probabilities and the last result.\<close>

record grid =
  gd_trials :: "py list"
  gd_entries :: "py list"
  gd_scores :: "(string \<times> pyfloat list) list"
  gd_last :: "py option"

definition run_candidate ::
    "experiment_env \<Rightarrow> experiment_config \<Rightarrow> op_data \<Rightarrow> grid \<Rightarrow> model_candidate \<Rightarrow> (store, grid) act" where
  "run_candidate env c data g m =
     bindS (fit_candidate env c data m) (\<lambda>(result, probability).
     bindS (liftS (acceptable m result)) (\<lambda>ok.
     bindS (liftS (mapE (grid_trial env c data m ok probability) (xc_thresholds c))) (\<lambda>trials.
     bindS (liftS (choose_eligible (xc_rule c) trials)) (\<lambda>best.
     bindS (liftS (candidate_entry m ok result best)) (\<lambda>entry.
     retS \<lparr>gd_trials = gd_trials g @ trials, gd_entries = gd_entries g @ [entry],
       gd_scores = dict_set (candidate_name m) probability (gd_scores g), gd_last = Some result\<rparr>)))))"

section \<open>The selection\<close>

definition rule_document :: "selection_rule \<Rightarrow> py" where
  "rule_document r = PyDict [(''max_false_positive_rate'', PyFloat (rule_max_fpr r)), (''min_recall'', PyFloat (rule_min_recall r)),
     (''primary_metric'', PyStr ''recall''), (''tie_breakers'', py_strs TIE_BREAKERS)]"

definition eligible_count :: "py list \<Rightarrow> int" where
  "eligible_count trials = int (length (filter (\<lambda>t. py_item t ''eligible'' = Inr (PyBool True)) trials))"

definition selected_files :: "experiment_env \<Rightarrow> experiment_config \<Rightarrow> py \<Rightarrow> store \<Rightarrow> (string \<times> py) list res" where
  "selected_files env c t s =
     bindE (str_item t ''candidate_id'') (\<lambda>name. bindE (py_item t ''threshold'') (\<lambda>threshold.
     bindE (file_sha (xe_files env) s (in_dir (candidate_root c name) ''pipeline.joblib'')) (\<lambda>h.
     let file = (\<lambda>n. PyStr (''candidates/'' @ name @ ''/'' @ n)) in
     Inr [(''model_path'', file ''pipeline.joblib''), (''model_sha256'', PyStr h), (''feature_schema_path'', file ''feature_schema.json''),
       (''label_map_path'', file ''label_map.json''), (''threshold'', threshold)])))"

definition selection_document ::
    "experiment_env \<Rightarrow> experiment_config \<Rightarrow> op_data \<Rightarrow> string \<Rightarrow> py list \<Rightarrow> py option \<Rightarrow> store \<Rightarrow> py res" where
  "selection_document env c data protocol_sha trials selected s =
     bindE (py_item (od_schema data) ''feature_contract_id'') (\<lambda>contract_id.
     bindE (case selected of None \<Rightarrow> Inr [] | Some t \<Rightarrow> selected_files env c t s) (\<lambda>files.
     Inr (PyDict (dict_update
       ([(''status'', PyStr (if selected = None then ''no_feasible_candidate'' else ''selected'')),
         (''selection_scope'', PyStr ''validation_baseline_only''),
         (''selected_trial'', (case selected of None \<Rightarrow> PyNone | Some t \<Rightarrow> t)), (''rule'', rule_document (xc_rule c)),
         (''eligible_trial_count'', PyInt (eligible_count trials)),
         (''reason'', PyStr (if selected = None then ''no eligible combination'' else ''by the rule'')), (''protocol_sha256'', PyStr protocol_sha),
         (''feature_contract_id'', contract_id), (''feature_order'', py_strs MESSAGE_FEATURE_ORDER),
         (''label_map'', label_map_document),
         (''positive_class'', PyInt 1), (''comparison'', PyStr ''>='')] @
        map (\<lambda>k. (k, PyBool False)) [''refit_with_validation'', ''test_evaluated'', ''final_model_selected'', ''deployment_ready''] @
        map (\<lambda>k. (k, PyNone)) [''model_path'', ''model_sha256'', ''feature_schema_path'', ''label_map_path'', ''threshold'']) files))))"

definition selected_predictions :: "op_data \<Rightarrow> (string \<times> pyfloat list) list \<Rightarrow> py \<Rightarrow> columns res" where
  "selected_predictions data scores t =
     bindE (bindE (str_item t ''candidate_id'') (lookupE scores)) (\<lambda>probability.
     bindE (bindE (py_item t ''threshold'') threshold_value) (\<lambda>threshold.
     Inr (prediction_columns (od_validation data) threshold probability)))"

section \<open>The run\<close>

definition experiment_outputs :: "experiment_env \<Rightarrow> experiment_config \<Rightarrow> path list" where
  "experiment_outputs env c = map (tv_suffix (xe_test env) (xc_report_prefix c)) [''.json'', ''.md'']"

definition check_experiment_locations :: "experiment_env \<Rightarrow> store \<Rightarrow> experiment_config \<Rightarrow> unit res" where
  "check_experiment_locations env s c =
     (let res = fv_resolve (xe_files env); outputs = experiment_outputs env c in
      bindE (check (s (xc_artifact_dir c) = None \<and> list_all (\<lambda>p. s p = None) outputs) (FileExistsError ''experiment'')) (\<lambda>_.
      check (\<not> list_ex (\<lambda>p. is_relative_to (res p) (res (xc_dataset_dir c))) (xc_artifact_dir c # outputs))
        (ValueError ''inside the dataset'')))"

definition experiment_data :: "experiment_env \<Rightarrow> experiment_config \<Rightarrow> store \<Rightarrow> op_data res" where
  "experiment_data env c s = fst (load_operational_data (store_load (xe_files env) s (xc_dataset_dir c)) (xc_dataset_id c) [])"

definition experiment_lock :: "experiment_env \<Rightarrow> experiment_config \<Rightarrow> op_data \<Rightarrow> string \<Rightarrow> py" where
  "experiment_lock env c data h = PyDict
     [(''status'', PyStr ''locked_before_fit''), (''locked_at_utc'', PyStr (fv_now (xe_files env))), (''protocol_sha256'', PyStr h),
      (''protocol'', xe_snapshot env c), (''input_sha256'', input_hashes data)]"

definition experiment_kept :: "experiment_env \<Rightarrow> experiment_config \<Rightarrow> op_data \<Rightarrow> path \<Rightarrow> string \<Rightarrow> store \<Rightarrow> unit res" where
  "experiment_kept env c data lock_path lock_sha s =
     bindE (experiment_data env c s) (\<lambda>again.
     bindE (check (py_eq (input_hashes again) (input_hashes data)) (ValueError ''inputs or lock changed'')) (\<lambda>_.
     bindE (file_sha (xe_files env) s lock_path) (\<lambda>h. check (h = lock_sha) (ValueError ''inputs or lock changed''))))"

definition experiment_report ::
    "experiment_env \<Rightarrow> experiment_config \<Rightarrow> op_data \<Rightarrow> string \<Rightarrow> grid \<Rightarrow> py \<Rightarrow> (string \<times> py) list \<Rightarrow> store \<Rightarrow> py res" where
  "experiment_report env c data protocol_sha g selection outputs s =
     (let fe = xe_files env in
      bindE (py_item (od_schema data) ''feature_contract_id'') (\<lambda>contract_id.
      bindE (case gd_last g of None \<Rightarrow> Inl (ValueError ''result'') | Some r \<Rightarrow> py_item r ''dataset_splits'') (\<lambda>splits.
      bindE (code_hashes fe s (xe_code env)) (\<lambda>code.
      Inr (PyDict ([(''report_version'', PyStr ''v1''), (''generated_at_utc'', PyStr (fv_now fe)),
        (''experiment_id'', PyStr (xc_experiment_id c)), (''dataset_id'', PyStr (xc_dataset_id c)), (''feature_contract_id'', contract_id),
        (''feature_order'', py_strs MESSAGE_FEATURE_ORDER), (''protocol'', xe_snapshot env c), (''protocol_sha256'', PyStr protocol_sha),
        (''input_sha256'', input_hashes data), (''fit_scope'', PyStr ''train_only''), (''selection_split'', PyStr ''validation'')] @
        map (\<lambda>k. (k, PyBool False)) [''test_files_read'', ''test_evaluated'', ''refit_with_validation'', ''final_model_selected'', ''deployment_ready''] @
        [(''dataset_splits'', splits), (''candidates'', PyList (gd_entries g)), (''trials'', PyList (gd_trials g)),
         (''selection'', selection), (''artifacts'', PyDict outputs), (''code_sha256'', PyDict code),
         (''limitations'', py_strs (tv_limitations (xe_test env)))]))))))"

definition experiment_manifest ::
    "experiment_env \<Rightarrow> experiment_config \<Rightarrow> op_data \<Rightarrow> string \<Rightarrow> py \<Rightarrow> (string \<times> py) list \<Rightarrow> store \<Rightarrow> py res" where
  "experiment_manifest env c data protocol_sha selection outputs s =
     bindE (py_item selection ''status'') (\<lambda>status.
     bindE (lock_code (xe_files env) s (experiment_outputs env c)) (\<lambda>reports.
     Inr (PyDict [(''status'', PyStr ''complete''), (''selection_status'', status), (''experiment_id'', PyStr (xc_experiment_id c)),
       (''protocol_sha256'', PyStr protocol_sha), (''input_sha256'', input_hashes data), (''artifacts'', PyDict outputs),
       (''reports'', PyDict reports), (''deployment_ready'', PyBool False)])))"

text \<open>From the finished grid to the manifest.\<close>

definition finish_experiment ::
    "experiment_env \<Rightarrow> experiment_config \<Rightarrow> op_data \<Rightarrow> string \<Rightarrow> grid \<Rightarrow> (store, py) act" where
  "finish_experiment env c data protocol_sha g =
     (let fe = xe_files env; te = xe_test env; base = xc_artifact_dir c; outs = experiment_outputs env c in
      bindS (liftS (choose_eligible (xc_rule c) (gd_trials g))) (\<lambda>selected.
      bindS (reading (selection_document env c data protocol_sha (gd_trials g) selected)) (\<lambda>selection.
      bindS (case selected of None \<Rightarrow> retS ()
        | Some t \<Rightarrow> bindS (liftS (selected_predictions data (gd_scores g) t)) (\<lambda>table.
            modifyS (\<lambda>s. s(in_dir base ''selected_validation_predictions.csv'' \<mapsto> Content (tv_csv te table))))) (\<lambda>_.
      bindS (write_new fe (in_dir base ''selection.json'') selection) (\<lambda>_.
      bindS (reading (inventory_of te base)) (\<lambda>outputs.
      bindS (reading (experiment_report env c data protocol_sha g selection outputs)) (\<lambda>report.
      bindS (write_new fe (outs ! 0) report) (\<lambda>_.
      bindS (write_text fe (outs ! 1) (tv_render te report)) (\<lambda>_.
      bindS (reading (experiment_manifest env c data protocol_sha selection outputs)) (\<lambda>manifest.
      bindS (write_new fe (in_dir base ''experiment_manifest.json'') manifest) (\<lambda>_.
      retS report)))))))))))"

definition run_experiment :: "experiment_env \<Rightarrow> experiment_config \<Rightarrow> (store, py) act" where
  "run_experiment env c =
     (let fe = xe_files env; base = xc_artifact_dir c; lock_path = in_dir base ''protocol_lock.json'' in
      bindS (reading (\<lambda>s. check_experiment_locations env s c)) (\<lambda>_.
      bindS (reading (experiment_data env c)) (\<lambda>data.
      bindS (liftS (kl_digest (tv_cost (xe_test env)) (xe_snapshot env c))) (\<lambda>protocol_sha.
      bindS (make_dir fe base) (\<lambda>_.
      bindS (write_new fe lock_path (experiment_lock env c data protocol_sha)) (\<lambda>_.
      bindS (reading (\<lambda>s. file_sha fe s lock_path)) (\<lambda>lock_sha.
      bindS (foldA (run_candidate env c data) \<lparr>gd_trials = [], gd_entries = [], gd_scores = [], gd_last = None\<rparr> (xc_candidates c)) (\<lambda>g.
      bindS (reading (experiment_kept env c data lock_path lock_sha)) (\<lambda>_.
      finish_experiment env c data protocol_sha g)))))))))"

end
