(* ===== verification/Validation_Proofs.thy ===== *)
theory Validation_Proofs
  imports Validation_Experiment Final_Confirm
begin

text \<open>
  What the report of the validation experiment says: its trials are the grid of the locked candidates
  and thresholds, and its selection is the best eligible one of them.
\<close>

section \<open>The grid\<close>

definition trial_of :: "model_candidate \<Rightarrow> pyfloat \<Rightarrow> selection_rule \<Rightarrow> py \<Rightarrow> bool" where
  "trial_of m x rule t \<longleftrightarrow> py_item t ''candidate_id'' = Inr (PyStr (candidate_name m)) \<and> py_item t ''threshold'' = Inr (PyFloat x) \<and>
     (\<exists>reasons. trial_eligibility rule t = Inr reasons \<and> py_item t ''eligible'' = Inr (PyBool (reasons = [])))"

lemma grid_trial_facts: "grid_trial env c data m ok p x = Inr t \<Longrightarrow> trial_of m x (xc_rule c) t"
  by (auto simp: grid_trial_def Let_def bindE_Inr_iff trial_of_def trial_eligibility_def lookupE_def)

lemma grid_trials_facts:
  "mapE (grid_trial env c data m ok p) xs = Inr ts \<Longrightarrow> list_all2 (\<lambda>(m, x). trial_of m x (xc_rule c)) (map (Pair m) xs) ts"
  by (auto simp: mapE_Inr_iff list.rel_map intro: list.rel_mono_strong dest: grid_trial_facts)

lemma run_candidate_trials:
  assumes "run_candidate env c data g m s = (Inr g', s')"
  shows "\<exists>ts. gd_trials g' = gd_trials g @ ts \<and>
    list_all2 (\<lambda>(m, x). trial_of m x (xc_rule c)) (map (Pair m) (xc_thresholds c)) ts"
  using assms unfolding run_candidate_def
  by (auto simp: bindS_Inr_iff split: prod.splits dest!: grid_trials_facts)

lemma grid_product:
  assumes "foldA (run_candidate env c data) g ms s = (Inr g', s')"
  shows "\<exists>ts. gd_trials g' = gd_trials g @ ts \<and>
    list_all2 (\<lambda>(m, x). trial_of m x (xc_rule c)) (List.product ms (xc_thresholds c)) ts"
  using assms
proof (induction ms arbitrary: g s)
  case Nil
  then show ?case by simp
next
  case (Cons m ms)
  from Cons.prems obtain h u where h: "run_candidate env c data g m s = (Inr h, u)"
    "foldA (run_candidate env c data) h ms u = (Inr g', s')" by (auto simp: bindS_Inr_iff)
  obtain ts where "gd_trials h = gd_trials g @ ts"
    "list_all2 (\<lambda>(m, x). trial_of m x (xc_rule c)) (map (Pair m) (xc_thresholds c)) ts"
    using run_candidate_trials [OF h(1)] by blast
  moreover obtain us where "gd_trials g' = gd_trials h @ us"
    "list_all2 (\<lambda>(m, x). trial_of m x (xc_rule c)) (List.product ms (xc_thresholds c)) us"
    using Cons.IH [OF h(2)] by blast
  ultimately show ?case by (auto intro!: list_all2_appendI)
qed

lemma list_all2_source: "list_all2 P xs ys \<Longrightarrow> y \<in> set ys \<Longrightarrow> \<exists>x\<in>set xs. P x y"
  by (induction rule: list_all2_induct) auto

section \<open>Eligible trials have a rank\<close>

lemma parse_experiment_thresholds:
  assumes "parse_experiment env v = Inr c"
  shows "list_all is_finite (xc_thresholds c)"
proof -
  from assms obtain d where "required_field d ''thresholds'' (sized_list 1 15 (float_field (\<lambda>x. flt (Fin 0) x \<and> flt x (Fin 1)))) =
      Inr (xc_thresholds c)"
    by (auto simp: parse_experiment_def bindE_Inr_iff)
  then obtain xs where "mapE (float_field (\<lambda>x. flt (Fin 0) x \<and> flt x (Fin 1))) xs = Inr (xc_thresholds c)"
    by (auto simp: required_field_def sized_list_def bindE_Inr_iff split: option.splits)
  then show ?thesis
    by (auto simp: mapE_Inr_iff list_all2_conv_all_nth list_all_length dest!: float_field_finite)
qed

lemma eligible_rates:
  assumes "eligibility_reasons metrics ok rule = Inr []" and "k \<in> {''false_positive_rate'', ''recall'', ''f1''}"
  shows "\<exists>v x. py_item metrics k = Inr v \<and> finite_num v = Some x"
proof -
  have "list_all (\<lambda>r. r = Inr False) (map (not_a_rate metrics) [''false_positive_rate'', ''recall'', ''f1''])"
    using assms(1) unfolding eligibility_reasons_def unless_Inr_Nil anyE_False_iff by blast
  then have "not_a_rate metrics k = Inr False" using assms(2) by auto
  then show ?thesis using accepted_rate by blast
qed

lemma eligible_ranked:
  assumes "trial_of m x rule t" and "is_finite x" and "trial_eligibility rule t = Inr []"
  shows "trial_rank t \<noteq> None"
proof -
  from assms(3) obtain metrics ok where e: "py_item t ''metrics'' = Inr metrics" "eligibility_reasons metrics ok rule = Inr []"
    by (auto simp: trial_eligibility_def bindE_Inr_iff)
  obtain v1 x1 v2 x2 v3 x3 where v: "py_item metrics ''recall'' = Inr v1" "finite_num v1 = Some x1"
    "py_item metrics ''f1'' = Inr v2" "finite_num v2 = Some x2" "py_item metrics ''false_positive_rate'' = Inr v3" "finite_num v3 = Some x3"
    using eligible_rates [OF e(2)] by (metis insertCI)
  obtain w1 w2 where w: "py_neg v1 = Inr w1" "finite_num w1 = Some (- x1)" "py_neg v2 = Inr w2" "finite_num w2 = Some (- x2)"
    using py_neg_finite [OF v(2)] py_neg_finite [OF v(4)] by blast
  have "trial_key t = Inr [w1, w2, v3, PyStr (candidate_name m), PyFloat x]"
    using assms(1) e(1) v(1,3,5) w(1,3) by (simp add: trial_key_def trial_of_def)
  then show ?thesis using v(6) w(2,4) finite_num_float [OF assms(2)] by (simp add: trial_rank_def rank_def)
qed

section \<open>The report\<close>

lemma bindS_InrE:
  assumes "bindS m f s = (Inr b, u)"
  obtains a t where "m s = (Inr a, t)" "f a t = (Inr b, u)"
  using assms by (auto simp: bindS_Inr_iff)

lemma bindS_readingE:
  assumes "bindS (reading f) g s = (Inr b, u)"
  obtains a where "f s = Inr a" "g a s = (Inr b, u)"
  using assms by (auto simp: bindS_Inr_iff reading_Inr)

lemma bindS_liftE:
  assumes "bindS (liftS r) g s = (Inr b, u)"
  obtains a where "r = Inr a" "g a s = (Inr b, u)"
  using assms by (auto simp: bindS_Inr_iff)

text \<open>Taking a run apart, the pure steps first.\<close>

lemmas act_cases = bindS_readingE bindS_liftE bindS_InrE

lemma run_experiment_Inr:
  assumes "run_experiment env c s = (Inr report, s')"
  shows "\<exists>data lock_sha h g t u kept. experiment_data env c s = Inr data \<and>
    foldA (run_candidate env c data) \<lparr>gd_trials = [], gd_entries = [], gd_scores = [], gd_last = None\<rparr> (xc_candidates c) t = (Inr g, u) \<and>
    experiment_kept env c data (in_dir (xc_artifact_dir c) ''protocol_lock.json'') lock_sha u = Inr kept \<and>
    finish_experiment env c data h g u = (Inr report, s')"
  using assms unfolding run_experiment_def Let_def
  by (elim act_cases) blast

lemma selection_trial:
  assumes "selection_document env c data h trials selected s = Inr v"
  shows "py_item v ''selected_trial'' = Inr (option_or_none id selected)"
proof -
  have "map_of (rev files) ''selected_trial'' = None" if "selected_files env c t s = Inr files" for t files
    using that by (auto simp: selected_files_def bindE_Inr_iff Let_def)
  with assms show ?thesis
    by (auto simp: selection_document_def bindE_Inr_iff lookupE_def dict_get_update option_or_none_def split: option.splits)
qed

lemma experiment_report_items:
  assumes "experiment_report env c data h g selection outputs s = Inr report"
  shows "py_item report ''trials'' = Inr (PyList (gd_trials g))" and "py_item report ''input_sha256'' = Inr (input_hashes data)"
    and "py_item report ''selection'' = Inr selection"
  using assms by (auto simp: experiment_report_def Let_def bindE_Inr_iff lookupE_def)

lemma finish_experiment_Inr:
  assumes "finish_experiment env c data h g u = (Inr report, s')"
  shows "\<exists>selected selection outputs v. choose_eligible (xc_rule c) (gd_trials g) = Inr selected \<and>
    selection_document env c data h (gd_trials g) selected u = Inr selection \<and>
    experiment_report env c data h g selection outputs v = Inr report"
  using assms unfolding finish_experiment_def Let_def
  by (elim act_cases) (simp only: act_simps, blast)

lemma choose_eligible_spec:
  assumes "choose_eligible rule trials = Inr selected"
    and "\<And>t. t \<in> set trials \<Longrightarrow> trial_eligibility rule t = Inr [] \<Longrightarrow> trial_rank t \<noteq> None"
  shows "case selected of None \<Rightarrow> \<forall>t\<in>set trials. \<exists>r. trial_eligibility rule t = Inr r \<and> r \<noteq> []
    | Some t \<Rightarrow> t \<in> set trials \<and> trial_eligibility rule t = Inr [] \<and>
        (\<forall>u\<in>set trials. trial_eligibility rule u = Inr [] \<longrightarrow> the (trial_rank t) \<le> the (trial_rank u))"
  using choose_by_spec [OF assms(1) [unfolded choose_eligible_def] assms(2)] .


end
