(* ===== verification/Training_Proofs.thy ===== *)
theory Training_Proofs
  imports Validation_Proofs
begin

text \<open>What a finished training leaves: the stored pipeline is the one the report is about.\<close>

lemma in_dir_eq: "in_dir p a = in_dir p b \<longleftrightarrow> a = b"
  by (cases p) (auto simp: in_dir_def)

lemma same_scores: "list_all2 feq p q \<Longrightarrow> p = q"
  by (induction rule: list_all2_induct) (auto simp: feq_iff)

lemma store_training_Inr:
  assumes "store_training env c data content p preprocessing own draft s = (Inr r, t)"
  shows "t (in_dir (tp_artifact_dir c) ''pipeline.joblib'') = Some (Content content)"
    and "tv_predict (tn_test env) (Content content) (op_X (od_validation data)) = Inr p"
    and "\<exists>artifacts. r = PyDict (draft @ [(''artifacts'', artifacts)])" and "s (tp_artifact_dir c) = None"
    and "\<exists>v. t (in_dir (tp_artifact_dir c) ''training_manifest.json'') = Some (Document v) \<and> py_item v ''status'' = Inr (PyStr ''complete'')"
  using assms unfolding store_training_def Let_def
    by (auto simp: act_inv modifyS_def make_dir_def in_dir_eq check_def training_manifest_def bindE_Inr_iff lookupE_def dest!: same_scores
        split: if_splits)

lemma training_report_items:
  assumes "training_report env c data p q code own s = Inr draft"
  shows "\<exists>metrics. calculate_metrics (je_lib (tv_judge (tn_test env))) (op_y (od_validation data)) q TRAINING_THRESHOLD = Inr metrics \<and>
    map_of draft ''validation_metrics'' = Some metrics \<and> map_of draft ''input_sha256'' = Some (input_hashes data)"
  using assms by (auto simp: training_report_def Let_def bindE_Inr_iff)

text \<open>What both trainings promise of the report \<open>r\<close> and of the store before and after.\<close>

definition reproduced :: "training_env \<Rightarrow> 'a training_paths_scheme \<Rightarrow> store \<Rightarrow> py \<Rightarrow> store \<Rightarrow> bool" where
  "reproduced env c s r t \<longleftrightarrow> (\<exists>data content p metrics manifest. training_data env c s = Inr data \<and>
     py_item r ''input_sha256'' = Inr (input_hashes data) \<and>
     t (in_dir (tp_artifact_dir c) ''pipeline.joblib'') = Some (Content content) \<and>
     tv_predict (tn_test env) (Content content) (op_X (od_validation data)) = Inr p \<and>
     calculate_metrics (je_lib (tv_judge (tn_test env))) (op_y (od_validation data)) p TRAINING_THRESHOLD = Inr metrics \<and>
     py_item r ''validation_metrics'' = Inr metrics \<and> s (tp_artifact_dir c) = None \<and>
     t (in_dir (tp_artifact_dir c) ''training_manifest.json'') = Some (Document manifest) \<and>
     py_item manifest ''status'' = Inr (PyStr ''complete''))"

lemma training_reproduced:
  assumes "training_data env c s = Inr data" and "training_report env c data p q code own s = Inr draft"
    and "store_training env c data content q preprocessing entries draft s = (Inr r, t)"
  shows "reproduced env c s r t"
proof -
  obtain metrics where m: "calculate_metrics (je_lib (tv_judge (tn_test env))) (op_y (od_validation data)) q TRAINING_THRESHOLD = Inr metrics"
    "map_of draft ''validation_metrics'' = Some metrics" "map_of draft ''input_sha256'' = Some (input_hashes data)"
    using training_report_items [OF assms(2)] by blast
  obtain artifacts where r: "r = PyDict (draft @ [(''artifacts'', artifacts)])" using store_training_Inr(3) [OF assms(3)] by blast
  have items: "py_item r ''validation_metrics'' = Inr metrics" "py_item r ''input_sha256'' = Inr (input_hashes data)"
    using m(2,3) by (simp_all add: r map_add_def)
  show ?thesis
    unfolding reproduced_def
    using assms(1) m(1) items store_training_Inr(1,2,4,5) [OF assms(3)] by blast
qed

lemma train_lr_reproduced: "train_lr env c s = (Inr r, t) \<Longrightarrow> reproduced env c s r t"
  unfolding train_lr_def by (elim act_cases) (auto simp: act_inv split: prod.splits elim: training_reproduced)

lemma train_rf_reproduced: "train_rf env c s = (Inr r, t) \<Longrightarrow> reproduced env c s r t"
  unfolding train_rf_def by (elim act_cases) (auto simp: act_inv split: prod.splits elim: training_reproduced)

text \<open>
  C17: The metrics of a candidate are those of its stored pipeline. When \<open>train_model\<close> returns, of the
  logistic regression as of the random forest, the artifact directory was new and now holds the
  pipeline and a manifest that says complete. The pipeline read back from the file predicts the
  validation rows, and the metrics in the report are those of these predictions at the fixed threshold,
  on the data whose hashes the report names.
\<close>
theorem candidate_metrics_reproduced:
  assumes "train_candidate env c m s = (Inr r, t)"
  shows "\<exists>data content p metrics manifest. experiment_data env c s = Inr data \<and> py_item r ''input_sha256'' = Inr (input_hashes data) \<and>
    s (candidate_root c (candidate_name m)) = None \<and>
    t (in_dir (candidate_root c (candidate_name m)) ''pipeline.joblib'') = Some (Content content) \<and>
    tv_predict (xe_test env) (Content content) (op_X (od_validation data)) = Inr p \<and>
    calculate_metrics (je_lib (tv_judge (xe_test env))) (op_y (od_validation data)) p (Fin (1 / 2)) = Inr metrics \<and>
    py_item r ''validation_metrics'' = Inr metrics \<and>
    t (in_dir (candidate_root c (candidate_name m)) ''training_manifest.json'') = Some (Document manifest) \<and>
    py_item manifest ''status'' = Inr (PyStr ''complete'')"
proof (cases m)
  case (LogisticCandidate name r')
  from assms show ?thesis
    unfolding LogisticCandidate train_candidate_def Let_def model_candidate.case
    by (auto dest!: train_lr_reproduced simp: reproduced_def training_data_def experiment_data_def TRAINING_THRESHOLD_def)
next
  case (ForestCandidate name leaf depth)
  from assms show ?thesis
    unfolding ForestCandidate train_candidate_def Let_def model_candidate.case
    by (auto dest!: train_rf_reproduced simp: reproduced_def training_data_def experiment_data_def TRAINING_THRESHOLD_def)
qed

end
