(* ===== verification/Validation_Example.thy ===== *)
theory Validation_Example
  imports Training_Proofs Verdict_Example
begin

text \<open>
  A validation experiment with two candidates on the dataset of the loader's example. Their
  predictions are the same, so the tie goes to the smaller identifier.
\<close>

definition ex_files :: file_env where
  "ex_files = hold_env\<lparr>fv_load := demo_env, fv_path := (\<lambda>s. Abs [s])\<rparr>"

definition ex_document :: py where
  "ex_document = PyDict
     [(''experiment_id'', PyStr ''e''), (''dataset_id'', PyStr ''d''), (''dataset_dir'', PyStr ''d''), (''artifact_dir'', PyStr ''a''),
      (''report_prefix'', PyStr ''q''), (''thresholds'', PyList [PyFloat (Fin (1 / 2))]),
      (''selection_rule'', PyDict [(''max_false_positive_rate'', PyFloat (Fin (1 / 8)))]),
      (''candidates'', PyList
         [PyDict [(''id'', PyStr ''rf''), (''kind'', PyStr ''random_forest''), (''min_samples_leaf'', PyInt 2)],
          PyDict [(''id'', PyStr ''lr''), (''kind'', PyStr ''logistic_regression''), (''C'', PyFloat (Fin 1))]])]"

definition ex_rule :: selection_rule where
  "ex_rule = \<lparr>rule_max_fpr = Fin (1 / 8), rule_min_recall = Fin (1 / 2)\<rparr>"

definition ex_candidates :: "model_candidate list" where
  "ex_candidates = [ForestCandidate ''rf'' 2 None, LogisticCandidate ''lr'' (Fin 1)]"

definition ex_config :: experiment_config where
  "ex_config = \<lparr>xc_experiment_id = ''e'', xc_dataset_id = ''d'', xc_dataset_dir = hold_dir, xc_artifact_dir = Abs [''a''],
     xc_report_prefix = Abs [''q''], xc_thresholds = [Fin (1 / 2)], xc_rule = ex_rule, xc_common = default_common,
     xc_candidates = ex_candidates\<rparr>"

lemma ex_candidates_parsed:
  "parse_candidate (PyDict [(''id'', PyStr ''rf''), (''kind'', PyStr ''random_forest''), (''min_samples_leaf'', PyInt 2)]) =
     Inr (ForestCandidate ''rf'' 2 None)"
  "parse_candidate (PyDict [(''id'', PyStr ''lr''), (''kind'', PyStr ''logistic_regression''), (''C'', PyFloat (Fin 1))]) =
     Inr (LogisticCandidate ''lr'' (Fin 1))"
  by (simp_all add: parse_candidate_def required_field_def one_of_def candidate_id_field_def positive_count_def default_field_def
      float_field_def above_zero_def flt_def)

lemma ex_parsed: "parse_experiment ex_files ex_document = Inr ex_config"
proof -
  have rule: "parse_rule (PyDict [(''max_false_positive_rate'', PyFloat (Fin (1 / 8)))]) = Inr ex_rule"
    by (simp add: parse_rule_def default_field_def float_field_def is_rate_def flt_def check_def default_rule_def ex_rule_def)
  have space: "check_space ex_candidates [Fin (1 / 2)] = Inr ()"
    by (simp add: check_space_def ex_candidates_def check_def)
  have paths: "mapE (\<lambda>k. required_field d k (path_field ex_files)) experiment_paths = Inr [hold_dir, Abs [''a''], Abs [''q'']]"
    if "map_of d ''dataset_dir'' = Some (PyStr ''d'')" "map_of d ''artifact_dir'' = Some (PyStr ''a'')"
      "map_of d ''report_prefix'' = Some (PyStr ''q'')" for d
    using that by (simp add: experiment_paths_def required_field_def path_field_def ex_files_def hold_dir_def)
  have thresholds: "sized_list 1 15 (float_field (\<lambda>x. flt (Fin 0) x \<and> flt x (Fin 1))) (PyList [PyFloat (Fin (1 / 2))]) = Inr [Fin (1 / 2)]"
    by (simp add: sized_list_def check_def float_field_def flt_def)
  show ?thesis
    by (simp add: parse_experiment_def ex_document_def experiment_paths_def [THEN arg_cong [where f = set]] default_field_def required_field_def [of _ "''experiment_id''"]
        required_field_def [of _ "''dataset_id''"] required_field_def [of _ "''thresholds''"] required_field_def [of _ "''candidates''"]
        ident_field_def is_alnum_def paths thresholds rule sized_list_def [of 1 8] ex_candidates_parsed check_def space [unfolded ex_candidates_def] ex_candidates_def ex_config_def del: One_nat_def)
qed

section \<open>The environment\<close>

definition ex_scores :: "pyfloat list" where
  "ex_scores = [Fin (1 / 4), Fin (3 / 4)]"

text \<open>Both fits give the same predictions; a directory is listed in alphabetical order.\<close>

definition ex_listed :: "string list" where
  "ex_listed = [''decision_policy.json'', ''feature_schema.json'', ''label_map.json'', ''pipeline.joblib'', ''validation_predictions.csv'']"

definition ex_lr_fit :: lr_fit where
  "ex_lr_fit = \<lparr>ft_bytes = ''bytes'', ft_predict = (\<lambda>_. Inr ex_scores), ft_classes = [0, 1], lf_warnings = [], lf_iterations = 5,
     lf_weights = replicate 7 (Fin 1), lf_intercept = Fin 0, lf_mean = replicate 7 (Fin 0), lf_var = replicate 7 (Fin 1),
     lf_scale = replicate 7 (Fin 1), lf_samples = 2\<rparr>"

definition ex_rf_fit :: rf_fit where
  "ex_rf_fit = \<lparr>ft_bytes = ''bytes'', ft_predict = (\<lambda>_. Inr ex_scores), ft_classes = [0, 1], rf_trees = [(1, 3)],
     rf_importances = replicate 7 (1 / 7)\<rparr>"

definition ex_training :: training_env where
  "ex_training = \<lparr>tn_test = hold_test\<lparr>tv_files := ex_files,
       tv_suffix := (\<lambda>p suffix. case p of Abs q \<Rightarrow> Abs (q @ [suffix]) | Rel q \<Rightarrow> Rel (q @ [suffix])),
       tv_found := (\<lambda>s base. filter (\<lambda>p. s p \<noteq> None) (map (in_dir base) ex_listed))\<rparr>,
     tn_fit_lr = (\<lambda>_ _ _. Inr ex_lr_fit), tn_fit_rf = (\<lambda>_ _ _. Inr ex_rf_fit),
     tn_seconds = Fin 1, tn_mean = (\<lambda>_. Fin 1), tn_lr_code = [], tn_rf_code = []\<rparr>"

definition ex_env :: experiment_env where
  "ex_env = \<lparr>xe_training = ex_training, xe_snapshot = (\<lambda>_. PyStr ''snapshot''), xe_code = []\<rparr>"

definition ex_store :: store where
  "ex_store = map_of (map (\<lambda>n. (in_dir hold_dir n, Content n)) loaded_names)"

lemma ex_env_fields:
  "tv_files (tn_test ex_training) = ex_files" "xe_training ex_env = ex_training" "je_lib (tv_judge (tn_test ex_training)) = hold_scores"
  "tv_predict (tn_test ex_training) f X = Inr ex_scores" "xe_snapshot ex_env c = PyStr ''snapshot''" "xe_code ex_env = []"
  "kl_digest (tv_cost (tn_test ex_training)) v = Inr ''p''"
  "tv_found (tn_test ex_training) s base = filter (\<lambda>p. s p \<noteq> None) (map (in_dir base) ex_listed)"
  "tv_csv (tn_test ex_training) t = ''csv''" "tv_render (tn_test ex_training) v = ''md''"
  "tv_suffix (tn_test ex_training) (Abs q) x = Abs (q @ [x])"
  by (simp_all add: ex_env_def ex_training_def hold_test_def hold_judge_def hold_cost_lib_def ex_scores_def)

lemma ex_config_fields:
  "xc_experiment_id ex_config = ''e''" "xc_dataset_id ex_config = ''d''" "xc_dataset_dir ex_config = hold_dir"
  "xc_artifact_dir ex_config = Abs [''a'']" "xc_report_prefix ex_config = Abs [''q'']" "xc_thresholds ex_config = [Fin (1 / 2)]"
  "xc_rule ex_config = ex_rule" "xc_candidates ex_config = ex_candidates"
  by (simp_all add: ex_config_def)

lemma ex_file_env:
  "fv_load ex_files = demo_env" "fv_sha ex_files (Content t) = t" "fv_sha ex_files (Document v) = ''doc''" "fv_now ex_files = ''t''"
  "fv_resolve ex_files p = p" "stored_text ex_files (Content t) = t"
  by (simp_all add: ex_files_def hold_env_def fv_sha_def)

section \<open>Loading the data\<close>

definition dataset_kept :: "store \<Rightarrow> bool" where
  "dataset_kept s \<longleftrightarrow> (\<forall>n\<in>set loaded_names. s (in_dir hold_dir n) = Some (Content n))"

lemma ex_store_kept: "dataset_kept ex_store"
  by (simp add: dataset_kept_def ex_store_def loaded_names_def in_dir_def hold_dir_def)

lemma dataset_kept_upd: "dataset_kept s \<Longrightarrow> p \<notin> range (\<lambda>n. Abs [''d'', n]) \<Longrightarrow> dataset_kept (s(p \<mapsto> f))"
  by (auto simp: dataset_kept_def in_dir_def hold_dir_def)

lemma ex_load:
  assumes "dataset_kept s"
  shows "load_operational_data (store_load ex_files s hold_dir) ''d'' = load_operational_data demo_env ''d''"
proof -
  have "\<forall>n\<in>set loaded_names. le_bytes demo_env n = bindE (read_stored ex_files s (in_dir hold_dir n)) (\<lambda>f. Inr (stored_text ex_files f))"
    using assms by (simp add: dataset_kept_def read_stored_def ex_file_env)
  from load_local [OF this] show ?thesis by (simp add: store_load_def ex_file_env)
qed

lemma ex_loaded:
  obtains data where "\<And>s. dataset_kept s \<Longrightarrow> fst (load_operational_data (store_load ex_files s hold_dir) ''d'' []) = Inr data"
    "op_y (od_train data) = [0, 1]" "op_y (od_validation data) = [0, 1]" "od_schema data = demo_schema"
    "py_eq (input_hashes data) (input_hashes data)"
proof -
  obtain data e where d: "load_operational_data demo_env ''d'' [] = (Inr data, e)"
    "op_y (od_train data) = [0, 1]" "op_y (od_validation data) = [0, 1]" "od_schema data = demo_schema"
    using demo_load_data by (auto simp: demo_split_def)
  have "map fst (od_evidence data) = loaded_names" using loaded_evidence [OF d(1)] by blast
  moreover have "distinct loaded_names" by (simp add: loaded_names_def)
  ultimately have "distinct (map fst (od_evidence data))" by (simp only:)
  moreover have "self_eq (PyStr h)" for h by (simp add: self_eq_def json_clean.intros)
  ultimately have "self_eq (input_hashes data)"
    by (auto simp: input_hashes_def self_eq_dict comp_def case_prod_unfold)
  from that [OF _ d(2-4) self_eq_refl [OF this]] d(1) show ?thesis by (simp add: ex_load)
qed

definition ex_metrics :: py where
  "ex_metrics = PyDict (map (\<lambda>(n, x). (n, if n = ''rows'' then PyInt x else PyFloat (Fin (of_int x))))
     [(''rows'', 2), (''accuracy'', 1), (''precision'', 1), (''recall'', 1), (''f1'', 1), (''roc_auc'', 1), (''average_precision'', 1),
      (''log_loss'', 0), (''false_positive_rate'', 0), (''false_negative_rate'', 0)] @
     [(''confusion_matrix'', confusion_document (1, 0, 0, 1))])"

lemma ex_scored: "calculate_metrics hold_scores [0, 1] p t = Inr ex_metrics"
  by (simp add: calculate_metrics_def Let_def hold_scores_def ratioE_def hold_ratio ex_metrics_def)

lemma ex_metrics:
  "py_eq ex_metrics ex_metrics" "py_item ex_metrics ''false_positive_rate'' = Inr (PyFloat (Fin 0))"
  "py_item ex_metrics ''recall'' = Inr (PyFloat (Fin 1))" "py_item ex_metrics ''f1'' = Inr (PyFloat (Fin 1))"
  by code_simp+

section \<open>Training one candidate\<close>

text \<open>A run of the example: its data, and what each candidate finds and leaves in the store.\<close>

definition ex_data :: "op_data \<Rightarrow> bool" where
  "ex_data data \<longleftrightarrow> op_y (od_train data) = [0, 1] \<and> op_y (od_validation data) = [0, 1] \<and> od_schema data = demo_schema \<and>
     py_eq (input_hashes data) (input_hashes data) \<and>
     (\<forall>s. dataset_kept s \<longrightarrow> fst (load_operational_data (store_load ex_files s hold_dir) ''d'' []) = Inr data)"

lemma ex_data: "\<exists>data. ex_data data"
  using ex_loaded unfolding ex_data_def by metis

definition ex_free :: "string \<Rightarrow> store \<Rightarrow> bool" where
  "ex_free n s \<longleftrightarrow> (\<forall>d q. s (Abs (''a'' # d # n # q)) = None)"

definition ex_adds :: "string \<Rightarrow> store \<Rightarrow> store \<Rightarrow> bool" where
  "ex_adds n s t \<longleftrightarrow> (\<forall>p. (\<forall>d q. p \<noteq> Abs (''a'' # d # n # q)) \<longrightarrow> t p = s p) \<and>
     t (Abs [''a'', ''candidates'', n, ''pipeline.joblib'']) = Some (Content ''bytes'')"

definition ex_result :: "op_data \<Rightarrow> py \<Rightarrow> bool" where
  "ex_result data r \<longleftrightarrow> py_item r ''input_sha256'' = Inr (input_hashes data) \<and>
     path_items r [''artifacts'', ''pipeline.joblib'', ''sha256''] = Inr (PyStr ''bytes'') \<and>
     py_item r ''validation_metrics'' = Inr ex_metrics \<and> py_item r ''train_metrics'' = Inr ex_metrics \<and>
     (\<exists>v. py_item r ''training'' = Inr v) \<and> (\<exists>v. py_item r ''dataset_splits'' = Inr v)"

lemma ex_training_fields:
  "tn_fit_lr ex_training c X y = Inr ex_lr_fit" "tn_fit_rf ex_training k X y = Inr ex_rf_fit" "tn_lr_code ex_training = []" "tn_rf_code ex_training = []"
  by (simp_all add: ex_env_def ex_training_def)

lemma ex_contract: "ex_data data \<Longrightarrow> py_item (od_schema data) ''feature_contract_id'' = Inr (PyStr ''f'')"
  by (simp add: ex_data_def demo_schema_def lookupE_def)

lemma ex_report:
  assumes "ex_data data"
  shows "\<exists>r. training_report ex_training c data p q [] own s = Inr r \<and>
    map_of r ''input_sha256'' = Some (input_hashes data) \<and> map_of r ''validation_metrics'' = Some ex_metrics \<and>
    map_of r ''train_metrics'' = Some ex_metrics \<and> (\<exists>v. map_of r ''dataset_splits'' = Some v) \<and>
    map_of r ''training'' = map_of own ''training'' \<and> map_of r ''artifacts'' = map_of own ''artifacts''"
proof -
  have y: "op_y (od_train data) = [0, 1]" "op_y (od_validation data) = [0, 1]" using assms by (simp_all add: ex_data_def)
  show ?thesis
    by (simp add: training_report_def Let_def ex_training_fields ex_env_fields y ex_scored ex_contract [OF assms] code_hashes_def)
qed

lemma ex_stored:
  assumes "ex_data data" and "ex_free n s" and "tp_artifact_dir c = Abs [''a'', ''candidates'', n]"
    and "tp_report_prefix c = Abs [''a'', ''candidate_reports'', n]"
  shows "\<exists>artifacts t. store_training ex_training c data ''bytes'' ex_scores preprocessing own draft s =
      (Inr (PyDict (draft @ [(''artifacts'', PyDict artifacts)])), t) \<and> ex_adds n s t \<and>
    path_items (PyDict artifacts) [''pipeline.joblib'', ''sha256''] = Inr (PyStr ''bytes'')"
proof -
  have free: "s (Abs (''a'' # d # n # q)) = None" for d q using assms(2) by (simp add: ex_free_def)
  have same: "list_all2 feq ex_scores ex_scores" by (simp add: ex_scores_def)
  have contract: "py_item (od_schema data) ''feature_contract_id'' = Inr (PyStr ''f'')"
    using assms(1) by (simp add: ex_data_def demo_schema_def lookupE_def)
  obtain schema where schema: "fitted_schema data preprocessing = Inr schema"
    using assms(1) by (simp add: fitted_schema_def ex_data_def demo_schema_def)
  let ?d = "\<lambda>x. Abs [''a'', ''candidates'', n, x]" and ?q = "\<lambda>x. Abs [''a'', ''candidate_reports'', n, x]"
  define u where "u = s(Abs [''a'', ''candidates'', n] \<mapsto> Folder, ?d ''pipeline.joblib'' \<mapsto> Content ''bytes'', ?d ''feature_schema.json'' \<mapsto> Document schema,
    ?d ''label_map.json'' \<mapsto> Document label_map_document, ?d ''decision_policy.json'' \<mapsto> Document training_policy,
    ?d ''validation_predictions.csv'' \<mapsto> Content ''csv'')"
  have inventory: "\<exists>artifacts. inventory_of (tn_test ex_training) (Abs [''a'', ''candidates'', n]) u = Inr artifacts \<and>
      path_items (PyDict artifacts) [''pipeline.joblib'', ''sha256''] = Inr (PyStr ''bytes'')"
    by (simp add: inventory_of_def ex_env_fields ex_listed_def in_dir_def u_def read_stored_def ex_file_env lookupE_def)
  obtain artifacts where artifacts: "inventory_of (tn_test ex_training) (Abs [''a'', ''candidates'', n]) u = Inr artifacts"
    "path_items (PyDict artifacts) [''pipeline.joblib'', ''sha256''] = Inr (PyStr ''bytes'')" using inventory by blast
  let ?r = "PyDict (draft @ [(''artifacts'', PyDict artifacts)])"
  define v where "v = u(?q ''.json'' \<mapsto> Document ?r, ?q ''.md'' \<mapsto> Content ''md'')"
  have u_free: "u (?q x) = None" "u (?d ''training_manifest.json'') = None" for x by (simp_all add: u_def free)
  obtain manifest where manifest: "training_manifest ex_training c data own artifacts v = Inr manifest"
    by (simp add: training_manifest_def contract lock_code_def file_sha_def read_stored_def training_outputs_def ex_env_fields assms(4) v_def)
  have "store_training ex_training c data ''bytes'' ex_scores preprocessing own draft s = (Inr ?r, v(?d ''training_manifest.json'' \<mapsto> Document manifest))"
    using artifacts(1) manifest unfolding v_def u_def
    by (simp add: store_training_def Let_def ex_env_fields assms(3,4) bindS_def make_dir_def write_new_def write_text_def modifyS_def
        liftS_def reading_def retS_def in_dir_def free same check_def schema training_outputs_def)
  moreover have "ex_adds n s (v(?d ''training_manifest.json'' \<mapsto> Document manifest))"
    by (auto simp: ex_adds_def v_def u_def)
  ultimately show ?thesis using artifacts(2) by blast
qed

lemma ex_root: "candidate_root ex_config n = Abs [''a'', ''candidates'', n]"
  by (simp add: candidate_root_def ex_config_fields)

lemma ex_published:
  assumes "ex_data data" and "ex_free n s" and "tp_artifact_dir c = Abs [''a'', ''candidates'', n]"
    and "tp_report_prefix c = Abs [''a'', ''candidate_reports'', n]" and "map_of own ''training'' = Some v" and "map_of own ''artifacts'' = None"
  shows "\<exists>draft. training_report ex_training c data p q [] own s = Inr draft \<and>
    (\<exists>r t. store_training ex_training c data ''bytes'' ex_scores preprocessing entries draft s = (Inr r, t) \<and> ex_adds n s t \<and>
       ex_result data r \<and> py_item r ''training'' = Inr v)"
proof -
  obtain draft where draft: "training_report ex_training c data p q [] own s = Inr draft"
    "map_of draft ''input_sha256'' = Some (input_hashes data)" "map_of draft ''validation_metrics'' = Some ex_metrics"
    "map_of draft ''train_metrics'' = Some ex_metrics" "\<exists>v. map_of draft ''dataset_splits'' = Some v"
    "map_of draft ''training'' = Some v" "map_of draft ''artifacts'' = None"
    using ex_report [OF assms(1), of c p q own s] assms(5,6) by auto
  obtain artifacts t where t: "store_training ex_training c data ''bytes'' ex_scores preprocessing entries draft s =
      (Inr (PyDict (draft @ [(''artifacts'', PyDict artifacts)])), t)" "ex_adds n s t"
    "path_items (PyDict artifacts) [''pipeline.joblib'', ''sha256''] = Inr (PyStr ''bytes'')"
    using ex_stored [OF assms(1-4)] by blast
  have "ex_result data (PyDict (draft @ [(''artifacts'', PyDict artifacts)]))"
    using draft(2-7) t(3) by (auto simp: ex_result_def map_add_def lookupE_def)
  with draft(1,6) t(1,2) show ?thesis by (auto simp: map_add_def)
qed

lemma ex_fits:
  "both_scores ex_lr_fit data = Inr (ex_scores, ex_scores)" "both_scores ex_rf_fit data = Inr (ex_scores, ex_scores)"
  "ft_bytes ex_lr_fit = ''bytes''" "ft_bytes ex_rf_fit = ''bytes''" "lf_warnings ex_lr_fit = []"
  "\<exists>v. rf_training ex_training ex_rf_fit = Inr v" "\<exists>v. feature_importances ex_rf_fit = Inr v"
  by (simp_all add: both_scores_def ex_lr_fit_def ex_rf_fit_def check_def rf_training_def Let_def feature_importances_def MESSAGE_FEATURE_ORDER_def)

text \<open>Where the training of a candidate reads and writes.\<close>

definition ex_places :: "string \<Rightarrow> 'a training_paths_scheme \<Rightarrow> bool" where
  "ex_places n c \<longleftrightarrow> tp_dataset c = ''d'' \<and> tp_dataset_dir c = hold_dir \<and> tp_artifact_dir c = Abs [''a'', ''candidates'', n] \<and>
     tp_report_prefix c = Abs [''a'', ''candidate_reports'', n]"

lemma ex_start:
  assumes "ex_data data" and "ex_free n s" and "dataset_kept s" and "ex_places n c"
  shows "training_data ex_training c s = Inr data" and "check_training_locations ex_training s c = Inr ()"
  using assms by (simp_all add: training_data_def ex_env_fields ex_data_def ex_places_def check_training_locations_def training_outputs_def
      check_def ex_free_def)

lemma ex_train_lr:
  assumes "ex_data data" and "ex_free n s" and "dataset_kept s" and "ex_places n c"
  shows "\<exists>r t. train_lr ex_training c s = (Inr r, t) \<and> ex_adds n s t \<and> ex_result data r \<and>
    path_items r [''training'', ''convergence'', ''converged''] = Inr (PyBool True)"
proof -
  let ?own = "[(''experiment'', PyStr ''operational_logistic_regression_fixed_baseline''), (''config'', lr_document ex_files c),
        (''training'', lr_training ex_training c ex_lr_fit), (''learned_parameters'', learned_parameters ex_lr_fit)]"
  let ?scaler = "PyDict [(''status'', PyStr ''fitted''), (''fit_scope'', PyStr ''train_only''), (''kind'', PyStr ''StandardScaler''),
          (''stored_in'', PyStr ''pipeline.joblib:scaler'')]"
  obtain draft r t where "training_report ex_training c data ex_scores ex_scores [] ?own s = Inr draft"
    "store_training ex_training c data ''bytes'' ex_scores ?scaler [(''converged'', PyBool True)] draft s = (Inr r, t)" "ex_adds n s t"
    "ex_result data r" "py_item r ''training'' = Inr (lr_training ex_training c ex_lr_fit)"
    using ex_published [OF assms(1,2), of c ?own "lr_training ex_training c ex_lr_fit" ex_scores ex_scores ?scaler "[(''converged'', PyBool True)]"]
      assms(4) by (auto simp: ex_places_def)
  then show ?thesis
    by (auto simp: train_lr_def lr_training_def lookupE_def bindS_reading bindS_lift ex_start [OF assms] ex_training_fields ex_fits ex_env_fields ex_places_def)
qed

lemma ex_train_rf:
  assumes "ex_data data" and "ex_free n s" and "dataset_kept s" and "ex_places n c"
  shows "\<exists>r t. train_rf ex_training c s = (Inr r, t) \<and> ex_adds n s t \<and> ex_result data r"
proof -
  obtain v w where f: "rf_training ex_training ex_rf_fit = Inr v" "feature_importances ex_rf_fit = Inr w" using ex_fits(6,7) by blast
  let ?own = "[(''experiment'', PyStr ''operational_random_forest_fixed_baseline''), (''config'', rf_document ex_files c),
        (''model_parameters'', PyDict (model_parameters c)), (''preprocessing'', PyStr ''identity_no_scaler''), (''training'', v),
        (''constant_training_features'', py_strs (constant_features (od_train data))), (''feature_importances'', w)]"
  let ?identity = "PyDict [(''status'', PyStr ''not_required''), (''fit_scope'', PyStr ''not_applicable''), (''kind'', PyStr ''identity''),
          (''stored_in'', PyStr ''pipeline.joblib'')]"
  obtain draft r t where "training_report ex_training c data ex_scores ex_scores [] ?own s = Inr draft"
    "store_training ex_training c data ''bytes'' ex_scores ?identity [] draft s = (Inr r, t)" "ex_adds n s t" "ex_result data r"
    using ex_published [OF assms(1,2), of c ?own v ex_scores ex_scores ?identity "[]"] assms(4) by (auto simp: ex_places_def)
  then show ?thesis
    by (auto simp: train_rf_def bindS_reading bindS_lift ex_start [OF assms] ex_training_fields ex_fits f ex_env_fields ex_places_def)
qed

lemma ex_trained:
  assumes "ex_data data" and "ex_free (candidate_name m) s" and "dataset_kept s" and "m \<in> set ex_candidates"
  shows "\<exists>r t. train_candidate ex_env ex_config m s = (Inr r, t) \<and> ex_adds (candidate_name m) s t \<and> ex_result data r \<and>
    acceptable m r = Inr (PyBool True)"
proof -
  consider (rf) "m = ForestCandidate ''rf'' 2 None" | (lr) "m = LogisticCandidate ''lr'' (Fin 1)"
    using assms(4) by (auto simp: ex_candidates_def)
  then show ?thesis
  proof cases
    case rf
    then show ?thesis
      using assms(1-3) by (auto simp: train_candidate_def Let_def ex_env_fields ex_config_fields ex_root acceptable_def kind_of_def
          ex_places_def intro!: ex_train_rf)
  next
    case lr
    then show ?thesis
      using assms(1-3) by (auto simp: train_candidate_def Let_def ex_env_fields ex_config_fields ex_root acceptable_def kind_of_def
          ex_places_def simp del: path_items.simps intro!: ex_train_lr)
  qed
qed

section \<open>The grid\<close>

text \<open>The trial of a candidate: eligible, with the values that are compared.\<close>

definition ex_trial :: "string \<Rightarrow> py \<Rightarrow> bool" where
  "ex_trial n t \<longleftrightarrow> py_item t ''candidate_id'' = Inr (PyStr n) \<and> py_item t ''threshold'' = Inr (PyFloat (Fin (1 / 2))) \<and>
     trial_eligibility ex_rule t = Inr [] \<and>
     trial_key t = Inr [PyFloat (Fin (- 1)), PyFloat (Fin (- 1)), PyFloat (Fin 0), PyStr n, PyFloat (Fin (1 / 2))]"

lemma ex_chosen: "ex_trial n t \<Longrightarrow> choose_eligible ex_rule [t] = Inr (Some t)"
  by (simp add: ex_trial_def choose_eligible_def choose_by_def filterE_def min_by_def min_pass_def)

text \<open>Both trials are eligible with equal metrics; \<open>lr\<close> comes before \<open>rf\<close>.\<close>

lemma ex_choice: "ex_trial ''rf'' t \<Longrightarrow> ex_trial ''lr'' u \<Longrightarrow> choose_eligible ex_rule [t, u] = Inr (Some u)"
  by (simp add: ex_trial_def choose_eligible_def choose_by_def filterE_def min_by_def min_pass_def)

lemma ex_grid_trial:
  assumes "ex_data data"
  shows "\<exists>t. grid_trial ex_env ex_config data m (PyBool True) ex_scores (Fin (1 / 2)) = Inr t \<and> ex_trial (candidate_name m) t"
proof -
  have y: "op_y (od_validation data) = [0, 1]" using assms by (simp add: ex_data_def)
  have e: "eligibility_reasons ex_metrics True ex_rule = Inr []"
    by (simp add: eligibility_reasons_def not_a_rate_def ex_metrics ex_rule_def flt_def py_gt_def)
  show ?thesis
    by (simp add: grid_trial_def Let_def ex_env_fields ex_config_fields y ex_scored e ex_trial_def trial_eligibility_def trial_key_def
        lookupE_def ex_metrics)
qed

lemma ex_fitted:
  assumes "ex_data data" and "ex_free (candidate_name m) s" and "dataset_kept s" and "m \<in> set ex_candidates"
  shows "\<exists>r t. fit_candidate ex_env ex_config data m s = (Inr (r, ex_scores), t) \<and> ex_adds (candidate_name m) s t \<and> ex_result data r \<and>
    acceptable m r = Inr (PyBool True)"
proof -
  obtain r t where t: "train_candidate ex_env ex_config m s = (Inr r, t)" "ex_adds (candidate_name m) s t" "ex_result data r"
    "acceptable m r = Inr (PyBool True)" using ex_trained [OF assms] by blast
  have stored: "t (Abs [''a'', ''candidates'', candidate_name m, ''pipeline.joblib'']) = Some (Content ''bytes'')"
    using t(2) by (simp add: ex_adds_def)
  have y: "op_y (od_validation data) = [0, 1]" "py_eq (input_hashes data) (input_hashes data)" using assms(1) by (simp_all add: ex_data_def)
  have "fit_candidate ex_env ex_config data m s = (Inr (r, ex_scores), t)"
    using t(1,3) unfolding ex_result_def
    by (simp add: fit_candidate_def Let_def ex_env_fields ex_root in_dir_def bindS_def liftS_def reading_def retS_def read_stored_def stored
        ex_file_env rejectE_def item_ne_def path_ne_def y ex_scored ex_metrics(1) del: path_items.simps)
  with t(2-4) show ?thesis by blast
qed

lemma ex_candidate:
  assumes "ex_data data" and "ex_free (candidate_name m) s" and "dataset_kept s" and "m \<in> set ex_candidates"
  shows "\<exists>trial entry r t. run_candidate ex_env ex_config data g m s =
      (Inr \<lparr>gd_trials = gd_trials g @ [trial], gd_entries = gd_entries g @ [entry],
        gd_scores = dict_set (candidate_name m) ex_scores (gd_scores g), gd_last = Some r\<rparr>, t) \<and>
    ex_adds (candidate_name m) s t \<and> ex_trial (candidate_name m) trial \<and> ex_result data r"
proof -
  obtain trial where trial: "grid_trial ex_env ex_config data m (PyBool True) ex_scores (Fin (1 / 2)) = Inr trial"
    "ex_trial (candidate_name m) trial" using ex_grid_trial [OF assms(1)] by blast
  obtain r t where f: "fit_candidate ex_env ex_config data m s = (Inr (r, ex_scores), t)" "ex_adds (candidate_name m) s t" "ex_result data r"
    "acceptable m r = Inr (PyBool True)" using ex_fitted [OF assms] by blast
  have "\<exists>entry. candidate_entry m (PyBool True) r (Some trial) = Inr entry"
    using f(3) unfolding ex_result_def by (auto simp: candidate_entry_def simp del: path_items.simps)
  then obtain entry where e: "candidate_entry m (PyBool True) r (Some trial) = Inr entry" by blast
  show ?thesis
    using trial(2) f(2,3)
    by (auto simp: run_candidate_def bindS_def f(1,4) ex_config_fields trial(1) ex_chosen [OF trial(2)] e liftS_def retS_def)
qed

section \<open>The run\<close>

lemma ex_finish:
  assumes "ex_data data" and "ex_trial ''rf'' t" and "ex_trial ''lr'' t'" and "gd_trials g = [t, t']"
    and "gd_scores g = [(''rf'', ex_scores), (''lr'', ex_scores)]" and "gd_last g = Some r" and "ex_result data r"
    and "w (Abs [''a'', ''candidates'', ''lr'', ''pipeline.joblib'']) = Some (Content ''bytes'')"
    and "\<And>p. w (Abs (''q'' # p)) = None" and "\<And>x. x \<noteq> ''protocol_lock.json'' \<Longrightarrow> w (Abs [''a'', x]) = None"
  shows "\<exists>report s. finish_experiment ex_env ex_config data h g w = (Inr report, s)"
proof -
  have id: "py_item t' ''candidate_id'' = Inr (PyStr ''lr'')" "py_item t' ''threshold'' = Inr (PyFloat (Fin (1 / 2)))"
    using assms(3) by (simp_all add: ex_trial_def)
  note contract = ex_contract [OF assms(1)]
  obtain splits where splits: "py_item r ''dataset_splits'' = Inr splits" using assms(7) by (auto simp: ex_result_def)
  obtain files where files: "selected_files ex_env ex_config t' w = Inr files" "map_of (rev files) ''status'' = None"
    by (simp add: selected_files_def Let_def str_item_def id ex_env_fields ex_root in_dir_def file_sha_def read_stored_def assms(8) ex_file_env)
  obtain selection where selection: "selection_document ex_env ex_config data h [t, t'] (Some t') w = Inr selection"
    "\<exists>status. py_item selection ''status'' = Inr status"
    by (simp add: selection_document_def contract files lookupE_def dict_get_update)
  obtain table where table: "selected_predictions data [(''rf'', ex_scores), (''lr'', ex_scores)] t' = Inr table"
    by (simp add: selected_predictions_def str_item_def id lookupE_def threshold_value_def)
  have outputs: "experiment_outputs ex_env ex_config = [Abs [''q'', ''.json''], Abs [''q'', ''.md'']]"
    by (simp add: experiment_outputs_def ex_env_fields ex_config_fields)
  obtain report where report: "\<And>s. experiment_report ex_env ex_config data h g selection [] s = Inr report"
    by (simp add: experiment_report_def Let_def contract assms(6) splits ex_env_fields code_hashes_def)
  show ?thesis
    using selection(2)
    by (auto simp: finish_experiment_def Let_def liftS_def assms(4,5) ex_config_fields ex_choice [OF assms(2,3)] selection(1) table
        bindS_def modifyS_def write_new_def write_text_def in_dir_def assms(9,10) inventory_of_def ex_listed_def ex_env_fields report outputs
        experiment_manifest_def lock_code_def file_sha_def read_stored_def retS_def reading_def)
qed

text \<open>The store once the protocol is locked.\<close>

definition ex_locked :: "op_data \<Rightarrow> store" where
  "ex_locked data = ex_store(Abs [''a''] \<mapsto> Folder, Abs [''a'', ''protocol_lock.json''] \<mapsto> Document (experiment_lock ex_env ex_config data ''p''))"

lemma ex_store_free: "ex_store (Abs (''a'' # p)) = None" "ex_store (Abs (''q'' # p)) = None"
  by (simp_all add: ex_store_def loaded_names_def in_dir_def hold_dir_def)

lemma ex_locked: "dataset_kept (ex_locked data)" "ex_free n (ex_locked data)" "ex_locked data (Abs (''q'' # p)) = None"
    "x \<noteq> ''protocol_lock.json'' \<Longrightarrow> ex_locked data (Abs [''a'', x]) = None"
    "ex_locked data (Abs [''a'', ''protocol_lock.json'']) = Some (Document (experiment_lock ex_env ex_config data ''p''))"
  unfolding ex_locked_def
  by (intro dataset_kept_upd ex_store_kept; auto) (auto simp: ex_free_def ex_store_free)

lemma ex_adds_kept:
  assumes "ex_adds n s t"
  shows "dataset_kept s \<Longrightarrow> dataset_kept t" "n \<noteq> k \<Longrightarrow> ex_free k s \<Longrightarrow> ex_free k t" "t (Abs (''q'' # p)) = s (Abs (''q'' # p))"
    "t (Abs [''a'', x]) = s (Abs [''a'', x])" "t (Abs [''a'', ''candidates'', n, ''pipeline.joblib'']) = Some (Content ''bytes'')"
  using assms by (auto simp: ex_adds_def dataset_kept_def ex_free_def in_dir_def hold_dir_def)

lemma ex_grid:
  assumes "ex_data data"
  shows "\<exists>g t t' r w. foldA (run_candidate ex_env ex_config data) \<lparr>gd_trials = [], gd_entries = [], gd_scores = [], gd_last = None\<rparr>
      ex_candidates (ex_locked data) = (Inr g, w) \<and> gd_trials g = [t, t'] \<and> gd_scores g = [(''rf'', ex_scores), (''lr'', ex_scores)] \<and>
    gd_last g = Some r \<and> ex_result data r \<and> ex_trial ''rf'' t \<and> ex_trial ''lr'' t' \<and>
    (\<exists>u. ex_adds ''rf'' (ex_locked data) u \<and> ex_adds ''lr'' u w)"
proof -
  let ?lr = "LogisticCandidate ''lr'' (Fin 1)" and ?rf = "ForestCandidate ''rf'' 2 None"
  have c: "ex_candidates = [?rf, ?lr]" "?rf \<in> set ex_candidates" "?lr \<in> set ex_candidates" by (simp_all add: ex_candidates_def)
  let ?g = "\<lparr>gd_trials = [], gd_entries = [], gd_scores = [], gd_last = None\<rparr>"
  obtain t entry r u where rf: "run_candidate ex_env ex_config data ?g ?rf (ex_locked data) =
      (Inr \<lparr>gd_trials = [t], gd_entries = [entry], gd_scores = [(''rf'', ex_scores)], gd_last = Some r\<rparr>, u)"
    "ex_adds ''rf'' (ex_locked data) u" "ex_trial ''rf'' t"
    using ex_candidate [where m = ?rf and s = "ex_locked data" and g = ?g, OF assms ex_locked(2,1) c(2)] by (auto simp: dict_set_def)
  let ?h = "\<lparr>gd_trials = [t], gd_entries = [entry], gd_scores = [(''rf'', ex_scores)], gd_last = Some r\<rparr>"
  have "dataset_kept u" "ex_free (candidate_name ?lr) u" using ex_adds_kept(1,2) [OF rf(2)] ex_locked(1,2) by auto
  then obtain t' entry' r' w where lr: "run_candidate ex_env ex_config data ?h ?lr u =
      (Inr \<lparr>gd_trials = [t, t'], gd_entries = [entry, entry'], gd_scores = [(''rf'', ex_scores), (''lr'', ex_scores)], gd_last = Some r'\<rparr>, w)"
    "ex_adds ''lr'' u w" "ex_trial ''lr'' t'" "ex_result data r'"
    using ex_candidate [OF assms _ _ c(3), of u ?h] by (auto simp: dict_set_def)
  show ?thesis
    using rf(2,3) lr(2-4) by (auto simp: c(1) bindS_def rf(1) lr(1) retS_def)
qed

lemma ex_run: "\<exists>report s. run_experiment ex_env ex_config ex_store = (Inr report, s)"
proof -
  obtain data where data: "ex_data data" using ex_data by blast
  obtain g t t' r u w where grid: "foldA (run_candidate ex_env ex_config data) \<lparr>gd_trials = [], gd_entries = [], gd_scores = [], gd_last = None\<rparr>
      ex_candidates (ex_locked data) = (Inr g, w)" and g: "ex_trial ''rf'' t" "ex_trial ''lr'' t'" "gd_trials g = [t, t']"
    "gd_scores g = [(''rf'', ex_scores), (''lr'', ex_scores)]" "gd_last g = Some r" "ex_result data r"
    and adds: "ex_adds ''rf'' (ex_locked data) u" "ex_adds ''lr'' u w"
    using ex_grid [OF data] by blast
  note kept = ex_adds_kept [OF adds(2)] ex_adds_kept [OF adds(1)]
  have w: "dataset_kept w" "w (Abs (''q'' # p)) = None" "x \<noteq> ''protocol_lock.json'' \<Longrightarrow> w (Abs [''a'', x]) = None"
    "w (Abs [''a'', ''protocol_lock.json'']) = Some (Document (experiment_lock ex_env ex_config data ''p''))" for p x
    using kept ex_locked by auto
  obtain report s where finish: "finish_experiment ex_env ex_config data ''p'' g w = (Inr report, s)"
    using ex_finish [OF data g kept(5) w(2,3)] by blast
  have read: "experiment_data ex_env ex_config v = Inr data" if "dataset_kept v" for v
    using data that by (simp add: experiment_data_def ex_env_fields ex_config_fields ex_data_def)
  have free: "check_experiment_locations ex_env ex_store ex_config = Inr ()"
    by (simp add: check_experiment_locations_def Let_def experiment_outputs_def ex_env_fields ex_config_fields ex_store_free ex_file_env check_def
        hold_dir_def)
  have before: "bindS (make_dir ex_files (Abs [''a''])) (\<lambda>_. bindS (write_new ex_files (Abs [''a'', ''protocol_lock.json''])
      (experiment_lock ex_env ex_config data ''p'')) f) ex_store = f () (ex_locked data)" for f :: "unit \<Rightarrow> (store, py) act"
    by (simp add: bindS_def make_dir_def write_new_def ex_store_free ex_locked_def)
  have after: "experiment_kept ex_env ex_config data (Abs [''a'', ''protocol_lock.json'']) ''doc'' w = Inr ()"
    using data by (simp add: experiment_kept_def read w check_def ex_env_fields file_sha_def read_stored_def ex_file_env ex_data_def)
  have "run_experiment ex_env ex_config ex_store = (Inr report, s)"
    by (simp add: run_experiment_def Let_def bindS_lift bindS_reading ex_env_fields ex_config_fields free read ex_store_kept in_dir_def before
        file_sha_def read_stored_def ex_locked(5) ex_file_env bindS_def [where m = "foldA _ _ _"] grid after finish)
  then show ?thesis by blast
qed


lemma candidate_metrics_reproduced_witness:
  "\<exists>s r t content. train_candidate ex_env ex_config (LogisticCandidate ''lr'' (Fin 1)) s = (Inr r, t) \<and>
     t (in_dir (candidate_root ex_config ''lr'') ''pipeline.joblib'') = Some (Content content)"
proof -
  obtain data where data: "ex_data data" using ex_data by blast
  have m: "LogisticCandidate ''lr'' (Fin 1) \<in> set ex_candidates" by (simp add: ex_candidates_def)
  obtain r t where run: "train_candidate ex_env ex_config (LogisticCandidate ''lr'' (Fin 1)) (ex_locked data) = (Inr r, t)"
    using ex_trained [OF data ex_locked(2,1) m] by blast
  from candidate_metrics_reproduced [OF run] run show ?thesis by auto
qed

end
