(* ===== verification/Spec2Isabelle.thy ===== *)
theory Spec2Isabelle
  imports Approved_Bundle Inference_Api Quality_Example Operational_Example Sequence_Example Prefix_Example Campaign_Example Batch_Example Batch_Prepare
    Frozen_Audit Final_Example Validation_Example
begin

text \<open>
  A model of the Python system under \<open>src/AI\<close>: a game server (C++, not modelled) sends
  observations of its chat messages to an HTTP service that stores them or judges them; a
  generator drives the server with planned traffic; the collected records are audited and built
  into datasets; a random forest is selected, its cost measured and its policy confirmed on a test
  set that is opened for one policy only; the approved bundle is what the service loads.

  \<^bold>\<open>How the program is represented.\<close>
  A Python exception is a value (\<open>exn\<close> in \<open>Py_Prelude\<close>) and a fallible function returns
  \<open>exn + 'a\<close> (\<open>'a res\<close>), sequenced by \<open>bindE\<close>; code that changes state is a function
  \<open>'s \<Rightarrow> ('a res) \<times> 's\<close> (\<open>('s, 'a) act\<close>), sequenced by \<open>bindS\<close>, so that an exception keeps
  the state reached. Conditions \<open>a or b or c\<close> whose parts can raise are lists (\<open>anyE\<close>,
  \<open>rejectE\<close>) evaluated in order. JSON values and \<open>model_dump\<close> results are \<open>py\<close>; a dict is an
  association list in insertion order. Floats are exact rationals with the three special values
  (\<open>Py_Float\<close>); arithmetic rounds to nearest even and overflows as binary64 does, and the sign of
  a zero is not kept. Python integers are \<open>int\<close>; bytes on the wire are 8-bit words (\<open>Wire\<close>).
  Error messages are short English tags in place of the Korean texts, and the entries of reports
  that hold only an explanation are left out.
  Code that is not in the repository is an argument: records of functions such as \<open>load_env\<close>,
  \<open>file_env\<close>, \<open>metric_lib\<close>, \<open>cost_lib\<close> and \<open>test_env\<close> stand for SHA-256, the JSON grammar, parsers of
  numbers and of CSV, scikit-learn, joblib, numpy archives, the clock and child processes. What a property needs of them is a
  hypothesis of it (for instance \<open>sound_scores\<close>: counts and recall are not negative).

  \<^bold>\<open>Shared vocabulary.\<close>
  \<open>Py_Prelude\<close> (exceptions, loops over fallible bodies, dicts, slices, grouping, \<open>act\<close>),
  \<open>Py_Float\<close>, \<open>Py_Value\<close> (dynamic values, equality, access), \<open>Py_Text\<close> (decimal text),
  \<open>Json_Text\<close> (the strict JSON reading: no repeated keys, no constants for non-finite numbers), \<open>Transition\<close>
  (reachability, invariants, a terminating phase, as locales), \<open>Wire\<close>.

  \<^bold>\<open>The service\<close> (\<open>inference_api/\<close>, \<open>data_collection/collector.py\<close>).
  \<open>Feature_Contract\<close> is \<open>payload_validation.py\<close> with the contract document; \<open>Request_Model\<close> is
  \<open>schemas.py\<close> and \<open>feature_transformer.py\<close>: accepted requests are characterised, the vector of the
  online path equals that of the offline path, parsing inverts the dump. \<open>Collection_Config\<close> is
  \<open>data_collection/config.py\<close>. \<open>Jsonl_Collector\<close> is the queue and the writer thread as a step
  relation of the interleaved client and worker: every attempt is accounted for, the file is in
  order, a summary that says complete means a full file, a stop that returns true has flushed
  everything, and the writer ends after a stop. \<open>Inference_Api\<close> is \<open>main.py\<close>, \<open>model_service.py\<close>
  and \<open>rf_service.py\<close>: decisions follow the threshold, never fall back to another model, do not depend on the
  collector, and the limit of concurrent predictions is balanced in every reachable state.
  \<open>Approved_Bundle\<close> is \<open>approved_bundle.py\<close>: what is loaded is pinned by the configured hashes.

  \<^bold>\<open>Collection\<close> (\<open>data_collection/\<close>).
  \<open>Traffic\<close> and \<open>Traffic_Client\<close> are \<open>traffic.py\<close>: profiles, plans, frames with the expected
  replies, and the client that sends them; a passed session did what its plan says. \<open>Campaign\<close> and \<open>Capture\<close> are \<open>campaign.py\<close> and
  \<open>runtime.py\<close>: preparation pins every file, a passed capture is complete. \<open>Quality\<close>, \<open>Quality_Sound\<close>
  and \<open>Quality_Campaign\<close> are \<open>quality.py\<close>: what a passed audit has shown of the records.
  \<open>Campaign_Design\<close> (with \<open>Campaign_Design_Proofs\<close>) compiles the designs of \<open>augmentation.py\<close> and
  \<open>recovery_design.py\<close>; \<open>Batch\<close>, \<open>Batch_Prepare\<close>, \<open>Batch_Collect\<close> and \<open>Batch_Proofs\<close> are the batches of
  \<open>augmentation.py\<close> and \<open>recovery.py\<close>, whose outcome is recorded on every path; the locale
  \<open>batch_phases\<close> is interpreted for both kinds.

  \<^bold>\<open>Data\<close> (\<open>data_preparation/\<close>, \<open>training/operational_data.py\<close>).
  \<open>Dataset_Split\<close>, \<open>Dataset\<close> and \<open>Dataset_Build\<close> are \<open>operational_dataset.py\<close>: splits are partitions
  along whole blocks, and a built dataset is what its manifest says. \<open>Operational_Data\<close> is the
  loader for training, which opens no test file. \<open>Sequences\<close>, \<open>Sequences_Proofs\<close> and
  \<open>Sequence_Build\<close> are \<open>operational_sequences.py\<close>: windows look only at past messages of their own
  session. \<open>Prefix_Features\<close> is \<open>operational_prefix_features.py\<close>.

  \<^bold>\<open>Selection and confirmation\<close> (\<open>training/\<close>, \<open>evaluation/\<close>).
  \<open>Policy\<close> and \<open>Policy_Compare\<close> hold the metrics, the criteria and the choice of a policy
  (\<open>compare_operational_recovery.py\<close>, \<open>train_operational_logistic_regression.py\<close>,
  \<open>run_operational_validation_experiment.py\<close>); the chosen trial is acceptable and no acceptable
  trial precedes it. \<open>Training\<close> is \<open>train_model\<close> of \<open>train_operational_logistic_regression.py\<close> and
  \<open>train_operational_random_forest.py\<close> around the fit; \<open>Training_Proofs\<close> shows that the metrics it reports
  are those of the stored pipeline. \<open>Validation_Experiment\<close> is \<open>run_operational_validation_experiment.py\<close>:
  the locked grid of candidates and thresholds and the selection, which \<open>Validation_Proofs\<close> shows to
  be the best eligible trial of the grid. \<open>Recovery_Evidence\<close> is what \<open>run_operational_recovery_experiment.py\<close> verifies
  before it trains, with \<open>load_verified_model\<close> of \<open>compare_operational_baselines.py\<close> for the random
  forest. \<open>Holdout\<close> and \<open>Holdout_Proofs\<close> are \<open>operational_final_data.py\<close>: files are a map from paths to
  contents (\<open>store\<close>), and in every history of attempts a reserved test set stays with one policy.
  \<open>Cost_Gate\<close> and \<open>Cost_Run\<close> are \<open>run_operational_recovery_cost.py\<close> with the benchmark of
  \<open>run_operational_final_evaluation.py\<close>; \<open>Test_Run\<close> is \<open>run_operational_recovery_test.py\<close>.
  \<open>Verdict_Proofs\<close> joins the stages: what the cost stage locks the test stage accepts, and what the
  test stage approves the loader of the service does not refuse. \<open>Final_Selection\<close> and \<open>Final_Run\<close> are
  the evaluation of several models by \<open>run_operational_final_evaluation.py\<close>, from its configuration to
  the bundle and the report; \<open>Final_Proofs\<close> and \<open>Final_Confirm\<close> show that the candidate is the best
  of those within the criteria and that the test only confirms it. The locale \<open>ranked_choice\<close> of
  \<open>Policy\<close>, a minimum by key as a least rank, is interpreted for both selections. \<open>Frozen_Audit\<close> has the session
  diagnostics and the assigned campaigns of \<open>audit_frozen_operational_baseline.py\<close>.
  The theories named \<open>_Example\<close> hold concrete inputs at which the properties are applied.

  \<^bold>\<open>Bounds and termination.\<close>
  Loops are recursion on lists or ranges and need no fuel. Polling and the writer thread are step
  relations or lists of answers; that the writer ends is proved from a measure. Rounding uses a
  logarithm computed by a terminating recursion; integers up to \<open>2 ^ 64\<close> are shown to convert to
  finite floats.

  \<^bold>\<open>Not modelled.\<close>
  The C++ server. The fit of a model by scikit-learn is an argument; the programs around the fits of
  torch models and of the older baselines, and what follows from a fitted model's internals, are left
  out: the LSTM experiments, the logistic regression branch of \<open>load_verified_model\<close>, loading
  the fitted baseline in the frozen audit. The cost worker process and the environment variables it is started with. Report texts in Markdown and the
  analyses of stored predictions. Freezing the models of the final evaluation (\<open>freeze_models\<close>),
  whose results are part of the plan of \<open>Final_Run\<close>. Command line scripts, the
  UNSW-NB15 preprocessing, and the process that verifies the served model end to end. A crash of the
  process between two writes and the power of a file system to lose them are outside the model.
\<close>

end
